(* ===== verification/PS_Prelude.thy ===== *)
theory PS_Prelude
  imports Main "HOL-Library.Word" "HOL-Library.Signed_Division" "HOL-Library.Monad_Syntax"
begin

text \<open>
  Shared foundations of the PeerSwap development: the machine integers the Go code uses, the
  parts of Go's standard library it relies on (hex and decimal conversion, single-character
  string splitting and replacing, float64 rounding of integers), and the named collections the
  component proofs draw on.  Everything is executable.
\<close>

section \<open>Collections of lemmas\<close>

named_theorems go_simps \<open>unfolding rules of the small Go helpers\<close>
named_theorems frame_simps \<open>which fields an operation leaves alone\<close>

section \<open>Machine integers\<close>

text \<open>
  Go's \<open>int64\<close> and \<open>uint64\<close> are both 64-bit words; a signed reading is \<open>sint\<close>.  A Go conversion
  between the two keeps the bits, so it is the identity here.
\<close>

type_synonym byte = "8 word"
type_synonym u8 = "8 word"
type_synonym u32 = "32 word"
type_synonym u64 = "64 word"
type_synonym i64 = "64 word"

text \<open>Conversion \<open>uint64(x)\<close> of a \<open>uint32\<close>, and \<open>uint32(x)\<close> of a \<open>uint64\<close>.\<close>

definition u64_of_u32 :: "u32 \<Rightarrow> u64" where
  "u64_of_u32 x = ucast x"

definition u32_of_u64 :: "u64 \<Rightarrow> u32" where
  "u32_of_u64 x = ucast x"

lemma unat_u32_less: "unat (x :: u32) < 4294967296"
  using unsigned_less [of x, where 'a = nat] by simp

lemma unat_u64_less: "unat (x :: u64) < 18446744073709551616"
  using unsigned_less [of x, where 'a = nat] by simp

lemma unat_u64_of_u32 [simp]: "unat (u64_of_u32 x) = unat x"
  using unat_u32_less [of x]
  by (simp add: u64_of_u32_def unsigned_ucast_eq take_bit_nat_eq_self)

text \<open>Addition of two widened values cannot wrap.\<close>

lemma unat_add_widened [simp]:
  "unat (u64_of_u32 a + u64_of_u32 b) = unat a + unat b"
  using unat_u32_less [of a] unat_u32_less [of b]
  by (simp add: unat_word_ariths)

text \<open>Wrap-around of the multiplication by 1000 that turns satoshis into millisatoshis.\<close>

lemma unat_mult_1000:
  "unat (a * 1000 :: u64) = (unat a * 1000) mod 18446744073709551616"
  by (simp add: unat_word_ariths)

lemma mult_1000_exact:
  "unat (a :: u64) * 1000 < 18446744073709551616 \<Longrightarrow> unat (a * 1000) = unat a * 1000"
  by (simp add: unat_mult_1000)

section \<open>Decimal and hexadecimal text\<close>

text \<open>\<open>strconv.Itoa\<close> / the verb \<open>%d\<close>.\<close>

fun digits_base :: "nat \<Rightarrow> nat \<Rightarrow> nat list" where
  "digits_base b n = (if b \<le> 1 \<or> n < b then [n] else digits_base b (n div b) @ [n mod b])"

declare digits_base.simps [simp del]

definition digit_char :: "nat \<Rightarrow> char" where
  "digit_char d = char_of (if d < 10 then 48 + d else 87 + d)"

definition fmt_nat :: "nat \<Rightarrow> string" where
  "fmt_nat n = map digit_char (digits_base 10 n)"

definition fmt_int :: "int \<Rightarrow> string" where
  "fmt_int i = (if i < 0 then CHR ''-'' # fmt_nat (nat (- i)) else fmt_nat (nat i))"

definition fmt_u64 :: "u64 \<Rightarrow> string" where
  "fmt_u64 x = fmt_nat (unat x)"

definition fmt_u32 :: "u32 \<Rightarrow> string" where
  "fmt_u32 x = fmt_nat (unat x)"

definition fmt_i64 :: "i64 \<Rightarrow> string" where
  "fmt_i64 x = fmt_int (sint x)"

text \<open>\<open>strconv.FormatInt(n, 16)\<close>.\<close>

definition fmt_hex :: "int \<Rightarrow> string" where
  "fmt_hex i = (if i < 0 then CHR ''-'' # map digit_char (digits_base 16 (nat (- i)))
                else map digit_char (digits_base 16 (nat i)))"

text \<open>The value of a hexadecimal digit, upper or lower case (\<open>hex.fromHexChar\<close>).\<close>

definition from_hex_char :: "char \<Rightarrow> nat option" where
  "from_hex_char c = (let n = (of_char c :: nat) in
     if 48 \<le> n \<and> n \<le> 57 then Some (n - 48)
     else if 97 \<le> n \<and> n \<le> 102 then Some (n - 87)
     else if 65 \<le> n \<and> n \<le> 70 then Some (n - 55)
     else None)"

lemma of_char_digit_char: "d < 16 \<Longrightarrow> (of_char (digit_char d) :: nat) = (if d < 10 then 48 + d else 87 + d)"
  by (simp add: digit_char_def)

lemma from_hex_digit_char [simp]: "d < 16 \<Longrightarrow> from_hex_char (digit_char d) = Some d"
  by (auto simp: from_hex_char_def of_char_digit_char Let_def)

lemma from_hex_char_less: "from_hex_char c = Some d \<Longrightarrow> d < 16"
  by (auto simp: from_hex_char_def Let_def split: if_splits)

text \<open>
  The digits of a number read back as the number: \<open>digits_value\<close> is the value of a digit list
  read most significant digit first, as every base conversion of \<open>strconv\<close> reads it.
\<close>

definition digits_value :: "nat \<Rightarrow> nat list \<Rightarrow> nat" where
  "digits_value b ds = foldl (\<lambda>acc d. acc * b + d) 0 ds"

lemma digits_value_snoc [simp]: "digits_value b (ds @ [d]) = digits_value b ds * b + d"
  by (simp add: digits_value_def)

lemma digits_base_value: "1 < b \<Longrightarrow> digits_value b (digits_base b n) = n"
proof (induction b n rule: digits_base.induct)
  case (1 b n)
  then show ?case
    by (subst digits_base.simps) (auto simp: digits_value_def)
qed

lemma digits_base_small: "1 < b \<Longrightarrow> d \<in> set (digits_base b n) \<Longrightarrow> d < b"
proof (induction b n rule: digits_base.induct)
  case (1 b n)
  then show ?case
    by (subst (asm) digits_base.simps) (auto split: if_splits)
qed

lemma digits_base_nonempty [simp]: "digits_base b n \<noteq> []"
  by (subst digits_base.simps) simp

section \<open>Hexadecimal byte strings (\<open>encoding/hex\<close>)\<close>

definition hex_encode_byte :: "byte \<Rightarrow> string" where
  "hex_encode_byte b = [digit_char (unat b div 16), digit_char (unat b mod 16)]"

definition hex_EncodeToString :: "byte list \<Rightarrow> string" where
  "hex_EncodeToString bs = concat (map hex_encode_byte bs)"

text \<open>
  \<open>hex.DecodeString\<close> returns the bytes decoded before the first error together with the error:
  \<open>None\<close> when there is none.  An odd length is an error too, reported after an invalid character.
\<close>

datatype hex_error = HexInvalidByte char | HexErrLength

fun hex_DecodeString :: "string \<Rightarrow> byte list \<times> hex_error option" where
  "hex_DecodeString [] = ([], None)"
| "hex_DecodeString [c] =
     ([], Some (if from_hex_char c = None then HexInvalidByte c else HexErrLength))"
| "hex_DecodeString (c # d # s) =
     (case from_hex_char c of
        None \<Rightarrow> ([], Some (HexInvalidByte c))
      | Some a \<Rightarrow>
         (case from_hex_char d of
            None \<Rightarrow> ([], Some (HexInvalidByte d))
          | Some b \<Rightarrow> (case hex_DecodeString s of
               (bs, e) \<Rightarrow> (of_nat (a * 16 + b) # bs, e))))"

lemma unat_byte_less: "unat (b :: byte) < 256"
  using unsigned_less [of b, where 'a = nat] by simp

lemma hex_decode_encode [simp]: "hex_DecodeString (hex_EncodeToString bs) = (bs, None)"
proof (induction bs)
  case Nil
  then show ?case by (simp add: hex_EncodeToString_def)
next
  case (Cons b bs)
  have "unat b div 16 < 16" "unat b mod 16 < 16"
    using unat_byte_less [of b] by auto
  moreover have "unat b div 16 * 16 + unat b mod 16 = unat b" by simp
  ultimately show ?case
    using Cons by (simp add: hex_EncodeToString_def hex_encode_byte_def)
qed

lemma length_hex_EncodeToString [simp]: "length (hex_EncodeToString bs) = 2 * length bs"
  by (induction bs) (auto simp: hex_EncodeToString_def hex_encode_byte_def)

lemma hex_DecodeString_length:
  "hex_DecodeString s = (bs, None) \<Longrightarrow> length s = 2 * length bs"
  by (induction s arbitrary: bs rule: hex_DecodeString.induct)
    (auto split: option.splits prod.splits)

lemma hex_encode_inject [simp]: "hex_EncodeToString a = hex_EncodeToString b \<longleftrightarrow> a = b"
  by (metis hex_decode_encode prod.inject)

section \<open>Parsing numbers (\<open>strconv\<close>)\<close>

text \<open>
  \<open>strconv.ParseInt(s, base, 64)\<close> for a base up to 16: an optional sign, then at least one digit,
  and the value must fit an \<open>int64\<close>.  \<open>strconv.Atoi\<close> is the decimal case.
\<close>

definition digits_of :: "nat \<Rightarrow> string \<Rightarrow> nat list option" where
  "digits_of b s = (if s \<noteq> [] \<and> list_all (\<lambda>c. case from_hex_char c of None \<Rightarrow> False | Some d \<Rightarrow> d < b) s
     then Some (map (\<lambda>c. the (from_hex_char c)) s) else None)"

datatype num_error = NumErrSyntax | NumErrRange

definition parse_sign :: "string \<Rightarrow> bool \<times> string" where
  "parse_sign s = (case s of
     [] \<Rightarrow> (False, [])
   | c # r \<Rightarrow> if c = CHR ''-'' then (True, r) else if c = CHR ''+'' then (False, r) else (False, s))"

definition strconv_ParseInt :: "string \<Rightarrow> nat \<Rightarrow> num_error + int" where
  "strconv_ParseInt s b = (case parse_sign s of (neg, r) \<Rightarrow>
     (case digits_of b r of
        None \<Rightarrow> Inl NumErrSyntax
      | Some ds \<Rightarrow>
          (let v = int (digits_value b ds) in
           if neg then (if v \<le> 2 ^ 63 then Inr (- v) else Inl NumErrRange)
           else (if v < 2 ^ 63 then Inr v else Inl NumErrRange))))"

definition strconv_Atoi :: "string \<Rightarrow> num_error + int" where
  "strconv_Atoi s = strconv_ParseInt s 10"

lemma digits_of_map_digit_char:
  assumes "b \<le> 16" "ds \<noteq> []" "\<And>d. d \<in> set ds \<Longrightarrow> d < b"
  shows "digits_of b (map digit_char ds) = Some ds"
proof -
  have "\<And>d. d \<in> set ds \<Longrightarrow> from_hex_char (digit_char d) = Some d"
    using assms by (meson from_hex_digit_char order_less_le_trans)
  then show ?thesis
    using assms by (auto simp: digits_of_def list_all_iff intro: map_idI)
qed

lemma digit_char_not_sign: "d < 16 \<Longrightarrow> digit_char d \<noteq> CHR ''-'' \<and> digit_char d \<noteq> CHR ''+''"
  using from_hex_digit_char [of d] by (auto simp: from_hex_char_def)

lemma parse_sign_digits:
  assumes "ds \<noteq> []" "\<And>d. d \<in> set ds \<Longrightarrow> d < 16"
  shows "parse_sign (map digit_char ds) = (False, map digit_char ds)"
  using assms by (cases ds) (auto simp: parse_sign_def dest: digit_char_not_sign)

lemma ParseInt_digits:
  assumes "1 < b" "b \<le> 16" "int n < 2 ^ 63"
  shows "strconv_ParseInt (map digit_char (digits_base b n)) b = Inr (int n)"
proof -
  have small: "d < b" if "d \<in> set (digits_base b n)" for d
    using digits_base_small [OF assms(1) that] .
  then have "d < 16" if "d \<in> set (digits_base b n)" for d
    using that assms(2) by (meson order_less_le_trans)
  then show ?thesis
    using assms small digits_base_value [OF assms(1), of n]
    by (simp add: strconv_ParseInt_def parse_sign_digits digits_of_map_digit_char)
qed

section \<open>Strings\<close>

text \<open>\<open>strings.Split(s, sep)\<close> and \<open>strings.ReplaceAll(s, a, b)\<close> for one-character arguments.\<close>

fun strings_Split :: "char \<Rightarrow> string \<Rightarrow> string list" where
  "strings_Split sep [] = [[]]"
| "strings_Split sep (c # s) =
     (if c = sep then [] # strings_Split sep s
      else (case strings_Split sep s of [] \<Rightarrow> [[c]] | p # ps \<Rightarrow> (c # p) # ps))"

definition strings_ReplaceAll :: "string \<Rightarrow> char \<Rightarrow> char \<Rightarrow> string" where
  "strings_ReplaceAll s a b = map (\<lambda>c. if c = a then b else c) s"

lemma strings_Split_nonempty [simp]: "strings_Split sep s \<noteq> []"
  by (induction s) (auto split: list.splits)

lemma length_strings_Split: "length (strings_Split sep s) = Suc (count_list s sep)"
  by (induction s) (auto split: list.splits)

section \<open>float64 arithmetic on integers\<close>

text \<open>
  Rounding a natural number to the nearest \<open>float64\<close> (53-bit significand, ties to even), exact
  below \<open>2 ^ 53\<close>.  \<open>f64_shift\<close> is the number of low bits that the significand cannot hold.
\<close>

fun f64_shift :: "nat \<Rightarrow> nat" where
  "f64_shift n = (if n < 2 ^ 53 then 0 else Suc (f64_shift (n div 2)))"

declare f64_shift.simps [simp del]

definition f64_round :: "nat \<Rightarrow> nat" where
  "f64_round n = (let k = f64_shift n; q = n div 2 ^ k; r = n mod 2 ^ k in
     if k = 0 then n
     else if 2 * r < 2 ^ k \<or> (2 * r = 2 ^ k \<and> even q) then q * 2 ^ k
     else (q + 1) * 2 ^ k)"

lemma f64_round_exact [simp]: "n < 9007199254740992 \<Longrightarrow> f64_round n = n"
  by (simp add: f64_round_def f64_shift.simps [of n])

section \<open>Results\<close>

text \<open>
  A call that can fail returns \<open>Inl\<close> the error or \<open>Inr\<close> the value.  A panic of the Go runtime (a
  nil dereference) is \<open>None\<close> at the level of the whole operation.
\<close>

fun isl_err :: "'e + 'a \<Rightarrow> bool" where
  "isl_err (Inl _) = True"
| "isl_err (Inr _) = False"

lemma nth_upd: "xs[i := x] ! j = (if i = j \<and> i < length xs then x else xs ! j)"
  by (cases "i < length xs") (auto simp: list_update_beyond)

lemma bind_eq_Some_iff: "Option.bind m f = Some y \<longleftrightarrow> (\<exists>x. m = Some x \<and> f x = Some y)"
  by (cases m) auto

end
