(* ===== verification/PS_Errors.thy ===== *)
theory PS_Errors
  imports PS_Prelude
begin

text \<open>
  The error values of the program.  Go compares sentinel errors by identity
  (\<open>err == ErrEventRejected\<close>) and reads their text with \<open>Error()\<close>; so an error is a constructor
  here and \<open>Error\<close> is its text.  \<open>ErrText\<close> stands for an error made with \<open>errors.New\<close> or
  \<open>fmt.Errorf\<close> and for the errors external services return; \<open>ErrWrap\<close> for \<open>fmt.Errorf("p: %w", e)\<close>.
\<close>

datatype go_error =
    ErrText string
  | ErrWrap string go_error
  | ErrHex hex_error
  | ErrNum string num_error
    \<comment> \<open>swap/fsm.go\<close>
  | ErrEventRejected
  | ErrDataNotAvailable
  | ErrFsmConfig
    \<comment> \<open>swap/store.go\<close>
  | ErrDoesNotExist
  | ErrAlreadyExists
    \<comment> \<open>swap/messages.go\<close>
  | AlreadyExistsError
  | InvalidNetworkError
  | InvalidScidError
  | AssetOrNetworkSetError
  | InvalidLengthErr string nat nat
    \<comment> \<open>swap/service.go\<close>
  | ErrSwapDoesNotExist
  | ErrMinimumSwapSize u64
  | PeerNotAllowedError string
  | PeerIsSuspiciousError string
  | ErrReceivedMessageFromUnexpectedPeer string string
  | ActiveSwapError string string
  | WrongAssetError string
    \<comment> \<open>messages/errors.go\<close>
  | ErrNotPeerswapCustomMessage string
  | ErrAlreadyHasASender string
    \<comment> \<open>premium/store.go\<close>
  | ErrRateNotFound
    \<comment> \<open>policy/policy.go\<close>
  | ErrNoPolicyFile
  | ErrCreatePolicy string
  | ErrReloadPolicy string
  | ErrNotAValidPublicKey string
    \<comment> \<open>version/service.go, version/store.go\<close>
  | ActiveSwapsError string
  | ErrVersionDoesNotExist
    \<comment> \<open>txwatcher/blockchainRpc.go\<close>
  | ErrNotFound
  | ErrUnconfirmed
  | ErrOutOfSync
  | ErrBlockHashMismatch
  | ErrContextCanceled
    \<comment> \<open>peersync/store.go\<close>
  | ErrPeerNotFound
  | ErrPollBucketMissing

definition hex_error_text :: "hex_error \<Rightarrow> string" where
  "hex_error_text e = (case e of
     HexInvalidByte c \<Rightarrow> ''encoding/hex: invalid byte: '' @ [c]
   | HexErrLength \<Rightarrow> ''encoding/hex: odd length hex string'')"

definition num_error_text :: "num_error \<Rightarrow> string" where
  "num_error_text e = (case e of
     NumErrSyntax \<Rightarrow> ''invalid syntax'' | NumErrRange \<Rightarrow> ''value out of range'')"

fun Error :: "go_error \<Rightarrow> string" where
  "Error (ErrText s) = s"
| "Error (ErrWrap p e) = p @ '': '' @ Error e"
| "Error (ErrHex e) = hex_error_text e"
| "Error (ErrNum s e) = ''strconv: parsing '' @ s @ '': '' @ num_error_text e"
| "Error ErrEventRejected = ''event rejected''"
| "Error ErrDataNotAvailable = ''data not in store''"
| "Error ErrFsmConfig = ''fsm config invalid''"
| "Error ErrDoesNotExist = ''does not exist''"
| "Error ErrAlreadyExists = ''swap already exist''"
| "Error AlreadyExistsError = ''Message already exists''"
| "Error InvalidNetworkError = ''Invalid network''"
| "Error InvalidScidError = ''Invalid Scid''"
| "Error AssetOrNetworkSetError = ''Either asset or network must be set''"
| "Error (InvalidLengthErr p e a) =
     ''Param '' @ p @ '' is of invalid length expected: '' @ fmt_nat e @ '', actual '' @ fmt_nat a"
| "Error ErrSwapDoesNotExist = ''swap does not exist''"
| "Error (ErrMinimumSwapSize u) = ''a minimum swap amount of '' @ fmt_u64 u @ '' msat is required''"
| "Error (PeerNotAllowedError p) = ''peer '' @ p @ '' is not on allowlist''"
| "Error (PeerIsSuspiciousError p) = ''peer '' @ p @ '' is on suspicious peer list''"
| "Error (ErrReceivedMessageFromUnexpectedPeer p i) =
     ''received a message from an unexpected peer, peerId: '' @ p @ '', swapId: '' @ i"
| "Error (ActiveSwapError c i) = ''already has an active swap on channel '' @ c @ '': '' @ i"
| "Error (WrongAssetError a) = ''unallowed asset: '' @ a"
| "Error (ErrNotPeerswapCustomMessage t) = ''message type '' @ t @ '' is not a peerswap custom message''"
| "Error (ErrAlreadyHasASender i) = ''already has a sender with id '' @ i"
| "Error ErrRateNotFound = ''Rate not found''"
| "Error ErrNoPolicyFile = ''no policy file given''"
| "Error (ErrCreatePolicy s) = ''policy could not be created: '' @ s"
| "Error (ErrReloadPolicy s) = ''policy could not be reloaded: '' @ s"
| "Error (ErrNotAValidPublicKey s) = s @ '' is not a valid public key''"
| "Error (ActiveSwapsError v) =
     ''Can't upgrade because of active swaps. Please downgrade peerswap to version '' @ v"
| "Error ErrVersionDoesNotExist = ''does not exist''"
| "Error ErrNotFound = ''not found''"
| "Error ErrUnconfirmed = ''unconfirmed''"
| "Error ErrOutOfSync = ''out of sync''"
| "Error ErrBlockHashMismatch = ''block hash mismatch''"
| "Error ErrContextCanceled = ''context canceled''"
| "Error ErrPeerNotFound = ''peer not found''"
| "Error ErrPollBucketMissing = ''poll bucket missing''"

text \<open>\<open>errors.Is\<close> looks through the errors wrapped with the verb \<open>%w\<close>.\<close>

fun errors_Is :: "go_error \<Rightarrow> go_error \<Rightarrow> bool" where
  "errors_Is (ErrWrap p e) target = (ErrWrap p e = target \<or> errors_Is e target)"
| "errors_Is e target = (e = target)"

end
