(* ===== verification/PS_Messages.thy ===== *)
theory PS_Messages
  imports PS_Errors
begin

text \<open>
  Package \<open>messages\<close>: the custom message numbers and their hexadecimal text (\<open>types.go\<close>), the
  redundant messenger that repeats a message until it is stopped, and the manager that keeps one
  messenger per swap (\<open>sender.go\<close>).
\<close>

section \<open>Message types\<close>

type_synonym MessageType = int

definition BASE_MESSAGE_TYPE :: int where "BASE_MESSAGE_TYPE = 42069"

text \<open>The constants count in steps of two from the base (\<open>BASE_MESSAGE_TYPE - 1 + iota\<close>).\<close>

definition MESSAGETYPE_SWAPINREQUEST :: MessageType where
  "MESSAGETYPE_SWAPINREQUEST = BASE_MESSAGE_TYPE - 1 + 1"
definition MESSAGETYPE_SWAPOUTREQUEST :: MessageType where
  "MESSAGETYPE_SWAPOUTREQUEST = BASE_MESSAGE_TYPE - 1 + 3"
definition MESSAGETYPE_SWAPINAGREEMENT :: MessageType where
  "MESSAGETYPE_SWAPINAGREEMENT = BASE_MESSAGE_TYPE - 1 + 5"
definition MESSAGETYPE_SWAPOUTAGREEMENT :: MessageType where
  "MESSAGETYPE_SWAPOUTAGREEMENT = BASE_MESSAGE_TYPE - 1 + 7"
definition MESSAGETYPE_OPENINGTXBROADCASTED :: MessageType where
  "MESSAGETYPE_OPENINGTXBROADCASTED = BASE_MESSAGE_TYPE - 1 + 9"
definition MESSAGETYPE_CANCELED :: MessageType where
  "MESSAGETYPE_CANCELED = BASE_MESSAGE_TYPE - 1 + 11"
definition MESSAGETYPE_COOPCLOSE :: MessageType where
  "MESSAGETYPE_COOPCLOSE = BASE_MESSAGE_TYPE - 1 + 13"
definition MESSAGETYPE_POLL :: MessageType where
  "MESSAGETYPE_POLL = BASE_MESSAGE_TYPE - 1 + 15"
definition MESSAGETYPE_REQUEST_POLL :: MessageType where
  "MESSAGETYPE_REQUEST_POLL = BASE_MESSAGE_TYPE - 1 + 17"

lemmas msgtype_defs = BASE_MESSAGE_TYPE_def MESSAGETYPE_SWAPINREQUEST_def
  MESSAGETYPE_SWAPOUTREQUEST_def MESSAGETYPE_SWAPINAGREEMENT_def MESSAGETYPE_SWAPOUTAGREEMENT_def
  MESSAGETYPE_OPENINGTXBROADCASTED_def MESSAGETYPE_CANCELED_def MESSAGETYPE_COOPCLOSE_def
  MESSAGETYPE_POLL_def MESSAGETYPE_REQUEST_POLL_def

definition peerswap_types :: "MessageType list" where
  "peerswap_types = [MESSAGETYPE_SWAPINREQUEST, MESSAGETYPE_SWAPOUTREQUEST,
     MESSAGETYPE_SWAPINAGREEMENT, MESSAGETYPE_SWAPOUTAGREEMENT, MESSAGETYPE_OPENINGTXBROADCASTED,
     MESSAGETYPE_CANCELED, MESSAGETYPE_COOPCLOSE, MESSAGETYPE_POLL, MESSAGETYPE_REQUEST_POLL]"

definition PeerswapCustomMessageType :: "string \<Rightarrow> go_error + MessageType" where
  "PeerswapCustomMessageType msgType = (case strconv_ParseInt msgType 16 of
     Inl e \<Rightarrow> Inl (ErrWrap ''could not parse hex string to message type'' (ErrNum msgType e))
   | Inr i \<Rightarrow>
      if i = MESSAGETYPE_SWAPINREQUEST then Inr MESSAGETYPE_SWAPINREQUEST
      else if i = MESSAGETYPE_SWAPOUTREQUEST then Inr MESSAGETYPE_SWAPOUTREQUEST
      else if i = MESSAGETYPE_SWAPINAGREEMENT then Inr MESSAGETYPE_SWAPINAGREEMENT
      else if i = MESSAGETYPE_SWAPOUTAGREEMENT then Inr MESSAGETYPE_SWAPOUTAGREEMENT
      else if i = MESSAGETYPE_OPENINGTXBROADCASTED then Inr MESSAGETYPE_OPENINGTXBROADCASTED
      else if i = MESSAGETYPE_CANCELED then Inr MESSAGETYPE_CANCELED
      else if i = MESSAGETYPE_COOPCLOSE then Inr MESSAGETYPE_COOPCLOSE
      else if i = MESSAGETYPE_POLL then Inr MESSAGETYPE_POLL
      else if i = MESSAGETYPE_REQUEST_POLL then Inr MESSAGETYPE_REQUEST_POLL
      else Inl (ErrNotPeerswapCustomMessage msgType))"

definition MessageTypeToHexString :: "MessageType \<Rightarrow> string" where
  "MessageTypeToHexString messageIndex = fmt_hex messageIndex"

lemma ParseInt_fmt_hex: "0 \<le> i \<Longrightarrow> i < 2 ^ 63 \<Longrightarrow> strconv_ParseInt (fmt_hex i) 16 = Inr i"
  using ParseInt_digits [of 16 "nat i"] by (simp add: fmt_hex_def)

lemma peerswap_types_range: "t \<in> set peerswap_types \<Longrightarrow> 0 \<le> t \<and> t < 2 ^ 63"
  by (auto simp: peerswap_types_def msgtype_defs)

text \<open>A parsed type is one of the nine.\<close>

lemma PeerswapCustomMessageType_range:
  "PeerswapCustomMessageType s = Inr t \<Longrightarrow> t \<in> set peerswap_types"
  by (auto simp: PeerswapCustomMessageType_def peerswap_types_def split: sum.splits if_splits)

lemma peerswap_type_parses:
  assumes "t \<in> set peerswap_types"
  shows "PeerswapCustomMessageType (MessageTypeToHexString t) = Inr t"
proof -
  have "strconv_ParseInt (fmt_hex t) 16 = Inr t"
    using peerswap_types_range [OF assms] by (simp add: ParseInt_fmt_hex)
  then show ?thesis
    using assms
    by (auto simp: PeerswapCustomMessageType_def MessageTypeToHexString_def peerswap_types_def
        msgtype_defs)
qed

text \<open>Printing one of the nine PeerSwap message types and parsing the text again gives the
  type back, and every one of them is odd, as BOLT 1 asks of optional custom messages.\<close>

theorem message_type_roundtrip:
  assumes "t \<in> set peerswap_types"
  shows "PeerswapCustomMessageType (MessageTypeToHexString t) = Inr t \<and> odd t"
  using peerswap_type_parses [OF assms] assms by (auto simp: peerswap_types_def msgtype_defs)

theorem message_type_roundtrip_witness:
  "PeerswapCustomMessageType (MessageTypeToHexString MESSAGETYPE_COOPCLOSE) = Inr MESSAGETYPE_COOPCLOSE
   \<and> odd MESSAGETYPE_COOPCLOSE"
  using message_type_roundtrip [of MESSAGETYPE_COOPCLOSE] by (simp add: peerswap_types_def)

section \<open>The redundant messenger\<close>

text \<open>
  A \<open>RedundantMessenger\<close> is a shared object: the manager holds a pointer to it and its goroutine
  reads its stop channel.  The objects live in a heap (a list) and a pointer is an index.
  \<open>rm_loop\<close> is the message the goroutine repeats, \<open>None\<close> while no goroutine was started;
  \<open>rm_stop_closed\<close> records that the stop channel was closed.
\<close>

record 'p RedundantMessenger =
  rm_loop :: "(string \<times> 'p \<times> int) option"
  rm_stop_closed :: bool

type_synonym 'p rm_heap = "'p RedundantMessenger list"

definition NewRedundantMessenger :: "'p rm_heap \<Rightarrow> nat \<times> 'p rm_heap" where
  "NewRedundantMessenger h = (length h, h @ [\<lparr>rm_loop = None, rm_stop_closed = False\<rparr>])"

text \<open>
  \<open>SendMessage\<close> sends once, and starts the goroutine only when that first send succeeded.
  \<open>sent\<close> is the error of the first send.
\<close>

definition rm_SendMessage ::
  "nat \<Rightarrow> string \<Rightarrow> 'p \<Rightarrow> int \<Rightarrow> go_error option \<Rightarrow> 'p rm_heap \<Rightarrow> go_error option \<times> 'p rm_heap" where
  "rm_SendMessage p peerId message messageType sent h = (case sent of
     Some err \<Rightarrow> (Some err, h)
   | None \<Rightarrow> (None, h[p := (h ! p)\<lparr>rm_loop := Some (peerId, message, messageType)\<rparr>]))"

text \<open>Closing a closed channel panics (\<open>None\<close>).\<close>

definition rm_Stop :: "nat \<Rightarrow> 'p rm_heap \<Rightarrow> 'p rm_heap option" where
  "rm_Stop p h = (if rm_stop_closed (h ! p) then None
                  else Some (h[p := (h ! p)\<lparr>rm_stop_closed := True\<rparr>]))"

text \<open>The messages a goroutine is still repeating at a tick.\<close>

definition rm_repeats :: "'p RedundantMessenger \<Rightarrow> (string \<times> 'p \<times> int) option" where
  "rm_repeats m = (if rm_stop_closed m then None else rm_loop m)"

section \<open>The manager\<close>

type_synonym Manager = "string \<rightharpoonup> nat"

definition NewManager :: Manager where "NewManager = Map.empty"

definition AddSender :: "Manager \<Rightarrow> string \<Rightarrow> nat \<Rightarrow> go_error option \<times> Manager" where
  "AddSender m ident messenger =
     (if m ident \<noteq> None then (Some (ErrAlreadyHasASender ident), m) else (None, m(ident \<mapsto> messenger)))"

definition RemoveSender :: "Manager \<Rightarrow> string \<Rightarrow> 'p rm_heap \<Rightarrow> (Manager \<times> 'p rm_heap) option" where
  "RemoveSender m ident h = (case m ident of
     Some p \<Rightarrow> (case rm_Stop p h of None \<Rightarrow> None | Some h' \<Rightarrow> Some (m(ident := None), h'))
   | None \<Rightarrow> Some (m(ident := None), h))"

text \<open>
  What the manager keeps: its messengers exist, no two ids share one, and none of them has been
  stopped.  So no channel is closed twice.
\<close>

definition manager_ok :: "Manager \<Rightarrow> 'p rm_heap \<Rightarrow> bool" where
  "manager_ok m h \<longleftrightarrow> inj_on m (dom m) \<and>
     (\<forall>ident p. m ident = Some p \<longrightarrow> p < length h \<and> \<not> rm_stop_closed (h ! p))"

lemma manager_ok_empty [simp]: "manager_ok NewManager h"
  by (simp add: manager_ok_def NewManager_def)

lemma manager_ok_new:
  "manager_ok m h \<Longrightarrow> NewRedundantMessenger h = (p, h') \<Longrightarrow> manager_ok m h'"
  by (fastforce simp: manager_ok_def NewRedundantMessenger_def nth_append)

lemma manager_ok_fresh_add:
  assumes "manager_ok m h" "NewRedundantMessenger h = (p, h')" "AddSender m ident p = (e, m')"
  shows "manager_ok m' h'"
proof (cases "m ident")
  case None
  have p: "p = length h" "h' = h @ [\<lparr>rm_loop = None, rm_stop_closed = False\<rparr>]"
    using assms(2) by (auto simp: NewRedundantMessenger_def)
  have "m x \<noteq> Some p" for x
    using assms(1) p by (auto simp: manager_ok_def)
  then show ?thesis
    using assms None p
    by (auto simp: manager_ok_def AddSender_def nth_append inj_on_def dom_def split: if_splits)
next
  case (Some q)
  then show ?thesis
    using assms manager_ok_new by (auto simp: AddSender_def)
qed

lemma manager_ok_send:
  "manager_ok m h \<Longrightarrow> rm_SendMessage p peer msg t sent h = (e, h') \<Longrightarrow> manager_ok m h'"
  by (auto simp: manager_ok_def rm_SendMessage_def nth_upd split: option.splits if_splits)

lemma RemoveSender_ok:
  assumes "manager_ok m h"
  shows "\<exists>m' h'. RemoveSender m ident h = Some (m', h') \<and> manager_ok m' h' \<and> m' = m(ident := None) \<and>
           (\<forall>p. m ident = Some p \<longrightarrow> rm_repeats (h' ! p) = None) \<and> length h' = length h \<and>
           (\<forall>q. m ident \<noteq> Some q \<longrightarrow> h' ! q = h ! q)"
proof (cases "m ident")
  case None
  then have "m(ident := None) = m" by auto
  then show ?thesis using assms None by (simp add: RemoveSender_def)
next
  case (Some p)
  have p: "p < length h" "\<not> rm_stop_closed (h ! p)"
    using assms Some by (auto simp: manager_ok_def)
  let ?h = "h[p := (h ! p)\<lparr>rm_stop_closed := True\<rparr>]"
  have other: "q \<noteq> p" if "m x = Some q" "x \<noteq> ident" for x q
    using assms Some that by (auto simp: manager_ok_def inj_on_def dom_def)
  have "manager_ok (m(ident := None)) ?h"
    using assms other
    by (auto simp: manager_ok_def inj_on_def dom_def nth_upd)
  then show ?thesis
    using Some p by (auto simp: RemoveSender_def rm_Stop_def rm_repeats_def nth_upd)
qed

text \<open>The manager never closes a stop channel twice: from a manager that satisfies its
  invariant, registering a new messenger, sending through it and removing an id keep the
  invariant, and \<open>RemoveSender\<close> does not panic and silences the removed messenger.\<close>

theorem manager_remove_silences:
  assumes "manager_ok m h"
    and "NewRedundantMessenger h = (p, h1)" and "AddSender m ident p = (None, m1)"
    and "rm_SendMessage p peer msg t sent h1 = (e, h2)"
  shows "\<exists>m3 h3. RemoveSender m1 ident h2 = Some (m3, h3) \<and> manager_ok m3 h3 \<and> m3 ident = None \<and>
           rm_repeats (h3 ! p) = None"
proof -
  have "manager_ok m1 h1"
    using assms(1-3) by (rule manager_ok_fresh_add)
  then have "manager_ok m1 h2"
    using assms(4) by (rule manager_ok_send)
  moreover have "m1 ident = Some p"
    using assms(3) by (auto simp: AddSender_def split: if_splits)
  ultimately show ?thesis
    using RemoveSender_ok [of m1 h2 ident] by (metis fun_upd_same)
qed

theorem manager_remove_silences_witness:
  "\<exists>m3 h3. RemoveSender [''s'' \<mapsto> 0] ''s''
       [\<lparr>rm_loop = Some (''peer'', (7 :: nat), 1), rm_stop_closed = False\<rparr>] = Some (m3, h3) \<and>
     manager_ok m3 h3 \<and> m3 ''s'' = None \<and> rm_repeats (h3 ! 0) = None"
  using manager_remove_silences
    [of NewManager "[]" 0 "[\<lparr>rm_loop = None, rm_stop_closed = False\<rparr>]" "''s''" "[''s'' \<mapsto> 0]"
       "''peer''" "7 :: nat" 1 None None
       "[\<lparr>rm_loop = Some (''peer'', 7, 1), rm_stop_closed = False\<rparr>]"]
  by (simp add: NewRedundantMessenger_def AddSender_def rm_SendMessage_def NewManager_def
      manager_ok_def)

text \<open>A messenger whose first send fails repeats nothing: the retry loop is only started after
  a successful first send.\<close>

theorem failed_first_send_not_repeated:
  assumes "NewRedundantMessenger h = (p, h1)"
    and "rm_SendMessage p peer msg t (Some err) h1 = (e, h2)"
  shows "e = Some err \<and> rm_repeats (h2 ! p) = None"
  using assms by (auto simp: NewRedundantMessenger_def rm_SendMessage_def rm_repeats_def)

theorem failed_first_send_not_repeated_witness:
  "fst (rm_SendMessage 0 ''peer'' (7 :: nat) 1 (Some (ErrText ''down''))
        [\<lparr>rm_loop = None, rm_stop_closed = False\<rparr>]) = Some (ErrText ''down'')"
  using failed_first_send_not_repeated
    [of "[]" 0 "[\<lparr>rm_loop = None, rm_stop_closed = False\<rparr>]" "''peer''" "7 :: nat" 1 "ErrText ''down''"
       "Some (ErrText ''down'')" "[\<lparr>rm_loop = None, rm_stop_closed = False\<rparr>]"]
  by (simp add: NewRedundantMessenger_def rm_SendMessage_def)

end
