(* ===== verification/PS_SwapData.thy ===== *)
theory PS_SwapData
  imports PS_Messages
begin

text \<open>
  The data of a swap: states and events (\<open>swap/states.go\<close>), the seven protocol messages as records
  (\<open>swap/messages.go\<close>), \<open>SwapData\<close> with its getters and the swap id (\<open>swap/swap.go\<close>), and the
  timelock policy (\<open>swap/timelock.go\<close>).  A Go pointer that may be nil is an \<open>option\<close>; a getter that
  dereferences one without a check returns \<open>None\<close> where the code panics.
\<close>

section \<open>States and events\<close>

datatype StateType =
    Default
  | State_SendCancel | State_SwapCanceled | State_WaitCsv
  | State_ClaimedCsv | State_ClaimedPreimage | State_ClaimedCoop
  | State_SwapOutSender_CreateSwap | State_SwapOutSender_SendRequest
  | State_SwapOutSender_AwaitAgreement | State_SwapOutSender_PayFeeInvoice
  | State_SwapOutSender_AwaitTxBroadcastedMessage | State_SwapOutSender_AwaitTxConfirmation
  | State_SwapOutSender_ValidateTxAndPayClaimInvoice | State_SwapOutSender_ClaimSwap
  | State_SwapOutSender_SendPrivkey | State_SwapOutSender_SendCoopClose
  | State_SwapOutReceiver_CreateSwap | State_SwapOutReceiver_SendFeeInvoice
  | State_SwapOutReceiver_AwaitFeeInvoicePayment | State_SwapOutReceiver_BroadcastOpeningTx
  | State_SwapOutReceiver_SendTxBroadcastedMessage | State_SwapOutReceiver_AwaitClaimInvoicePayment
  | State_SwapOutReceiver_ClaimSwapCsv | State_SwapOutReceiver_ClaimSwapCoop
  | State_SwapInSender_CreateSwap | State_SwapInSender_SendRequest
  | State_SwapInSender_AwaitAgreement | State_SwapInSender_BroadcastOpeningTx
  | State_SwapInSender_SendTxBroadcastedMessage | State_SwapInSender_AwaitClaimPayment
  | State_SwapInSender_ClaimSwapCsv | State_SwapInSender_ClaimSwapCoop
  | State_SwapInReceiver_CreateSwap | State_SwapInReceiver_SendAgreement
  | State_SwapInReceiver_AwaitTxBroadcastedMessage | State_SwapInReceiver_AwaitTxConfirmation
  | State_SwapInReceiver_ValidateTxAndPayClaimInvoice | State_SwapInReceiver_ClaimSwap
  | State_SwapInReceiver_SendPrivkey | State_SwapInReceiver_SendCoopClose

datatype EventType =
    NoOp
  | Event_OnSwapOutStarted | Event_OnFeeInvoiceReceived
  | Event_OnTxOpenedMessage | Event_OnTxConfirmed
  | Event_OnRetry | Event_OnClaimedCsv
  | Event_OnSwapOutRequestReceived
  | Event_OnFeeInvoicePaid | Event_OnClaimInvoicePaid | Event_OnCsvPassed
  | Event_OnCancelReceived | Event_OnCoopCloseReceived
  | Event_OnTimeout
  | Event_ActionSucceeded | Event_SwapInSender_OnSwapInRequested
  | Event_SwapInSender_OnAgreementReceived | Event_ActionFailed
  | Event_SwapInReceiver_OnRequestReceived | Event_Done
  | Event_OnInvalid_Message

text \<open>Types, roles and invoice types; the zero values of the Go integers are constructors too.\<close>

datatype SwapType = SWAPTYPE_NONE | SWAPTYPE_IN | SWAPTYPE_OUT
datatype SwapRole = SWAPROLE_NONE | SWAPROLE_SENDER | SWAPROLE_RECEIVER
datatype InvoiceType = INVOICE_CLAIM | INVOICE_FEE

fun SwapType_JsonFieldValue :: "SwapType \<Rightarrow> string" where
  "SwapType_JsonFieldValue SWAPTYPE_OUT = ''swap_out''"
| "SwapType_JsonFieldValue SWAPTYPE_IN = ''swap_in''"
| "SwapType_JsonFieldValue SWAPTYPE_NONE = ''unknown_swap_type''"

fun InvoiceType_String :: "InvoiceType \<Rightarrow> string" where
  "InvoiceType_String INVOICE_CLAIM = ''claim''"
| "InvoiceType_String INVOICE_FEE = ''fee''"

section \<open>Swap ids\<close>

text \<open>A \<open>SwapId\<close> is an array of 32 bytes and is handled by pointer, so a nil id is \<open>None\<close>.\<close>

type_synonym SwapId = "byte list"

definition SwapId_String :: "SwapId option \<Rightarrow> string" where
  "SwapId_String s = (case s of None \<Rightarrow> '''' | Some bs \<Rightarrow> hex_EncodeToString bs)"

text \<open>\<open>Short\<close> slices the first six characters and panics on the nil id.\<close>

definition SwapId_Short :: "SwapId option \<Rightarrow> string option" where
  "SwapId_Short s = (if length (SwapId_String s) < 6 then None else Some (take 6 (SwapId_String s)))"

definition ParseSwapIdFromString :: "string \<Rightarrow> go_error + SwapId" where
  "ParseSwapIdFromString str = (case hex_DecodeString str of
     (_, Some e) \<Rightarrow> Inl (ErrHex e)
   | (data, None) \<Rightarrow> if length data \<noteq> 32 then Inl (ErrText ''can not decode string: invalid length'')
                      else Inr data)"

definition SwapId_FromString :: "string \<Rightarrow> SwapId \<Rightarrow> go_error option \<times> SwapId" where
  "SwapId_FromString str s = (case hex_DecodeString str of
     (_, Some e) \<Rightarrow> (Some (ErrHex e), s)
   | (data, None) \<Rightarrow> if length data \<noteq> 32 then (Some (ErrText ''can not decode string: invalid length''), s)
                      else (None, data))"

section \<open>The protocol messages\<close>

record SwapInRequestMessage =
  sir_ProtocolVersion :: u8
  sir_SwapId :: "SwapId option"
  sir_Network :: string
  sir_Asset :: string
  sir_Scid :: string
  sir_Amount :: u64
  sir_Pubkey :: string
  sir_PremiumLimit :: i64

record SwapInAgreementMessage =
  sia_ProtocolVersion :: u8
  sia_SwapId :: "SwapId option"
  sia_Pubkey :: string
  sia_Premium :: i64

record SwapOutRequestMessage =
  sor_ProtocolVersion :: u8
  sor_SwapId :: "SwapId option"
  sor_Asset :: string
  sor_Network :: string
  sor_Scid :: string
  sor_Amount :: u64
  sor_Pubkey :: string
  sor_PremiumLimit :: i64

record SwapOutAgreementMessage =
  soa_ProtocolVersion :: u8
  soa_SwapId :: "SwapId option"
  soa_Pubkey :: string
  soa_Payreq :: string
  soa_Premium :: i64

record OpeningTxBroadcastedMessage =
  otb_SwapId :: "SwapId option"
  otb_Payreq :: string
  otb_TxId :: string
  otb_ScriptOut :: u32
  otb_BlindingKey :: string

record CancelMessage =
  cm_SwapId :: "SwapId option"
  cm_Message :: string

record CoopCloseMessage =
  cc_SwapId :: "SwapId option"
  cc_Message :: string
  cc_Privkey :: string

text \<open>
  A message as the interface value the code passes around (\<open>PeerMessage\<close>, \<open>EventContext\<close>).  The bytes
  that \<open>json.Marshal\<close> makes of it are represented by the message itself.
\<close>

datatype PeerMessage =
    MsgSwapInRequest SwapInRequestMessage
  | MsgSwapInAgreement SwapInAgreementMessage
  | MsgSwapOutRequest SwapOutRequestMessage
  | MsgSwapOutAgreement SwapOutAgreementMessage
  | MsgOpeningTxBroadcasted OpeningTxBroadcastedMessage
  | MsgCancel CancelMessage
  | MsgCoopClose CoopCloseMessage

fun PeerMessage_MessageType :: "PeerMessage \<Rightarrow> MessageType" where
  "PeerMessage_MessageType (MsgSwapInRequest _) = MESSAGETYPE_SWAPINREQUEST"
| "PeerMessage_MessageType (MsgSwapInAgreement _) = MESSAGETYPE_SWAPINAGREEMENT"
| "PeerMessage_MessageType (MsgSwapOutRequest _) = MESSAGETYPE_SWAPOUTREQUEST"
| "PeerMessage_MessageType (MsgSwapOutAgreement _) = MESSAGETYPE_SWAPOUTAGREEMENT"
| "PeerMessage_MessageType (MsgOpeningTxBroadcasted _) = MESSAGETYPE_OPENINGTXBROADCASTED"
| "PeerMessage_MessageType (MsgCancel _) = MESSAGETYPE_CANCELED"
| "PeerMessage_MessageType (MsgCoopClose _) = MESSAGETYPE_COOPCLOSE"

section \<open>Swap data\<close>

record SwapData =
  SwapInRequest :: "SwapInRequestMessage option"
  SwapInAgreement :: "SwapInAgreementMessage option"
  SwapOutRequest :: "SwapOutRequestMessage option"
  SwapOutAgreement :: "SwapOutAgreementMessage option"
  OpeningTxBroadcasted :: "OpeningTxBroadcastedMessage option"
  CoopClose :: "CoopCloseMessage option"
  Cancel :: "CancelMessage option"
  CancelMsg :: string
  PeerNodeId :: string
  InitiatorNodeId :: string
  CreatedAt :: i64
  d_Role :: SwapRole
  FSMState :: StateType
  PrivkeyBytes :: "byte list"
  FeePreimage :: string
  OpeningTxFee :: u64
  OpeningTxHex :: string
  StartingBlockHeight :: u32
  ClaimTxId :: string
  ClaimPaymentHash :: string
  ClaimPreimage :: string
  StartingBlockHeightSet :: bool
  BlindingKeyHex :: string
  NextMessage :: "PeerMessage option"
  NextMessageType :: int
  LastErr :: "go_error option"
  LastErrString :: string
  toCancelSet :: bool

text \<open>The chain names and the protocol version (\<open>swap/services.go\<close>, \<open>swap/service.go\<close>).\<close>

definition btc_chain :: string where "btc_chain = ''btc''"
definition l_btc_chain :: string where "l_btc_chain = ''lbtc''"
definition PEERSWAP_PROTOCOL_VERSION :: u8 where "PEERSWAP_PROTOCOL_VERSION = 7"

lemma chain_names_distinct [simp]: "btc_chain \<noteq> l_btc_chain" "l_btc_chain \<noteq> btc_chain"
  "btc_chain \<noteq> []" "l_btc_chain \<noteq> []" "[] \<noteq> btc_chain" "[] \<noteq> l_btc_chain"
  by (simp_all add: btc_chain_def l_btc_chain_def)

subsection \<open>Getters\<close>

definition GetId :: "SwapData \<Rightarrow> SwapId option" where
  "GetId s = (case SwapInRequest s of Some m \<Rightarrow> sir_SwapId m | None \<Rightarrow>
     (case SwapOutRequest s of Some m \<Rightarrow> sor_SwapId m | None \<Rightarrow>
     (case SwapInAgreement s of Some m \<Rightarrow> sia_SwapId m | None \<Rightarrow>
     (case SwapOutAgreement s of Some m \<Rightarrow> soa_SwapId m | None \<Rightarrow> None))))"

definition GetProtocolVersion :: "SwapData \<Rightarrow> u8" where
  "GetProtocolVersion s = (case SwapInRequest s of Some m \<Rightarrow> sir_ProtocolVersion m | None \<Rightarrow>
     (case SwapOutRequest s of Some m \<Rightarrow> sor_ProtocolVersion m | None \<Rightarrow>
     (case SwapInAgreement s of Some m \<Rightarrow> sia_ProtocolVersion m | None \<Rightarrow>
     (case SwapOutAgreement s of Some m \<Rightarrow> soa_ProtocolVersion m | None \<Rightarrow> 0))))"

definition GetType :: "SwapData \<Rightarrow> SwapType" where
  "GetType s = (if SwapInRequest s \<noteq> None then SWAPTYPE_IN
                else if SwapOutRequest s \<noteq> None then SWAPTYPE_OUT else SWAPTYPE_NONE)"

definition GetScid :: "SwapData \<Rightarrow> string" where
  "GetScid s = (case SwapInRequest s of Some m \<Rightarrow> sir_Scid m | None \<Rightarrow>
     (case SwapOutRequest s of Some m \<Rightarrow> sor_Scid m | None \<Rightarrow> ''''))"

definition GetScidInBoltFormat :: "SwapData \<Rightarrow> string" where
  "GetScidInBoltFormat s = (case SwapInRequest s of
     Some m \<Rightarrow> strings_ReplaceAll (sir_Scid m) CHR '':'' CHR ''x'' | None \<Rightarrow>
     (case SwapOutRequest s of
        Some m \<Rightarrow> strings_ReplaceAll (sor_Scid m) CHR '':'' CHR ''x'' | None \<Rightarrow> ''''))"

definition GetAmount :: "SwapData \<Rightarrow> u64" where
  "GetAmount s = (case SwapInRequest s of Some m \<Rightarrow> sir_Amount m | None \<Rightarrow>
     (case SwapOutRequest s of Some m \<Rightarrow> sor_Amount m | None \<Rightarrow> 0))"

text \<open>The two amounts: both dereference the agreement of their swap type.\<close>

definition GetClaimAmount :: "SwapData \<Rightarrow> u64 option" where
  "GetClaimAmount s = (case SwapInRequest s of Some m \<Rightarrow> Some (sir_Amount m) | None \<Rightarrow>
     (case SwapOutRequest s of
        Some m \<Rightarrow> (case SwapOutAgreement s of None \<Rightarrow> None | Some a \<Rightarrow> Some (sor_Amount m + soa_Premium a))
      | None \<Rightarrow> Some 0))"

definition GetOpeningTXAmount :: "SwapData \<Rightarrow> u64 option" where
  "GetOpeningTXAmount s = (case SwapInRequest s of
       Some m \<Rightarrow> (case SwapInAgreement s of None \<Rightarrow> None | Some a \<Rightarrow> Some (sir_Amount m + sia_Premium a))
     | None \<Rightarrow> (case SwapOutRequest s of Some m \<Rightarrow> Some (sor_Amount m) | None \<Rightarrow> Some 0))"

definition GetAsset :: "SwapData \<Rightarrow> string" where
  "GetAsset s = (case SwapInRequest s of Some m \<Rightarrow> sir_Asset m | None \<Rightarrow>
     (case SwapOutRequest s of Some m \<Rightarrow> sor_Asset m | None \<Rightarrow> ''''))"

definition GetPremium :: "SwapData \<Rightarrow> i64" where
  "GetPremium s = (case SwapInAgreement s of Some m \<Rightarrow> sia_Premium m | None \<Rightarrow>
     (case SwapOutAgreement s of Some m \<Rightarrow> soa_Premium m | None \<Rightarrow> 0))"

definition GetNetwork :: "SwapData \<Rightarrow> string" where
  "GetNetwork s = (case SwapInRequest s of Some m \<Rightarrow> sir_Network m | None \<Rightarrow>
     (case SwapOutRequest s of Some m \<Rightarrow> sor_Network m | None \<Rightarrow> ''''))"

definition GetChain :: "SwapData \<Rightarrow> string" where
  "GetChain s = (if GetAsset s \<noteq> '''' \<and> GetNetwork s = '''' then l_btc_chain
                 else if GetAsset s = '''' \<and> GetNetwork s \<noteq> '''' then btc_chain
                 else '''')"

definition GetInvoiceExpiry :: "SwapData \<Rightarrow> u64" where
  "GetInvoiceExpiry s = (if GetChain s = btc_chain then 3600 * 24
                         else if GetChain s = l_btc_chain then 3600 else 0)"

definition GetMakerPubkey :: "SwapData \<Rightarrow> string" where
  "GetMakerPubkey s = (case SwapInRequest s of Some m \<Rightarrow> sir_Pubkey m | None \<Rightarrow>
     (case SwapOutAgreement s of Some m \<Rightarrow> soa_Pubkey m | None \<Rightarrow> ''''))"

definition GetTakerPubkey :: "SwapData \<Rightarrow> string" where
  "GetTakerPubkey s = (case SwapOutRequest s of Some m \<Rightarrow> sor_Pubkey m | None \<Rightarrow>
     (case SwapInAgreement s of Some m \<Rightarrow> sia_Pubkey m | None \<Rightarrow> ''''))"

definition GetRequest :: "SwapData \<Rightarrow> PeerMessage option" where
  "GetRequest s = (case SwapInRequest s of Some m \<Rightarrow> Some (MsgSwapInRequest m) | None \<Rightarrow>
     (case SwapOutRequest s of Some m \<Rightarrow> Some (MsgSwapOutRequest m) | None \<Rightarrow> None))"

definition GetCancelMessage :: "SwapData \<Rightarrow> string" where
  "GetCancelMessage s = (case Cancel s of Some m \<Rightarrow> cm_Message m | None \<Rightarrow>
     (case LastErr s of Some e \<Rightarrow> Error e | None \<Rightarrow> CancelMsg s))"

definition GetOpeningTxId :: "SwapData \<Rightarrow> string" where
  "GetOpeningTxId s = (case OpeningTxBroadcasted s of Some m \<Rightarrow> otb_TxId m | None \<Rightarrow> '''')"

definition SetState :: "StateType \<Rightarrow> SwapData \<Rightarrow> SwapData" where
  "SetState st s = s\<lparr>FSMState := st\<rparr>"

section \<open>Timelock policy\<close>

definition legacyProtocolVersion :: u8 where "legacyProtocolVersion = 6"
definition bitcoinSwapCSV :: u32 where "bitcoinSwapCSV = 1008"
definition bitcoinPaymentWindow :: u32 where "bitcoinPaymentWindow = bitcoinSwapCSV div 2"
definition bitcoinInvoiceFinalCLTV :: u64 where
  "bitcoinInvoiceFinalCLTV = u64_of_u32 (bitcoinPaymentWindow - 1)"
definition legacyLiquidSwapCSV :: u32 where "legacyLiquidSwapCSV = 60"
definition legacyLiquidFinalCLTV :: u64 where
  "legacyLiquidFinalCLTV = u64_of_u32 (legacyLiquidSwapCSV div 2 - 1)"
definition liquidSwapCSV :: u32 where "liquidSwapCSV = 7 * 24 * 60"
definition liquidPaymentWindow :: u32 where "liquidPaymentWindow = 60"
definition liquidInvoiceFinalCLTV :: u64 where "liquidInvoiceFinalCLTV = 29"
definition liquidMaxTotalCLTVDelta :: u32 where "liquidMaxTotalCLTVDelta = 32"

lemmas timelock_consts = legacyProtocolVersion_def bitcoinSwapCSV_def bitcoinPaymentWindow_def
  bitcoinInvoiceFinalCLTV_def legacyLiquidSwapCSV_def legacyLiquidFinalCLTV_def liquidSwapCSV_def
  liquidPaymentWindow_def liquidInvoiceFinalCLTV_def liquidMaxTotalCLTVDelta_def
  PEERSWAP_PROTOCOL_VERSION_def

record timelockPolicy =
  CSV :: u32
  PaymentWindow :: u32
  InvoiceFinalCLTV :: u64
  MaxTotalCLTVDelta :: u32
  AllowNewClaimPayment :: bool

definition ValidateTotalCLTVDelta :: "u32 \<Rightarrow> u32 \<Rightarrow> go_error option" where
  "ValidateTotalCLTVDelta required limit =
     (if limit \<noteq> 0 \<and> limit < required then Some (ErrText (''invoice requires CLTV delta '' @
         fmt_u32 required @ '', maximum is '' @ fmt_u32 limit)) else None)"

definition bitcoin_policy :: timelockPolicy where
  "bitcoin_policy = \<lparr>CSV = bitcoinSwapCSV, PaymentWindow = bitcoinPaymentWindow,
     InvoiceFinalCLTV = bitcoinInvoiceFinalCLTV, MaxTotalCLTVDelta = 0, AllowNewClaimPayment = True\<rparr>"

definition legacy_liquid_policy :: timelockPolicy where
  "legacy_liquid_policy = \<lparr>CSV = legacyLiquidSwapCSV, PaymentWindow = legacyLiquidSwapCSV div 2,
     InvoiceFinalCLTV = legacyLiquidFinalCLTV, MaxTotalCLTVDelta = 0, AllowNewClaimPayment = False\<rparr>"

definition liquid_policy :: timelockPolicy where
  "liquid_policy = \<lparr>CSV = liquidSwapCSV, PaymentWindow = liquidPaymentWindow,
     InvoiceFinalCLTV = liquidInvoiceFinalCLTV, MaxTotalCLTVDelta = liquidMaxTotalCLTVDelta,
     AllowNewClaimPayment = True\<rparr>"

definition fmt_u8 :: "u8 \<Rightarrow> string" where "fmt_u8 x = fmt_nat (unat x)"

definition getTimelockPolicy :: "SwapData \<Rightarrow> go_error + timelockPolicy" where
  "getTimelockPolicy s =
     (let version = GetProtocolVersion s;
          unsupported = ErrText (''unsupported protocol version: '' @ fmt_u8 version)
      in if GetChain s = btc_chain then
           (if version \<noteq> legacyProtocolVersion \<and> version \<noteq> PEERSWAP_PROTOCOL_VERSION
            then Inl unsupported else Inr bitcoin_policy)
         else if GetChain s = l_btc_chain then
           (if version = legacyProtocolVersion then Inr legacy_liquid_policy
            else if version = PEERSWAP_PROTOCOL_VERSION then Inr liquid_policy
            else Inl unsupported)
         else Inl (ErrText (''unsupported chain: '' @ GetChain s)))"

definition GetInvoiceCltv :: "SwapData \<Rightarrow> u64" where
  "GetInvoiceCltv s = (case getTimelockPolicy s of Inl _ \<Rightarrow> 0 | Inr p \<Rightarrow> InvoiceFinalCLTV p)"

section \<open>Spending parameters\<close>

text \<open>
  Cryptography the code takes from other packages is a parameter: SHA-256, the serialisation of a
  private key made from bytes, and its compressed public key.
\<close>

record crypto =
  sha256 :: "byte list \<Rightarrow> byte list"
  PrivKey_Serialize :: "byte list \<Rightarrow> byte list"
  PubKey_SerializeCompressed :: "byte list \<Rightarrow> byte list"

definition PreimageSize :: nat where "PreimageSize = 32"

text \<open>\<open>lightning.MakePreimageFromStr\<close>; the zero preimage is returned next to an error.\<close>

definition zero_preimage :: "byte list" where "zero_preimage = replicate PreimageSize 0"

definition MakePreimage :: "byte list \<Rightarrow> byte list \<times> go_error option" where
  "MakePreimage newPreimage = (if length newPreimage \<noteq> PreimageSize
     then (zero_preimage, Some (ErrText (''invalid preimage length of '' @ fmt_nat (length newPreimage) @
            '', want '' @ fmt_nat PreimageSize)))
     else (newPreimage, None))"

definition MakePreimageFromStr :: "string \<Rightarrow> byte list \<times> go_error option" where
  "MakePreimageFromStr s = (if length s \<noteq> PreimageSize * 2
     then (zero_preimage, Some (ErrText (''invalid preimage string length of '' @ fmt_nat (length s) @
            '', want '' @ fmt_nat (PreimageSize * 2))))
     else (case hex_DecodeString s of
        (_, Some e) \<Rightarrow> (zero_preimage, Some (ErrHex e))
      | (bs, None) \<Rightarrow> MakePreimage bs))"

definition GetPaymentHash :: "crypto \<Rightarrow> SwapData \<Rightarrow> string" where
  "GetPaymentHash cr s =
     (if ClaimPaymentHash s \<noteq> '''' then ClaimPaymentHash s
      else if ClaimPreimage s \<noteq> ''''
      then hex_EncodeToString (sha256 cr (fst (MakePreimageFromStr (ClaimPreimage s))))
      else '''')"

record OpeningParams =
  op_TakerPubkey :: string
  op_MakerPubkey :: string
  op_ClaimPaymentHash :: string
  op_Amount :: u64
  op_CSV :: u32
  op_BlindingKey :: "byte list option"

record ClaimParams =
  cp_Preimage :: string
  cp_Signer :: "byte list"
  cp_OpeningTxHex :: string

text \<open>The blinding key: the one of the opening message if it is set, else our own.\<close>

definition GetBlindingKey :: "SwapData \<Rightarrow> byte list option" where
  "GetBlindingKey s = (case OpeningTxBroadcasted s of
     Some m \<Rightarrow> if otb_BlindingKey m \<noteq> '''' then Some (fst (hex_DecodeString (otb_BlindingKey m)))
               else if BlindingKeyHex s \<noteq> '''' then Some (fst (hex_DecodeString (BlindingKeyHex s))) else None
   | None \<Rightarrow> if BlindingKeyHex s \<noteq> '''' then Some (fst (hex_DecodeString (BlindingKeyHex s))) else None)"

definition policy_CSV :: "SwapData \<Rightarrow> u32" where
  "policy_CSV s = (case getTimelockPolicy s of Inl _ \<Rightarrow> 0 | Inr p \<Rightarrow> CSV p)"

definition GetOpeningParams :: "crypto \<Rightarrow> SwapData \<Rightarrow> OpeningParams option" where
  "GetOpeningParams cr s = (case GetOpeningTXAmount s of None \<Rightarrow> None | Some amt \<Rightarrow> Some
     \<lparr>op_TakerPubkey = GetTakerPubkey s, op_MakerPubkey = GetMakerPubkey s,
      op_ClaimPaymentHash = GetPaymentHash cr s, op_Amount = amt,
      op_CSV = policy_CSV s, op_BlindingKey = GetBlindingKey s\<rparr>)"

definition GetClaimParams :: "SwapData \<Rightarrow> ClaimParams" where
  "GetClaimParams s = \<lparr>cp_Preimage = ClaimPreimage s, cp_Signer = PrivkeyBytes s,
     cp_OpeningTxHex = OpeningTxHex s\<rparr>"

section \<open>New swap data\<close>

definition empty_SwapData :: SwapData where
  "empty_SwapData = \<lparr>SwapInRequest = None, SwapInAgreement = None, SwapOutRequest = None,
     SwapOutAgreement = None, OpeningTxBroadcasted = None, CoopClose = None, Cancel = None,
     CancelMsg = '''', PeerNodeId = '''', InitiatorNodeId = '''', CreatedAt = 0,
     d_Role = SWAPROLE_NONE, FSMState = Default, PrivkeyBytes = [], FeePreimage = '''',
     OpeningTxFee = 0, OpeningTxHex = '''', StartingBlockHeight = 0, ClaimTxId = '''',
     ClaimPaymentHash = '''', ClaimPreimage = '''', StartingBlockHeightSet = False,
     BlindingKeyHex = '''', NextMessage = None, NextMessageType = 0, LastErr = None,
     LastErrString = '''', toCancelSet = False\<rparr>"

text \<open>\<open>privkey\<close> is the freshly drawn key and \<open>now\<close> the Unix time.\<close>

definition NewSwapData :: "string \<Rightarrow> string \<Rightarrow> byte list \<Rightarrow> i64 \<Rightarrow> SwapData" where
  "NewSwapData initiatorNodeId peerNodeId privkey now = empty_SwapData\<lparr>PeerNodeId := peerNodeId,
     InitiatorNodeId := initiatorNodeId, PrivkeyBytes := privkey, CreatedAt := now,
     d_Role := SWAPROLE_SENDER\<rparr>"

definition NewSwapDataFromRequest :: "string \<Rightarrow> byte list \<Rightarrow> i64 \<Rightarrow> SwapData" where
  "NewSwapDataFromRequest senderNodeId privkey now = empty_SwapData\<lparr>PeerNodeId := senderNodeId,
     InitiatorNodeId := senderNodeId, CreatedAt := now, PrivkeyBytes := privkey,
     d_Role := SWAPROLE_RECEIVER\<rparr>"

end
