(* ===== verification/PS_SwapMessages.thy ===== *)
theory PS_SwapMessages
  imports PS_SwapData
begin

text \<open>
  Validation of the protocol messages and how they enter the swap data (\<open>swap/messages.go\<close>, and
  \<open>SwapErrorContext\<close> of \<open>swap/swap.go\<close>), with the facts about swap ids, amounts and timelocks that
  do not depend on the state machine.
\<close>

section \<open>Field checks\<close>

definition validateHexString :: "string \<Rightarrow> string \<Rightarrow> nat \<Rightarrow> go_error option" where
  "validateHexString paramName hexString expectedLength = (case hex_DecodeString hexString of
     (_, Some e) \<Rightarrow> Some (ErrHex e)
   | (data, None) \<Rightarrow> if length data \<noteq> expectedLength
                      then Some (InvalidLengthErr paramName expectedLength (length data)) else None)"

definition validateNetwork :: "string \<Rightarrow> go_error option" where
  "validateNetwork network =
     (if network = ''mainnet'' \<or> network = ''testnet'' \<or> network = ''testnet3'' \<or>
         network = ''testnet4'' \<or> network = ''signet'' \<or> network = ''regtest''
      then None else Some InvalidNetworkError)"

text \<open>The first check of \<open>cs\<close> that fails: the chains of \<open>if err != nil { return err }\<close>.\<close>

fun first_error :: "go_error option list \<Rightarrow> go_error option" where
  "first_error [] = None"
| "first_error (c # cs) = (case c of Some e \<Rightarrow> Some e | None \<Rightarrow> first_error cs)"

lemma first_error_None [simp]: "first_error cs = None \<longleftrightarrow> (\<forall>c \<in> set cs. c = None)"
  by (induction cs) (auto split: option.splits)

declare first_error.simps [simp del]

definition validateAssetAndNetwork :: "string \<Rightarrow> string \<Rightarrow> go_error option" where
  "validateAssetAndNetwork asset network =
     (if (asset = '''' \<and> network = '''') \<or> (asset \<noteq> '''' \<and> network \<noteq> '''')
      then Some AssetOrNetworkSetError
      else first_error
        [if asset \<noteq> '''' then validateHexString ''asset'' asset 33 else None,
         if network \<noteq> '''' then validateNetwork network else None])"

text \<open>
  \<open>validateScid\<close> assigns the results of three conversions to one variable and checks it once: only
  the last part of the short channel id is checked.
\<close>

definition validateScid :: "string \<Rightarrow> go_error option" where
  "validateScid scid =
     (if CHR ''x'' \<notin> set scid \<and> CHR '':'' \<notin> set scid then Some InvalidScidError
      else (let prefix = (if CHR ''x'' \<in> set scid then CHR ''x'' else CHR '':'');
                parts = strings_Split prefix scid
            in if length parts \<noteq> 3 then Some InvalidScidError
               else (let err = strconv_Atoi (parts ! 0); err = strconv_Atoi (parts ! 1);
                         err = strconv_Atoi (parts ! 2)
                     in if isl_err err then Some InvalidScidError else None)))"

section \<open>Validation of messages\<close>

definition SwapInRequestMessage_Validate :: "SwapInRequestMessage \<Rightarrow> go_error option" where
  "SwapInRequestMessage_Validate s = first_error
     [validateHexString ''pubkey'' (sir_Pubkey s) 33,
      validateAssetAndNetwork (sir_Asset s) (sir_Network s),
      if sir_Asset s \<noteq> '''' then validateHexString ''asset'' (sir_Asset s) 33 else None,
      if sir_Network s \<noteq> '''' then validateNetwork (sir_Network s) else None,
      validateScid (sir_Scid s)]"

definition SwapInAgreementMessage_Validate :: "SwapInAgreementMessage \<Rightarrow> go_error option" where
  "SwapInAgreementMessage_Validate s = validateHexString ''pubkey'' (sia_Pubkey s) 33"

definition SwapOutRequestMessage_Validate :: "SwapOutRequestMessage \<Rightarrow> go_error option" where
  "SwapOutRequestMessage_Validate s = first_error
     [validateHexString ''pubkey'' (sor_Pubkey s) 33,
      validateAssetAndNetwork (sor_Asset s) (sor_Network s),
      validateScid (sor_Scid s)]"

definition SwapOutAgreementMessage_Validate :: "SwapOutAgreementMessage \<Rightarrow> go_error option" where
  "SwapOutAgreementMessage_Validate s = validateHexString ''pubkey'' (soa_Pubkey s) 33"

definition OpeningTxBroadcastedMessage_Validate ::
  "OpeningTxBroadcastedMessage \<Rightarrow> SwapData \<Rightarrow> go_error option" where
  "OpeningTxBroadcastedMessage_Validate s swap = first_error
     [if GetChain swap = l_btc_chain then validateHexString ''blinding_key'' (otb_BlindingKey s) 32 else None,
      validateHexString ''txId'' (otb_TxId s) 32]"

definition CoopCloseMessage_Validate :: "CoopCloseMessage \<Rightarrow> go_error option" where
  "CoopCloseMessage_Validate s = validateHexString ''privkey'' (cc_Privkey s) 32"

fun PeerMessage_Validate :: "PeerMessage \<Rightarrow> SwapData \<Rightarrow> go_error option" where
  "PeerMessage_Validate (MsgSwapInRequest m) swap = SwapInRequestMessage_Validate m"
| "PeerMessage_Validate (MsgSwapInAgreement m) swap = SwapInAgreementMessage_Validate m"
| "PeerMessage_Validate (MsgSwapOutRequest m) swap = SwapOutRequestMessage_Validate m"
| "PeerMessage_Validate (MsgSwapOutAgreement m) swap = SwapOutAgreementMessage_Validate m"
| "PeerMessage_Validate (MsgOpeningTxBroadcasted m) swap = OpeningTxBroadcastedMessage_Validate m swap"
| "PeerMessage_Validate (MsgCancel m) swap = None"
| "PeerMessage_Validate (MsgCoopClose m) swap = CoopCloseMessage_Validate m"

section \<open>Applying a message to the swap data\<close>

definition SwapInRequestMessage_ApplyToSwapData ::
  "SwapInRequestMessage \<Rightarrow> SwapData \<Rightarrow> go_error option \<times> SwapData" where
  "SwapInRequestMessage_ApplyToSwapData m swap =
     (if SwapInRequest swap \<noteq> None then (Some AlreadyExistsError, swap) else (None, swap\<lparr>SwapInRequest := Some m\<rparr>))"

definition SwapInAgreementMessage_ApplyToSwapData ::
  "SwapInAgreementMessage \<Rightarrow> SwapData \<Rightarrow> go_error option \<times> SwapData" where
  "SwapInAgreementMessage_ApplyToSwapData m swap =
     (if SwapInAgreement swap \<noteq> None then (Some AlreadyExistsError, swap) else (None, swap\<lparr>SwapInAgreement := Some m\<rparr>))"

definition SwapOutRequestMessage_ApplyToSwapData ::
  "SwapOutRequestMessage \<Rightarrow> SwapData \<Rightarrow> go_error option \<times> SwapData" where
  "SwapOutRequestMessage_ApplyToSwapData m swap =
     (if SwapOutRequest swap \<noteq> None then (Some AlreadyExistsError, swap) else (None, swap\<lparr>SwapOutRequest := Some m\<rparr>))"

definition SwapOutAgreementMessage_ApplyToSwapData ::
  "SwapOutAgreementMessage \<Rightarrow> SwapData \<Rightarrow> go_error option \<times> SwapData" where
  "SwapOutAgreementMessage_ApplyToSwapData m swap =
     (if SwapOutAgreement swap \<noteq> None then (Some AlreadyExistsError, swap) else (None, swap\<lparr>SwapOutAgreement := Some m\<rparr>))"

definition OpeningTxBroadcastedMessage_ApplyToSwapData ::
  "OpeningTxBroadcastedMessage \<Rightarrow> SwapData \<Rightarrow> go_error option \<times> SwapData" where
  "OpeningTxBroadcastedMessage_ApplyToSwapData m swap =
     (if OpeningTxBroadcasted swap \<noteq> None then (Some AlreadyExistsError, swap) else (None, swap\<lparr>OpeningTxBroadcasted := Some m\<rparr>))"

definition CancelMessage_ApplyToSwapData ::
  "CancelMessage \<Rightarrow> SwapData \<Rightarrow> go_error option \<times> SwapData" where
  "CancelMessage_ApplyToSwapData m swap = (None, swap\<lparr>Cancel := Some m\<rparr>)"

definition CoopCloseMessage_ApplyToSwapData ::
  "CoopCloseMessage \<Rightarrow> SwapData \<Rightarrow> go_error option \<times> SwapData" where
  "CoopCloseMessage_ApplyToSwapData m swap =
     (if CoopClose swap \<noteq> None then (Some AlreadyExistsError, swap) else (None, swap\<lparr>CoopClose := Some m\<rparr>))"

fun PeerMessage_ApplyToSwapData :: "PeerMessage \<Rightarrow> SwapData \<Rightarrow> go_error option \<times> SwapData" where
  "PeerMessage_ApplyToSwapData (MsgSwapInRequest m) swap = SwapInRequestMessage_ApplyToSwapData m swap"
| "PeerMessage_ApplyToSwapData (MsgSwapInAgreement m) swap = SwapInAgreementMessage_ApplyToSwapData m swap"
| "PeerMessage_ApplyToSwapData (MsgSwapOutRequest m) swap = SwapOutRequestMessage_ApplyToSwapData m swap"
| "PeerMessage_ApplyToSwapData (MsgSwapOutAgreement m) swap = SwapOutAgreementMessage_ApplyToSwapData m swap"
| "PeerMessage_ApplyToSwapData (MsgOpeningTxBroadcasted m) swap = OpeningTxBroadcastedMessage_ApplyToSwapData m swap"
| "PeerMessage_ApplyToSwapData (MsgCancel m) swap = CancelMessage_ApplyToSwapData m swap"
| "PeerMessage_ApplyToSwapData (MsgCoopClose m) swap = CoopCloseMessage_ApplyToSwapData m swap"

text \<open>An event context is a message or an error with the flag that tells the peer about it.\<close>

datatype EventContext = MsgCtx PeerMessage | SwapErrorContext "go_error option" bool

fun EventContext_Validate :: "EventContext \<Rightarrow> SwapData \<Rightarrow> go_error option" where
  "EventContext_Validate (MsgCtx m) swap = PeerMessage_Validate m swap"
| "EventContext_Validate (SwapErrorContext _ _) swap = None"

fun EventContext_ApplyToSwapData :: "EventContext \<Rightarrow> SwapData \<Rightarrow> go_error option \<times> SwapData" where
  "EventContext_ApplyToSwapData (MsgCtx m) swap = PeerMessage_ApplyToSwapData m swap"
| "EventContext_ApplyToSwapData (SwapErrorContext err sendPeer) swap = (None, (case err of
     None \<Rightarrow> swap
   | Some e \<Rightarrow> (let swap = swap\<lparr>LastErr := Some e, LastErrString := Error e\<rparr>
                in if sendPeer then swap\<lparr>CancelMsg := Error e\<rparr> else swap)))"

text \<open>\<open>MarshalPeerswapMessage\<close>: the bytes are the message; marshalling these structs cannot fail.\<close>

definition MarshalPeerswapMessage :: "PeerMessage \<Rightarrow> PeerMessage \<times> int" where
  "MarshalPeerswapMessage msg = (msg, PeerMessage_MessageType msg)"

section \<open>What validation guarantees\<close>

lemmas ApplyToSwapData_defs [simp] =
  SwapInRequestMessage_ApplyToSwapData_def
  SwapInAgreementMessage_ApplyToSwapData_def
  SwapOutRequestMessage_ApplyToSwapData_def
  SwapOutAgreementMessage_ApplyToSwapData_def
  OpeningTxBroadcastedMessage_ApplyToSwapData_def
  CancelMessage_ApplyToSwapData_def
  CoopCloseMessage_ApplyToSwapData_def

lemma validateHexString_None:
  "validateHexString p s n = None \<longleftrightarrow> (\<exists>data. hex_DecodeString s = (data, None) \<and> length data = n)"
  by (auto simp: validateHexString_def split: option.splits prod.splits)

lemma validateAssetAndNetwork_None:
  "validateAssetAndNetwork a n = None \<Longrightarrow> (a = '''') \<noteq> (n = '''')"
  by (auto simp: validateAssetAndNetwork_def split: if_splits)

text \<open>The data of a swap that has not seen a request.\<close>

definition no_request :: "SwapData \<Rightarrow> bool" where
  "no_request d \<longleftrightarrow> SwapInRequest d = None \<and> SwapOutRequest d = None"

definition is_request :: "PeerMessage \<Rightarrow> bool" where
  "is_request m \<longleftrightarrow> (case m of MsgSwapInRequest _ \<Rightarrow> True | MsgSwapOutRequest _ \<Rightarrow> True | _ \<Rightarrow> False)"

text \<open>A request that passes validation selects exactly one chain: applied to the data of a new
  swap it makes \<open>GetChain\<close> the Bitcoin chain or the Liquid chain, according to which of network and
  asset is set.\<close>

theorem validated_request_selects_chain:
  assumes "is_request m" "no_request d" "PeerMessage_Validate m d = None"
    and "PeerMessage_ApplyToSwapData m d = (e, d')"
  shows "e = None \<and> GetRequest d' = Some m \<and>
     (GetChain d' = btc_chain \<and> GetNetwork d' \<noteq> '''' \<and> GetAsset d' = '''' \<or>
      GetChain d' = l_btc_chain \<and> GetAsset d' \<noteq> '''' \<and> GetNetwork d' = '''')"
proof (cases m)
  case (MsgSwapInRequest r)
  then show ?thesis
    using assms validateAssetAndNetwork_None [of "sir_Asset r" "sir_Network r"]
    by (auto simp: no_request_def SwapInRequestMessage_Validate_def GetChain_def GetNetwork_def
        GetAsset_def GetRequest_def)
next
  case (MsgSwapOutRequest r)
  then show ?thesis
    using assms validateAssetAndNetwork_None [of "sor_Asset r" "sor_Network r"]
    by (auto simp: no_request_def SwapOutRequestMessage_Validate_def GetChain_def GetNetwork_def
        GetAsset_def GetRequest_def)
qed (use assms in \<open>auto simp: is_request_def\<close>)

definition sample_pubkey :: string where "sample_pubkey = hex_EncodeToString (replicate 33 2)"

lemma validateHexString_encode [simp]:
  "validateHexString p (hex_EncodeToString bs) n = None \<longleftrightarrow> length bs = n"
  by (simp add: validateHexString_def hex_decode_encode)

definition sample_out_request :: SwapOutRequestMessage where
  "sample_out_request = \<lparr>sor_ProtocolVersion = 7, sor_SwapId = Some (replicate 32 1), sor_Asset = '''',
     sor_Network = ''regtest'', sor_Scid = ''1x2x3'', sor_Amount = 100000,
     sor_Pubkey = sample_pubkey, sor_PremiumLimit = 500\<rparr>"

lemma sample_scid_valid: "validateScid ''1x2x3'' = None"
  by (simp add: validateScid_def strconv_Atoi_def numeral_2_eq_2
      strconv_ParseInt_def parse_sign_def digits_of_def from_hex_char_def digits_value_def Let_def)

lemma sample_out_request_valid: "SwapOutRequestMessage_Validate sample_out_request = None"
  by (simp add: SwapOutRequestMessage_Validate_def sample_out_request_def sample_pubkey_def
      validateAssetAndNetwork_def validateNetwork_def sample_scid_valid)

theorem validated_request_selects_chain_witness:
  "GetChain (empty_SwapData\<lparr>SwapOutRequest := Some sample_out_request\<rparr>) = btc_chain"
  using validated_request_selects_chain [of "MsgSwapOutRequest sample_out_request" empty_SwapData None
      "empty_SwapData\<lparr>SwapOutRequest := Some sample_out_request\<rparr>"]
  by (simp add: is_request_def no_request_def empty_SwapData_def sample_out_request_valid
      GetAsset_def) (simp add: sample_out_request_def)

text \<open>A protocol message other than a cancel is accepted once: after it was applied, any further
  message of the same type is answered with \<open>AlreadyExistsError\<close> and changes nothing.\<close>

theorem message_applied_once:
  assumes "PeerMessage_ApplyToSwapData m d = (None, d')"
    and "PeerMessage_MessageType m' = PeerMessage_MessageType m"
    and "PeerMessage_MessageType m \<noteq> MESSAGETYPE_CANCELED"
  shows "PeerMessage_ApplyToSwapData m' d' = (Some AlreadyExistsError, d')"
  using assms by (cases m; cases m') (auto simp: msgtype_defs split: if_splits)

theorem message_applied_once_witness:
  "PeerMessage_ApplyToSwapData (MsgSwapOutRequest (sample_out_request\<lparr>sor_Amount := 1\<rparr>))
     (empty_SwapData\<lparr>SwapOutRequest := Some sample_out_request\<rparr>) =
   (Some AlreadyExistsError, empty_SwapData\<lparr>SwapOutRequest := Some sample_out_request\<rparr>)"
  using message_applied_once [of "MsgSwapOutRequest sample_out_request" empty_SwapData
      "empty_SwapData\<lparr>SwapOutRequest := Some sample_out_request\<rparr>"
      "MsgSwapOutRequest (sample_out_request\<lparr>sor_Amount := 1\<rparr>)"]
  by (simp add: empty_SwapData_def msgtype_defs)

text \<open>\<open>validateScid\<close> accepts a text exactly when it splits into three parts at the separator
  (\<open>x\<close> if it occurs, else a colon) and the third part is a decimal integer; the first two parts are
  not checked.\<close>

theorem validateScid_accepts_iff:
  "validateScid scid = None \<longleftrightarrow>
     (\<exists>a b c n. strings_Split (if CHR ''x'' \<in> set scid then CHR ''x'' else CHR '':'') scid = [a, b, c] \<and>
        strconv_Atoi c = Inr n)"
proof -
  define sep where "sep = (if CHR ''x'' \<in> set scid then CHR ''x'' else CHR '':'')"
  have three: "length p = 3 \<longleftrightarrow> (\<exists>a b c. p = [a, b, c])" for p :: "string list"
    by (auto simp: numeral_eq_Suc length_Suc_conv)
  have ok: "\<not> isl_err r \<longleftrightarrow> (\<exists>n. r = Inr n)" for r :: "num_error + int"
    by (cases r) auto
  have "length (strings_Split sep scid) \<noteq> 3" if "sep \<notin> set scid"
    using that by (simp add: length_strings_Split count_list_0_iff)
  moreover have "sep \<notin> set scid \<longleftrightarrow> CHR ''x'' \<notin> set scid \<and> CHR '':'' \<notin> set scid"
    by (simp add: sep_def)
  ultimately have "validateScid scid = None \<longleftrightarrow> length (strings_Split sep scid) = 3 \<and>
      \<not> isl_err (strconv_Atoi (strings_Split sep scid ! 2))"
    unfolding validateScid_def Let_def sep_def [symmetric] by auto
  then show ?thesis
    unfolding sep_def [symmetric] by (auto simp: three ok)
qed

text \<open>A swap id printed in hexadecimal parses back to the same id, and every text that parses
  gives a 32 byte id.\<close>

theorem swap_id_roundtrip:
  "(length ident = 32 \<longrightarrow> ParseSwapIdFromString (SwapId_String (Some ident)) = Inr ident) \<and>
   (ParseSwapIdFromString s = Inr i \<longrightarrow> length i = 32 \<and> length s = 64)"
  by (auto simp: ParseSwapIdFromString_def SwapId_String_def hex_decode_encode
      split: prod.splits option.splits if_splits dest: hex_DecodeString_length)

theorem swap_id_roundtrip_witness:
  "ParseSwapIdFromString (SwapId_String (Some (replicate 32 171))) = Inr (replicate 32 171)"
  using swap_id_roundtrip [of "replicate 32 171"] by simp

end
