(* ===== verification/PS_Bolt.thy ===== *)
theory PS_Bolt
  imports PS_Errors
begin

text \<open>
  The embedded database (bbolt, a third-party package).  A bucket is the map from keys to values it
  stores, \<open>None\<close> while the bucket does not exist.  Whether a transaction can be started, a key
  written and a transaction committed is decided by the environment: \<open>bolt_env\<close> is a parameter of
  every store operation, read at the tick of the transaction.  Values are kept as the records that
  the program marshals into them.
\<close>

record bolt_env =
  bolt_Begin :: "nat \<Rightarrow> go_error option"
  bolt_Put :: "nat \<Rightarrow> byte list \<Rightarrow> go_error option"
  bolt_Delete :: "nat \<Rightarrow> byte list \<Rightarrow> go_error option"
  bolt_Commit :: "nat \<Rightarrow> go_error option"

type_synonym 'v bucket = "(byte list \<rightharpoonup> 'v) option"

text \<open>The conversion \<open>[]byte(s)\<close>.\<close>

definition bytes_of_string :: "string \<Rightarrow> byte list" where
  "bytes_of_string s = map of_char s"

lemma of_char_byte_inject: "(of_char c :: byte) = of_char d \<longleftrightarrow> c = d"
proof
  assume "(of_char c :: byte) = of_char d"
  then have "unat (of_char c :: byte) = unat (of_char d :: byte)" by simp
  moreover have "unat (of_char x :: byte) = of_char x" for x :: char
  proof -
    have "(of_char x :: byte) = of_nat (of_char x)"
      by (simp add: of_nat_of_char)
    moreover have "(of_char x :: nat) < 256"
      using of_char_of [of "of_char x :: nat"] by (metis char_of_char mod_less_divisor zero_less_numeral)
    ultimately show ?thesis by (simp add: unat_of_nat)
  qed
  ultimately show "c = d" by simp
qed simp

lemma bytes_of_string_inject [simp]: "bytes_of_string a = bytes_of_string b \<longleftrightarrow> a = b"
  unfolding bytes_of_string_def
  by (rule inj_map_eq_map) (simp add: inj_def of_char_byte_inject)

section \<open>Transactions\<close>

text \<open>\<open>db.Update(f)\<close>: a failing body or a failing commit leaves the bucket as it was.\<close>

definition db_Update ::
  "bolt_env \<Rightarrow> nat \<Rightarrow> ('v bucket \<Rightarrow> go_error + 'v bucket) \<Rightarrow> 'v bucket \<Rightarrow> go_error option \<times> 'v bucket" where
  "db_Update env t f b = (case bolt_Begin env t of
     Some e \<Rightarrow> (Some e, b)
   | None \<Rightarrow> (case f b of
       Inl e \<Rightarrow> (Some e, b)
     | Inr b' \<Rightarrow> (case bolt_Commit env t of Some e \<Rightarrow> (Some e, b) | None \<Rightarrow> (None, b'))))"

text \<open>\<open>db.View(f)\<close>.\<close>

definition db_View :: "bolt_env \<Rightarrow> nat \<Rightarrow> ('v bucket \<Rightarrow> go_error + 'a) \<Rightarrow> 'v bucket \<Rightarrow> go_error + 'a" where
  "db_View env t f b = (case bolt_Begin env t of Some e \<Rightarrow> Inl e | None \<Rightarrow> f b)"

text \<open>\<open>bucket.Put\<close> inside a transaction.\<close>

definition bucket_Put ::
  "bolt_env \<Rightarrow> nat \<Rightarrow> byte list \<Rightarrow> 'v \<Rightarrow> (byte list \<rightharpoonup> 'v) \<Rightarrow> go_error + 'v bucket" where
  "bucket_Put env t k v m = (case bolt_Put env t k of
     Some e \<Rightarrow> Inl e | None \<Rightarrow> Inr (Some (m(k \<mapsto> v))))"

definition bucket_Delete ::
  "bolt_env \<Rightarrow> nat \<Rightarrow> byte list \<Rightarrow> (byte list \<rightharpoonup> 'v) \<Rightarrow> go_error + 'v bucket" where
  "bucket_Delete env t k m = (case bolt_Delete env t k of
     Some e \<Rightarrow> Inl e | None \<Rightarrow> Inr (Some (m(k := None))))"

text \<open>\<open>CreateBucketIfNotExists\<close> in a transaction of its own.\<close>

definition create_bucket :: "bolt_env \<Rightarrow> nat \<Rightarrow> 'v bucket \<Rightarrow> go_error option \<times> 'v bucket" where
  "create_bucket env t b = db_Update env t
     (\<lambda>b. Inr (case b of None \<Rightarrow> Some Map.empty | Some m \<Rightarrow> Some m)) b"

text \<open>An environment in which every transaction succeeds.\<close>

definition bolt_ok :: bolt_env where
  "bolt_ok = \<lparr>bolt_Begin = (\<lambda>_. None), bolt_Put = (\<lambda>_ _. None),
     bolt_Delete = (\<lambda>_ _. None), bolt_Commit = (\<lambda>_. None)\<rparr>"

lemma bolt_ok_simps [simp]:
  "bolt_Begin bolt_ok t = None" "bolt_Put bolt_ok t k = None"
  "bolt_Delete bolt_ok t k = None" "bolt_Commit bolt_ok t = None"
  by (simp_all add: bolt_ok_def)

lemma db_Update_error_keeps:
  "db_Update env t f b = (Some e, b') \<Longrightarrow> b' = b"
  by (auto simp: db_Update_def split: option.splits sum.splits)

lemma db_Update_success:
  "db_Update env t f b = (None, b') \<longleftrightarrow>
     bolt_Begin env t = None \<and> f b = Inr b' \<and> bolt_Commit env t = None"
  by (auto simp: db_Update_def split: option.splits sum.splits)

lemma create_bucket_exists:
  "create_bucket env t b = (None, b') \<Longrightarrow> b' \<noteq> None"
  by (auto simp: create_bucket_def db_Update_success split: option.splits)

end
