(* ===== verification/PS_Store.thy ===== *)
theory PS_Store
  imports PS_SwapMessages PS_Bolt "HOL-Library.List_Lexorder"
begin

text \<open>
  The persisted state (\<open>swap/store.go\<close>): one record per swap, written on every step of a state
  machine, and the log of rejected swap requests with its summary (\<open>swap/requestedswaps.go\<close>).
  Records are stored as what \<open>json.Marshal\<close> keeps of them.
\<close>

section \<open>State machines as stored\<close>

record SwapStateMachine =
  sm_SwapId :: "SwapId option"
  sm_Data :: SwapData
  sm_Type :: SwapType
  sm_Role :: SwapRole
  sm_Previous :: StateType
  sm_Current :: StateType
  sm_retries :: nat

text \<open>
  What a JSON round trip keeps of a state machine: the fields without a JSON name (\<open>LastErr\<close>, the
  timeout's cancel function, the retry counter) are reset.
\<close>

definition persisted :: "SwapStateMachine \<Rightarrow> SwapStateMachine" where
  "persisted sm = sm\<lparr>sm_retries := 0, sm_Data := (sm_Data sm)\<lparr>LastErr := None, toCancelSet := False\<rparr>\<rparr>"

lemma persisted_idem [simp]: "persisted (persisted sm) = persisted sm"
  by (simp add: persisted_def)

type_synonym swap_bucket = "SwapStateMachine bucket"

section \<open>The swap store\<close>

definition h2b :: "string \<Rightarrow> byte list" where
  "h2b str = fst (hex_DecodeString str)"

definition sm_key :: "SwapStateMachine \<Rightarrow> byte list" where
  "sm_key sm = h2b (SwapId_String (sm_SwapId sm))"

definition err_bucket_nil :: go_error where "err_bucket_nil = ErrText ''bucket nil''"

definition NewBboltStore :: "bolt_env \<Rightarrow> nat \<Rightarrow> swap_bucket \<Rightarrow> go_error option \<times> swap_bucket" where
  "NewBboltStore env t b = create_bucket env t b"

definition GetById :: "bolt_env \<Rightarrow> nat \<Rightarrow> string \<Rightarrow> swap_bucket \<Rightarrow> go_error + SwapStateMachine" where
  "GetById env t s b = db_View env t (\<lambda>b. case b of
     None \<Rightarrow> Inl err_bucket_nil
   | Some m \<Rightarrow> (case m (h2b s) of None \<Rightarrow> Inl ErrDoesNotExist | Some sm \<Rightarrow> Inr sm)) b"

definition idExists :: "bolt_env \<Rightarrow> nat \<Rightarrow> string \<Rightarrow> swap_bucket \<Rightarrow> go_error + bool" where
  "idExists env t ident b = (case GetById env t ident b of
     Inl e \<Rightarrow> if e = ErrDoesNotExist then Inr False else Inl e
   | Inr _ \<Rightarrow> Inr True)"

text \<open>The write transaction shared by \<open>Create\<close> and \<open>Update\<close>.\<close>

definition put_swap :: "bolt_env \<Rightarrow> nat \<Rightarrow> SwapStateMachine \<Rightarrow> swap_bucket \<Rightarrow> go_error option \<times> swap_bucket" where
  "put_swap env t sm b = db_Update env t (\<lambda>b. case b of
     None \<Rightarrow> Inl err_bucket_nil
   | Some m \<Rightarrow> bucket_Put env t (sm_key sm) (persisted sm) m) b"

definition Create :: "bolt_env \<Rightarrow> nat \<Rightarrow> SwapStateMachine \<Rightarrow> swap_bucket \<Rightarrow> go_error option \<times> swap_bucket" where
  "Create env t sm b = (case idExists env t (SwapId_String (sm_SwapId sm)) b of
     Inl e \<Rightarrow> (Some e, b)
   | Inr ex \<Rightarrow> if ex then (Some ErrAlreadyExists, b) else put_swap env (Suc t) sm b)"

definition Update :: "bolt_env \<Rightarrow> nat \<Rightarrow> SwapStateMachine \<Rightarrow> swap_bucket \<Rightarrow> go_error option \<times> swap_bucket" where
  "Update env t sm b = (case idExists env t (SwapId_String (sm_SwapId sm)) b of
     Inl e \<Rightarrow> (Some e, b)
   | Inr ex \<Rightarrow> if \<not> ex then (Some ErrDoesNotExist, b) else put_swap env (Suc t) sm b)"

definition UpdateData :: "bolt_env \<Rightarrow> nat \<Rightarrow> SwapStateMachine \<Rightarrow> swap_bucket \<Rightarrow> go_error option \<times> swap_bucket" where
  "UpdateData env t sm b = (case Update env t sm b of (err, b) \<Rightarrow>
     if err = Some ErrDoesNotExist then Create env (t + 2) sm b else (err, b))"

definition GetData :: "bolt_env \<Rightarrow> nat \<Rightarrow> string \<Rightarrow> swap_bucket \<Rightarrow> go_error + SwapStateMachine" where
  "GetData env t ident b = (case GetById env t ident b of
     Inl e \<Rightarrow> if e = ErrDoesNotExist then Inl ErrDataNotAvailable else Inl e
   | Inr sm \<Rightarrow> Inr sm)"

definition DeleteById :: "bolt_env \<Rightarrow> nat \<Rightarrow> string \<Rightarrow> swap_bucket \<Rightarrow> go_error option \<times> swap_bucket" where
  "DeleteById env t s b = db_Update env t (\<lambda>b. case b of
     None \<Rightarrow> Inl err_bucket_nil
   | Some m \<Rightarrow> bucket_Delete env t (h2b s) m) b"

text \<open>\<open>ForEach\<close> visits the keys in byte order.\<close>

definition bucket_values :: "(byte list \<rightharpoonup> 'v) \<Rightarrow> 'v list" where
  "bucket_values m = map (\<lambda>k. the (m k)) (sorted_list_of_set (dom m))"

definition ListAll :: "bolt_env \<Rightarrow> nat \<Rightarrow> swap_bucket \<Rightarrow> go_error + SwapStateMachine list" where
  "ListAll env t b = db_View env t (\<lambda>b. case b of
     None \<Rightarrow> Inl err_bucket_nil | Some m \<Rightarrow> Inr (bucket_values m)) b"

definition ListAllByPeer :: "bolt_env \<Rightarrow> nat \<Rightarrow> string \<Rightarrow> swap_bucket \<Rightarrow> go_error + SwapStateMachine list" where
  "ListAllByPeer env t peer b = db_View env t (\<lambda>b. case b of
     None \<Rightarrow> Inl err_bucket_nil
   | Some m \<Rightarrow> Inr (filter (\<lambda>sm. PeerNodeId (sm_Data sm) = peer) (bucket_values m))) b"

section \<open>Requested swaps\<close>

record RequestedSwap =
  rs_Asset :: string
  rs_AmountSat :: u64
  rs_Type :: SwapType
  rs_RejectionReason :: string

type_synonym requested_bucket = "RequestedSwap list bucket"

definition NewRequestedSwapsStore :: "bolt_env \<Rightarrow> nat \<Rightarrow> requested_bucket \<Rightarrow> go_error option \<times> requested_bucket" where
  "NewRequestedSwapsStore env t b = create_bucket env t b"

text \<open>The methods dereference the bucket unchecked: \<open>None\<close> is the panic when it does not exist.\<close>

definition req_Add ::
  "bolt_env \<Rightarrow> nat \<Rightarrow> string \<Rightarrow> RequestedSwap \<Rightarrow> requested_bucket \<Rightarrow> (go_error option \<times> requested_bucket) option" where
  "req_Add env t ident reqswap b = (case b of
     None \<Rightarrow> (case bolt_Begin env t of Some e \<Rightarrow> Some (Some e, b) | None \<Rightarrow> None)
   | Some m \<Rightarrow> Some (db_Update env t (\<lambda>_. bucket_Put env t (bytes_of_string ident)
        (case m (bytes_of_string ident) of None \<Rightarrow> [reqswap] | Some reqswaps \<Rightarrow> reqswaps @ [reqswap]) m) b))"

definition req_GetAll :: "bolt_env \<Rightarrow> nat \<Rightarrow> requested_bucket \<Rightarrow> (go_error + (string \<rightharpoonup> RequestedSwap list)) option" where
  "req_GetAll env t b = (case bolt_Begin env t of Some e \<Rightarrow> Some (Inl e) | None \<Rightarrow> (case b of
     None \<Rightarrow> None
   | Some m \<Rightarrow> Some (Inr (\<lambda>ident. m (bytes_of_string ident)))))"

definition req_Get :: "bolt_env \<Rightarrow> nat \<Rightarrow> string \<Rightarrow> requested_bucket \<Rightarrow> (go_error + RequestedSwap list) option" where
  "req_Get env t ident b = (case bolt_Begin env t of Some e \<Rightarrow> Some (Inl e) | None \<Rightarrow> (case b of
     None \<Rightarrow> None
   | Some m \<Rightarrow> Some (case m (bytes_of_string ident) of
       None \<Rightarrow> Inl (ErrText ''unexpected end of JSON input'') | Some rs \<Rightarrow> Inr rs)))"

record JsonAssetRequest =
  TotalAmountSat :: u64
  NRequests :: u64

type_synonym requests_summary = "string \<rightharpoonup> (string \<rightharpoonup> JsonAssetRequest)"

text \<open>One round of the inner loop of \<open>RequestedSwapsPrinter.Get\<close>.\<close>

definition summary_step :: "requests_summary \<Rightarrow> RequestedSwap \<Rightarrow> requests_summary" where
  "summary_step reqs r =
     (let ty = SwapType_JsonFieldValue (rs_Type r);
          byAsset = (case reqs ty of None \<Rightarrow> Map.empty | Some m \<Rightarrow> m)
      in reqs(ty \<mapsto> (case byAsset (rs_Asset r) of
           None \<Rightarrow> byAsset(rs_Asset r \<mapsto> \<lparr>TotalAmountSat = rs_AmountSat r, NRequests = 1\<rparr>)
         | Some e \<Rightarrow> byAsset(rs_Asset r \<mapsto> \<lparr>TotalAmountSat = TotalAmountSat e + rs_AmountSat r,
                                             NRequests = NRequests e + 1\<rparr>))))"

definition RequestedSwapsPrinter_Get ::
  "bolt_env \<Rightarrow> nat \<Rightarrow> requested_bucket \<Rightarrow> (go_error + (string \<rightharpoonup> requests_summary)) option" where
  "RequestedSwapsPrinter_Get env t b = map_option (\<lambda>r. case r of
     Inl e \<Rightarrow> Inl (ErrWrap ''error reading requested swaps'' e)
   | Inr reqswaps \<Rightarrow> Inr (\<lambda>nodeId. map_option (foldl summary_step Map.empty) (reqswaps nodeId))) (req_GetAll env t b)"

section \<open>The contract of the swap store\<close>

text \<open>A run of writes, each at its tick; a failing write changes nothing and is not recorded.\<close>

fun run_writes :: "(nat \<Rightarrow> 'v \<Rightarrow> 's \<Rightarrow> go_error option \<times> 's) \<Rightarrow> (nat \<times> 'v) list \<Rightarrow> 's \<Rightarrow> 's \<times> 'v list" where
  "run_writes upd [] s = (s, [])"
| "run_writes upd ((t, v) # ws) s = (case upd t v s of
     (Some e, s') \<Rightarrow> run_writes upd ws s'
   | (None, s') \<Rightarrow> (case run_writes upd ws s' of (s'', written) \<Rightarrow> (s'', v # written)))"

text \<open>
  A store of values under keys.  \<open>upd\<close> writes, \<open>get\<close> reads at a tick where reading does not fail
  (\<open>readable\<close>), \<open>img\<close> is what the store keeps of a value.
\<close>

locale kv_store =
  fixes key :: "'v \<Rightarrow> 'k"
    and img :: "'v \<Rightarrow> 'v"
    and upd :: "nat \<Rightarrow> 'v \<Rightarrow> 's \<Rightarrow> go_error option \<times> 's"
    and get :: "nat \<Rightarrow> 'k \<Rightarrow> 's \<Rightarrow> 'v option"
    and readable :: "nat \<Rightarrow> bool"
  assumes get_upd_same: "upd t v s = (None, s') \<Longrightarrow> readable t' \<Longrightarrow> get t' (key v) s' = Some (img v)"
    and get_upd_other: "upd t v s = (None, s') \<Longrightarrow> k \<noteq> key v \<Longrightarrow> get t' k s' = get t' k s"
    and upd_failed: "upd t v s = (Some e, s') \<Longrightarrow> s' = s"
begin

lemma run_last_write:
  assumes "run_writes upd ws s = (s', written)" "readable t'"
  shows "get t' k s' = (case filter (\<lambda>v. key v = k) written of [] \<Rightarrow> get t' k s
           | vs \<Rightarrow> Some (img (last vs)))"
  using assms(1)
proof (induction ws arbitrary: s written)
  case (Cons w ws)
  obtain t v where w: "w = (t, v)" by (cases w)
  obtain e s1 where u: "upd t v s = (e, s1)" by (cases "upd t v s")
  obtain d2 where r: "run_writes upd ws s1 = (s', d2)"
    using Cons.prems u w by (auto split: option.splits prod.splits)
  show ?case
  proof (cases e)
    case (Some err)
    then have s1: "s1 = s" using u upd_failed by blast
    have "written = d2" using Cons.prems u w Some r by simp
    then show ?thesis using Cons.IH [OF r] unfolding s1 by simp
  next
    case None
    then have "written = v # d2" using Cons.prems u w r by auto
    then show ?thesis
      using Cons.IH [OF r] u None get_upd_same [of t v s s1 t'] get_upd_other [of t v s s1 k t'] assms(2)
      by (auto split: list.splits)
  qed
qed simp

end

text \<open>The bucket's own view: the record under a key, read in a transaction that starts.\<close>

definition stored_at :: "bolt_env \<Rightarrow> nat \<Rightarrow> byte list \<Rightarrow> swap_bucket \<Rightarrow> SwapStateMachine option" where
  "stored_at env t k b = (case GetById env t (hex_EncodeToString k) b of Inl _ \<Rightarrow> None | Inr sm \<Rightarrow> Some sm)"

lemma h2b_hex [simp]: "h2b (hex_EncodeToString k) = k"
  by (simp add: h2b_def hex_decode_encode)

lemma GetById_Inr:
  "GetById env t s b = Inr sm \<longleftrightarrow> bolt_Begin env t = None \<and> (\<exists>m. b = Some m \<and> m (h2b s) = Some sm)"
  by (auto simp: GetById_def db_View_def split: option.splits)

lemma put_swap_success:
  "put_swap env t sm b = (None, b') \<Longrightarrow> \<exists>m. b = Some m \<and> b' = Some (m(sm_key sm \<mapsto> persisted sm))"
  by (auto simp: put_swap_def db_Update_success bucket_Put_def split: option.splits)

lemma put_swap_failed: "put_swap env t sm b = (Some e, b') \<Longrightarrow> b' = b"
  unfolding put_swap_def by (rule db_Update_error_keeps)

text \<open>Both writers either fail and change nothing or run the write transaction.\<close>

lemma Update_cases:
  "Update env t sm b = (e, b') \<Longrightarrow> e \<noteq> None \<and> b' = b \<or> put_swap env (Suc t) sm b = (e, b')"
  by (auto simp: Update_def split: sum.splits if_splits)

lemma Create_cases:
  "Create env t sm b = (e, b') \<Longrightarrow> e \<noteq> None \<and> b' = b \<or> put_swap env (Suc t) sm b = (e, b')"
  by (auto simp: Create_def split: sum.splits if_splits)

lemma UpdateData_cases:
  assumes "UpdateData env t sm b = (e, b')"
  shows "e \<noteq> None \<and> b' = b \<or> (\<exists>u. put_swap env u sm b = (e, b'))"
proof -
  obtain e1 b1 where u: "Update env t sm b = (e1, b1)" by (cases "Update env t sm b")
  show ?thesis
  proof (cases "e1 = Some ErrDoesNotExist")
    case True
    then have "b1 = b" using Update_cases [OF u] put_swap_failed by blast
    then have "Create env (t + 2) sm b = (e, b')" using assms u True by (simp add: UpdateData_def)
    then show ?thesis using Create_cases by blast
  next
    case False
    then show ?thesis using assms u Update_cases [OF u] by (auto simp: UpdateData_def)
  qed
qed

lemma UpdateData_success:
  assumes "UpdateData env t sm b = (None, b')"
  shows "\<exists>m. b = Some m \<and> b' = Some (m(sm_key sm \<mapsto> persisted sm))"
  using UpdateData_cases [OF assms] put_swap_success by blast

lemma UpdateData_failed: "UpdateData env t sm b = (Some e, b') \<Longrightarrow> b' = b"
  using UpdateData_cases [of env t sm b "Some e" b'] put_swap_failed by blast

interpretation swaps: kv_store sm_key persisted "UpdateData env" "stored_at env"
  "\<lambda>t. bolt_Begin env t = None" for env
proof
  fix t v s s' t'
  assume "UpdateData env t v s = (None, s')" "bolt_Begin env t' = None"
  then show "stored_at env t' (sm_key v) s' = Some (persisted v)"
    using UpdateData_success [of env t v s s']
    by (auto simp: stored_at_def GetById_def db_View_def)
next
  fix t v s s' k t'
  assume "UpdateData env t v s = (None, s')" "k \<noteq> sm_key v"
  then show "stored_at env t' k s' = stored_at env t' k s"
    using UpdateData_success [of env t v s s']
    by (auto simp: stored_at_def GetById_def db_View_def split: option.splits)
qed (rule UpdateData_failed)

section \<open>Correctness\<close>

text \<open>C13. The store keeps the last write: after any sequence of \<open>UpdateData\<close> calls on any swaps,
  some of which may fail, reading a swap id returns the last state machine successfully written
  under it, without the fields that have no JSON name, and what was stored before if none was.\<close>

theorem store_returns_last_write:
  assumes "run_writes (UpdateData env) ws b = (b', written)" "bolt_Begin env t = None"
  shows "stored_at env t k b' = (case filter (\<lambda>sm. sm_key sm = k) written of
      [] \<Rightarrow> stored_at env t k b | sms \<Rightarrow> Some (persisted (last sms)))"
  using swaps.run_last_write [OF assms] .

definition sample_sm :: SwapStateMachine where
  "sample_sm = \<lparr>sm_SwapId = Some (replicate 32 7), sm_Data = empty_SwapData, sm_Type = SWAPTYPE_OUT,
     sm_Role = SWAPROLE_SENDER, sm_Previous = Default, sm_Current = Default, sm_retries = 3\<rparr>"

lemma sm_key_hex [simp]: "sm_SwapId sm = Some bs \<Longrightarrow> sm_key sm = bs"
  by (simp add: sm_key_def SwapId_String_def)

theorem store_returns_last_write_witness:
  "stored_at bolt_ok 9 (replicate 32 7) (Some [replicate 32 7 \<mapsto> persisted sample_sm]) =
   Some (persisted sample_sm)"
proof -
  have key: "sm_key sample_sm = replicate 32 7" "h2b (SwapId_String (sm_SwapId sample_sm)) = replicate 32 7"
    by (simp_all add: sample_sm_def SwapId_String_def)
  have "run_writes (UpdateData bolt_ok) [(0, sample_sm)] (Some Map.empty) =
      (Some [replicate 32 7 \<mapsto> persisted sample_sm], [sample_sm])"
    by (simp add: UpdateData_def Update_def Create_def idExists_def GetById_def db_View_def
        put_swap_def db_Update_def bucket_Put_def key)
  from store_returns_last_write [OF this, of 9 "replicate 32 7"]
  show ?thesis by (simp add: key)
qed

text \<open>A swap without an id cannot be stored: if the database refuses an empty key, as bbolt
  documents, \<open>UpdateData\<close> of a machine whose swap id is nil fails on every database and changes
  nothing.\<close>

theorem nil_swap_id_not_stored:
  assumes "\<And>t. bolt_Put env t [] \<noteq> None" "sm_SwapId sm = None" "UpdateData env t sm b = (e, b')"
  shows "e \<noteq> None \<and> b' = b"
proof (cases e)
  case None
  have "sm_key sm = []"
    using assms(2) by (simp add: sm_key_def SwapId_String_def h2b_def)
  then have "put_swap env u sm c \<noteq> (None, d)" for u c d
    using assms(1) [of u] by (auto simp: put_swap_def db_Update_success bucket_Put_def split: option.splits)
  then show ?thesis using UpdateData_cases [OF assms(3)] None by blast
next
  case (Some err)
  then show ?thesis using assms(3) UpdateData_failed [of env t sm b err b'] by auto
qed

theorem nil_swap_id_not_stored_witness:
  "fst (UpdateData (bolt_ok\<lparr>bolt_Put := \<lambda>_ k. if k = [] then Some (ErrText ''key required'') else None\<rparr>)
     0 (sample_sm\<lparr>sm_SwapId := None\<rparr>) (Some Map.empty)) \<noteq> None"
  using nil_swap_id_not_stored [of "bolt_ok\<lparr>bolt_Put := \<lambda>_ k. if k = [] then Some (ErrText ''key required'') else None\<rparr>"
      "sample_sm\<lparr>sm_SwapId := None\<rparr>" 0 "Some Map.empty"] by (simp add: prod_eq_iff)

text \<open>The summary of a list of requests for one swap type and asset.\<close>

definition requests_for :: "string \<Rightarrow> string \<Rightarrow> RequestedSwap list \<Rightarrow> RequestedSwap list" where
  "requests_for ty asset rs = filter (\<lambda>r. SwapType_JsonFieldValue (rs_Type r) = ty \<and> rs_Asset r = asset) rs"

definition summary_at :: "requests_summary \<Rightarrow> string \<Rightarrow> string \<Rightarrow> JsonAssetRequest option" where
  "summary_at reqs ty asset = (case reqs ty of None \<Rightarrow> None | Some m \<Rightarrow> m asset)"

lemma summary_at_step:
  "summary_at (summary_step reqs r) ty asset =
     (if SwapType_JsonFieldValue (rs_Type r) = ty \<and> rs_Asset r = asset
      then Some (case summary_at reqs ty asset of
        None \<Rightarrow> \<lparr>TotalAmountSat = rs_AmountSat r, NRequests = 1\<rparr>
      | Some e \<Rightarrow> \<lparr>TotalAmountSat = TotalAmountSat e + rs_AmountSat r, NRequests = NRequests e + 1\<rparr>)
      else summary_at reqs ty asset)"
  by (auto simp: summary_at_def summary_step_def Let_def split: option.splits)

text \<open>The summary of the rejected requests adds them up: for every node, swap type and asset the
  printed entry has the sum of the amounts and the number of that node's requests of this type and
  asset, and there is no entry where there is no request (sums in 64 bits).\<close>

theorem requested_swaps_summary:
  "summary_at (foldl summary_step Map.empty rs) ty asset =
     (let sel = requests_for ty asset rs in
      if sel = [] then None
      else Some \<lparr>TotalAmountSat = sum_list (map rs_AmountSat sel), NRequests = of_nat (length sel)\<rparr>)"
proof (induction rs rule: rev_induct)
  case Nil
  then show ?case by (simp add: summary_at_def requests_for_def)
next
  case (snoc r rs)
  then show ?case
    by (simp add: summary_at_step requests_for_def Let_def add.commute)
qed

text \<open>Every recorded rejection is kept: after a successful \<open>Add\<close> the requests of that peer are
  the earlier ones followed by the new one, and those of other peers are unchanged.\<close>

theorem requested_swaps_append:
  assumes "req_Add env t ident r b = Some (None, b')" "bolt_Begin env t' = None"
    and "req_GetAll env t' b = Some (Inr old)"
  shows "req_GetAll env t' b' =
    Some (Inr (old(ident \<mapsto> (case old ident of None \<Rightarrow> [] | Some rs \<Rightarrow> rs) @ [r])))"
  using assms
  by (auto simp: req_Add_def req_GetAll_def db_Update_success bucket_Put_def fun_eq_iff
      split: option.splits)

theorem requested_swaps_append_witness:
  "req_GetAll bolt_ok 1 (Some (Map.empty(bytes_of_string ''n'' \<mapsto>
      [\<lparr>rs_Asset = ''btc'', rs_AmountSat = 5, rs_Type = SWAPTYPE_IN, rs_RejectionReason = ''no''\<rparr>]))) =
   Some (Inr [''n'' \<mapsto> [\<lparr>rs_Asset = ''btc'', rs_AmountSat = 5, rs_Type = SWAPTYPE_IN, rs_RejectionReason = ''no''\<rparr>]])"
proof -
  let ?r = "\<lparr>rs_Asset = ''btc'', rs_AmountSat = 5, rs_Type = SWAPTYPE_IN, rs_RejectionReason = ''no''\<rparr>"
  have "req_Add bolt_ok 0 ''n'' ?r (Some Map.empty) = Some (None, Some [bytes_of_string ''n'' \<mapsto> [?r]])"
    by (simp add: req_Add_def db_Update_def bucket_Put_def)
  from requested_swaps_append [OF this, of 1 Map.empty]
  show ?thesis by (simp add: req_GetAll_def)
qed

end
