(* ===== verification/PS_Policy.thy ===== *)
theory PS_Policy
  imports PS_Errors
begin

text \<open>
  Package \<open>policy\<close> (\<open>policy/policy.go\<close>): the peer lists and limits that decide which swaps are
  allowed, and the policy file they are read from and written to.  The file is its content
  (\<open>None\<close> while it does not exist).  Operating system failures and the ini parser of the
  \<open>go-flags\<close> package are the parameter \<open>os_env\<close>, read at the tick of the call; a failing write says
  how many bytes it wrote.
\<close>

section \<open>The policy and its environment\<close>

record Policy =
  path :: string
  ReserveOnchainMsat :: u64
  PeerAllowlist :: "string list"
  SuspiciousPeerList :: "string list"
  AcceptAllPeers :: bool
  MinSwapAmountMsat :: u64
  AllowNewSwaps :: bool

type_synonym policy_file = "string option"

record os_env =
  os_Abs :: "nat \<Rightarrow> string \<Rightarrow> go_error + string"
  os_MkdirAll :: "nat \<Rightarrow> string \<Rightarrow> go_error option"
  os_Open :: "nat \<Rightarrow> string \<Rightarrow> go_error option"
  os_OpenFile :: "nat \<Rightarrow> string \<Rightarrow> go_error option"
  os_Read :: "nat \<Rightarrow> go_error option"
  os_Write :: "nat \<Rightarrow> (nat \<times> go_error) option"
  ini_Parse :: "string \<Rightarrow> Policy \<Rightarrow> go_error + Policy"

definition DefaultPolicy :: Policy where
  "DefaultPolicy = \<lparr>path = '''', ReserveOnchainMsat = 0, PeerAllowlist = [], SuspiciousPeerList = [],
     AcceptAllPeers = False, MinSwapAmountMsat = 100000000, AllowNewSwaps = True\<rparr>"

section \<open>Queries\<close>

definition GetReserveOnchainMsat :: "Policy \<Rightarrow> u64" where
  "GetReserveOnchainMsat p = ReserveOnchainMsat p"

definition GetMinSwapAmountMsat :: "Policy \<Rightarrow> u64" where
  "GetMinSwapAmountMsat p = MinSwapAmountMsat p"

definition NewSwapsAllowed :: "Policy \<Rightarrow> bool" where
  "NewSwapsAllowed p = AllowNewSwaps p"

definition IsPeerAllowed :: "Policy \<Rightarrow> string \<Rightarrow> bool" where
  "IsPeerAllowed p peer = (if AcceptAllPeers p then True else peer \<in> set (PeerAllowlist p))"

definition IsPeerSuspicious :: "Policy \<Rightarrow> string \<Rightarrow> bool" where
  "IsPeerSuspicious p peer \<longleftrightarrow> peer \<in> set (SuspiciousPeerList p)"

text \<open>\<open>Get\<close> copies everything but the path.\<close>

definition Policy_Get :: "Policy \<Rightarrow> Policy" where
  "Policy_Get p = p\<lparr>path := ''''\<rparr>"

section \<open>Reading and writing the file\<close>

text \<open>
  \<open>bufio.Scanner\<close> with \<open>ScanLines\<close>: the lines without their newline and one trailing carriage
  return; a line of 65536 bytes or more is an error.
\<close>

definition NL :: char where "NL = CHR 0x0A"

fun raw_lines :: "string \<Rightarrow> string list" where
  "raw_lines [] = []"
| "raw_lines (c # s) = (if c = NL then [] # raw_lines s
     else (case raw_lines s of [] \<Rightarrow> [[c]] | l # ls \<Rightarrow> (c # l) # ls))"

definition drop_cr :: "string \<Rightarrow> string" where
  "drop_cr l = (if l \<noteq> [] \<and> last l = CHR 0x0D then butlast l else l)"

definition MaxScanTokenSize :: nat where "MaxScanTokenSize = 65536"

definition scan_lines :: "string \<Rightarrow> go_error + string list" where
  "scan_lines s = (if list_ex (\<lambda>l. MaxScanTokenSize \<le> length l) (raw_lines s)
     then Inl (ErrText ''bufio.Scanner: token too long'') else Inr (map drop_cr (raw_lines s)))"

definition unlines :: "string list \<Rightarrow> string" where
  "unlines ls = concat (map (\<lambda>l. l @ [NL]) ls)"

text \<open>A write that may stop early: \<open>pre\<close> is what the file holds before the data.\<close>

definition write_data :: "os_env \<Rightarrow> nat \<Rightarrow> string \<Rightarrow> string \<Rightarrow> go_error option \<times> policy_file" where
  "write_data os t pre data = (case os_Write os t of
     None \<Rightarrow> (None, Some (pre @ data))
   | Some (n, e) \<Rightarrow> (Some e, Some (pre @ take n data)))"

definition err_not_exist :: go_error where "err_not_exist = ErrText ''no such file or directory''"

definition addLineToFile :: "os_env \<Rightarrow> nat \<Rightarrow> string \<Rightarrow> string \<Rightarrow> policy_file \<Rightarrow> go_error option \<times> policy_file" where
  "addLineToFile os t filePath line f = (case os_OpenFile os t filePath of
     Some e \<Rightarrow> (Some e, f)
   | None \<Rightarrow> (case f of
       None \<Rightarrow> (Some err_not_exist, f)
     | Some content \<Rightarrow> write_data os t content (line @ [NL])))"

definition removeLineFromFile :: "os_env \<Rightarrow> nat \<Rightarrow> string \<Rightarrow> string \<Rightarrow> policy_file \<Rightarrow> go_error option \<times> policy_file" where
  "removeLineFromFile os t filePath line f = (case os_Open os t filePath of
     Some e \<Rightarrow> (Some e, f)
   | None \<Rightarrow> (case f of
       None \<Rightarrow> (Some err_not_exist, f)
     | Some content \<Rightarrow> (case os_Read os t of
         Some e \<Rightarrow> (Some e, f)
       | None \<Rightarrow> (case scan_lines content of
           Inl e \<Rightarrow> (Some e, f)
         | Inr ls \<Rightarrow> write_data os t [] (unlines (filter (\<lambda>l. l \<noteq> line) ls))))))"

text \<open>\<open>create\<close> parses the content over the default policy.\<close>

definition create_policy :: "os_env \<Rightarrow> string \<Rightarrow> go_error + Policy" where
  "create_policy os content = (case ini_Parse os content DefaultPolicy of
     Inl e \<Rightarrow> Inl (ErrCreatePolicy (Error e))
   | Inr p \<Rightarrow> Inr p)"

text \<open>
  \<open>ReloadFile\<close>: \<open>*p = *newp\<close> also overwrites the path with the empty one of the new policy; the
  path is set again only after the file could be opened a second time.
\<close>

definition ReloadFile :: "os_env \<Rightarrow> nat \<Rightarrow> Policy \<times> policy_file \<Rightarrow> go_error option \<times> Policy \<times> policy_file" where
  "ReloadFile os t pf = (case pf of (p, f) \<Rightarrow>
     (if path p = '''' then (Some ErrNoPolicyFile, p, f)
      else (case os_Open os t (path p) of
        Some e \<Rightarrow> (Some (ErrReloadPolicy (Error e)), p, f)
      | None \<Rightarrow> (case f of
          None \<Rightarrow> (Some (ErrReloadPolicy (Error err_not_exist)), p, f)
        | Some content \<Rightarrow> (case create_policy os content of
            Inl e \<Rightarrow> (Some e, p, f)
          | Inr newp \<Rightarrow> (case os_OpenFile os t (path p) of
              Some e \<Rightarrow> (Some (ErrCreatePolicy (Error e)), newp, f)
            | None \<Rightarrow> (None, newp\<lparr>path := path p\<rparr>, f)))))))"

definition CreateFromFile :: "os_env \<Rightarrow> nat \<Rightarrow> string \<Rightarrow> policy_file \<Rightarrow> (go_error + Policy) \<times> policy_file" where
  "CreateFromFile os t p f =
     (if p = '''' then (Inr DefaultPolicy, f)
      else (case os_Abs os t p of
        Inl e \<Rightarrow> (Inl e, f)
      | Inr policyPath \<Rightarrow> (case os_MkdirAll os t policyPath of
          Some e \<Rightarrow> (Inl (ErrCreatePolicy (Error e)), f)
        | None \<Rightarrow> (case os_OpenFile os t policyPath of
            Some e \<Rightarrow> (Inl (ErrCreatePolicy (Error e)), f)
          | None \<Rightarrow> (let content = (case f of None \<Rightarrow> [] | Some c \<Rightarrow> c) in
              case create_policy os content of
                Inl e \<Rightarrow> (Inl e, Some content)
              | Inr policy \<Rightarrow> (case os_OpenFile os (Suc t) policyPath of
                  Some e \<Rightarrow> (Inl (ErrCreatePolicy (Error e)), Some content)
                | None \<Rightarrow> (Inr (policy\<lparr>path := policyPath\<rparr>), Some content)))))))"

section \<open>Updates\<close>

text \<open>The regular expression of \<open>isValidPubkey\<close>: 66 lower case hexadecimal digits.\<close>

definition is_lower_hex :: "char \<Rightarrow> bool" where
  "is_lower_hex c \<longleftrightarrow> c \<in> set ''0123456789abcdef''"

definition isValidPubkey :: "string \<Rightarrow> go_error option" where
  "isValidPubkey pubkey = (if length pubkey = 66 \<and> list_all is_lower_hex pubkey then None
     else Some (ErrNotAValidPublicKey pubkey))"

text \<open>The write that each update makes, followed by a reload.\<close>

definition then_reload ::
  "os_env \<Rightarrow> nat \<Rightarrow> Policy \<Rightarrow> go_error option \<times> policy_file \<Rightarrow> go_error option \<times> Policy \<times> policy_file" where
  "then_reload os t p r = (case r of (Some e, f) \<Rightarrow> (Some e, p, f) | (None, f) \<Rightarrow> ReloadFile os t (p, f))"

definition DisableSwaps :: "os_env \<Rightarrow> nat \<Rightarrow> Policy \<times> policy_file \<Rightarrow> go_error option \<times> Policy \<times> policy_file" where
  "DisableSwaps os t pf = (case pf of (p, f) \<Rightarrow>
     (if \<not> AllowNewSwaps p then (None, p, f)
      else (case removeLineFromFile os t (path p) ''allow_new_swaps=true'' f of
          (Some e, f) \<Rightarrow> (Some e, p, f)
        | (None, f) \<Rightarrow> then_reload os (t + 2) p
            (addLineToFile os (Suc t) (path p) ''allow_new_swaps=false'' f))))"

definition EnableSwaps :: "os_env \<Rightarrow> nat \<Rightarrow> Policy \<times> policy_file \<Rightarrow> go_error option \<times> Policy \<times> policy_file" where
  "EnableSwaps os t pf = (case pf of (p, f) \<Rightarrow>
     (if AllowNewSwaps p then (None, p, f)
      else (case removeLineFromFile os t (path p) ''allow_new_swaps=false'' f of
          (Some e, f) \<Rightarrow> (Some e, p, f)
        | (None, f) \<Rightarrow> then_reload os (t + 2) p
            (addLineToFile os (Suc t) (path p) ''allow_new_swaps=true'' f))))"

definition AddToAllowlist :: "os_env \<Rightarrow> nat \<Rightarrow> string \<Rightarrow> Policy \<times> policy_file \<Rightarrow> go_error option \<times> Policy \<times> policy_file" where
  "AddToAllowlist os t pubkey pf = (case pf of (p, f) \<Rightarrow>
     (if pubkey \<in> set (PeerAllowlist p) then (Some (ErrText ''peer is already whitelisted''), p, f)
      else if path p = '''' then (Some ErrNoPolicyFile, p, f)
      else (case isValidPubkey pubkey of
          Some e \<Rightarrow> (Some e, p, f)
        | None \<Rightarrow> then_reload os (Suc t) p
            (addLineToFile os t (path p) (''allowlisted_peers='' @ pubkey) f))))"

definition AddToSuspiciousPeerList ::
  "os_env \<Rightarrow> nat \<Rightarrow> string \<Rightarrow> Policy \<times> policy_file \<Rightarrow> go_error option \<times> Policy \<times> policy_file" where
  "AddToSuspiciousPeerList os t pubkey pf = (case pf of (p, f) \<Rightarrow>
     (if pubkey \<in> set (SuspiciousPeerList p)
      then (Some (ErrText ''peer is already marked as suspicious''), p, f)
      else if path p = '''' then (Some ErrNoPolicyFile, p, f)
      else (case isValidPubkey pubkey of
          Some e \<Rightarrow> (Some e, p, f)
        | None \<Rightarrow> then_reload os (Suc t) p
            (addLineToFile os t (path p) (''suspicious_peers='' @ pubkey) f))))"

definition RemoveFromAllowlist ::
  "os_env \<Rightarrow> nat \<Rightarrow> string \<Rightarrow> Policy \<times> policy_file \<Rightarrow> go_error option \<times> Policy \<times> policy_file" where
  "RemoveFromAllowlist os t pubkey pf = (case pf of (p, f) \<Rightarrow>
     (case isValidPubkey pubkey of
        Some e \<Rightarrow> (Some e, p, f)
      | None \<Rightarrow>
          if pubkey \<notin> set (PeerAllowlist p)
          then (Some (ErrText (''peer '' @ pubkey @ '' is not in allowlist'')), p, f)
          else if path p = '''' then (Some ErrNoPolicyFile, p, f)
          else then_reload os (Suc t) p
            (removeLineFromFile os t (path p) (''allowlisted_peers='' @ pubkey) f)))"

definition RemoveFromSuspiciousPeerList ::
  "os_env \<Rightarrow> nat \<Rightarrow> string \<Rightarrow> Policy \<times> policy_file \<Rightarrow> go_error option \<times> Policy \<times> policy_file" where
  "RemoveFromSuspiciousPeerList os t pubkey pf = (case pf of (p, f) \<Rightarrow>
     (case isValidPubkey pubkey of
        Some e \<Rightarrow> (Some e, p, f)
      | None \<Rightarrow>
          if pubkey \<notin> set (SuspiciousPeerList p)
          then (Some (ErrText (''peer '' @ pubkey @ '' is not in suspicious peer list'')), p, f)
          else if path p = '''' then (Some ErrNoPolicyFile, p, f)
          else then_reload os (Suc t) p
            (removeLineFromFile os t (path p) (''suspicious_peers='' @ pubkey) f)))"

section \<open>The contract of the two peer lists\<close>

lemma raw_lines_append_line:
  assumes "NL \<notin> set l"
  shows "raw_lines (l @ NL # s) = l # raw_lines s"
  using assms by (induction l) auto

lemma raw_lines_unlines:
  assumes "\<forall>l \<in> set ls. NL \<notin> set l"
  shows "raw_lines (unlines ls) = ls"
  using assms by (induction ls) (auto simp: unlines_def raw_lines_append_line)

lemma unlines_snoc: "unlines ls @ l @ [NL] = unlines (ls @ [l])"
  by (simp add: unlines_def)

text \<open>
  A line as the program writes it: a key, \<open>=\<close> and a value without blanks, quotes, brackets or
  comment signs.
\<close>

definition plain_char :: "char \<Rightarrow> bool" where
  "plain_char c \<longleftrightarrow> c \<in> set ''abcdefghijklmnopqrstuvwxyz0123456789_=''"

definition plain_line :: "string \<Rightarrow> bool" where
  "plain_line l \<longleftrightarrow> list_all plain_char l \<and> length l < 256"

lemma plain_char_not_control: "\<not> plain_char NL" "\<not> plain_char CHR 0x0D"
  by (simp_all add: plain_char_def NL_def)

lemma plain_line_scan:
  assumes "\<forall>l \<in> set ls. plain_line l"
  shows "scan_lines (unlines ls) = Inr ls"
proof -
  have nl: "\<forall>l \<in> set ls. NL \<notin> set l" and cr: "\<forall>l \<in> set ls. CHR 0x0D \<notin> set l"
    using assms plain_char_not_control unfolding plain_line_def list_all_iff by blast+
  have "drop_cr l = l" if "l \<in> set ls" for l
    using cr that by (metis drop_cr_def last_in_set)
  then have "map drop_cr ls = ls"
    by (simp add: map_idI)
  moreover have "\<not> MaxScanTokenSize \<le> length l" if "l \<in> set ls" for l
    using assms that by (auto simp: plain_line_def MaxScanTokenSize_def)
  ultimately show ?thesis
    using raw_lines_unlines [OF nl] by (auto simp: scan_lines_def list_ex_iff)
qed

text \<open>No call of the operating system fails.\<close>

definition os_quiet :: "os_env \<Rightarrow> bool" where
  "os_quiet os \<longleftrightarrow> (\<forall>t p. os_Open os t p = None \<and> os_OpenFile os t p = None) \<and>
     (\<forall>t. os_Read os t = None \<and> os_Write os t = None)"

text \<open>The running policy is the parsed file, and the file has plain lines.\<close>

definition policy_synced :: "os_env \<Rightarrow> Policy \<times> policy_file \<Rightarrow> bool" where
  "policy_synced os pf \<longleftrightarrow> (\<exists>ls. snd pf = Some (unlines ls) \<and> (\<forall>l \<in> set ls. plain_line l) \<and>
     path (fst pf) \<noteq> '''' \<and> ini_Parse os (unlines ls) DefaultPolicy = Inr ((fst pf)\<lparr>path := ''''\<rparr>))"

text \<open>
  What the ini parser promises for a list option \<open>entry\<close>: a line appended to a file appends its
  value to the list, and dropping every line that sets a value drops that value.
\<close>

definition ini_list_option ::
  "os_env \<Rightarrow> string \<Rightarrow> ((string list \<Rightarrow> string list) \<Rightarrow> Policy \<Rightarrow> Policy) \<Rightarrow> bool" where
  "ini_list_option os entry upd \<longleftrightarrow>
     (\<forall>ls p v. (\<forall>l \<in> set ls. plain_line l) \<longrightarrow> isValidPubkey v = None \<longrightarrow>
        ini_Parse os (unlines ls) DefaultPolicy = Inr p \<longrightarrow>
        ini_Parse os (unlines (ls @ [entry @ v])) DefaultPolicy = Inr (upd (\<lambda>vs. vs @ [v]) p) \<and>
        ini_Parse os (unlines (filter (\<lambda>l. l \<noteq> entry @ v) ls)) DefaultPolicy =
          Inr (upd (filter (\<lambda>w. w \<noteq> v)) p))"

lemma ReloadFile_synced:
  assumes "os_quiet os" "path p \<noteq> ''''" "\<forall>l \<in> set ls. plain_line l"
    and "ini_Parse os (unlines ls) DefaultPolicy = Inr q" "path q = ''''"
  shows "ReloadFile os t (p, Some (unlines ls)) = (None, q\<lparr>path := path p\<rparr>, Some (unlines ls)) \<and>
         policy_synced os (q\<lparr>path := path p\<rparr>, Some (unlines ls))"
proof -
  have "q\<lparr>path := ''''\<rparr> = q"
    using assms(5) by (cases q) simp
  then show ?thesis
    using assms by (auto simp: ReloadFile_def create_policy_def os_quiet_def policy_synced_def)
qed

lemma is_lower_hex_plain: "is_lower_hex c \<Longrightarrow> plain_char c"
  by (auto simp: is_lower_hex_def plain_char_def)

locale peer_list =
  fixes entry :: string
    and peers :: "Policy \<Rightarrow> string list"
    and upd :: "(string list \<Rightarrow> string list) \<Rightarrow> Policy \<Rightarrow> Policy"
    and add :: "os_env \<Rightarrow> nat \<Rightarrow> string \<Rightarrow> Policy \<times> policy_file \<Rightarrow> go_error option \<times> Policy \<times> policy_file"
    and rem :: "os_env \<Rightarrow> nat \<Rightarrow> string \<Rightarrow> Policy \<times> policy_file \<Rightarrow> go_error option \<times> Policy \<times> policy_file"
  assumes entry_plain: "list_all plain_char entry" "length entry < 100"
    and upd_path: "path (upd g p) = path p" "upd g (p\<lparr>path := s\<rparr>) = (upd g p)\<lparr>path := s\<rparr>"
    and peers_upd: "peers (upd g p) = g (peers p)"
    and upd_upd: "upd g (upd h p) = upd (\<lambda>vs. g (h vs)) p" "(\<And>vs. vs = peers p \<Longrightarrow> g vs = vs) \<Longrightarrow> upd g p = p"
    and add_writes: "path p \<noteq> '''' \<Longrightarrow> v \<notin> set (peers p) \<Longrightarrow> isValidPubkey v = None \<Longrightarrow>
      add os t v (p, f) = then_reload os (Suc t) p (addLineToFile os t (path p) (entry @ v) f)"
    and rem_writes: "path p \<noteq> '''' \<Longrightarrow> v \<in> set (peers p) \<Longrightarrow> isValidPubkey v = None \<Longrightarrow>
      rem os t v (p, f) = then_reload os (Suc t) p (removeLineFromFile os t (path p) (entry @ v) f)"
begin

lemma entry_line_plain: "isValidPubkey v = None \<Longrightarrow> plain_line (entry @ v)"
  using entry_plain
  by (auto simp: isValidPubkey_def plain_line_def list_all_iff is_lower_hex_plain split: if_splits)

lemma add_effect:
  assumes "os_quiet os" "ini_list_option os entry upd" "policy_synced os (p, f)"
    and "isValidPubkey v = None" "v \<notin> set (peers p)"
  shows "\<exists>f'. add os t v (p, f) = (None, upd (\<lambda>vs. vs @ [v]) p, f') \<and>
           policy_synced os (upd (\<lambda>vs. vs @ [v]) p, f')"
proof -
  obtain ls where ls: "f = Some (unlines ls)" "\<forall>l \<in> set ls. plain_line l" "path p \<noteq> ''''"
    "ini_Parse os (unlines ls) DefaultPolicy = Inr (p\<lparr>path := ''''\<rparr>)"
    using assms(3) by (auto simp: policy_synced_def)
  let ?q = "upd (\<lambda>vs. vs @ [v]) (p\<lparr>path := ''''\<rparr>)"
  have parse: "ini_Parse os (unlines (ls @ [entry @ v])) DefaultPolicy = Inr ?q"
    using assms(2,4) ls by (simp add: ini_list_option_def)
  have plain: "\<forall>l \<in> set (ls @ [entry @ v]). plain_line l"
    using ls entry_line_plain [OF assms(4)] by auto
  have q: "?q\<lparr>path := path p\<rparr> = upd (\<lambda>vs. vs @ [v]) p"
    by (simp flip: upd_path(2))
  have "add os t v (p, f) = ReloadFile os (Suc t) (p, Some (unlines (ls @ [entry @ v])))"
    using assms ls unlines_snoc [of ls "entry @ v"]
    by (simp add: add_writes then_reload_def addLineToFile_def write_data_def os_quiet_def)
  then show ?thesis
    using ReloadFile_synced [OF assms(1) ls(3) plain parse, of "Suc t"] q upd_path(1) by simp
qed

lemma rem_effect:
  assumes "os_quiet os" "ini_list_option os entry upd" "policy_synced os (p, f)"
    and "isValidPubkey v = None" "v \<in> set (peers p)"
  shows "\<exists>f'. rem os t v (p, f) = (None, upd (filter (\<lambda>w. w \<noteq> v)) p, f') \<and>
           policy_synced os (upd (filter (\<lambda>w. w \<noteq> v)) p, f')"
proof -
  obtain ls where ls: "f = Some (unlines ls)" "\<forall>l \<in> set ls. plain_line l" "path p \<noteq> ''''"
    "ini_Parse os (unlines ls) DefaultPolicy = Inr (p\<lparr>path := ''''\<rparr>)"
    using assms(3) by (auto simp: policy_synced_def)
  let ?ls = "filter (\<lambda>l. l \<noteq> entry @ v) ls"
  let ?q = "upd (filter (\<lambda>w. w \<noteq> v)) (p\<lparr>path := ''''\<rparr>)"
  have parse: "ini_Parse os (unlines ?ls) DefaultPolicy = Inr ?q"
    using assms(2,4) ls by (simp add: ini_list_option_def)
  have plain: "\<forall>l \<in> set ?ls. plain_line l"
    using ls by auto
  have q: "?q\<lparr>path := path p\<rparr> = upd (filter (\<lambda>w. w \<noteq> v)) p"
    by (simp flip: upd_path(2))
  have "rem os t v (p, f) = ReloadFile os (Suc t) (p, Some (unlines ?ls))"
    using assms ls
    by (simp add: rem_writes then_reload_def removeLineFromFile_def write_data_def os_quiet_def
        plain_line_scan)
  then show ?thesis
    using ReloadFile_synced [OF assms(1) ls(3) plain parse, of "Suc t"] q upd_path(1) by simp
qed

text \<open>Adding a peer and removing it again restores the policy.\<close>

lemma add_rem_restores:
  assumes "os_quiet os" "ini_list_option os entry upd" "policy_synced os (p, f)"
    and "isValidPubkey v = None" "v \<notin> set (peers p)"
  shows "\<exists>q f1 f2. add os t v (p, f) = (None, q, f1) \<and> peers q = peers p @ [v] \<and>
           rem os t' v (q, f1) = (None, p, f2) \<and> policy_synced os (p, f2)"
proof -
  let ?q = "upd (\<lambda>vs. vs @ [v]) p"
  obtain f1 where f1: "add os t v (p, f) = (None, ?q, f1)" "policy_synced os (?q, f1)"
    using add_effect [OF assms] by blast
  have "v \<in> set (peers ?q)" by (simp add: peers_upd)
  from rem_effect [OF assms(1,2) f1(2) assms(4) this]
  obtain f2 where f2: "rem os t' v (?q, f1) = (None, upd (filter (\<lambda>w. w \<noteq> v)) ?q, f2)"
    "policy_synced os (upd (filter (\<lambda>w. w \<noteq> v)) ?q, f2)" by blast
  have "filter (\<lambda>w. w \<noteq> v) (peers p) = peers p"
    using assms(5) by (auto intro: filter_True)
  then have "upd (filter (\<lambda>w. w \<noteq> v)) ?q = p"
    by (simp add: upd_upd)
  then show ?thesis
    using f1 f2 by (auto simp: peers_upd)
qed

end

interpretation allowlist: peer_list "''allowlisted_peers=''" PeerAllowlist PeerAllowlist_update
  AddToAllowlist RemoveFromAllowlist
  by unfold_locales
    (simp_all add: plain_char_def AddToAllowlist_def RemoveFromAllowlist_def)

interpretation suspicious: peer_list "''suspicious_peers=''" SuspiciousPeerList SuspiciousPeerList_update
  AddToSuspiciousPeerList RemoveFromSuspiciousPeerList
  by unfold_locales
    (simp_all add: plain_char_def AddToSuspiciousPeerList_def RemoveFromSuspiciousPeerList_def)

section \<open>Correctness\<close>

text \<open>
  A small ini reader that satisfies the promises above: it knows the options the program itself
  writes and ignores every other line.
\<close>

definition ini_line :: "Policy \<Rightarrow> string \<Rightarrow> Policy" where
  "ini_line p l =
     (if take 18 l = ''allowlisted_peers='' then p\<lparr>PeerAllowlist := PeerAllowlist p @ [drop 18 l]\<rparr>
      else if take 17 l = ''suspicious_peers='' then p\<lparr>SuspiciousPeerList := SuspiciousPeerList p @ [drop 17 l]\<rparr>
      else if l = ''allow_new_swaps=true'' then p\<lparr>AllowNewSwaps := True\<rparr>
      else if l = ''allow_new_swaps=false'' then p\<lparr>AllowNewSwaps := False\<rparr>
      else if l = ''accept_all_peers=true'' then p\<lparr>AcceptAllPeers := True\<rparr>
      else p)"

definition ini_ref :: "string \<Rightarrow> Policy \<Rightarrow> go_error + Policy" where
  "ini_ref content p = Inr (foldl ini_line p (raw_lines content))"

definition quiet_os :: os_env where
  "quiet_os = \<lparr>os_Abs = (\<lambda>_ p. Inr p), os_MkdirAll = (\<lambda>_ _. None), os_Open = (\<lambda>_ _. None),
     os_OpenFile = (\<lambda>_ _. None), os_Read = (\<lambda>_. None), os_Write = (\<lambda>_. None), ini_Parse = ini_ref\<rparr>"

lemma os_quiet_quiet_os [simp]: "os_quiet quiet_os"
  by (simp add: os_quiet_def quiet_os_def)

lemma ini_ref_unlines:
  assumes "\<forall>l \<in> set ls. plain_line l"
  shows "ini_ref (unlines ls) p = Inr (foldl ini_line p ls)"
proof -
  have "\<forall>l \<in> set ls. NL \<notin> set l"
    using assms plain_char_not_control unfolding plain_line_def list_all_iff by blast
  then show ?thesis by (simp add: ini_ref_def raw_lines_unlines)
qed

lemma take_drop_eq_append: "take n l = e \<Longrightarrow> length e = n \<Longrightarrow> drop n l = v \<longleftrightarrow> l = e @ v"
  by (metis append_eq_conv_conj append_take_drop_id)

lemma suspicious_update_eq:
  "SuspiciousPeerList_update g p = p\<lparr>SuspiciousPeerList := g (SuspiciousPeerList p)\<rparr>"
  by (cases p) simp

lemma ini_line_suspicious:
  "ini_line p (''suspicious_peers='' @ v) = SuspiciousPeerList_update (\<lambda>vs. vs @ [v]) p"
  by (cases p) (simp add: ini_line_def)

lemma ini_line_filter:
  assumes "e = ''suspicious_peers=''"
  shows "SuspiciousPeerList_update (filter (\<lambda>w. w \<noteq> v)) (ini_line p l) =
    (if l = e @ v then SuspiciousPeerList_update (filter (\<lambda>w. w \<noteq> v)) p
     else ini_line (SuspiciousPeerList_update (filter (\<lambda>w. w \<noteq> v)) p) l)"
proof (cases "take 17 l = e")
  case True
  then have l: "l = e @ drop 17 l" by (metis append_take_drop_id)
  have "ini_line q (e @ w) = SuspiciousPeerList_update (\<lambda>vs. vs @ [w]) q" for q w
    using assms ini_line_suspicious [of q w] by simp
  then show ?thesis
    by (subst l, subst (2) l, subst (3) l) (auto simp: comp_def)
next
  case False
  then show ?thesis
    using assms by (auto simp: ini_line_def)
qed

lemma foldl_ini_line_filter:
  assumes "e = ''suspicious_peers=''"
  shows "foldl ini_line (SuspiciousPeerList_update (filter (\<lambda>w. w \<noteq> v)) p) (filter (\<lambda>l. l \<noteq> e @ v) ls) =
    SuspiciousPeerList_update (filter (\<lambda>w. w \<noteq> v)) (foldl ini_line p ls)"
proof (induction ls arbitrary: p)
  case (Cons l ls)
  show ?case
    using Cons.IH [of "ini_line p l"] ini_line_filter [OF assms, of v p l]
    by (cases "l = e @ v") simp_all
qed simp

lemma ini_ref_list_option: "ini_list_option quiet_os ''suspicious_peers='' SuspiciousPeerList_update"
proof -
  have "foldl ini_line DefaultPolicy (filter (\<lambda>l. l \<noteq> ''suspicious_peers='' @ v) ls) =
      SuspiciousPeerList_update (filter (\<lambda>w. w \<noteq> v)) (foldl ini_line DefaultPolicy ls)" for v ls
    using foldl_ini_line_filter [OF refl, of v DefaultPolicy ls]
      suspicious_update_eq [of "filter (\<lambda>w. w \<noteq> v)" DefaultPolicy] by (simp add: DefaultPolicy_def)
  moreover have "ini_ref (unlines (ls @ [l])) q = Inr (ini_line (foldl ini_line q ls) l)"
    if "\<forall>l \<in> set ls. plain_line l" "plain_line l" for ls l q
    using ini_ref_unlines [of "ls @ [l]" q] that by simp
  ultimately show ?thesis
    unfolding ini_list_option_def quiet_os_def
    using suspicious.entry_line_plain ini_line_suspicious by (simp add: ini_ref_unlines)
qed

text \<open>Marking a peer as suspicious works at once and survives a restart: with a readable file
  that matches the running policy, \<open>AddToSuspiciousPeerList\<close> of a valid key that is not listed
  succeeds, appends exactly that key to the list, keeps every other setting, blocks the peer, and
  the file again parses to the running policy.\<close>

theorem add_suspicious_blocks_peer:
  assumes "os_quiet os" "ini_list_option os ''suspicious_peers='' SuspiciousPeerList_update"
    and "policy_synced os (p, f)" "isValidPubkey peer = None" "\<not> IsPeerSuspicious p peer"
  shows "\<exists>p' f'. AddToSuspiciousPeerList os t peer (p, f) = (None, p', f') \<and>
           p' = p\<lparr>SuspiciousPeerList := SuspiciousPeerList p @ [peer]\<rparr> \<and>
           IsPeerSuspicious p' peer \<and> policy_synced os (p', f')"
  using suspicious.add_effect [OF assms(1-4), of t] assms(5)
    suspicious_update_eq [of "\<lambda>vs. vs @ [peer]" p]
  by (auto simp: IsPeerSuspicious_def)

definition sample_policy :: Policy where "sample_policy = DefaultPolicy\<lparr>path := ''policy.conf''\<rparr>"

lemma sample_policy_synced: "policy_synced quiet_os (sample_policy, Some [])"
  by (auto simp: policy_synced_def sample_policy_def quiet_os_def ini_ref_def DefaultPolicy_def
      unlines_def intro: exI [of _ "[]"])

definition sample_peer :: string where "sample_peer = replicate 66 CHR ''a''"

lemma sample_peer_valid: "isValidPubkey sample_peer = None"
  by (simp add: isValidPubkey_def sample_peer_def list_all_iff is_lower_hex_def)

theorem add_suspicious_blocks_peer_witness:
  "\<exists>p' f'. AddToSuspiciousPeerList quiet_os 0 sample_peer (sample_policy, Some []) = (None, p', f') \<and>
     p' = sample_policy\<lparr>SuspiciousPeerList := SuspiciousPeerList sample_policy @ [sample_peer]\<rparr> \<and>
     IsPeerSuspicious p' sample_peer \<and> policy_synced quiet_os (p', f')"
  using add_suspicious_blocks_peer [OF os_quiet_quiet_os ini_ref_list_option sample_policy_synced
      sample_peer_valid, of 0]
  by (simp add: IsPeerSuspicious_def sample_policy_def DefaultPolicy_def)

text \<open>Removing a suspicious peer undoes adding it: the two operations in sequence succeed and
  leave the policy as it was, with the file in step with it.\<close>

theorem remove_suspicious_restores:
  assumes "os_quiet os" "ini_list_option os ''suspicious_peers='' SuspiciousPeerList_update"
    and "policy_synced os (p, f)" "isValidPubkey peer = None" "\<not> IsPeerSuspicious p peer"
  shows "\<exists>q f1 f2. AddToSuspiciousPeerList os t peer (p, f) = (None, q, f1) \<and>
           SuspiciousPeerList q = SuspiciousPeerList p @ [peer] \<and>
           RemoveFromSuspiciousPeerList os t' peer (q, f1) = (None, p, f2) \<and> policy_synced os (p, f2)"
  using suspicious.add_rem_restores [OF assms(1-4), of t t'] assms(5) by (simp add: IsPeerSuspicious_def)

theorem remove_suspicious_restores_witness:
  "\<exists>q f1 f2. AddToSuspiciousPeerList quiet_os 0 sample_peer (sample_policy, Some []) = (None, q, f1) \<and>
     SuspiciousPeerList q = SuspiciousPeerList sample_policy @ [sample_peer] \<and>
     RemoveFromSuspiciousPeerList quiet_os 5 sample_peer (q, f1) = (None, sample_policy, f2) \<and>
     policy_synced quiet_os (sample_policy, f2)"
  using remove_suspicious_restores [OF os_quiet_quiet_os ini_ref_list_option sample_policy_synced
      sample_peer_valid, of 0 5]
  by (simp add: IsPeerSuspicious_def sample_policy_def DefaultPolicy_def)

text \<open>A reload whose second opening of the file fails forgets where the file is: the new
  settings are in force but the path is empty, so every later reload or list update of a valid new
  peer answers \<open>ErrNoPolicyFile\<close>.\<close>

theorem failed_reopen_forgets_path:
  assumes "path p \<noteq> ''''" "os_Open os t (path p) = None" "create_policy os content = Inr newp"
    and "path newp = ''''" "os_OpenFile os t (path p) = Some e"
  shows "ReloadFile os t (p, Some content) = (Some (ErrCreatePolicy (Error e)), newp, Some content) \<and>
         fst (ReloadFile os' t' (newp, f)) = Some ErrNoPolicyFile \<and>
         (\<not> IsPeerSuspicious newp peer \<longrightarrow>
            AddToSuspiciousPeerList os' t' peer (newp, f) = (Some ErrNoPolicyFile, newp, f))"
  using assms by (auto simp: ReloadFile_def AddToSuspiciousPeerList_def IsPeerSuspicious_def)

theorem failed_reopen_forgets_path_witness:
  "ReloadFile (quiet_os\<lparr>os_OpenFile := \<lambda>_ _. Some (ErrText ''too many open files'')\<rparr>) 0
     (sample_policy, Some []) =
   (Some (ErrCreatePolicy ''too many open files''), DefaultPolicy, Some [])"
  using failed_reopen_forgets_path [of sample_policy
      "quiet_os\<lparr>os_OpenFile := \<lambda>_ _. Some (ErrText ''too many open files'')\<rparr>" 0 "[]" DefaultPolicy
      "ErrText ''too many open files''"]
  by (simp add: sample_policy_def create_policy_def quiet_os_def ini_ref_def DefaultPolicy_def)

end
