(* ===== verification/PS_Premium.thy ===== *)
theory PS_Premium
  imports PS_Bolt
begin

text \<open>
  Package \<open>premium\<close>: rates in parts per million (\<open>premium.go\<close>) and the bucket that stores one rate
  per peer, asset and operation (\<open>store.go\<close>).  Stored values are the decimal texts the code writes.
\<close>

section \<open>Assets, operations and rates\<close>

datatype AssetType = AsserUnspecified | BTC | LBTC
datatype OperationType = OperationUnspecified | SwapIn | SwapOut

text \<open>The enum numbers, as the verb \<open>%d\<close> prints them.\<close>

fun asset_num :: "AssetType \<Rightarrow> nat" where
  "asset_num AsserUnspecified = 0" | "asset_num BTC = 1" | "asset_num LBTC = 2"

fun operation_num :: "OperationType \<Rightarrow> nat" where
  "operation_num OperationUnspecified = 0" | "operation_num SwapIn = 1" | "operation_num SwapOut = 2"

fun AssetType_String :: "AssetType \<Rightarrow> string" where
  "AssetType_String AsserUnspecified = ''Unspecified''"
| "AssetType_String BTC = ''BTC''"
| "AssetType_String LBTC = ''LBTC''"

fun OperationType_String :: "OperationType \<Rightarrow> string" where
  "OperationType_String OperationUnspecified = ''Unspecified''"
| "OperationType_String SwapIn = ''SWAP_IN''"
| "OperationType_String SwapOut = ''SWAP_OUT''"

record PremiumRate =
  pr_asset :: AssetType
  pr_operation :: OperationType
  pr_premiumRate :: i64

definition premiumRateParts :: int where "premiumRateParts = 1000000"

text \<open>\<open>DefaultPremiumRate\<close>: a two-level map, absent for the unspecified values.\<close>

definition DefaultPremiumRate :: "AssetType \<rightharpoonup> (OperationType \<rightharpoonup> i64)" where
  "DefaultPremiumRate = [BTC \<mapsto> [SwapIn \<mapsto> 0, SwapOut \<mapsto> 2000],
                         LBTC \<mapsto> [SwapIn \<mapsto> 0, SwapOut \<mapsto> 1000]]"

definition NewPremiumRate :: "AssetType \<Rightarrow> OperationType \<Rightarrow> i64 \<Rightarrow> go_error + PremiumRate" where
  "NewPremiumRate asset operation rate =
     (if asset = AsserUnspecified then Inl (ErrText ''invalid asset type'')
      else if operation = OperationUnspecified then Inl (ErrText ''invalid operation type'')
      else Inr \<lparr>pr_asset = asset, pr_operation = operation, pr_premiumRate = rate\<rparr>)"

text \<open>
  \<open>PPM.Compute\<close>: \<open>int64(amtSat) * p.ppmValue / premiumRateParts\<close>.  The product wraps at 64 bits
  and Go's division truncates towards zero.
\<close>

definition PPM_Compute :: "i64 \<Rightarrow> u64 \<Rightarrow> i64" where
  "PPM_Compute ppm amtSat = word_of_int (sint (amtSat * ppm) sdiv premiumRateParts)"

section \<open>The store\<close>

definition premium_key :: "string \<Rightarrow> AssetType \<Rightarrow> OperationType \<Rightarrow> byte list" where
  "premium_key peer asset operation =
     bytes_of_string (peer @ ''.'' @ fmt_nat (asset_num asset) @ ''.'' @ fmt_nat (operation_num operation))"

type_synonym premium_bucket = "string bucket"

text \<open>\<open>fmt.Sscanf(value, "%d", &rate)\<close>: leading blanks, an optional sign, digits; the rest is ignored.\<close>

definition is_digit :: "char \<Rightarrow> bool" where
  "is_digit c \<longleftrightarrow> 48 \<le> (of_char c :: nat) \<and> (of_char c :: nat) \<le> 57"

definition fmt_Sscanf_d :: "string \<Rightarrow> go_error + i64" where
  "fmt_Sscanf_d s =
     (let r = dropWhile (\<lambda>c. c = CHR '' '') s;
          (sg, body) = (case r of [] \<Rightarrow> ([], []) | c # cs \<Rightarrow>
             if c = CHR ''-'' \<or> c = CHR ''+'' then ([c], cs) else ([], r));
          tok = takeWhile is_digit body
      in if tok = [] then Inl (ErrText ''expected integer'')
         else (case strconv_ParseInt (sg @ tok) 10 of
           Inl e \<Rightarrow> Inl (ErrNum (sg @ tok) e) | Inr i \<Rightarrow> Inr (word_of_int i)))"

definition NewBBoltPremiumStore :: "bolt_env \<Rightarrow> nat \<Rightarrow> premium_bucket \<Rightarrow> go_error option \<times> premium_bucket" where
  "NewBBoltPremiumStore env t b = create_bucket env t b"

definition store_SetRate ::
  "bolt_env \<Rightarrow> nat \<Rightarrow> string \<Rightarrow> PremiumRate \<Rightarrow> premium_bucket \<Rightarrow> go_error option \<times> premium_bucket" where
  "store_SetRate env t peer rate b = db_Update env t (\<lambda>b. case b of
     None \<Rightarrow> Inl (ErrText ''Bucket not found'')
   | Some m \<Rightarrow> bucket_Put env t (premium_key peer (pr_asset rate) (pr_operation rate))
                 (fmt_i64 (pr_premiumRate rate)) m) b"

definition store_DeleteRate ::
  "bolt_env \<Rightarrow> nat \<Rightarrow> string \<Rightarrow> AssetType \<Rightarrow> OperationType \<Rightarrow> premium_bucket \<Rightarrow> go_error option \<times> premium_bucket" where
  "store_DeleteRate env t peer asset operation b = db_Update env t (\<lambda>b. case b of
     None \<Rightarrow> Inl (ErrText ''Bucket not found'')
   | Some m \<Rightarrow> bucket_Delete env t (premium_key peer asset operation) m) b"

definition store_GetRate ::
  "bolt_env \<Rightarrow> nat \<Rightarrow> string \<Rightarrow> AssetType \<Rightarrow> OperationType \<Rightarrow> premium_bucket \<Rightarrow> go_error + PremiumRate" where
  "store_GetRate env t peer asset operation b =
     (case db_View env t (\<lambda>b. case b of
         None \<Rightarrow> Inl (ErrText ''Bucket not found'')
       | Some m \<Rightarrow> (case m (premium_key peer asset operation) of
           None \<Rightarrow> Inl ErrRateNotFound
         | Some v \<Rightarrow> fmt_Sscanf_d v)) b of
        Inl e \<Rightarrow> Inl e
      | Inr rate \<Rightarrow> NewPremiumRate asset operation rate)"

definition defaultPeerID :: string where "defaultPeerID = ''default''"

definition store_SetDefaultRate ::
  "bolt_env \<Rightarrow> nat \<Rightarrow> PremiumRate \<Rightarrow> premium_bucket \<Rightarrow> go_error option \<times> premium_bucket" where
  "store_SetDefaultRate env t rate b = store_SetRate env t defaultPeerID rate b"

definition store_GetDefaultRate ::
  "bolt_env \<Rightarrow> nat \<Rightarrow> AssetType \<Rightarrow> OperationType \<Rightarrow> premium_bucket \<Rightarrow> go_error + PremiumRate" where
  "store_GetDefaultRate env t asset operation b = store_GetRate env t defaultPeerID asset operation b"

section \<open>The setting\<close>

definition Setting_GetDefaultRate ::
  "bolt_env \<Rightarrow> nat \<Rightarrow> AssetType \<Rightarrow> OperationType \<Rightarrow> premium_bucket \<Rightarrow> go_error + PremiumRate" where
  "Setting_GetDefaultRate env t asset operation b =
     (case store_GetDefaultRate env t asset operation b of
        Inr rate \<Rightarrow> Inr rate
      | Inl e \<Rightarrow>
          if e = ErrRateNotFound then
            (case DefaultPremiumRate asset of
               None \<Rightarrow> Inl (ErrText (''no default premium rate configured for asset '' @
                        AssetType_String asset))
             | Some ratesByAsset \<Rightarrow> (case ratesByAsset operation of
                 None \<Rightarrow> Inl (ErrText (''no default premium rate configured for asset '' @
                          AssetType_String asset @ '' and operation '' @ OperationType_String operation))
               | Some v \<Rightarrow> NewPremiumRate asset operation v))
          else Inl e)"

definition Setting_GetRate ::
  "bolt_env \<Rightarrow> nat \<Rightarrow> string \<Rightarrow> AssetType \<Rightarrow> OperationType \<Rightarrow> premium_bucket \<Rightarrow> go_error + PremiumRate" where
  "Setting_GetRate env t peerID asset operation b =
     (case store_GetRate env t peerID asset operation b of
        Inr rate \<Rightarrow> Inr rate
      | Inl e \<Rightarrow> if e = ErrRateNotFound then Setting_GetDefaultRate env t asset operation b else Inl e)"

definition Setting_Compute ::
  "bolt_env \<Rightarrow> nat \<Rightarrow> string \<Rightarrow> AssetType \<Rightarrow> OperationType \<Rightarrow> u64 \<Rightarrow> premium_bucket \<Rightarrow> go_error + i64" where
  "Setting_Compute env t peerID asset operation amtSat b =
     (case Setting_GetRate env t peerID asset operation b of
        Inl e \<Rightarrow> Inl e
      | Inr rate \<Rightarrow> Inr (PPM_Compute (pr_premiumRate rate) amtSat))"

section \<open>Correctness\<close>

text \<open>The key determines peer, asset and operation: the numbers are one digit each.\<close>

lemma fmt_nat_digit: "n < 10 \<Longrightarrow> fmt_nat n = [digit_char n]"
  by (simp add: fmt_nat_def digits_base.simps)

lemma asset_num_less: "asset_num a < 10"
  by (cases a) simp_all

lemma operation_num_less: "operation_num x < 10"
  by (cases x) simp_all

lemma digit_char_inject: "m < 16 \<Longrightarrow> n < 16 \<Longrightarrow> digit_char m = digit_char n \<longleftrightarrow> m = n"
  by (metis from_hex_digit_char option.inject)

lemma asset_num_inject: "asset_num a = asset_num a' \<longleftrightarrow> a = a'"
  by (cases a; cases a'; simp)

lemma operation_num_inject: "operation_num x = operation_num x' \<longleftrightarrow> x = x'"
  by (cases x; cases x'; simp)

lemma premium_key_inject [simp]:
  "premium_key p a x = premium_key p' a' x' \<longleftrightarrow> p = p' \<and> a = a' \<and> x = x'"
proof -
  have num: "asset_num y < 16" "operation_num z < 16" for y z
    using asset_num_less [of y] operation_num_less [of z] by simp_all
  show ?thesis
    by (auto simp: premium_key_def fmt_nat_digit asset_num_less operation_num_less digit_char_inject
        num asset_num_inject operation_num_inject)
qed

text \<open>Writing a rate as text and scanning it gives the rate back.\<close>

lemma is_digit_digit_char: "d < 10 \<Longrightarrow> is_digit (digit_char d)"
  by (simp add: is_digit_def of_char_digit_char)

lemma takeWhile_fmt_nat: "takeWhile is_digit (fmt_nat n) = fmt_nat n"
proof -
  have "\<forall>c \<in> set (fmt_nat n). is_digit c"
    using digits_base_small [of 10 _ n] by (auto simp: fmt_nat_def intro: is_digit_digit_char)
  then show ?thesis by simp
qed

lemma fmt_nat_Cons: "\<exists>d r. fmt_nat n = digit_char d # r \<and> d < 10"
  using digits_base_small [of 10 _ n] digits_base_nonempty [of 10 n]
  by (cases "digits_base 10 n") (auto simp: fmt_nat_def)

lemma ParseInt_neg_fmt_nat:
  assumes "int n \<le> 2 ^ 63"
  shows "strconv_ParseInt (CHR ''-'' # fmt_nat n) 10 = Inr (- int n)"
  using assms digits_base_small [of 10 _ n] digits_base_value [of 10 n]
  by (simp add: strconv_ParseInt_def parse_sign_def fmt_nat_def digits_of_map_digit_char)

lemma Sscanf_fmt_i64 [simp]: "fmt_Sscanf_d (fmt_i64 x) = Inr x"
proof -
  have lo: "- (2 ^ 63) \<le> sint x" and hi: "sint x < 2 ^ 63"
    using sint_greater_eq [of x] sint_less [of x] by simp_all
  show ?thesis
  proof (cases "sint x < 0")
    case True
    then show ?thesis
      using lo ParseInt_neg_fmt_nat [of "nat (- sint x)"] fmt_nat_Cons [of "nat (- sint x)"]
      by (auto simp: fmt_Sscanf_d_def fmt_i64_def fmt_int_def takeWhile_fmt_nat)
  next
    case False
    obtain d r where dr: "fmt_nat (nat (sint x)) = digit_char d # r" "d < 10"
      using fmt_nat_Cons by blast
    have "digit_char d \<noteq> CHR ''-''" "digit_char d \<noteq> CHR ''+''" "digit_char d \<noteq> CHR '' ''"
      using dr(2) of_char_digit_char [of d] by auto
    moreover have "strconv_ParseInt (fmt_nat (nat (sint x))) 10 = Inr (sint x)"
      using False hi ParseInt_digits [of 10 "nat (sint x)"] by (simp add: fmt_nat_def)
    ultimately show ?thesis
      using False dr takeWhile_fmt_nat [of "nat (sint x)"]
      by (simp add: fmt_Sscanf_d_def fmt_i64_def fmt_int_def)
  qed
qed

text \<open>What a write does to the bucket, and what a read returns.\<close>

lemma store_SetRate_success:
  assumes "store_SetRate env t peer rate b = (None, b')"
  obtains m where "b = Some m" and
    "b' = Some (m(premium_key peer (pr_asset rate) (pr_operation rate) \<mapsto> fmt_i64 (pr_premiumRate rate)))"
  using assms
  by (auto simp: store_SetRate_def db_Update_success bucket_Put_def split: option.splits)

lemma NewPremiumRate_ok:
  "a \<noteq> AsserUnspecified \<Longrightarrow> x \<noteq> OperationUnspecified \<Longrightarrow>
   NewPremiumRate a x r = Inr \<lparr>pr_asset = a, pr_operation = x, pr_premiumRate = r\<rparr>"
  by (simp add: NewPremiumRate_def)

definition rate_wf :: "PremiumRate \<Rightarrow> bool" where
  "rate_wf r \<longleftrightarrow> pr_asset r \<noteq> AsserUnspecified \<and> pr_operation r \<noteq> OperationUnspecified"

text \<open>
  The contract a rate table offers its users: reading a triple after a successful write of that
  triple gives the written rate, and leaves every other triple as it was.
\<close>

locale rate_table =
  fixes put :: "'k \<Rightarrow> 'r \<Rightarrow> 's \<Rightarrow> 'e option \<times> 's"
    and get :: "'k \<Rightarrow> 's \<Rightarrow> 'e + 'r"
    and ok :: "'k \<Rightarrow> 'r \<Rightarrow> bool"
  assumes get_put_same: "put k r s = (None, s') \<Longrightarrow> ok k r \<Longrightarrow> get k s' = Inr r"
    and get_put_other: "put k r s = (None, s') \<Longrightarrow> k' \<noteq> k \<Longrightarrow> get k' s' = get k' s"
    and put_error: "put k r s = (Some e, s') \<Longrightarrow> s' = s"
begin

text \<open>The last of two writes to a key wins, whatever was written elsewhere in between.\<close>

lemma last_write_wins:
  assumes "put k r s = (None, s1)" "put k' r' s1 = (None, s2)" "ok k r" "k' \<noteq> k"
  shows "get k s2 = Inr r"
  using assms get_put_same get_put_other by metis

lemma overwrite:
  assumes "put k r s = (None, s1)" "put k r' s1 = (None, s2)" "ok k r'"
  shows "get k s2 = Inr r'"
  using assms get_put_same by metis

lemma failed_put_invisible:
  "put k r s = (Some e, s') \<Longrightarrow> get k' s' = get k' s"
  using put_error by metis

end

definition rate_put ::
  "bolt_env \<Rightarrow> nat \<Rightarrow> string \<times> AssetType \<times> OperationType \<Rightarrow> i64 \<Rightarrow> premium_bucket \<Rightarrow>
     go_error option \<times> premium_bucket" where
  "rate_put env t k r b = (case k of (p, a, x) \<Rightarrow>
     store_SetRate env t p \<lparr>pr_asset = a, pr_operation = x, pr_premiumRate = r\<rparr> b)"

definition rate_get ::
  "bolt_env \<Rightarrow> nat \<Rightarrow> string \<times> AssetType \<times> OperationType \<Rightarrow> premium_bucket \<Rightarrow> go_error + i64" where
  "rate_get env t k b = (case k of (p, a, x) \<Rightarrow>
     map_sum (\<lambda>e. e) pr_premiumRate (store_GetRate env t p a x b))"

definition rate_key_ok :: "string \<times> AssetType \<times> OperationType \<Rightarrow> i64 \<Rightarrow> bool" where
  "rate_key_ok k r = (case k of (p, a, x) \<Rightarrow> a \<noteq> AsserUnspecified \<and> x \<noteq> OperationUnspecified)"

lemma store_SetRate_begin: "store_SetRate env t p r b = (None, b') \<Longrightarrow> bolt_Begin env t = None"
  by (simp add: store_SetRate_def db_Update_success)

lemma get_put_same_rate:
  assumes "rate_put env t k r b = (None, b')" "rate_key_ok k r"
  shows "rate_get env t k b' = Inr r"
proof (cases k)
  case (fields p a x)
  then have put: "store_SetRate env t p \<lparr>pr_asset = a, pr_operation = x, pr_premiumRate = r\<rparr> b = (None, b')"
    using assms(1) by (simp add: rate_put_def)
  then show ?thesis
    using assms(2) fields store_SetRate_begin [OF put]
    by (auto simp: rate_get_def rate_key_ok_def store_GetRate_def db_View_def
        NewPremiumRate_def elim!: store_SetRate_success)
qed

lemma get_put_other_rate:
  assumes "rate_put env t k r b = (None, b')" "k' \<noteq> k"
  shows "rate_get env t k' b' = rate_get env t k' b"
proof -
  obtain p a x p' a' x' where k: "k = (p, a, x)" "k' = (p', a', x')"
    by (cases k, cases k')
  then have "premium_key p' a' x' \<noteq> premium_key p a x"
    using assms(2) by auto
  moreover have "bolt_Begin env t = None"
    using assms(1) k store_SetRate_begin by (auto simp: rate_put_def)
  ultimately show ?thesis
    using assms(1) k
    by (auto simp: rate_put_def rate_get_def store_GetRate_def db_View_def
        elim!: store_SetRate_success)
qed

interpretation rt: rate_table "rate_put env t" "rate_get env t" rate_key_ok for env t
proof
  fix k r s s'
  assume "rate_put env t k r s = (None, s')" "rate_key_ok k r"
  then show "rate_get env t k s' = Inr r" by (rule get_put_same_rate)
next
  fix k r s s' k'
  assume "rate_put env t k r s = (None, s')" "k' \<noteq> k"
  then show "rate_get env t k' s' = rate_get env t k' s" by (rule get_put_other_rate)
next
  fix k r s e s'
  assume "rate_put env t k r s = (Some e, s')"
  then show "s' = s"
    by (cases k) (auto simp: rate_put_def store_SetRate_def dest: db_Update_error_keeps)
qed

lemma rate_put_record:
  "rate_put env t (p, pr_asset r, pr_operation r) (pr_premiumRate r) b = store_SetRate env t p r b"
  by (cases r) (simp add: rate_put_def)

text \<open>A premium rate set for a peer is the rate computed with afterwards, whatever rates are set
  for other peers, assets or operations later; and the premium is the rate applied to the amount.\<close>

theorem premium_last_set_rate_used:
  assumes "store_SetRate env t peer rate b = (None, b1)"
    and "store_SetRate env t peer' rate' b1 = (None, b2)"
    and "rate_wf rate"
    and "(peer', pr_asset rate', pr_operation rate') \<noteq> (peer, pr_asset rate, pr_operation rate)"
  shows "Setting_Compute env t peer (pr_asset rate) (pr_operation rate) amt b2
           = Inr (PPM_Compute (pr_premiumRate rate) amt)"
proof -
  let ?k = "(peer, pr_asset rate, pr_operation rate)"
  have "rate_put env t ?k (pr_premiumRate rate) b = (None, b1)"
    and "rate_put env t (peer', pr_asset rate', pr_operation rate') (pr_premiumRate rate') b1 = (None, b2)"
    using assms(1,2) by (simp_all add: rate_put_record)
  then have "rate_get env t ?k b2 = Inr (pr_premiumRate rate)"
    using assms(3,4) by (intro rt.last_write_wins) (auto simp: rate_key_ok_def rate_wf_def)
  then show ?thesis
    by (auto simp: rate_get_def Setting_Compute_def Setting_GetRate_def map_sum_def
        split: sum.splits)
qed

theorem premium_last_set_rate_used_witness:
  "Setting_Compute bolt_ok 0 ''p'' BTC SwapOut 1000000
     (Some (Map.empty(premium_key ''p'' BTC SwapOut \<mapsto> fmt_i64 3000,
                      premium_key ''q'' BTC SwapOut \<mapsto> fmt_i64 5))) = Inr (PPM_Compute 3000 1000000)"
  using premium_last_set_rate_used
    [of bolt_ok 0 "''p''" "\<lparr>pr_asset = BTC, pr_operation = SwapOut, pr_premiumRate = 3000\<rparr>" "Some Map.empty"
        "Some (Map.empty(premium_key ''p'' BTC SwapOut \<mapsto> fmt_i64 3000))"
        "''q''" "\<lparr>pr_asset = BTC, pr_operation = SwapOut, pr_premiumRate = 5\<rparr>"
        "Some (Map.empty(premium_key ''p'' BTC SwapOut \<mapsto> fmt_i64 3000,
                      premium_key ''q'' BTC SwapOut \<mapsto> fmt_i64 5))" 1000000]
  by (simp add: store_SetRate_def db_Update_def bucket_Put_def rate_wf_def)

text \<open>Signed readings of the wrapped product.\<close>

lemma sint_eq_unat:
  assumes "unat (x :: i64) < 2 ^ 63"
  shows "sint x = int (unat x)"
proof -
  have "int (unat x) < int (2 ^ 63)" using assms by (simp only: of_nat_less_iff)
  moreover have "- (2 ^ 63) \<le> uint x"
    by (rule order_trans [of _ 0]) simp_all
  ultimately show ?thesis
    by (simp add: sint_uint signed_take_bit_int_eq_self)
qed

lemma sint_mult_exact:
  assumes "\<bar>sint amt * sint ppm\<bar> < 2 ^ 63"
  shows "sint (amt * ppm :: i64) = sint amt * sint ppm"
  using assms by (simp add: sint_word_ariths signed_take_bit_int_eq_self)

lemma sdiv_parts: "k sdiv premiumRateParts = sgn k * (\<bar>k\<bar> div 1000000)"
  by (simp add: premiumRateParts_def signed_divide_int_def)

lemma abs_sdiv_parts_le: "\<bar>k sdiv premiumRateParts\<bar> \<le> \<bar>k\<bar>"
proof -
  have "\<bar>k\<bar> div 1000000 \<le> \<bar>k\<bar>" by (simp add: zdiv_mono2 [of _ 1, simplified])
  then show ?thesis
    by (cases "k = 0") (auto simp: sdiv_parts abs_mult)
qed

text \<open>C14. While amount times rate stays below \<open>2 ^ 63\<close> the premium is the exact product divided by one
  million and truncated towards zero, and a rate of at most 100 percent gives a premium of at most
  the amount, in absolute value.\<close>

theorem premium_exact_and_bounded:
  assumes "unat amt < 2 ^ 63" and "\<bar>int (unat amt) * sint ppm\<bar> < 2 ^ 63"
  shows "sint (PPM_Compute ppm amt) = (int (unat amt) * sint ppm) sdiv premiumRateParts \<and>
    (\<bar>sint ppm\<bar> \<le> 1000000 \<longrightarrow> \<bar>sint (PPM_Compute ppm amt)\<bar> \<le> int (unat amt))"
proof -
  let ?p = "int (unat amt) * sint ppm"
  have prod: "sint (amt * ppm) = ?p"
    using assms sint_mult_exact [of amt ppm] by (simp add: sint_eq_unat)
  have "\<bar>?p sdiv premiumRateParts\<bar> < 2 ^ 63"
    using abs_sdiv_parts_le [of ?p] assms(2) by linarith
  then have eq: "sint (PPM_Compute ppm amt) = ?p sdiv premiumRateParts"
    unfolding PPM_Compute_def prod
    by (simp add: sint_sbintrunc' signed_take_bit_int_eq_self)
  have "\<bar>?p sdiv premiumRateParts\<bar> \<le> int (unat amt)" if "\<bar>sint ppm\<bar> \<le> 1000000"
  proof -
    have "\<bar>?p\<bar> \<le> int (unat amt) * 1000000"
      using that by (simp add: abs_mult mult_left_mono)
    then have le: "\<bar>?p\<bar> div 1000000 \<le> int (unat amt)"
      using zdiv_mono1 [of "\<bar>?p\<bar>" "int (unat amt) * 1000000" 1000000] by simp
    have "\<bar>?p sdiv premiumRateParts\<bar> \<le> \<bar>?p\<bar> div 1000000"
      unfolding sdiv_parts abs_mult by (cases "?p = 0") (simp_all add: pos_imp_zdiv_nonneg_iff)
    then show ?thesis using le by linarith
  qed
  then show ?thesis by (simp add: eq)
qed

theorem premium_exact_and_bounded_witness:
  "sint (PPM_Compute 2000 5000000) = 10000 \<and> \<bar>sint (PPM_Compute (- 2000) 5000000)\<bar> \<le> 5000000"
  using premium_exact_and_bounded [of 5000000 2000] premium_exact_and_bounded [of 5000000 "- 2000"]
  by (simp add: premiumRateParts_def)

end
