(* ===== verification/PS_Services.thy ===== *)
theory PS_Services
  imports PS_Store PS_Policy PS_Premium
begin

text \<open>
  The environment of a swap (\<open>swap/services.go\<close>).  The interfaces that other packages or external
  daemons implement (Lightning node, wallets, chain watchers, validators, the messenger, randomness)
  are records of functions; each takes the tick of the call, so that the environment may answer
  differently every time.  Everything the program itself keeps (swap store, log of rejected requests,
  policy, premium rates, repeated messages) is the model of the respective theory, held in a
  \<open>world\<close>.  Every call that leaves the process is appended to the trace of the world together with
  its result.
\<close>

section \<open>Interfaces\<close>

record Wallet =
  SetLabel :: "nat \<Rightarrow> string \<Rightarrow> string \<Rightarrow> string \<Rightarrow> go_error option"
  CreateOpeningTransaction :: "nat \<Rightarrow> OpeningParams \<Rightarrow> go_error + (string \<times> string \<times> string \<times> u64 \<times> u32)"
  CreatePreimageSpendingTransaction :: "nat \<Rightarrow> OpeningParams \<Rightarrow> ClaimParams \<Rightarrow> go_error + (string \<times> string \<times> string)"
  CreateCsvSpendingTransaction :: "nat \<Rightarrow> OpeningParams \<Rightarrow> ClaimParams \<Rightarrow> go_error + (string \<times> string \<times> string)"
  CreateCoopSpendingTransaction ::
    "nat \<Rightarrow> OpeningParams \<Rightarrow> ClaimParams \<Rightarrow> byte list \<Rightarrow> go_error + (string \<times> string \<times> string)"
  GetOutputScript :: "nat \<Rightarrow> OpeningParams \<Rightarrow> go_error + byte list"
  GetFlatOpeningTXFee :: "nat \<Rightarrow> go_error + u64"
  wallet_GetAsset :: string
  wallet_GetNetwork :: string
  GetOnchainBalance :: "nat \<Rightarrow> go_error + u64"

record TxWatcher =
  GetBlockHeight :: "nat \<Rightarrow> go_error + u32"

record Validator =
  ValidateTx :: "nat \<Rightarrow> OpeningParams \<Rightarrow> string \<Rightarrow> go_error + bool"
  GetCSVHeight :: u32

record LightningClient =
  DecodePayreq :: "nat \<Rightarrow> string \<Rightarrow> go_error + (string \<times> u64 \<times> i64)"
  GetPayreq :: "nat \<Rightarrow> u64 \<Rightarrow> string \<Rightarrow> string \<Rightarrow> string \<Rightarrow> InvoiceType \<Rightarrow> u64 \<Rightarrow> u64 \<Rightarrow> go_error + string"
  PayInvoiceViaChannel :: "nat \<Rightarrow> string \<Rightarrow> string \<Rightarrow> go_error + string"
  RebalancePayment :: "nat \<Rightarrow> string \<Rightarrow> string \<Rightarrow> u32 \<Rightarrow> go_error + string"
  RecoverClaimPayment :: "nat \<Rightarrow> string \<Rightarrow> go_error + string"
  CanSpend :: "nat \<Rightarrow> u64 \<Rightarrow> go_error option"
  Implementation :: string
  SpendableMsat :: "nat \<Rightarrow> string \<Rightarrow> go_error + u64"
  ReceivableMsat :: "nat \<Rightarrow> string \<Rightarrow> go_error + u64"
  ProbePayment :: "nat \<Rightarrow> string \<Rightarrow> u64 \<Rightarrow> go_error + (bool \<times> string)"

text \<open>
  \<open>pay_ticks\<close> is the number of ticks of the retry ticker that arrive before the retry context of a
  claim payment ends; \<open>fmt_swap\<close> is the text \<open>fmt\<close> prints for swap data.
\<close>

record SwapServices =
  lightning :: LightningClient
  messenger_Send :: "nat \<Rightarrow> string \<Rightarrow> PeerMessage \<Rightarrow> int \<Rightarrow> go_error option"
  bitcoinTxWatcher :: TxWatcher
  bitcoinValidator :: Validator
  bitcoinWallet :: Wallet
  bitcoinEnabled :: bool
  liquidTxWatcher :: TxWatcher
  liquidValidator :: Validator
  liquidWallet :: Wallet
  liquidEnabled :: bool
  sv_crypto :: crypto
  sv_bolt :: bolt_env
  sv_os :: os_env
  rand_preimage :: "nat \<Rightarrow> go_error + byte list"
  rand_privkey :: "nat \<Rightarrow> go_error + byte list"
  rand_SwapId :: "nat \<Rightarrow> SwapId"
  rand_Intn :: "nat \<Rightarrow> int \<Rightarrow> int"
  time_now :: "nat \<Rightarrow> i64"
  pay_ticks :: "nat \<Rightarrow> nat"
  fmt_swap :: "SwapData \<Rightarrow> string"

definition getOnChainServices :: "SwapServices \<Rightarrow> string \<Rightarrow> go_error + (TxWatcher \<times> Wallet \<times> Validator)" where
  "getOnChainServices s asset =
     (if asset = '''' then Inl (ErrText ''missing asset'')
      else if asset = btc_chain then Inr (bitcoinTxWatcher s, bitcoinWallet s, bitcoinValidator s)
      else if asset = l_btc_chain then Inr (liquidTxWatcher s, liquidWallet s, liquidValidator s)
      else Inl (WrongAssetError asset))"

lemma getOnChainServices_simps [simp]:
  "getOnChainServices s btc_chain = Inr (bitcoinTxWatcher s, bitcoinWallet s, bitcoinValidator s)"
  "getOnChainServices s l_btc_chain = Inr (liquidTxWatcher s, liquidWallet s, liquidValidator s)"
  "getOnChainServices s [] = Inl (ErrText ''missing asset'')"
  by (simp_all add: getOnChainServices_def)

lemma getOnChainServices_Inr:
  "getOnChainServices s c = Inr r \<longleftrightarrow>
     c = btc_chain \<and> r = (bitcoinTxWatcher s, bitcoinWallet s, bitcoinValidator s) \<or>
     c = l_btc_chain \<and> r = (liquidTxWatcher s, liquidWallet s, liquidValidator s)"
  by (auto simp: getOnChainServices_def)

section \<open>Labels\<close>

definition label_text :: "string \<Rightarrow> string \<Rightarrow> string" where
  "label_text kind swapID = ''peerswap -- '' @ kind @ ''(swap id='' @ swapID @ '')''"

definition label_Opening :: "string \<Rightarrow> string" where
  "label_Opening swapID = label_text ''Opening'' swapID"
definition label_ClaimByInvoice :: "string \<Rightarrow> string" where
  "label_ClaimByInvoice swapID = label_text ''ClaimByInvoice'' swapID"
definition label_ClaimByCoop :: "string \<Rightarrow> string" where
  "label_ClaimByCoop swapID = label_text ''ClaimByCoop'' swapID"
definition label_ClaimByCsv :: "string \<Rightarrow> string" where
  "label_ClaimByCsv swapID = label_text ''ClaimByCsv'' swapID"

section \<open>The world and its trace\<close>

datatype effect =
    SentMessage string PeerMessage int "go_error option"
  | OpeningTx string OpeningParams "go_error + (string \<times> string \<times> string \<times> u64 \<times> u32)"
  | PreimageSpend OpeningParams ClaimParams "go_error + (string \<times> string \<times> string)"
  | CsvSpend OpeningParams ClaimParams "go_error + (string \<times> string \<times> string)"
  | CoopSpend OpeningParams ClaimParams "byte list" "go_error + (string \<times> string \<times> string)"
  | Labelled string string string "go_error option"
  | BlockHeight string "go_error + u32"
  | OutputScript OpeningParams "go_error + byte list"
  | FlatFee string "go_error + u64"
  | OnchainBalance string "go_error + u64"
  | ValidatedTx OpeningParams string "go_error + bool"
  | DecodedPayreq string "go_error + (string \<times> u64 \<times> i64)"
  | CreatedPayreq u64 string string string InvoiceType u64 u64 "go_error + string"
  | PaidViaChannel string string "go_error + string"
  | Rebalanced string string u32 "go_error + string"
  | RecoveredPayment string "go_error + string"
  | CheckedSpend u64 "go_error option"
  | Spendable string "go_error + u64"
  | Receivable string "go_error + u64"
  | Probed string u64 "go_error + (bool \<times> string)"
  | PaymentNotifier string string InvoiceType
  | WaitForConfirmationTx string string u32 u32 u32 "byte list"
  | WaitForCsvTx string string u32 u32 u32 "byte list"
  | NewTimeOut nat string
  | DrewRandom
  | Slept int

record world =
  w_clock :: nat
  w_trace :: "effect list"
  w_store :: swap_bucket
  w_requested :: requested_bucket
  w_manager :: Manager
  w_messengers :: "PeerMessage rm_heap"
  w_policy :: "Policy \<times> policy_file"
  w_premium :: premium_bucket

definition tick :: "nat \<Rightarrow> world \<Rightarrow> world" where
  "tick n w = w\<lparr>w_clock := w_clock w + n\<rparr>"

definition emit :: "effect \<Rightarrow> world \<Rightarrow> world" where
  "emit e w = w\<lparr>w_trace := w_trace w @ [e], w_clock := Suc (w_clock w)\<rparr>"

text \<open>A call of an external service: the answer at the current tick, logged with \<open>log\<close>.\<close>

definition ext :: "(nat \<Rightarrow> 'a) \<Rightarrow> ('a \<Rightarrow> effect) \<Rightarrow> world \<Rightarrow> 'a \<times> world" where
  "ext f log w = (let r = f (w_clock w) in (r, emit (log r) w))"

lemma emit_simps [simp]:
  "w_trace (emit e w) = w_trace w @ [e]" "w_store (emit e w) = w_store w"
  "w_requested (emit e w) = w_requested w" "w_manager (emit e w) = w_manager w"
  "w_messengers (emit e w) = w_messengers w" "w_policy (emit e w) = w_policy w"
  "w_premium (emit e w) = w_premium w" "w_clock (emit e w) = Suc (w_clock w)"
  by (simp_all add: emit_def)

lemma tick_simps [simp]:
  "w_trace (tick n w) = w_trace w" "w_store (tick n w) = w_store w"
  "w_requested (tick n w) = w_requested w" "w_manager (tick n w) = w_manager w"
  "w_messengers (tick n w) = w_messengers w" "w_policy (tick n w) = w_policy w"
  "w_premium (tick n w) = w_premium w" "w_clock (tick n w) = w_clock w + n"
  by (simp_all add: tick_def)

lemma ext_eq: "ext f log w = (r, w') \<longleftrightarrow> r = f (w_clock w) \<and> w' = emit (log r) w"
  by (auto simp: ext_def Let_def)

text \<open>\<open>services.swapStore.UpdateData(s)\<close>, \<open>services.requestedSwapsStore.Add\<close> and
  \<open>services.messengerManager.RemoveSender\<close> on the world; the last two may panic.\<close>

definition world_UpdateData :: "SwapServices \<Rightarrow> SwapStateMachine \<Rightarrow> world \<Rightarrow> go_error option \<times> world" where
  "world_UpdateData sv sm w = (case UpdateData (sv_bolt sv) (w_clock w) sm (w_store w) of
     (e, b) \<Rightarrow> (e, tick 4 (w\<lparr>w_store := b\<rparr>)))"

definition world_Add :: "SwapServices \<Rightarrow> string \<Rightarrow> RequestedSwap \<Rightarrow> world \<Rightarrow> world option" where
  "world_Add sv ident r w = (case req_Add (sv_bolt sv) (w_clock w) ident r (w_requested w) of
     None \<Rightarrow> None
   | Some (_, b) \<Rightarrow> Some (tick 1 (w\<lparr>w_requested := b\<rparr>)))"

definition world_RemoveSender :: "string \<Rightarrow> world \<Rightarrow> world option" where
  "world_RemoveSender ident w = (case RemoveSender (w_manager w) ident (w_messengers w) of
     None \<Rightarrow> None
   | Some (m, h) \<Rightarrow> Some (w\<lparr>w_manager := m, w_messengers := h\<rparr>))"

definition world_Compute ::
  "SwapServices \<Rightarrow> string \<Rightarrow> AssetType \<Rightarrow> OperationType \<Rightarrow> u64 \<Rightarrow> world \<Rightarrow> (go_error + i64) \<times> world" where
  "world_Compute sv peer asset operation amt w =
     (Setting_Compute (sv_bolt sv) (w_clock w) peer asset operation amt (w_premium w), tick 1 w)"

definition send_message ::
  "SwapServices \<Rightarrow> string \<Rightarrow> PeerMessage \<Rightarrow> int \<Rightarrow> world \<Rightarrow> go_error option \<times> world" where
  "send_message sv peer msg ty w = ext (\<lambda>t. messenger_Send sv t peer msg ty) (SentMessage peer msg ty) w"

lemma world_UpdateData_frame:
  "world_UpdateData sv sm w = (e, w') \<Longrightarrow> w_trace w' = w_trace w \<and> w_manager w' = w_manager w \<and>
     w_messengers w' = w_messengers w \<and> w_policy w' = w_policy w \<and> w_requested w' = w_requested w \<and>
     w_premium w' = w_premium w"
  by (auto simp: world_UpdateData_def split: prod.splits)

lemma world_Add_frame:
  "world_Add sv i r w = Some w' \<Longrightarrow> w_trace w' = w_trace w \<and> w_manager w' = w_manager w \<and>
     w_messengers w' = w_messengers w \<and> w_policy w' = w_policy w \<and> w_store w' = w_store w"
  by (auto simp: world_Add_def split: option.splits)

lemma world_RemoveSender_frame:
  "world_RemoveSender i w = Some w' \<Longrightarrow> w_trace w' = w_trace w \<and> w_policy w' = w_policy w \<and>
     w_store w' = w_store w \<and> w_requested w' = w_requested w"
  by (auto simp: world_RemoveSender_def split: option.splits)

lemmas world_frames = world_UpdateData_frame world_Add_frame world_RemoveSender_frame

section \<open>A concrete environment\<close>

text \<open>
  An environment in which every service answers, used to run the definitions on concrete inputs:
  block height 500 on both chains, invoices of 100000 sat with a final CLTV of 20, fees of 300 sat.
\<close>

definition demo_wallet :: "string \<Rightarrow> string \<Rightarrow> Wallet" where
  "demo_wallet asset network = \<lparr>SetLabel = (\<lambda>_ _ _ _. None),
     CreateOpeningTransaction = (\<lambda>_ _. Inr (''0200'', ''addr'', ''txid'', 300, 1)),
     CreatePreimageSpendingTransaction = (\<lambda>_ _ _. Inr (''claimtx'', ''0201'', ''addr'')),
     CreateCsvSpendingTransaction = (\<lambda>_ _ _. Inr (''csvtx'', ''0202'', ''addr'')),
     CreateCoopSpendingTransaction = (\<lambda>_ _ _ _. Inr (''cooptx'', ''0203'', ''addr'')),
     GetOutputScript = (\<lambda>_ _. Inr [0, 32]), GetFlatOpeningTXFee = (\<lambda>_. Inr 300),
     wallet_GetAsset = asset, wallet_GetNetwork = network, GetOnchainBalance = (\<lambda>_. Inr 1000000)\<rparr>"

definition demo_lightning :: LightningClient where
  "demo_lightning = \<lparr>DecodePayreq = (\<lambda>_ p. Inr (''hash'', (if p = ''fee'' then 300000 else 100000000), 20)),
     GetPayreq = (\<lambda>_ _ _ _ _ ty _ _. Inr (if ty = INVOICE_FEE then ''fee'' else ''claim'')),
     PayInvoiceViaChannel = (\<lambda>_ _ _. Inr ''feepre''),
     RebalancePayment = (\<lambda>_ _ _ _. Inr ''claimpre''), RecoverClaimPayment = (\<lambda>_ _. Inr ''claimpre''),
     CanSpend = (\<lambda>_ _. None), Implementation = ''CLN'', SpendableMsat = (\<lambda>_ _. Inr 900000000),
     ReceivableMsat = (\<lambda>_ _. Inr 900000000), ProbePayment = (\<lambda>_ _ _. Inr (True, ''''))\<rparr>"

definition demo_services :: SwapServices where
  "demo_services = \<lparr>lightning = demo_lightning, messenger_Send = (\<lambda>_ _ _ _. None),
     bitcoinTxWatcher = \<lparr>GetBlockHeight = (\<lambda>_. Inr 500)\<rparr>,
     bitcoinValidator = \<lparr>ValidateTx = (\<lambda>_ _ _. Inr True), GetCSVHeight = 1008\<rparr>,
     bitcoinWallet = demo_wallet '''' ''regtest'', bitcoinEnabled = True,
     liquidTxWatcher = \<lparr>GetBlockHeight = (\<lambda>_. Inr 500)\<rparr>,
     liquidValidator = \<lparr>ValidateTx = (\<lambda>_ _ _. Inr True), GetCSVHeight = 10080\<rparr>,
     liquidWallet = demo_wallet ''asset'' '''', liquidEnabled = True,
     sv_crypto = \<lparr>sha256 = (\<lambda>_. replicate 32 9), PrivKey_Serialize = (\<lambda>k. k),
       PubKey_SerializeCompressed = (\<lambda>k. 2 # k)\<rparr>,
     sv_bolt = bolt_ok, sv_os = quiet_os, rand_preimage = (\<lambda>_. Inr (replicate 32 5)),
     rand_privkey = (\<lambda>_. Inr (replicate 32 6)), rand_SwapId = (\<lambda>_. replicate 32 1),
     rand_Intn = (\<lambda>_ n. n - 1), time_now = (\<lambda>_. 1700000000), pay_ticks = (\<lambda>_. 12),
     fmt_swap = (\<lambda>_. ''swap'')\<rparr>"

definition demo_world :: world where
  "demo_world = \<lparr>w_clock = 0, w_trace = [], w_store = Some Map.empty, w_requested = Some Map.empty,
     w_manager = NewManager, w_messengers = [],
     w_policy = (sample_policy\<lparr>AcceptAllPeers := True\<rparr>, Some ''accept_all_peers=true''),
     w_premium = Some Map.empty\<rparr>"

text \<open>A swap-out over Bitcoin as its sender sees it, up to the opening transaction.\<close>

definition demo_agreement :: SwapOutAgreementMessage where
  "demo_agreement = \<lparr>soa_ProtocolVersion = 7, soa_SwapId = Some (replicate 32 1),
     soa_Pubkey = sample_pubkey, soa_Payreq = ''fee'', soa_Premium = 0\<rparr>"

definition demo_opening :: OpeningTxBroadcastedMessage where
  "demo_opening = \<lparr>otb_SwapId = Some (replicate 32 1), otb_Payreq = ''claim'',
     otb_TxId = hex_EncodeToString (replicate 32 8), otb_ScriptOut = 1, otb_BlindingKey = ''''\<rparr>"

definition demo_out_data :: SwapData where
  "demo_out_data = empty_SwapData\<lparr>SwapOutRequest := Some sample_out_request,
     SwapOutAgreement := Some demo_agreement, OpeningTxBroadcasted := Some demo_opening,
     PeerNodeId := ''peer'', PrivkeyBytes := replicate 32 3, StartingBlockHeight := 490\<rparr>"

lemmas demo_defs = demo_wallet_def demo_lightning_def demo_services_def demo_world_def
  demo_agreement_def demo_opening_def

lemma demo_out_data_simps [simp]:
  "GetChain demo_out_data = btc_chain" "GetScid demo_out_data = ''1x2x3''"
  "GetId demo_out_data = Some (replicate 32 1)" "GetAmount demo_out_data = 100000"
  "GetProtocolVersion demo_out_data = 7" "GetClaimAmount demo_out_data = Some 100000"
  "GetOpeningTXAmount demo_out_data = Some 100000"
  "OpeningTxBroadcasted demo_out_data = Some demo_opening"
  "SwapOutAgreement demo_out_data = Some demo_agreement"
  "SwapOutRequest demo_out_data = Some sample_out_request" "StartingBlockHeight demo_out_data = 490"
  "SwapInAgreement demo_out_data = None" "SwapInRequest demo_out_data = None"
  "PeerNodeId demo_out_data = ''peer''" "GetTakerPubkey demo_out_data = sample_pubkey"
  "GetMakerPubkey demo_out_data = sample_pubkey" "ClaimTxId demo_out_data = ''''"
  "OpeningTxHex demo_out_data = ''''" "ClaimPreimage demo_out_data = ''''"
  by (simp_all add: demo_out_data_def empty_SwapData_def sample_out_request_def demo_agreement_def
      GetChain_def GetAsset_def GetNetwork_def GetScid_def GetId_def GetAmount_def
      GetProtocolVersion_def GetClaimAmount_def GetOpeningTXAmount_def GetTakerPubkey_def
      GetMakerPubkey_def)

lemma demo_out_policy [simp]: "getTimelockPolicy demo_out_data = Inr bitcoin_policy"
  by (simp add: getTimelockPolicy_def Let_def timelock_consts)

lemma demo_out_params:
  "\<exists>params. GetOpeningParams (sv_crypto demo_services) demo_out_data = Some params"
  by (simp add: GetOpeningParams_def)

lemma demo_services_simps [simp]:
  "lightning demo_services = demo_lightning" "messenger_Send demo_services t p m i = None"
  "bitcoinTxWatcher demo_services = \<lparr>GetBlockHeight = (\<lambda>_. Inr 500)\<rparr>"
  "bitcoinValidator demo_services = \<lparr>ValidateTx = (\<lambda>_ _ _. Inr True), GetCSVHeight = 1008\<rparr>"
  "bitcoinWallet demo_services = demo_wallet '''' ''regtest''" "bitcoinEnabled demo_services"
  "liquidEnabled demo_services" "sv_bolt demo_services = bolt_ok" "sv_os demo_services = quiet_os"
  "pay_ticks demo_services t = Suc 11" "rand_Intn demo_services t n = n - 1"
  "rand_preimage demo_services t = Inr (replicate 32 5)" "rand_SwapId demo_services t = replicate 32 1"
  by (simp_all add: demo_services_def)

lemma demo_lightning_simps [simp]:
  "RebalancePayment demo_lightning t p c m = Inr ''claimpre''"
  "DecodePayreq demo_lightning t p = Inr (''hash'', (if p = ''fee'' then 300000 else 100000000), 20)"
  "GetPayreq demo_lightning t a pre i memo ty ex cl = Inr (if ty = INVOICE_FEE then ''fee'' else ''claim'')"
  "PayInvoiceViaChannel demo_lightning t p c = Inr ''feepre''"
  "SpendableMsat demo_lightning t c = Inr 900000000" "ReceivableMsat demo_lightning t c = Inr 900000000"
  "ProbePayment demo_lightning t c a = Inr (True, '''')" "CanSpend demo_lightning t a = None"
  by (simp_all add: demo_lightning_def)

lemma demo_world_simps [simp]:
  "w_trace demo_world = []" "w_store demo_world = Some Map.empty" "w_requested demo_world = Some Map.empty"
  "w_manager demo_world = NewManager" "w_messengers demo_world = []" "w_clock demo_world = 0"
  "w_premium demo_world = Some Map.empty"
  by (simp_all add: demo_world_def)

lemma demo_opening_simps [simp]:
  "otb_Payreq demo_opening = ''claim''" "otb_ScriptOut demo_opening = 1" "soa_Payreq demo_agreement = ''fee''"
  by (simp_all add: demo_opening_def demo_agreement_def)

end
