(* ===== verification/PS_Actions.thy ===== *)
theory PS_Actions
  imports PS_Services
begin

text \<open>
  The actions of the state machines (\<open>swap/actions.go\<close>), one definition per \<open>Execute\<close> method.  An
  action takes the services, the swap data and the world and returns the next event with the new
  data and world; \<open>None\<close> is a panic (a nil pointer dereference or the second close of a channel).
\<close>

type_synonym result = "(EventType \<times> SwapData \<times> world) option"
type_synonym step = "SwapData \<Rightarrow> world \<Rightarrow> result"

section \<open>Errors\<close>

definition HandleError :: "go_error option \<Rightarrow> SwapData \<Rightarrow> SwapData" where
  "HandleError err s =
     (let s = s\<lparr>LastErr := err\<rparr>;
          s = (case err of Some e \<Rightarrow> s\<lparr>LastErrString := Error e\<rparr> | None \<Rightarrow> s)
      in if CancelMsg s = '''' then s\<lparr>CancelMsg := LastErrString s\<rparr> else s)"

definition fail :: "go_error option \<Rightarrow> step" where
  "fail err d w = Some (Event_ActionFailed, HandleError err d, w)"

text \<open>The pattern \<open>if err != nil { return swap.HandleError(err) }\<close> after a call.\<close>

definition unless_err :: "(go_error + 'a) \<times> world \<Rightarrow> SwapData \<Rightarrow> ('a \<Rightarrow> world \<Rightarrow> result) \<Rightarrow> result" where
  "unless_err r d k = (case r of (Inl e, w) \<Rightarrow> fail (Some e) d w | (Inr x, w) \<Rightarrow> k x w)"

text \<open>A dereference of a pointer that may be nil.\<close>

definition deref :: "'a option \<Rightarrow> ('a \<Rightarrow> result) \<Rightarrow> result" where
  "deref p k = (case p of None \<Rightarrow> None | Some x \<Rightarrow> k x)"

lemma deref_simps [simp]: "deref None k = None" "deref (Some x) k = k x"
  by (simp_all add: deref_def)

lemma unless_err_simps [simp]:
  "unless_err (Inl e, w) d k = fail (Some e) d w" "unless_err (Inr x, w) d k = k x w"
  by (simp_all add: unless_err_def)

section \<open>Checking a request\<close>

definition rejected_request :: "SwapData \<Rightarrow> string \<Rightarrow> RequestedSwap" where
  "rejected_request d reason = \<lparr>rs_Asset = GetChain d, rs_AmountSat = GetAmount d, rs_Type = GetType d,
     rs_RejectionReason = reason\<rparr>"

text \<open>A refusal: the reason becomes the cancel message and is recorded for the peer.\<close>

definition reject :: "SwapServices \<Rightarrow> string \<Rightarrow> go_error \<Rightarrow> step" where
  "reject sv reason err d w =
     (let d = d\<lparr>CancelMsg := reason\<rparr> in
      deref (world_Add sv (PeerNodeId d) (rejected_request d reason) w) (\<lambda>w. fail (Some err) d w))"

definition CheckRequestWrapperAction_Execute :: "SwapServices \<Rightarrow> step \<Rightarrow> step" where
  "CheckRequestWrapperAction_Execute sv next d w =
     (let policy = fst (w_policy w); rej = (\<lambda>reason. reject sv reason (ErrText reason) d w) in
      if \<not> NewSwapsAllowed policy then rej ''swaps are disabled''
      else if GetChain d = l_btc_chain \<and> \<not> liquidEnabled sv then rej ''lbtc swaps are not supported''
      else if GetChain d = btc_chain \<and> \<not> bitcoinEnabled sv then rej ''btc swaps are not supported''
      else if GetProtocolVersion d \<noteq> PEERSWAP_PROTOCOL_VERSION then rej ''incompatible peerswap version''
      else if GetAmount d * 1000 < GetMinSwapAmountMsat policy
      then rej (Error (ErrMinimumSwapSize (GetMinSwapAmountMsat policy)))
      else unless_err (getOnChainServices sv (GetChain d), w) d (\<lambda>(_, wallet, _) w.
        if GetAsset d \<noteq> '''' \<and> GetAsset d \<noteq> wallet_GetAsset wallet
        then rej (''invalid liquid asset '' @ GetAsset d)
        else if GetNetwork d \<noteq> '''' \<and> GetNetwork d \<noteq> wallet_GetNetwork wallet
        then rej (''invalid bitcoin network '' @ GetNetwork d)
        else if \<not> IsPeerAllowed policy (PeerNodeId d)
        then reject sv (''peer '' @ PeerNodeId d @ '' not allowed to request swaps'')
               (PeerNotAllowedError (PeerNodeId d)) d w
        else if IsPeerSuspicious policy (PeerNodeId d)
        then reject sv (''peer '' @ PeerNodeId d @ '' not allowed to request swaps'')
               (PeerIsSuspiciousError (PeerNodeId d)) d w
        else next d w))"

section \<open>Creating a swap\<close>

definition setLiquidPaymentWindowAnchor ::
  "SwapServices \<Rightarrow> SwapData \<Rightarrow> world \<Rightarrow> go_error option \<times> SwapData \<times> world" where
  "setLiquidPaymentWindowAnchor sv d w =
     (if GetChain d \<noteq> l_btc_chain \<or> GetProtocolVersion d \<noteq> PEERSWAP_PROTOCOL_VERSION then (None, d, w)
      else (case getOnChainServices sv (GetChain d) of
        Inl e \<Rightarrow> (Some e, d, w)
      | Inr (onchain, _, _) \<Rightarrow> (case ext (GetBlockHeight onchain) (BlockHeight (GetChain d)) w of
          (Inl e, w) \<Rightarrow> (Some e, d, w)
        | (Inr height, w) \<Rightarrow>
            (None, d\<lparr>StartingBlockHeight := height, StartingBlockHeightSet := True\<rparr>, w))))"

definition own_pubkey :: "SwapServices \<Rightarrow> SwapData \<Rightarrow> string" where
  "own_pubkey sv d = hex_EncodeToString (PubKey_SerializeCompressed (sv_crypto sv) (PrivkeyBytes d))"

definition premium_asset :: "SwapData \<Rightarrow> AssetType" where
  "premium_asset d = (if GetChain d = l_btc_chain then LBTC else BTC)"

text \<open>Storing the next message of the swap, and starting the ten minute timeout.\<close>

definition set_next :: "PeerMessage \<Rightarrow> SwapData \<Rightarrow> SwapData" where
  "set_next m d = d\<lparr>NextMessage := Some (fst (MarshalPeerswapMessage m)),
                    NextMessageType := snd (MarshalPeerswapMessage m)\<rparr>"

definition start_timeout :: step where
  "start_timeout d w = Some (Event_ActionSucceeded, d\<lparr>toCancelSet := True\<rparr>,
     emit (NewTimeOut 600 (SwapId_String (GetId d))) w)"

definition SwapInReceiverInitAction_Execute :: "SwapServices \<Rightarrow> step" where
  "SwapInReceiverInitAction_Execute sv d w =
     (case setLiquidPaymentWindowAnchor sv d w of
        (Some e, d, w) \<Rightarrow> fail (Some e) d w
      | (None, d, w) \<Rightarrow>
          unless_err (world_Compute sv (PeerNodeId d) (premium_asset d) SwapIn (GetAmount d) w) d
            (\<lambda>premiumValue w.
              let agreementMessage = \<lparr>sia_ProtocolVersion = PEERSWAP_PROTOCOL_VERSION,
                    sia_SwapId = GetId d, sia_Pubkey = own_pubkey sv d, sia_Premium = premiumValue\<rparr>;
                  d = d\<lparr>SwapInAgreement := Some agreementMessage\<rparr>
              in start_timeout (set_next (MsgSwapInAgreement agreementMessage) d) w))"

definition SetBlindingKeyActionWrapper_Execute :: "SwapServices \<Rightarrow> step \<Rightarrow> step" where
  "SetBlindingKeyActionWrapper_Execute sv next d w =
     (if GetChain d = l_btc_chain then
        unless_err (ext (rand_privkey sv) (\<lambda>_. DrewRandom) w) d (\<lambda>key w.
          next (d\<lparr>BlindingKeyHex := hex_EncodeToString (PrivKey_Serialize (sv_crypto sv) key)\<rparr>) w)
      else next d w)"

text \<open>\<open>MarshalPeerswapMessage(swap.GetRequest())\<close> panics when there is no request.\<close>

definition CreateSwapRequestAction_Execute :: "SwapServices \<Rightarrow> step" where
  "CreateSwapRequestAction_Execute sv d w =
     (case setLiquidPaymentWindowAnchor sv d w of
        (Some e, d, w) \<Rightarrow> fail (Some e) d w
      | (None, d, w) \<Rightarrow> deref (GetRequest d) (\<lambda>req. start_timeout (set_next req d) w))"

definition invoice_memo :: "SwapData \<Rightarrow> InvoiceType \<Rightarrow> string" where
  "invoice_memo d ty = ''peerswap '' @ GetChain d @ '' '' @ InvoiceType_String ty @ '' '' @
     GetScidInBoltFormat d @ '' '' @ SwapId_String (GetId d)"

definition CreateSwapOutFromRequestAction_Execute :: "SwapServices \<Rightarrow> step" where
  "CreateSwapOutFromRequestAction_Execute sv d w =
     unless_err (getOnChainServices sv (GetChain d), w) d (\<lambda>(_, wallet, _) w.
     unless_err (ext (GetFlatOpeningTXFee wallet) (FlatFee (GetChain d)) w) d (\<lambda>openingFee w.
     unless_err (ext (GetOnchainBalance wallet) (OnchainBalance (GetChain d)) w) d (\<lambda>walletBalance w.
       if walletBalance < GetAmount d + openingFee
       then fail (Some (ErrText ''insufficient walletbalance'')) d w
       else
     unless_err (ext (rand_preimage sv) (\<lambda>_. DrewRandom) w) d (\<lambda>feepreimage w.
     unless_err (ext (\<lambda>t. GetPayreq (lightning sv) t (openingFee * 1000) (hex_EncodeToString feepreimage)
                   (SwapId_String (GetId d)) (invoice_memo d INVOICE_FEE) INVOICE_FEE 600 0)
                 (CreatedPayreq (openingFee * 1000) (hex_EncodeToString feepreimage)
                   (SwapId_String (GetId d)) (invoice_memo d INVOICE_FEE) INVOICE_FEE 600 0) w) d (\<lambda>feeInvoice w.
     unless_err (world_Compute sv (PeerNodeId d) (premium_asset d) SwapOut (GetAmount d) w) d (\<lambda>premiumValue w.
       let message = \<lparr>soa_ProtocolVersion = PEERSWAP_PROTOCOL_VERSION, soa_SwapId = GetId d,
             soa_Pubkey = own_pubkey sv d, soa_Payreq = feeInvoice, soa_Premium = premiumValue\<rparr>;
           d = d\<lparr>SwapOutAgreement := Some message\<rparr>
       in start_timeout (set_next (MsgSwapOutAgreement message) d) w))))))"

section \<open>Maker\<close>

definition premium_too_high :: "i64 \<Rightarrow> i64 \<Rightarrow> go_error" where
  "premium_too_high p l = ErrText (''premium amt too high: '' @ fmt_i64 p @ '', limit : '' @ fmt_i64 l)"

definition CheckPremiumAmount_Execute :: "SwapServices \<Rightarrow> step \<Rightarrow> step" where
  "CheckPremiumAmount_Execute sv next d w = (case SwapInAgreement d of
     Some a \<Rightarrow> deref (SwapInRequest d) (\<lambda>r.
       if sint (sir_PremiumLimit r) < sint (sia_Premium a)
       then fail (Some (premium_too_high (sia_Premium a) (sir_PremiumLimit r))) d w
       else next d w)
   | None \<Rightarrow> (case SwapOutAgreement d of
       Some a \<Rightarrow> deref (SwapOutRequest d) (\<lambda>r.
         if sint (sor_PremiumLimit r) < sint (soa_Premium a)
         then fail (Some (premium_too_high (soa_Premium a) (sor_PremiumLimit r))) d w
         else next d w)
     | None \<Rightarrow> fail (Some (ErrText (''unexpected swap data: '' @ fmt_swap sv d))) d w))"

text \<open>
  The blinding key of the opening transaction: on Liquid the key of the swap data, whose
  serialisation dereferences it.
\<close>

definition opening_blinding_key :: "SwapServices \<Rightarrow> SwapData \<Rightarrow> (byte list option \<times> string) option" where
  "opening_blinding_key sv d =
     (if GetChain d = l_btc_chain then
        (case GetOpeningParams (sv_crypto sv) d of
           None \<Rightarrow> None
         | Some op \<Rightarrow> (case op_BlindingKey op of
             None \<Rightarrow> None
           | Some k \<Rightarrow> Some (Some k, hex_EncodeToString (PrivKey_Serialize (sv_crypto sv) k))))
      else Some (None, ''''))"

definition CreateAndBroadcastOpeningTransaction_Execute :: "SwapServices \<Rightarrow> step" where
  "CreateAndBroadcastOpeningTransaction_Execute sv d w =
     unless_err (getOnChainServices sv (GetChain d), w) d (\<lambda>(txWatcher, wallet, _) w.
     if OpeningTxBroadcasted d \<noteq> None then Some (Event_ActionSucceeded, d, w)
     else
     unless_err (ext (rand_preimage sv) (\<lambda>_. DrewRandom) w) d (\<lambda>preimage w.
     (let d = d\<lparr>ClaimPreimage := hex_EncodeToString preimage\<rparr> in
     unless_err (getTimelockPolicy d, w) d (\<lambda>policy w.
     deref (GetClaimAmount d) (\<lambda>claimAmount.
     unless_err (ext (\<lambda>t. GetPayreq (lightning sv) t (claimAmount * 1000) (hex_EncodeToString preimage)
                   (SwapId_String (GetId d)) (invoice_memo d INVOICE_CLAIM) INVOICE_CLAIM
                   (GetInvoiceExpiry d) (GetInvoiceCltv d))
                 (CreatedPayreq (claimAmount * 1000) (hex_EncodeToString preimage)
                   (SwapId_String (GetId d)) (invoice_memo d INVOICE_CLAIM) INVOICE_CLAIM
                   (GetInvoiceExpiry d) (GetInvoiceCltv d)) w) d (\<lambda>payreq w.
     deref (opening_blinding_key sv d) (\<lambda>(blindingKey, blindingKeyHex).
     deref (GetOpeningTXAmount d) (\<lambda>amount.
     (let params = \<lparr>op_TakerPubkey = GetTakerPubkey d, op_MakerPubkey = GetMakerPubkey d,
            op_ClaimPaymentHash = hex_EncodeToString (sha256 (sv_crypto sv) preimage),
            op_Amount = amount, op_CSV = CSV policy, op_BlindingKey = blindingKey\<rparr> in
     unless_err (ext (\<lambda>t. CreateOpeningTransaction wallet t params) (OpeningTx (GetChain d) params) w) d
       (\<lambda>(txHex, address, txId, _, vout) w.
     deref (SwapId_Short (GetId d)) (\<lambda>short.
     (let (_, w) = ext (\<lambda>t. SetLabel wallet t txId address (label_Opening short))
                     (Labelled txId address (label_Opening short)) w in
     unless_err (ext (GetBlockHeight txWatcher) (BlockHeight (GetChain d)) w) d (\<lambda>startingHeight w.
       let d = d\<lparr>StartingBlockHeight := startingHeight\<rparr>;
           d = (if GetChain d = l_btc_chain \<and> GetProtocolVersion d = PEERSWAP_PROTOCOL_VERSION
                then d\<lparr>StartingBlockHeightSet := True\<rparr> else d);
           message = \<lparr>otb_SwapId = GetId d, otb_Payreq = payreq, otb_TxId = txId, otb_ScriptOut = vout,
             otb_BlindingKey = blindingKeyHex\<rparr>;
           d = d\<lparr>OpeningTxHex := txHex, OpeningTxBroadcasted := Some message\<rparr>
       in Some (Event_ActionSucceeded, set_next (MsgOpeningTxBroadcasted message) d, w))))))))))))))"

definition StopSendMessageWithRetryWrapperAction_Execute :: "step \<Rightarrow> step" where
  "StopSendMessageWithRetryWrapperAction_Execute next d w =
     deref (world_RemoveSender (SwapId_String (GetId d)) w) (\<lambda>w. next d w)"

text \<open>The watch for the refund timelock, shared by the two waiting actions.\<close>

definition add_csv_watch :: "SwapServices \<Rightarrow> Wallet \<Rightarrow> step" where
  "add_csv_watch sv wallet d w =
     unless_err (getTimelockPolicy d, w) d (\<lambda>policy w.
     deref (GetOpeningParams (sv_crypto sv) d) (\<lambda>params.
     unless_err (ext (\<lambda>t. GetOutputScript wallet t params) (OutputScript params) w) d (\<lambda>wantScript w.
     deref (OpeningTxBroadcasted d) (\<lambda>m.
       Some (NoOp, d, emit (WaitForCsvTx (SwapId_String (GetId d)) (otb_TxId m) (otb_ScriptOut m)
               (StartingBlockHeight d) (CSV policy) wantScript) w)))))"

definition AwaitPaymentOrCsvAction_Execute :: "SwapServices \<Rightarrow> step" where
  "AwaitPaymentOrCsvAction_Execute sv d w =
     unless_err (getOnChainServices sv (GetChain d), w) d (\<lambda>(onchain, wallet, _) w.
     deref (OpeningTxBroadcasted d) (\<lambda>m.
       add_csv_watch sv wallet d
         (emit (PaymentNotifier (SwapId_String (GetId d)) (otb_Payreq m) INVOICE_CLAIM) w)))"

definition AwaitFeeInvoicePayment_Execute :: "SwapServices \<Rightarrow> step" where
  "AwaitFeeInvoicePayment_Execute sv d w = deref (SwapOutAgreement d) (\<lambda>a.
     Some (NoOp, d, emit (PaymentNotifier (SwapId_String (GetId d)) (soa_Payreq a) INVOICE_FEE) w))"

definition AwaitCsvAction_Execute :: "SwapServices \<Rightarrow> step" where
  "AwaitCsvAction_Execute sv d w =
     unless_err (getOnChainServices sv (GetChain d), w) d (\<lambda>(onchain, wallet, _) w.
       add_csv_watch sv wallet d w)"

section \<open>Claiming\<close>

text \<open>The end of a claim: remember the transaction and label it.\<close>

definition claimed :: "Wallet \<Rightarrow> (string \<Rightarrow> string) \<Rightarrow> string \<times> string \<times> string \<Rightarrow> step" where
  "claimed wallet label tx d w = (case tx of (txId, _, address) \<Rightarrow>
     (let d = d\<lparr>ClaimTxId := txId\<rparr> in deref (SwapId_Short (GetId d)) (\<lambda>short.
        Some (Event_ActionSucceeded, d, snd (ext (\<lambda>t. SetLabel wallet t txId address (label short))
          (Labelled txId address (label short)) w)))))"

definition ClaimSwapTransactionWithPreimageAction_Execute :: "SwapServices \<Rightarrow> step" where
  "ClaimSwapTransactionWithPreimageAction_Execute sv d w =
     unless_err (getOnChainServices sv (GetChain d), w) d (\<lambda>(_, wallet, _) w.
     if ClaimTxId d = '''' then
       deref (GetOpeningParams (sv_crypto sv) d) (\<lambda>params.
       (case ext (\<lambda>t. CreatePreimageSpendingTransaction wallet t params (GetClaimParams d))
               (PreimageSpend params (GetClaimParams d)) w of
          (Inl e, w) \<Rightarrow> Some (Event_OnRetry, d, w)
        | (Inr tx, w) \<Rightarrow> claimed wallet label_ClaimByInvoice tx d w))
     else Some (Event_ActionSucceeded, d, w))"

definition ClaimSwapTransactionWithCsv_Execute :: "SwapServices \<Rightarrow> step" where
  "ClaimSwapTransactionWithCsv_Execute sv d w =
     (case getOnChainServices sv (GetChain d) of
        Inl e \<Rightarrow> Some (Event_OnRetry, HandleError (Some e) d, w)
      | Inr (_, wallet, _) \<Rightarrow>
          if ClaimTxId d = '''' then
            deref (GetOpeningParams (sv_crypto sv) d) (\<lambda>params.
            (case ext (\<lambda>t. CreateCsvSpendingTransaction wallet t params (GetClaimParams d))
                    (CsvSpend params (GetClaimParams d)) w of
               (Inl e, w) \<Rightarrow> Some (Event_OnRetry, HandleError (Some e) d, w)
             | (Inr tx, w) \<Rightarrow> claimed wallet label_ClaimByCsv tx d w))
          else Some (Event_ActionSucceeded, d, w))"

definition ClaimSwapTransactionCoop_Execute :: "SwapServices \<Rightarrow> step" where
  "ClaimSwapTransactionCoop_Execute sv d w =
     unless_err (getOnChainServices sv (GetChain d), w) d (\<lambda>(_, wallet, _) w.
     deref (CoopClose d) (\<lambda>cc. (case hex_DecodeString (cc_Privkey cc) of
        (_, Some e) \<Rightarrow> fail (Some (ErrHex e)) d w
      | (takerKeyBytes, None) \<Rightarrow>
          if ClaimTxId d = '''' then
            deref (GetOpeningParams (sv_crypto sv) d) (\<lambda>params.
            unless_err (ext (\<lambda>t. CreateCoopSpendingTransaction wallet t params (GetClaimParams d) takerKeyBytes)
                    (CoopSpend params (GetClaimParams d) takerKeyBytes) w) d (\<lambda>tx w.
              claimed wallet label_ClaimByCoop tx d w))
          else Some (Event_ActionSucceeded, d, w))))"

section \<open>Messages\<close>

definition SendCancelAction_Execute :: "SwapServices \<Rightarrow> step" where
  "SendCancelAction_Execute sv d w =
     (let msg = MsgCancel \<lparr>cm_SwapId = GetId d, cm_Message = CancelMsg d\<rparr> in
      case send_message sv (PeerNodeId d) (fst (MarshalPeerswapMessage msg)) (snd (MarshalPeerswapMessage msg)) w of
        (Some e, w) \<Rightarrow> fail (Some e) d w
      | (None, w) \<Rightarrow> Some (Event_ActionSucceeded, d, w))"

definition TakerSendPrivkeyAction_Execute :: "SwapServices \<Rightarrow> step" where
  "TakerSendPrivkeyAction_Execute sv d w = Some (Event_ActionSucceeded,
     set_next (MsgCoopClose \<lparr>cc_SwapId = GetId d, cc_Message = CancelMsg d,
       cc_Privkey = hex_EncodeToString (PrivkeyBytes d)\<rparr>) d, w)"

definition SendMessageAction_Execute :: "SwapServices \<Rightarrow> step" where
  "SendMessageAction_Execute sv d w = (case NextMessage d of
     None \<Rightarrow> fail (Some (ErrText ''swap.NextMessage is nil'')) d w
   | Some msg \<Rightarrow> (case send_message sv (PeerNodeId d) msg (NextMessageType d) w of
        (Some e, w) \<Rightarrow> fail (Some e) d w
      | (None, w) \<Rightarrow> Some (Event_ActionSucceeded, d, w)))"

text \<open>The error of the first send is dropped.\<close>

definition SendMessageWithRetryAction_Execute :: "SwapServices \<Rightarrow> step" where
  "SendMessageWithRetryAction_Execute sv d w = (case NextMessage d of
     None \<Rightarrow> fail (Some (ErrText ''swap.NextMessage is nil'')) d w
   | Some msg \<Rightarrow> (case NewRedundantMessenger (w_messengers w) of (rm, h) \<Rightarrow>
       (case AddSender (w_manager w) (SwapId_String (GetId d)) rm of
          (Some e, _) \<Rightarrow> fail (Some e) d (w\<lparr>w_messengers := h\<rparr>)
        | (None, m) \<Rightarrow>
            (case send_message sv (PeerNodeId d) msg (NextMessageType d) (w\<lparr>w_messengers := h, w_manager := m\<rparr>) of
               (sent, w) \<Rightarrow> Some (Event_ActionSucceeded, d,
                 w\<lparr>w_messengers := snd (rm_SendMessage rm (PeerNodeId d) msg (NextMessageType d) sent
                     (w_messengers w))\<rparr>)))))"

section \<open>Taker\<close>

text \<open>
  \<open>maxExpected := uint64((float64(expectedFee) * 3))\<close>: both operations round to a float64.  A product
  of \<open>2 ^ 64\<close> or more has no defined conversion in Go; the model wraps there.
\<close>

definition max_expected_fee :: "u64 \<Rightarrow> u64" where
  "max_expected_fee expectedFee = word_of_nat (f64_round (f64_round (unat expectedFee) * 3))"

definition PayFeeInvoiceAction_Execute :: "SwapServices \<Rightarrow> step" where
  "PayFeeInvoiceAction_Execute sv d w =
     (let ll = lightning sv in
     unless_err (getOnChainServices sv (GetChain d), w) d (\<lambda>(_, wallet, _) w.
     deref (SwapOutAgreement d) (\<lambda>a.
     unless_err (ext (\<lambda>t. DecodePayreq ll t (soa_Payreq a)) (DecodedPayreq (soa_Payreq a)) w) d (\<lambda>(_, msatAmt, _) w.
     deref (SwapOutRequest d) (\<lambda>r.
     unless_err (ext (\<lambda>t. SpendableMsat ll t (sor_Scid r)) (Spendable (sor_Scid r)) w) d (\<lambda>sp w.
     (let requiredBalance = sor_Amount r * 1000 + msatAmt in
     if sp < requiredBalance
     then fail (Some (ErrText (''not enough spendable msat: '' @ fmt_u64 sp @ '', expected: '' @ fmt_u64 requiredBalance))) d w
     else
     unless_err (ext (\<lambda>t. ProbePayment ll t (sor_Scid r) requiredBalance) (Probed (sor_Scid r) requiredBalance) w) d
       (\<lambda>(success, failureReason) w.
     if \<not> success
     then fail (Some (ErrText (''the prepayment probe was unsuccessful: '' @ failureReason))) d w
     else
     (let d = d\<lparr>OpeningTxFee := msatAmt div 1000\<rparr> in
     unless_err (ext (GetFlatOpeningTXFee wallet) (FlatFee (GetChain d)) w) d (\<lambda>expectedFee w.
     (let maxExpected = max_expected_fee expectedFee in
     if maxExpected < OpeningTxFee d
     then fail (Some (ErrText (''Fee is too damn high. Max expected: '' @ fmt_u64 maxExpected @ '' Received '' @
            fmt_u64 (OpeningTxFee d)))) d w
     else
     unless_err (ext (\<lambda>t. PayInvoiceViaChannel ll t (soa_Payreq a) (GetScid d))
                   (PaidViaChannel (soa_Payreq a) (GetScid d)) w) d (\<lambda>preimage w.
       Some (Event_ActionSucceeded, d\<lparr>FeePreimage := preimage\<rparr>, w)))))))))))))"

definition validateClaimInvoice :: "u64 \<Rightarrow> i64 \<Rightarrow> u64 \<Rightarrow> timelockPolicy \<Rightarrow> go_error option" where
  "validateClaimInvoice paymentAmountMsat finalCLTVDelta claimAmountSat policy =
     (if sint finalCLTVDelta < 0 \<or> InvoiceFinalCLTV policy < finalCLTVDelta
      then Some (ErrText (''unsafe invoice cltv: '' @ fmt_i64 finalCLTVDelta @ '', maximum: '' @
             fmt_u64 (InvoiceFinalCLTV policy)))
      else if paymentAmountMsat \<noteq> claimAmountSat * 1000
      then Some (ErrText (''invoice amount does not equal swap amount, invoice amount: '' @
             fmt_u64 paymentAmountMsat @ '' msat, swap amount: '' @ fmt_u64 claimAmountSat @ '' sat''))
      else None)"

definition checkPaymentWindow :: "SwapData \<Rightarrow> u32 \<Rightarrow> timelockPolicy \<Rightarrow> go_error option" where
  "checkPaymentWindow swap currentHeight policy =
     (if \<not> StartingBlockHeightSet swap
      then Some (ErrText ''could not get starting block height of the swap'')
      else if currentHeight < StartingBlockHeight swap
      then Some (ErrText (''current block height '' @ fmt_u32 currentHeight @
             '' is below swap starting height '' @ fmt_u32 (StartingBlockHeight swap)))
      else (let deadline = u64_of_u32 (StartingBlockHeight swap) + u64_of_u32 (PaymentWindow policy) in
        if deadline \<le> u64_of_u32 currentHeight
        then Some (ErrText (''claim payment deadline exceeded: current height '' @ fmt_u32 currentHeight @
               '', deadline '' @ fmt_u64 deadline))
        else None))"

text \<open>The invoice checks of the two chains.\<close>

definition claim_invoice_error ::
  "Validator \<Rightarrow> timelockPolicy \<Rightarrow> SwapData \<Rightarrow> string \<Rightarrow> u64 \<Rightarrow> u64 \<Rightarrow> i64 \<Rightarrow> go_error option" where
  "claim_invoice_error validator policy d payreq claimAmount amountMsat finalCLTVDelta =
     (if GetChain d = btc_chain then
        (let safetyLimit = GetCSVHeight validator div 2 in
         if int (unat safetyLimit) < sint finalCLTVDelta
         then Some (ErrText (''unsafe invoice cltv: '' @ fmt_i64 finalCLTVDelta @ '', expected below: '' @
                fmt_u32 safetyLimit))
         else if amountMsat \<noteq> claimAmount * 1000
         then Some (ErrText (''invoice amount does not equal swap amount, invoice: '' @ payreq @
                '', swap '' @ fmt_u64 claimAmount))
         else None)
      else validateClaimInvoice amountMsat finalCLTVDelta claimAmount policy)"

text \<open>The height checks of the two chains; the sum wraps at 32 bits on Bitcoin.\<close>

definition claim_height_error :: "Validator \<Rightarrow> timelockPolicy \<Rightarrow> SwapData \<Rightarrow> u32 \<Rightarrow> go_error option" where
  "claim_height_error validator policy d height =
     (if GetChain d = btc_chain then
        (if StartingBlockHeight d = 0
         then Some (ErrText ''could not get starting block height of the swap.'')
         else if StartingBlockHeight d + GetCSVHeight validator div 2 \<le> height
         then Some (ErrText ''exceeded safe swap range.'')
         else None)
      else checkPaymentWindow d height policy)"

definition recover_legacy_payment :: "SwapServices \<Rightarrow> EventType \<Rightarrow> step" where
  "recover_legacy_payment sv ev d w = deref (OpeningTxBroadcasted d) (\<lambda>m.
     (case ext (\<lambda>t. RecoverClaimPayment (lightning sv) t (otb_Payreq m)) (RecoveredPayment (otb_Payreq m)) w of
        (Inl e, w) \<Rightarrow> fail (Some (ErrWrap ''recover legacy claim payment'' e)) d w
      | (Inr preimage, w) \<Rightarrow> Some (ev, d\<lparr>ClaimPreimage := preimage\<rparr>, w)))"

definition AwaitTxConfirmationAction_Execute :: "SwapServices \<Rightarrow> step" where
  "AwaitTxConfirmationAction_Execute sv d w =
     unless_err (getOnChainServices sv (GetChain d), w) d (\<lambda>(txWatcher, wallet, validator) w.
     unless_err (getTimelockPolicy d, w) d (\<lambda>policy w.
     if \<not> AllowNewClaimPayment policy then
       (if OpeningTxHex d = '''' then fail (Some (ErrText ''claim payments are disabled for legacy swaps'')) d w
        else recover_legacy_payment sv Event_OnTxConfirmed d w)
     else
     deref (OpeningTxBroadcasted d) (\<lambda>m.
     unless_err (ext (\<lambda>t. DecodePayreq (lightning sv) t (otb_Payreq m)) (DecodedPayreq (otb_Payreq m)) w) d
       (\<lambda>(paymentHash, amountMsat, finalCLTVDelta) w.
     deref (GetClaimAmount d) (\<lambda>claimAmount.
     (case claim_invoice_error validator policy d (otb_Payreq m) claimAmount amountMsat finalCLTVDelta of
        Some e \<Rightarrow> fail (Some e) d w
      | None \<Rightarrow>
     (let d = d\<lparr>ClaimPaymentHash := paymentHash\<rparr> in
     (case ext (GetBlockHeight txWatcher) (BlockHeight (GetChain d)) w of
        (Inl _, w) \<Rightarrow> fail (Some (ErrText ''could not get block height.'')) d w
      | (Inr height, w) \<Rightarrow>
     (case claim_height_error validator policy d height of
        Some e \<Rightarrow> fail (Some e) d w
      | None \<Rightarrow>
     deref (GetOpeningParams (sv_crypto sv) d) (\<lambda>params.
     unless_err (ext (\<lambda>t. GetOutputScript wallet t params) (OutputScript params) w) d (\<lambda>wantScript w.
       Some (NoOp, d, emit (WaitForConfirmationTx (SwapId_String (GetId d)) (otb_TxId m) (otb_ScriptOut m)
               (StartingBlockHeight d) (PaymentWindow policy) wantScript) w))))))))))))"

text \<open>
  The retry loop of the claim payment: \<open>n\<close> ticks are left before the retry context ends.  On Bitcoin
  the height difference wraps, and passing the limit is reported with a nil error.
\<close>

definition fmt_err :: "go_error option \<Rightarrow> string" where
  "fmt_err e = (case e of None \<Rightarrow> ''<nil>'' | Some e \<Rightarrow> Error e)"

fun pay_claim_loop ::
  "SwapServices \<Rightarrow> TxWatcher \<Rightarrow> Validator \<Rightarrow> timelockPolicy \<Rightarrow> nat \<Rightarrow> go_error option \<Rightarrow> step" where
  "pay_claim_loop sv onchain validator policy 0 payErr d w =
     fail (Some (ErrText (''could not pay invoice: timeout, last err: '' @ fmt_err payErr))) d w"
| "pay_claim_loop sv onchain validator policy (Suc n) payErr d w =
     unless_err (ext (GetBlockHeight onchain) (BlockHeight (GetChain d)) w) d (\<lambda>now w.
     if GetChain d = btc_chain \<and> GetCSVHeight validator div 2 < now - StartingBlockHeight d
     then fail None (d\<lparr>LastErr := None\<rparr>) w
     else (case (if GetChain d = l_btc_chain then checkPaymentWindow d now policy else None) of
        Some e \<Rightarrow> fail (Some e) d w
      | None \<Rightarrow>
     deref (OpeningTxBroadcasted d) (\<lambda>m.
     (case ext (\<lambda>t. RebalancePayment (lightning sv) t (otb_Payreq m) (GetScid d) (MaxTotalCLTVDelta policy))
             (Rebalanced (otb_Payreq m) (GetScid d) (MaxTotalCLTVDelta policy)) w of
        (Inl e, w) \<Rightarrow> pay_claim_loop sv onchain validator policy n (Some e) d w
      | (Inr preimage, w) \<Rightarrow> Some (Event_ActionSucceeded, d\<lparr>ClaimPreimage := preimage\<rparr>, w)))))"

definition ValidateTxAndPayClaimInvoiceAction_Execute :: "SwapServices \<Rightarrow> step" where
  "ValidateTxAndPayClaimInvoiceAction_Execute sv d w =
     unless_err (getOnChainServices sv (GetChain d), w) d (\<lambda>(onchain, _, validator) w.
     unless_err (getTimelockPolicy d, w) d (\<lambda>policy w.
     deref (GetOpeningParams (sv_crypto sv) d) (\<lambda>params.
     unless_err (ext (\<lambda>t. ValidateTx validator t params (OpeningTxHex d)) (ValidatedTx params (OpeningTxHex d)) w) d
       (\<lambda>ok w.
     if \<not> ok then fail (Some (ErrText ''tx is not valid'')) d w
     else if \<not> AllowNewClaimPayment policy then
       (if ClaimPreimage d \<noteq> '''' then Some (Event_ActionSucceeded, d, w)
        else recover_legacy_payment sv Event_ActionSucceeded d w)
     else pay_claim_loop sv onchain validator policy (pay_ticks sv (w_clock w)) None d w))))"

definition SetStartingBlockHeightAction_Execute :: "SwapServices \<Rightarrow> step" where
  "SetStartingBlockHeightAction_Execute sv d w =
     (case getOnChainServices sv (GetChain d) of
        Inl e \<Rightarrow> Some (Event_ActionFailed, d\<lparr>LastErr := Some e\<rparr>, w)
      | Inr (onchain, _, validator) \<Rightarrow>
     (case ext (GetBlockHeight onchain) (BlockHeight (GetChain d)) w of
        (Inl e, w) \<Rightarrow> Some (Event_ActionFailed, d\<lparr>LastErr := Some e\<rparr>, w)
      | (Inr now, w) \<Rightarrow>
     if GetChain d = l_btc_chain \<and> GetProtocolVersion d = PEERSWAP_PROTOCOL_VERSION then
       (case getTimelockPolicy d of
          Inl e \<Rightarrow> Some (Event_ActionFailed, d\<lparr>LastErr := Some e\<rparr>, w)
        | Inr policy \<Rightarrow> (case checkPaymentWindow d now policy of
            Some e \<Rightarrow> Some (Event_ActionFailed, d\<lparr>LastErr := Some e, CancelMsg := Error e\<rparr>, w)
          | None \<Rightarrow> Some (NoOp, d, w)))
     else if StartingBlockHeight d = 0 then Some (NoOp, d\<lparr>StartingBlockHeight := now\<rparr>, w)
     else if StartingBlockHeight d + GetCSVHeight validator div 2 \<le> now
     then Some (Event_ActionFailed, d\<lparr>LastErr := Some (ErrText ''too close to csv''),
                  CancelMsg := ''too close to csv''\<rparr>, w)
     else Some (NoOp, d, w)))"

section \<open>Waiting and finishing\<close>

definition NoOpAction_Execute :: step where
  "NoOpAction_Execute d w = Some (NoOp, d, w)"

definition NoOpDoneAction_Execute :: step where
  "NoOpDoneAction_Execute d w = deref (world_RemoveSender (SwapId_String (GetId d)) w) (\<lambda>w.
     Some (Event_Done, d, w))"

definition CancelAction_Execute :: step where
  "CancelAction_Execute d w = Some (Event_Done,
     (case LastErr d of Some e \<Rightarrow> d\<lparr>LastErrString := Error e\<rparr> | None \<Rightarrow> d), w)"

definition AddSuspiciousPeerAction_Execute :: "SwapServices \<Rightarrow> step \<Rightarrow> step" where
  "AddSuspiciousPeerAction_Execute sv next d w =
     (case AddToSuspiciousPeerList (sv_os sv) (w_clock w) (PeerNodeId d) (w_policy w) of
        (_, pf) \<Rightarrow> next d (tick 3 (w\<lparr>w_policy := pf\<rparr>)))"

section \<open>Actions as data\<close>

text \<open>An \<open>Action\<close> value of the state tables, with the action a wrapper calls next.\<close>

datatype action =
    CheckRequestWrapperAction action
  | SwapInReceiverInitAction
  | ClaimSwapTransactionWithPreimageAction
  | CheckPremiumAmount action
  | CreateAndBroadcastOpeningTransaction
  | StopSendMessageWithRetryWrapperAction action
  | AwaitPaymentOrCsvAction
  | AwaitFeeInvoicePayment
  | AwaitCsvAction
  | SetBlindingKeyActionWrapper action
  | CreateSwapOutFromRequestAction
  | ClaimSwapTransactionWithCsv
  | ClaimSwapTransactionCoop
  | SendCancelAction
  | TakerSendPrivkeyAction
  | CreateSwapRequestAction
  | SendMessageAction
  | SendMessageWithRetryAction
  | PayFeeInvoiceAction
  | AwaitTxConfirmationAction
  | ValidateTxAndPayClaimInvoiceAction
  | SetStartingBlockHeightAction
  | NoOpAction
  | NoOpDoneAction
  | CancelAction
  | AddSuspiciousPeerAction action

fun Execute :: "SwapServices \<Rightarrow> action \<Rightarrow> step" where
  "Execute sv (CheckRequestWrapperAction a) = CheckRequestWrapperAction_Execute sv (Execute sv a)"
| "Execute sv SwapInReceiverInitAction = SwapInReceiverInitAction_Execute sv"
| "Execute sv ClaimSwapTransactionWithPreimageAction = ClaimSwapTransactionWithPreimageAction_Execute sv"
| "Execute sv (CheckPremiumAmount a) = CheckPremiumAmount_Execute sv (Execute sv a)"
| "Execute sv CreateAndBroadcastOpeningTransaction = CreateAndBroadcastOpeningTransaction_Execute sv"
| "Execute sv (StopSendMessageWithRetryWrapperAction a) =
     StopSendMessageWithRetryWrapperAction_Execute (Execute sv a)"
| "Execute sv AwaitPaymentOrCsvAction = AwaitPaymentOrCsvAction_Execute sv"
| "Execute sv AwaitFeeInvoicePayment = AwaitFeeInvoicePayment_Execute sv"
| "Execute sv AwaitCsvAction = AwaitCsvAction_Execute sv"
| "Execute sv (SetBlindingKeyActionWrapper a) = SetBlindingKeyActionWrapper_Execute sv (Execute sv a)"
| "Execute sv CreateSwapOutFromRequestAction = CreateSwapOutFromRequestAction_Execute sv"
| "Execute sv ClaimSwapTransactionWithCsv = ClaimSwapTransactionWithCsv_Execute sv"
| "Execute sv ClaimSwapTransactionCoop = ClaimSwapTransactionCoop_Execute sv"
| "Execute sv SendCancelAction = SendCancelAction_Execute sv"
| "Execute sv TakerSendPrivkeyAction = TakerSendPrivkeyAction_Execute sv"
| "Execute sv CreateSwapRequestAction = CreateSwapRequestAction_Execute sv"
| "Execute sv SendMessageAction = SendMessageAction_Execute sv"
| "Execute sv SendMessageWithRetryAction = SendMessageWithRetryAction_Execute sv"
| "Execute sv PayFeeInvoiceAction = PayFeeInvoiceAction_Execute sv"
| "Execute sv AwaitTxConfirmationAction = AwaitTxConfirmationAction_Execute sv"
| "Execute sv ValidateTxAndPayClaimInvoiceAction = ValidateTxAndPayClaimInvoiceAction_Execute sv"
| "Execute sv SetStartingBlockHeightAction = SetStartingBlockHeightAction_Execute sv"
| "Execute sv NoOpAction = NoOpAction_Execute"
| "Execute sv NoOpDoneAction = NoOpDoneAction_Execute"
| "Execute sv CancelAction = CancelAction_Execute"
| "Execute sv (AddSuspiciousPeerAction a) = AddSuspiciousPeerAction_Execute sv (Execute sv a)"

section \<open>Reasoning about actions\<close>

text \<open>\<open>post P r\<close>: if the action returns, its event, data and world satisfy \<open>P\<close>.\<close>

definition post :: "(EventType \<Rightarrow> SwapData \<Rightarrow> world \<Rightarrow> bool) \<Rightarrow> result \<Rightarrow> bool" where
  "post P r \<longleftrightarrow> (\<forall>e d w. r = Some (e, d, w) \<longrightarrow> P e d w)"

lemma post_None [simp]: "post P None"
  by (simp add: post_def)

lemma post_Some [simp]: "post P (Some (e, d, w)) \<longleftrightarrow> P e d w"
  by (simp add: post_def)

lemma post_fail [simp]: "post P (fail err d w) \<longleftrightarrow> P Event_ActionFailed (HandleError err d) w"
  by (simp add: fail_def)

lemma post_deref [simp]: "post P (deref p k) \<longleftrightarrow> (\<forall>x. p = Some x \<longrightarrow> post P (k x))"
  by (cases p) auto

lemma post_unless_ext [simp]:
  "post P (unless_err (ext f log w) d k) \<longleftrightarrow>
     (\<forall>e. f (w_clock w) = Inl e \<longrightarrow> P Event_ActionFailed (HandleError (Some e) d) (emit (log (Inl e)) w)) \<and>
     (\<forall>x. f (w_clock w) = Inr x \<longrightarrow> post P (k x (emit (log (Inr x)) w)))"
  by (cases "f (w_clock w)") (auto simp: ext_def Let_def)

lemma post_unless_pure [simp]:
  "post P (unless_err (r, w) d k) \<longleftrightarrow>
     (\<forall>e. r = Inl e \<longrightarrow> P Event_ActionFailed (HandleError (Some e) d) w) \<and>
     (\<forall>x. r = Inr x \<longrightarrow> post P (k x w))"
  by (cases r) auto

lemma post_if [simp]: "post P (if b then r else r') \<longleftrightarrow> (b \<longrightarrow> post P r) \<and> (\<not> b \<longrightarrow> post P r')"
  by simp

lemma post_case_ext [simp]:
  "post P (case ext f log w of (x, w) \<Rightarrow> k x w) \<longleftrightarrow> post P (k (f (w_clock w)) (emit (log (f (w_clock w))) w))"
  by (simp add: ext_def Let_def)

lemma post_case_sum [simp]:
  "post P (case r of Inl e \<Rightarrow> f e | Inr x \<Rightarrow> g x) \<longleftrightarrow>
     (\<forall>e. r = Inl e \<longrightarrow> post P (f e)) \<and> (\<forall>x. r = Inr x \<longrightarrow> post P (g x))"
  by (cases r) auto

lemma post_case_option [simp]:
  "post P (case p of None \<Rightarrow> r | Some x \<Rightarrow> f x) \<longleftrightarrow>
     (p = None \<longrightarrow> post P r) \<and> (\<forall>x. p = Some x \<longrightarrow> post P (f x))"
  by (cases p) auto

lemma post_case_prod [simp]:
  "post P (case p of (x, y) \<Rightarrow> f x y) \<longleftrightarrow> (\<forall>x y. p = (x, y) \<longrightarrow> post P (f x y))"
  by (cases p) auto

lemma post_let [simp]: "post P (let x = v in f x) \<longleftrightarrow> post P (f v)"
  by (simp add: Let_def)

lemma post_weaken: "post P r \<Longrightarrow> (\<And>e d w. P e d w \<Longrightarrow> Q e d w) \<Longrightarrow> post Q r"
  by (auto simp: post_def)

lemma post_or: "post P r \<Longrightarrow> post (\<lambda>e d w. Q e d w \<or> P e d w) r"
  by (auto simp: post_def)

lemmas action_defs = CheckRequestWrapperAction_Execute_def SwapInReceiverInitAction_Execute_def
  ClaimSwapTransactionWithPreimageAction_Execute_def CheckPremiumAmount_Execute_def
  CreateAndBroadcastOpeningTransaction_Execute_def StopSendMessageWithRetryWrapperAction_Execute_def
  AwaitPaymentOrCsvAction_Execute_def AwaitFeeInvoicePayment_Execute_def AwaitCsvAction_Execute_def
  SetBlindingKeyActionWrapper_Execute_def CreateSwapOutFromRequestAction_Execute_def
  ClaimSwapTransactionWithCsv_Execute_def ClaimSwapTransactionCoop_Execute_def
  SendCancelAction_Execute_def TakerSendPrivkeyAction_Execute_def CreateSwapRequestAction_Execute_def
  SendMessageAction_Execute_def SendMessageWithRetryAction_Execute_def PayFeeInvoiceAction_Execute_def
  AwaitTxConfirmationAction_Execute_def ValidateTxAndPayClaimInvoiceAction_Execute_def
  SetStartingBlockHeightAction_Execute_def NoOpAction_Execute_def NoOpDoneAction_Execute_def
  CancelAction_Execute_def AddSuspiciousPeerAction_Execute_def

lemmas action_parts = reject_def start_timeout_def add_csv_watch_def claimed_def
  recover_legacy_payment_def world_Compute_def send_message_def

text \<open>The events an action can return.\<close>

fun action_events :: "action \<Rightarrow> EventType list" where
  "action_events (CheckRequestWrapperAction a) = Event_ActionFailed # action_events a"
| "action_events SwapInReceiverInitAction = [Event_ActionSucceeded, Event_ActionFailed]"
| "action_events ClaimSwapTransactionWithPreimageAction =
     [Event_ActionSucceeded, Event_ActionFailed, Event_OnRetry]"
| "action_events (CheckPremiumAmount a) = Event_ActionFailed # action_events a"
| "action_events CreateAndBroadcastOpeningTransaction = [Event_ActionSucceeded, Event_ActionFailed]"
| "action_events (StopSendMessageWithRetryWrapperAction a) = action_events a"
| "action_events AwaitPaymentOrCsvAction = [NoOp, Event_ActionFailed]"
| "action_events AwaitFeeInvoicePayment = [NoOp]"
| "action_events AwaitCsvAction = [NoOp, Event_ActionFailed]"
| "action_events (SetBlindingKeyActionWrapper a) = Event_ActionFailed # action_events a"
| "action_events CreateSwapOutFromRequestAction = [Event_ActionSucceeded, Event_ActionFailed]"
| "action_events ClaimSwapTransactionWithCsv = [Event_ActionSucceeded, Event_OnRetry]"
| "action_events ClaimSwapTransactionCoop = [Event_ActionSucceeded, Event_ActionFailed]"
| "action_events SendCancelAction = [Event_ActionSucceeded, Event_ActionFailed]"
| "action_events TakerSendPrivkeyAction = [Event_ActionSucceeded]"
| "action_events CreateSwapRequestAction = [Event_ActionSucceeded, Event_ActionFailed]"
| "action_events SendMessageAction = [Event_ActionSucceeded, Event_ActionFailed]"
| "action_events SendMessageWithRetryAction = [Event_ActionSucceeded, Event_ActionFailed]"
| "action_events PayFeeInvoiceAction = [Event_ActionSucceeded, Event_ActionFailed]"
| "action_events AwaitTxConfirmationAction = [NoOp, Event_ActionFailed, Event_OnTxConfirmed]"
| "action_events ValidateTxAndPayClaimInvoiceAction = [Event_ActionSucceeded, Event_ActionFailed]"
| "action_events SetStartingBlockHeightAction = [NoOp, Event_ActionFailed]"
| "action_events NoOpAction = [NoOp]"
| "action_events NoOpDoneAction = [Event_Done]"
| "action_events CancelAction = [Event_Done]"
| "action_events (AddSuspiciousPeerAction a) = action_events a"

lemma post_pay_claim_loop_events:
  "post (\<lambda>e d w. e = Event_ActionSucceeded \<or> e = Event_ActionFailed)
     (pay_claim_loop sv onchain validator policy n payErr d w)"
  by (induction n arbitrary: payErr w) simp_all

lemma post_events: "post (\<lambda>e d w. e \<in> set (action_events a)) (Execute sv a d w)"
proof (induction a arbitrary: d w)
  case ValidateTxAndPayClaimInvoiceAction
  then show ?case
    using post_pay_claim_loop_events
    by (simp add: ValidateTxAndPayClaimInvoiceAction_Execute_def action_parts)
next
  case (CheckRequestWrapperAction a)
  then show ?case
    by (simp add: CheckRequestWrapperAction_Execute_def action_parts post_or)
next
  case (CheckPremiumAmount a)
  then show ?case by (simp add: CheckPremiumAmount_Execute_def post_or)
next
  case (SetBlindingKeyActionWrapper a)
  then show ?case by (simp add: SetBlindingKeyActionWrapper_Execute_def post_or)
qed (simp_all add: action_defs action_parts)

lemma Execute_events: "Execute sv a d w = Some (e, d', w') \<Longrightarrow> e \<in> set (action_events a)"
  using post_events [of a sv d w] by (simp add: post_def)

end
