(* ===== verification/PS_States.thy ===== *)
theory PS_States
  imports PS_Actions
begin

text \<open>
  The state tables of the four roles (\<open>getSwapInReceiverStates\<close> and its siblings in
  \<open>swap/swap_in_receiver.go\<close>, \<open>swap_in_sender.go\<close>, \<open>swap_out_receiver.go\<close>, \<open>swap_out_sender.go\<close>),
  and the checks of a table that the state machine relies on.
\<close>

record State =
  st_Action :: "action option"
  st_Events :: "(EventType \<times> StateType) list"
  FailOnrecover :: bool

type_synonym States = "(StateType \<times> State) list"

abbreviation state :: "action option \<Rightarrow> (EventType \<times> StateType) list \<Rightarrow> State" where
  "state a evs \<equiv> \<lparr>st_Action = a, st_Events = evs, FailOnrecover = False\<rparr>"

abbreviation state_failing :: "action option \<Rightarrow> (EventType \<times> StateType) list \<Rightarrow> State" where
  "state_failing a evs \<equiv> \<lparr>st_Action = a, st_Events = evs, FailOnrecover = True\<rparr>"

section \<open>The tables\<close>

definition getSwapInReceiverStates :: States where
  "getSwapInReceiverStates = [
    (Default, state None
      [(Event_SwapInReceiver_OnRequestReceived, State_SwapInReceiver_CreateSwap),
       (Event_OnInvalid_Message, State_SendCancel)]),
    (State_SwapInReceiver_CreateSwap, state_failing
      (Some (CheckRequestWrapperAction SwapInReceiverInitAction))
      [(Event_ActionSucceeded, State_SwapInReceiver_SendAgreement),
       (Event_ActionFailed, State_SendCancel)]),
    (State_SwapInReceiver_SendAgreement, state (Some SendMessageAction)
      [(Event_ActionSucceeded, State_SwapInReceiver_AwaitTxBroadcastedMessage),
       (Event_ActionFailed, State_SendCancel)]),
    (State_SwapInReceiver_AwaitTxBroadcastedMessage, state (Some SetStartingBlockHeightAction)
      [(Event_OnTxOpenedMessage, State_SwapInReceiver_AwaitTxConfirmation),
       (Event_OnCancelReceived, State_SwapCanceled),
       (Event_ActionFailed, State_SwapInReceiver_SendPrivkey),
       (Event_OnInvalid_Message, State_SendCancel),
       (Event_OnTimeout, State_SwapInReceiver_SendPrivkey)]),
    (State_SwapInReceiver_AwaitTxConfirmation, state
      (Some (StopSendMessageWithRetryWrapperAction AwaitTxConfirmationAction))
      [(Event_OnTxConfirmed, State_SwapInReceiver_ValidateTxAndPayClaimInvoice),
       (Event_ActionFailed, State_SwapInReceiver_SendPrivkey),
       (Event_OnCancelReceived, State_SwapInReceiver_SendPrivkey)]),
    (State_SwapInReceiver_ValidateTxAndPayClaimInvoice, state (Some ValidateTxAndPayClaimInvoiceAction)
      [(Event_ActionSucceeded, State_SwapInReceiver_ClaimSwap),
       (Event_ActionFailed, State_SwapInReceiver_SendPrivkey)]),
    (State_SwapInReceiver_SendPrivkey, state (Some TakerSendPrivkeyAction)
      [(Event_ActionFailed, State_SendCancel),
       (Event_ActionSucceeded, State_SwapInReceiver_SendCoopClose)]),
    (State_SwapInReceiver_SendCoopClose, state (Some SendMessageAction)
      [(Event_ActionSucceeded, State_ClaimedCoop),
       (Event_ActionFailed, State_SendCancel)]),
    (State_SwapInReceiver_ClaimSwap, state (Some ClaimSwapTransactionWithPreimageAction)
      [(Event_ActionSucceeded, State_ClaimedPreimage),
       (Event_OnRetry, State_SwapInReceiver_ClaimSwap)]),
    (State_ClaimedPreimage, state (Some NoOpDoneAction) []),
    (State_SendCancel, state (Some SendCancelAction)
      [(Event_ActionSucceeded, State_SwapCanceled),
       (Event_ActionFailed, State_SwapCanceled)]),
    (State_SwapCanceled, state (Some CancelAction) []),
    (State_ClaimedCoop, state (Some NoOpDoneAction) [])]"

definition getSwapInSenderStates :: States where
  "getSwapInSenderStates = [
    (Default, state None
      [(Event_SwapInSender_OnSwapInRequested, State_SwapInSender_CreateSwap)]),
    (State_SwapInSender_CreateSwap, state_failing
      (Some (SetBlindingKeyActionWrapper CreateSwapRequestAction))
      [(Event_ActionSucceeded, State_SwapInSender_SendRequest),
       (Event_ActionFailed, State_SwapCanceled)]),
    (State_SwapInSender_SendRequest, state (Some SendMessageAction)
      [(Event_ActionSucceeded, State_SwapInSender_AwaitAgreement),
       (Event_ActionFailed, State_SwapCanceled)]),
    (State_SwapInSender_AwaitAgreement, state (Some NoOpAction)
      [(Event_OnCancelReceived, State_SwapCanceled),
       (Event_OnTimeout, State_SendCancel),
       (Event_SwapInSender_OnAgreementReceived, State_SwapInSender_BroadcastOpeningTx),
       (Event_OnInvalid_Message, State_SendCancel)]),
    (State_SwapInSender_BroadcastOpeningTx, state
      (Some (CheckPremiumAmount CreateAndBroadcastOpeningTransaction))
      [(Event_ActionSucceeded, State_SwapInSender_SendTxBroadcastedMessage),
       (Event_ActionFailed, State_SendCancel)]),
    (State_SwapInSender_SendTxBroadcastedMessage, state (Some SendMessageWithRetryAction)
      [(Event_ActionSucceeded, State_SwapInSender_AwaitClaimPayment),
       (Event_ActionFailed, State_WaitCsv)]),
    (State_SwapInSender_AwaitClaimPayment, state (Some AwaitPaymentOrCsvAction)
      [(Event_OnClaimInvoicePaid, State_ClaimedPreimage),
       (Event_OnCsvPassed, State_SwapInSender_ClaimSwapCsv),
       (Event_OnCancelReceived, State_WaitCsv),
       (Event_OnCoopCloseReceived, State_SwapInSender_ClaimSwapCoop),
       (Event_OnInvalid_Message, State_WaitCsv)]),
    (State_SwapInSender_ClaimSwapCsv, state
      (Some (StopSendMessageWithRetryWrapperAction ClaimSwapTransactionWithCsv))
      [(Event_ActionSucceeded, State_ClaimedCsv),
       (Event_OnRetry, State_SwapInSender_ClaimSwapCsv)]),
    (State_SwapInSender_ClaimSwapCoop, state
      (Some (StopSendMessageWithRetryWrapperAction ClaimSwapTransactionCoop))
      [(Event_ActionSucceeded, State_ClaimedCoop),
       (Event_ActionFailed, State_WaitCsv)]),
    (State_WaitCsv, state (Some (StopSendMessageWithRetryWrapperAction AwaitCsvAction))
      [(Event_OnCsvPassed, State_SwapInSender_ClaimSwapCsv),
       (Event_OnCoopCloseReceived, State_SwapInSender_ClaimSwapCoop)]),
    (State_SendCancel, state (Some SendCancelAction)
      [(Event_ActionSucceeded, State_SwapCanceled),
       (Event_ActionFailed, State_SwapCanceled)]),
    (State_SwapCanceled, state (Some CancelAction) []),
    (State_ClaimedPreimage, state (Some NoOpDoneAction) []),
    (State_ClaimedCsv, state (Some (AddSuspiciousPeerAction NoOpDoneAction)) []),
    (State_ClaimedCoop, state (Some NoOpDoneAction) [])]"

definition getSwapOutReceiverStates :: States where
  "getSwapOutReceiverStates = [
    (Default, state None
      [(Event_OnSwapOutRequestReceived, State_SwapOutReceiver_CreateSwap),
       (Event_OnInvalid_Message, State_SendCancel)]),
    (State_SwapOutReceiver_CreateSwap, state_failing
      (Some (CheckRequestWrapperAction (SetBlindingKeyActionWrapper CreateSwapOutFromRequestAction)))
      [(Event_ActionSucceeded, State_SwapOutReceiver_SendFeeInvoice),
       (Event_ActionFailed, State_SendCancel)]),
    (State_SwapOutReceiver_SendFeeInvoice, state (Some SendMessageAction)
      [(Event_ActionFailed, State_SendCancel),
       (Event_ActionSucceeded, State_SwapOutReceiver_AwaitFeeInvoicePayment)]),
    (State_SwapOutReceiver_AwaitFeeInvoicePayment, state_failing (Some AwaitFeeInvoicePayment)
      [(Event_OnFeeInvoicePaid, State_SwapOutReceiver_BroadcastOpeningTx),
       (Event_OnCancelReceived, State_SwapCanceled),
       (Event_ActionFailed, State_SendCancel)]),
    (State_SwapOutReceiver_BroadcastOpeningTx, state (Some CreateAndBroadcastOpeningTransaction)
      [(Event_ActionSucceeded, State_SwapOutReceiver_SendTxBroadcastedMessage),
       (Event_ActionFailed, State_SendCancel)]),
    (State_SwapOutReceiver_SendTxBroadcastedMessage, state (Some SendMessageWithRetryAction)
      [(Event_ActionSucceeded, State_SwapOutReceiver_AwaitClaimInvoicePayment),
       (Event_ActionFailed, State_WaitCsv)]),
    (State_SwapOutReceiver_AwaitClaimInvoicePayment, state (Some AwaitPaymentOrCsvAction)
      [(Event_OnClaimInvoicePaid, State_ClaimedPreimage),
       (Event_OnCancelReceived, State_WaitCsv),
       (Event_OnCoopCloseReceived, State_SwapOutReceiver_ClaimSwapCoop),
       (Event_OnCsvPassed, State_SwapOutReceiver_ClaimSwapCsv),
       (Event_OnInvalid_Message, State_WaitCsv)]),
    (State_SwapOutReceiver_ClaimSwapCoop, state
      (Some (StopSendMessageWithRetryWrapperAction ClaimSwapTransactionCoop))
      [(Event_ActionSucceeded, State_ClaimedCoop),
       (Event_ActionFailed, State_WaitCsv)]),
    (State_WaitCsv, state (Some (StopSendMessageWithRetryWrapperAction AwaitCsvAction))
      [(Event_OnCsvPassed, State_SwapOutReceiver_ClaimSwapCsv),
       (Event_OnCoopCloseReceived, State_SwapOutReceiver_ClaimSwapCoop)]),
    (State_SwapOutReceiver_ClaimSwapCsv, state
      (Some (StopSendMessageWithRetryWrapperAction ClaimSwapTransactionWithCsv))
      [(Event_ActionSucceeded, State_ClaimedCsv),
       (Event_OnRetry, State_SwapOutReceiver_ClaimSwapCsv)]),
    (State_SendCancel, state (Some SendCancelAction)
      [(Event_ActionSucceeded, State_SwapCanceled),
       (Event_ActionFailed, State_SwapCanceled)]),
    (State_SwapCanceled, state (Some CancelAction) []),
    (State_ClaimedCsv, state (Some (AddSuspiciousPeerAction NoOpDoneAction)) []),
    (State_ClaimedPreimage, state (Some NoOpDoneAction) []),
    (State_ClaimedCoop, state (Some NoOpDoneAction) [])]"

definition getSwapOutSenderStates :: States where
  "getSwapOutSenderStates = [
    (Default, state None
      [(Event_OnSwapOutStarted, State_SwapOutSender_CreateSwap)]),
    (State_SwapOutSender_CreateSwap, state_failing (Some CreateSwapRequestAction)
      [(Event_ActionSucceeded, State_SwapOutSender_SendRequest),
       (Event_ActionFailed, State_SwapCanceled)]),
    (State_SwapOutSender_SendRequest, state_failing (Some SendMessageAction)
      [(Event_ActionFailed, State_SwapCanceled),
       (Event_ActionSucceeded, State_SwapOutSender_AwaitAgreement)]),
    (State_SwapOutSender_AwaitAgreement, state_failing (Some NoOpAction)
      [(Event_OnCancelReceived, State_SwapCanceled),
       (Event_OnTimeout, State_SendCancel),
       (Event_OnFeeInvoiceReceived, State_SwapOutSender_PayFeeInvoice),
       (Event_OnInvalid_Message, State_SendCancel),
       (Event_ActionFailed, State_SwapCanceled)]),
    (State_SwapOutSender_PayFeeInvoice, state_failing (Some (CheckPremiumAmount PayFeeInvoiceAction))
      [(Event_ActionFailed, State_SendCancel),
       (Event_ActionSucceeded, State_SwapOutSender_AwaitTxBroadcastedMessage)]),
    (State_SwapOutSender_AwaitTxBroadcastedMessage, state (Some SetStartingBlockHeightAction)
      [(Event_OnCancelReceived, State_SwapCanceled),
       (Event_OnTxOpenedMessage, State_SwapOutSender_AwaitTxConfirmation),
       (Event_ActionFailed, State_SwapOutSender_SendPrivkey),
       (Event_OnInvalid_Message, State_SendCancel)]),
    (State_SendCancel, state (Some SendCancelAction)
      [(Event_ActionSucceeded, State_SwapCanceled),
       (Event_ActionFailed, State_SwapCanceled)]),
    (State_SwapOutSender_AwaitTxConfirmation, state (Some AwaitTxConfirmationAction)
      [(Event_ActionFailed, State_SwapOutSender_SendPrivkey),
       (Event_OnTxConfirmed, State_SwapOutSender_ValidateTxAndPayClaimInvoice)]),
    (State_SwapOutSender_ValidateTxAndPayClaimInvoice, state (Some ValidateTxAndPayClaimInvoiceAction)
      [(Event_ActionFailed, State_SwapOutSender_SendPrivkey),
       (Event_ActionSucceeded, State_SwapOutSender_ClaimSwap)]),
    (State_SwapOutSender_ClaimSwap, state (Some ClaimSwapTransactionWithPreimageAction)
      [(Event_ActionSucceeded, State_ClaimedPreimage),
       (Event_OnRetry, State_SwapOutSender_ClaimSwap),
       (Event_OnTimeout, State_SwapOutSender_SendPrivkey)]),
    (State_SwapOutSender_SendPrivkey, state (Some TakerSendPrivkeyAction)
      [(Event_ActionFailed, State_SendCancel),
       (Event_ActionSucceeded, State_SwapOutSender_SendCoopClose)]),
    (State_SwapOutSender_SendCoopClose, state (Some SendMessageAction)
      [(Event_ActionFailed, State_SendCancel),
       (Event_ActionSucceeded, State_ClaimedCoop)]),
    (State_SwapCanceled, state (Some CancelAction) []),
    (State_ClaimedPreimage, state (Some NoOpDoneAction) []),
    (State_ClaimedCoop, state (Some NoOpDoneAction) [])]"

section \<open>Checks of a table\<close>

text \<open>Every target of a transition is a state with an action.\<close>

definition has_action :: "States \<Rightarrow> StateType \<Rightarrow> bool" where
  "has_action sts s = (case map_of sts s of None \<Rightarrow> False | Some st \<Rightarrow> st_Action st \<noteq> None)"

definition table_wf :: "States \<Rightarrow> bool" where
  "table_wf sts \<longleftrightarrow> list_all (\<lambda>(s, st). list_all (\<lambda>(e, s'). has_action sts s') (st_Events st)) sts"

text \<open>
  A rank of the states that every transition taken on an event returned by an action decreases,
  except the retry of a claim, which stays in its state.
\<close>

fun state_rank :: "StateType \<Rightarrow> nat" where
  "state_rank State_SendCancel = 1"
| "state_rank State_SwapInReceiver_CreateSwap = 6"
| "state_rank State_SwapInReceiver_SendAgreement = 5"
| "state_rank State_SwapInReceiver_AwaitTxBroadcastedMessage = 4"
| "state_rank State_SwapInReceiver_AwaitTxConfirmation = 5"
| "state_rank State_SwapInReceiver_ValidateTxAndPayClaimInvoice = 4"
| "state_rank State_SwapInReceiver_SendPrivkey = 3"
| "state_rank State_SwapInReceiver_SendCoopClose = 2"
| "state_rank State_SwapInReceiver_ClaimSwap = 1"
| "state_rank State_SwapOutSender_CreateSwap = 3"
| "state_rank State_SwapOutSender_SendRequest = 2"
| "state_rank State_SwapOutSender_AwaitAgreement = 1"
| "state_rank State_SwapOutSender_PayFeeInvoice = 5"
| "state_rank State_SwapOutSender_AwaitTxBroadcastedMessage = 4"
| "state_rank State_SwapOutSender_AwaitTxConfirmation = 5"
| "state_rank State_SwapOutSender_ValidateTxAndPayClaimInvoice = 4"
| "state_rank State_SwapOutSender_SendPrivkey = 3"
| "state_rank State_SwapOutSender_SendCoopClose = 2"
| "state_rank State_SwapOutSender_ClaimSwap = 1"
| "state_rank State_SwapInSender_CreateSwap = 3"
| "state_rank State_SwapInSender_SendRequest = 2"
| "state_rank State_SwapInSender_AwaitAgreement = 1"
| "state_rank State_SwapInSender_BroadcastOpeningTx = 3"
| "state_rank State_SwapInSender_SendTxBroadcastedMessage = 2"
| "state_rank State_SwapInSender_AwaitClaimPayment = 1"
| "state_rank State_SwapInSender_ClaimSwapCsv = 1"
| "state_rank State_SwapInSender_ClaimSwapCoop = 1"
| "state_rank State_SwapOutReceiver_CreateSwap = 3"
| "state_rank State_SwapOutReceiver_SendFeeInvoice = 2"
| "state_rank State_SwapOutReceiver_AwaitFeeInvoicePayment = 1"
| "state_rank State_SwapOutReceiver_BroadcastOpeningTx = 3"
| "state_rank State_SwapOutReceiver_SendTxBroadcastedMessage = 2"
| "state_rank State_SwapOutReceiver_AwaitClaimInvoicePayment = 1"
| "state_rank State_SwapOutReceiver_ClaimSwapCsv = 1"
| "state_rank State_SwapOutReceiver_ClaimSwapCoop = 1"
| "state_rank _ = 0"

lemma state_rank_le: "state_rank s \<le> 6"
  by (cases s) simp_all

text \<open>The targets of the events an action returns that keep the machine running.\<close>

definition internal_targets :: "State \<Rightarrow> (EventType \<times> StateType) list" where
  "internal_targets st = (case st_Action st of None \<Rightarrow> []
     | Some a \<Rightarrow> filter (\<lambda>(e, s'). e \<in> set (action_events a) \<and> e \<noteq> NoOp \<and> e \<noteq> Event_Done) (st_Events st))"

definition table_ranked :: "States \<Rightarrow> bool" where
  "table_ranked sts \<longleftrightarrow> list_all (\<lambda>(s, st). list_all (\<lambda>(e, s').
     state_rank s' < state_rank s \<or> e = Event_OnRetry \<and> s' = s) (internal_targets st)) sts"

text \<open>The final states, and the states in which \<open>Event_Done\<close> can be returned.\<close>

definition final_state :: "StateType \<Rightarrow> bool" where
  "final_state s \<longleftrightarrow> s = State_ClaimedCsv \<or> s = State_SwapCanceled \<or> s = State_ClaimedPreimage \<or>
     s = State_ClaimedCoop"

definition table_done_final :: "States \<Rightarrow> bool" where
  "table_done_final sts \<longleftrightarrow> list_all (\<lambda>(s, st). case st_Action st of None \<Rightarrow> True
     | Some a \<Rightarrow> (Event_Done \<in> set (action_events a)) = final_state s \<and>
        (final_state s \<longrightarrow> st_Events st = [] \<and> set (action_events a) = {Event_Done})) sts"

text \<open>A set of states that no transition leaves, on events other than those excluded.\<close>

definition table_closed :: "(StateType \<Rightarrow> bool) \<Rightarrow> (EventType \<Rightarrow> bool) \<Rightarrow> States \<Rightarrow> bool" where
  "table_closed S excluded sts \<longleftrightarrow> list_all (\<lambda>(s, st). S s \<longrightarrow>
     list_all (\<lambda>(e, s'). excluded e \<or> S s') (st_Events st)) sts"

lemmas table_defs = getSwapInReceiverStates_def getSwapInSenderStates_def getSwapOutReceiverStates_def
  getSwapOutSenderStates_def

lemma tables_wf:
  "table_wf getSwapInReceiverStates" "table_wf getSwapInSenderStates"
  "table_wf getSwapOutReceiverStates" "table_wf getSwapOutSenderStates"
  by code_simp+

lemma tables_ranked:
  "table_ranked getSwapInReceiverStates" "table_ranked getSwapInSenderStates"
  "table_ranked getSwapOutReceiverStates" "table_ranked getSwapOutSenderStates"
  by code_simp+

lemma tables_done_final:
  "table_done_final getSwapInReceiverStates" "table_done_final getSwapInSenderStates"
  "table_done_final getSwapOutReceiverStates" "table_done_final getSwapOutSenderStates"
  by code_simp+

end
