(* ===== verification/PS_FSM.thy ===== *)
theory PS_FSM
  imports PS_States
begin

text \<open>
  The state machine (\<open>swap/fsm.go\<close>): \<open>getNextState\<close>, \<open>EventIsValid\<close>, \<open>SendEvent\<close> with its loop,
  the exponential backoff, \<open>Recover\<close> and \<open>IsFinished\<close>, and the constructors of the four machines.
  The loop of \<open>SendEvent\<close> runs on fuel; the contract \<open>fsm_table\<close> shows that the fuel is enough for
  every table the program uses, so that \<open>OutOfFuel\<close> is never the outcome.
\<close>

datatype 'a outcome = Ret 'a | Panic | OutOfFuel

type_synonym sent = "(bool \<times> go_error option) \<times> SwapStateMachine \<times> world"

section \<open>Transitions\<close>

text \<open>The table a machine is given when it is made or recovered, by its type and role.\<close>

definition States_of :: "SwapStateMachine \<Rightarrow> States" where
  "States_of sm = (case (sm_Type sm, sm_Role sm) of
     (SWAPTYPE_IN, SWAPROLE_SENDER) \<Rightarrow> getSwapInSenderStates
   | (SWAPTYPE_IN, SWAPROLE_RECEIVER) \<Rightarrow> getSwapInReceiverStates
   | (SWAPTYPE_OUT, SWAPROLE_SENDER) \<Rightarrow> getSwapOutSenderStates
   | (SWAPTYPE_OUT, SWAPROLE_RECEIVER) \<Rightarrow> getSwapOutReceiverStates
   | _ \<Rightarrow> [])"

definition getNextState :: "SwapStateMachine \<Rightarrow> EventType \<Rightarrow> go_error + StateType" where
  "getNextState sm event = (case map_of (States_of sm) (sm_Current sm) of
     Some st \<Rightarrow> (case map_of (st_Events st) event of Some next \<Rightarrow> Inr next | None \<Rightarrow> Inl ErrEventRejected)
   | None \<Rightarrow> Inl ErrEventRejected)"

definition EventIsValid :: "SwapStateMachine \<Rightarrow> EventType \<Rightarrow> bool" where
  "EventIsValid sm event = (case getNextState sm event of
     Inl _ \<Rightarrow> False
   | Inr nextState \<Rightarrow> (case map_of (States_of sm) nextState of
       None \<Rightarrow> False | Some st \<Rightarrow> st_Action st \<noteq> None))"

text \<open>
  \<open>logSwapInfo\<close> writes log lines; the only call it makes is the decoding of the fee invoice after the
  fee was paid (\<open>printFeeInvoiceInfo\<close>).
\<close>

definition logSwapInfo :: "SwapServices \<Rightarrow> SwapStateMachine \<Rightarrow> world \<Rightarrow> world" where
  "logSwapInfo sv sm w =
     (if sm_Current sm = State_SwapOutSender_AwaitTxBroadcastedMessage \<and>
         sm_Previous sm = State_SwapOutSender_PayFeeInvoice
      then (case SwapOutAgreement (sm_Data sm) of
          None \<Rightarrow> w
        | Some a \<Rightarrow> snd (ext (\<lambda>t. DecodePayreq (lightning sv) t (soa_Payreq a)) (DecodedPayreq (soa_Payreq a)) w))
      else w)"

section \<open>Backoff\<close>

definition exponentialBackoffBase :: int where "exponentialBackoffBase = 1000"
definition exponentialBackoffCap :: int where "exponentialBackoffCap = 20000"

text \<open>The bound of the random sleep; the product is a 64-bit integer.\<close>

definition backoff_bound :: "nat \<Rightarrow> int" where
  "backoff_bound retries =
     min (sint (word_of_int (exponentialBackoffBase * 2 ^ retries) :: i64)) exponentialBackoffCap"

text \<open>\<open>rand.Intn\<close> panics unless its argument is positive.\<close>

definition exponentialBackoffAndJitter :: "SwapServices \<Rightarrow> SwapStateMachine \<Rightarrow> world \<Rightarrow> world option" where
  "exponentialBackoffAndJitter sv sm w =
     (let temp = backoff_bound (sm_retries sm) in
      if temp \<le> 0 then None else Some (emit (Slept (rand_Intn sv (w_clock w) temp)) w))"

section \<open>The loop of \<open>SendEvent\<close>\<close>

text \<open>One round: it ends the call, or goes on with the event the action returned.\<close>

datatype round = Halt "bool \<times> go_error option" SwapStateMachine world
  | Continue EventType SwapStateMachine world
  | Panicked

definition enter_state :: "StateType \<Rightarrow> SwapStateMachine \<Rightarrow> SwapStateMachine" where
  "enter_state nextState sm = sm\<lparr>sm_Previous := sm_Current sm, sm_Current := nextState,
     sm_Data := SetState nextState (sm_Data sm)\<rparr>"

text \<open>What happens after the action of the new state returned \<open>nextEvent\<close>.\<close>

definition after_action :: "SwapServices \<Rightarrow> EventType \<Rightarrow> SwapStateMachine \<Rightarrow> world \<Rightarrow> round" where
  "after_action sv nextEvent sm w = (case world_UpdateData sv sm w of
     (Some e, w) \<Rightarrow> Halt (False, Some e) sm w
   | (None, w) \<Rightarrow>
       if nextEvent = Event_Done then Halt (True, None) sm w
       else if nextEvent = NoOp then Halt (False, None) sm w
       else if nextEvent = Event_OnRetry then
         (let sm = sm\<lparr>sm_retries := Suc (sm_retries sm)\<rparr> in
          case exponentialBackoffAndJitter sv sm w of
            None \<Rightarrow> Panicked
          | Some w \<Rightarrow> if 20 < sm_retries sm then Halt (False, None) (sm\<lparr>sm_retries := 0\<rparr>) w
                      else Continue nextEvent sm w)
       else Continue nextEvent sm w)"

definition fsm_round :: "SwapServices \<Rightarrow> EventType \<Rightarrow> SwapStateMachine \<Rightarrow> world \<Rightarrow> round" where
  "fsm_round sv event sm w = (case getNextState sm event of
     Inl _ \<Rightarrow> Halt (False, Some ErrEventRejected) sm w
   | Inr nextState \<Rightarrow> (case map_of (States_of sm) nextState of
       None \<Rightarrow> Halt (False, Some ErrFsmConfig) sm w
     | Some st \<Rightarrow> (case st_Action st of
         None \<Rightarrow> Halt (False, Some ErrFsmConfig) sm w
       | Some a \<Rightarrow>
           (let sm = enter_state nextState sm in
            case Execute sv a (sm_Data sm) (logSwapInfo sv sm w) of
              None \<Rightarrow> Panicked
            | Some (nextEvent, d, w) \<Rightarrow> after_action sv nextEvent (sm\<lparr>sm_Data := d\<rparr>) w))))"

fun fsm_loop :: "SwapServices \<Rightarrow> nat \<Rightarrow> EventType \<Rightarrow> SwapStateMachine \<Rightarrow> world \<Rightarrow> sent outcome" where
  "fsm_loop sv 0 event sm w = OutOfFuel"
| "fsm_loop sv (Suc n) event sm w = (case fsm_round sv event sm w of
     Halt r sm w \<Rightarrow> Ret (r, sm, w)
   | Continue event sm w \<Rightarrow> fsm_loop sv n event sm w
   | Panicked \<Rightarrow> Panic)"

definition fsm_fuel :: nat where "fsm_fuel = 200"

text \<open>\<open>SendEvent\<close> once the context was applied: store the machine, then run.\<close>

definition store_and_run :: "SwapServices \<Rightarrow> EventType \<Rightarrow> SwapStateMachine \<Rightarrow> world \<Rightarrow> sent outcome" where
  "store_and_run sv event sm w = (case world_UpdateData sv sm w of
     (Some e, w) \<Rightarrow> Ret ((False, Some e), sm, w)
   | (None, w) \<Rightarrow> fsm_loop sv fsm_fuel event sm w)"

definition SendEvent ::
  "SwapServices \<Rightarrow> EventType \<Rightarrow> EventContext option \<Rightarrow> SwapStateMachine \<Rightarrow> world \<Rightarrow> sent outcome" where
  "SendEvent sv event eventCtx sm w =
     (if event = Event_Done then Ret ((True, None), sm, w)
      else (case eventCtx of
        None \<Rightarrow> store_and_run sv event sm w
      | Some ctx \<Rightarrow> (case EventContext_Validate ctx (sm_Data sm) of
          Some _ \<Rightarrow> store_and_run sv Event_OnInvalid_Message sm w
        | None \<Rightarrow> (case EventContext_ApplyToSwapData ctx (sm_Data sm) of
            (Some err, d) \<Rightarrow> Ret ((event = Event_OnSwapOutStarted \<or>
               event = Event_SwapInSender_OnSwapInRequested, Some err), sm\<lparr>sm_Data := d\<rparr>, w)
          | (None, d) \<Rightarrow> store_and_run sv event (sm\<lparr>sm_Data := d\<rparr>) w))))"

text \<open>The names of the states are their Go constants; the default state is the empty string.\<close>

fun StateType_String :: "StateType \<Rightarrow> string" where
  "StateType_String Default = ''''"
| "StateType_String State_SendCancel = ''State_SendCancel''"
| "StateType_String State_SwapCanceled = ''State_SwapCanceled''"
| "StateType_String State_WaitCsv = ''State_WaitCsv''"
| "StateType_String State_ClaimedCsv = ''State_ClaimedCsv''"
| "StateType_String State_ClaimedPreimage = ''State_ClaimedPreimage''"
| "StateType_String State_ClaimedCoop = ''State_ClaimedCoop''"
| "StateType_String State_SwapOutSender_CreateSwap = ''State_SwapOutSender_CreateSwap''"
| "StateType_String State_SwapOutSender_SendRequest = ''State_SwapOutSender_SendRequest''"
| "StateType_String State_SwapOutSender_AwaitAgreement = ''State_SwapOutSender_AwaitAgreement''"
| "StateType_String State_SwapOutSender_PayFeeInvoice = ''State_SwapOutSender_PayFeeInvoice''"
| "StateType_String State_SwapOutSender_AwaitTxBroadcastedMessage = ''State_SwapOutSender_AwaitTxBroadcastedMessage''"
| "StateType_String State_SwapOutSender_AwaitTxConfirmation = ''State_SwapOutSender_AwaitTxConfirmation''"
| "StateType_String State_SwapOutSender_ValidateTxAndPayClaimInvoice = ''State_SwapOutSender_ValidateTxAndPayClaimInvoice''"
| "StateType_String State_SwapOutSender_ClaimSwap = ''State_SwapOutSender_ClaimSwap''"
| "StateType_String State_SwapOutSender_SendPrivkey = ''State_SwapOutSender_SendPrivkey''"
| "StateType_String State_SwapOutSender_SendCoopClose = ''State_SwapOutSender_SendCoopClose''"
| "StateType_String State_SwapOutReceiver_CreateSwap = ''State_SwapOutReceiver_CreateSwap''"
| "StateType_String State_SwapOutReceiver_SendFeeInvoice = ''State_SwapOutReceiver_SendFeeInvoice''"
| "StateType_String State_SwapOutReceiver_AwaitFeeInvoicePayment = ''State_SwapOutReceiver_AwaitFeeInvoicePayment''"
| "StateType_String State_SwapOutReceiver_BroadcastOpeningTx = ''State_SwapOutReceiver_BroadcastOpeningTx''"
| "StateType_String State_SwapOutReceiver_SendTxBroadcastedMessage = ''State_SwapOutReceiver_SendTxBroadcastedMessage''"
| "StateType_String State_SwapOutReceiver_AwaitClaimInvoicePayment = ''State_SwapOutReceiver_AwaitClaimInvoicePayment''"
| "StateType_String State_SwapOutReceiver_ClaimSwapCsv = ''State_SwapOutReceiver_ClaimSwapCsv''"
| "StateType_String State_SwapOutReceiver_ClaimSwapCoop = ''State_SwapOutReceiver_ClaimSwapCoop''"
| "StateType_String State_SwapInSender_CreateSwap = ''State_SwapInSender_CreateSwap''"
| "StateType_String State_SwapInSender_SendRequest = ''State_SwapInSender_SendRequest''"
| "StateType_String State_SwapInSender_AwaitAgreement = ''State_SwapInSender_AwaitAgreement''"
| "StateType_String State_SwapInSender_BroadcastOpeningTx = ''State_SwapInSender_BroadcastOpeningTx''"
| "StateType_String State_SwapInSender_SendTxBroadcastedMessage = ''State_SwapInSender_SendTxBroadcastedMessage''"
| "StateType_String State_SwapInSender_AwaitClaimPayment = ''State_SwapInSender_AwaitClaimPayment''"
| "StateType_String State_SwapInSender_ClaimSwapCsv = ''State_SwapInSender_ClaimSwapCsv''"
| "StateType_String State_SwapInSender_ClaimSwapCoop = ''State_SwapInSender_ClaimSwapCoop''"
| "StateType_String State_SwapInReceiver_CreateSwap = ''State_SwapInReceiver_CreateSwap''"
| "StateType_String State_SwapInReceiver_SendAgreement = ''State_SwapInReceiver_SendAgreement''"
| "StateType_String State_SwapInReceiver_AwaitTxBroadcastedMessage = ''State_SwapInReceiver_AwaitTxBroadcastedMessage''"
| "StateType_String State_SwapInReceiver_AwaitTxConfirmation = ''State_SwapInReceiver_AwaitTxConfirmation''"
| "StateType_String State_SwapInReceiver_ValidateTxAndPayClaimInvoice = ''State_SwapInReceiver_ValidateTxAndPayClaimInvoice''"
| "StateType_String State_SwapInReceiver_ClaimSwap = ''State_SwapInReceiver_ClaimSwap''"
| "StateType_String State_SwapInReceiver_SendPrivkey = ''State_SwapInReceiver_SendPrivkey''"
| "StateType_String State_SwapInReceiver_SendCoopClose = ''State_SwapInReceiver_SendCoopClose''"

definition err_unknown_state :: "SwapStateMachine \<Rightarrow> go_error" where
  "err_unknown_state sm = ErrText (''unknown state: '' @ StateType_String (sm_Current sm) @ '' for swap '' @
     SwapId_String (sm_SwapId sm))"

definition Recover :: "SwapServices \<Rightarrow> SwapStateMachine \<Rightarrow> world \<Rightarrow> sent outcome" where
  "Recover sv sm w = (case map_of (States_of sm) (sm_Current sm) of
     None \<Rightarrow> Ret ((False, Some (err_unknown_state sm)), sm, w)
   | Some st \<Rightarrow> (case st_Action st of
       None \<Rightarrow> Ret ((False, Some ErrFsmConfig), sm, w)
     | Some a \<Rightarrow>
         if FailOnrecover st then SendEvent sv Event_ActionFailed None sm w
         else (case Execute sv a (sm_Data sm) w of
           None \<Rightarrow> Panic
         | Some (nextEvent, d, w) \<Rightarrow>
             (let sm = sm\<lparr>sm_Data := d\<rparr> in
              case world_UpdateData sv sm w of
                (Some e, w) \<Rightarrow> Ret ((False, Some e), sm, w)
              | (None, w) \<Rightarrow> if nextEvent = NoOp then Ret ((False, None), sm, w)
                             else SendEvent sv nextEvent None sm w))))"

definition IsFinished :: "SwapStateMachine \<Rightarrow> bool" where
  "IsFinished sm = (case sm_Current sm of
     State_ClaimedCsv \<Rightarrow> True | State_SwapCanceled \<Rightarrow> True | State_ClaimedPreimage \<Rightarrow> True
   | State_ClaimedCoop \<Rightarrow> True | _ \<Rightarrow> False)"

section \<open>New machines\<close>

definition newSwapInReceiverFSM :: "SwapId option \<Rightarrow> string \<Rightarrow> byte list \<Rightarrow> i64 \<Rightarrow> SwapStateMachine" where
  "newSwapInReceiverFSM swapId peer privkey now = \<lparr>sm_SwapId = swapId,
     sm_Data = NewSwapDataFromRequest peer privkey now, sm_Type = SWAPTYPE_IN,
     sm_Role = SWAPROLE_RECEIVER, sm_Previous = Default, sm_Current = Default, sm_retries = 0\<rparr>"

definition newSwapInSenderFSM :: "SwapId \<Rightarrow> string \<Rightarrow> string \<Rightarrow> byte list \<Rightarrow> i64 \<Rightarrow> SwapStateMachine" where
  "newSwapInSenderFSM swapId initiatorNodeId peerNodeId privkey now = \<lparr>sm_SwapId = Some swapId,
     sm_Data = NewSwapData initiatorNodeId peerNodeId privkey now, sm_Type = SWAPTYPE_IN,
     sm_Role = SWAPROLE_SENDER, sm_Previous = Default, sm_Current = Default, sm_retries = 0\<rparr>"

definition newSwapOutReceiverFSM :: "SwapId option \<Rightarrow> string \<Rightarrow> byte list \<Rightarrow> i64 \<Rightarrow> SwapStateMachine" where
  "newSwapOutReceiverFSM swapId peer privkey now = \<lparr>sm_SwapId = swapId,
     sm_Data = NewSwapDataFromRequest peer privkey now, sm_Type = SWAPTYPE_OUT,
     sm_Role = SWAPROLE_RECEIVER, sm_Previous = Default, sm_Current = Default, sm_retries = 0\<rparr>"

definition newSwapOutSenderFSM :: "SwapId \<Rightarrow> string \<Rightarrow> string \<Rightarrow> byte list \<Rightarrow> i64 \<Rightarrow> SwapStateMachine" where
  "newSwapOutSenderFSM swapId initiatorNodeId peerNodeId privkey now = \<lparr>sm_SwapId = Some swapId,
     sm_Data = NewSwapData initiatorNodeId peerNodeId privkey now, sm_Type = SWAPTYPE_OUT,
     sm_Role = SWAPROLE_SENDER, sm_Previous = Default, sm_Current = Default, sm_retries = 0\<rparr>"

section \<open>The machine of a table\<close>

lemma States_of_fields [simp]:
  "States_of (sm\<lparr>sm_Data := d\<rparr>) = States_of sm" "States_of (sm\<lparr>sm_retries := n\<rparr>) = States_of sm"
  "States_of (enter_state s sm) = States_of sm"
  by (simp_all add: States_of_def enter_state_def)

lemma enter_state_simps [simp]:
  "sm_Current (enter_state s sm) = s" "sm_Previous (enter_state s sm) = sm_Current sm"
  "sm_retries (enter_state s sm) = sm_retries sm" "sm_SwapId (enter_state s sm) = sm_SwapId sm"
  "sm_Type (enter_state s sm) = sm_Type sm" "sm_Role (enter_state s sm) = sm_Role sm"
  "sm_Data (enter_state s sm) = SetState s (sm_Data sm)"
  by (simp_all add: enter_state_def)

text \<open>The ways a round can end, after an action \<open>a\<close> of the next state was executed.\<close>

lemma after_action_Continue:
  assumes "after_action sv e sm w = Continue e' sm' w'"
  shows "e' = e \<and> e \<noteq> NoOp \<and> e \<noteq> Event_Done \<and> sm_retries sm' \<le> Suc (sm_retries sm) \<and>
    sm' = sm\<lparr>sm_retries := sm_retries sm'\<rparr> \<and>
    (e = Event_OnRetry \<longrightarrow> sm_retries sm' = Suc (sm_retries sm) \<and> sm_retries sm' \<le> 20) \<and>
    (e \<noteq> Event_OnRetry \<longrightarrow> sm_retries sm' = sm_retries sm)"
  using assms by (auto simp: after_action_def Let_def split: prod.splits option.splits if_splits)

lemma after_action_Halt:
  assumes "after_action sv e sm w = Halt r sm' w'"
  shows "sm' = sm\<lparr>sm_retries := sm_retries sm'\<rparr> \<and> (fst r \<longrightarrow> e = Event_Done) \<and>
    (snd r = None \<longrightarrow> e \<in> {Event_Done, NoOp, Event_OnRetry})"
  using assms by (auto simp: after_action_def Let_def split: prod.splits option.splits if_splits)

lemma fsm_round_Continue:
  assumes "fsm_round sv event sm w = Continue e sm' w'"
  shows "\<exists>s st a d w1. getNextState sm event = Inr s \<and> map_of (States_of sm) s = Some st \<and>
    st_Action st = Some a \<and>
    Execute sv a (SetState s (sm_Data sm)) (logSwapInfo sv (enter_state s sm) w) = Some (e, d, w1) \<and>
    after_action sv e ((enter_state s sm)\<lparr>sm_Data := d\<rparr>) w1 = Continue e sm' w'"
  using assms after_action_Continue
  by (fastforce simp: fsm_round_def Let_def split: sum.splits option.splits prod.splits)

locale fsm_table =
  fixes sts :: States
  assumes wf: "table_wf sts"
    and ranked: "table_ranked sts"
    and done_final: "table_done_final sts"
begin

lemma next_has_action:
  assumes "map_of sts s = Some st" "map_of (st_Events st) e = Some s'"
  shows "\<exists>st' a. map_of sts s' = Some st' \<and> st_Action st' = Some a"
proof -
  have "(s, st) \<in> set sts" "(e, s') \<in> set (st_Events st)"
    using assms by (auto dest: map_of_SomeD)
  then have "has_action sts s'"
    using wf by (auto simp: table_wf_def list_all_iff)
  then show ?thesis
    by (auto simp: has_action_def split: option.splits)
qed

lemma internal_step:
  assumes "map_of sts s = Some st" "st_Action st = Some a" "e \<in> set (action_events a)"
    and "e \<noteq> NoOp" "e \<noteq> Event_Done" "map_of (st_Events st) e = Some s'"
  shows "state_rank s' < state_rank s \<or> e = Event_OnRetry \<and> s' = s"
proof -
  have "(s, st) \<in> set sts" "(e, s') \<in> set (st_Events st)"
    using assms by (auto dest: map_of_SomeD)
  then have "(e, s') \<in> set (internal_targets st)"
    using assms by (simp add: internal_targets_def)
  then show ?thesis
    using ranked \<open>(s, st) \<in> set sts\<close> by (auto simp: table_ranked_def list_all_iff)
qed

lemma done_state:
  assumes "map_of sts s = Some st" "st_Action st = Some a"
  shows "Event_Done \<in> set (action_events a) \<longleftrightarrow> final_state s"
    and "final_state s \<Longrightarrow> st_Events st = [] \<and> set (action_events a) = {Event_Done}"
proof -
  have "(s, st) \<in> set sts"
    using assms by (auto dest: map_of_SomeD)
  then show "Event_Done \<in> set (action_events a) \<longleftrightarrow> final_state s"
    and "final_state s \<Longrightarrow> st_Events st = [] \<and> set (action_events a) = {Event_Done}"
    using done_final assms(2) by (auto simp: table_done_final_def list_all_iff split: option.splits)
qed

text \<open>The fuel a machine needs when it is about to enter a state.\<close>

definition budget :: "StateType \<Rightarrow> nat \<Rightarrow> nat" where
  "budget s retries = 2 + state_rank s * 22 + (21 - retries)"

text \<open>
  A round that continues has entered a state and goes on to one with a smaller budget, or to a
  rejected event.
\<close>

lemma round_continue:
  assumes "States_of sm = sts" "fsm_round sv event sm w = Continue e sm' w'"
    and "getNextState sm event = Inr s"
  shows "States_of sm' = sts \<and> sm_Current sm' = s \<and>
    (\<forall>s'. getNextState sm' e = Inr s' \<longrightarrow> budget s' (sm_retries sm') < budget s (sm_retries sm))"
proof -
  obtain st a d w1 where ex: "map_of sts s = Some st" "st_Action st = Some a"
    "Execute sv a (SetState s (sm_Data sm)) (logSwapInfo sv (enter_state s sm) w) = Some (e, d, w1)"
    "after_action sv e ((enter_state s sm)\<lparr>sm_Data := d\<rparr>) w1 = Continue e sm' w'"
    using fsm_round_Continue [OF assms(2)] assms(1,3) by auto
  note after = after_action_Continue [OF ex(4)]
  have ev: "e \<in> set (action_events a)" "e \<noteq> NoOp" "e \<noteq> Event_Done"
    using Execute_events [OF ex(3)] after by auto
  have sm': "sm' = (enter_state s sm)\<lparr>sm_Data := d, sm_retries := sm_retries sm'\<rparr>"
    using after by simp
  have cur: "sm_Current sm' = s" "States_of sm' = sts"
    using assms(1) by (subst sm', simp)+
  have "budget s' (sm_retries sm') < budget s (sm_retries sm)" if "getNextState sm' e = Inr s'" for s'
  proof -
    have "map_of (st_Events st) e = Some s'"
      using that cur ex(1) by (auto simp: getNextState_def split: option.splits)
    from internal_step [OF ex(1,2) ev this] after show ?thesis
      by (auto simp: budget_def)
  qed
  then show ?thesis using cur by blast
qed

lemma loop_halts:
  assumes "States_of sm = sts" "0 < n"
    and "\<And>s. getNextState sm event = Inr s \<Longrightarrow> budget s (sm_retries sm) \<le> n"
  shows "fsm_loop sv n event sm w \<noteq> OutOfFuel"
  using assms
proof (induction n arbitrary: event sm w)
  case (Suc n)
  show ?case
  proof (cases "fsm_round sv event sm w")
    case (Continue e sm' w')
    then obtain s where s: "getNextState sm event = Inr s"
      using fsm_round_Continue by blast
    note step = round_continue [OF Suc.prems(1) Continue s]
    have n: "budget s (sm_retries sm) \<le> Suc n" using Suc.prems(3) s by blast
    then have "0 < n" by (simp add: budget_def)
    moreover have "budget s' (sm_retries sm') \<le> n" if "getNextState sm' e = Inr s'" for s'
      using step that n by fastforce
    ultimately have "fsm_loop sv n e sm' w' \<noteq> OutOfFuel"
      using Suc.IH step by blast
    then show ?thesis using Continue by simp
  qed simp_all
qed simp

lemma budget_le: "budget s r \<le> fsm_fuel"
  using state_rank_le [of s] by (simp add: budget_def fsm_fuel_def)

lemma store_and_run_halts:
  assumes "States_of sm = sts"
  shows "store_and_run sv event sm w \<noteq> OutOfFuel"
proof -
  have "fsm_loop sv fsm_fuel event sm w' \<noteq> OutOfFuel" for w'
    using assms budget_le by (intro loop_halts) (auto simp: fsm_fuel_def)
  then show ?thesis
    by (auto simp: store_and_run_def split: prod.splits option.splits)
qed

lemma SendEvent_halts:
  assumes "States_of sm = sts"
  shows "SendEvent sv event ctx sm w \<noteq> OutOfFuel"
  using store_and_run_halts assms by (auto simp: SendEvent_def split: option.splits prod.splits)

lemma Recover_halts:
  assumes "States_of sm = sts"
  shows "Recover sv sm w \<noteq> OutOfFuel"
  using SendEvent_halts assms
  by (auto simp: Recover_def Let_def split: option.splits prod.splits)

end

interpretation in_receiver: fsm_table getSwapInReceiverStates
  by unfold_locales (simp_all add: tables_wf tables_ranked tables_done_final)

interpretation in_sender: fsm_table getSwapInSenderStates
  by unfold_locales (simp_all add: tables_wf tables_ranked tables_done_final)

interpretation out_receiver: fsm_table getSwapOutReceiverStates
  by unfold_locales (simp_all add: tables_wf tables_ranked tables_done_final)

interpretation out_sender: fsm_table getSwapOutSenderStates
  by unfold_locales (simp_all add: tables_wf tables_ranked tables_done_final)

interpretation no_table: fsm_table "[]"
  by unfold_locales (simp_all add: table_wf_def table_ranked_def table_done_final_def)

end
