(* ===== verification/PS_Effects.thy ===== *)
theory PS_Effects
  imports PS_Actions
begin

text \<open>
  What the actions do to the outside world: which calls an action can make at all, and the checks
  that guard the calls that move money (paying the fee and claim invoices, creating the opening
  transaction) and the acceptance of a request.
\<close>

section \<open>New effects\<close>

definition adds :: "(effect \<Rightarrow> bool) \<Rightarrow> world \<Rightarrow> world \<Rightarrow> bool" where
  "adds ok w w' \<longleftrightarrow> (\<exists>ts. w_trace w' = w_trace w @ ts \<and> list_all ok ts)"

lemma addsI: "w_trace w' = w_trace w @ ts \<Longrightarrow> list_all ok ts \<Longrightarrow> adds ok w w'"
  by (auto simp: adds_def)

lemma adds_refl [simp]: "adds ok w w"
  by (simp add: adds_def)

lemma adds_same: "w_trace w' = w_trace w \<Longrightarrow> adds ok w w'"
  by (simp add: adds_def)

lemma adds_trans: "adds ok w w1 \<Longrightarrow> adds ok w1 w2 \<Longrightarrow> adds ok w w2"
  by (auto simp: adds_def)

lemma adds_weaken: "adds ok w w' \<Longrightarrow> (\<And>t. ok t \<Longrightarrow> ok' t) \<Longrightarrow> adds ok' w w'"
  by (auto simp: adds_def list_all_iff)

lemma adds_emitI: "adds ok w w1 \<Longrightarrow> ok x \<Longrightarrow> adds ok w (emit x w1)"
  by (auto simp: adds_def)

lemma adds_emit_left: "adds ok (emit x w) w' \<Longrightarrow> ok x \<Longrightarrow> adds ok w w'"
  by (auto simp: adds_def)

lemma adds_fields [simp]:
  "adds ok w (tick n w1) \<longleftrightarrow> adds ok w w1" "adds ok (tick n w1) w \<longleftrightarrow> adds ok w1 w"
  "adds ok w (w1\<lparr>w_messengers := h\<rparr>) \<longleftrightarrow> adds ok w w1" "adds ok w (w1\<lparr>w_manager := m\<rparr>) \<longleftrightarrow> adds ok w w1"
  "adds ok w (w1\<lparr>w_policy := p\<rparr>) \<longleftrightarrow> adds ok w w1" "adds ok (w1\<lparr>w_policy := p\<rparr>) w \<longleftrightarrow> adds ok w1 w"
  by (simp_all add: adds_def)

text \<open>Which actions may send a message, create an opening transaction, pay.\<close>

fun inner_action :: "action \<Rightarrow> action" where
  "inner_action (CheckRequestWrapperAction a) = inner_action a"
| "inner_action (CheckPremiumAmount a) = inner_action a"
| "inner_action (StopSendMessageWithRetryWrapperAction a) = inner_action a"
| "inner_action (SetBlindingKeyActionWrapper a) = inner_action a"
| "inner_action (AddSuspiciousPeerAction a) = inner_action a"
| "inner_action a = a"

fun may_do :: "action \<Rightarrow> effect \<Rightarrow> bool" where
  "may_do a (SentMessage _ _ _ _) \<longleftrightarrow>
     a = SendCancelAction \<or> a = SendMessageAction \<or> a = SendMessageWithRetryAction"
| "may_do a (OpeningTx _ _ _) \<longleftrightarrow> a = CreateAndBroadcastOpeningTransaction"
| "may_do a (PaidViaChannel _ _ _) \<longleftrightarrow> a = PayFeeInvoiceAction"
| "may_do a (Rebalanced _ _ _ _) \<longleftrightarrow> a = ValidateTxAndPayClaimInvoiceAction"
| "may_do a (PreimageSpend _ _ _) \<longleftrightarrow> a = ClaimSwapTransactionWithPreimageAction"
| "may_do a (CsvSpend _ _ _) \<longleftrightarrow> a = ClaimSwapTransactionWithCsv"
| "may_do a (CoopSpend _ _ _ _) \<longleftrightarrow> a = ClaimSwapTransactionCoop"
| "may_do a _ \<longleftrightarrow> True"

lemma post_mono_world:
  "post (\<lambda>e d' w'. adds ok w1 w') r \<Longrightarrow> adds ok w w1 \<Longrightarrow> post (\<lambda>e d' w'. adds ok w w') r"
  by (auto simp: post_def intro: adds_trans)

lemma pay_claim_loop_adds:
  "post (\<lambda>e d' w'. adds (may_do ValidateTxAndPayClaimInvoiceAction) w w')
     (pay_claim_loop sv onchain validator policy n payErr d w)"
proof (induction n arbitrary: payErr w)
  case (Suc n)
  have "post (\<lambda>e d' w'. adds (may_do ValidateTxAndPayClaimInvoiceAction) w w')
      (pay_claim_loop sv onchain validator policy n pe d (emit x (emit y w)))"
    if "may_do ValidateTxAndPayClaimInvoiceAction x" "may_do ValidateTxAndPayClaimInvoiceAction y" for pe x y
    using post_mono_world [OF Suc.IH adds_emitI [OF adds_emitI]] that by simp
  then show ?case
    by (auto simp: adds_emitI ext_eq)
qed simp

lemma setLiquidPaymentWindowAnchor_adds:
  "setLiquidPaymentWindowAnchor sv d w = (e, d', w') \<Longrightarrow> adds (may_do a) w w'"
  by (auto simp: setLiquidPaymentWindowAnchor_def ext_eq adds_emitI
      split: if_splits sum.splits prod.splits)

lemma post_adds: "post (\<lambda>e d' w'. adds (may_do (inner_action a)) w w') (Execute sv a d w)"
proof (induction a arbitrary: d w)
  case (CheckRequestWrapperAction a)
  then show ?case
    by (auto simp: CheckRequestWrapperAction_Execute_def reject_def adds_same dest: world_Add_frame)
next
  case SwapInReceiverInitAction
  then show ?case
    by (auto simp: SwapInReceiverInitAction_Execute_def action_parts adds_emitI
        dest: setLiquidPaymentWindowAnchor_adds [of _ _ _ _ _ _ SwapInReceiverInitAction])
next
  case CreateSwapRequestAction
  then show ?case
    by (auto simp: CreateSwapRequestAction_Execute_def action_parts adds_emitI
        dest: setLiquidPaymentWindowAnchor_adds [of _ _ _ _ _ _ CreateSwapRequestAction])
next
  case (CheckPremiumAmount a)
  then show ?case by (simp add: CheckPremiumAmount_Execute_def)
next
  case (StopSendMessageWithRetryWrapperAction a)
  then show ?case
    using post_mono_world [OF StopSendMessageWithRetryWrapperAction.IH adds_same]
    by (simp add: StopSendMessageWithRetryWrapperAction_Execute_def world_RemoveSender_frame)
next
  case (SetBlindingKeyActionWrapper a)
  then show ?case
    using post_mono_world [OF SetBlindingKeyActionWrapper.IH, of w "emit DrewRandom w"]
    by (simp add: SetBlindingKeyActionWrapper_Execute_def adds_emitI)
next
  case ValidateTxAndPayClaimInvoiceAction
  then show ?case
    using post_mono_world [OF pay_claim_loop_adds]
    by (auto simp: ValidateTxAndPayClaimInvoiceAction_Execute_def action_parts adds_emitI ext_eq)
next
  case NoOpDoneAction
  then show ?case
    by (auto simp: NoOpDoneAction_Execute_def dest!: world_RemoveSender_frame intro: adds_same)
next
  case (AddSuspiciousPeerAction a)
  then show ?case
    using post_mono_world [OF AddSuspiciousPeerAction.IH adds_same]
    by (simp add: AddSuspiciousPeerAction_Execute_def)
qed (auto simp: action_defs action_parts adds_emitI ext_def Let_def)

lemma Execute_adds:
  "Execute sv a d w = Some (e, d', w') \<Longrightarrow> adds (may_do (inner_action a)) w w'"
  using post_adds [of a w sv d] by (simp add: post_def)

definition new_effects :: "world \<Rightarrow> world \<Rightarrow> effect list" where
  "new_effects w w' = drop (length (w_trace w)) (w_trace w')"

lemma new_effects_append: "w_trace w' = w_trace w @ ts \<Longrightarrow> new_effects w w' = ts"
  by (simp add: new_effects_def)

lemma new_effects_simps [simp]:
  "new_effects w w = []" "new_effects w (tick n w1) = new_effects w w1"
  by (simp_all add: new_effects_def)

section \<open>Timelocks\<close>

text \<open>The payment window check is exact: it passes if and only if the starting height of the
  swap is known and the current height is at least the starting height and below starting height
  plus window, computed without overflow.\<close>

theorem checkPaymentWindow_iff:
  "checkPaymentWindow d height policy = None \<longleftrightarrow> StartingBlockHeightSet d \<and>
     unat (StartingBlockHeight d) \<le> unat height \<and>
     unat height < unat (StartingBlockHeight d) + unat (PaymentWindow policy)"
  by (auto simp: checkPaymentWindow_def Let_def word_less_nat_alt word_le_nat_alt unat_add_widened
      unat_u64_of_u32)



section \<open>Paying the claim invoice\<close>

text \<open>
  The shape of the calls the payment loop makes: rounds of a height reading that is in the safe range
  followed by a payment attempt; a reading that fails or is out of range ends the loop, and so does
  the first attempt that succeeds.
\<close>

fun payment_rounds :: "(u32 \<Rightarrow> bool) \<Rightarrow> string \<Rightarrow> string \<Rightarrow> u32 \<Rightarrow> effect list \<Rightarrow> bool" where
  "payment_rounds safe payreq scid delta [] = True"
| "payment_rounds safe payreq scid delta [BlockHeight c r] = True"
| "payment_rounds safe payreq scid delta (BlockHeight c (Inr h) # Rebalanced p s m r # ts) \<longleftrightarrow>
     safe h \<and> p = payreq \<and> s = scid \<and> m = delta \<and>
     (case r of Inl _ \<Rightarrow> payment_rounds safe payreq scid delta ts | Inr _ \<Rightarrow> ts = [])"
| "payment_rounds safe payreq scid delta _ = False"

definition payment_height_safe :: "Validator \<Rightarrow> timelockPolicy \<Rightarrow> SwapData \<Rightarrow> u32 \<Rightarrow> bool" where
  "payment_height_safe validator policy d now \<longleftrightarrow>
     (if GetChain d = btc_chain then now - StartingBlockHeight d \<le> GetCSVHeight validator div 2
      else checkPaymentWindow d now policy = None)"

lemma pay_claim_loop_rounds:
  assumes "GetChain d = btc_chain \<or> GetChain d = l_btc_chain" "OpeningTxBroadcasted d = Some m"
  shows "post (\<lambda>e d' w'. \<exists>ts. w_trace w' = w_trace w @ ts \<and>
      payment_rounds (payment_height_safe validator policy d) (otb_Payreq m) (GetScid d)
        (MaxTotalCLTVDelta policy) ts \<and>
      (e = Event_ActionSucceeded \<longrightarrow> ts \<noteq> [] \<and> last ts = Rebalanced (otb_Payreq m) (GetScid d)
        (MaxTotalCLTVDelta policy) (Inr (ClaimPreimage d'))))
     (pay_claim_loop sv onchain validator policy n payErr d w)"
proof (induction n arbitrary: w payErr)
  case (Suc n)
  let ?safe = "payment_height_safe validator policy d"
  let ?reb = "Rebalanced (otb_Payreq m) (GetScid d) (MaxTotalCLTVDelta policy)"
  let ?Q = "\<lambda>w e d' w'. \<exists>ts. w_trace w' = w_trace w @ ts \<and>
      payment_rounds ?safe (otb_Payreq m) (GetScid d) (MaxTotalCLTVDelta policy) ts \<and>
      (e = Event_ActionSucceeded \<longrightarrow> ts \<noteq> [] \<and> last ts = ?reb (Inr (ClaimPreimage d')))"
  have step: "post (?Q w) (pay_claim_loop sv onchain validator policy n pe d
      (emit (?reb (Inl err)) (emit (BlockHeight c (Inr h)) w)))" if "?safe h" for pe err c h
    using Suc.IH [of "emit (?reb (Inl err)) (emit (BlockHeight c (Inr h)) w)" pe]
  proof (rule post_weaken)
    fix e d' w'
    assume "?Q (emit (?reb (Inl err)) (emit (BlockHeight c (Inr h)) w)) e d' w'"
    then obtain ts where "w_trace w' = w_trace w @ BlockHeight c (Inr h) # ?reb (Inl err) # ts"
      "payment_rounds ?safe (otb_Payreq m) (GetScid d) (MaxTotalCLTVDelta policy) ts"
      "e = Event_ActionSucceeded \<longrightarrow> ts \<noteq> [] \<and> last ts = ?reb (Inr (ClaimPreimage d'))"
      by auto
    then show "?Q w e d' w'"
      using that by (intro exI [of _ "BlockHeight c (Inr h) # ?reb (Inl err) # ts"]) auto
  qed
  have "?safe h" if "\<not> (GetChain d = btc_chain \<and> GetCSVHeight validator div 2 < h - StartingBlockHeight d)"
    "(if GetChain d = l_btc_chain then checkPaymentWindow d h policy else None) = None" for h
    using that assms(1) by (auto simp: payment_height_safe_def)
  then show ?case
    using step assms(2) by (auto simp: ext_eq)
qed simp

text \<open>C3. The claim invoice is only paid for a valid opening transaction and inside the payment
  window: in every run of the action the first call validates the opening transaction against the
  swap's parameters, no payment is tried unless it is valid, and the calls after it are rounds of a
  block height in the safe range and one payment attempt of exactly the agreed invoice over the
  agreed channel with the policy's route limit; after a successful payment nothing is paid again,
  and the action succeeds with the preimage of that payment.\<close>

theorem claim_payment_guarded:
  assumes "Execute sv ValidateTxAndPayClaimInvoiceAction d w = Some (e, d', w')"
    and "getOnChainServices sv (GetChain d) = Inr (onchain, wallet, validator)"
    and "getTimelockPolicy d = Inr policy" "AllowNewClaimPayment policy"
    and "OpeningTxBroadcasted d = Some m"
  shows "\<exists>params r ts. GetOpeningParams (sv_crypto sv) d = Some params \<and>
    new_effects w w' = ValidatedTx params (OpeningTxHex d) r # ts \<and>
    (r \<noteq> Inr True \<longrightarrow> ts = [] \<and> e = Event_ActionFailed) \<and>
    payment_rounds (payment_height_safe validator policy d) (otb_Payreq m) (GetScid d)
      (MaxTotalCLTVDelta policy) ts \<and>
    (e = Event_ActionSucceeded \<longrightarrow> ts \<noteq> [] \<and> last ts = Rebalanced (otb_Payreq m) (GetScid d)
      (MaxTotalCLTVDelta policy) (Inr (ClaimPreimage d')))"
proof -
  have chain: "GetChain d = btc_chain \<or> GetChain d = l_btc_chain"
    using assms(2) by (auto simp: getOnChainServices_Inr)
  obtain params where params: "GetOpeningParams (sv_crypto sv) d = Some params"
    using assms by (cases "GetOpeningParams (sv_crypto sv) d")
      (auto simp: ValidateTxAndPayClaimInvoiceAction_Execute_def)
  let ?r = "ValidateTx validator (w_clock w) params (OpeningTxHex d)"
  let ?w = "emit (ValidatedTx params (OpeningTxHex d) ?r) w"
  have run: "Execute sv ValidateTxAndPayClaimInvoiceAction d w =
      (case ?r of Inl err \<Rightarrow> fail (Some err) d ?w
       | Inr ok \<Rightarrow> if ok then pay_claim_loop sv onchain validator policy (pay_ticks sv (w_clock ?w)) None d ?w
                   else fail (Some (ErrText ''tx is not valid'')) d ?w)"
    using assms(2-4) params
    by (simp add: ValidateTxAndPayClaimInvoiceAction_Execute_def ext_def Let_def split: sum.split)
  show ?thesis
  proof (cases "?r = Inr True")
    case True
    have "\<exists>ts. w_trace w' = w_trace ?w @ ts \<and>
      payment_rounds (payment_height_safe validator policy d) (otb_Payreq m) (GetScid d)
        (MaxTotalCLTVDelta policy) ts \<and>
      (e = Event_ActionSucceeded \<longrightarrow> ts \<noteq> [] \<and> last ts = Rebalanced (otb_Payreq m) (GetScid d)
        (MaxTotalCLTVDelta policy) (Inr (ClaimPreimage d')))"
      using pay_claim_loop_rounds [OF chain assms(5), of ?w validator policy sv onchain
          "pay_ticks sv (w_clock ?w)" None] assms(1) run True
      by (simp add: post_def)
    then show ?thesis
      using params True by (auto simp: new_effects_def)
  next
    case False
    then have "w' = ?w \<and> e = Event_ActionFailed"
      using assms(1) run by (auto simp: fail_def split: sum.splits if_splits)
    then show ?thesis
      using params False by (auto simp: new_effects_def)
  qed
qed

theorem claim_payment_guarded_witness:
  "\<exists>e d' w' params r ts. Execute demo_services ValidateTxAndPayClaimInvoiceAction demo_out_data demo_world =
      Some (e, d', w') \<and> e = Event_ActionSucceeded \<and> ClaimPreimage d' = ''claimpre'' \<and>
    new_effects demo_world w' = ValidatedTx params '''' r # ts \<and>
    payment_rounds (payment_height_safe (bitcoinValidator demo_services) bitcoin_policy demo_out_data)
      ''claim'' ''1x2x3'' 0 ts"
proof -
  obtain params where params: "GetOpeningParams (sv_crypto demo_services) demo_out_data = Some params"
    using demo_out_params by blast
  obtain d' w' where run: "Execute demo_services ValidateTxAndPayClaimInvoiceAction demo_out_data demo_world =
      Some (Event_ActionSucceeded, d', w')" "ClaimPreimage d' = ''claimpre''"
    using params
    by (simp add: ValidateTxAndPayClaimInvoiceAction_Execute_def ext_def Let_def bitcoin_policy_def
        pay_claim_loop.simps(2) [where n = 11, simplified])
  show ?thesis
    using claim_payment_guarded [OF run(1) _ demo_out_policy, of _ _ _ demo_opening] run
    by (auto simp: bitcoin_policy_def)
qed

section \<open>Getters that other fields do not affect\<close>

text \<open>Most getters read only the two requests and the two agreements.\<close>

definition negotiated :: "SwapData \<Rightarrow> SwapInRequestMessage option \<times> SwapInAgreementMessage option \<times>
    SwapOutRequestMessage option \<times> SwapOutAgreementMessage option" where
  "negotiated d = (SwapInRequest d, SwapInAgreement d, SwapOutRequest d, SwapOutAgreement d)"

lemma negotiated_getters:
  assumes "negotiated d' = negotiated d"
  shows "GetChain d' = GetChain d" "GetScid d' = GetScid d" "GetId d' = GetId d"
    "GetAmount d' = GetAmount d" "GetProtocolVersion d' = GetProtocolVersion d"
    "GetAsset d' = GetAsset d" "GetNetwork d' = GetNetwork d" "GetType d' = GetType d"
    "GetClaimAmount d' = GetClaimAmount d" "GetOpeningTXAmount d' = GetOpeningTXAmount d"
    "getTimelockPolicy d' = getTimelockPolicy d" "GetRequest d' = GetRequest d"
proof -
  have same: "SwapInRequest d' = SwapInRequest d" "SwapInAgreement d' = SwapInAgreement d"
    "SwapOutRequest d' = SwapOutRequest d" "SwapOutAgreement d' = SwapOutAgreement d"
    using assms by (simp_all add: negotiated_def)
  show "GetScid d' = GetScid d" "GetId d' = GetId d" "GetAmount d' = GetAmount d"
    "GetAsset d' = GetAsset d" "GetNetwork d' = GetNetwork d" "GetType d' = GetType d"
    "GetClaimAmount d' = GetClaimAmount d" "GetOpeningTXAmount d' = GetOpeningTXAmount d"
    "GetRequest d' = GetRequest d" "GetProtocolVersion d' = GetProtocolVersion d"
    by (simp_all add: same GetScid_def GetId_def GetAmount_def GetAsset_def GetNetwork_def GetType_def
        GetClaimAmount_def GetOpeningTXAmount_def GetRequest_def GetProtocolVersion_def
        cong: option.case_cong)
  then show "GetChain d' = GetChain d" "getTimelockPolicy d' = getTimelockPolicy d"
    by (simp_all add: GetChain_def getTimelockPolicy_def)
qed

lemma negotiated_simps [simp]:
  "negotiated (d\<lparr>OpeningTxFee := x1\<rparr>) = negotiated d" "negotiated (d\<lparr>ClaimPreimage := x2\<rparr>) = negotiated d"
  "negotiated (d\<lparr>CancelMsg := x3\<rparr>) = negotiated d" "negotiated (d\<lparr>LastErr := x4\<rparr>) = negotiated d"
  "negotiated (d\<lparr>ClaimPaymentHash := x5\<rparr>) = negotiated d" "negotiated (d\<lparr>FSMState := x6\<rparr>) = negotiated d"
  "negotiated (HandleError err d) = negotiated d" "negotiated (set_next m d) = negotiated d"
  by (simp_all add: negotiated_def HandleError_def set_next_def Let_def split: option.split)

section \<open>Paying the fee invoice\<close>

lemma max_expected_fee_exact:
  assumes "unat fee < 2 ^ 51"
  shows "unat (max_expected_fee fee) = 3 * unat fee"
proof -
  have "f64_round (unat fee) = unat fee" "f64_round (unat fee * 3) = unat fee * 3"
    using assms by simp_all
  then show ?thesis
    using assms by (simp add: max_expected_fee_def unat_word_ariths)
qed

text \<open>C7. The fee invoice of a swap-out is only paid when it is affordable and not inflated: if the
  action pays an invoice at all, it is the one of the agreement over the swap's channel, the node
  decoded it, the channel's spendable balance covered the swap amount plus the fee, the probe of that
  sum succeeded, and the fee in satoshi is at most three times the wallet's own estimate (for
  estimates below \<open>2 ^ 51\<close> satoshi, where the floating point product is exact).\<close>

theorem fee_payment_guarded:
  assumes "Execute sv PayFeeInvoiceAction d w = Some (e, d', w')"
    and "PaidViaChannel p c r \<in> set (new_effects w w')"
  shows "\<exists>a rq hash msat cltv sp reason fee.
    SwapOutAgreement d = Some a \<and> SwapOutRequest d = Some rq \<and> p = soa_Payreq a \<and> c = GetScid d \<and>
    DecodedPayreq p (Inr (hash, msat, cltv)) \<in> set (new_effects w w') \<and>
    Spendable (sor_Scid rq) (Inr sp) \<in> set (new_effects w w') \<and> sor_Amount rq * 1000 + msat \<le> sp \<and>
    Probed (sor_Scid rq) (sor_Amount rq * 1000 + msat) (Inr (True, reason)) \<in> set (new_effects w w') \<and>
    FlatFee (GetChain d) (Inr fee) \<in> set (new_effects w w') \<and> OpeningTxFee d' = msat div 1000 \<and>
    (unat fee < 2 ^ 51 \<longrightarrow> unat (msat div 1000) \<le> 3 * unat fee)"
proof -
  let ?P = "\<lambda>e d' w'. PaidViaChannel p c r \<in> set (new_effects w w') \<longrightarrow> (\<exists>a rq hash msat cltv sp reason fee.
    SwapOutAgreement d = Some a \<and> SwapOutRequest d = Some rq \<and> p = soa_Payreq a \<and> c = GetScid d \<and>
    DecodedPayreq p (Inr (hash, msat, cltv)) \<in> set (new_effects w w') \<and>
    Spendable (sor_Scid rq) (Inr sp) \<in> set (new_effects w w') \<and> sor_Amount rq * 1000 + msat \<le> sp \<and>
    Probed (sor_Scid rq) (sor_Amount rq * 1000 + msat) (Inr (True, reason)) \<in> set (new_effects w w') \<and>
    FlatFee (GetChain d) (Inr fee) \<in> set (new_effects w w') \<and> OpeningTxFee d' = msat div 1000 \<and>
    msat div 1000 \<le> max_expected_fee fee)"
  have fee_data: "OpeningTxFee (HandleError err x) = OpeningTxFee x" for err x
    by (auto simp: HandleError_def Let_def split: option.splits)
  have getters: "GetChain (d\<lparr>OpeningTxFee := x\<rparr>) = GetChain d" "GetScid (d\<lparr>OpeningTxFee := x\<rparr>) = GetScid d" for x
    by (simp_all add: negotiated_getters [of "d\<lparr>OpeningTxFee := x\<rparr>" d])
  have "post ?P (Execute sv PayFeeInvoiceAction d w)"
    by (auto simp: PayFeeInvoiceAction_Execute_def new_effects_def fee_data getters not_less)
  then have "?P e d' w'"
    using assms(1) unfolding post_def by blast
  then show ?thesis
    using assms(2) max_expected_fee_exact by (metis word_le_nat_alt)
qed

theorem fee_payment_guarded_witness:
  "\<exists>e d' w' a fee. Execute demo_services PayFeeInvoiceAction demo_out_data demo_world = Some (e, d', w') \<and>
     PaidViaChannel ''fee'' ''1x2x3'' (Inr ''feepre'') \<in> set (new_effects demo_world w') \<and>
     SwapOutAgreement demo_out_data = Some a \<and>
     FlatFee btc_chain (Inr fee) \<in> set (new_effects demo_world w')"
proof -
  have exact: "max_expected_fee 300 = 900"
    by (simp add: max_expected_fee_def)
  have getters: "GetChain (demo_out_data\<lparr>OpeningTxFee := x\<rparr>) = btc_chain"
    "GetScid (demo_out_data\<lparr>OpeningTxFee := x\<rparr>) = ''1x2x3''" for x
    by (simp_all add: negotiated_getters [of "demo_out_data\<lparr>OpeningTxFee := x\<rparr>" demo_out_data])
  obtain d' w' where run: "Execute demo_services PayFeeInvoiceAction demo_out_data demo_world =
      Some (Event_ActionSucceeded, d', w')"
    "PaidViaChannel ''fee'' ''1x2x3'' (Inr ''feepre'') \<in> set (new_effects demo_world w')"
    by (simp add: PayFeeInvoiceAction_Execute_def ext_def Let_def demo_wallet_def sample_out_request_def
        exact getters new_effects_def)
  show ?thesis
    using fee_payment_guarded [OF run] run by auto
qed

section \<open>Creating the opening transaction\<close>


text \<open>A swap-in over Bitcoin as its sender holds it after the agreement.\<close>

definition demo_in_data :: SwapData where
  "demo_in_data = empty_SwapData\<lparr>
     SwapInRequest := Some \<lparr>sir_ProtocolVersion = 7, sir_SwapId = Some (replicate 32 1), sir_Network = ''regtest'',
       sir_Asset = '''', sir_Scid = ''1x2x3'', sir_Amount = 100000, sir_Pubkey = sample_pubkey,
       sir_PremiumLimit = 500\<rparr>,
     SwapInAgreement := Some \<lparr>sia_ProtocolVersion = 7, sia_SwapId = Some (replicate 32 1),
       sia_Pubkey = sample_pubkey, sia_Premium = 100\<rparr>,
     PeerNodeId := ''peer'', PrivkeyBytes := replicate 32 3\<rparr>"

lemma demo_in_data_simps [simp]:
  "GetChain demo_in_data = btc_chain" "GetId demo_in_data = Some (replicate 32 1)"
  "GetClaimAmount demo_in_data = Some 100000" "GetOpeningTXAmount demo_in_data = Some 100100"
  "OpeningTxBroadcasted demo_in_data = None" "getTimelockPolicy demo_in_data = Inr bitcoin_policy"
  by (simp_all add: demo_in_data_def empty_SwapData_def GetChain_def GetAsset_def GetNetwork_def GetId_def
      GetClaimAmount_def GetOpeningTXAmount_def getTimelockPolicy_def GetProtocolVersion_def timelock_consts)


section \<open>Accepting a request\<close>

definition request_acceptable :: "SwapServices \<Rightarrow> Policy \<Rightarrow> SwapData \<Rightarrow> bool" where
  "request_acceptable sv p d \<longleftrightarrow> NewSwapsAllowed p \<and>
     (GetChain d = l_btc_chain \<longrightarrow> liquidEnabled sv \<and> GetAsset d = wallet_GetAsset (liquidWallet sv)) \<and>
     (GetChain d = btc_chain \<longrightarrow> bitcoinEnabled sv \<and> GetNetwork d = wallet_GetNetwork (bitcoinWallet sv)) \<and>
     GetProtocolVersion d = PEERSWAP_PROTOCOL_VERSION \<and>
     MinSwapAmountMsat p \<le> GetAmount d * 1000 \<and>
     IsPeerAllowed p (PeerNodeId d) \<and> \<not> IsPeerSuspicious p (PeerNodeId d)"

lemma GetChain_set:
  "GetChain d = l_btc_chain \<Longrightarrow> GetAsset d \<noteq> '''' \<and> GetNetwork d = ''''"
  "GetChain d = btc_chain \<Longrightarrow> GetAsset d = '''' \<and> GetNetwork d \<noteq> ''''"
  by (simp_all add: GetChain_def split: if_splits)

lemma HandleError_CancelMsg: "CancelMsg d \<noteq> '''' \<Longrightarrow> CancelMsg (HandleError e d) = CancelMsg d"
  by (auto simp: HandleError_def Let_def split: option.splits)

lemma reject_records:
  assumes "w_requested w = Some m" "reason \<noteq> ''''"
  shows "\<exists>d' w' err. reject sv reason e d w = Some (Event_ActionFailed, d', w') \<and> CancelMsg d' = reason \<and>
    w_trace w' = w_trace w \<and>
    req_Add (sv_bolt sv) (w_clock w) (PeerNodeId d) (rejected_request d reason) (w_requested w) =
      Some (err, w_requested w')"
proof -
  obtain err b where add: "req_Add (sv_bolt sv) (w_clock w) (PeerNodeId d) (rejected_request d reason)
      (w_requested w) = Some (err, b)"
    using assms(1) by (cases "the (req_Add (sv_bolt sv) (w_clock w) (PeerNodeId d)
        (rejected_request d reason) (w_requested w))") (simp add: req_Add_def)
  have same: "rejected_request (d\<lparr>CancelMsg := reason\<rparr>) reason = rejected_request d reason"
    by (simp add: rejected_request_def negotiated_getters [of "d\<lparr>CancelMsg := reason\<rparr>" d])
  then show ?thesis
    using add assms(2) by (simp add: reject_def world_Add_def fail_def HandleError_CancelMsg)
qed

text \<open>C4. A swap request is checked exactly: on a supported chain the wrapped action runs if and only
  if new swaps are allowed, the chain is enabled and matches the wallet's asset or network, the
  protocol version is ours, the amount reaches the policy's minimum, and the peer is allowed and not
  suspicious; otherwise the request fails without any outside effect, the peer is told a reason, and
  exactly that reason is recorded among the rejected requests of the peer.\<close>

theorem request_check_exact:
  assumes "w_requested w = Some m" "GetChain d = btc_chain \<or> GetChain d = l_btc_chain"
  shows "if request_acceptable sv (fst (w_policy w)) d
    then CheckRequestWrapperAction_Execute sv next d w = next d w
    else \<exists>reason d' w' err. CheckRequestWrapperAction_Execute sv next d w = Some (Event_ActionFailed, d', w') \<and>
      CancelMsg d' = reason \<and> reason \<noteq> '''' \<and> w_trace w' = w_trace w \<and>
      req_Add (sv_bolt sv) (w_clock w) (PeerNodeId d) (rejected_request d reason) (w_requested w) =
        Some (err, w_requested w')"
proof (cases "request_acceptable sv (fst (w_policy w)) d")
  case True
  then show ?thesis
    using assms(2) GetChain_set [of d]
    by (cases "GetChain d = btc_chain")
      (simp_all add: CheckRequestWrapperAction_Execute_def request_acceptable_def Let_def
        GetMinSwapAmountMsat_def leD)
next
  case False
  define rejected where "rejected r \<longleftrightarrow> (\<exists>reason e. r = reject sv reason e d w \<and> reason \<noteq> '''')" for r
  have rej: "rejected (reject sv (c # reason) e d w)" for c reason e
    by (auto simp: rejected_def)
  have "rejected (CheckRequestWrapperAction_Execute sv next d w)"
  proof (cases "GetChain d = btc_chain")
    case True
    then show ?thesis
      using False GetChain_set(2) [OF True]
      by (auto simp: CheckRequestWrapperAction_Execute_def request_acceptable_def Let_def rej
          GetMinSwapAmountMsat_def not_le)
  next
    case other: False
    then have "GetChain d = l_btc_chain" using assms(2) by blast
    then show ?thesis
      using False GetChain_set(1) [of d]
      by (auto simp: CheckRequestWrapperAction_Execute_def request_acceptable_def Let_def rej
          GetMinSwapAmountMsat_def not_le)
  qed
  then obtain reason e where "CheckRequestWrapperAction_Execute sv next d w = reject sv reason e d w"
    "reason \<noteq> ''''" unfolding rejected_def by blast
  then show ?thesis
    using False reject_records [OF assms(1), of reason sv e d] by auto
qed

theorem request_check_exact_witness:
  "\<exists>reason d' w' err. CheckRequestWrapperAction_Execute demo_services NoOpAction_Execute
      (demo_out_data\<lparr>SwapOutRequest := Some (sample_out_request\<lparr>sor_Amount := 7\<rparr>)\<rparr>) demo_world =
      Some (Event_ActionFailed, d', w') \<and> CancelMsg d' = reason \<and> reason \<noteq> ''''"
proof -
  let ?d = "demo_out_data\<lparr>SwapOutRequest := Some (sample_out_request\<lparr>sor_Amount := 7\<rparr>)\<rparr>"
  have d: "GetChain ?d = btc_chain" "GetAmount ?d = 7"
    by (simp_all add: GetChain_def GetAsset_def GetNetwork_def GetAmount_def sample_out_request_def)
  have "\<not> request_acceptable demo_services (fst (w_policy demo_world)) ?d"
    by (simp add: request_acceptable_def d demo_world_def sample_policy_def DefaultPolicy_def)
  then show ?thesis
    using request_check_exact [of demo_world Map.empty ?d demo_services NoOpAction_Execute] d by auto
qed

section \<open>Accepting the claim invoice\<close>

text \<open>C8. The taker waits for the opening transaction only under a safe claim invoice: if the action
  registers the transaction, the invoice of the opening message was decoded, its amount is the claim
  amount in millisatoshi, its final CLTV delta is at most half the refund delay on Bitcoin and between
  zero and the policy's limit on Liquid, the current height is inside the payment range, and the
  payment hash of that invoice is the one bound to the swap.\<close>

theorem claim_invoice_checked:
  assumes "Execute sv AwaitTxConfirmationAction d w = Some (e, d', w')"
    and "WaitForConfirmationTx i tx vout start win script \<in> set (new_effects w w')"
    and "getOnChainServices sv (GetChain d) = Inr (watcher, wallet, validator)"
    and "getTimelockPolicy d = Inr policy"
  shows "\<exists>m hash msat cltv amt h. OpeningTxBroadcasted d = Some m \<and> GetClaimAmount d = Some amt \<and>
    DecodedPayreq (otb_Payreq m) (Inr (hash, msat, cltv)) \<in> set (new_effects w w') \<and>
    msat = amt * 1000 \<and> ClaimPaymentHash d' = hash \<and> tx = otb_TxId m \<and> vout = otb_ScriptOut m \<and>
    BlockHeight (GetChain d) (Inr h) \<in> set (new_effects w w') \<and>
    (GetChain d = btc_chain \<longrightarrow> sint cltv \<le> int (unat (GetCSVHeight validator div 2)) \<and>
       StartingBlockHeight d \<noteq> 0 \<and> h < StartingBlockHeight d + GetCSVHeight validator div 2) \<and>
    (GetChain d = l_btc_chain \<longrightarrow> 0 \<le> sint cltv \<and> cltv \<le> InvoiceFinalCLTV policy \<and>
       checkPaymentWindow d h policy = None)"
proof -
  let ?P = "\<lambda>e d' w'. WaitForConfirmationTx i tx vout start win script \<in> set (new_effects w w') \<longrightarrow>
   (\<exists>m hash msat cltv amt h. OpeningTxBroadcasted d = Some m \<and> GetClaimAmount d = Some amt \<and>
    DecodedPayreq (otb_Payreq m) (Inr (hash, msat, cltv)) \<in> set (new_effects w w') \<and>
    claim_invoice_error validator policy d (otb_Payreq m) amt msat cltv = None \<and>
    ClaimPaymentHash d' = hash \<and> tx = otb_TxId m \<and> vout = otb_ScriptOut m \<and>
    BlockHeight (GetChain d) (Inr h) \<in> set (new_effects w w') \<and>
    claim_height_error validator policy (d\<lparr>ClaimPaymentHash := hash\<rparr>) h = None)"
  have getters: "GetChain (d\<lparr>ClaimPaymentHash := x\<rparr>) = GetChain d" "GetId (d\<lparr>ClaimPaymentHash := x\<rparr>) = GetId d" for x
    by (simp_all add: negotiated_getters [of "d\<lparr>ClaimPaymentHash := x\<rparr>" d])
  have "post ?P (Execute sv AwaitTxConfirmationAction d w)"
    using assms(3,4)
    by (auto simp: AwaitTxConfirmationAction_Execute_def recover_legacy_payment_def new_effects_def
        getters ext_eq)
  then have "?P e d' w'" using assms(1) unfolding post_def by blast
  then obtain m hash msat cltv amt h where
    r: "OpeningTxBroadcasted d = Some m" "GetClaimAmount d = Some amt"
      "DecodedPayreq (otb_Payreq m) (Inr (hash, msat, cltv)) \<in> set (new_effects w w')"
      "ClaimPaymentHash d' = hash" "tx = otb_TxId m" "vout = otb_ScriptOut m"
      "BlockHeight (GetChain d) (Inr h) \<in> set (new_effects w w')"
      and inv: "claim_invoice_error validator policy d (otb_Payreq m) amt msat cltv = None"
      and height: "claim_height_error validator policy (d\<lparr>ClaimPaymentHash := hash\<rparr>) h = None"
    using assms(2) by blast
  have "msat = amt * 1000"
    using inv by (auto simp: claim_invoice_error_def validateClaimInvoice_def Let_def split: if_splits)
  moreover have "sint cltv \<le> int (unat (GetCSVHeight validator div 2)) \<and>
       StartingBlockHeight d \<noteq> 0 \<and> h < StartingBlockHeight d + GetCSVHeight validator div 2"
    if "GetChain d = btc_chain"
    using inv height that
    by (auto simp: claim_invoice_error_def claim_height_error_def Let_def getters not_le split: if_splits)
  moreover have "0 \<le> sint cltv \<and> cltv \<le> InvoiceFinalCLTV policy \<and> checkPaymentWindow d h policy = None"
    if "GetChain d = l_btc_chain"
  proof -
    have "0 \<le> sint cltv" "cltv \<le> InvoiceFinalCLTV policy"
      using inv that by (auto simp: claim_invoice_error_def validateClaimInvoice_def Let_def not_less split: if_splits)
    moreover have "checkPaymentWindow d h policy = None"
      using height that by (simp add: claim_height_error_def getters checkPaymentWindow_iff)
    ultimately show ?thesis by blast
  qed
  ultimately show ?thesis using r by blast
qed

theorem claim_invoice_checked_witness:
  "\<exists>e d' w' m. Execute demo_services AwaitTxConfirmationAction demo_out_data demo_world = Some (e, d', w') \<and>
     OpeningTxBroadcasted demo_out_data = Some m \<and> ClaimPaymentHash d' = ''hash'' \<and>
     DecodedPayreq ''claim'' (Inr (''hash'', 100000000, 20)) \<in> set (new_effects demo_world w')"
proof -
  have getters: "GetChain (demo_out_data\<lparr>ClaimPaymentHash := x\<rparr>) = btc_chain"
    "GetId (demo_out_data\<lparr>ClaimPaymentHash := x\<rparr>) = Some (replicate 32 1)" for x
    by (simp_all add: negotiated_getters [of "demo_out_data\<lparr>ClaimPaymentHash := x\<rparr>" demo_out_data])
  have amt: "GetOpeningTXAmount (demo_out_data\<lparr>ClaimPaymentHash := x\<rparr>) = Some 100000" for x
    by (simp add: negotiated_getters [of "demo_out_data\<lparr>ClaimPaymentHash := x\<rparr>" demo_out_data])
  have sint20: "sint (20 :: 64 word) = 20" by simp
  obtain d' w' start win script where run: "Execute demo_services AwaitTxConfirmationAction demo_out_data demo_world =
      Some (NoOp, d', w')"
    "WaitForConfirmationTx (SwapId_String (Some (replicate 32 1))) (otb_TxId demo_opening) 1 start win script
       \<in> set (new_effects demo_world w')"
    "ClaimPaymentHash d' = ''hash''"
    "DecodedPayreq ''claim'' (Inr (''hash'', 100000000, 20)) \<in> set (new_effects demo_world w')"
    by (auto simp: AwaitTxConfirmationAction_Execute_def bitcoin_policy_def ext_def Let_def
        claim_invoice_error_def claim_height_error_def getters GetOpeningParams_def amt demo_wallet_def
        new_effects_def)
  show ?thesis
    using claim_invoice_checked [OF run(1,2) _ demo_out_policy] run by auto
qed

end
