(* ===== verification/PS_Protocol.thy ===== *)
theory PS_Protocol
  imports PS_FSM PS_Effects
begin

text \<open>
  Properties of whole runs of the state machines: the machine always stops, it reports \<open>done\<close>
  exactly in final states and stays there, and the states in which funds are at stake are never left
  in the wrong direction.  \<open>driven\<close> is the reachability relation of a machine under any sequence of
  events, restarts and changes of the rest of the program.
\<close>

section \<open>Termination and configuration\<close>

lemma States_of_cases:
  "States_of sm = getSwapInSenderStates \<or> States_of sm = getSwapInReceiverStates \<or>
   States_of sm = getSwapOutSenderStates \<or> States_of sm = getSwapOutReceiverStates \<or> States_of sm = []"
  by (auto simp: States_of_def split: SwapType.split SwapRole.split)

text \<open>C1. Event processing always ends: for every machine, event, context, environment and world,
  \<open>SendEvent\<close> and \<open>Recover\<close> return or panic within the fuel of the model; the transitions that
  actions trigger cannot cycle, and the retries of a claim are bounded by the retry counter.\<close>

theorem event_processing_terminates:
  "SendEvent sv event ctx sm w \<noteq> OutOfFuel \<and> Recover sv sm w \<noteq> OutOfFuel"
  using States_of_cases [of sm] in_sender.SendEvent_halts in_receiver.SendEvent_halts
    out_sender.SendEvent_halts out_receiver.SendEvent_halts no_table.SendEvent_halts
    in_sender.Recover_halts in_receiver.Recover_halts out_sender.Recover_halts
    out_receiver.Recover_halts no_table.Recover_halts
  by metis

text \<open>The tables are complete: an event is valid in the sense of \<open>EventIsValid\<close> exactly when the
  current state has a transition for it, so the error \<open>ErrFsmConfig\<close> for a missing state or action
  never arises.\<close>

theorem transitions_never_misconfigured:
  "EventIsValid sm event \<longleftrightarrow> (\<exists>s. getNextState sm event = Inr s)"
proof -
  have "EventIsValid sm event" if s: "getNextState sm event = Inr s" for s
  proof -
    obtain st where "map_of (States_of sm) (sm_Current sm) = Some st" "map_of (st_Events st) event = Some s"
      using s by (auto simp: getNextState_def split: option.splits)
    then have "\<exists>st' a. map_of (States_of sm) s = Some st' \<and> st_Action st' = Some a"
      using States_of_cases [of sm] in_sender.next_has_action in_receiver.next_has_action
        out_sender.next_has_action out_receiver.next_has_action by (metis map_of.simps(1) option.distinct(1))
    then show ?thesis
      using s by (auto simp: EventIsValid_def)
  qed
  then show ?thesis
    by (auto simp: EventIsValid_def split: sum.splits)
qed

text \<open>The pairs of a state and an event returned by its action that the state does not handle.\<close>

definition unhandled :: "States \<Rightarrow> (StateType \<times> EventType) list" where
  "unhandled sts = concat (map (\<lambda>(s, st). case st_Action st of None \<Rightarrow> []
     | Some a \<Rightarrow> map (Pair s) (filter (\<lambda>e. e \<noteq> NoOp \<and> e \<noteq> Event_Done \<and> map_of (st_Events st) e = None)
         (action_events a))) sts)"

text \<open>Where an action can fail without a transition for the failure: exactly when the maker waits
  for the claim payment or the refund, and when the taker claims with the preimage.  There
  \<open>SendEvent\<close> answers \<open>ErrEventRejected\<close> and the machine stays in that state.\<close>

theorem unhandled_action_results:
  "unhandled getSwapInSenderStates =
     [(State_SwapInSender_AwaitClaimPayment, Event_ActionFailed), (State_WaitCsv, Event_ActionFailed)] \<and>
   unhandled getSwapOutReceiverStates =
     [(State_SwapOutReceiver_AwaitClaimInvoicePayment, Event_ActionFailed), (State_WaitCsv, Event_ActionFailed)] \<and>
   unhandled getSwapInReceiverStates = [(State_SwapInReceiver_ClaimSwap, Event_ActionFailed)] \<and>
   unhandled getSwapOutSenderStates = [(State_SwapOutSender_ClaimSwap, Event_ActionFailed)]"
  by code_simp

section \<open>Rules for the loop\<close>

lemma fsm_round_Halt:
  assumes "fsm_round sv event sm w = Halt r sm' w'"
  shows "(\<nexists>s. getNextState sm event = Inr s) \<and> r = (False, Some ErrEventRejected) \<and> sm' = sm \<and> w' = w \<or>
    r = (False, Some ErrFsmConfig) \<and> sm' = sm \<and> w' = w \<or>
    (\<exists>s st a e d w1. getNextState sm event = Inr s \<and> map_of (States_of sm) s = Some st \<and>
      st_Action st = Some a \<and>
      Execute sv a (SetState s (sm_Data sm)) (logSwapInfo sv (enter_state s sm) w) = Some (e, d, w1) \<and>
      after_action sv e ((enter_state s sm)\<lparr>sm_Data := d\<rparr>) w1 = Halt r sm' w')"
  using assms by (fastforce simp: fsm_round_def Let_def split: sum.splits option.splits prod.splits)

lemma fsm_loop_rule:
  assumes "fsm_loop sv n event sm w = Ret (r, sm', w')" "J event sm w"
    and halt: "\<And>event sm w r sm' w'. J event sm w \<Longrightarrow> fsm_round sv event sm w = Halt r sm' w' \<Longrightarrow> K r sm' w'"
    and continue: "\<And>event sm w e sm' w'. J event sm w \<Longrightarrow> fsm_round sv event sm w = Continue e sm' w' \<Longrightarrow> J e sm' w'"
  shows "K r sm' w'"
  using assms(1,2)
proof (induction n arbitrary: event sm w)
  case (Suc n)
  then show ?case
    using halt continue by (cases "fsm_round sv event sm w") fastforce+
qed simp

lemma store_and_run_rule:
  assumes "store_and_run sv event sm w = Ret (r, sm', w')"
  obtains (stored) w1 where "world_UpdateData sv sm w = (None, w1)" "fsm_loop sv fsm_fuel event sm w1 = Ret (r, sm', w')"
  | (unstored) e where "world_UpdateData sv sm w = (Some e, w')" "r = (False, Some e)" "sm' = sm"
  using assms by (auto simp: store_and_run_def split: prod.splits option.splits)

text \<open>A call of \<open>SendEvent\<close> returns at once, or runs the machine on the event or on the one for an
  invalid message, with data that differs at most by the message.\<close>

lemma SendEvent_cases:
  assumes "SendEvent sv event ctx sm w = Ret (r, sm', w')"
  shows "w' = w \<and> (\<exists>d. sm' = sm\<lparr>sm_Data := d\<rparr>) \<and> (event = Event_Done \<or> snd r \<noteq> None) \<or>
    (\<exists>d e. (e = event \<or> e = Event_OnInvalid_Message) \<and>
       store_and_run sv e (sm\<lparr>sm_Data := d\<rparr>) w = Ret (r, sm', w'))"
proof -
  have same: "sm\<lparr>sm_Data := sm_Data sm\<rparr> = sm" by simp
  show ?thesis
    using assms same
    by (auto simp: SendEvent_def split: if_splits option.splits prod.splits)
      (metis same)+
qed

lemma logSwapInfo_adds: "adds (\<lambda>t. \<forall>a. may_do a t) w (logSwapInfo sv sm w)"
  by (auto simp: logSwapInfo_def ext_def Let_def intro: adds_emitI split: option.split)

lemma after_action_adds:
  "after_action sv e sm w = Continue e' sm' w' \<Longrightarrow> adds (\<lambda>t. \<forall>a. may_do a t) w w'"
  "after_action sv e sm w = Halt r sm' w' \<Longrightarrow> adds (\<lambda>t. \<forall>a. may_do a t) w w'"
proof -
  have store: "adds ok w w1" if "world_UpdateData sv x w = (err, w1)" for ok x err w1
    using world_UpdateData_frame [OF that] by (intro adds_same) blast
  show "after_action sv e sm w = Continue e' sm' w' \<Longrightarrow> adds (\<lambda>t. \<forall>a. may_do a t) w w'"
    "after_action sv e sm w = Halt r sm' w' \<Longrightarrow> adds (\<lambda>t. \<forall>a. may_do a t) w w'"
    using store
    by (auto simp: after_action_def exponentialBackoffAndJitter_def Let_def intro!: adds_emitI
        split: prod.splits option.splits if_splits)
qed

section \<open>Closed sets of states\<close>

text \<open>The events that actions return and that keep the machine running.\<close>

definition internal_event :: "EventType \<Rightarrow> bool" where
  "internal_event e \<longleftrightarrow> e \<in> {Event_ActionSucceeded, Event_ActionFailed, Event_OnRetry, Event_OnTxConfirmed}"

lemma action_events_internal:
  "e \<in> set (action_events a) \<Longrightarrow> e \<noteq> NoOp \<Longrightarrow> e \<noteq> Event_Done \<Longrightarrow> internal_event e"
  by (induction a) (auto simp: internal_event_def)

text \<open>The effects allowed in a set \<open>S\<close> of states of a table.\<close>

definition effects_in :: "States \<Rightarrow> (StateType \<Rightarrow> bool) \<Rightarrow> effect \<Rightarrow> bool" where
  "effects_in sts S t \<longleftrightarrow> list_ex (\<lambda>(s, st). S s \<and> (case st_Action st of None \<Rightarrow> False
     | Some a \<Rightarrow> may_do (inner_action a) t)) sts \<or> (\<forall>a. may_do a t)"

lemma effects_inI:
  "map_of sts s = Some st \<Longrightarrow> S s \<Longrightarrow> st_Action st = Some a \<Longrightarrow> may_do (inner_action a) t \<Longrightarrow> effects_in sts S t"
  by (fastforce simp: effects_in_def list_ex_iff dest: map_of_SomeD)

lemma table_closedD:
  "table_closed S X sts \<Longrightarrow> map_of sts s = Some st \<Longrightarrow> S s \<Longrightarrow> map_of (st_Events st) e = Some s' \<Longrightarrow> \<not> X e \<Longrightarrow> S s'"
  by (fastforce simp: table_closed_def list_all_iff dest: map_of_SomeD)

lemma entered_state_effects:
  assumes "Execute sv a d (logSwapInfo sv sm w) = Some (e, d', w1)" "map_of sts s = Some st" "S s" "st_Action st = Some a"
  shows "adds (effects_in sts S) w w1"
proof -
  have "adds (effects_in sts S) w (logSwapInfo sv sm w)"
    using logSwapInfo_adds by (rule adds_weaken) (simp add: effects_in_def)
  moreover have "adds (effects_in sts S) (logSwapInfo sv sm w) w1"
    using Execute_adds [OF assms(1)] by (rule adds_weaken) (rule effects_inI [where S = S, OF assms(2-4)])
  ultimately show ?thesis by (rule adds_trans)
qed

lemma closed_loop:
  assumes closed: "table_closed S X sts" "\<And>e. X e \<Longrightarrow> \<not> internal_event e"
    and run: "fsm_loop sv n event sm w = Ret (r, sm', w')"
    and start: "States_of sm = sts" "S (sm_Current sm)" "\<not> X event"
  shows "S (sm_Current sm') \<and> States_of sm' = sts \<and> adds (effects_in sts S) w w'"
proof (rule fsm_loop_rule [OF run, where J = "\<lambda>event sm1 w1. States_of sm1 = sts \<and> S (sm_Current sm1) \<and>
    \<not> X event \<and> adds (effects_in sts S) w w1"])
  show "States_of sm = sts \<and> S (sm_Current sm) \<and> \<not> X event \<and> adds (effects_in sts S) w w"
    using start by simp
next
  fix event1 sm1 w1 r2 sm2 w2
  assume J: "States_of sm1 = sts \<and> S (sm_Current sm1) \<and> \<not> X event1 \<and> adds (effects_in sts S) w w1"
    and "fsm_round sv event1 sm1 w1 = Halt r2 sm2 w2"
  then consider "sm2 = sm1" "w2 = w1"
    | s st a e d w3 where "getNextState sm1 event1 = Inr s" "map_of sts s = Some st" "st_Action st = Some a"
      "Execute sv a (SetState s (sm_Data sm1)) (logSwapInfo sv (enter_state s sm1) w1) = Some (e, d, w3)"
      "after_action sv e ((enter_state s sm1)\<lparr>sm_Data := d\<rparr>) w3 = Halt r2 sm2 w2"
    using fsm_round_Halt [of sv event1 sm1 w1 r2 sm2 w2] by fastforce
  then show "S (sm_Current sm2) \<and> States_of sm2 = sts \<and> adds (effects_in sts S) w w2"
  proof cases
    case 2
    have S: "S s"
      using J 2(1) closed(1) by (auto simp: getNextState_def split: option.splits intro: table_closedD)
    have sm2: "sm2 = (enter_state s sm1)\<lparr>sm_Data := d, sm_retries := sm_retries sm2\<rparr>"
      using after_action_Halt [OF 2(5)] by simp
    have "adds (effects_in sts S) w3 w2"
      using after_action_adds(2) [OF 2(5)] by (rule adds_weaken) (simp add: effects_in_def)
    then have "adds (effects_in sts S) w w2"
      using J entered_state_effects [where S = S, OF 2(4,2) S 2(3)] by (meson adds_trans)
    moreover have "sm_Current sm2 = s" "States_of sm2 = sts"
      using J by (subst sm2, simp)+
    ultimately show ?thesis using S by simp
  qed (use J in simp)
next
  fix event1 sm1 w1 e sm2 w2
  assume J: "States_of sm1 = sts \<and> S (sm_Current sm1) \<and> \<not> X event1 \<and> adds (effects_in sts S) w w1"
    and "fsm_round sv event1 sm1 w1 = Continue e sm2 w2"
  then obtain s st a d w3 where c: "getNextState sm1 event1 = Inr s" "map_of sts s = Some st" "st_Action st = Some a"
      "Execute sv a (SetState s (sm_Data sm1)) (logSwapInfo sv (enter_state s sm1) w1) = Some (e, d, w3)"
      "after_action sv e ((enter_state s sm1)\<lparr>sm_Data := d\<rparr>) w3 = Continue e sm2 w2"
    using fsm_round_Continue [of sv event1 sm1 w1 e sm2 w2] by auto
  have S: "S s"
    using J c(1) closed(1) by (auto simp: getNextState_def split: option.splits intro: table_closedD)
  note after = after_action_Continue [OF c(5)]
  have sm2: "sm2 = (enter_state s sm1)\<lparr>sm_Data := d, sm_retries := sm_retries sm2\<rparr>"
    using after by simp
  have "internal_event e"
    using action_events_internal [OF Execute_events [OF c(4)]] after by blast
  moreover have "adds (effects_in sts S) w3 w2"
    using after_action_adds(1) [OF c(5)] by (rule adds_weaken) (simp add: effects_in_def)
  then have "adds (effects_in sts S) w w2"
    using J entered_state_effects [where S = S, OF c(4,2) S c(3)] by (meson adds_trans)
  moreover have "sm_Current sm2 = s" "States_of sm2 = sts"
    using J by (subst sm2, simp)+
  ultimately show "States_of sm2 = sts \<and> S (sm_Current sm2) \<and> \<not> X e \<and> adds (effects_in sts S) w w2"
    using S closed(2) by auto
qed

lemma closed_SendEvent:
  assumes closed: "table_closed S X sts" "\<And>e. X e \<Longrightarrow> \<not> internal_event e" "\<not> X Event_OnInvalid_Message"
    and run: "SendEvent sv event ctx sm w = Ret (r, sm', w')"
    and start: "States_of sm = sts" "S (sm_Current sm)" "\<not> X event"
  shows "S (sm_Current sm') \<and> States_of sm' = sts \<and> adds (effects_in sts S) w w'"
  using SendEvent_cases [OF run]
proof
  assume "w' = w \<and> (\<exists>d. sm' = sm\<lparr>sm_Data := d\<rparr>) \<and> (event = Event_Done \<or> snd r \<noteq> None)"
  then show ?thesis using start by auto
next
  assume "\<exists>d e. (e = event \<or> e = Event_OnInvalid_Message) \<and>
       store_and_run sv e (sm\<lparr>sm_Data := d\<rparr>) w = Ret (r, sm', w')"
  then obtain d e where e: "e = event \<or> e = Event_OnInvalid_Message"
    and run': "store_and_run sv e (sm\<lparr>sm_Data := d\<rparr>) w = Ret (r, sm', w')" by blast
  from run' show ?thesis
  proof (cases rule: store_and_run_rule)
    case (stored w1)
    have "\<not> X e" using e start closed(3) by blast
    then have "S (sm_Current sm') \<and> States_of sm' = sts \<and> adds (effects_in sts S) w1 w'"
      using closed_loop [OF closed(1,2) stored(2)] start by simp
    moreover have "adds (effects_in sts S) w w1"
      using world_UpdateData_frame [OF stored(1)] by (intro adds_same) blast
    ultimately show ?thesis by (meson adds_trans)
  next
    case (unstored err)
    then show ?thesis
      using start world_UpdateData_frame [of sv "sm\<lparr>sm_Data := d\<rparr>" w "Some err" w'] by (auto intro: adds_same)
  qed
qed

lemma closed_Recover:
  assumes closed: "table_closed S X sts" "\<And>e. X e \<Longrightarrow> \<not> internal_event e" "\<not> X Event_OnInvalid_Message"
    and run: "Recover sv sm w = Ret (r, sm', w')"
    and start: "States_of sm = sts" "S (sm_Current sm)"
  shows "S (sm_Current sm') \<and> States_of sm' = sts \<and> adds (effects_in sts S) w w'"
proof -
  have send: "S (sm_Current sm') \<and> States_of sm' = sts \<and> adds (effects_in sts S) w1 w'"
    if "SendEvent sv e None sm1 w1 = Ret (r, sm', w')" "sm1 = sm\<lparr>sm_Data := d\<rparr>" "internal_event e \<or> e = Event_Done" for e sm1 w1 d
  proof (cases "e = Event_Done")
    case True
    then show ?thesis using that start by (auto simp: SendEvent_def)
  next
    case False
    then have "\<not> X e" using that(3) closed(2) by blast
    then show ?thesis using closed_SendEvent [OF closed that(1)] that(2) start by simp
  qed
  have same: "sm = sm\<lparr>sm_Data := sm_Data sm\<rparr>" by simp
  show ?thesis
  proof (cases "map_of sts (sm_Current sm)")
    case None
    then show ?thesis using run start by (auto simp: Recover_def)
  next
    case (Some st)
    show ?thesis
    proof (cases "st_Action st")
      case None
      then show ?thesis using run start Some by (auto simp: Recover_def)
    next
      case a: (Some a)
      show ?thesis
      proof (cases "FailOnrecover st")
        case True
        then have "SendEvent sv Event_ActionFailed None sm w = Ret (r, sm', w')"
          using run start Some a by (simp add: Recover_def)
        from send [OF this same] show ?thesis by (simp add: internal_event_def)
      next
        case False
        then obtain e d w1 where ex: "Execute sv a (sm_Data sm) w = Some (e, d, w1)"
          using run start Some a by (auto simp: Recover_def split: option.splits)
        obtain err w2 where upd: "world_UpdateData sv (sm\<lparr>sm_Data := d\<rparr>) w1 = (err, w2)"
          by (cases "world_UpdateData sv (sm\<lparr>sm_Data := d\<rparr>) w1")
        have "adds (effects_in sts S) w w1"
          using Execute_adds [OF ex] by (rule adds_weaken) (rule effects_inI [where S = S, OF Some start(2) a])
        moreover have "adds (effects_in sts S) w1 w2"
          using world_UpdateData_frame [OF upd] by (intro adds_same) blast
        ultimately have w2: "adds (effects_in sts S) w w2" by (rule adds_trans)
        have "r = (False, err) \<and> sm' = sm\<lparr>sm_Data := d\<rparr> \<and> w' = w2 \<or>
            e \<noteq> NoOp \<and> SendEvent sv e None (sm\<lparr>sm_Data := d\<rparr>) w2 = Ret (r, sm', w')"
          using run start Some a False ex upd by (auto simp: Recover_def Let_def split: option.splits if_splits)
        then show ?thesis
        proof
          assume cont: "e \<noteq> NoOp \<and> SendEvent sv e None (sm\<lparr>sm_Data := d\<rparr>) w2 = Ret (r, sm', w')"
          then have "internal_event e \<or> e = Event_Done"
            using action_events_internal [OF Execute_events [OF ex]] by blast
          then have "S (sm_Current sm') \<and> States_of sm' = sts \<and> adds (effects_in sts S) w2 w'"
            using send [OF conjunct2 [OF cont] refl] by blast
          then show ?thesis
            using w2 by (meson adds_trans)
        qed (use start w2 in simp)
      qed
    qed
  qed
qed

section \<open>Runs of a machine\<close>

text \<open>
  The machines that can follow from \<open>sm\<close>: any allowed event with any context in any world (the rest
  of the program may change the world between two events), a restart of the daemon, which reloads
  the persisted machine and recovers it, and the direct writes of the service to the opening
  transaction, the last error and the timeout handle.
\<close>

inductive driven :: "SwapServices \<Rightarrow> (EventType \<Rightarrow> bool) \<Rightarrow> SwapStateMachine \<Rightarrow> SwapStateMachine \<Rightarrow> bool"
  for sv allowed sm0 where
  driven_start: "driven sv allowed sm0 sm0"
| driven_event: "driven sv allowed sm0 sm \<Longrightarrow> allowed event \<Longrightarrow>
    SendEvent sv event ctx sm w = Ret (r, sm', w') \<Longrightarrow> driven sv allowed sm0 sm'"
| driven_restart: "driven sv allowed sm0 sm \<Longrightarrow> Recover sv (persisted sm) w = Ret (r, sm', w') \<Longrightarrow>
    driven sv allowed sm0 sm'"
| driven_write: "driven sv allowed sm0 sm \<Longrightarrow>
    driven sv allowed sm0 (sm\<lparr>sm_Data := (sm_Data sm)\<lparr>OpeningTxHex := tx, LastErr := e, toCancelSet := b\<rparr>\<rparr>)"

lemma persisted_simps [simp]:
  "sm_Current (persisted sm) = sm_Current sm" "States_of (persisted sm) = States_of sm"
  by (simp_all add: persisted_def States_of_def)

lemma closed_driven:
  assumes "table_closed S X sts" "\<And>e. X e \<Longrightarrow> \<not> internal_event e" "\<not> X Event_OnInvalid_Message"
    and "driven sv (\<lambda>e. \<not> X e) sm sm'" "States_of sm = sts" "S (sm_Current sm)"
  shows "S (sm_Current sm') \<and> States_of sm' = sts"
  using assms(4)
proof induction
  case (driven_event sm1 event ctx w r sm2 w')
  then show ?case using closed_SendEvent [OF assms(1-3) driven_event.hyps(3)] by blast
next
  case (driven_restart sm1 w r sm2 w')
  then show ?case using closed_Recover [OF assms(1-3) driven_restart.hyps(2)] by simp
qed (use assms in simp_all)

lemma States_of_roles [simp]:
  "sm_Type sm = SWAPTYPE_IN \<Longrightarrow> sm_Role sm = SWAPROLE_SENDER \<Longrightarrow> States_of sm = getSwapInSenderStates"
  "sm_Type sm = SWAPTYPE_IN \<Longrightarrow> sm_Role sm = SWAPROLE_RECEIVER \<Longrightarrow> States_of sm = getSwapInReceiverStates"
  "sm_Type sm = SWAPTYPE_OUT \<Longrightarrow> sm_Role sm = SWAPROLE_SENDER \<Longrightarrow> States_of sm = getSwapOutSenderStates"
  "sm_Type sm = SWAPTYPE_OUT \<Longrightarrow> sm_Role sm = SWAPROLE_RECEIVER \<Longrightarrow> States_of sm = getSwapOutReceiverStates"
  by (simp_all add: States_of_def)

section \<open>The maker never abandons a funded swap\<close>

text \<open>The states of the maker after the opening transaction was recorded.\<close>

definition maker_funded :: "StateType \<Rightarrow> bool" where
  "maker_funded s \<longleftrightarrow> s \<in> {State_SwapInSender_SendTxBroadcastedMessage, State_SwapInSender_AwaitClaimPayment,
     State_SwapInSender_ClaimSwapCsv, State_SwapInSender_ClaimSwapCoop,
     State_SwapOutReceiver_SendTxBroadcastedMessage, State_SwapOutReceiver_AwaitClaimInvoicePayment,
     State_SwapOutReceiver_ClaimSwapCsv, State_SwapOutReceiver_ClaimSwapCoop,
     State_WaitCsv, State_ClaimedCsv, State_ClaimedCoop, State_ClaimedPreimage}"

definition is_maker :: "SwapStateMachine \<Rightarrow> bool" where
  "is_maker sm \<longleftrightarrow> sm_Type sm = SWAPTYPE_IN \<and> sm_Role sm = SWAPROLE_SENDER \<or>
     sm_Type sm = SWAPTYPE_OUT \<and> sm_Role sm = SWAPROLE_RECEIVER"

lemma maker_tables_closed:
  "table_closed maker_funded (\<lambda>_. False) getSwapInSenderStates"
  "table_closed maker_funded (\<lambda>_. False) getSwapOutReceiverStates"
  by (code_simp)+

text \<open>C2. A maker that has funded a swap keeps pursuing its money: from any state after the opening
  transaction was recorded, whatever events and messages arrive in whatever order and however often
  the daemon restarts, the machine is never cancelled; it stays in the states that wait for the
  claim payment or the refund delay, claim the output, or have ended with the money claimed.\<close>

theorem funded_maker_never_cancels:
  assumes "is_maker sm" "maker_funded (sm_Current sm)" "driven sv (\<lambda>_. True) sm sm'"
  shows "maker_funded (sm_Current sm') \<and> sm_Current sm' \<noteq> State_SwapCanceled \<and> sm_Current sm' \<noteq> State_SendCancel"
proof -
  have "States_of sm = getSwapInSenderStates \<or> States_of sm = getSwapOutReceiverStates"
    using assms(1) by (auto simp: is_maker_def)
  then have "maker_funded (sm_Current sm')"
    using closed_driven [OF maker_tables_closed(1), of sv sm sm'] assms(2,3)
      closed_driven [OF maker_tables_closed(2), of sv sm sm'] by auto
  then show ?thesis by (auto simp: maker_funded_def)
qed

text \<open>A machine to run the theorems on: a sender of a swap-out about to claim.\<close>

definition demo_sm :: "SwapType \<Rightarrow> SwapRole \<Rightarrow> StateType \<Rightarrow> SwapStateMachine" where
  "demo_sm ty role st = \<lparr>sm_SwapId = Some (replicate 32 1), sm_Data = demo_out_data, sm_Type = ty,
     sm_Role = role, sm_Previous = Default, sm_Current = st, sm_retries = 0\<rparr>"

lemma demo_sm_simps [simp]:
  "sm_SwapId (demo_sm ty role st) = Some (replicate 32 1)" "sm_Data (demo_sm ty role st) = demo_out_data"
  "sm_Type (demo_sm ty role st) = ty" "sm_Role (demo_sm ty role st) = role"
  "sm_Current (demo_sm ty role st) = st" "sm_retries (demo_sm ty role st) = 0"
  by (simp_all add: demo_sm_def)

theorem funded_maker_never_cancels_witness:
  "maker_funded (sm_Current (demo_sm SWAPTYPE_OUT SWAPROLE_RECEIVER State_WaitCsv))"
  using funded_maker_never_cancels [OF _ _ driven_start, of "demo_sm SWAPTYPE_OUT SWAPROLE_RECEIVER State_WaitCsv"]
  by (simp add: is_maker_def maker_funded_def)

section \<open>The taker never gives away a paid swap\<close>

text \<open>The states of the taker after the claim invoice was paid.\<close>

definition taker_paid :: "StateType \<Rightarrow> bool" where
  "taker_paid s \<longleftrightarrow> s \<in> {State_SwapInReceiver_ClaimSwap, State_SwapOutSender_ClaimSwap, State_ClaimedPreimage}"

definition is_timeout :: "EventType \<Rightarrow> bool" where
  "is_timeout e \<longleftrightarrow> e = Event_OnTimeout"

definition is_send :: "effect \<Rightarrow> bool" where
  "is_send t \<longleftrightarrow> (case t of SentMessage _ _ _ _ \<Rightarrow> True | _ \<Rightarrow> False)"

lemma taker_tables_closed:
  "table_closed taker_paid (\<lambda>_. False) getSwapInReceiverStates"
  "table_closed taker_paid is_timeout getSwapOutSenderStates"
  by (code_simp)+

lemma taker_paid_no_send:
  "effects_in getSwapInReceiverStates taker_paid t \<Longrightarrow> \<not> is_send t"
  "effects_in getSwapOutSenderStates taker_paid t \<Longrightarrow> \<not> is_send t"
proof -
  have "\<not> (\<forall>a. may_do a (SentMessage p m i e))" for p m i e
    by (auto intro: exI [of _ NoOpAction])
  then show "effects_in getSwapInReceiverStates taker_paid t \<Longrightarrow> \<not> is_send t"
    "effects_in getSwapOutSenderStates taker_paid t \<Longrightarrow> \<not> is_send t"
    by (cases t; simp add: effects_in_def table_defs taker_paid_def is_send_def)+
qed

lemma adds_new: "adds ok w w' \<Longrightarrow> t \<in> set (new_effects w w') \<Longrightarrow> ok t"
  by (auto simp: adds_def new_effects_def list_all_iff)



section \<open>Computing runs\<close>

lemma fsm_loop_numeral:
  "fsm_loop sv (numeral k) event sm w = (case fsm_round sv event sm w of
     Halt r sm w \<Rightarrow> Ret (r, sm, w)
   | Continue event sm w \<Rightarrow> fsm_loop sv (pred_numeral k) event sm w
   | Panicked \<Rightarrow> Panic)"
  by (simp add: numeral_eq_Suc)

lemma UpdateData_bolt_ok:
  "UpdateData bolt_ok t sm (Some m) = (None, Some (m(sm_key sm \<mapsto> persisted sm)))"
  by (cases "m (sm_key sm)")
    (simp_all add: UpdateData_def Update_def Create_def idExists_def GetById_def db_View_def
      put_swap_def db_Update_def bucket_Put_def sm_key_def)

lemma world_UpdateData_ok:
  assumes "sv_bolt sv = bolt_ok" "w_store w = Some m"
  shows "world_UpdateData sv sm w = (None, tick 4 (w\<lparr>w_store := Some (m(sm_key sm \<mapsto> persisted sm))\<rparr>))"
  using assms by (simp add: world_UpdateData_def UpdateData_bolt_ok)

lemma out_sender_lookups:
  "map_of getSwapOutSenderStates State_SwapOutSender_ClaimSwap = Some (state (Some ClaimSwapTransactionWithPreimageAction)
      [(Event_ActionSucceeded, State_ClaimedPreimage), (Event_OnRetry, State_SwapOutSender_ClaimSwap),
       (Event_OnTimeout, State_SwapOutSender_SendPrivkey)])"
  "map_of getSwapOutSenderStates State_SwapOutSender_SendPrivkey = Some (state (Some TakerSendPrivkeyAction)
      [(Event_ActionFailed, State_SendCancel), (Event_ActionSucceeded, State_SwapOutSender_SendCoopClose)])"
  "map_of getSwapOutSenderStates State_SwapOutSender_SendCoopClose = Some (state (Some SendMessageAction)
      [(Event_ActionFailed, State_SendCancel), (Event_ActionSucceeded, State_ClaimedCoop)])"
  "map_of getSwapOutSenderStates State_ClaimedCoop = Some (state (Some NoOpDoneAction) [])"
  "map_of getSwapOutSenderStates State_ClaimedPreimage = Some (state (Some NoOpDoneAction) [])"
  by (simp_all add: getSwapOutSenderStates_def)

lemma GetId_frame [simp]: "GetId (SetState s d) = GetId d" "GetId (set_next m d) = GetId d"
  "PeerNodeId (SetState s d) = PeerNodeId d" "PeerNodeId (set_next m d) = PeerNodeId d"
  "CancelMsg (SetState s d) = CancelMsg d" "PrivkeyBytes (SetState s d) = PrivkeyBytes d"
  "NextMessage (SetState s d) = NextMessage d" "NextMessageType (SetState s d) = NextMessageType d"
  by (simp_all add: negotiated_getters [of "d\<lparr>FSMState := s\<rparr>" d] negotiated_getters [of "set_next m d" d]
      SetState_def set_next_def negotiated_def GetId_def cong: option.case_cong)

lemma set_next_message [simp]:
  "NextMessage (set_next m d) = Some m" "NextMessageType (set_next m d) = PeerMessage_MessageType m"
  by (simp_all add: set_next_def MarshalPeerswapMessage_def)

text \<open>C11. The timeout that is started when a swap-out is requested is still armed after the claim
  invoice was paid: if it fires while the sender retries its claim, the sender sends the peer a
  cooperative close message with its private key and ends the swap as claimed cooperatively, although
  it has paid.\<close>

theorem timeout_while_claiming_reveals_key:
  assumes "sm_Type sm = SWAPTYPE_OUT" "sm_Role sm = SWAPROLE_SENDER"
    and "sm_Current sm = State_SwapOutSender_ClaimSwap"
    and "sv_bolt sv = bolt_ok" "w_store w = Some m" "\<And>t p m i. messenger_Send sv t p m i = None"
    and "w_manager w (SwapId_String (GetId (sm_Data sm))) = None"
  shows "\<exists>sm' w'. SendEvent sv Event_OnTimeout None sm w = Ret ((True, None), sm', w') \<and>
    sm_Current sm' = State_ClaimedCoop \<and>
    SentMessage (PeerNodeId (sm_Data sm)) (MsgCoopClose \<lparr>cc_SwapId = GetId (sm_Data sm),
      cc_Message = CancelMsg (sm_Data sm), cc_Privkey = hex_EncodeToString (PrivkeyBytes (sm_Data sm))\<rparr>)
      MESSAGETYPE_COOPCLOSE None \<in> set (new_effects w w')"
  using assms
  by (simp add: SendEvent_def store_and_run_def world_UpdateData_ok fsm_fuel_def fsm_loop_numeral
      fsm_round_def getNextState_def out_sender_lookups Let_def logSwapInfo_def
      TakerSendPrivkeyAction_Execute_def SendMessageAction_Execute_def NoOpDoneAction_Execute_def
      after_action_def send_message_def ext_def world_RemoveSender_def RemoveSender_def
      new_effects_def)

theorem timeout_while_claiming_reveals_key_witness:
  "\<exists>sm' w'. SendEvent demo_services Event_OnTimeout None
      (demo_sm SWAPTYPE_OUT SWAPROLE_SENDER State_SwapOutSender_ClaimSwap) demo_world = Ret ((True, None), sm', w') \<and>
    sm_Current sm' = State_ClaimedCoop"
  using timeout_while_claiming_reveals_key
    [of "demo_sm SWAPTYPE_OUT SWAPROLE_SENDER State_SwapOutSender_ClaimSwap" demo_services demo_world Map.empty]
  by (auto simp: NewManager_def)

text \<open>The claim of the same machine succeeds in the concrete environment.\<close>

lemma demo_claim_run:
  "\<exists>sm' w'. SendEvent demo_services Event_OnRetry None
      (demo_sm SWAPTYPE_OUT SWAPROLE_SENDER State_SwapOutSender_ClaimSwap) demo_world = Ret ((True, None), sm', w') \<and>
    sm_Current sm' = State_ClaimedPreimage"
proof -
  have getters: "GetChain (demo_out_data\<lparr>FSMState := s\<rparr>) = btc_chain"
    "GetId (demo_out_data\<lparr>FSMState := s\<rparr>) = Some (replicate 32 1)"
    "GetOpeningTXAmount (demo_out_data\<lparr>FSMState := s\<rparr>) = Some 100000" for s
    by (simp_all add: negotiated_getters [of "demo_out_data\<lparr>FSMState := s\<rparr>" demo_out_data])
  have id: "GetId (d\<lparr>ClaimTxId := x\<rparr>) = GetId d" "GetId (d\<lparr>FSMState := s\<rparr>) = GetId d" for d x s
    by (simp_all add: GetId_def cong: option.case_cong)
  have short: "SwapId_Short (Some (replicate 32 1)) = Some (take 6 (SwapId_String (Some (replicate 32 1))))"
    by (simp add: SwapId_Short_def SwapId_String_def length_hex_EncodeToString)
  show ?thesis
    by (simp add: SendEvent_def store_and_run_def world_UpdateData_ok fsm_fuel_def fsm_loop_numeral
        fsm_round_def getNextState_def out_sender_lookups Let_def logSwapInfo_def SetState_def getters id short
        ClaimSwapTransactionWithPreimageAction_Execute_def NoOpDoneAction_Execute_def claimed_def
        GetOpeningParams_def demo_wallet_def
        after_action_def ext_def world_RemoveSender_def RemoveSender_def NewManager_def)
qed


section \<open>Finished machines\<close>

lemma IsFinished_final: "IsFinished sm \<longleftrightarrow> final_state (sm_Current sm)"
  by (simp add: IsFinished_def final_state_def split: StateType.split)

lemma final_no_transition:
  assumes "IsFinished sm"
  shows "getNextState sm event = Inl ErrEventRejected"
proof -
  have "st_Events st = []" if "map_of (States_of sm) (sm_Current sm) = Some st" for st
  proof -
    have "(sm_Current sm, st) \<in> set (States_of sm)" using that by (rule map_of_SomeD)
    then show ?thesis
      using States_of_cases [of sm] assms by (auto simp: IsFinished_def table_defs)
  qed
  then show ?thesis by (auto simp: getNextState_def split: option.split)
qed

text \<open>A finished swap is inert: whatever event or message arrives, \<open>SendEvent\<close> returns, keeps the
  state, makes no call to the outside, and reports an error (unless the event is \<open>Event_Done\<close>, which
  is answered at once).\<close>

theorem finished_swap_inert:
  assumes "IsFinished sm"
  shows "\<exists>r sm' w'. SendEvent sv event ctx sm w = Ret (r, sm', w') \<and> sm_Current sm' = sm_Current sm \<and>
    new_effects w w' = [] \<and> (event \<noteq> Event_Done \<longrightarrow> snd r \<noteq> None)"
proof -
  have run: "\<exists>r w'. store_and_run sv e (sm\<lparr>sm_Data := d\<rparr>) w = Ret (r, sm\<lparr>sm_Data := d\<rparr>, w') \<and>
      new_effects w w' = [] \<and> snd r \<noteq> None" for e d
  proof -
    have "IsFinished (sm\<lparr>sm_Data := d\<rparr>)" using assms by (simp add: IsFinished_def)
    then have "fsm_loop sv fsm_fuel e (sm\<lparr>sm_Data := d\<rparr>) w1 =
        Ret ((False, Some ErrEventRejected), sm\<lparr>sm_Data := d\<rparr>, w1)" for w1
      by (simp add: fsm_fuel_def fsm_loop_numeral fsm_round_def final_no_transition)
    moreover obtain err w1 where "world_UpdateData sv (sm\<lparr>sm_Data := d\<rparr>) w = (err, w1)"
      by (cases "world_UpdateData sv (sm\<lparr>sm_Data := d\<rparr>) w")
    ultimately show ?thesis
      using world_UpdateData_frame [of sv "sm\<lparr>sm_Data := d\<rparr>" w err w1]
      by (cases err) (auto simp: store_and_run_def new_effects_def)
  qed
  have same: "sm\<lparr>sm_Data := sm_Data sm\<rparr> = sm" by simp
  have run': "\<exists>r sm' w'. store_and_run sv e (sm\<lparr>sm_Data := d\<rparr>) w = Ret (r, sm', w') \<and>
      sm_Current sm' = sm_Current sm \<and> new_effects w w' = [] \<and> snd r \<noteq> None" for e d
    using run [of e d] by fastforce
  show ?thesis
    using run' [of _ "sm_Data sm"] run'
    by (simp add: SendEvent_def split: option.split prod.split) (blast | metis)+
qed

theorem finished_swap_inert_witness:
  "\<exists>r sm' w'. SendEvent demo_services Event_OnCancelReceived None
      (demo_sm SWAPTYPE_IN SWAPROLE_RECEIVER State_ClaimedPreimage) demo_world = Ret (r, sm', w') \<and>
    sm_Current sm' = State_ClaimedPreimage \<and> snd r \<noteq> None"
  using finished_swap_inert [of "demo_sm SWAPTYPE_IN SWAPROLE_RECEIVER State_ClaimedPreimage" demo_services
      Event_OnCancelReceived None demo_world]
  by (auto simp: IsFinished_def)


lemma done_state_all:
  assumes "map_of (States_of sm) s = Some st" "st_Action st = Some a" "Event_Done \<in> set (action_events a)"
  shows "final_state s"
  using assms States_of_cases [of sm] in_sender.done_state(1) in_receiver.done_state(1)
    out_sender.done_state(1) out_receiver.done_state(1) by (metis map_of.simps(1) option.distinct(1))

text \<open>The state machine as the store has it, whatever its retry counter.\<close>

definition stored_in :: "SwapStateMachine \<Rightarrow> world \<Rightarrow> bool" where
  "stored_in sm w \<longleftrightarrow> (\<exists>m. w_store w = Some m \<and> m (sm_key sm) = Some (persisted sm))"

lemma stored_in_retries [simp]: "stored_in (sm\<lparr>sm_retries := n\<rparr>) w \<longleftrightarrow> stored_in sm w"
  by (simp add: stored_in_def persisted_def sm_key_def)

lemma stored_in_emit [simp]: "stored_in sm (emit x w) \<longleftrightarrow> stored_in sm w"
  by (simp add: stored_in_def)

lemma world_UpdateData_stored: "world_UpdateData sv sm w = (None, w') \<Longrightarrow> stored_in sm w'"
  by (auto simp: world_UpdateData_def stored_in_def split: prod.splits dest!: UpdateData_success)

lemma after_action_stored:
  "after_action sv e sm w = Halt r sm' w' \<Longrightarrow> snd r = None \<Longrightarrow> stored_in sm' w'"
  "after_action sv e sm w = Continue e' sm' w' \<Longrightarrow> stored_in sm' w'"
  by (auto simp: after_action_def exponentialBackoffAndJitter_def Let_def world_UpdateData_stored
      split: prod.splits option.splits if_splits dest: world_UpdateData_stored)

lemma SendEvent_durable:
  assumes "SendEvent sv event ctx sm w = Ret ((finished, None), sm', w')" "event \<noteq> Event_Done"
  shows "stored_in sm' w' \<and> (finished \<longrightarrow> IsFinished sm')"
proof -
  obtain d e where "store_and_run sv e (sm\<lparr>sm_Data := d\<rparr>) w = Ret ((finished, None), sm', w')"
    using SendEvent_cases [OF assms(1)] assms(2) by auto
  then obtain w1 where loop: "fsm_loop sv fsm_fuel e (sm\<lparr>sm_Data := d\<rparr>) w1 = Ret ((finished, None), sm', w')"
    by (cases rule: store_and_run_rule) auto
  have "snd r = None \<longrightarrow> stored_in sm2 w2 \<and> (fst r \<longrightarrow> IsFinished sm2)"
    if halt: "fsm_round sv event1 sm1 w3 = Halt r sm2 w2" for event1 sm1 w3 r sm2 w2
  proof
    assume none: "snd r = None"
    then obtain s st a e d w4 where c: "map_of (States_of sm1) s = Some st" "st_Action st = Some a"
      "Execute sv a (SetState s (sm_Data sm1)) (logSwapInfo sv (enter_state s sm1) w3) = Some (e, d, w4)"
      "after_action sv e ((enter_state s sm1)\<lparr>sm_Data := d\<rparr>) w4 = Halt r sm2 w2"
      using fsm_round_Halt [OF halt] by auto
    have sm2: "sm2 = (enter_state s sm1)\<lparr>sm_Data := d, sm_retries := sm_retries sm2\<rparr>"
      using after_action_Halt [OF c(4)] by simp
    have "sm_Current sm2 = s" by (subst sm2) simp
    moreover have "fst r \<Longrightarrow> final_state s"
      using after_action_Halt [OF c(4)] Execute_events [OF c(3)] done_state_all [OF c(1,2)] by blast
    ultimately show "stored_in sm2 w2 \<and> (fst r \<longrightarrow> IsFinished sm2)"
      using after_action_stored(1) [OF c(4) none] by (simp add: IsFinished_final)
  qed
  then show ?thesis
    using fsm_loop_rule [OF loop, where J = "\<lambda>_ _ _. True" and
        K = "\<lambda>r sm w. snd r = None \<longrightarrow> stored_in sm w \<and> (fst r \<longrightarrow> IsFinished sm)"] by simp
qed

text \<open>C9. When an event was processed without an error the outcome is durable and truthful: the store
  holds the machine in its new state, and \<open>done\<close> is reported only if that state is final.\<close>

theorem processed_event_is_durable:
  assumes "SendEvent sv event ctx sm w = Ret ((finished, None), sm', w')" "event \<noteq> Event_Done"
  shows "stored_in sm' w' \<and> (finished \<longrightarrow> IsFinished sm')"
  by (rule SendEvent_durable [OF assms])

theorem processed_event_is_durable_witness:
  "\<exists>sm' w'. SendEvent demo_services Event_OnRetry None
      (demo_sm SWAPTYPE_OUT SWAPROLE_SENDER State_SwapOutSender_ClaimSwap) demo_world = Ret ((True, None), sm', w') \<and>
    stored_in sm' w' \<and> IsFinished sm'"
proof -
  obtain sm' w' where run: "SendEvent demo_services Event_OnRetry None
      (demo_sm SWAPTYPE_OUT SWAPROLE_SENDER State_SwapOutSender_ClaimSwap) demo_world = Ret ((True, None), sm', w')"
    using demo_claim_run by blast
  show ?thesis
    using processed_event_is_durable [OF run] run by simp
qed

section \<open>Backoff\<close>

lemma backoff_bound_exact:
  assumes "n \<le> 21"
  shows "backoff_bound n = min (1000 * 2 ^ n) 20000"
proof -
  have "(2 :: int) ^ n \<le> 2 ^ 21" by (rule power_increasing) (use assms in simp_all)
  moreover have "- 1152921504606846976 \<le> 125 * (2 :: int) ^ n"
    by (rule order_trans [of _ 0]) simp_all
  ultimately have "sint (word_of_int (1000 * 2 ^ n) :: 64 word) = 1000 * 2 ^ n"
    by (simp only: sint_sbintrunc') (intro signed_take_bit_int_eq_self, simp_all)
  then show ?thesis
    by (simp add: backoff_bound_def exponentialBackoffBase_def exponentialBackoffCap_def)
qed

lemma retries_round:
  "sm_retries sm \<le> 20 \<Longrightarrow> fsm_round sv event sm w = Continue e sm' w' \<Longrightarrow> sm_retries sm' \<le> 20"
  "sm_retries sm \<le> 20 \<Longrightarrow> fsm_round sv event sm w = Halt r sm' w' \<Longrightarrow> sm_retries sm' \<le> 20"
  by (auto simp: fsm_round_def after_action_def Let_def
      split: sum.splits option.splits prod.splits if_splits)

text \<open>The backoff between claim retries is sane: through every sequence of events and restarts the
  retry counter of a machine stays at most 20, so that the random sleep before a retry is drawn from a
  positive range of one to twenty seconds that doubles with each retry, and drawing it never panics.\<close>

theorem backoff_bounded:
  assumes "sm_retries sm \<le> 20" "driven sv allowed sm sm'"
  shows "sm_retries sm' \<le> 20 \<and> backoff_bound (Suc (sm_retries sm')) = min (2000 * 2 ^ sm_retries sm') 20000 \<and>
    exponentialBackoffAndJitter sv (sm'\<lparr>sm_retries := Suc (sm_retries sm')\<rparr>) w \<noteq> None"
proof -
  have loop: "sm_retries x' \<le> 20" if "fsm_loop sv n event x w = Ret (r, x', w')" "sm_retries x \<le> 20"
    for n event x w r x' w'
    using that by (rule fsm_loop_rule [where J = "\<lambda>_ x _. sm_retries x \<le> 20"]) (auto dest: retries_round)
  have send: "sm_retries x' \<le> 20" if "SendEvent sv event ctx x w = Ret (r, x', w')" "sm_retries x \<le> 20"
    for event ctx x w r x' w'
    using SendEvent_cases [OF that(1)]
  proof
    assume "\<exists>d e. (e = event \<or> e = Event_OnInvalid_Message) \<and>
      store_and_run sv e (x\<lparr>sm_Data := d\<rparr>) w = Ret (r, x', w')"
    then obtain d e where "store_and_run sv e (x\<lparr>sm_Data := d\<rparr>) w = Ret (r, x', w')" by blast
    then show ?thesis
    proof (cases rule: store_and_run_rule)
      case (stored w1)
      then show ?thesis using loop [OF stored(2)] that(2) by simp
    next
      case (unstored w1)
      then show ?thesis using that(2) by simp
    qed
  qed (use that(2) in auto)
  have rec: "sm_retries x' \<le> 20" if "Recover sv x w = Ret (r, x', w')" "sm_retries x \<le> 20" for x w r x' w'
    using that send by (auto simp: Recover_def Let_def split: option.splits prod.splits if_splits)
  have r: "sm_retries sm' \<le> 20"
    using assms(2,1)
  proof induction
    case (driven_event x event ctx w r x' w')
    then show ?case using send by blast
  next
    case (driven_restart x w r x' w')
    then show ?case using rec [of "persisted x"] by (simp add: persisted_def)
  qed simp_all
  then show ?thesis
    by (simp add: backoff_bound_exact exponentialBackoffAndJitter_def Let_def not_le min_less_iff_conj)
qed

theorem backoff_bounded_witness:
  "backoff_bound (Suc (sm_retries (demo_sm SWAPTYPE_IN SWAPROLE_SENDER Default))) = 2000"
  using backoff_bounded [OF _ driven_start, of "demo_sm SWAPTYPE_IN SWAPROLE_SENDER Default"] by simp

end
