(* ===== verification/PS_Service.thy ===== *)
theory PS_Service
  imports PS_Protocol "HOL-Library.AList"
begin

text \<open>
  The swap service (\<open>swap/service.go\<close>): the table of active swaps, the lock on channels, the
  handlers of messages and of the callbacks of watcher, node and timer, the two operations that start
  a swap, and the recovery after a restart.

  The table maps the printed swap id to the machine.  In Go it holds pointers, so that a handler
  changes the machine in the table while it runs; here a handler writes the machine back after the
  event, unless it has been removed meanwhile.  The handlers run one after the other: the machine's
  mutex serialises the events of one swap, and two swaps share only the table, the store and the
  other services.  JSON decoding is a parameter; \<open>Some None\<close> is the payload \<open>null\<close>, which decodes to
  the nil pointer.
\<close>

section \<open>State\<close>

record SwapService =
  activeSwaps :: "(string \<times> SwapStateMachine) list"
  lastMsgLog :: "string \<rightharpoonup> string"
  BitcoinEnabled :: bool
  LiquidEnabled :: bool

type_synonym svc_result = "(go_error option \<times> SwapService \<times> world) outcome"

record json_env =
  json_SwapInRequest :: "byte list \<Rightarrow> go_error + SwapInRequestMessage option"
  json_SwapInAgreement :: "byte list \<Rightarrow> go_error + SwapInAgreementMessage option"
  json_SwapOutRequest :: "byte list \<Rightarrow> go_error + SwapOutRequestMessage option"
  json_SwapOutAgreement :: "byte list \<Rightarrow> go_error + SwapOutAgreementMessage option"
  json_OpeningTxBroadcasted :: "byte list \<Rightarrow> go_error + OpeningTxBroadcastedMessage option"
  json_Cancel :: "byte list \<Rightarrow> go_error + CancelMessage option"
  json_CoopClose :: "byte list \<Rightarrow> go_error + CoopCloseMessage option"

definition NewSwapService :: "SwapServices \<Rightarrow> SwapService" where
  "NewSwapService sv = \<lparr>activeSwaps = [], lastMsgLog = Map.empty, BitcoinEnabled = bitcoinEnabled sv,
     LiquidEnabled = liquidEnabled sv\<rparr>"

section \<open>The table of active swaps\<close>

definition GetActiveSwap :: "SwapService \<Rightarrow> string \<Rightarrow> go_error + SwapStateMachine" where
  "GetActiveSwap s swapId = (case map_of (activeSwaps s) swapId of
     Some swap \<Rightarrow> Inr swap | None \<Rightarrow> Inl ErrSwapDoesNotExist)"

definition RemoveActiveSwap :: "string \<Rightarrow> SwapService \<Rightarrow> SwapService" where
  "RemoveActiveSwap swapId s = s\<lparr>lastMsgLog := (lastMsgLog s)(swapId := None),
     activeSwaps := AList.delete swapId (activeSwaps s)\<rparr>"

text \<open>
  The loop over the table stops at the first swap on the channel.  Go visits a map in no particular
  order; the lemma \<open>lockSwap_order\<close> below shows that the order does not matter for the tables that arise.
\<close>

definition lockSwap :: "string \<Rightarrow> string \<Rightarrow> SwapStateMachine \<Rightarrow> SwapService \<Rightarrow> go_error option \<times> SwapService" where
  "lockSwap swapId channelId fsm s =
     (case find (\<lambda>(ident, swap). GetScid (sm_Data swap) = channelId) (activeSwaps s) of
        Some (ident, _) \<Rightarrow> (Some (ActiveSwapError channelId ident), s)
      | None \<Rightarrow> (None, s\<lparr>activeSwaps := AList.update swapId fsm (activeSwaps s)\<rparr>))"

definition isMessageSenderExpectedPeer :: "SwapService \<Rightarrow> string \<Rightarrow> SwapId option \<Rightarrow> go_error + bool" where
  "isMessageSenderExpectedPeer s senderId swapId = (case GetActiveSwap s (SwapId_String swapId) of
     Inl e \<Rightarrow> Inl e | Inr swap \<Rightarrow> Inr (PeerNodeId (sm_Data swap) = senderId))"

definition logMsg :: "string \<Rightarrow> string \<Rightarrow> SwapService \<Rightarrow> SwapService" where
  "logMsg swapId msgTypeString s =
     (if lastMsgLog s swapId = Some msgTypeString then s
      else s\<lparr>lastMsgLog := (lastMsgLog s)(swapId \<mapsto> msgTypeString)\<rparr>)"

text \<open>The machine behind a pointer of the table, after it changed.\<close>

definition put_active :: "string \<Rightarrow> SwapStateMachine \<Rightarrow> SwapService \<Rightarrow> SwapService" where
  "put_active swapId sm s = (if map_of (activeSwaps s) swapId = None then s
     else s\<lparr>activeSwaps := AList.update swapId sm (activeSwaps s)\<rparr>)"

definition remove_if :: "bool \<Rightarrow> SwapStateMachine \<Rightarrow> SwapService \<Rightarrow> SwapService" where
  "remove_if finished sm s = (if finished then RemoveActiveSwap (SwapId_String (sm_SwapId sm)) s else s)"

section \<open>Events for an active swap\<close>

text \<open>What the handlers share: find the swap, send it the event, drop it when it is done.\<close>

definition send_to :: "SwapServices \<Rightarrow> EventType \<Rightarrow> EventContext option \<Rightarrow> string \<Rightarrow> SwapStateMachine \<Rightarrow>
    SwapService \<Rightarrow> world \<Rightarrow> svc_result" where
  "send_to sv event ctx swapId sm s w = (case SendEvent sv event ctx sm w of
     Panic \<Rightarrow> Panic | OutOfFuel \<Rightarrow> OutOfFuel
   | Ret ((finished, err), sm, w) \<Rightarrow>
       (let s = put_active swapId sm s in
        case err of Some e \<Rightarrow> Ret (Some e, s, w) | None \<Rightarrow> Ret (None, remove_if finished sm s, w)))"

definition deliver :: "SwapServices \<Rightarrow> EventType \<Rightarrow> EventContext option \<Rightarrow> string \<Rightarrow> SwapService \<Rightarrow> world \<Rightarrow> svc_result" where
  "deliver sv event ctx swapId s w = (case GetActiveSwap s swapId of
     Inl e \<Rightarrow> Ret (Some e, s, w)
   | Inr sm \<Rightarrow> send_to sv event ctx swapId sm s w)"

text \<open>Some callbacks take a rejected event for success.\<close>

definition ignore_rejected :: "svc_result \<Rightarrow> svc_result" where
  "ignore_rejected r = (case r of
     Ret (err, s, w) \<Rightarrow> Ret (if err = Some ErrEventRejected then None else err, s, w)
   | r \<Rightarrow> r)"

definition OnSwapInAgreementReceived :: "SwapServices \<Rightarrow> SwapInAgreementMessage \<Rightarrow> SwapService \<Rightarrow> world \<Rightarrow> svc_result" where
  "OnSwapInAgreementReceived sv msg =
     deliver sv Event_SwapInSender_OnAgreementReceived (Some (MsgCtx (MsgSwapInAgreement msg)))
       (SwapId_String (sia_SwapId msg))"

definition OnSwapOutAgreementReceived :: "SwapServices \<Rightarrow> SwapOutAgreementMessage \<Rightarrow> SwapService \<Rightarrow> world \<Rightarrow> svc_result" where
  "OnSwapOutAgreementReceived sv msg =
     deliver sv Event_OnFeeInvoiceReceived (Some (MsgCtx (MsgSwapOutAgreement msg))) (SwapId_String (soa_SwapId msg))"

definition OnFeeInvoiceNotification :: "SwapServices \<Rightarrow> SwapId \<Rightarrow> SwapService \<Rightarrow> world \<Rightarrow> svc_result" where
  "OnFeeInvoiceNotification sv swapId = deliver sv Event_OnFeeInvoicePaid None (SwapId_String (Some swapId))"

definition OnClaimInvoiceNotification :: "SwapServices \<Rightarrow> SwapId \<Rightarrow> SwapService \<Rightarrow> world \<Rightarrow> svc_result" where
  "OnClaimInvoiceNotification sv swapId = deliver sv Event_OnClaimInvoicePaid None (SwapId_String (Some swapId))"

definition OnTxOpenedMessage :: "SwapServices \<Rightarrow> OpeningTxBroadcastedMessage \<Rightarrow> SwapService \<Rightarrow> world \<Rightarrow> svc_result" where
  "OnTxOpenedMessage sv msg =
     deliver sv Event_OnTxOpenedMessage (Some (MsgCtx (MsgOpeningTxBroadcasted msg))) (SwapId_String (otb_SwapId msg))"

definition OnCancelReceived :: "SwapServices \<Rightarrow> SwapId option \<Rightarrow> CancelMessage \<Rightarrow> SwapService \<Rightarrow> world \<Rightarrow> svc_result" where
  "OnCancelReceived sv swapId msg =
     deliver sv Event_OnCancelReceived (Some (MsgCtx (MsgCancel msg))) (SwapId_String swapId)"

definition OnCoopCloseReceived :: "SwapServices \<Rightarrow> SwapId option \<Rightarrow> CoopCloseMessage \<Rightarrow> SwapService \<Rightarrow> world \<Rightarrow> svc_result" where
  "OnCoopCloseReceived sv swapId msg =
     deliver sv Event_OnCoopCloseReceived (Some (MsgCtx (MsgCoopClose msg))) (SwapId_String swapId)"

definition OnPayment :: "SwapServices \<Rightarrow> string \<Rightarrow> InvoiceType \<Rightarrow> SwapService \<Rightarrow> world \<Rightarrow> svc_result" where
  "OnPayment sv swapIdStr invoiceType s w = (case ParseSwapIdFromString swapIdStr of
     Inl _ \<Rightarrow> Ret (None, s, w)
   | Inr swapId \<Rightarrow>
       (case (case invoiceType of INVOICE_FEE \<Rightarrow> OnFeeInvoiceNotification sv swapId s w
              | INVOICE_CLAIM \<Rightarrow> OnClaimInvoiceNotification sv swapId s w) of
          Ret (_, s, w) \<Rightarrow> Ret (None, s, w) | r \<Rightarrow> r))"

definition OnCsvPassed :: "SwapServices \<Rightarrow> string \<Rightarrow> SwapService \<Rightarrow> world \<Rightarrow> svc_result" where
  "OnCsvPassed sv swapId s w = (case GetActiveSwap s swapId of
     Inl e \<Rightarrow> Ret (if e = ErrSwapDoesNotExist then None else Some e, s, w)
   | Inr swap \<Rightarrow> ignore_rejected (send_to sv Event_OnCsvPassed None swapId swap s w))"

text \<open>
  \<open>OnTxConfirmed\<close>: on an error of the watcher the code records the (nil) error of the lookup, sends
  the failure event, and then goes on as for a confirmation.
\<close>

definition watcher_error :: "SwapServices \<Rightarrow> string \<Rightarrow> go_error option \<Rightarrow> SwapStateMachine \<Rightarrow> SwapService \<Rightarrow> world \<Rightarrow>
    (SwapStateMachine \<times> SwapService \<times> world) outcome" where
  "watcher_error sv swapId gotErr swap s w = (if gotErr \<noteq> None
     then (case SendEvent sv Event_ActionFailed None (swap\<lparr>sm_Data := (sm_Data swap)\<lparr>LastErr := None\<rparr>\<rparr>) w of
             Ret ((finished, _), swap, w) \<Rightarrow> Ret (swap, remove_if finished swap (put_active swapId swap s), w)
           | Panic \<Rightarrow> Panic | OutOfFuel \<Rightarrow> OutOfFuel)
     else Ret (swap, s, w))"

definition OnTxConfirmed :: "SwapServices \<Rightarrow> string \<Rightarrow> string \<Rightarrow> go_error option \<Rightarrow> SwapService \<Rightarrow> world \<Rightarrow> svc_result" where
  "OnTxConfirmed sv swapId txHex gotErr s w = (case GetActiveSwap s swapId of
     Inl e \<Rightarrow> Ret (Some e, s, w)
   | Inr swap \<Rightarrow> (case watcher_error sv swapId gotErr swap s w of
          Panic \<Rightarrow> Panic | OutOfFuel \<Rightarrow> OutOfFuel
        | Ret (swap, s, w) \<Rightarrow>
            ignore_rejected (send_to sv Event_OnTxConfirmed None swapId
              (swap\<lparr>sm_Data := (sm_Data swap)\<lparr>OpeningTxHex := txHex\<rparr>\<rparr>) s w)))"

definition SenderOnTxConfirmed :: "SwapServices \<Rightarrow> string \<Rightarrow> SwapService \<Rightarrow> world \<Rightarrow> svc_result" where
  "SenderOnTxConfirmed sv swapId s w = (case GetActiveSwap s swapId of
     Inl e \<Rightarrow> Ret (Some e, s, w)
   | Inr swap \<Rightarrow> (case send_to sv Event_OnTxConfirmed None swapId swap s w of
       Ret (None, s, w) \<Rightarrow> Ret (None, RemoveActiveSwap (SwapId_String (sm_SwapId swap)) s, w)
     | r \<Rightarrow> r))"

definition createTimeoutCallback :: "SwapServices \<Rightarrow> string \<Rightarrow> SwapService \<Rightarrow> world \<Rightarrow> svc_result" where
  "createTimeoutCallback sv swapId s w = (case GetActiveSwap s swapId of
     Inl _ \<Rightarrow> Ret (None, s, w)
   | Inr swap \<Rightarrow> (case send_to sv Event_OnTimeout None swapId
         (swap\<lparr>sm_Data := (sm_Data swap)\<lparr>toCancelSet := False\<rparr>\<rparr>) s w of
       Ret (_, s, w) \<Rightarrow> Ret (None, s, w) | r \<Rightarrow> r))"

definition ResendLastMessage :: "SwapServices \<Rightarrow> string \<Rightarrow> SwapService \<Rightarrow> world \<Rightarrow> svc_result" where
  "ResendLastMessage sv swapId s w = (case GetActiveSwap s swapId of
     Inl e \<Rightarrow> Ret (Some e, s, w)
   | Inr swap \<Rightarrow> (case SendMessageAction_Execute sv (sm_Data swap) w of
       None \<Rightarrow> Panic
     | Some (event, d, w) \<Rightarrow> Ret (if event = Event_ActionFailed then LastErr d else None,
         put_active swapId (swap\<lparr>sm_Data := d\<rparr>) s, w)))"

section \<open>Starting a swap\<close>

text \<open>
  A new machine draws an id (for a swap we request) and a private key; the code dereferences the key
  without a check, so a failure to draw it is a panic.
\<close>

definition fresh_key :: "SwapServices \<Rightarrow> world \<Rightarrow> ((byte list \<times> i64) \<times> world) option" where
  "fresh_key sv w = (case ext (rand_privkey sv) (\<lambda>_. DrewRandom) w of
     (Inl _, w) \<Rightarrow> None
   | (Inr key, w) \<Rightarrow> Some ((PrivKey_Serialize (sv_crypto sv) key, time_now sv (w_clock w)), w))"

definition new_sender :: "SwapServices \<Rightarrow> (SwapId \<Rightarrow> string \<Rightarrow> string \<Rightarrow> byte list \<Rightarrow> i64 \<Rightarrow> SwapStateMachine) \<Rightarrow>
    string \<Rightarrow> string \<Rightarrow> world \<Rightarrow> (SwapStateMachine \<times> world) option" where
  "new_sender sv newFSM initiator peer w =
     (case ext (rand_SwapId sv) (\<lambda>_. DrewRandom) w of (swapId, w) \<Rightarrow>
       (case fresh_key sv w of
          None \<Rightarrow> None
        | Some ((key, now), w) \<Rightarrow> Some (newFSM swapId initiator peer key now, w)))"

definition new_receiver :: "SwapServices \<Rightarrow> (SwapId option \<Rightarrow> string \<Rightarrow> byte list \<Rightarrow> i64 \<Rightarrow> SwapStateMachine) \<Rightarrow>
    SwapId option \<Rightarrow> string \<Rightarrow> world \<Rightarrow> (SwapStateMachine \<times> world) option" where
  "new_receiver sv newFSM swapId peer w = (case fresh_key sv w of
     None \<Rightarrow> None
   | Some ((key, now), w) \<Rightarrow> Some (newFSM swapId peer key now, w))"

text \<open>The asset and network of a request on a chain; any other chain is refused.\<close>

definition chain_fields :: "SwapServices \<Rightarrow> string \<Rightarrow> (string \<times> string) option" where
  "chain_fields sv chain =
     (if chain = l_btc_chain then Some (wallet_GetAsset (liquidWallet sv), '''')
      else if chain = btc_chain then Some ('''', wallet_GetNetwork (bitcoinWallet sv))
      else None)"

definition estimateMaximumSwapAmountSat :: "SwapServices \<Rightarrow> string \<Rightarrow> world \<Rightarrow> (go_error + u64) \<times> world" where
  "estimateMaximumSwapAmountSat sv chain w =
     (let available = (\<lambda>wallet.
        (case ext (GetOnchainBalance wallet) (OnchainBalance chain) w of
           (Inl e, w) \<Rightarrow> (Inl e, w)
         | (Inr balance, w) \<Rightarrow> (case ext (GetFlatOpeningTXFee wallet) (FlatFee chain) w of
             (Inl e, w) \<Rightarrow> (Inl e, w)
           | (Inr estimatedFee, w) \<Rightarrow> (Inr (balance - estimatedFee), w))))
      in if chain = l_btc_chain then available (liquidWallet sv)
         else if chain = btc_chain then available (bitcoinWallet sv)
         else (Inl (ErrText ''invalid chain''), w))"

type_synonym start_result = "((go_error + SwapStateMachine) \<times> SwapService \<times> world) outcome"

text \<open>The checks of the policy and of the node that both operations make first.\<close>

definition start_error :: "SwapServices \<Rightarrow> string \<Rightarrow> u64 \<Rightarrow> world \<Rightarrow> go_error option \<times> world" where
  "start_error sv peer amtSat w =
     (let policy = fst (w_policy w) in
      if \<not> NewSwapsAllowed policy then (Some (ErrText ''swaps are disabled''), w)
      else if IsPeerSuspicious policy peer then (Some (PeerIsSuspiciousError peer), w)
      else if amtSat * 1000 < GetMinSwapAmountMsat policy
      then (Some (ErrMinimumSwapSize (GetMinSwapAmountMsat policy)), w)
      else ext (\<lambda>t. CanSpend (lightning sv) t (amtSat * 1000)) (CheckedSpend (amtSat * 1000)) w)"

text \<open>The request event of a locked machine and its result for the caller.\<close>

definition request_swap :: "SwapServices \<Rightarrow> EventType \<Rightarrow> PeerMessage \<Rightarrow> SwapStateMachine \<Rightarrow> SwapService \<Rightarrow> world \<Rightarrow> start_result" where
  "request_swap sv event request swap s w = (case SendEvent sv event (Some (MsgCtx request)) swap w of
     Panic \<Rightarrow> Panic | OutOfFuel \<Rightarrow> OutOfFuel
   | Ret ((finished, err), swap, w) \<Rightarrow>
       (let s = put_active (SwapId_String (sm_SwapId swap)) swap s in
        case err of Some e \<Rightarrow> Ret (Inl e, s, w) | None \<Rightarrow> Ret (Inr swap, remove_if finished swap s, w)))"

definition SwapService_SwapOut :: "SwapServices \<Rightarrow> string \<Rightarrow> string \<Rightarrow> string \<Rightarrow> string \<Rightarrow> u64 \<Rightarrow> i64 \<Rightarrow> SwapService \<Rightarrow> world \<Rightarrow> start_result" where
  "SwapService_SwapOut sv peer chain channelId initiator amtSat premiumLimitRatePpm s w =
     (case start_error sv peer amtSat w of
        (Some e, w) \<Rightarrow> Ret (Inl e, s, w)
      | (None, w) \<Rightarrow>
     (case ext (\<lambda>t. SpendableMsat (lightning sv) t channelId) (Spendable channelId) w of
        (Inl e, w) \<Rightarrow> Ret (Inl e, s, w)
      | (Inr sp, w) \<Rightarrow>
     if sp < amtSat * 1000 then Ret (Inl (ErrText (''exceeding spendable amount_msat: '' @ fmt_u64 sp)), s, w)
     else (case new_sender sv newSwapOutSenderFSM initiator peer w of
        None \<Rightarrow> Panic
      | Some (swap, w) \<Rightarrow>
     (case lockSwap (SwapId_String (sm_SwapId swap)) channelId swap s of
        (Some e, s) \<Rightarrow> Ret (Inl e, s, w)
      | (None, s) \<Rightarrow>
     (case chain_fields sv chain of
        None \<Rightarrow> Ret (Inl (ErrText ''invalid chain''), s, w)
      | Some (elementsAsset, bitcoinNetwork) \<Rightarrow>
          request_swap sv Event_OnSwapOutStarted (MsgSwapOutRequest
            \<lparr>sor_ProtocolVersion = PEERSWAP_PROTOCOL_VERSION, sor_SwapId = sm_SwapId swap,
             sor_Asset = elementsAsset, sor_Network = bitcoinNetwork, sor_Scid = channelId,
             sor_Amount = amtSat, sor_Pubkey = own_pubkey sv (sm_Data swap),
             sor_PremiumLimit = PPM_Compute premiumLimitRatePpm amtSat\<rparr>) swap s w)))))"

definition SwapService_SwapIn :: "SwapServices \<Rightarrow> string \<Rightarrow> string \<Rightarrow> string \<Rightarrow> string \<Rightarrow> u64 \<Rightarrow> i64 \<Rightarrow> SwapService \<Rightarrow> world \<Rightarrow> start_result" where
  "SwapService_SwapIn sv peer chain channelId initiator amtSat premiumLimitRatePPM s w =
     (case start_error sv peer amtSat w of
        (Some e, w) \<Rightarrow> Ret (Inl e, s, w)
      | (None, w) \<Rightarrow>
     (case ext (\<lambda>t. ReceivableMsat (lightning sv) t channelId) (Receivable channelId) w of
        (Inl e, w) \<Rightarrow> Ret (Inl e, s, w)
      | (Inr rs, w) \<Rightarrow>
     if rs < amtSat * 1000 then Ret (Inl (ErrText (''exceeding receivable amount_msat: '' @ fmt_u64 rs)), s, w)
     else (case estimateMaximumSwapAmountSat sv chain w of
        (Inl e, w) \<Rightarrow> Ret (Inl e, s, w)
      | (Inr maximum, w) \<Rightarrow>
     if maximum < amtSat then Ret (Inl (ErrText (''exceeding maximum swap amount: '' @ fmt_u64 maximum)), s, w)
     else (case chain_fields sv chain of
        None \<Rightarrow> Ret (Inl (ErrText ''invalid chain''), s, w)
      | Some (elementsAsset, bitcoinNetwork) \<Rightarrow>
     (case new_sender sv newSwapInSenderFSM initiator peer w of
        None \<Rightarrow> Panic
      | Some (swap, w) \<Rightarrow>
     (case lockSwap (SwapId_String (sm_SwapId swap)) channelId swap s of
        (Some e, s) \<Rightarrow> Ret (Inl e, s, w)
      | (None, s) \<Rightarrow>
          request_swap sv Event_SwapInSender_OnSwapInRequested (MsgSwapInRequest
            \<lparr>sir_ProtocolVersion = PEERSWAP_PROTOCOL_VERSION, sir_SwapId = sm_SwapId swap,
             sir_Network = bitcoinNetwork, sir_Asset = elementsAsset, sir_Scid = channelId,
             sir_Amount = amtSat, sir_Pubkey = own_pubkey sv (sm_Data swap),
             sir_PremiumLimit = PPM_Compute premiumLimitRatePPM amtSat\<rparr>) swap s w))))))"

section \<open>Requests of a peer\<close>

text \<open>
  A refusal tells the peer why.  The code returns the error of encoding the cancel message, which
  shadows the reason, so the handler reports success.
\<close>

definition refuse :: "SwapServices \<Rightarrow> string \<Rightarrow> SwapId option \<Rightarrow> string \<Rightarrow> SwapService \<Rightarrow> world \<Rightarrow> svc_result" where
  "refuse sv peerId swapId text s w =
     (let (msg, msgType) = MarshalPeerswapMessage (MsgCancel \<lparr>cm_SwapId = swapId, cm_Message = text\<rparr>);
          (_, w) = send_message sv peerId msg msgType w
      in Ret (None, s, w))"

definition refusal_text :: "SwapServices \<Rightarrow> go_error \<Rightarrow> string" where
  "refusal_text sv err = ''from the '' @ Implementation (lightning sv) @ '' peer: '' @ Error err"

definition request_premium :: "SwapServices \<Rightarrow> string \<Rightarrow> string \<Rightarrow> OperationType \<Rightarrow> u64 \<Rightarrow> world \<Rightarrow> (go_error + i64) \<times> world" where
  "request_premium sv peerId network operation amount w =
     world_Compute sv peerId (if network = '''' then LBTC else BTC) operation amount w"

definition unacceptable_premium :: "i64 \<Rightarrow> i64 \<Rightarrow> go_error" where
  "unacceptable_premium premiumValue limit =
     ErrText (''unacceptable premium: '' @ fmt_i64 premiumValue @ '', limit: '' @ fmt_i64 limit)"

definition OnSwapInRequestReceived ::
  "SwapServices \<Rightarrow> SwapId option \<Rightarrow> string \<Rightarrow> SwapInRequestMessage \<Rightarrow> SwapService \<Rightarrow> world \<Rightarrow> svc_result" where
  "OnSwapInRequestReceived sv swapId peerId message s w =
     (let ll = lightning sv; amountMsat = sir_Amount message * 1000;
          refuse_err = (\<lambda>e w. refuse sv peerId swapId (refusal_text sv e) s w) in
     (case request_premium sv peerId (sir_Network message) SwapIn (sir_Amount message) w of
        (Inl e, w) \<Rightarrow> Ret (Some e, s, w)
      | (Inr premiumValue, w) \<Rightarrow>
     if sint (sir_PremiumLimit message) < sint premiumValue
     then refuse_err (unacceptable_premium premiumValue (sir_PremiumLimit message)) w
     else (case ext (\<lambda>t. CanSpend ll t amountMsat) (CheckedSpend amountMsat) w of
        (Some e, w) \<Rightarrow> refuse_err e w
      | (None, w) \<Rightarrow>
     (case ext (\<lambda>t. SpendableMsat ll t (sir_Scid message)) (Spendable (sir_Scid message)) w of
        (Inl e, w) \<Rightarrow> refuse_err e w
      | (Inr sp, w) \<Rightarrow>
     if sp < amountMsat then refuse_err (ErrText (''exceeding spendable amount_msat: '' @ fmt_u64 sp)) w
     else (case ext (\<lambda>t. ProbePayment ll t (sir_Scid message) amountMsat) (Probed (sir_Scid message) amountMsat) w of
        (Inl e, w) \<Rightarrow> refuse_err e w
      | (Inr (success, failureReason), w) \<Rightarrow>
     if \<not> success then refuse sv peerId swapId (''The prepayment probe was unsuccessful.'' @ failureReason) s w
     else (case new_receiver sv newSwapInReceiverFSM swapId peerId w of
        None \<Rightarrow> Panic
      | Some (swap, w) \<Rightarrow>
     (case lockSwap (SwapId_String (sm_SwapId swap)) (sir_Scid message) swap s of
        (Some e, s) \<Rightarrow> refuse sv peerId swapId (Error e) s w
      | (None, s) \<Rightarrow>
     (case SendEvent sv Event_SwapInReceiver_OnRequestReceived (Some (MsgCtx (MsgSwapInRequest message))) swap w of
        Panic \<Rightarrow> Panic | OutOfFuel \<Rightarrow> OutOfFuel
      | Ret ((finished, err), swap, w) \<Rightarrow>
          Ret (err, remove_if finished swap (put_active (SwapId_String swapId) swap s), w)))))))))"

definition OnSwapOutRequestReceived ::
  "SwapServices \<Rightarrow> SwapId option \<Rightarrow> string \<Rightarrow> SwapOutRequestMessage \<Rightarrow> SwapService \<Rightarrow> world \<Rightarrow> svc_result" where
  "OnSwapOutRequestReceived sv swapId peerId message s w =
     (let amountMsat = sor_Amount message * 1000;
          refuse_err = (\<lambda>e w. refuse sv peerId swapId (refusal_text sv e) s w) in
     (case request_premium sv peerId (sor_Network message) SwapOut (sor_Amount message) w of
        (Inl e, w) \<Rightarrow> Ret (Some e, s, w)
      | (Inr premiumValue, w) \<Rightarrow>
     if sint (sor_PremiumLimit message) < sint premiumValue
     then refuse_err (unacceptable_premium premiumValue (sor_PremiumLimit message)) w
     else (case ext (\<lambda>t. ReceivableMsat (lightning sv) t (sor_Scid message)) (Receivable (sor_Scid message)) w of
        (Inl e, w) \<Rightarrow> refuse_err e w
      | (Inr rs, w) \<Rightarrow>
     if rs < amountMsat then refuse_err (ErrText (''exceeding receivable amount_msat: '' @ fmt_u64 rs)) w
     else (case new_receiver sv newSwapOutReceiverFSM swapId peerId w of
        None \<Rightarrow> Panic
      | Some (swap, w) \<Rightarrow>
     (case lockSwap (SwapId_String (sm_SwapId swap)) (sor_Scid message) swap s of
        (Some e, s) \<Rightarrow> refuse sv peerId swapId (Error e) s w
      | (None, s) \<Rightarrow>
          send_to sv Event_OnSwapOutRequestReceived (Some (MsgCtx (MsgSwapOutRequest message)))
            (SwapId_String swapId) swap s w)))))"

section \<open>Messages\<close>

text \<open>Decode a payload; the nil pointer of the payload \<open>null\<close> is dereferenced.\<close>

definition decoded :: "go_error + 'm option \<Rightarrow> SwapService \<Rightarrow> world \<Rightarrow> ('m \<Rightarrow> svc_result) \<Rightarrow> svc_result" where
  "decoded r s w k = (case r of Inl e \<Rightarrow> Ret (Some e, s, w) | Inr None \<Rightarrow> Panic | Inr (Some m) \<Rightarrow> k m)"

text \<open>Only the peer of the swap may send a message for it.\<close>

definition from_partner :: "string \<Rightarrow> SwapId option \<Rightarrow> SwapService \<Rightarrow> world \<Rightarrow> (SwapService \<Rightarrow> world \<Rightarrow> svc_result) \<Rightarrow> svc_result" where
  "from_partner peerId swapId s w k = (case isMessageSenderExpectedPeer s peerId swapId of
     Inl e \<Rightarrow> Ret (Some e, s, w)
   | Inr ok \<Rightarrow> if \<not> ok then Ret (Some (ErrReceivedMessageFromUnexpectedPeer peerId (SwapId_String swapId)), s, w)
              else k s w)"

definition OnMessageReceived ::
  "SwapServices \<Rightarrow> json_env \<Rightarrow> string \<Rightarrow> string \<Rightarrow> byte list \<Rightarrow> SwapService \<Rightarrow> world \<Rightarrow> svc_result" where
  "OnMessageReceived sv js peerId msgTypeString payload s w =
     (let logged = (\<lambda>swapId. logMsg (SwapId_String swapId) msgTypeString s) in
     if 100 * 1024 < length payload then Ret (Some (ErrText ''Payload is unexpectedly large''), s, w)
     else (case PeerswapCustomMessageType msgTypeString of
        Inl (ErrNotPeerswapCustomMessage _) \<Rightarrow> Ret (None, s, w)
      | Inl e \<Rightarrow> Ret (Some e, s, w)
      | Inr msgType \<Rightarrow>
     if msgType = MESSAGETYPE_SWAPOUTREQUEST then
       decoded (json_SwapOutRequest js payload) s w (\<lambda>msg.
         OnSwapOutRequestReceived sv (sor_SwapId msg) peerId msg (logged (sor_SwapId msg)) w)
     else if msgType = MESSAGETYPE_SWAPOUTAGREEMENT then
       decoded (json_SwapOutAgreement js payload) s w (\<lambda>msg.
         from_partner peerId (soa_SwapId msg) (logged (soa_SwapId msg)) w (OnSwapOutAgreementReceived sv msg))
     else if msgType = MESSAGETYPE_OPENINGTXBROADCASTED then
       decoded (json_OpeningTxBroadcasted js payload) s w (\<lambda>msg.
         from_partner peerId (otb_SwapId msg) (logged (otb_SwapId msg)) w (OnTxOpenedMessage sv msg))
     else if msgType = MESSAGETYPE_CANCELED then
       decoded (json_Cancel js payload) s w (\<lambda>msg.
         from_partner peerId (cm_SwapId msg) (logged (cm_SwapId msg)) w (OnCancelReceived sv (cm_SwapId msg) msg))
     else if msgType = MESSAGETYPE_SWAPINREQUEST then
       decoded (json_SwapInRequest js payload) s w (\<lambda>msg.
         OnSwapInRequestReceived sv (sir_SwapId msg) peerId msg (logged (sir_SwapId msg)) w)
     else if msgType = MESSAGETYPE_SWAPINAGREEMENT then
       decoded (json_SwapInAgreement js payload) s w (\<lambda>msg.
         from_partner peerId (sia_SwapId msg) (logged (sia_SwapId msg)) w (OnSwapInAgreementReceived sv msg))
     else if msgType = MESSAGETYPE_COOPCLOSE then
       decoded (json_CoopClose js payload) s w (\<lambda>msg.
         from_partner peerId (cc_SwapId msg) (logged (cc_SwapId msg)) w (OnCoopCloseReceived sv (cc_SwapId msg) msg))
     else Ret (None, s, w)))"

section \<open>Stored swaps and recovery\<close>

definition HasActiveSwaps :: "SwapServices \<Rightarrow> world \<Rightarrow> go_error + bool" where
  "HasActiveSwaps sv w = (case ListAll (sv_bolt sv) (w_clock w) (w_store w) of
     Inl e \<Rightarrow> Inl e | Inr swaps \<Rightarrow> Inr (\<exists>swap \<in> set swaps. \<not> IsFinished swap))"

definition ListActiveSwaps :: "SwapServices \<Rightarrow> world \<Rightarrow> go_error + SwapStateMachine list" where
  "ListActiveSwaps sv w = (case ListAll (sv_bolt sv) (w_clock w) (w_store w) of
     Inl e \<Rightarrow> Inl e | Inr swaps \<Rightarrow> Inr (filter (\<lambda>swap. \<not> IsFinished swap) swaps))"

definition ListSwaps :: "SwapServices \<Rightarrow> world \<Rightarrow> go_error + SwapStateMachine list" where
  "ListSwaps sv w = ListAll (sv_bolt sv) (w_clock w) (w_store w)"

definition ListSwapsByPeer :: "SwapServices \<Rightarrow> string \<Rightarrow> world \<Rightarrow> go_error + SwapStateMachine list" where
  "ListSwapsByPeer sv peer w = ListAllByPeer (sv_bolt sv) (w_clock w) peer (w_store w)"

definition GetSwap :: "SwapServices \<Rightarrow> string \<Rightarrow> world \<Rightarrow> go_error + SwapStateMachine" where
  "GetSwap sv swapId w = GetData (sv_bolt sv) (w_clock w) swapId (w_store w)"

text \<open>
  The goroutine of \<open>RecoverSwaps\<close> for one stored swap.  The goroutines run here one after the other
  in the order of the store.
\<close>

definition recover_swap :: "SwapServices \<Rightarrow> SwapStateMachine \<Rightarrow> SwapService \<times> world \<Rightarrow> (SwapService \<times> world) outcome" where
  "recover_swap sv swap = (\<lambda>(s, w).
     if IsFinished swap then Ret (s, w)
     else (case lockSwap (SwapId_String (sm_SwapId swap)) (GetScid (sm_Data swap)) swap s of
        (Some e, s) \<Rightarrow> Ret (s, w)
      | (None, s) \<Rightarrow> (case Recover sv swap w of
          Panic \<Rightarrow> Panic | OutOfFuel \<Rightarrow> OutOfFuel
        | Ret ((finished, err), swap, w) \<Rightarrow>
            (let s = put_active (SwapId_String (sm_SwapId swap)) swap s in
             case err of Some e \<Rightarrow> Ret (s, w) | None \<Rightarrow> Ret (remove_if finished swap s, w)))))"

fun recover_all :: "SwapServices \<Rightarrow> SwapStateMachine list \<Rightarrow> SwapService \<times> world \<Rightarrow> (SwapService \<times> world) outcome" where
  "recover_all sv [] sw = Ret sw"
| "recover_all sv (swap # swaps) sw = (case recover_swap sv swap sw of
     Ret sw \<Rightarrow> recover_all sv swaps sw | r \<Rightarrow> r)"

definition RecoverSwaps :: "SwapServices \<Rightarrow> SwapService \<Rightarrow> world \<Rightarrow> svc_result" where
  "RecoverSwaps sv s w = (case ListAll (sv_bolt sv) (w_clock w) (w_store w) of
     Inl e \<Rightarrow> Ret (Some e, s, tick 1 w)
   | Inr swaps \<Rightarrow> (case recover_all sv swaps (s, tick 1 w) of
       Ret (s, w) \<Rightarrow> Ret (None, s, w) | Panic \<Rightarrow> Panic | OutOfFuel \<Rightarrow> OutOfFuel))"

end
