(* ===== verification/PS_ActiveSwaps.thy ===== *)
theory PS_ActiveSwaps
  imports PS_Service "HOL-Library.Multiset"
begin

text \<open>
  The guarantees of the swap service: the table of active swaps is keyed by the swap id and holds at
  most one swap per channel text, through every sequence of messages, callbacks, requests of the
  operator and restarts; messages of other peers do not reach a swap; a request is admitted only
  after all its checks.
\<close>

section \<open>What an event leaves of a machine\<close>

text \<open>The fields of the swap data that are fixed once the request is known.\<close>

definition fixed :: "SwapData \<Rightarrow> SwapInRequestMessage option \<times> SwapOutRequestMessage option \<times> string" where
  "fixed d = (SwapInRequest d, SwapOutRequest d, PeerNodeId d)"

lemma fixed_GetScid: "fixed d' = fixed d \<Longrightarrow> GetScid d' = GetScid d"
  by (simp add: fixed_def GetScid_def cong: option.case_cong)

lemma fixed_PeerNodeId: "fixed d' = fixed d \<Longrightarrow> PeerNodeId d' = PeerNodeId d"
  by (simp add: fixed_def)

lemma fixed_simps [simp]:
  "fixed (d\<lparr>LastErr := x0\<rparr>) = fixed d" "fixed (d\<lparr>LastErrString := x1\<rparr>) = fixed d"
  "fixed (d\<lparr>CancelMsg := x2\<rparr>) = fixed d" "fixed (d\<lparr>ClaimPreimage := x3\<rparr>) = fixed d"
  "fixed (d\<lparr>OpeningTxFee := x4\<rparr>) = fixed d" "fixed (d\<lparr>FeePreimage := x5\<rparr>) = fixed d"
  "fixed (d\<lparr>BlindingKeyHex := x6\<rparr>) = fixed d" "fixed (d\<lparr>NextMessage := x7\<rparr>) = fixed d"
  "fixed (d\<lparr>NextMessageType := x8\<rparr>) = fixed d" "fixed (d\<lparr>StartingBlockHeight := x9\<rparr>) = fixed d"
  "fixed (d\<lparr>StartingBlockHeightSet := x10\<rparr>) = fixed d" "fixed (d\<lparr>SwapInAgreement := x11\<rparr>) = fixed d"
  "fixed (d\<lparr>SwapOutAgreement := x12\<rparr>) = fixed d" "fixed (d\<lparr>OpeningTxBroadcasted := x13\<rparr>) = fixed d"
  "fixed (d\<lparr>OpeningTxHex := x14\<rparr>) = fixed d" "fixed (d\<lparr>ClaimTxId := x15\<rparr>) = fixed d"
  "fixed (d\<lparr>ClaimPaymentHash := x16\<rparr>) = fixed d" "fixed (d\<lparr>toCancelSet := x17\<rparr>) = fixed d"
  "fixed (d\<lparr>FSMState := x18\<rparr>) = fixed d"
  by (simp_all add: fixed_def)

lemma HandleError_fixed [simp]: "fixed (HandleError err d) = fixed d"
  by (cases err) (simp_all add: HandleError_def Let_def)

lemma SetState_fixed [simp]: "fixed (SetState s d) = fixed d"
  by (simp add: SetState_def)

lemma setLiquidPaymentWindowAnchor_fixed:
  "setLiquidPaymentWindowAnchor sv d w = (e, d', w') \<Longrightarrow> fixed d' = fixed d"
  by (auto simp: setLiquidPaymentWindowAnchor_def ext_def Let_def split: if_splits sum.splits)

lemma pay_claim_loop_fixed:
  "post (\<lambda>e d' w'. fixed d' = fixed d) (pay_claim_loop sv onchain validator policy n payErr d w)"
proof (induction n arbitrary: payErr w)
  case (Suc n)
  then show ?case by simp
qed simp

lemma post_fixed: "post (\<lambda>e d' w'. fixed d' = fixed d) (Execute sv a d w)"
proof (induction a arbitrary: d w)
  case ValidateTxAndPayClaimInvoiceAction
  then show ?case
    using pay_claim_loop_fixed
    by (simp add: ValidateTxAndPayClaimInvoiceAction_Execute_def action_parts)
next
  case (CheckRequestWrapperAction a)
  then show ?case
    by (simp add: CheckRequestWrapperAction_Execute_def action_parts)
next
  case (SetBlindingKeyActionWrapper a)
  have "post (\<lambda>e d' w'. fixed d' = fixed d) (Execute sv a (d\<lparr>BlindingKeyHex := k\<rparr>) w)" for k w
    using SetBlindingKeyActionWrapper [of "d\<lparr>BlindingKeyHex := k\<rparr>" w] by simp
  then show ?case
    using SetBlindingKeyActionWrapper by (simp add: SetBlindingKeyActionWrapper_Execute_def)
next
  case SwapInReceiverInitAction
  then show ?case
    by (auto simp: SwapInReceiverInitAction_Execute_def action_parts set_next_def
        dest: setLiquidPaymentWindowAnchor_fixed)
next
  case CreateSwapRequestAction
  then show ?case
    by (auto simp: CreateSwapRequestAction_Execute_def action_parts set_next_def
        dest: setLiquidPaymentWindowAnchor_fixed)
qed (simp_all add: action_defs action_parts set_next_def split: option.split)

lemma Execute_fixed: "Execute sv a d w = Some (e, d', w') \<Longrightarrow> fixed d' = fixed d"
  using post_fixed [of d sv a w] by (simp add: post_def)

text \<open>What no event changes: the id of the machine and its fixed data.\<close>

definition same_swap :: "SwapStateMachine \<Rightarrow> SwapStateMachine \<Rightarrow> bool" where
  "same_swap sm sm' \<longleftrightarrow> sm_SwapId sm' = sm_SwapId sm \<and> fixed (sm_Data sm') = fixed (sm_Data sm)"

lemma same_swap_refl [simp]: "same_swap sm sm"
  by (simp add: same_swap_def)

lemma same_swap_trans: "same_swap sm sm1 \<Longrightarrow> same_swap sm1 sm2 \<Longrightarrow> same_swap sm sm2"
  by (simp add: same_swap_def)

lemma same_swap_fields [simp]:
  "same_swap sm (sm'\<lparr>sm_retries := n\<rparr>) \<longleftrightarrow> same_swap sm sm'"
  "same_swap sm (sm\<lparr>sm_Data := d\<rparr>) \<longleftrightarrow> fixed d = fixed (sm_Data sm)"
  by (simp_all add: same_swap_def)

lemma after_action_same:
  "after_action sv e sm w = Continue e' sm' w' \<Longrightarrow> same_swap sm sm'"
  "after_action sv e sm w = Halt r sm' w' \<Longrightarrow> same_swap sm sm'"
  by (auto simp: after_action_def Let_def split: prod.splits option.splits if_splits)

lemma fsm_round_same:
  "fsm_round sv event sm w = Continue e sm' w' \<Longrightarrow> same_swap sm sm'"
  "fsm_round sv event sm w = Halt r sm' w' \<Longrightarrow> same_swap sm sm'"
proof -
  have step: "same_swap sm ((enter_state s sm)\<lparr>sm_Data := d\<rparr>)"
    if "Execute sv a (SetState s (sm_Data sm)) w1 = Some (e, d, w2)" for s a w1 e d w2
    using Execute_fixed [OF that] by (simp add: same_swap_def enter_state_def)
  show "fsm_round sv event sm w = Continue e sm' w' \<Longrightarrow> same_swap sm sm'"
    "fsm_round sv event sm w = Halt r sm' w' \<Longrightarrow> same_swap sm sm'"
    by (auto simp: fsm_round_def Let_def split: sum.splits option.splits prod.splits
        dest!: step after_action_same intro: same_swap_trans)
qed

lemma fsm_loop_same: "fsm_loop sv n event sm w = Ret (r, sm', w') \<Longrightarrow> same_swap sm sm'"
  by (erule fsm_loop_rule [where J = "\<lambda>_ x _. same_swap sm x"])
    (auto dest: fsm_round_same intro: same_swap_trans)

lemma store_and_run_same: "store_and_run sv event sm w = Ret (r, sm', w') \<Longrightarrow> same_swap sm sm'"
  by (auto elim!: store_and_run_rule dest: fsm_loop_same)

text \<open>A context that is not a request leaves the fixed data alone.\<close>

definition request_ctx :: "EventContext \<Rightarrow> bool" where
  "request_ctx ctx \<longleftrightarrow> (case ctx of MsgCtx m \<Rightarrow> is_request m | SwapErrorContext _ _ \<Rightarrow> False)"

lemma ApplyToSwapData_fixed:
  assumes "EventContext_ApplyToSwapData ctx d = (e, d')" "\<not> request_ctx ctx"
  shows "fixed d' = fixed d"
proof (cases ctx)
  case (MsgCtx m)
  then show ?thesis
    using assms by (cases m) (auto simp: request_ctx_def is_request_def fixed_def split: if_splits)
next
  case (SwapErrorContext err send)
  then show ?thesis using assms by (auto simp: Let_def split: option.splits)
qed

lemma SendEvent_same:
  assumes "SendEvent sv event ctx sm w = Ret (r, sm', w')" "\<And>c. ctx = Some c \<Longrightarrow> \<not> request_ctx c"
  shows "same_swap sm sm'"
  using assms ApplyToSwapData_fixed
  by (auto simp: SendEvent_def same_swap_def split: if_splits option.splits prod.splits
      dest!: store_and_run_same)

lemma SendEvent_context:
  assumes "SendEvent sv event (Some ctx) sm w = Ret (r, sm', w')"
  shows "sm_SwapId sm' = sm_SwapId sm \<and> (fixed (sm_Data sm') = fixed (sm_Data sm) \<or>
    fixed (sm_Data sm') = fixed (snd (EventContext_ApplyToSwapData ctx (sm_Data sm))))"
  using assms
  by (cases "EventContext_ApplyToSwapData ctx (sm_Data sm)")
    (auto simp: SendEvent_def same_swap_def split: if_splits option.splits dest!: store_and_run_same)

lemma Recover_same: "Recover sv sm w = Ret (r, sm', w') \<Longrightarrow> same_swap sm sm'"
  by (auto simp: Recover_def Let_def same_swap_def split: option.splits prod.splits if_splits
      dest!: SendEvent_same Execute_fixed)

text \<open>A request gives a new machine the channel of the request, if it is accepted as valid.\<close>

definition request_scid :: "PeerMessage \<Rightarrow> string" where
  "request_scid m = (case m of MsgSwapInRequest r \<Rightarrow> sir_Scid r | MsgSwapOutRequest r \<Rightarrow> sor_Scid r | _ \<Rightarrow> '''')"

lemma SendEvent_request:
  assumes "SendEvent sv event (Some (MsgCtx m)) sm w = Ret (r, sm', w')" "is_request m"
    and "no_request (sm_Data sm)"
  shows "sm_SwapId sm' = sm_SwapId sm \<and> GetScid (sm_Data sm') \<in> {'''', request_scid m} \<and>
    PeerNodeId (sm_Data sm') = PeerNodeId (sm_Data sm)"
proof -
  have scid: "GetScid d \<in> {'''', request_scid m} \<and> PeerNodeId d = PeerNodeId (sm_Data sm)"
    if "fixed d = fixed (sm_Data sm) \<or> fixed d = fixed (snd (PeerMessage_ApplyToSwapData m (sm_Data sm)))" for d
    using that assms(2,3)
    by (cases m) (auto simp: fixed_def no_request_def is_request_def GetScid_def request_scid_def
        split: option.splits)
  show ?thesis
    using SendEvent_context [OF assms(1)] scid [of "sm_Data sm'"] by simp
qed

section \<open>A table with a lock per channel\<close>

text \<open>
  The invariant of the table: an entry is stored under its own id, and no two entries have the same
  non-empty channel.
\<close>

definition exclusive :: "('v \<Rightarrow> 'k) \<Rightarrow> ('v \<Rightarrow> string) \<Rightarrow> ('k \<Rightarrow> 'v option) \<Rightarrow> bool" where
  "exclusive ident chan m \<longleftrightarrow> (\<forall>k v. m k = Some v \<longrightarrow> ident v = k) \<and>
     (\<forall>k k' v v'. m k = Some v \<and> m k' = Some v' \<and> chan v = chan v' \<and> chan v \<noteq> '''' \<longrightarrow> k = k')"

text \<open>The contract of the operations on the table, and what follows from it.\<close>

locale channel_table =
  fixes entry :: "'s \<Rightarrow> 'k \<Rightarrow> 'v option"
    and put :: "'k \<Rightarrow> 'v \<Rightarrow> 's \<Rightarrow> 's"
    and remove :: "'k \<Rightarrow> 's \<Rightarrow> 's"
    and lock :: "'k \<Rightarrow> string \<Rightarrow> 'v \<Rightarrow> 's \<Rightarrow> 'e option \<times> 's"
    and ident :: "'v \<Rightarrow> 'k"
    and chan :: "'v \<Rightarrow> string"
  assumes entry_put: "entry (put k v s) = (entry s)(k \<mapsto> v)"
    and entry_remove: "entry (remove k s) = (entry s)(k := None)"
    and lock_free: "lock k c v s = (None, s') \<Longrightarrow>
      entry s' = (entry s)(k \<mapsto> v) \<and> (\<forall>k' v'. entry s k' = Some v' \<longrightarrow> chan v' \<noteq> c)"
    and lock_taken: "lock k c v s = (Some e, s') \<Longrightarrow> s' = s"
begin

lemma exclusive_put:
  assumes "exclusive ident chan (entry s)" "entry s k = Some v" "ident v' = ident v" "chan v' = chan v"
  shows "exclusive ident chan (entry (put k v' s))"
  using assms by (simp add: exclusive_def entry_put) metis

lemma exclusive_remove:
  "exclusive ident chan (entry s) \<Longrightarrow> exclusive ident chan (entry (remove k s))"
  by (simp add: exclusive_def entry_remove)

lemma exclusive_lock:
  assumes "exclusive ident chan (entry s)" "lock k c v s = (None, s1)" "ident v' = k" "chan v' \<in> {'''', c}"
  shows "exclusive ident chan (entry (put k v' s1))"
  using assms(1,3,4) lock_free [OF assms(2)] by (simp add: exclusive_def entry_put) metis

lemma lock_refuses_taken:
  assumes "entry s k' = Some v'" "chan v' = c"
  shows "fst (lock k c v s) \<noteq> None"
  using assms lock_free by (metis prod.collapse)

end

definition swap_ident :: "SwapStateMachine \<Rightarrow> string" where
  "swap_ident sm = SwapId_String (sm_SwapId sm)"

definition swap_channel :: "SwapStateMachine \<Rightarrow> string" where
  "swap_channel sm = GetScid (sm_Data sm)"

definition active :: "SwapService \<Rightarrow> string \<Rightarrow> SwapStateMachine option" where
  "active s = map_of (activeSwaps s)"

definition put_swap_entry :: "string \<Rightarrow> SwapStateMachine \<Rightarrow> SwapService \<Rightarrow> SwapService" where
  "put_swap_entry k sm s = s\<lparr>activeSwaps := AList.update k sm (activeSwaps s)\<rparr>"

interpretation swaps_table: channel_table active put_swap_entry RemoveActiveSwap lockSwap swap_ident swap_channel
proof unfold_locales
  show "active (put_swap_entry k v s) = (active s)(k \<mapsto> v)" for k v s
    by (simp add: active_def put_swap_entry_def update_conv')
  show "active (RemoveActiveSwap k s) = (active s)(k := None)" for k s
    by (simp add: active_def RemoveActiveSwap_def delete_conv')
  show "active s' = (active s)(k \<mapsto> v) \<and> (\<forall>k' v'. active s k' = Some v' \<longrightarrow> swap_channel v' \<noteq> c)"
    if "lockSwap k c v s = (None, s')" for k c v s s'
    using that
    by (auto simp: lockSwap_def active_def swap_channel_def update_conv' find_None_iff dest: map_of_SomeD
        split: option.splits)
  show "s' = s" if "lockSwap k c v s = (Some e, s')" for k c v s e s'
    using that by (auto simp: lockSwap_def split: option.splits)
qed

section \<open>The invariant of the service\<close>

definition svc_inv :: "SwapService \<Rightarrow> bool" where
  "svc_inv s \<longleftrightarrow> distinct (map fst (activeSwaps s)) \<and> exclusive swap_ident swap_channel (active s)"

lemma svc_inv_same_table: "activeSwaps s' = activeSwaps s \<Longrightarrow> svc_inv s' \<longleftrightarrow> svc_inv s"
  by (simp add: svc_inv_def active_def)

lemma svc_inv_logMsg [simp]: "svc_inv (logMsg k t s) \<longleftrightarrow> svc_inv s"
  by (simp add: svc_inv_def active_def logMsg_def)

lemma svc_inv_remove [simp]: "svc_inv s \<Longrightarrow> svc_inv (RemoveActiveSwap k s)"
  using swaps_table.exclusive_remove [of s k]
  by (simp add: svc_inv_def) (simp add: RemoveActiveSwap_def distinct_delete)

lemma svc_inv_remove_if [simp]: "svc_inv s \<Longrightarrow> svc_inv (remove_if b sm s)"
  by (simp add: remove_if_def)

lemma same_swap_ident:
  assumes "same_swap sm sm'"
  shows "swap_ident sm' = swap_ident sm" "swap_channel sm' = swap_channel sm"
    "PeerNodeId (sm_Data sm') = PeerNodeId (sm_Data sm)"
  using assms fixed_GetScid [of "sm_Data sm'" "sm_Data sm"] fixed_PeerNodeId [of "sm_Data sm'" "sm_Data sm"]
  by (simp_all add: same_swap_def swap_ident_def swap_channel_def)

lemma put_active_entry: "put_active k sm s = (if active s k = None then s else put_swap_entry k sm s)"
  by (simp add: put_active_def active_def put_swap_entry_def)

lemma svc_inv_put:
  "svc_inv s \<Longrightarrow> exclusive swap_ident swap_channel (active (put_swap_entry k sm s)) \<Longrightarrow> svc_inv (put_swap_entry k sm s)"
  by (simp add: svc_inv_def) (simp add: put_swap_entry_def distinct_update)

lemma svc_inv_put_active:
  assumes "svc_inv s" "\<And>sm0. active s k = Some sm0 \<Longrightarrow> same_swap sm0 sm"
  shows "svc_inv (put_active k sm s)"
proof (cases "active s k")
  case (Some sm0)
  have "exclusive swap_ident swap_channel (active (put_swap_entry k sm s))"
    using assms Some same_swap_ident [of sm0 sm] by (intro swaps_table.exclusive_put) (auto simp: svc_inv_def)
  then show ?thesis using assms(1) Some by (simp add: put_active_entry svc_inv_put)
qed (simp add: put_active_entry assms(1))

text \<open>A machine that was locked and has taken its request.\<close>

lemma svc_inv_locked:
  assumes "svc_inv s" "lockSwap k c sm s = (None, s1)" "swap_ident sm' = k" "swap_channel sm' \<in> {'''', c}"
  shows "svc_inv (put_active k sm' s1)" "active s1 k = Some sm"
proof -
  show entry: "active s1 k = Some sm"
    using swaps_table.lock_free [OF assms(2)] by simp
  have "distinct (map fst (activeSwaps s1))"
    using assms(1,2) by (auto simp: svc_inv_def lockSwap_def distinct_update split: option.splits)
  moreover have "exclusive swap_ident swap_channel (active (put_swap_entry k sm' s1))"
    using assms by (intro swaps_table.exclusive_lock) (auto simp: svc_inv_def)
  ultimately show "svc_inv (put_active k sm' s1)"
    by (simp add: put_active_entry entry svc_inv_def) (simp add: put_swap_entry_def distinct_update)
qed

text \<open>The order in which the table is visited does not matter for a named channel.\<close>

lemma lockSwap_order:
  assumes "svc_inv s" "c \<noteq> ''''" "mset t = mset (activeSwaps s)"
  shows "find (\<lambda>(k, swap). GetScid (sm_Data swap) = c) t = find (\<lambda>(k, swap). GetScid (sm_Data swap) = c) (activeSwaps s)"
proof -
  let ?P = "\<lambda>(k :: string, swap). GetScid (sm_Data swap) = c"
  have set: "set t = set (activeSwaps s)" using assms(3) by (metis set_mset_mset)
  have unique: "x = y" if "x \<in> set (activeSwaps s)" "y \<in> set (activeSwaps s)" "?P x" "?P y" for x y
  proof -
    obtain k sm k' sm' where xy: "x = (k, sm)" "y = (k', sm')" by (cases x, cases y) auto
    then have entries: "active s k = Some sm" "active s k' = Some sm'"
      using that assms(1) by (auto simp: active_def svc_inv_def)
    have "swap_channel sm = swap_channel sm'" "swap_channel sm \<noteq> ''''"
      using that xy assms(2) by (auto simp: swap_channel_def)
    then have "k = k'" using assms(1) entries unfolding svc_inv_def exclusive_def by blast
    then show ?thesis using entries xy by simp
  qed
  show ?thesis
  proof (cases "find ?P (activeSwaps s)")
    case None
    then show ?thesis using set by (metis (no_types, lifting) find_None_iff)
  next
    case (Some x)
    then have x: "x \<in> set (activeSwaps s)" "?P x" by (metis find_Some_iff nth_mem)+
    then obtain y where y: "find ?P t = Some y" using set by (metis (no_types, lifting) find_None_iff not_None_eq)
    then have "y \<in> set t" "?P y" by (metis find_Some_iff nth_mem)+
    then show ?thesis using unique x set y Some by metis
  qed
qed

section \<open>The handlers keep the invariant\<close>

text \<open>A handler for the swap \<open>k\<close> keeps the invariant and the other entries.\<close>

definition touches_only :: "string \<Rightarrow> SwapService \<Rightarrow> SwapService \<Rightarrow> bool" where
  "touches_only k s s' \<longleftrightarrow> svc_inv s' \<and> (\<forall>k'. k' \<noteq> k \<longrightarrow> active s' k' = active s k')"

lemma touches_only_refl [simp]: "touches_only k s s \<longleftrightarrow> svc_inv s"
  by (simp add: touches_only_def)

lemma touches_only_trans: "touches_only k s s1 \<Longrightarrow> touches_only k s1 s2 \<Longrightarrow> touches_only k s s2"
  by (simp add: touches_only_def)

lemma touches_only_put:
  assumes "svc_inv s" "\<And>sm0. active s k = Some sm0 \<Longrightarrow> same_swap sm0 sm"
  shows "touches_only k s (put_active k sm s)"
  using svc_inv_put_active [OF assms] by (auto simp: touches_only_def put_active_entry swaps_table.entry_put)

lemma touches_only_remove: "svc_inv s \<Longrightarrow> touches_only k s (RemoveActiveSwap k s)"
  by (simp add: touches_only_def swaps_table.entry_remove)

lemma touches_only_remove_if:
  "svc_inv s \<Longrightarrow> swap_ident sm = k \<Longrightarrow> touches_only k s (remove_if b sm s)"
  using touches_only_remove [of s k] by (simp add: remove_if_def swap_ident_def)

lemma touches_only_done:
  assumes "svc_inv s" "swap_ident sm' = k" "\<And>sm0. active s k = Some sm0 \<Longrightarrow> same_swap sm0 sm'"
  shows "touches_only k s (remove_if b sm' (put_active k sm' s))"
  using assms touches_only_put touches_only_remove_if touches_only_trans by (metis touches_only_def)

lemma active_ident: "svc_inv s \<Longrightarrow> active s k = Some sm \<Longrightarrow> swap_ident sm = k"
  by (simp add: svc_inv_def exclusive_def)

lemma GetActiveSwap_Inr: "GetActiveSwap s k = Inr sm \<longleftrightarrow> active s k = Some sm"
  by (auto simp: GetActiveSwap_def active_def split: option.splits)

lemma send_to_touches:
  assumes "send_to sv event ctx k sm s w = Ret (e, s', w')" "svc_inv s" "\<And>c. ctx = Some c \<Longrightarrow> \<not> request_ctx c"
    and "swap_ident sm = k" "\<And>sm0. active s k = Some sm0 \<Longrightarrow> same_swap sm0 sm"
  shows "touches_only k s s'"
proof -
  obtain fin err sm' w1 where run: "SendEvent sv event ctx sm w = Ret ((fin, err), sm', w1)"
    "s' = (if err = None then remove_if fin sm' (put_active k sm' s) else put_active k sm' s)"
    using assms(1) by (auto simp: send_to_def Let_def split: outcome.splits option.splits)
  have same: "same_swap sm sm'" using SendEvent_same [OF run(1) assms(3)] .
  have "touches_only k s (put_active k sm' s)" "touches_only k s (remove_if fin sm' (put_active k sm' s))"
    using assms same same_swap_ident [OF same]
    by (auto intro!: touches_only_put touches_only_done intro: same_swap_trans)
  then show ?thesis using run(2) by simp
qed

lemma send_to_active:
  assumes "send_to sv event ctx k sm s w = Ret (e, s', w')" "svc_inv s" "\<And>c. ctx = Some c \<Longrightarrow> \<not> request_ctx c"
    and "active s k = Some sm0" "same_swap sm0 sm"
  shows "touches_only k s s'"
proof -
  have "swap_ident sm = k" using same_swap_ident(1) [OF assms(5)] active_ident [OF assms(2,4)] by simp
  then show ?thesis
    using send_to_touches [OF assms(1,2)] assms(3-5) by simp
qed

lemma deliver_touches:
  assumes "deliver sv event ctx k s w = Ret (e, s', w')" "svc_inv s" "\<And>c. ctx = Some c \<Longrightarrow> \<not> request_ctx c"
  shows "touches_only k s s'"
  using assms send_to_active [of sv event ctx k _ s w e s' w']
  by (auto simp: deliver_def GetActiveSwap_Inr split: sum.splits)

lemma request_ctx_simps [simp]:
  "\<not> request_ctx (MsgCtx (MsgSwapInAgreement a))" "\<not> request_ctx (MsgCtx (MsgSwapOutAgreement b))"
  "\<not> request_ctx (MsgCtx (MsgOpeningTxBroadcasted c))" "\<not> request_ctx (MsgCtx (MsgCancel d))"
  "\<not> request_ctx (MsgCtx (MsgCoopClose e))"
  by (simp_all add: request_ctx_def is_request_def)

lemmas handler_defs = OnSwapInAgreementReceived_def OnSwapOutAgreementReceived_def
  OnFeeInvoiceNotification_def OnClaimInvoiceNotification_def OnTxOpenedMessage_def OnCancelReceived_def
  OnCoopCloseReceived_def

lemma ignore_rejected_Ret: "ignore_rejected r = Ret (e, s, w) \<Longrightarrow> \<exists>e'. r = Ret (e', s, w)"
  by (cases r) (auto simp: ignore_rejected_def)

lemma OnCsvPassed_touches:
  "OnCsvPassed sv k s w = Ret (e, s', w') \<Longrightarrow> svc_inv s \<Longrightarrow> touches_only k s s'"
  by (auto simp: OnCsvPassed_def GetActiveSwap_Inr split: sum.splits
      dest!: ignore_rejected_Ret intro: send_to_active)

lemma OnPayment_touches:
  "OnPayment sv ident ty s w = Ret (e, s', w') \<Longrightarrow> svc_inv s \<Longrightarrow> svc_inv s'"
  by (auto simp: OnPayment_def handler_defs touches_only_def split: sum.splits InvoiceType.splits outcome.splits
      dest: deliver_touches)

lemma createTimeoutCallback_touches:
  assumes "createTimeoutCallback sv k s w = Ret (e, s', w')" "svc_inv s"
  shows "touches_only k s s'"
proof (cases "GetActiveSwap s k")
  case (Inr swap)
  then obtain e1 where send: "send_to sv Event_OnTimeout None k
      (swap\<lparr>sm_Data := (sm_Data swap)\<lparr>toCancelSet := False\<rparr>\<rparr>) s w = Ret (e1, s', w')"
    using assms(1) by (auto simp: createTimeoutCallback_def split: outcome.splits)
  show ?thesis
    using send_to_active [OF send assms(2)] Inr by (simp add: GetActiveSwap_Inr)
qed (use assms in \<open>auto simp: createTimeoutCallback_def\<close>)

lemma SenderOnTxConfirmed_touches:
  assumes "SenderOnTxConfirmed sv k s w = Ret (e, s', w')" "svc_inv s"
  shows "touches_only k s s'"
proof (cases "GetActiveSwap s k")
  case (Inr swap)
  obtain e1 s1 where send: "send_to sv Event_OnTxConfirmed None k swap s w = Ret (e1, s1, w')"
    "s' = (if e1 = None then RemoveActiveSwap (SwapId_String (sm_SwapId swap)) s1 else s1)"
    using assms(1) Inr by (auto simp: SenderOnTxConfirmed_def split: outcome.splits option.splits)
  have "touches_only k s s1"
    using send_to_active [OF send(1) assms(2)] Inr by (simp add: GetActiveSwap_Inr)
  moreover have "SwapId_String (sm_SwapId swap) = k"
    using Inr active_ident [OF assms(2)] by (simp add: GetActiveSwap_Inr swap_ident_def)
  ultimately show ?thesis
    using send(2) touches_only_remove touches_only_trans by (metis touches_only_def)
qed (use assms in \<open>auto simp: SenderOnTxConfirmed_def\<close>)

lemma ResendLastMessage_touches:
  assumes "ResendLastMessage sv k s w = Ret (e, s', w')" "svc_inv s"
  shows "touches_only k s s'"
proof (cases "GetActiveSwap s k")
  case (Inr swap)
  then obtain ev d where run: "Execute sv SendMessageAction (sm_Data swap) w = Some (ev, d, w')"
    "s' = put_active k (swap\<lparr>sm_Data := d\<rparr>) s"
    using assms(1) by (auto simp: ResendLastMessage_def split: option.splits)
  then show ?thesis
    using assms(2) Inr Execute_fixed [OF run(1)] by (auto simp: GetActiveSwap_Inr intro!: touches_only_put)
qed (use assms in \<open>auto simp: ResendLastMessage_def\<close>)

lemma OnTxConfirmed_touches:
  assumes "OnTxConfirmed sv k tx err s w = Ret (e, s', w')" "svc_inv s"
  shows "touches_only k s s'"
proof (cases "GetActiveSwap s k")
  case (Inr swap)
  obtain sm1 s1 w1 where first: "watcher_error sv k err swap s w = Ret (sm1, s1, w1)"
    and "ignore_rejected (send_to sv Event_OnTxConfirmed None k
           (sm1\<lparr>sm_Data := (sm_Data sm1)\<lparr>OpeningTxHex := tx\<rparr>\<rparr>) s1 w1) = Ret (e, s', w')"
    using assms(1) Inr by (auto simp: OnTxConfirmed_def split: outcome.splits)
  then obtain e1 where send: "send_to sv Event_OnTxConfirmed None k
      (sm1\<lparr>sm_Data := (sm_Data sm1)\<lparr>OpeningTxHex := tx\<rparr>\<rparr>) s1 w1 = Ret (e1, s', w')"
    using ignore_rejected_Ret by blast
  have swap: "active s k = Some swap" "swap_ident swap = k"
    using Inr active_ident [OF assms(2)] by (simp_all add: GetActiveSwap_Inr)
  have one: "same_swap swap sm1 \<and> touches_only k s s1 \<and> (active s1 k = None \<or> active s1 k = Some sm1)"
  proof (cases "err = None")
    case False
    then obtain fin r where run: "SendEvent sv Event_ActionFailed None
        (swap\<lparr>sm_Data := (sm_Data swap)\<lparr>LastErr := None\<rparr>\<rparr>) w = Ret ((fin, r), sm1, w1)"
      "s1 = remove_if fin sm1 (put_active k sm1 s)"
      using first by (auto simp: watcher_error_def split: outcome.splits)
    have same: "same_swap swap sm1" using SendEvent_same [OF run(1)] by (simp add: same_swap_def)
    then have "swap_ident sm1 = k" using same_swap_ident(1) swap(2) by simp
    then show ?thesis
      using same run(2) swap assms(2) touches_only_done [of s sm1 k fin]
      by (auto simp: remove_if_def put_active_entry swaps_table.entry_put swaps_table.entry_remove swap_ident_def)
  qed (use first swap assms(2) in \<open>auto simp: watcher_error_def\<close>)
  have "same_swap sm1 (sm1\<lparr>sm_Data := (sm_Data sm1)\<lparr>OpeningTxHex := tx\<rparr>\<rparr>)" by simp
  moreover have "swap_ident sm1 = k" using one same_swap_ident(1) [of swap sm1] swap(2) by simp
  ultimately have "touches_only k s1 s'"
    using send_to_touches [OF send] one same_swap_ident(1) by (auto simp: touches_only_def swap_ident_def)
  then show ?thesis using one touches_only_trans by blast
qed (use assms in \<open>auto simp: OnTxConfirmed_def\<close>)

text \<open>New machines have no request yet.\<close>

lemma new_machines [simp]:
  "no_request (sm_Data (newSwapInReceiverFSM i p k n))" "no_request (sm_Data (newSwapOutReceiverFSM i p k n))"
  "no_request (sm_Data (newSwapInSenderFSM j q p k n))" "no_request (sm_Data (newSwapOutSenderFSM j q p k n))"
  "swap_ident (newSwapInReceiverFSM i p k n) = SwapId_String i"
  "swap_ident (newSwapOutReceiverFSM i p k n) = SwapId_String i"
  "PeerNodeId (sm_Data (newSwapInReceiverFSM i p k n)) = p"
  "PeerNodeId (sm_Data (newSwapOutReceiverFSM i p k n)) = p"
  by (simp_all add: newSwapInReceiverFSM_def newSwapOutReceiverFSM_def newSwapInSenderFSM_def
      newSwapOutSenderFSM_def NewSwapDataFromRequest_def NewSwapData_def no_request_def empty_SwapData_def
      swap_ident_def)

lemma no_request_scid [simp]: "no_request d \<Longrightarrow> GetScid d = ''''"
  by (simp add: no_request_def GetScid_def)

text \<open>A locked machine after its request.\<close>

lemma locked_touches:
  assumes "svc_inv s" "lockSwap (swap_ident sm) (request_scid m) sm s = (None, s1)" "no_request (sm_Data sm)"
    and "is_request m" "SendEvent sv event (Some (MsgCtx m)) sm w = Ret (r, sm', w')"
  shows "touches_only (swap_ident sm) s (put_active (swap_ident sm) sm' s1)"
    "touches_only (swap_ident sm) s (remove_if b sm' (put_active (swap_ident sm) sm' s1))"
proof -
  have sm': "swap_ident sm' = swap_ident sm" "swap_channel sm' \<in> {'''', request_scid m}"
    using SendEvent_request [OF assms(5,4,3)] by (simp_all add: swap_ident_def swap_channel_def)
  have "active s1 = (active s)(swap_ident sm \<mapsto> sm)" using swaps_table.lock_free [OF assms(2)] by blast
  then show put: "touches_only (swap_ident sm) s (put_active (swap_ident sm) sm' s1)"
    using svc_inv_locked(1) [OF assms(1,2) sm'(1)] sm'(2)
    by (simp add: touches_only_def put_active_entry swaps_table.entry_put)
  then show "touches_only (swap_ident sm) s (remove_if b sm' (put_active (swap_ident sm) sm' s1))"
    using touches_only_remove_if touches_only_trans sm'(1) by (metis touches_only_def)
qed

lemma lock_only_touches:
  assumes "svc_inv s" "lockSwap (swap_ident sm) c sm s = (e, s1)" "no_request (sm_Data sm)"
  shows "touches_only (swap_ident sm) s s1"
proof (cases e)
  case None
  have "active s1 = (active s)(swap_ident sm \<mapsto> sm)" "active s1 (swap_ident sm) = Some sm"
    using swaps_table.lock_free [of "swap_ident sm" c sm s s1] assms(2) None by simp_all
  moreover have "put_active (swap_ident sm) sm s1 = s1"
    using assms(2) None by (auto simp: put_active_def lockSwap_def split: option.splits)
  ultimately show ?thesis
    using svc_inv_locked(1) [of s "swap_ident sm" c sm s1 sm] assms None
    by (simp add: touches_only_def swap_channel_def)
next
  case (Some err)
  then show ?thesis using swaps_table.lock_taken [of "swap_ident sm" c sm s err s1] assms by simp
qed

lemma refuse_Ret: "refuse sv p i t s w = Ret (e, s', w') \<Longrightarrow> s' = s"
  by (auto simp: refuse_def Let_def split: prod.splits)

lemma new_receiver_Some:
  "new_receiver sv f i p w = Some (sm, w') \<longleftrightarrow>
     (\<exists>key. rand_privkey sv (w_clock w) = Inr key \<and> w' = emit DrewRandom w \<and>
        sm = f i p (PrivKey_Serialize (sv_crypto sv) key) (time_now sv (w_clock w')))"
  by (auto simp: new_receiver_def fresh_key_def ext_def Let_def split: sum.splits)

lemma new_sender_Some:
  "new_sender sv f i p w = Some (sm, w') \<Longrightarrow> \<exists>ident key now. sm = f ident i p key now"
  by (auto simp: new_sender_def fresh_key_def ext_def Let_def split: sum.splits)

text \<open>A request of a peer changes at most the entry of its own id.\<close>

lemma OnSwapInRequestReceived_touches:
  assumes run: "OnSwapInRequestReceived sv i p m s w = Ret (e, s', w')" and inv: "svc_inv s"
  shows "touches_only (SwapId_String i) s s'"
proof -
  have locked: "touches_only (SwapId_String i) s (remove_if fin sm' (put_active (SwapId_String i) sm' s1))"
    if "new_receiver sv newSwapInReceiverFSM i p w1 = Some (sm, w2)"
      "lockSwap (SwapId_String (sm_SwapId sm)) (sir_Scid m) sm s = (None, s1)"
      "SendEvent sv event (Some (MsgCtx (MsgSwapInRequest m))) sm w2 = Ret (r, sm', w3)"
    for w1 w2 w3 sm s1 event r sm' fin
    using that locked_touches(2) [of s sm "MsgSwapInRequest m" s1 sv event w2 r sm' w3 fin] inv
    by (auto simp: new_receiver_Some request_scid_def is_request_def swap_ident_def [symmetric])
  have refused: "touches_only (SwapId_String i) s s2"
    if "lockSwap k c sm s = (Some err, s1)" "refuse sv p i t s1 w1 = Ret (e, s2, w2)" for k c sm err s1 t w1 s2 w2
    using that inv by (auto dest!: refuse_Ret swaps_table.lock_taken)
  show ?thesis
    using run inv locked refused
    by (auto simp: OnSwapInRequestReceived_def Let_def split: prod.splits sum.splits option.splits if_splits outcome.splits
        dest: refuse_Ret)
qed

lemma OnSwapOutRequestReceived_touches:
  assumes run: "OnSwapOutRequestReceived sv i p m s w = Ret (e, s', w')" and inv: "svc_inv s"
  shows "touches_only (SwapId_String i) s s'"
proof -
  have locked: "touches_only (SwapId_String i) s s2"
    if new: "new_receiver sv newSwapOutReceiverFSM i p w1 = Some (sm, w2)"
      and lock: "lockSwap (SwapId_String (sm_SwapId sm)) (sor_Scid m) sm s = (None, s1)"
      and send: "send_to sv event (Some (MsgCtx (MsgSwapOutRequest m))) (SwapId_String i) sm s1 w2 = Ret (e, s2, w3)"
    for w1 w2 w3 sm s1 event e s2
  proof -
    obtain fin err sm' where "SendEvent sv event (Some (MsgCtx (MsgSwapOutRequest m))) sm w2 = Ret ((fin, err), sm', w3)"
      "s2 = (if err = None then remove_if fin sm' (put_active (SwapId_String i) sm' s1) else put_active (SwapId_String i) sm' s1)"
      using send by (auto simp: send_to_def Let_def split: outcome.splits option.splits)
    then show ?thesis
      using new lock locked_touches [of s sm "MsgSwapOutRequest m" s1 sv event w2 "(fin, err)" sm' w3] inv
      by (auto simp: new_receiver_Some request_scid_def is_request_def swap_ident_def [symmetric])
  qed
  have refused: "touches_only (SwapId_String i) s s2"
    if "lockSwap k c sm s = (Some err, s1)" "refuse sv p i t s1 w1 = Ret (e, s2, w2)" for k c sm err s1 t w1 s2 w2
    using that inv by (auto dest!: refuse_Ret swaps_table.lock_taken)
  show ?thesis
    using run inv locked refused
    by (auto simp: OnSwapOutRequestReceived_def Let_def split: prod.splits sum.splits option.splits if_splits
        dest: refuse_Ret)
qed

text \<open>Starting a swap.\<close>

lemma new_sender_machines:
  "new_sender sv newSwapOutSenderFSM i p w = Some (sm, w') \<Longrightarrow> no_request (sm_Data sm)"
  "new_sender sv newSwapInSenderFSM i p w = Some (sm, w') \<Longrightarrow> no_request (sm_Data sm)"
  by (auto dest!: new_sender_Some)

lemma request_swap_inv:
  assumes "request_swap sv event m sm s1 w = Ret (r, s', w')" "is_request m" "no_request (sm_Data sm)"
    and "lockSwap (SwapId_String (sm_SwapId sm)) (request_scid m) sm s = (None, s1)" "svc_inv s"
  shows "svc_inv s'"
proof -
  obtain fin err sm' where run: "SendEvent sv event (Some (MsgCtx m)) sm w = Ret ((fin, err), sm', w')"
    "s' = (if err = None then remove_if fin sm' (put_active (SwapId_String (sm_SwapId sm')) sm' s1)
           else put_active (SwapId_String (sm_SwapId sm')) sm' s1)"
    using assms(1) by (auto simp: request_swap_def Let_def split: outcome.splits option.splits)
  have "SwapId_String (sm_SwapId sm') = swap_ident sm"
    using SendEvent_request [OF run(1) assms(2,3)] by (simp add: swap_ident_def)
  then show ?thesis
    using run(2) locked_touches [OF assms(5) _ assms(3,2) run(1)] assms(4)
    by (auto simp: touches_only_def swap_ident_def)
qed

lemma SwapService_SwapOut_inv:
  "SwapService_SwapOut sv p c ch i a r s w = Ret (res, s', w') \<Longrightarrow> svc_inv s \<Longrightarrow> svc_inv s'"
  by (auto simp: SwapService_SwapOut_def swap_ident_def [symmetric]
      split: prod.splits sum.splits option.splits if_splits
      dest: lock_only_touches [OF _ _ new_sender_machines(1)] simp: touches_only_def
      dest!: request_swap_inv [OF _ _ new_sender_machines(1)] simp: is_request_def request_scid_def)

lemma SwapService_SwapIn_inv:
  "SwapService_SwapIn sv p c ch i a r s w = Ret (res, s', w') \<Longrightarrow> svc_inv s \<Longrightarrow> svc_inv s'"
  by (auto simp: SwapService_SwapIn_def swap_ident_def [symmetric]
      split: prod.splits sum.splits option.splits if_splits
      dest: lock_only_touches [OF _ _ new_sender_machines(2)] simp: touches_only_def
      dest!: request_swap_inv [OF _ _ new_sender_machines(2)] simp: is_request_def request_scid_def)

text \<open>Recovery.\<close>

lemma recover_swap_inv:
  assumes "recover_swap sv sm (s, w) = Ret (s', w')" "svc_inv s"
  shows "svc_inv s'"
proof -
  have "svc_inv (put_active (SwapId_String (sm_SwapId sm')) sm' s1)"
    if lock: "lockSwap (SwapId_String (sm_SwapId sm)) (GetScid (sm_Data sm)) sm s = (None, s1)"
      and "Recover sv sm w = Ret (r, sm', w1)" for s1 r sm' w1
  proof -
    have "same_swap sm sm'" using Recover_same [OF that(2)] .
    then show ?thesis
      using svc_inv_locked(1) [OF assms(2) lock, of sm'] same_swap_ident [of sm sm']
      by (simp add: swap_ident_def swap_channel_def)
  qed
  moreover have "s1 = s" if "lockSwap k c sm s = (Some e, s1)" for k c e s1
    using swaps_table.lock_taken [OF that] .
  ultimately show ?thesis
    using assms
    by (auto simp: recover_swap_def Let_def split: if_splits prod.splits option.splits outcome.splits)
qed

lemma recover_all_inv: "recover_all sv sms (s, w) = Ret (s', w') \<Longrightarrow> svc_inv s \<Longrightarrow> svc_inv s'"
  by (induction sms arbitrary: s w) (auto split: outcome.splits dest: recover_swap_inv)

lemma RecoverSwaps_inv: "RecoverSwaps sv s w = Ret (e, s', w') \<Longrightarrow> svc_inv s \<Longrightarrow> svc_inv s'"
  by (auto simp: RecoverSwaps_def split: sum.splits outcome.splits dest: recover_all_inv)

lemma svc_inv_new [simp]: "svc_inv (NewSwapService sv)"
  by (simp add: svc_inv_def NewSwapService_def active_def exclusive_def)

text \<open>Messages.\<close>

lemma decoded_Ret:
  "decoded r s w k = Ret (e, s', w') \<Longrightarrow> (s' = s \<and> w' = w) \<or> (\<exists>m. r = Inr (Some m) \<and> k m = Ret (e, s', w'))"
  by (auto simp: decoded_def split: sum.splits option.splits)

lemma from_partner_Ret:
  "from_partner p i s w k = Ret (e, s', w') \<Longrightarrow> (s' = s \<and> w' = w \<and> e \<noteq> None) \<or>
     (\<exists>sm. active s (SwapId_String i) = Some sm \<and> PeerNodeId (sm_Data sm) = p \<and> k s w = Ret (e, s', w'))"
  by (auto simp: from_partner_def isMessageSenderExpectedPeer_def GetActiveSwap_def active_def
      split: sum.splits if_splits option.splits)

lemma active_logMsg [simp]: "active (logMsg k t s) = active s"
  by (simp add: active_def logMsg_def)

lemma OnMessageReceived_touches:
  assumes run: "OnMessageReceived sv js p t payload s w = Ret (e, s', w')" and inv: "svc_inv s"
  shows "svc_inv s' \<and> (active s' = active s \<or> (\<exists>k. touches_only k s s' \<and>
    ((\<exists>sm. active s k = Some sm \<and> PeerNodeId (sm_Data sm) = p) \<or>
     (\<exists>r. json_SwapOutRequest js payload = Inr (Some r) \<and> SwapId_String (sor_SwapId r) = k) \<or>
     (\<exists>r. json_SwapInRequest js payload = Inr (Some r) \<and> SwapId_String (sir_SwapId r) = k))))"
proof -
  have inv': "svc_inv (logMsg i t s)" for i using inv by simp
  have log: "touches_only k (logMsg i t s) s' \<longleftrightarrow> touches_only k s s'" for k i
    by (simp add: touches_only_def)
  have partner: ?thesis
    if "from_partner p i (logMsg j t s) w (deliver sv ev (Some c) (SwapId_String i)) = Ret (e, s', w')" "\<not> request_ctx c"
    for i j ev c
    using from_partner_Ret [OF that(1)]
  proof
    assume "s' = logMsg j t s \<and> w' = w \<and> e \<noteq> None"
    then show ?thesis using inv by simp
  next
    assume "\<exists>sm. active (logMsg j t s) (SwapId_String i) = Some sm \<and> PeerNodeId (sm_Data sm) = p \<and>
      deliver sv ev (Some c) (SwapId_String i) (logMsg j t s) w = Ret (e, s', w')"
    then obtain sm where sm: "active s (SwapId_String i) = Some sm" "PeerNodeId (sm_Data sm) = p"
      and "deliver sv ev (Some c) (SwapId_String i) (logMsg j t s) w = Ret (e, s', w')"
      by auto
    then have "touches_only (SwapId_String i) s s'"
      using deliver_touches [of sv ev "Some c" "SwapId_String i" "logMsg j t s" w e s' w'] that(2) inv' log by simp
    then show ?thesis using sm touches_only_def by blast
  qed
  have swapout: ?thesis if "OnSwapOutRequestReceived sv (sor_SwapId r) p r (logMsg i t s) w = Ret (e, s', w')"
    "json_SwapOutRequest js payload = Inr (Some r)" for r i
    using OnSwapOutRequestReceived_touches [OF that(1) inv'] log that(2) by (auto simp: touches_only_def)
  have swapin: ?thesis if "OnSwapInRequestReceived sv (sir_SwapId r) p r (logMsg i t s) w = Ret (e, s', w')"
    "json_SwapInRequest js payload = Inr (Some r)" for r i
    using OnSwapInRequestReceived_touches [OF that(1) inv'] log that(2) by (auto simp: touches_only_def)
  have same: ?thesis if "s' = s" using that inv by simp
  show ?thesis
  proof (cases "PeerswapCustomMessageType t")
    case (Inl err)
    then have "s' = s" using run by (auto simp: OnMessageReceived_def Let_def split: if_splits go_error.splits)
    then show ?thesis by (rule same)
  next
    case (Inr ty)
    show ?thesis
      using run Inr inv unfolding OnMessageReceived_def Let_def handler_defs
      by (auto split: if_splits dest!: decoded_Ret
          intro: same dest: swapout swapin partner)
  qed
qed

section \<open>Runs of the service\<close>

text \<open>
  A step of the service: a message, a callback of the watcher, the node or the timer, a request of the
  operator, a restart of the daemon, or any change of the world by the rest of the program.
\<close>

inductive svc_step :: "SwapServices \<Rightarrow> json_env \<Rightarrow> SwapService \<times> world \<Rightarrow> SwapService \<times> world \<Rightarrow> bool"
  for sv js where
  step_message: "OnMessageReceived sv js p t payload s w = Ret (e, s', w') \<Longrightarrow> svc_step sv js (s, w) (s', w')"
| step_confirmed: "OnTxConfirmed sv k tx err s w = Ret (e, s', w') \<Longrightarrow> svc_step sv js (s, w) (s', w')"
| step_csv: "OnCsvPassed sv k s w = Ret (e, s', w') \<Longrightarrow> svc_step sv js (s, w) (s', w')"
| step_payment: "OnPayment sv k ty s w = Ret (e, s', w') \<Longrightarrow> svc_step sv js (s, w) (s', w')"
| step_timeout: "createTimeoutCallback sv k s w = Ret (e, s', w') \<Longrightarrow> svc_step sv js (s, w) (s', w')"
| step_sender_confirmed: "SenderOnTxConfirmed sv k s w = Ret (e, s', w') \<Longrightarrow> svc_step sv js (s, w) (s', w')"
| step_resend: "ResendLastMessage sv k s w = Ret (e, s', w') \<Longrightarrow> svc_step sv js (s, w) (s', w')"
| step_swap_out: "SwapService_SwapOut sv p c ch i a r s w = Ret (res, s', w') \<Longrightarrow> svc_step sv js (s, w) (s', w')"
| step_swap_in: "SwapService_SwapIn sv p c ch i a r s w = Ret (res, s', w') \<Longrightarrow> svc_step sv js (s, w) (s', w')"
| step_restart: "RecoverSwaps sv (NewSwapService sv) w = Ret (e, s', w') \<Longrightarrow> svc_step sv js (s, w) (s', w')"
| step_world: "svc_step sv js (s, w) (s, w')"

lemma svc_step_inv: "svc_step sv js (s, w) (s', w') \<Longrightarrow> svc_inv s \<Longrightarrow> svc_inv s'"
proof (induction "(s, w)" "(s', w')" rule: svc_step.induct)
  case (step_message p t payload e)
  then show ?case using OnMessageReceived_touches by blast
next
  case (step_restart e)
  then show ?case using RecoverSwaps_inv by simp
qed (auto simp: touches_only_def dest: OnTxConfirmed_touches OnCsvPassed_touches OnPayment_touches
    createTimeoutCallback_touches SenderOnTxConfirmed_touches ResendLastMessage_touches
    SwapService_SwapOut_inv SwapService_SwapIn_inv)

definition svc_reachable :: "SwapServices \<Rightarrow> json_env \<Rightarrow> SwapService \<Rightarrow> world \<Rightarrow> bool" where
  "svc_reachable sv js s w \<longleftrightarrow> (\<exists>w0. (svc_step sv js)\<^sup>*\<^sup>* (NewSwapService sv, w0) (s, w))"

lemma svc_reachable_inv: "svc_reachable sv js s w \<Longrightarrow> svc_inv s"
proof -
  assume "svc_reachable sv js s w"
  then obtain w0 where "(svc_step sv js)\<^sup>*\<^sup>* (NewSwapService sv, w0) (s, w)"
    by (auto simp: svc_reachable_def)
  then have "svc_inv (fst (s, w))"
  proof (induction rule: rtranclp_induct)
    case (step y z)
    then show ?case using svc_step_inv [of sv js "fst y" "snd y" "fst z" "snd z"] by simp
  qed simp
  then show ?thesis by simp
qed

text \<open>C15. At most one swap is active per channel: after any sequence of messages, callbacks, requests
  of the operator and restarts, every active swap is in the table under its own id, and two active
  swaps that know their channel have different channel texts; hence a swap on a channel that is in
  use is refused with an error that names the channel, and the table stays as it is.\<close>

theorem one_swap_per_channel:
  assumes "svc_reachable sv js s w" "map_of (activeSwaps s) k = Some sm"
  shows "SwapId_String (sm_SwapId sm) = k \<and>
    (\<forall>k' sm'. map_of (activeSwaps s) k' = Some sm' \<and> GetScid (sm_Data sm') = GetScid (sm_Data sm) \<and>
       GetScid (sm_Data sm) \<noteq> '''' \<longrightarrow> k' = k) \<and>
    (\<exists>i. lockSwap k' (GetScid (sm_Data sm)) sm' s = (Some (ActiveSwapError (GetScid (sm_Data sm)) i), s))"
proof -
  have inv: "exclusive swap_ident swap_channel (active s)" and entry: "active s k = Some sm"
    using svc_reachable_inv [OF assms(1)] assms(2) by (simp_all add: svc_inv_def active_def)
  have "fst (lockSwap k' (GetScid (sm_Data sm)) sm' s) \<noteq> None"
    using swaps_table.lock_refuses_taken [OF entry] by (simp add: swap_channel_def)
  then have "\<exists>i. lockSwap k' (GetScid (sm_Data sm)) sm' s = (Some (ActiveSwapError (GetScid (sm_Data sm)) i), s)"
    by (auto simp: lockSwap_def split: option.splits)
  moreover have "SwapId_String (sm_SwapId sm) = k"
    using inv entry by (simp add: exclusive_def swap_ident_def)
  moreover have "k' = k" if "active s k' = Some sm'" "GetScid (sm_Data sm') = GetScid (sm_Data sm)"
    "GetScid (sm_Data sm) \<noteq> ''''" for k' sm'
    using inv entry that unfolding exclusive_def swap_channel_def by metis
  ultimately show ?thesis by (simp add: active_def)
qed

text \<open>A service in which the demonstration swap is active, reached by recovering it from the store.\<close>

definition demo_service :: SwapService where
  "demo_service = \<lparr>activeSwaps = [(hex_EncodeToString (replicate 32 1),
       demo_sm SWAPTYPE_IN SWAPROLE_SENDER State_SwapInSender_AwaitAgreement)],
     lastMsgLog = Map.empty, BitcoinEnabled = True, LiquidEnabled = True\<rparr>"

definition demo_json :: json_env where
  "demo_json = \<lparr>json_SwapInRequest = (\<lambda>_. Inr None), json_SwapInAgreement = (\<lambda>_. Inr None),
     json_SwapOutRequest = (\<lambda>_. Inr None), json_SwapOutAgreement = (\<lambda>_. Inr None),
     json_OpeningTxBroadcasted = (\<lambda>_. Inr None),
     json_Cancel = (\<lambda>_. Inr (Some \<lparr>cm_SwapId = Some (replicate 32 1), cm_Message = ''''\<rparr>)),
     json_CoopClose = (\<lambda>_. Inr None)\<rparr>"

lemma demo_recovered:
  "\<exists>w. RecoverSwaps demo_services (NewSwapService demo_services) (demo_world\<lparr>w_store :=
      Some [h2b ''00'' \<mapsto> demo_sm SWAPTYPE_IN SWAPROLE_SENDER State_SwapInSender_AwaitAgreement]\<rparr>) =
    Ret (None, demo_service, w)"
proof -
  have lookup: "map_of getSwapInSenderStates State_SwapInSender_AwaitAgreement = Some (state (Some NoOpAction)
      [(Event_OnCancelReceived, State_SwapCanceled), (Event_OnTimeout, State_SendCancel),
       (Event_SwapInSender_OnAgreementReceived, State_SwapInSender_BroadcastOpeningTx),
       (Event_OnInvalid_Message, State_SendCancel)])"
    by (simp add: getSwapInSenderStates_def)
  have bolt: "sv_bolt demo_services = bolt_ok" by (simp add: demo_services_def)
  show ?thesis
    by (simp add: RecoverSwaps_def ListAll_def db_View_def bolt bucket_values_def recover_swap_def IsFinished_def
        NewSwapService_def lockSwap_def Recover_def lookup NoOpAction_Execute_def Let_def world_UpdateData_ok
        put_active_def remove_if_def demo_service_def SwapId_String_def)
qed

lemma demo_service_reachable: "\<exists>w. svc_reachable demo_services demo_json demo_service w"
  unfolding svc_reachable_def using demo_recovered step_restart r_into_rtranclp by metis

theorem one_swap_per_channel_witness:
  "\<exists>i. lockSwap ''01'' ''1x2x3'' (demo_sm SWAPTYPE_OUT SWAPROLE_SENDER Default) demo_service =
    (Some (ActiveSwapError ''1x2x3'' i), demo_service)"
proof -
  obtain w where "svc_reachable demo_services demo_json demo_service w"
    using demo_service_reachable by blast
  then show ?thesis
    using one_swap_per_channel [of demo_services demo_json demo_service w "hex_EncodeToString (replicate 32 1)"
        "demo_sm SWAPTYPE_IN SWAPROLE_SENDER State_SwapInSender_AwaitAgreement" "''01''"
        "demo_sm SWAPTYPE_OUT SWAPROLE_SENDER Default"]
    by (simp add: demo_service_def)
qed



section \<open>Admission of requests\<close>

text \<open>The checks of a swap-out request that pass before a machine is made for it.\<close>

definition out_request_admissible :: "SwapServices \<Rightarrow> string \<Rightarrow> SwapOutRequestMessage \<Rightarrow> SwapService \<Rightarrow> world \<Rightarrow> bool" where
  "out_request_admissible sv p m s w \<longleftrightarrow> (\<exists>premium rs.
     Setting_Compute (sv_bolt sv) (w_clock w) p (if sor_Network m = '''' then LBTC else BTC) SwapOut (sor_Amount m)
       (w_premium w) = Inr premium \<and> sint premium \<le> sint (sor_PremiumLimit m) \<and>
     ReceivableMsat (lightning sv) (Suc (w_clock w)) (sor_Scid m) = Inr rs \<and> sor_Amount m * 1000 \<le> rs \<and>
     (\<forall>k sm. (k, sm) \<in> set (activeSwaps s) \<longrightarrow> GetScid (sm_Data sm) \<noteq> sor_Scid m))"

lemma OnSwapOutRequestReceived_admitted:
  assumes "out_request_admissible sv p m s w" "OnSwapOutRequestReceived sv i p m s w = Ret (e, s', w')"
  obtains w1 sm w2 s1 where "new_receiver sv newSwapOutReceiverFSM i p w1 = Some (sm, w2)"
    "lockSwap (SwapId_String (sm_SwapId sm)) (sor_Scid m) sm s = (None, s1)"
    "send_to sv Event_OnSwapOutRequestReceived (Some (MsgCtx (MsgSwapOutRequest m))) (SwapId_String i) sm s1 w2
       = Ret (e, s', w')"
proof -
  obtain premium rs where ok: "Setting_Compute (sv_bolt sv) (w_clock w) p (if sor_Network m = '''' then LBTC else BTC)
      SwapOut (sor_Amount m) (w_premium w) = Inr premium" "\<not> sint (sor_PremiumLimit m) < sint premium"
    "ReceivableMsat (lightning sv) (Suc (w_clock w)) (sor_Scid m) = Inr rs" "\<not> rs < sor_Amount m * 1000"
    using assms(1) by (auto simp: out_request_admissible_def not_less)
  have "find (\<lambda>(k, swap). GetScid (sm_Data swap) = sor_Scid m) (activeSwaps s) = None"
    using assms(1) unfolding out_request_admissible_def find_None_iff by auto
  then have free: "lockSwap k (sor_Scid m) sm s = (None, snd (lockSwap k (sor_Scid m) sm s))" for k sm
    by (simp add: lockSwap_def)
  then have locks: "lockSwap k (sor_Scid m) sm s \<noteq> (Some err, s2)" for k sm err s2
    by (metis option.distinct(1) prod.inject)
  define w1 where "w1 = emit (Receivable (sor_Scid m) (Inr rs)) (tick 1 w)"
  have handler: "(case new_receiver sv newSwapOutReceiverFSM i p w1 of None \<Rightarrow> Panic
      | Some (swap, w) \<Rightarrow> send_to sv Event_OnSwapOutRequestReceived (Some (MsgCtx (MsgSwapOutRequest m))) (SwapId_String i)
          swap (snd (lockSwap (SwapId_String (sm_SwapId swap)) (sor_Scid m) swap s)) w) = Ret (e, s', w')"
    using assms(2) ok
    by (auto simp: locks OnSwapOutRequestReceived_def request_premium_def world_Compute_def ext_def Let_def w1_def
        split: option.splits prod.splits)
  then obtain sm w2 where new: "new_receiver sv newSwapOutReceiverFSM i p w1 = Some (sm, w2)"
    by (auto split: option.splits)
  show ?thesis by (rule that [OF new free]) (use handler new in simp)
qed

lemma persisted_scid [simp]: "GetScid (sm_Data (persisted sm)) = GetScid (sm_Data sm)"
  by (intro fixed_GetScid) (simp add: persisted_def)

text \<open>C17. A request that reuses the id of an active swap replaces it: if the request passes its checks and
  names a channel that is not in use, the handler puts the new machine in place of the active one with
  that id, whoever sent it and whatever state the old swap is in, and on success the record of the old
  swap in the store is overwritten as well.\<close>

theorem reused_id_replaces_swap:
  assumes "OnSwapOutRequestReceived sv i p m s w = Ret (e, s', w')" "out_request_admissible sv p m s w"
    and "map_of (activeSwaps s) (SwapId_String i) = Some old" "GetScid (sm_Data old) \<noteq> ''''"
  shows "map_of (activeSwaps s') (SwapId_String i) \<noteq> Some old \<and>
    (e = None \<longrightarrow> (\<exists>st new. w_store w' = Some st \<and> st (h2b (SwapId_String i)) = Some new \<and>
       PeerNodeId (sm_Data new) = p \<and> GetScid (sm_Data new) \<noteq> GetScid (sm_Data old)))"
proof -
  obtain w1 sm w2 s1 where new: "new_receiver sv newSwapOutReceiverFSM i p w1 = Some (sm, w2)"
    and lock: "lockSwap (SwapId_String (sm_SwapId sm)) (sor_Scid m) sm s = (None, s1)"
    and send: "send_to sv Event_OnSwapOutRequestReceived (Some (MsgCtx (MsgSwapOutRequest m))) (SwapId_String i) sm s1 w2
      = Ret (e, s', w')"
    using OnSwapOutRequestReceived_admitted [OF assms(2,1)] by blast
  have sm: "no_request (sm_Data sm)" "sm_SwapId sm = i" "PeerNodeId (sm_Data sm) = p"
    using new by (auto simp: new_receiver_Some) (simp add: newSwapOutReceiverFSM_def)
  obtain fin sm' where run: "SendEvent sv Event_OnSwapOutRequestReceived (Some (MsgCtx (MsgSwapOutRequest m))) sm w2 =
      Ret ((fin, e), sm', w')"
    and s': "s' = (if e = None then remove_if fin sm' (put_active (SwapId_String i) sm' s1) else put_active (SwapId_String i) sm' s1)"
    using send by (auto simp: send_to_def Let_def split: outcome.splits option.splits)
  have sm': "sm_SwapId sm' = i" "GetScid (sm_Data sm') \<in> {'''', sor_Scid m}" "PeerNodeId (sm_Data sm') = p"
    using SendEvent_request [OF run] sm by (simp_all add: is_request_def request_scid_def)
  have "(SwapId_String i, old) \<in> set (activeSwaps s)" using assms(3) by (rule map_of_SomeD)
  then have "GetScid (sm_Data old) \<noteq> sor_Scid m"
    using assms(2) unfolding out_request_admissible_def by blast
  then have other: "GetScid (sm_Data sm') \<noteq> GetScid (sm_Data old)"
    using assms(4) sm'(2) by auto
  have "active s1 = (active s)(SwapId_String i \<mapsto> sm)" using swaps_table.lock_free [OF lock] sm(2) by simp
  then have "active s' (SwapId_String i) \<noteq> Some old"
    using s' other sm'(1)
    by (auto simp: put_active_entry swaps_table.entry_put remove_if_def swaps_table.entry_remove)
  moreover have "\<exists>st new. w_store w' = Some st \<and> st (h2b (SwapId_String i)) = Some new \<and>
       PeerNodeId (sm_Data new) = p \<and> GetScid (sm_Data new) \<noteq> GetScid (sm_Data old)" if "e = None"
  proof -
    have "stored_in sm' w'" using SendEvent_durable run that by blast
    then obtain st where "w_store w' = Some st" "st (h2b (SwapId_String i)) = Some (persisted sm')"
      using sm'(1) by (auto simp: stored_in_def sm_key_def)
    moreover have "PeerNodeId (sm_Data (persisted sm')) = p" using sm'(3) by (simp add: persisted_def)
    ultimately show ?thesis using other by simp
  qed
  ultimately show ?thesis by (simp add: active_def)
qed

lemma SendEvent_adds:
  assumes "SendEvent sv event ctx sm w = Ret (r, sm', w')"
  shows "adds (\<lambda>_. True) w w'"
proof -
  have "table_closed (\<lambda>_. True) (\<lambda>_. False) (States_of sm)"
    by (simp add: table_closed_def list_all_iff split: prod.splits)
  then have "adds (effects_in (States_of sm) (\<lambda>_. True)) w w'"
    using closed_SendEvent [OF _ _ _ assms, of "\<lambda>_. True" "\<lambda>_. False" "States_of sm"] by simp
  then show ?thesis by (rule adds_weaken) simp
qed

lemma request_swap_adds:
  assumes "request_swap sv event m sm s w = Ret (r, s', w')"
  shows "adds (\<lambda>_. True) w w'"
proof -
  obtain r1 sm' where run: "SendEvent sv event (Some (MsgCtx m)) sm w = Ret (r1, sm', w')"
    using assms by (auto simp: request_swap_def Let_def split: outcome.splits option.splits)
  show ?thesis using SendEvent_adds [OF run] .
qed

lemma new_effects_adds:
  "w_trace w1 = w_trace w @ ts \<Longrightarrow> adds ok w1 w' \<Longrightarrow> x \<in> set ts \<Longrightarrow> x \<in> set (new_effects w w')"
  by (auto simp: adds_def new_effects_def)

lemma estimate_Inr:
  assumes "estimateMaximumSwapAmountSat sv chain w = (Inr m, w')"
  shows "\<exists>balance fee. m = balance - fee \<and>
    w' = emit (FlatFee chain (Inr fee)) (emit (OnchainBalance chain (Inr balance)) w)"
  using assms
  by (auto simp: estimateMaximumSwapAmountSat_def ext_def Let_def split: if_splits sum.splits)

lemma start_error_None:
  assumes "start_error sv peer amt w = (None, w')"
  shows "NewSwapsAllowed (fst (w_policy w))" "\<not> IsPeerSuspicious (fst (w_policy w)) peer"
    "GetMinSwapAmountMsat (fst (w_policy w)) \<le> amt * 1000" "w' = emit (CheckedSpend (amt * 1000) None) w"
  using assms by (auto simp: start_error_def Let_def ext_eq split: if_splits)

lemma SwapIn_run:
  assumes "SwapService_SwapIn sv peer chain ch initiator amt rate s w = Ret (Inr sm, s', w')"
  obtains rs balance fee sm0 s1 w1 ts m where "start_error sv peer amt w = (None, emit (CheckedSpend (amt * 1000) None) w)"
    "amt * 1000 \<le> rs" "amt \<le> balance - fee" "lockSwap (SwapId_String (sm_SwapId sm0)) ch sm0 s = (None, s1)"
    "w_trace w1 = w_trace w @ [CheckedSpend (amt * 1000) None, Receivable ch (Inr rs),
       OnchainBalance chain (Inr balance), FlatFee chain (Inr fee)] @ ts"
    "request_swap sv Event_SwapInSender_OnSwapInRequested m sm0 s1 w1 = Ret (Inr sm, s', w')"
proof -
  obtain wa where start: "start_error sv peer amt w = (None, wa)"
    using assms by (auto simp: SwapService_SwapIn_def split: prod.splits option.splits)
  have wa: "wa = emit (CheckedSpend (amt * 1000) None) w" using start_error_None [OF start] by simp
  obtain rs where rs: "ReceivableMsat (lightning sv) (w_clock wa) ch = Inr rs" "amt * 1000 \<le> rs"
    using assms start by (auto simp: SwapService_SwapIn_def ext_def Let_def split: sum.splits if_splits)
  define wb where "wb = emit (Receivable ch (Inr rs)) wa"
  obtain mx wc where est: "estimateMaximumSwapAmountSat sv chain wb = (Inr mx, wc)" "amt \<le> mx"
    using assms start rs
    by (auto simp: SwapService_SwapIn_def ext_def Let_def wb_def [symmetric] split: sum.splits prod.splits if_splits)
  obtain balance fee where bf: "mx = balance - fee"
    "wc = emit (FlatFee chain (Inr fee)) (emit (OnchainBalance chain (Inr balance)) wb)"
    using estimate_Inr [OF est(1)] by blast
  obtain sm0 wd s1 m where new: "new_sender sv newSwapInSenderFSM initiator peer wc = Some (sm0, wd)"
    and lock: "lockSwap (SwapId_String (sm_SwapId sm0)) ch sm0 s = (None, s1)"
    and req: "request_swap sv Event_SwapInSender_OnSwapInRequested m sm0 s1 wd = Ret (Inr sm, s', w')"
    using assms start rs est
    by (auto simp: SwapService_SwapIn_def ext_def Let_def wb_def [symmetric] split: sum.splits prod.splits if_splits option.splits)
  have "w_trace wd = w_trace wc @ [DrewRandom, DrewRandom]"
    using new by (auto simp: new_sender_def fresh_key_def ext_def Let_def split: sum.splits)
  then show ?thesis
    using that [OF _ rs(2) _ lock _ req] start wa est(2) bf by (simp add: wb_def)
qed

text \<open>C18. A swap-in is started only when it can be funded: if \<open>SwapIn\<close> returns a swap, new swaps were
  allowed, the peer was not suspicious, the amount reached the policy's minimum, the node could receive
  the amount over the channel and spend it, the amount is at most balance minus opening fee (in 64 bit
  arithmetic), and the channel was not in use.\<close>

theorem swap_in_start_guarded:
  assumes "SwapService_SwapIn sv peer chain ch initiator amt rate s w = Ret (Inr sm, s', w')"
  shows "NewSwapsAllowed (fst (w_policy w)) \<and> \<not> IsPeerSuspicious (fst (w_policy w)) peer \<and>
    GetMinSwapAmountMsat (fst (w_policy w)) \<le> amt * 1000 \<and>
    (\<exists>rs balance fee. CheckedSpend (amt * 1000) None \<in> set (new_effects w w') \<and>
      Receivable ch (Inr rs) \<in> set (new_effects w w') \<and> amt * 1000 \<le> rs \<and>
      OnchainBalance chain (Inr balance) \<in> set (new_effects w w') \<and>
      FlatFee chain (Inr fee) \<in> set (new_effects w w') \<and> amt \<le> balance - fee) \<and>
    (\<forall>k sm0. map_of (activeSwaps s) k = Some sm0 \<longrightarrow> GetScid (sm_Data sm0) \<noteq> ch)"
proof -
  obtain rs balance fee sm0 s1 w1 ts m where run: "start_error sv peer amt w = (None, emit (CheckedSpend (amt * 1000) None) w)"
    "amt * 1000 \<le> rs" "amt \<le> balance - fee" "lockSwap (SwapId_String (sm_SwapId sm0)) ch sm0 s = (None, s1)"
    and trace: "w_trace w1 = w_trace w @ [CheckedSpend (amt * 1000) None, Receivable ch (Inr rs),
       OnchainBalance chain (Inr balance), FlatFee chain (Inr fee)] @ ts"
    and req: "request_swap sv Event_SwapInSender_OnSwapInRequested m sm0 s1 w1 = Ret (Inr sm, s', w')"
    using SwapIn_run [OF assms] by blast
  have "{CheckedSpend (amt * 1000) None, Receivable ch (Inr rs), OnchainBalance chain (Inr balance),
      FlatFee chain (Inr fee)} \<subseteq> set (new_effects w w')"
    using new_effects_adds [OF trace request_swap_adds [OF req]] by auto
  then have effects: "CheckedSpend (amt * 1000) None \<in> set (new_effects w w') \<and>
      Receivable ch (Inr rs) \<in> set (new_effects w w') \<and> amt * 1000 \<le> rs \<and>
      OnchainBalance chain (Inr balance) \<in> set (new_effects w w') \<and>
      FlatFee chain (Inr fee) \<in> set (new_effects w w') \<and> amt \<le> balance - fee"
    using run(2,3) by simp
  have "\<forall>k sm0. active s k = Some sm0 \<longrightarrow> swap_channel sm0 \<noteq> ch"
    using swaps_table.lock_free [OF run(4)] by blast
  then show ?thesis
    using start_error_None(1-3) [OF run(1)] effects unfolding active_def swap_channel_def by blast
qed

section \<open>Runs in the concrete environment\<close>

text \<open>A request without a public key that reuses the id of the demonstration swap.\<close>

definition demo_reuse :: SwapOutRequestMessage where
  "demo_reuse = sample_out_request\<lparr>sor_Scid := ''9x9x9'', sor_Pubkey := ''''\<rparr>"

lemma demo_reuse_fields [simp]:
  "sor_Scid demo_reuse = ''9x9x9''" "sor_Amount demo_reuse = 100000" "sor_Network demo_reuse = ''regtest''"
  "sor_PremiumLimit demo_reuse = 500"
  by (simp_all add: demo_reuse_def sample_out_request_def)

lemma demo_mallory_premium: "Setting_Compute bolt_ok 0 ''mallory'' BTC SwapOut 100000 (Some Map.empty) = Inr 200"
  by (simp add: Setting_Compute_def Setting_GetRate_def store_GetRate_def Setting_GetDefaultRate_def
      store_GetDefaultRate_def db_View_def DefaultPremiumRate_def NewPremiumRate_def PPM_Compute_def premiumRateParts_def)

lemma demo_reuse_admissible: "out_request_admissible demo_services ''mallory'' demo_reuse demo_service demo_world"
  using demo_mallory_premium
  by (simp add: out_request_admissible_def demo_services_def demo_world_def demo_lightning_def demo_service_def)

lemma out_receiver_lookups:
  "map_of getSwapOutReceiverStates Default = Some (state None
     [(Event_OnSwapOutRequestReceived, State_SwapOutReceiver_CreateSwap), (Event_OnInvalid_Message, State_SendCancel)])"
  "map_of getSwapOutReceiverStates State_SendCancel = Some (state (Some SendCancelAction)
     [(Event_ActionSucceeded, State_SwapCanceled), (Event_ActionFailed, State_SwapCanceled)])"
  "map_of getSwapOutReceiverStates State_SwapCanceled = Some (state (Some CancelAction) [])"
  by (simp_all add: getSwapOutReceiverStates_def)

lemma demo_services_fields [simp]:
  "sv_bolt demo_services = bolt_ok" "lightning demo_services = demo_lightning"
  "messenger_Send demo_services t p m i = None" "rand_privkey demo_services t = Inr (replicate 32 6)"
  "rand_SwapId demo_services t = replicate 32 1"
  by (simp_all add: demo_services_def)

lemma demo_reuse_run:
  "\<exists>s' w'. OnSwapOutRequestReceived demo_services (Some (replicate 32 1)) ''mallory'' demo_reuse demo_service demo_world
     = Ret (None, s', w')"
proof -
  have invalid: "SwapOutRequestMessage_Validate demo_reuse = Some (InvalidLengthErr ''pubkey'' 33 0)"
    by (simp add: SwapOutRequestMessage_Validate_def validateHexString_def demo_reuse_def first_error.simps)
  have send: "\<exists>sm' w'. SendEvent demo_services Event_OnSwapOutRequestReceived (Some (MsgCtx (MsgSwapOutRequest demo_reuse)))
      (newSwapOutReceiverFSM (Some (replicate 32 1)) ''mallory'' key now) w = Ret ((True, None), sm', w')"
    if "w_store w = Some m" for w m key now
    using that
    by (simp add: SendEvent_def invalid newSwapOutReceiverFSM_def NewSwapDataFromRequest_def empty_SwapData_def
        store_and_run_def world_UpdateData_ok fsm_fuel_def fsm_loop_numeral fsm_round_def getNextState_def
        out_receiver_lookups Let_def logSwapInfo_def SetState_def SendCancelAction_Execute_def CancelAction_Execute_def
        after_action_def send_message_def ext_def)
  define wb where "wb = emit DrewRandom (emit (Receivable ''9x9x9'' (Inr 900000000)) (tick 1 demo_world))"
  have "w_store wb = Some Map.empty" by (simp add: wb_def demo_world_def)
  then obtain sm' w' where run: "SendEvent demo_services Event_OnSwapOutRequestReceived (Some (MsgCtx (MsgSwapOutRequest demo_reuse)))
      (newSwapOutReceiverFSM (Some (replicate 32 1)) ''mallory'' (replicate 32 6) 1700000000) wb = Ret ((True, None), sm', w')"
    using send by blast
  have handler: "OnSwapOutRequestReceived demo_services (Some (replicate 32 1)) ''mallory'' demo_reuse demo_service demo_world =
      send_to demo_services Event_OnSwapOutRequestReceived (Some (MsgCtx (MsgSwapOutRequest demo_reuse)))
        (SwapId_String (Some (replicate 32 1)))
        (newSwapOutReceiverFSM (Some (replicate 32 1)) ''mallory'' (replicate 32 6) 1700000000) s1 wb"
    if "lockSwap (SwapId_String (Some (replicate 32 1))) ''9x9x9''
      (newSwapOutReceiverFSM (Some (replicate 32 1)) ''mallory'' (replicate 32 6) 1700000000) demo_service = (None, s1)" for s1
    using that demo_mallory_premium
    by (simp add: OnSwapOutRequestReceived_def request_premium_def world_Compute_def ext_def Let_def wb_def
        new_receiver_def fresh_key_def demo_reuse_fields demo_lightning_def)
      (simp add: demo_services_def newSwapOutReceiverFSM_def demo_world_def)
  obtain s1 where "lockSwap (SwapId_String (Some (replicate 32 1))) ''9x9x9''
      (newSwapOutReceiverFSM (Some (replicate 32 1)) ''mallory'' (replicate 32 6) 1700000000) demo_service = (None, s1)"
    by (simp add: lockSwap_def demo_service_def)
  then show ?thesis using handler run by (simp add: send_to_def Let_def)
qed

theorem reused_id_replaces_swap_witness:
  "\<exists>s' w'. OnSwapOutRequestReceived demo_services (Some (replicate 32 1)) ''mallory'' demo_reuse demo_service demo_world
      = Ret (None, s', w') \<and>
    map_of (activeSwaps s') (SwapId_String (Some (replicate 32 1))) \<noteq>
      Some (demo_sm SWAPTYPE_IN SWAPROLE_SENDER State_SwapInSender_AwaitAgreement)"
proof -
  obtain s' w' where run: "OnSwapOutRequestReceived demo_services (Some (replicate 32 1)) ''mallory'' demo_reuse demo_service
      demo_world = Ret (None, s', w')"
    using demo_reuse_run by blast
  show ?thesis
    using reused_id_replaces_swap [OF run demo_reuse_admissible,
        of "demo_sm SWAPTYPE_IN SWAPROLE_SENDER State_SwapInSender_AwaitAgreement"] run
    by (simp add: demo_service_def SwapId_String_def)
qed

lemma in_sender_lookups:
  "map_of getSwapInSenderStates Default = Some (state None
     [(Event_SwapInSender_OnSwapInRequested, State_SwapInSender_CreateSwap)])"
  "map_of getSwapInSenderStates State_SwapInSender_CreateSwap = Some (state_failing
     (Some (SetBlindingKeyActionWrapper CreateSwapRequestAction))
     [(Event_ActionSucceeded, State_SwapInSender_SendRequest), (Event_ActionFailed, State_SwapCanceled)])"
  "map_of getSwapInSenderStates State_SwapInSender_SendRequest = Some (state (Some SendMessageAction)
     [(Event_ActionSucceeded, State_SwapInSender_AwaitAgreement), (Event_ActionFailed, State_SwapCanceled)])"
  "map_of getSwapInSenderStates State_SwapInSender_AwaitAgreement = Some (state (Some NoOpAction)
     [(Event_OnCancelReceived, State_SwapCanceled), (Event_OnTimeout, State_SendCancel),
      (Event_SwapInSender_OnAgreementReceived, State_SwapInSender_BroadcastOpeningTx),
      (Event_OnInvalid_Message, State_SendCancel)])"
  by (simp_all add: getSwapInSenderStates_def)

text \<open>Any valid Bitcoin request starts a swap-in in the concrete environment.\<close>

lemma demo_swap_in_send:
  assumes "w_store w = Some m" "SwapInRequestMessage_Validate r = None" "sir_Network r \<noteq> ''''" "sir_Asset r = ''''"
  shows "\<exists>sm' w'. SendEvent demo_services Event_SwapInSender_OnSwapInRequested (Some (MsgCtx (MsgSwapInRequest r)))
      (newSwapInSenderFSM ident us peer key now) w = Ret ((False, None), sm', w')"
proof -
  have chain: "GetChain d = btc_chain" if "SwapInRequest d = Some r" for d
    using that assms by (simp add: GetChain_def GetAsset_def GetNetwork_def)
  show ?thesis
    using assms
    by (simp add: SendEvent_def newSwapInSenderFSM_def NewSwapData_def empty_SwapData_def
        store_and_run_def world_UpdateData_ok fsm_fuel_def fsm_loop_numeral fsm_round_def getNextState_def
        in_sender_lookups Let_def logSwapInfo_def SetState_def after_action_def send_message_def ext_def
        SetBlindingKeyActionWrapper_Execute_def CreateSwapRequestAction_Execute_def chain
        setLiquidPaymentWindowAnchor_def GetRequest_def start_timeout_def set_next_def SendMessageAction_Execute_def
        NoOpAction_Execute_def)
qed

lemma demo_swap_in_run:
  "\<exists>sm s' w'. SwapService_SwapIn demo_services ''peer'' btc_chain ''1x2x3'' ''us'' 100000 1000
      (NewSwapService demo_services) demo_world = Ret (Inr sm, s', w')"
proof -
  let ?sm = "newSwapInSenderFSM (replicate 32 1) ''us'' ''peer'' (replicate 32 6) 1700000000"
  define r where "r = \<lparr>sir_ProtocolVersion = PEERSWAP_PROTOCOL_VERSION, sir_SwapId = Some (replicate 32 1),
     sir_Network = ''regtest'', sir_Asset = '''', sir_Scid = ''1x2x3'', sir_Amount = 100000,
     sir_Pubkey = own_pubkey demo_services (sm_Data ?sm), sir_PremiumLimit = PPM_Compute 1000 100000\<rparr>"
  have "sir_Pubkey r = hex_EncodeToString (2 # replicate 32 6)"
    by (simp add: r_def own_pubkey_def newSwapInSenderFSM_def NewSwapData_def demo_services_def)
  then have valid: "SwapInRequestMessage_Validate r = None"
    using sample_scid_valid
    by (simp add: SwapInRequestMessage_Validate_def r_def validateHexString_None validateAssetAndNetwork_def
        validateNetwork_def)
  define w1 where "w1 = emit (FlatFee btc_chain (Inr 300)) (emit (OnchainBalance btc_chain (Inr 1000000))
     (emit (Receivable ''1x2x3'' (Inr 900000000)) (emit (CheckedSpend 100000000 None) demo_world)))"
  define w2 where "w2 = emit DrewRandom (emit DrewRandom w1)"
  have start: "start_error demo_services ''peer'' 100000 demo_world = (None, emit (CheckedSpend 100000000 None) demo_world)"
    by (simp add: start_error_def demo_world_def demo_lightning_def ext_def Let_def NewSwapsAllowed_def IsPeerSuspicious_def
        GetMinSwapAmountMsat_def sample_policy_def DefaultPolicy_def)
  have est: "estimateMaximumSwapAmountSat demo_services btc_chain
      (emit (Receivable ''1x2x3'' (Inr 900000000)) (emit (CheckedSpend 100000000 None) demo_world)) = (Inr 999700, w1)"
    by (simp add: estimateMaximumSwapAmountSat_def ext_def Let_def w1_def demo_services_def demo_wallet_def
        btc_chain_def l_btc_chain_def)
  have new: "new_sender demo_services newSwapInSenderFSM ''us'' ''peer'' w1 = Some (?sm, w2)"
    by (simp add: new_sender_def fresh_key_def ext_def Let_def w2_def) (simp add: demo_services_def)
  obtain s1 where lock: "lockSwap (SwapId_String (sm_SwapId ?sm)) ''1x2x3'' ?sm (NewSwapService demo_services) = (None, s1)"
    by (simp add: lockSwap_def NewSwapService_def)
  have "w_store w2 = Some Map.empty" "sir_Network r \<noteq> ''''" "sir_Asset r = ''''"
    by (simp_all add: r_def w1_def w2_def demo_world_def)
  then obtain sm' w' where "SendEvent demo_services Event_SwapInSender_OnSwapInRequested (Some (MsgCtx (MsgSwapInRequest r)))
      ?sm w2 = Ret ((False, None), sm', w')"
    using demo_swap_in_send [OF _ valid] by blast
  then have "\<exists>sm s' w'. request_swap demo_services Event_SwapInSender_OnSwapInRequested (MsgSwapInRequest r) ?sm s1 w2
      = Ret (Inr sm, s', w')"
    by (simp add: request_swap_def Let_def)
  moreover have "chain_fields demo_services btc_chain = Some ('''', ''regtest'')"
    by (simp add: chain_fields_def btc_chain_def l_btc_chain_def demo_services_def demo_wallet_def)
  ultimately show ?thesis
    using lock
    by (simp add: SwapService_SwapIn_def start ext_def Let_def est new demo_lightning_def r_def newSwapInSenderFSM_def)
qed

theorem swap_in_start_guarded_witness:
  "\<exists>sm s' w'. SwapService_SwapIn demo_services ''peer'' btc_chain ''1x2x3'' ''us'' 100000 1000
      (NewSwapService demo_services) demo_world = Ret (Inr sm, s', w') \<and>
    CheckedSpend (100000 * 1000) None \<in> set (new_effects demo_world w')"
proof -
  obtain sm s' w' where run: "SwapService_SwapIn demo_services ''peer'' btc_chain ''1x2x3'' ''us'' 100000 1000
      (NewSwapService demo_services) demo_world = Ret (Inr sm, s', w')"
    using demo_swap_in_run by blast
  show ?thesis using swap_in_start_guarded [OF run] run by blast
qed

section \<open>Refused requests\<close>

lemma refuse_effects:
  assumes "refuse sv p i reason s w = Ret (e, s', w')"
  shows "e = None \<and> s' = s \<and> w_store w' = w_store w \<and>
    (\<exists>r. w_trace w' = w_trace w @ [SentMessage p (MsgCancel \<lparr>cm_SwapId = i, cm_Message = reason\<rparr>) MESSAGETYPE_CANCELED r])"
  using assms by (auto simp: refuse_def Let_def send_message_def ext_def MarshalPeerswapMessage_def)

text \<open>A swap-out request that fails a check leaves no trace but an answer: if the premium cannot be
  computed or exceeds the limit of the request, the channel cannot receive the amount, or the channel is
  in use, then no machine is made and nothing is stored; the handler reports the error of the rate store
  or has sent the peer a cancel message for that swap as its last call.\<close>

theorem out_request_refused:
  assumes "OnSwapOutRequestReceived sv i p m s w = Ret (e, s', w')" "\<not> out_request_admissible sv p m s w"
  shows "s' = s \<and> w_store w' = w_store w \<and> (e = None \<longrightarrow> (\<exists>reason r ts.
    w_trace w' = w_trace w @ ts @ [SentMessage p (MsgCancel \<lparr>cm_SwapId = i, cm_Message = reason\<rparr>) MESSAGETYPE_CANCELED r]))"
proof -
  define fin where "fin = (\<lambda>w1 :: world. \<exists>reason r ts. w_store w1 = w_store w \<and>
    w_trace w1 = w_trace w @ ts @ [SentMessage p (MsgCancel \<lparr>cm_SwapId = i, cm_Message = reason\<rparr>) MESSAGETYPE_CANCELED r])"
  have refused: "e1 = None \<and> s2 = s1 \<and> fin w2"
    if "refuse sv p i reason s1 w1 = Ret (e1, s2, w2)" "w_store w1 = w_store w" "w_trace w1 = w_trace w @ ts"
    for reason s1 w1 e1 s2 w2 ts
    using refuse_effects [OF that(1)] that(2,3) by (auto simp: fin_def)
  define pr where "pr = Setting_Compute (sv_bolt sv) (w_clock w) p (if sor_Network m = '''' then LBTC else BTC) SwapOut
    (sor_Amount m) (w_premium w)"
  define rc where "rc = ReceivableMsat (lightning sv) (Suc (w_clock w)) (sor_Scid m)"
  have premium: "request_premium sv p (sor_Network m) SwapOut (sor_Amount m) w = (pr, tick 1 w)"
    by (simp add: request_premium_def world_Compute_def pr_def)
  note handler = assms(1) [unfolded OnSwapOutRequestReceived_def Let_def premium]
  consider (failed) err where "pr = Inl err"
    | (dear) v where "pr = Inr v" "sint (sor_PremiumLimit m) < sint v"
    | (receive) v err where "pr = Inr v" "\<not> sint (sor_PremiumLimit m) < sint v" "rc = Inl err"
    | (small) v rs where "pr = Inr v" "\<not> sint (sor_PremiumLimit m) < sint v" "rc = Inr rs" "rs < sor_Amount m * 1000"
    | (taken) v rs where "pr = Inr v" "\<not> sint (sor_PremiumLimit m) < sint v" "rc = Inr rs" "\<not> rs < sor_Amount m * 1000"
        "\<exists>k sm. (k, sm) \<in> set (activeSwaps s) \<and> GetScid (sm_Data sm) = sor_Scid m"
    using assms(2) unfolding out_request_admissible_def pr_def [symmetric] rc_def [symmetric]
    by (metis not_less sum.exhaust)
  then have "s' = s \<and> (e = None \<longrightarrow> fin w') \<and> w_store w' = w_store w"
  proof cases
    case failed
    then show ?thesis using handler by auto
  next
    case dear
    then show ?thesis using handler by (auto dest!: refused simp: fin_def)
  next
    case receive
    then show ?thesis using handler by (auto simp: ext_def Let_def rc_def [symmetric] fin_def dest!: refused)
  next
    case small
    then show ?thesis using handler by (auto simp: ext_def Let_def rc_def [symmetric] fin_def dest!: refused)
  next
    case taken
    then have "find (\<lambda>(k, swap). GetScid (sm_Data swap) = sor_Scid m) (activeSwaps s) \<noteq> None"
      unfolding find_None_iff by auto
    then have lock: "\<exists>err. lockSwap k (sor_Scid m) sm s = (Some err, s)" for k sm
      by (auto simp: lockSwap_def)
    have "\<exists>why w2 ts. refuse sv p i why s w2 = Ret (e, s', w') \<and> w_store w2 = w_store w \<and> w_trace w2 = w_trace w @ ts"
    proof -
      obtain sm w2 where new: "new_receiver sv newSwapOutReceiverFSM i p (emit (Receivable (sor_Scid m) rc) (tick 1 w)) = Some (sm, w2)"
        using handler taken by (auto simp: ext_def Let_def rc_def [symmetric] split: option.splits)
      obtain err where "lockSwap (SwapId_String (sm_SwapId sm)) (sor_Scid m) sm s = (Some err, s)" using lock by blast
      then have "refuse sv p i (Error err) s w2 = Ret (e, s', w')"
        using handler taken new by (simp add: ext_def Let_def rc_def [symmetric])
      moreover have "w_store w2 = w_store w" "w_trace w2 = w_trace w @ [Receivable (sor_Scid m) rc, DrewRandom]"
        using new by (auto simp: new_receiver_Some)
      ultimately show ?thesis by blast
    qed
    then show ?thesis using refused by (auto simp: fin_def)
  qed
  then show ?thesis by (auto simp: fin_def)
qed

theorem out_request_refused_witness:
  "\<exists>w'. OnSwapOutRequestReceived demo_services None ''mallory'' (demo_reuse\<lparr>sor_PremiumLimit := 100\<rparr>) demo_service demo_world =
    Ret (None, demo_service, w') \<and> w_store w' = w_store demo_world"
proof -
  have bad: "\<not> out_request_admissible demo_services ''mallory'' (demo_reuse\<lparr>sor_PremiumLimit := 100\<rparr>) demo_service demo_world"
    using demo_mallory_premium by (simp add: out_request_admissible_def demo_world_def)
  have "\<exists>s' w'. OnSwapOutRequestReceived demo_services None ''mallory'' (demo_reuse\<lparr>sor_PremiumLimit := 100\<rparr>) demo_service
      demo_world = Ret (None, s', w')"
    using demo_mallory_premium
    by (simp add: OnSwapOutRequestReceived_def request_premium_def world_Compute_def Let_def refuse_def demo_world_def
        send_message_def ext_def MarshalPeerswapMessage_def)
  then show ?thesis using out_request_refused [OF _ bad] by blast
qed

end
