(* ===== verification/PS_Version.thy ===== *)
theory PS_Version
  imports PS_Service "HOL-Library.More_List"
begin

text \<open>
  The database version (\<open>version/store.go\<close>, \<open>version/service.go\<close>) that keeps a new program from
  running over swaps of an older one, and the comparison of version texts (\<open>version/compare.go\<close>).
  The comparison is related to the lexicographic order of the numbers in the texts, continued by
  zeros for ever.
\<close>

section \<open>Comparing versions (\<open>version/compare.go\<close>)\<close>

definition version :: string where
  "version = ''v0.2''"

definition GetCurrentVersion :: string where
  "GetCurrentVersion = version"

text \<open>\<open>FindAllString(s, -1)\<close> of the expression \<open>[0-9]+\<close>: the maximal runs of digits.\<close>

function digit_runs :: "string \<Rightarrow> string list" where
  "digit_runs [] = []"
| "digit_runs (c # s) = (if is_digit c then (c # takeWhile is_digit s) # digit_runs (dropWhile is_digit s)
     else digit_runs s)"
  by pat_completeness auto

termination digit_runs
  by (relation "measure length") (auto simp: length_dropWhile_le le_imp_less_Suc)

definition err_malformed_version :: "string \<Rightarrow> num_error \<Rightarrow> go_error" where
  "err_malformed_version part e = ErrWrap (''malformed version string '' @ version) (ErrNum part e)"

text \<open>The loop that converts both lists, alternating between them.\<close>

fun version_numbers :: "string list \<Rightarrow> string list \<Rightarrow> go_error + int list \<times> int list" where
  "version_numbers (pa # psa) (pb # psb) = (case strconv_Atoi pa of
     Inl e \<Rightarrow> Inl (err_malformed_version pa e)
   | Inr a \<Rightarrow> (case strconv_Atoi pb of
       Inl e \<Rightarrow> Inl (err_malformed_version pb e)
     | Inr b \<Rightarrow> (case version_numbers psa psb of
         Inl e \<Rightarrow> Inl e | Inr (as, bs) \<Rightarrow> Inr (a # as, b # bs))))"
| "version_numbers _ _ = Inr ([], [])"

fun compare_entries :: "int list \<Rightarrow> int list \<Rightarrow> bool" where
  "compare_entries (a # as) (b # bs) = (if a < b then False else if b < a then True else compare_entries as bs)"
| "compare_entries _ _ = True"

definition pad_parts :: "nat \<Rightarrow> string list \<Rightarrow> string list" where
  "pad_parts n ps = ps @ replicate (n - length ps) ''0''"

definition CompareVersionStrings :: "string \<Rightarrow> string \<Rightarrow> go_error + bool" where
  "CompareVersionStrings a b =
     (let partsA = digit_runs a; partsB = digit_runs b;
          n = max (length partsA) (length partsB)
      in case version_numbers (pad_parts n partsA) (pad_parts n partsB) of
           Inl e \<Rightarrow> Inl e
         | Inr (numericA, numericB) \<Rightarrow> Inr (compare_entries numericA numericB))"

section \<open>The version store (\<open>version/store.go\<close>)\<close>

type_synonym version_bucket = "string bucket"

definition version_key :: "byte list" where
  "version_key = bytes_of_string ''version''"

definition NewVersionStore :: "bolt_env \<Rightarrow> nat \<Rightarrow> version_bucket \<Rightarrow> go_error option \<times> version_bucket" where
  "NewVersionStore env t b = create_bucket env t b"

definition GetVersion :: "bolt_env \<Rightarrow> nat \<Rightarrow> version_bucket \<Rightarrow> go_error + string" where
  "GetVersion env t b = db_View env t (\<lambda>b. case b of
     None \<Rightarrow> Inl err_bucket_nil
   | Some m \<Rightarrow> (case m version_key of None \<Rightarrow> Inl ErrVersionDoesNotExist | Some v \<Rightarrow> Inr v)) b"

definition SetVersion :: "bolt_env \<Rightarrow> nat \<Rightarrow> string \<Rightarrow> version_bucket \<Rightarrow> go_error option \<times> version_bucket" where
  "SetVersion env t v b = db_Update env t (\<lambda>b. case b of
     None \<Rightarrow> Inl err_bucket_nil | Some m \<Rightarrow> bucket_Put env t version_key v m) b"

section \<open>Upgrading (\<open>version/service.go\<close>)\<close>

text \<open>
  The answer of \<open>HasActiveSwaps\<close> is an argument.  The text of the error for a missing version names
  the empty version, which \<open>GetVersion\<close> returns beside its error.
\<close>

definition SafeUpgrade :: "bolt_env \<Rightarrow> nat \<Rightarrow> go_error + bool \<Rightarrow> version_bucket \<Rightarrow> go_error option \<times> version_bucket" where
  "SafeUpgrade env t hasActive b =
     (let upgrade = (\<lambda>currentVersion. (case hasActive of
            Inl e \<Rightarrow> (Some e, b)
          | Inr active \<Rightarrow> if active then (Some (ActiveSwapsError currentVersion), b)
              else SetVersion env (Suc t) version b))
      in case GetVersion env t b of
           Inl e \<Rightarrow> if e = ErrVersionDoesNotExist then upgrade '''' else (Some e, b)
         | Inr currentVersion \<Rightarrow> if currentVersion = version then (None, b) else upgrade currentVersion)"

section \<open>Comparison and the order of numbers\<close>

text \<open>The number at a position of a version text, zero after its end.\<close>

definition run_value :: "string \<Rightarrow> nat" where
  "run_value r = digits_value 10 (the (digits_of 10 r))"

definition version_part :: "string \<Rightarrow> nat \<Rightarrow> nat" where
  "version_part s = nth_default 0 (map run_value (digit_runs s))"

definition run_fits :: "string \<Rightarrow> bool" where
  "run_fits r \<longleftrightarrow> run_value r < 2 ^ 63"

definition version_in_range :: "string \<Rightarrow> bool" where
  "version_in_range s \<longleftrightarrow> list_all run_fits (digit_runs s)"

definition at_least :: "(nat \<Rightarrow> nat) \<Rightarrow> (nat \<Rightarrow> nat) \<Rightarrow> bool" where
  "at_least f g \<longleftrightarrow> f = g \<or> (\<exists>i. g i < f i \<and> (\<forall>j < i. f j = g j))"

lemma is_digit_from_hex: "is_digit c \<Longrightarrow> \<exists>d < 10. from_hex_char c = Some d"
  by (auto simp: is_digit_def from_hex_char_def Let_def)

lemma digit_not_sign: "is_digit c \<Longrightarrow> c \<noteq> CHR ''-'' \<and> c \<noteq> CHR ''+''"
  by (auto simp: is_digit_def)

lemma digit_runs_digits: "r \<in> set (digit_runs s) \<Longrightarrow> r \<noteq> [] \<and> list_all is_digit r"
proof (induction s rule: digit_runs.induct)
  case 1
  then show ?case by simp
next
  case (2 c s)
  have "list_all is_digit (takeWhile is_digit s)"
    unfolding list_all_iff by (blast dest: set_takeWhileD)
  with 2 show ?case by (cases "is_digit c") auto
qed

lemma Atoi_digits:
  assumes "r \<noteq> []" "list_all is_digit r"
  shows "strconv_Atoi r = (if run_value r < 2 ^ 63 then Inr (int (run_value r)) else Inl NumErrRange)"
proof -
  have "list_all (\<lambda>c. case from_hex_char c of None \<Rightarrow> False | Some d \<Rightarrow> d < 10) r"
    using assms(2) is_digit_from_hex unfolding list_all_iff by (metis option.simps(5))
  then have "digits_of 10 r \<noteq> None"
    using assms(1) by (simp add: digits_of_def)
  moreover have "parse_sign r = (False, r)"
    using assms digit_not_sign by (cases r) (simp_all add: parse_sign_def)
  ultimately show ?thesis
    by (auto simp: strconv_Atoi_def strconv_ParseInt_def run_value_def Let_def)
qed

lemma compare_entries_at_least:
  "length as = length bs \<Longrightarrow> compare_entries (map int as) (map int bs) \<longleftrightarrow> at_least (nth_default 0 as) (nth_default 0 bs)"
proof (induction as bs rule: list_induct2)
  case Nil
  then show ?case by (simp add: at_least_def)
next
  case (Cons a as b bs)
  have eq: "nth_default 0 (a # as) = nth_default 0 (b # bs) \<longleftrightarrow> a = b \<and> nth_default 0 as = nth_default 0 bs"
    by (auto simp: fun_eq_iff nth_default_Cons split: nat.splits)
  have first: "(\<exists>i. nth_default 0 (b # bs) i < nth_default 0 (a # as) i \<and>
      (\<forall>j < i. nth_default 0 (a # as) j = nth_default 0 (b # bs) j)) \<longleftrightarrow>
    b < a \<or> a = b \<and> (\<exists>i. nth_default 0 bs i < nth_default 0 as i \<and> (\<forall>j < i. nth_default 0 as j = nth_default 0 bs j))"
    (is "?l \<longleftrightarrow> ?r")
  proof
    assume ?l
    then obtain i where i: "nth_default 0 (b # bs) i < nth_default 0 (a # as) i"
      "\<And>j. j < i \<Longrightarrow> nth_default 0 (a # as) j = nth_default 0 (b # bs) j" by blast
    show ?r
    proof (cases i)
      case 0
      then show ?thesis using i(1) by simp
    next
      case (Suc k)
      have "a = b" using i(2) [of 0] Suc by simp
      moreover have "nth_default 0 as j = nth_default 0 bs j" if "j < k" for j
        using i(2) [of "Suc j"] that Suc by simp
      ultimately show ?thesis using i(1) Suc by auto
    qed
  next
    assume ?r
    then show ?l
    proof (elim disjE conjE exE)
      assume "b < a"
      then show ?l by (intro exI [of _ 0]) simp
    next
      fix i assume "a = b" "nth_default 0 bs i < nth_default 0 as i" "\<forall>j < i. nth_default 0 as j = nth_default 0 bs j"
      then show ?l by (intro exI [of _ "Suc i"]) (auto simp: nth_default_Cons split: nat.splits)
    qed
  qed
  show ?case
    using Cons by (auto simp: at_least_def [of "nth_default 0 (a # as)"] eq first) (auto simp: at_least_def)
qed

lemma at_least_refl: "at_least f f"
  by (simp add: at_least_def)

lemma at_least_total: "at_least f g \<or> at_least g f"
proof (cases "f = g")
  case False
  then have "\<exists>i. f i \<noteq> g i" by (simp add: fun_eq_iff)
  define i where "i = (LEAST i. f i \<noteq> g i)"
  have "f i \<noteq> g i" "\<forall>j < i. f j = g j"
    using LeastI_ex [OF \<open>\<exists>i. f i \<noteq> g i\<close>] not_less_Least by (auto simp: i_def)
  then show ?thesis
    unfolding at_least_def by (metis linorder_neqE_nat)
qed (simp add: at_least_def)

lemma at_least_trans: "at_least f g \<Longrightarrow> at_least g h \<Longrightarrow> at_least f h"
proof (cases "f = g \<or> g = h")
  assume fg: "at_least f g" and gh: "at_least g h"
  case False
  with fg gh obtain i k where i: "g i < f i" "\<forall>j < i. f j = g j" and k: "h k < g k" "\<forall>j < k. g j = h j"
    by (auto simp: at_least_def)
  have "h (min i k) < f (min i k)" "\<forall>j < min i k. f j = h j"
    using i k by (cases i k rule: linorder_cases; simp add: min_def; metis order.strict_trans)+
  then show ?thesis unfolding at_least_def by blast
qed auto

definition digit_run :: "string \<Rightarrow> bool" where
  "digit_run r \<longleftrightarrow> r \<noteq> [] \<and> list_all is_digit r"

lemma Atoi_run: "digit_run r \<Longrightarrow> strconv_Atoi r = (if run_fits r then Inr (int (run_value r)) else Inl NumErrRange)"
  by (simp add: Atoi_digits digit_run_def run_fits_def)

lemma version_numbers_runs:
  assumes "length as = length bs" "list_all digit_run as" "list_all digit_run bs"
  shows "case version_numbers as bs of
      Inr (ns, ms) \<Rightarrow> ns = map (\<lambda>r. int (run_value r)) as \<and> ms = map (\<lambda>r. int (run_value r)) bs \<and>
        list_all run_fits as \<and> list_all run_fits bs
    | Inl e \<Rightarrow> \<not> (list_all run_fits as \<and> list_all run_fits bs)"
  using assms
  by (induction as bs rule: list_induct2) (auto simp: Atoi_run split: sum.splits prod.splits)

lemma digit_runs_run: "list_all digit_run (digit_runs s)"
  using digit_runs_digits by (auto simp: list_all_iff digit_run_def)

lemma zero_run: "digit_run ''0''" "run_value ''0'' = 0" "run_fits ''0''"
  by (simp_all add: digit_run_def is_digit_def run_fits_def run_value_def digits_of_def from_hex_char_def
      digits_value_def Let_def)

lemma pad_parts_runs:
  "list_all digit_run ps \<Longrightarrow> list_all digit_run (pad_parts n ps)"
  "list_all run_fits (pad_parts n ps) \<longleftrightarrow> list_all run_fits ps"
  by (auto simp: pad_parts_def list_all_iff zero_run)

lemma length_pad_parts: "length ps \<le> n \<Longrightarrow> length (pad_parts n ps) = n"
  by (simp add: pad_parts_def)

lemma nth_default_pad_parts: "nth_default 0 (map run_value (pad_parts n ps)) = nth_default 0 (map run_value ps)"
  by (auto simp: fun_eq_iff pad_parts_def nth_default_def nth_append zero_run)


text \<open>
  C40. Two version texts compare as the sequences of numbers in them, continued by zeros, compare
  lexicographically, whatever else the texts contain; the comparison fails exactly when one of the
  numbers does not fit an \<open>int\<close>.
\<close>

theorem version_compare_lexicographic:
  "case CompareVersionStrings a b of
     Inr r \<Rightarrow> version_in_range a \<and> version_in_range b \<and> (r \<longleftrightarrow> at_least (version_part a) (version_part b))
   | Inl e \<Rightarrow> \<not> (version_in_range a \<and> version_in_range b)"
proof -
  let ?n = "max (length (digit_runs a)) (length (digit_runs b))"
  let ?a = "pad_parts ?n (digit_runs a)" and ?b = "pad_parts ?n (digit_runs b)"
  have len: "length ?a = length ?b" by (simp add: length_pad_parts)
  have cmp: "compare_entries (map (\<lambda>r. int (run_value r)) ?a) (map (\<lambda>r. int (run_value r)) ?b) \<longleftrightarrow>
      at_least (version_part a) (version_part b)"
    using compare_entries_at_least [of "map run_value ?a" "map run_value ?b"] len
    by (simp add: nth_default_pad_parts version_part_def o_def)
  have "list_all digit_run ?a" "list_all digit_run ?b"
    by (simp_all add: pad_parts_runs digit_runs_run)
  from version_numbers_runs [OF len this] show ?thesis
    by (auto simp: CompareVersionStrings_def Let_def pad_parts_runs version_in_range_def cmp split: sum.splits prod.splits)
qed

section \<open>Upgrades\<close>

lemma HasActiveSwaps_iff:
  "HasActiveSwaps sv w = Inr active \<Longrightarrow>
     \<exists>swaps. ListSwaps sv w = Inr swaps \<and> (active \<longleftrightarrow> (\<exists>swap \<in> set swaps. \<not> IsFinished swap))"
  by (auto simp: HasActiveSwaps_def ListSwaps_def split: sum.splits)

text \<open>The version that a bucket holds.\<close>

definition stored_version :: "version_bucket \<Rightarrow> string option" where
  "stored_version b = (case b of None \<Rightarrow> None | Some m \<Rightarrow> m version_key)"

lemma SetVersion_cases:
  "SetVersion env t v b = (err, b') \<Longrightarrow> (if err = None then stored_version b' = Some v else b' = b)"
  by (cases err) (auto simp: SetVersion_def db_Update_success bucket_Put_def stored_version_def
      split: option.splits sum.splits dest: db_Update_error_keeps)

text \<open>
  The start-up check: it succeeds only with the database at the version of the program, it moves
  the database to that version only when every stored swap is finished, and a refusal leaves the
  database as it was.
\<close>

theorem upgrade_only_without_active_swaps:
  assumes "SafeUpgrade env t (HasActiveSwaps sv w) b = (err, b')"
  shows "(if err = None then stored_version b' = Some GetCurrentVersion else b' = b) \<and>
    (b' = b \<or> (\<exists>swaps. ListSwaps sv w = Inr swaps \<and> list_all IsFinished swaps))"
proof (rule conjI)
  show "if err = None then stored_version b' = Some GetCurrentVersion else b' = b"
    using assms
    by (cases err) (auto simp: SafeUpgrade_def Let_def GetVersion_def db_View_def stored_version_def GetCurrentVersion_def
        split: sum.splits option.splits if_splits dest!: SetVersion_cases)
next
  have "b' = b \<or> HasActiveSwaps sv w = Inr False"
    using assms by (auto simp: SafeUpgrade_def Let_def split: sum.splits if_splits)
  then show "b' = b \<or> (\<exists>swaps. ListSwaps sv w = Inr swaps \<and> list_all IsFinished swaps)"
    by (auto simp: list_all_iff dest!: HasActiveSwaps_iff)
qed

text \<open>A database of version v0.1 with an unfinished swap, which refuses the upgrade.\<close>

theorem upgrade_only_without_active_swaps_witness:
  "\<exists>w e. SafeUpgrade bolt_ok 0 (HasActiveSwaps demo_services w) (Some [version_key \<mapsto> ''v0.1'']) =
      (Some e, Some [version_key \<mapsto> ''v0.1'']) \<and> e = ActiveSwapsError ''v0.1'' \<and>
    (if Some e = None then stored_version (Some [version_key \<mapsto> ''v0.1'']) = Some GetCurrentVersion
     else Some [version_key \<mapsto> ''v0.1''] = (Some [version_key \<mapsto> ''v0.1''] :: version_bucket))"
proof -
  let ?sm = "demo_sm SWAPTYPE_OUT SWAPROLE_SENDER State_SwapOutSender_ClaimSwap"
  let ?w = "demo_world\<lparr>w_store := Some [replicate 32 7 \<mapsto> ?sm]\<rparr>"
  have "HasActiveSwaps demo_services ?w = Inr True"
    by (simp add: HasActiveSwaps_def ListAll_def db_View_def bucket_values_def demo_services_def demo_sm_def
        IsFinished_def)
  then have "SafeUpgrade bolt_ok 0 (HasActiveSwaps demo_services ?w) (Some [version_key \<mapsto> ''v0.1'']) =
      (Some (ActiveSwapsError ''v0.1''), Some [version_key \<mapsto> ''v0.1''])"
    by (simp add: SafeUpgrade_def GetVersion_def db_View_def version_def)
  from this upgrade_only_without_active_swaps [OF this] show ?thesis by blast
qed

end
