(* ===== verification/PS_Logs.thy ===== *)
theory PS_Logs
  imports Main
begin

text \<open>
  Logs of events.  The watchers of chains, invoices and peers write what they were asked, saw and
  called into a log; what they promise is that every event of a kind is justified by what came before.
\<close>

definition every_event :: "('e list \<Rightarrow> 'e \<Rightarrow> bool) \<Rightarrow> 'e list \<Rightarrow> bool" where
  "every_event P log \<longleftrightarrow> (\<forall>pre x later. log = pre @ x # later \<longrightarrow> P pre x)"

lemma every_event_Nil [simp]: "every_event P []"
  by (simp add: every_event_def)

lemma every_event_snoc [simp]: "every_event P (log @ [x]) \<longleftrightarrow> every_event P log \<and> P log x"
proof -
  have "log @ [x] = pre @ y # later \<longleftrightarrow> (later = [] \<and> log = pre \<and> x = y) \<or> (\<exists>l. later = l @ [x] \<and> log = pre @ y # l)" for pre y later
    by (cases later rule: rev_cases) auto
  then show ?thesis
    unfolding every_event_def by auto
qed

lemma every_event_two: "every_event P (log @ [x, y]) \<longleftrightarrow> every_event P log \<and> P log x \<and> P (log @ [x]) y"
  using every_event_snoc [of P "log @ [x]" y] by simp

lemma every_eventD: "every_event P log \<Longrightarrow> log = pre @ x # later \<Longrightarrow> P pre x"
  by (auto simp: every_event_def)

end
