(* ===== verification/PS_Watch.thy ===== *)
theory PS_Watch
  imports PS_FSM PS_Logs
begin

text \<open>
  What the swaps expect of a chain watcher (the interface \<open>TxWatcher\<close> of \<open>swap/services.go\<close>, behind
  \<open>AddWaitForCsvTx\<close> and \<open>AddCsvCallback\<close>), stated once for all its implementations over the log of
  what a watcher was asked, saw and called: a refund is announced only for a registered output with
  enough confirmations, and a registered output stays watched until its swap took the announcement.
\<close>

section \<open>The log of a watcher\<close>

datatype 'i watch_event =
    CsvAdded string 'i
  | Confirmations 'i nat
  | CsvCalled string "go_error option"
  | TxCalled string string "go_error option" "go_error option"

text \<open>
  The watches asked for and not yet answered: a callback takes the announcement when it succeeds or
  says that there is no such swap.
\<close>

definition taken :: "go_error option \<Rightarrow> bool" where
  "taken err = (case err of None \<Rightarrow> True | Some e \<Rightarrow> errors_Is e ErrSwapDoesNotExist)"

lemma taken_None [simp]: "taken None"
  by (simp add: taken_def)

fun watch_step :: "(string \<rightharpoonup> 'i) \<Rightarrow> 'i watch_event \<Rightarrow> (string \<rightharpoonup> 'i)" where
  "watch_step m (CsvAdded k i) = m(k \<mapsto> i)"
| "watch_step m (CsvCalled k err) = (if taken err then m(k := None) else m)"
| "watch_step m _ = m"

definition pending :: "'i watch_event list \<Rightarrow> (string \<rightharpoonup> 'i)" where
  "pending tr = foldl watch_step Map.empty tr"

lemma pending_Nil [simp]: "pending [] = Map.empty"
  by (simp add: pending_def)

lemma pending_append: "pending (tr @ new) = foldl watch_step (pending tr) new"
  by (simp add: pending_def)

lemma pending_snoc [simp]: "pending (tr @ [e]) = watch_step (pending tr) e"
  by (simp add: pending_def)

text \<open>
  Every announcement for a swap comes right after a number of confirmations was read for an output
  registered for it, and the number reaches the delay of the output.
\<close>

definition announces :: "('i \<Rightarrow> nat) \<Rightarrow> 'i watch_event list \<Rightarrow> string \<Rightarrow> bool" where
  "announces csv pre k \<longleftrightarrow> (\<exists>p i n. pre = p @ [Confirmations i n] \<and> csv i \<le> n \<and> CsvAdded k i \<in> set p)"

definition justified :: "('i \<Rightarrow> nat) \<Rightarrow> 'i watch_event list \<Rightarrow> bool" where
  "justified csv = every_event (\<lambda>pre x. case x of CsvCalled k _ \<Rightarrow> announces csv pre k | _ \<Rightarrow> True)"

fun is_csv_call :: "'i watch_event \<Rightarrow> bool" where
  "is_csv_call (CsvCalled k e) = True"
| "is_csv_call _ = False"

lemma justified_Nil [simp]: "justified csv []"
  by (simp add: justified_def)

lemma justified_at: "justified csv tr \<Longrightarrow> tr = pre @ CsvCalled k e # later \<Longrightarrow> announces csv pre k"
  unfolding justified_def by (drule (1) every_eventD) simp

lemma justified_snoc:
  "justified csv (tr @ [e]) \<longleftrightarrow> justified csv tr \<and> (case e of CsvCalled k _ \<Rightarrow> announces csv tr k | _ \<Rightarrow> True)"
  by (simp add: justified_def)

text \<open>A number of confirmations, and a call for a mature watch after it.\<close>

lemma justified_confirmations [simp]: "justified csv (tr @ [Confirmations i n]) \<longleftrightarrow> justified csv tr"
  by (simp add: justified_snoc)

lemma justified_call:
  "justified csv tr \<Longrightarrow> csv i \<le> n \<Longrightarrow> CsvAdded k i \<in> set tr \<Longrightarrow>
     justified csv (tr @ [Confirmations i n, CsvCalled k e])"
  by (auto simp: justified_def every_event_two announces_def)

section \<open>The contract\<close>

text \<open>
  \<open>listed s k i\<close>: the state keeps the watch \<open>i\<close> of swap \<open>k\<close>.  An implementation gives its steps; it
  promises that a step only adds to the log, adds announcements only for what is listed, lists only
  what was registered, and never drops a pending watch; for that it may keep an invariant of its own.
\<close>

definition watch_inv :: "('i \<Rightarrow> nat) \<Rightarrow> ('s \<Rightarrow> 'i watch_event list) \<Rightarrow> ('s \<Rightarrow> string \<Rightarrow> 'i \<Rightarrow> bool) \<Rightarrow> 's \<Rightarrow> bool" where
  "watch_inv csv log_of listed s \<longleftrightarrow> justified csv (log_of s) \<and>
     (\<forall>k i. listed s k i \<longrightarrow> CsvAdded k i \<in> set (log_of s)) \<and>
     (\<forall>k i. pending (log_of s) k = Some i \<longrightarrow> listed s k i)"

locale csv_watcher =
  fixes csv :: "'i \<Rightarrow> nat"
    and initial :: "'s \<Rightarrow> bool"
    and watcher_step :: "'s \<Rightarrow> 's \<Rightarrow> bool"
    and log_of :: "'s \<Rightarrow> 'i watch_event list"
    and listed :: "'s \<Rightarrow> string \<Rightarrow> 'i \<Rightarrow> bool"
    and own_inv :: "'s \<Rightarrow> bool"
  assumes starts_empty: "initial s \<Longrightarrow> log_of s = [] \<and> \<not> listed s k i \<and> own_inv s"
    and step_keeps: "watcher_step s s' \<Longrightarrow> watch_inv csv log_of listed s \<Longrightarrow> own_inv s \<Longrightarrow>
      watch_inv csv log_of listed s' \<and> own_inv s'"
begin

lemma reachable_inv:
  assumes "initial s" "watcher_step\<^sup>*\<^sup>* s s'"
  shows "watch_inv csv log_of listed s' \<and> own_inv s'"
  using assms(2)
proof (induction rule: rtranclp_induct)
  case base
  show ?case using starts_empty [OF assms(1)] by (simp add: watch_inv_def)
next
  case (step s s')
  then show ?case using step_keeps by blast
qed

lemma announced_when_mature:
  assumes "initial s" "watcher_step\<^sup>*\<^sup>* s s'" "log_of s' = pre @ CsvCalled k e # later"
  shows "\<exists>p i n. pre = p @ [Confirmations i n] \<and> csv i \<le> n \<and> CsvAdded k i \<in> set p"
  using reachable_inv [OF assms(1,2)] assms(3)
  unfolding watch_inv_def announces_def [symmetric] by (blast intro: justified_at)

lemma watch_not_lost:
  assumes "initial s" "watcher_step\<^sup>*\<^sup>* s s'" "pending (log_of s') k = Some i"
  shows "listed s' k i"
  using reachable_inv [OF assms(1,2)] assms(3) by (simp add: watch_inv_def)

end

end
