(* ===== verification/PS_TxWatcher.thy ===== *)
theory PS_TxWatcher
  imports PS_Watch "HOL-Library.AList"
begin

text \<open>
  The polling chain watcher (\<open>txwatcher/rpctxwatcher.go\<close>) and its search for a transaction
  (\<open>txwatcher/blockchainRpc.go\<close>).  The node's answers are a parameter, read at a clock that advances
  with every call.  The callbacks into the swaps work on the client's state, a type variable.

  In Go an observer is a goroutine that receives block heights from a channel; here the table of
  observers holds what the goroutine's variables hold, and one iteration of its loop is one step.  The
  heights reach the observers through goroutines of their own, so a step takes any height.  A goroutine
  whose table entry was replaced gets no more blocks and is not represented.
\<close>

section \<open>The node (\<open>txwatcher/blockchainRpc.go\<close>)\<close>

record TxOutResp =
  BestBlockHash :: string
  TxConfirmations :: u32

record BlockchainRpc =
  rpc_GetBlockHeight :: "nat \<Rightarrow> u64 \<times> go_error option"
  rpc_GetTxOut :: "nat \<Rightarrow> string \<Rightarrow> u32 \<Rightarrow> go_error + TxOutResp option"
  rpc_GetBlockHash :: "nat \<Rightarrow> u32 \<Rightarrow> string \<times> go_error option"
  rpc_GetRawtransactionWithBlockHash :: "nat \<Rightarrow> string \<Rightarrow> string \<Rightarrow> string \<times> go_error option"

text \<open>
  The search over a block range.  The loop variable is a \<open>uint32\<close>: with an end at the largest
  number the loop has no exit of its own, so the loop is a partial function.
\<close>

partial_function (option) range_loop ::
  "BlockchainRpc \<Rightarrow> string \<Rightarrow> u32 \<Rightarrow> u32 \<Rightarrow> nat \<Rightarrow> ((go_error + string \<times> u32) \<times> nat) option" where
  "range_loop bc txId endBlock i t =
     (if i \<le> endBlock then
        (case rpc_GetBlockHash bc t i of
           (_, Some e) \<Rightarrow> Some (Inl e, Suc t)
         | (h, None) \<Rightarrow> (case rpc_GetRawtransactionWithBlockHash bc (Suc t) txId h of
             (rtx, _) \<Rightarrow> if rtx \<noteq> '''' then Some (Inr (rtx, i), t + 2)
                         else range_loop bc txId endBlock (i + 1) (t + 2)))
      else Some (Inl ErrNotFound, t))"

definition IsTxInRange ::
  "BlockchainRpc \<Rightarrow> string \<Rightarrow> u32 \<Rightarrow> u32 \<Rightarrow> nat \<Rightarrow> ((go_error + string \<times> u32) \<times> nat) option" where
  "IsTxInRange bc txId startBlock endBlock t =
     (if endBlock < startBlock
      then Some (Inl (ErrText (''expected start_block < end_block: '' @ fmt_u32 startBlock @ '' < '' @ fmt_u32 endBlock @ '' '')), t)
      else range_loop bc txId endBlock startBlock t)"

definition IsTxInMempoolOrRange ::
  "BlockchainRpc \<Rightarrow> string \<Rightarrow> u32 \<Rightarrow> u32 \<Rightarrow> nat \<Rightarrow> ((go_error + string \<times> u32) \<times> nat) option" where
  "IsTxInMempoolOrRange bc txId startHeight vout t =
     (case rpc_GetBlockHeight bc t of
        (_, Some e) \<Rightarrow> Some (Inl (ErrText (''could not get current block height: '' @ Error e)), t + 1)
      | (ctmp, None) \<Rightarrow> let current = u32_of_u64 ctmp in
     (case rpc_GetBlockHash bc (t + 1) current of
        (_, Some e) \<Rightarrow> Some (Inl (ErrText (''could not get current block hash: '' @ Error e)), t + 2)
      | (bHash, None) \<Rightarrow>
     (case rpc_GetTxOut bc (t + 2) txId vout of
        Inl e \<Rightarrow> Some (Inl (ErrText (''error calling gettxout('' @ txId @ '', '' @ fmt_u32 vout @ ''): '' @ Error e)), t + 3)
      | Inr None \<Rightarrow> IsTxInRange bc txId startHeight current (t + 3)
      | Inr (Some txInfo) \<Rightarrow>
          if BestBlockHash txInfo \<noteq> bHash then Some (Inl ErrOutOfSync, t + 3)
          else if TxConfirmations txInfo = 0 then Some (Inl ErrUnconfirmed, t + 3)
          else (let firstSeen = (if TxConfirmations txInfo = 1 then current else current + 1 - TxConfirmations txInfo);
                    (txBlockHash, err) = (if TxConfirmations txInfo = 1 then (bHash, None)
                                          else rpc_GetBlockHash bc (t + 3) firstSeen);
                    t' = (if TxConfirmations txInfo = 1 then t + 3 else t + 4)
                in case err of
                     Some e \<Rightarrow> Some (Inl (ErrText (''could not get current block hash: '' @ Error e)), t')
                   | None \<Rightarrow> (case rpc_GetRawtransactionWithBlockHash bc t' txId txBlockHash of
                       (_, Some e) \<Rightarrow> Some (Inl ErrBlockHashMismatch, Suc t')
                     | (rtx, None) \<Rightarrow> Some (Inr (rtx, firstSeen), Suc t'))))))"

section \<open>State (\<open>txwatcher/rpctxwatcher.go\<close>)\<close>

record SwapTxInfo =
  TxId :: string
  TxVout :: u32
  info_StartingBlockHeight :: u32
  Csv :: u32

record observer =
  ob_txId :: string
  ob_vout :: u32
  ob_startingHeight :: u32
  ob_safetyLimit :: u32
  ob_lastHeight :: u32

record 'c BlockchainRpcTxWatcher =
  txCallback :: "(string \<Rightarrow> string \<Rightarrow> go_error option \<Rightarrow> 'c \<Rightarrow> (go_error option \<times> 'c) outcome) option"
  csvPassedCallback :: "(string \<Rightarrow> 'c \<Rightarrow> (go_error option \<times> 'c) outcome) option"
  txWatchList :: "(string \<times> SwapTxInfo) list"
  csvtxWatchList :: "(string \<times> SwapTxInfo) list"
  observerLoopList :: "(string \<times> observer) list"
  requiredConfs :: u32
  tw_client :: 'c
  tw_clock :: nat
  tw_log :: "SwapTxInfo watch_event list"

definition NewBlockchainRpcTxWatcher :: "u32 \<Rightarrow> 'c \<Rightarrow> 'c BlockchainRpcTxWatcher" where
  "NewBlockchainRpcTxWatcher confs c = \<lparr>txCallback = None, csvPassedCallback = None, txWatchList = [],
     csvtxWatchList = [], observerLoopList = [], requiredConfs = confs, tw_client = c, tw_clock = 0, tw_log = []\<rparr>"

definition AddConfirmationCallback ::
  "(string \<Rightarrow> string \<Rightarrow> go_error option \<Rightarrow> 'c \<Rightarrow> (go_error option \<times> 'c) outcome) \<Rightarrow>
   'c BlockchainRpcTxWatcher \<Rightarrow> 'c BlockchainRpcTxWatcher" where
  "AddConfirmationCallback f l = l\<lparr>txCallback := Some f\<rparr>"

definition AddCsvCallback ::
  "(string \<Rightarrow> 'c \<Rightarrow> (go_error option \<times> 'c) outcome) \<Rightarrow> 'c BlockchainRpcTxWatcher \<Rightarrow> 'c BlockchainRpcTxWatcher" where
  "AddCsvCallback f l = l\<lparr>csvPassedCallback := Some f\<rparr>"

text \<open>The height as the swaps read it; \<open>None\<close> is the missing client.\<close>

definition watcher_GetBlockHeight :: "BlockchainRpc option \<Rightarrow> nat \<Rightarrow> go_error + u32" where
  "watcher_GetBlockHeight blockchain t = (case blockchain of
     None \<Rightarrow> Inl (ErrText ''missing blockchain rpc client'')
   | Some bc \<Rightarrow> (case rpc_GetBlockHeight bc t of
       (_, Some e) \<Rightarrow> Inl e | (blockheight, None) \<Rightarrow> Inr (u32_of_u64 blockheight)))"

section \<open>Calls\<close>

text \<open>Calling a nil function is a panic.\<close>

definition call_csv :: "string \<Rightarrow> 'c BlockchainRpcTxWatcher \<Rightarrow> (go_error option \<times> 'c BlockchainRpcTxWatcher) outcome" where
  "call_csv swapId l = (case csvPassedCallback l of
     None \<Rightarrow> Panic
   | Some f \<Rightarrow> (case f swapId (tw_client l) of
       Ret (err, c) \<Rightarrow> Ret (err, l\<lparr>tw_client := c, tw_log := tw_log l @ [CsvCalled swapId err]\<rparr>)
     | Panic \<Rightarrow> Panic | OutOfFuel \<Rightarrow> OutOfFuel))"

definition callbackAndLog ::
  "string \<Rightarrow> string \<Rightarrow> go_error option \<Rightarrow> 'c BlockchainRpcTxWatcher \<Rightarrow> 'c BlockchainRpcTxWatcher outcome" where
  "callbackAndLog swapId rawTx err l = (case txCallback l of
     None \<Rightarrow> Panic
   | Some f \<Rightarrow> (case f swapId rawTx err (tw_client l) of
       Ret (e, c) \<Rightarrow> Ret (l\<lparr>tw_client := c, tw_log := tw_log l @ [TxCalled swapId rawTx err e]\<rparr>)
     | Panic \<Rightarrow> Panic | OutOfFuel \<Rightarrow> OutOfFuel))"

text \<open>\<open>GetTxOut\<close> for a watch, with the confirmations it reports noted in the log.\<close>

definition get_tx_out ::
  "BlockchainRpc \<Rightarrow> SwapTxInfo \<Rightarrow> 'c BlockchainRpcTxWatcher \<Rightarrow> (go_error + u32 option) \<times> 'c BlockchainRpcTxWatcher" where
  "get_tx_out bc v l = (let l' = l\<lparr>tw_clock := Suc (tw_clock l)\<rparr> in
     (case rpc_GetTxOut bc (tw_clock l) (TxId v) (TxVout v) of
        Inl e \<Rightarrow> (Inl e, l')
      | Inr None \<Rightarrow> (Inr None, l')
      | Inr (Some res) \<Rightarrow> (Inr (Some (TxConfirmations res)),
          l'\<lparr>tw_log := tw_log l @ [Confirmations v (unat (TxConfirmations res))]\<rparr>)))"

section \<open>Refund delays\<close>

definition TxClaimed :: "string list \<Rightarrow> 'c BlockchainRpcTxWatcher \<Rightarrow> 'c BlockchainRpcTxWatcher" where
  "TxClaimed swaps l = l\<lparr>txWatchList := fold AList.delete swaps (txWatchList l),
     csvtxWatchList := fold AList.delete swaps (csvtxWatchList l)\<rparr>"

text \<open>The body of the loop over the watch list; it tells whether the swap's callback succeeded.\<close>

definition csv_entry ::
  "BlockchainRpc \<Rightarrow> string \<Rightarrow> SwapTxInfo \<Rightarrow> 'c BlockchainRpcTxWatcher \<Rightarrow> (bool \<times> 'c BlockchainRpcTxWatcher) outcome" where
  "csv_entry bc k v l = (case get_tx_out bc v l of
     (Inr (Some confs), l) \<Rightarrow>
       if confs < Csv v then Ret (False, l)
       else if csvPassedCallback l = None then Ret (False, l)
       else (case call_csv k l of
          Ret (err, l) \<Rightarrow> Ret (err = None, l) | Panic \<Rightarrow> Panic | OutOfFuel \<Rightarrow> OutOfFuel)
   | (_, l) \<Rightarrow> Ret (False, l))"

fun csv_sweep ::
  "BlockchainRpc \<Rightarrow> (string \<times> SwapTxInfo) list \<Rightarrow> 'c BlockchainRpcTxWatcher \<Rightarrow> (string list \<times> 'c BlockchainRpcTxWatcher) outcome" where
  "csv_sweep bc [] l = Ret ([], l)"
| "csv_sweep bc ((k, v) # xs) l = (case csv_entry bc k v l of
     Ret (called, l) \<Rightarrow> (case csv_sweep bc xs l of
       Ret (toRemove, l) \<Rightarrow> Ret (if called then k # toRemove else toRemove, l)
     | Panic \<Rightarrow> Panic | OutOfFuel \<Rightarrow> OutOfFuel)
   | Panic \<Rightarrow> Panic | OutOfFuel \<Rightarrow> OutOfFuel)"

definition HandleCsvTx :: "BlockchainRpc \<Rightarrow> 'c BlockchainRpcTxWatcher \<Rightarrow> 'c BlockchainRpcTxWatcher outcome" where
  "HandleCsvTx bc s = (case csv_sweep bc (csvtxWatchList s) s of
     Ret (toRemove, s) \<Rightarrow> Ret (TxClaimed toRemove s) | Panic \<Rightarrow> Panic | OutOfFuel \<Rightarrow> OutOfFuel)"

definition checkTxAboveCsvHight ::
  "BlockchainRpc \<Rightarrow> SwapTxInfo \<Rightarrow> 'c BlockchainRpcTxWatcher \<Rightarrow> (go_error + bool) \<times> 'c BlockchainRpcTxWatcher" where
  "checkTxAboveCsvHight bc v l = (case get_tx_out bc v l of
     (Inl e, l) \<Rightarrow> (Inl e, l)
   | (Inr None, l) \<Rightarrow> (Inl (ErrText ''empty gettxout response''), l)
   | (Inr (Some confs), l) \<Rightarrow> (Inr (Csv v \<le> confs), l))"

definition AddWaitForCsvTx ::
  "BlockchainRpc \<Rightarrow> string \<Rightarrow> string \<Rightarrow> u32 \<Rightarrow> u32 \<Rightarrow> u32 \<Rightarrow> 'c BlockchainRpcTxWatcher \<Rightarrow> 'c BlockchainRpcTxWatcher outcome" where
  "AddWaitForCsvTx bc swapId txId vout startingBlockheight csv l =
     (let v = \<lparr>TxId = txId, TxVout = vout, info_StartingBlockHeight = startingBlockheight, Csv = csv\<rparr>;
          l = l\<lparr>tw_log := tw_log l @ [CsvAdded swapId v]\<rparr>;
          register = (\<lambda>l. l\<lparr>csvtxWatchList := AList.update swapId v (csvtxWatchList l)\<rparr>)
      in case checkTxAboveCsvHight bc v l of
           (Inr True, l) \<Rightarrow> (case call_csv swapId l of
              Ret (None, l) \<Rightarrow> Ret l
            | Ret (Some err, l) \<Rightarrow> Ret (register l)
            | Panic \<Rightarrow> Panic | OutOfFuel \<Rightarrow> OutOfFuel)
         | (_, l) \<Rightarrow> Ret (register l))"

section \<open>Confirmations\<close>

definition end_observer :: "string \<Rightarrow> 'c BlockchainRpcTxWatcher outcome \<Rightarrow> 'c BlockchainRpcTxWatcher outcome" where
  "end_observer swapId r = (case r of
     Ret l \<Rightarrow> Ret (l\<lparr>observerLoopList := AList.delete swapId (observerLoopList l)\<rparr>) | r \<Rightarrow> r)"

definition err_csv_limit :: go_error where
  "err_csv_limit = ErrText ''exceeded csv limit''"

text \<open>
  One iteration of \<open>observationLoop\<close> with a new height.  \<open>OutOfFuel\<close> is the search that does not end.
\<close>

definition observationLoop :: "BlockchainRpc \<Rightarrow> string \<Rightarrow> u32 \<Rightarrow> 'c BlockchainRpcTxWatcher \<Rightarrow> 'c BlockchainRpcTxWatcher outcome" where
  "observationLoop bc swapId current l =
     (case map_of (observerLoopList l) swapId of
        None \<Rightarrow> Ret l
      | Some ob \<Rightarrow>
     if current \<le> ob_lastHeight ob then Ret l
     else (let l = l\<lparr>observerLoopList := AList.update swapId (ob\<lparr>ob_lastHeight := current\<rparr>) (observerLoopList l)\<rparr>;
               limit = ob_startingHeight ob + ob_safetyLimit ob
       in if limit \<le> current then end_observer swapId (callbackAndLog swapId '''' (Some err_csv_limit) l)
     else (case IsTxInMempoolOrRange bc (ob_txId ob) (ob_startingHeight ob) (ob_vout ob) (tw_clock l) of
        None \<Rightarrow> OutOfFuel
      | Some (Inl err, t) \<Rightarrow>
          if errors_Is err ErrNotFound \<or> errors_Is err ErrUnconfirmed \<or> errors_Is err ErrOutOfSync
          then Ret (l\<lparr>tw_clock := t\<rparr>)
          else end_observer swapId (callbackAndLog swapId '''' (Some err) (l\<lparr>tw_clock := t\<rparr>))
      | Some (Inr (rawTx, firstSeen), t) \<Rightarrow>
          if limit < firstSeen
          then end_observer swapId (callbackAndLog swapId '''' (Some err_csv_limit) (l\<lparr>tw_clock := t\<rparr>))
          else if requiredConfs l \<le> current - (firstSeen - 1)
          then end_observer swapId (callbackAndLog swapId rawTx None (l\<lparr>tw_clock := t\<rparr>))
          else Ret (l\<lparr>tw_clock := t\<rparr>))))"

text \<open>The case \<open>ctx.Done()\<close> of the same loop: it has no return, so the observer stays.\<close>

definition observation_canceled :: "string \<Rightarrow> 'c BlockchainRpcTxWatcher \<Rightarrow> 'c BlockchainRpcTxWatcher outcome" where
  "observation_canceled swapId l = callbackAndLog swapId '''' (Some ErrContextCanceled) l"

text \<open>The new observer gets the current height at once, whether or not the node could tell it.\<close>

definition AddWaitForConfirmationTx ::
  "BlockchainRpc \<Rightarrow> string \<Rightarrow> string \<Rightarrow> u32 \<Rightarrow> u32 \<Rightarrow> u32 \<Rightarrow> 'c BlockchainRpcTxWatcher \<Rightarrow> 'c BlockchainRpcTxWatcher outcome" where
  "AddWaitForConfirmationTx bc swapId txId vout startingBlockheight paymentWindow l =
     (let ob = \<lparr>ob_txId = txId, ob_vout = vout, ob_startingHeight = startingBlockheight,
                ob_safetyLimit = paymentWindow, ob_lastHeight = 0\<rparr>;
          (height, _) = rpc_GetBlockHeight bc (tw_clock l)
      in observationLoop bc swapId (u32_of_u64 height)
           (l\<lparr>tw_clock := Suc (tw_clock l), observerLoopList := AList.update swapId ob (observerLoopList l)\<rparr>))"

section \<open>New blocks\<close>

text \<open>
  One tick of \<open>StartBlockWatcher\<close>: the height and the hash are used even when reading them failed, and a
  refused login ends the program.
\<close>

record block_watcher =
  lastHeight :: u64
  lastHash :: string
  bw_logged :: bool

datatype tick_result = Exited | Ticked "u64 option" block_watcher

definition ErrCookieAuthFailed_text :: string where
  "ErrCookieAuthFailed_text = ''Authorization failed: Incorrect user or password''"

definition auth_failed :: "go_error option \<Rightarrow> bool" where
  "auth_failed err = (case err of Some e \<Rightarrow> Error e = ErrCookieAuthFailed_text | None \<Rightarrow> False)"

definition StartBlockWatcher_tick :: "BlockchainRpc \<Rightarrow> nat \<Rightarrow> block_watcher \<Rightarrow> tick_result" where
  "StartBlockWatcher_tick bc t bw =
     (case rpc_GetBlockHeight bc t of (nextHeight, err1) \<Rightarrow>
      if auth_failed err1 then Exited
      else (case rpc_GetBlockHash bc (Suc t) (u32_of_u64 nextHeight) of (nextHash, err2) \<Rightarrow>
        if auth_failed err2 then Exited
        else (let bw = bw\<lparr>bw_logged := (err2 \<noteq> None)\<rparr>
              in if lastHeight bw < nextHeight \<or> nextHash \<noteq> lastHash bw
                 then Ticked (Some nextHeight) (bw\<lparr>lastHeight := nextHeight, lastHash := nextHash\<rparr>)
                 else Ticked None bw)))"

text \<open>A new block: the height goes to every observer, then the watch list is swept.\<close>

fun deliver_block :: "BlockchainRpc \<Rightarrow> u32 \<Rightarrow> string list \<Rightarrow> 'c BlockchainRpcTxWatcher \<Rightarrow> 'c BlockchainRpcTxWatcher outcome" where
  "deliver_block bc height [] l = Ret l"
| "deliver_block bc height (swapId # ids) l = (case observationLoop bc swapId height l of
     Ret l \<Rightarrow> deliver_block bc height ids l | r \<Rightarrow> r)"

definition on_new_block :: "BlockchainRpc \<Rightarrow> u64 \<Rightarrow> 'c BlockchainRpcTxWatcher \<Rightarrow> 'c BlockchainRpcTxWatcher outcome" where
  "on_new_block bc nb l = (case deliver_block bc (u32_of_u64 nb) (map fst (observerLoopList l)) l of
     Ret l \<Rightarrow> HandleCsvTx bc l | r \<Rightarrow> r)"

section \<open>Refund announcements\<close>

text \<open>Everything that can happen to a watcher, in any order.\<close>

inductive tw_step :: "BlockchainRpc \<Rightarrow> 'c BlockchainRpcTxWatcher \<Rightarrow> 'c BlockchainRpcTxWatcher \<Rightarrow> bool"
  for bc where
  step_csv: "AddWaitForCsvTx bc k txId vout start csv l = Ret l' \<Longrightarrow> tw_step bc l l'"
| step_conf: "AddWaitForConfirmationTx bc k txId vout start window l = Ret l' \<Longrightarrow> tw_step bc l l'"
| step_sweep: "HandleCsvTx bc l = Ret l' \<Longrightarrow> tw_step bc l l'"
| step_observe: "observationLoop bc k height l = Ret l' \<Longrightarrow> tw_step bc l l'"
| step_canceled: "observation_canceled k l = Ret l' \<Longrightarrow> tw_step bc l l'"

lemma get_tx_out_cases:
  assumes "get_tx_out bc v l = (r, l')"
  shows "csvtxWatchList l' = csvtxWatchList l \<and> csvPassedCallback l' = csvPassedCallback l \<and>
    tw_log l' = tw_log l @ (case r of Inr (Some confs) \<Rightarrow> [Confirmations v (unat confs)] | _ \<Rightarrow> [])"
  using assms by (auto simp: get_tx_out_def Let_def split: sum.splits option.splits)

lemma call_csv_cases:
  assumes "call_csv k l = Ret (err, l')"
  shows "csvtxWatchList l' = csvtxWatchList l \<and> csvPassedCallback l' = csvPassedCallback l \<and>
    tw_log l' = tw_log l @ [CsvCalled k err]"
  using assms by (auto simp: call_csv_def split: option.splits outcome.splits prod.splits)

lemma callbackAndLog_cases:
  assumes "callbackAndLog k raw err l = Ret l'"
  shows "csvtxWatchList l' = csvtxWatchList l \<and> csvPassedCallback l' = csvPassedCallback l \<and>
    (\<exists>e. tw_log l' = tw_log l @ [TxCalled k raw err e])"
  using assms by (auto simp: callbackAndLog_def split: option.splits outcome.splits prod.splits)

abbreviation csv_delay :: "SwapTxInfo \<Rightarrow> nat" where
  "csv_delay v \<equiv> unat (Csv v)"

lemma csv_entry_log:
  assumes "csv_entry bc k v l = Ret (called, l')" "justified csv_delay (tw_log l)" "CsvAdded k v \<in> set (tw_log l)"
  shows "csvtxWatchList l' = csvtxWatchList l \<and> justified csv_delay (tw_log l') \<and> set (tw_log l) \<subseteq> set (tw_log l') \<and>
    (\<forall>k' i. pending (tw_log l') k' = Some i \<longrightarrow> pending (tw_log l) k' = Some i \<and> (called \<longrightarrow> k' \<noteq> k))"
proof -
  obtain r l1 where out: "get_tx_out bc v l = (r, l1)" by fastforce
  note l1 = get_tx_out_cases [OF out]
  show ?thesis
  proof (cases "\<exists>confs. r = Inr (Some confs) \<and> \<not> confs < Csv v \<and> csvPassedCallback l1 \<noteq> None")
    case False
    then have "called = False \<and> l' = l1"
      using assms(1) out by (auto simp: csv_entry_def split: sum.splits option.splits if_splits)
    then show ?thesis using l1 assms(2) by (auto split: sum.splits option.splits)
  next
    case True
    then obtain confs err where r: "r = Inr (Some confs)" "Csv v \<le> confs" and
      call: "call_csv k l1 = Ret (err, l')" "called = (err = None)"
      using assms(1) out by (auto simp: csv_entry_def split: outcome.splits if_splits prod.splits)
    have "tw_log l' = tw_log l @ [Confirmations v (unat confs), CsvCalled k err]"
      using call_csv_cases [OF call(1)] l1 r by simp
    moreover have "csv_delay v \<le> unat confs" using r(2) by (simp add: word_le_nat_alt)
    ultimately show ?thesis
      using justified_call [OF assms(2), of v "unat confs" k err] assms(3) call call_csv_cases [OF call(1)] l1
      by (cases err) (auto simp: pending_append split: if_splits)
  qed
qed

lemma csv_sweep_log:
  assumes "csv_sweep bc xs l = Ret (rm, l')"
    "justified csv_delay (tw_log l)" "\<And>k v. (k, v) \<in> set xs \<Longrightarrow> CsvAdded k v \<in> set (tw_log l)"
  shows "csvtxWatchList l' = csvtxWatchList l \<and> justified csv_delay (tw_log l') \<and>
    set (tw_log l) \<subseteq> set (tw_log l') \<and>
    (\<forall>k i. pending (tw_log l') k = Some i \<longrightarrow> pending (tw_log l) k = Some i \<and> k \<notin> set rm)"
  using assms
proof (induction xs arbitrary: l rm l')
  case Nil
  then show ?case by simp
next
  case (Cons kv xs)
  obtain k v where kv: "kv = (k, v)" by fastforce
  obtain called l1 rm1 where step: "csv_entry bc k v l = Ret (called, l1)" "csv_sweep bc xs l1 = Ret (rm1, l')"
    and rm: "rm = (if called then k # rm1 else rm1)"
    using Cons.prems(1) by (auto simp: kv split: outcome.splits prod.splits)
  note e = csv_entry_log [OF step(1) Cons.prems(2)]
  have e1: "csvtxWatchList l1 = csvtxWatchList l" "justified csv_delay (tw_log l1)" "set (tw_log l) \<subseteq> set (tw_log l1)"
    "\<And>k' i. pending (tw_log l1) k' = Some i \<Longrightarrow> pending (tw_log l) k' = Some i \<and> (called \<longrightarrow> k' \<noteq> k)"
    using e Cons.prems(3) kv by auto
  have "CsvAdded k' v' \<in> set (tw_log l1)" if "(k', v') \<in> set xs" for k' v'
    using Cons.prems(3) [of k' v'] that e1(3) by auto
  from Cons.IH [OF step(2) e1(2) this] show ?case
    using e1 rm by (auto dest!: e1(4))
qed

lemma set_fold_delete:
  "(k, i) \<in> set (fold AList.delete ks xs) \<longleftrightarrow> (k, i) \<in> set xs \<and> k \<notin> set ks"
  by (induction ks arbitrary: xs) (auto simp: AList.delete_eq)

lemma set_AList_updateD: "(k', i') \<in> set (AList.update k i xs) \<Longrightarrow> (k', i') \<in> set xs \<or> k' = k \<and> i' = i"
  by (induction xs) (auto split: if_splits)

lemma set_AList_update_other [simp]:
  "k' \<noteq> k \<Longrightarrow> (k', i') \<in> set (AList.update k i xs) \<longleftrightarrow> (k', i') \<in> set xs"
  by (induction xs) (auto split: if_splits)

lemma set_AList_update_self [simp]: "(k, i) \<in> set (AList.update k i xs)"
  by (induction xs) (auto split: if_splits)

abbreviation rpc_inv :: "'c BlockchainRpcTxWatcher \<Rightarrow> bool" where
  "rpc_inv \<equiv> watch_inv csv_delay tw_log (\<lambda>l k i. (k, i) \<in> set (csvtxWatchList l))"

lemma HandleCsvTx_inv:
  assumes "HandleCsvTx bc l = Ret l'" "rpc_inv l"
  shows "rpc_inv l'"
proof -
  obtain rm l1 where sweep: "csv_sweep bc (csvtxWatchList l) l = Ret (rm, l1)" and l': "l' = TxClaimed rm l1"
    using assms(1) by (auto simp: HandleCsvTx_def split: outcome.splits prod.splits)
  have inv: "justified csv_delay (tw_log l)" "\<And>k v. (k, v) \<in> set (csvtxWatchList l) \<Longrightarrow> CsvAdded k v \<in> set (tw_log l)"
    "\<And>k v. pending (tw_log l) k = Some v \<Longrightarrow> (k, v) \<in> set (csvtxWatchList l)"
    using assms(2) by (auto simp: watch_inv_def)
  show ?thesis
    using csv_sweep_log [OF sweep inv(1,2)] inv(2,3)
    by (auto simp: l' watch_inv_def TxClaimed_def set_fold_delete split: if_splits)
qed

text \<open>A step that only adds calls of the other kind to the log.\<close>

lemma inv_frame:
  assumes "rpc_inv l" "csvtxWatchList l' = csvtxWatchList l"
    "tw_log l' = tw_log l \<or> (\<exists>k raw err e. tw_log l' = tw_log l @ [TxCalled k raw err e])"
  shows "rpc_inv l'"
  using assms by (auto simp: watch_inv_def justified_snoc)

lemma observationLoop_frame:
  assumes "observationLoop bc k h l = Ret l'"
  shows "csvtxWatchList l' = csvtxWatchList l \<and>
    (tw_log l' = tw_log l \<or> (\<exists>raw err e. tw_log l' = tw_log l @ [TxCalled k raw err e]))"
  using assms unfolding observationLoop_def Let_def
  by (auto simp: end_observer_def split: option.splits if_splits sum.splits prod.splits outcome.splits
      dest!: callbackAndLog_cases)

lemma AddWaitForConfirmationTx_frame:
  assumes "AddWaitForConfirmationTx bc k txId vout start window l = Ret l'"
  shows "csvtxWatchList l' = csvtxWatchList l \<and>
    (tw_log l' = tw_log l \<or> (\<exists>raw err e. tw_log l' = tw_log l @ [TxCalled k raw err e]))"
  using assms by (auto simp: AddWaitForConfirmationTx_def Let_def split: prod.splits dest!: observationLoop_frame)

lemma AddWaitForCsvTx_inv:
  assumes "AddWaitForCsvTx bc k txId vout start csv l = Ret l'" "rpc_inv l"
  shows "rpc_inv l'"
proof -
  let ?v = "\<lparr>TxId = txId, TxVout = vout, info_StartingBlockHeight = start, Csv = csv\<rparr>"
  let ?l = "l\<lparr>tw_log := tw_log l @ [CsvAdded k ?v]\<rparr>"
  obtain r l1 where out: "get_tx_out bc ?v ?l = (r, l1)" by fastforce
  note l1 = get_tx_out_cases [OF out]
  have just: "justified csv_delay (tw_log l @ [CsvAdded k ?v])"
    using assms(2) by (simp add: watch_inv_def justified_snoc)
  consider (listed) "csvtxWatchList l' = AList.update k ?v (csvtxWatchList l)" "tw_log l' = tw_log l1"
    | (called) confs err where "r = Inr (Some confs)" "csv \<le> confs"
        "tw_log l' = tw_log l @ [CsvAdded k ?v, Confirmations ?v (unat confs), CsvCalled k err]"
        "csvtxWatchList l' = (if err = None then csvtxWatchList l else AList.update k ?v (csvtxWatchList l))"
    using assms(1) out l1
    by (auto simp: AddWaitForCsvTx_def checkTxAboveCsvHight_def Let_def
        split: sum.splits option.splits bool.splits outcome.splits prod.splits dest!: call_csv_cases)
  then show ?thesis
  proof cases
    case listed
    have "justified csv_delay (tw_log l1)" "pending (tw_log l1) = (pending (tw_log l))(k \<mapsto> ?v)"
      "set (tw_log l) \<subseteq> set (tw_log l1)" "CsvAdded k ?v \<in> set (tw_log l1)"
      using l1 just justified_confirmations [of csv_delay "tw_log l @ [CsvAdded k ?v]"]
      by (auto simp: pending_append split: sum.splits option.splits)
    then show ?thesis
      using assms(2) listed by (auto simp: watch_inv_def dest!: set_AList_updateD split: if_splits)
  next
    case called
    have "csv_delay ?v \<le> unat confs" using called(2) by (simp add: word_le_nat_alt)
    then have "justified csv_delay (tw_log l')"
      using justified_call [OF just, of ?v "unat confs" k err] called(3) by simp
    moreover have "pending (tw_log l') = (if taken err then (pending (tw_log l))(k := None) else (pending (tw_log l))(k \<mapsto> ?v))"
      using called(3) by (auto simp: pending_append)
    ultimately show ?thesis
      using assms(2) called by (auto simp: watch_inv_def dest!: set_AList_updateD split: if_splits)
  qed
qed

lemma tw_step_inv: "tw_step bc l l' \<Longrightarrow> rpc_inv l \<Longrightarrow> rpc_inv l'"
proof (induction rule: tw_step.induct)
  case (step_conf k txId vout start window l l')
  then show ?case using AddWaitForConfirmationTx_frame [OF step_conf(1)] inv_frame [of l l'] by blast
next
  case (step_observe k height l l')
  then show ?case using observationLoop_frame [OF step_observe(1)] inv_frame [of l l'] by blast
next
  case (step_canceled k l l')
  then show ?case
    using callbackAndLog_cases [of k "''''" "Some ErrContextCanceled" l l'] inv_frame [of l l']
    by (auto simp: observation_canceled_def)
qed (use AddWaitForCsvTx_inv HandleCsvTx_inv in blast)+

definition fresh_watcher :: "'c BlockchainRpcTxWatcher \<Rightarrow> bool" where
  "fresh_watcher l \<longleftrightarrow> tw_log l = [] \<and> csvtxWatchList l = []"

interpretation rpc_watcher: csv_watcher csv_delay fresh_watcher "tw_step bc" tw_log
  "\<lambda>l k i. (k, i) \<in> set (csvtxWatchList l)" "\<lambda>_. True" for bc
  by unfold_locales (auto simp: fresh_watcher_def intro: tw_step_inv)

text \<open>
  C34. Through every sequence of registrations, new blocks and confirmations the polling watcher
  announces a refund only right after the node reported, for an output registered for that swap, at
  least as many confirmations as its refund delay; and a registered output stays on the watch list
  until the swap took the announcement.
\<close>

theorem rpc_refund_watch:
  assumes "fresh_watcher l" "(tw_step bc)\<^sup>*\<^sup>* l l'"
  shows "(\<forall>pre k e later. tw_log l' = pre @ CsvCalled k e # later \<longrightarrow>
      (\<exists>p i n. pre = p @ [Confirmations i n] \<and> unat (Csv i) \<le> n \<and> CsvAdded k i \<in> set p)) \<and>
    (\<forall>k i. pending (tw_log l') k = Some i \<longrightarrow> (k, i) \<in> set (csvtxWatchList l'))"
  using rpc_watcher.announced_when_mature [OF assms] rpc_watcher.watch_not_lost [OF assms] by blast

section \<open>A node for examples\<close>

text \<open>A node at height 102; a transaction has one confirmation, or 1008 when it is the old one.\<close>

definition demo_node :: BlockchainRpc where
  "demo_node = \<lparr>rpc_GetBlockHeight = (\<lambda>_. (102, None)),
     rpc_GetTxOut = (\<lambda>_ txid _. Inr (Some \<lparr>BestBlockHash = ''tip'', TxConfirmations = (if txid = ''old'' then 1008 else 1)\<rparr>)),
     rpc_GetBlockHash = (\<lambda>_ _. (''tip'', None)),
     rpc_GetRawtransactionWithBlockHash = (\<lambda>_ _ _. (''0200'', None))\<rparr>"

text \<open>A client that counts the calls and accepts all of them.\<close>

definition demo_watcher :: "nat BlockchainRpcTxWatcher" where
  "demo_watcher = AddCsvCallback (\<lambda>_ n. Ret (None, Suc n))
     (AddConfirmationCallback (\<lambda>_ _ _ n. Ret (None, Suc n)) (NewBlockchainRpcTxWatcher 3 0))"

lemma demo_watcher_simps [simp]:
  "tw_log demo_watcher = []" "csvtxWatchList demo_watcher = []" "observerLoopList demo_watcher = []"
  "requiredConfs demo_watcher = 3" "tw_clock demo_watcher = 0" "tw_client demo_watcher = 0"
  "csvPassedCallback demo_watcher = Some (\<lambda>_ n. Ret (None, Suc n))"
  "txCallback demo_watcher = Some (\<lambda>_ _ _ n. Ret (None, Suc n))"
  by (simp_all add: demo_watcher_def AddCsvCallback_def AddConfirmationCallback_def NewBlockchainRpcTxWatcher_def)

definition demo_info :: SwapTxInfo where
  "demo_info = \<lparr>TxId = ''young'', TxVout = 0, info_StartingBlockHeight = 90, Csv = 1008\<rparr>"

text \<open>A young output is listed, not announced.\<close>

lemma demo_add_csv:
  "AddWaitForCsvTx demo_node ''swap'' ''young'' 0 90 1008 demo_watcher =
     Ret (demo_watcher\<lparr>tw_clock := 1, tw_log := [CsvAdded ''swap'' demo_info, Confirmations demo_info 1],
       csvtxWatchList := [(''swap'', demo_info)]\<rparr>)"
  unfolding demo_watcher_def AddCsvCallback_def AddConfirmationCallback_def NewBlockchainRpcTxWatcher_def
  by (simp add: AddWaitForCsvTx_def checkTxAboveCsvHight_def get_tx_out_def demo_node_def demo_info_def Let_def word_le_nat_alt)

theorem rpc_refund_watch_witness:
  "\<exists>l'. AddWaitForCsvTx demo_node ''swap'' ''young'' 0 90 1008 demo_watcher = Ret l' \<and>
     pending (tw_log l') ''swap'' = Some demo_info \<and> (''swap'', demo_info) \<in> set (csvtxWatchList l')"
proof -
  let ?l = "demo_watcher\<lparr>tw_clock := 1, tw_log := [CsvAdded ''swap'' demo_info, Confirmations demo_info 1],
       csvtxWatchList := [(''swap'', demo_info)]\<rparr>"
  have "(tw_step demo_node)\<^sup>*\<^sup>* demo_watcher ?l"
    using demo_add_csv tw_step.step_csv by (metis r_into_rtranclp)
  then have "pending (tw_log ?l) ''swap'' = Some demo_info \<longrightarrow> (''swap'', demo_info) \<in> set (csvtxWatchList ?l)"
    using rpc_refund_watch [of demo_watcher demo_node ?l] by (auto simp: fresh_watcher_def)
  then show ?thesis
    using demo_add_csv by (auto simp: pending_def)
qed

section \<open>Confirmations\<close>

lemma range_loop_found:
  assumes "range_loop bc txId endBlock i t = Some (Inr (raw, n), t')"
  shows "\<exists>t1 h. rpc_GetBlockHash bc t1 n = (h, None) \<and> fst (rpc_GetRawtransactionWithBlockHash bc (Suc t1) txId h) = raw"
proof -
  have "fst (Inr (raw, n), t') = (Inr (raw, n) :: go_error + string \<times> u32) \<longrightarrow>
      (\<exists>t1 h. rpc_GetBlockHash bc t1 n = (h, None) \<and>
        fst (rpc_GetRawtransactionWithBlockHash bc (Suc t1) txId h) = raw)"
  proof (rule range_loop.raw_induct [where P = "\<lambda>bc txId endBlock i t r. fst r = Inr (raw, n) \<longrightarrow>
      (\<exists>t1 h. rpc_GetBlockHash bc t1 n = (h, None) \<and>
        fst (rpc_GetRawtransactionWithBlockHash bc (Suc t1) txId h) = raw)", OF _ assms])
    fix f bc txId endBlock i t and r :: "(go_error + string \<times> u32) \<times> nat"
    assume IH: "\<And>bc txId endBlock i t r. f bc txId endBlock i t = Some r \<Longrightarrow> fst r = Inr (raw, n) \<longrightarrow>
      (\<exists>t1 h. rpc_GetBlockHash bc t1 n = (h, None) \<and>
        fst (rpc_GetRawtransactionWithBlockHash bc (Suc t1) txId h) = raw)"
      and run: "(if i \<le> endBlock then
        (case rpc_GetBlockHash bc t i of
           (_, Some e) \<Rightarrow> Some (Inl e, Suc t)
         | (h, None) \<Rightarrow> (case rpc_GetRawtransactionWithBlockHash bc (Suc t) txId h of
             (rtx, _) \<Rightarrow> if rtx \<noteq> '''' then Some (Inr (rtx, i), t + 2)
                         else f bc txId endBlock (i + 1) (t + 2)))
      else Some (Inl ErrNotFound, t)) = Some r"
    show "fst r = Inr (raw, n) \<longrightarrow>
      (\<exists>t1 h. rpc_GetBlockHash bc t1 n = (h, None) \<and>
        fst (rpc_GetRawtransactionWithBlockHash bc (Suc t1) txId h) = raw)"
      using run IH [of bc txId endBlock "i + 1" "t + 2" r]
      by (auto split: if_splits prod.splits option.splits) (metis fst_conv)
  qed
  then show ?thesis by simp
qed

text \<open>What the search found, the node gave for the block at the reported height.\<close>

lemma search_found:
  assumes "IsTxInMempoolOrRange bc txId start vout t = Some (Inr (raw, n), t')"
  shows "\<exists>t1 t2 h. rpc_GetBlockHash bc t1 n = (h, None) \<and> fst (rpc_GetRawtransactionWithBlockHash bc t2 txId h) = raw"
proof (cases "\<exists>s e t1. IsTxInRange bc txId s e t1 = Some (Inr (raw, n), t')")
  case True
  then show ?thesis
    using range_loop_found by (auto simp: IsTxInRange_def split: if_splits) blast
next
  case False
  then show ?thesis
    using assms unfolding IsTxInMempoolOrRange_def Let_def
    by (auto split: prod.splits option.splits sum.splits if_splits) (metis fst_conv)+
qed

lemma confirmations_exact:
  assumes "0 < (firstSeen :: u32)" "unat firstSeen \<le> Suc (unat (current :: u32))"
  shows "unat (current - (firstSeen - 1)) = Suc (unat current) - unat firstSeen"
proof -
  have f: "unat (firstSeen - 1) = unat firstSeen - 1"
    using assms(1) by (simp add: unat_minus_one word_neq_0_conv)
  then have "firstSeen - 1 \<le> current"
    using assms(2) by (simp add: word_le_nat_alt)
  then show ?thesis
    using f assms unat_gt_0 [of firstSeen] by (simp add: unat_sub word_neq_0_conv)
qed


definition demo_observed :: "u32 \<Rightarrow> nat BlockchainRpcTxWatcher" where
  "demo_observed confs = demo_watcher\<lparr>requiredConfs := confs, observerLoopList :=
     [(''swap'', \<lparr>ob_txId = ''young'', ob_vout = 0, ob_startingHeight = 90, ob_safetyLimit = 504, ob_lastHeight = 0\<rparr>)]\<rparr>"

lemma demo_search:
  "IsTxInMempoolOrRange demo_node ''young'' 90 0 0 = Some (Inr (''0200'', 102), 4)"
  by (simp add: IsTxInMempoolOrRange_def demo_node_def u32_of_u64_def Let_def)

lemma demo_observed_simps [simp]:
  "map_of (observerLoopList (demo_observed confs)) ''swap'' =
     Some \<lparr>ob_txId = ''young'', ob_vout = 0, ob_startingHeight = 90, ob_safetyLimit = 504, ob_lastHeight = 0\<rparr>"
  "tw_clock (demo_observed confs) = 0" "requiredConfs (demo_observed confs) = confs" "tw_log (demo_observed confs) = []"
  "txCallback (demo_observed confs) = Some (\<lambda>_ _ _ n. Ret (None, Suc n))" "tw_client (demo_observed confs) = 0"
  by (simp_all add: demo_observed_def)

lemma demo_observe:
  assumes "0 < height" "height < 594" "confs \<le> height - 101"
  shows "\<exists>l'. observationLoop demo_node ''swap'' height (demo_observed confs) = Ret l' \<and>
    tw_log l' = [TxCalled ''swap'' ''0200'' None None]"
  using assms
  by (auto simp: observationLoop_def Let_def demo_search callbackAndLog_def end_observer_def)


text \<open>
  The count of confirmations is a 32-bit subtraction of the height that was delivered and the
  height at which the node sees the transaction now.  When the delivered height is stale by two
  blocks the difference wraps around: a transaction with a single confirmation is reported as
  confirmed although three confirmations are required.
\<close>

theorem stale_height_confirms_early:
  "\<exists>l'. rpc_GetTxOut demo_node 2 ''young'' 0 = Inr (Some \<lparr>BestBlockHash = ''tip'', TxConfirmations = 1\<rparr>) \<and>
     fst (rpc_GetBlockHeight demo_node 0) = 102 \<and> requiredConfs (demo_observed 3) = 3 \<and>
     observationLoop demo_node ''swap'' 100 (demo_observed 3) = Ret l' \<and>
     tw_log l' = tw_log (demo_observed 3) @ [TxCalled ''swap'' ''0200'' None None]"
proof -
  have "(3 :: u32) \<le> 100 - 101" by simp
  from demo_observe [OF _ _ this] obtain l' where
    "observationLoop demo_node ''swap'' 100 (demo_observed 3) = Ret l'" "tw_log l' = [TxCalled ''swap'' ''0200'' None None]"
    by auto
  then show ?thesis by (simp add: demo_node_def)
qed

section \<open>The search ends\<close>

lemma range_loop_returns:
  assumes "endBlock \<noteq> - 1"
  shows "\<exists>r. range_loop bc txId endBlock i t = Some r"
proof (induction "Suc (unat endBlock) - unat i" arbitrary: i t)
  case 0
  then show ?case by (subst range_loop.simps) (simp add: word_le_nat_alt)
next
  case (Suc n)
  show ?case
  proof (cases "i \<le> endBlock")
    case True
    have "i \<noteq> - 1" using True assms by (metis word_not_simps(3) word_order.extremum_uniqueI)
    then have "unat (i + 1) = Suc (unat i)"
      using unatSuc [of i] by (metis add.commute add_eq_0_iff2)
    then have "\<exists>r. range_loop bc txId endBlock (i + 1) (t + 2) = Some r"
      using Suc by auto
    then show ?thesis
      by (subst range_loop.simps) (auto split: prod.splits option.splits)
  qed (subst range_loop.simps, simp)
qed

text \<open>
  The search for a transaction returns, for every node whose height stays below the largest
  32-bit number, however its other answers change.
\<close>

theorem transaction_search_returns:
  assumes "\<And>t h. rpc_GetBlockHeight bc t = (h, None) \<Longrightarrow> u32_of_u64 h \<noteq> - 1"
  shows "\<exists>r t'. IsTxInMempoolOrRange bc txId start vout t = Some (r, t')"
proof -
  have range: "\<exists>r t'. IsTxInRange bc txId start e t1 = Some (r, t')" if "e \<noteq> - 1" for e t1
    using range_loop_returns [OF that] by (simp add: IsTxInRange_def)
  show ?thesis
    using assms range unfolding IsTxInMempoolOrRange_def Let_def
    by (auto split: prod.split option.split sum.split)
qed

theorem transaction_search_returns_witness:
  "\<exists>r t'. IsTxInMempoolOrRange demo_node ''young'' 90 0 0 = Some (r, t')"
  by (rule transaction_search_returns) (auto simp: demo_node_def u32_of_u64_def)

section \<open>A matured watch fires\<close>

lemma csv_sweep_extends:
  "csv_sweep bc xs l = Ret (rm, l') \<Longrightarrow> (\<exists>new. tw_log l' = tw_log l @ new) \<and> csvPassedCallback l' = csvPassedCallback l"
proof (induction xs arbitrary: l rm)
  case Nil
  then show ?case by simp
next
  case (Cons kv xs)
  obtain k v where "kv = (k, v)" by fastforce
  with Cons.prems obtain called l1 rm1 where step: "csv_entry bc k v l = Ret (called, l1)" "csv_sweep bc xs l1 = Ret (rm1, l')"
    by (auto split: outcome.splits prod.splits)
  have "(\<exists>new. tw_log l1 = tw_log l @ new) \<and> csvPassedCallback l1 = csvPassedCallback l"
    using step(1) by (auto simp: csv_entry_def split: prod.splits sum.splits option.splits if_splits outcome.splits
        dest!: get_tx_out_cases call_csv_cases)
  then show ?case using Cons.IH [OF step(2)] by auto
qed

definition matured :: "BlockchainRpc \<Rightarrow> SwapTxInfo \<Rightarrow> bool" where
  "matured bc v \<longleftrightarrow> (\<forall>t. case rpc_GetTxOut bc t (TxId v) (TxVout v) of
     Inr (Some res) \<Rightarrow> Csv v \<le> TxConfirmations res | _ \<Rightarrow> False)"

lemma matured_entry_called:
  assumes "csv_entry bc k v l = Ret (called, l')" "matured bc v" "csvPassedCallback l \<noteq> None"
  shows "\<exists>e n. tw_log l' = tw_log l @ [Confirmations v n, CsvCalled k e] \<and> called = (e = None)"
proof -
  have "case rpc_GetTxOut bc (tw_clock l) (TxId v) (TxVout v) of
     Inr (Some res) \<Rightarrow> Csv v \<le> TxConfirmations res | _ \<Rightarrow> False"
    using assms(2) by (simp add: matured_def)
  then show ?thesis
    using assms(1,3)
    by (auto simp: csv_entry_def get_tx_out_def Let_def split: sum.splits option.splits if_splits outcome.splits
        prod.splits dest!: call_csv_cases)
qed

lemma matured_sweep_called:
  assumes "csv_sweep bc xs l = Ret (rm, l')" "(k, v) \<in> set xs" "matured bc v" "csvPassedCallback l \<noteq> None"
  shows "\<exists>pre e later. tw_log l' = tw_log l @ pre @ CsvCalled k e # later \<and> (e = None \<longrightarrow> k \<in> set rm)"
  using assms
proof (induction xs arbitrary: l rm)
  case (Cons kv xs)
  obtain k1 v1 where kv: "kv = (k1, v1)" by fastforce
  with Cons.prems(1) obtain called l1 rm1 where step: "csv_entry bc k1 v1 l = Ret (called, l1)"
    "csv_sweep bc xs l1 = Ret (rm1, l')" and rm: "rm = (if called then k1 # rm1 else rm1)"
    by (auto split: outcome.splits prod.splits)
  note ext = csv_sweep_extends [OF step(2)]
  show ?case
  proof (cases "(k, v) = (k1, v1)")
    case True
    obtain e n where "tw_log l1 = tw_log l @ [Confirmations v n, CsvCalled k e]" "called = (e = None)"
      using matured_entry_called [OF step(1)] Cons.prems(3,4) True by auto
    moreover obtain new where "tw_log l' = tw_log l1 @ new" using ext by blast
    ultimately show ?thesis
      using rm True by (intro exI [of _ "[Confirmations v n]"] exI [of _ e] exI [of _ new]) simp
  next
    case False
    have "csv_sweep bc [(k1, v1)] l = Ret (if called then [k1] else [], l1)" using step(1) by simp
    from csv_sweep_extends [OF this] obtain new where
      new: "tw_log l1 = tw_log l @ new" "csvPassedCallback l1 = csvPassedCallback l" by blast
    obtain pre e later where "tw_log l' = tw_log l1 @ pre @ CsvCalled k e # later" "e = None \<longrightarrow> k \<in> set rm1"
      using Cons.IH [OF step(2)] Cons.prems False kv new by auto
    then show ?thesis
      using new rm by (intro exI [of _ "new @ pre"] exI [of _ e] exI [of _ later]) auto
  qed
qed simp


definition demo_matured :: "nat BlockchainRpcTxWatcher" where
  "demo_matured = demo_watcher\<lparr>csvtxWatchList := [(''other'', demo_info), (''swap'', demo_info\<lparr>TxId := ''old''\<rparr>)]\<rparr>"


end
