(* ===== verification/PS_Electrum.thy ===== *)
theory PS_Electrum
  imports PS_Watch
begin

text \<open>
  The chain watcher of the Liquid wallet (\<open>lwk/electrumtxwatcher.go\<close>) over an Electrum server: the
  observers of opening transactions and of refund delays (\<open>electrum/tx_observer.go\<close>), the list that
  hands them new heights (\<open>electrum/block_subscriber.go\<close>), and the guarded block height.

  Heights are Go's \<open>int64\<close>; the server sends 32-bit numbers and the sums below add two of them, so
  that no operation leaves the range and they are mathematical integers here.  Parsing a transaction
  hash and an output script is done by third-party code and a parameter, as are the server's answers.
\<close>

section \<open>The server and the parsers\<close>

type_synonym BlockHeight = int

record history_entry =
  hist_Hash :: string
  hist_Height :: int

record electrum_env =
  el_GetHistory :: "nat \<Rightarrow> string \<Rightarrow> go_error + history_entry option list"
  el_GetRawTransaction :: "nat \<Rightarrow> string \<Rightarrow> go_error + string"
  el_NewHashFromStr :: "string \<Rightarrow> go_error + byte list"
  el_HashString :: "byte list \<Rightarrow> string"
  el_ParsePkScript :: "byte list \<Rightarrow> go_error + byte list"
  el_sha256 :: "byte list \<Rightarrow> byte list"

definition LiquidConfs :: u32 where
  "LiquidConfs = 2"

text \<open>The verb \<open>%X\<close>.\<close>

definition upper_hex :: "byte list \<Rightarrow> string" where
  "upper_hex bs = map (\<lambda>c. if 97 \<le> (of_char c :: nat) then char_of (of_char c - 32 :: nat) else c)
     (hex_EncodeToString bs)"

definition scriptHash :: "electrum_env \<Rightarrow> byte list \<Rightarrow> string" where
  "scriptHash en script = upper_hex (rev (el_sha256 en script))"

definition NewScriptPubKey :: "electrum_env \<Rightarrow> byte list \<Rightarrow> go_error + byte list" where
  "NewScriptPubKey en script = (case el_ParsePkScript en script of
     Inl e \<Rightarrow> Inl (ErrWrap ''failed to parse script'' e) | Inr s \<Rightarrow> Inr s)"

section \<open>Observers (\<open>electrum/tx_observer.go\<close>)\<close>

type_synonym 'c confirmationCallback = "string \<Rightarrow> string \<Rightarrow> go_error option \<Rightarrow> 'c \<Rightarrow> (go_error option \<times> 'c) outcome"
type_synonym 'c csvCallback = "string \<Rightarrow> 'c \<Rightarrow> (go_error option \<times> 'c) outcome"

record 'c observeOpeningTX =
  oo_swapID :: SwapId
  oo_txID :: "byte list"
  oo_scriptPubkey :: "byte list"
  oo_cb :: "'c confirmationCallback option"
  oo_startingHeight :: u32
  oo_paymentWindow :: u32

record 'c observeCSVTX =
  oc_swapID :: SwapId
  oc_txID :: "byte list"
  oc_scriptPubkey :: "byte list"
  oc_cb :: "'c csvCallback option"
  oc_csv :: u32

datatype 'c TXObserver = OpeningObserver "'c observeOpeningTX" | CsvObserver "'c observeCSVTX"

fun GetSwapID :: "'c TXObserver \<Rightarrow> SwapId" where
  "GetSwapID (OpeningObserver o1) = oo_swapID o1"
| "GetSwapID (CsvObserver o2) = oc_swapID o2"

text \<open>What the log says of a refund watch: the transaction and the delay.\<close>

type_synonym csv_info = "byte list \<times> u32"

record 'c subscriber =
  txObservers :: "'c TXObserver list"
  sub_client :: 'c
  sub_clock :: nat
  sub_log :: "csv_info watch_event list"

fun getHeight :: "electrum_env \<Rightarrow> history_entry option list \<Rightarrow> byte list \<Rightarrow> BlockHeight option" where
  "getHeight en [] txID = None"
| "getHeight en (None # hs) txID = getHeight en hs txID"
| "getHeight en (Some h # hs) txID = (case el_NewHashFromStr en (hist_Hash h) of
     Inl _ \<Rightarrow> getHeight en hs txID
   | Inr hh \<Rightarrow> if hh = txID then Some (hist_Height h) else getHeight en hs txID)"

definition hasConfirmations :: "BlockHeight \<Rightarrow> BlockHeight \<Rightarrow> u32 \<Rightarrow> go_error + bool" where
  "hasConfirmations txHeight tipHeight required =
     (if tipHeight \<le> 0 then Inl (ErrText (''invalid electrum tip height: '' @ fmt_int tipHeight))
      else if txHeight \<le> 0 then Inr False
      else if tipHeight < txHeight
      then Inl (ErrText (''electrum transaction height '' @ fmt_int txHeight @ '' is above tip height '' @ fmt_int tipHeight))
      else Inr (int (unat required) \<le> tipHeight - txHeight + 1))"

definition call_opening ::
  "'c observeOpeningTX \<Rightarrow> string \<Rightarrow> go_error option \<Rightarrow> 'c subscriber \<Rightarrow> ((bool \<times> go_error option) \<times> 'c subscriber) outcome" where
  "call_opening ob txHex err s = (case oo_cb ob of
     None \<Rightarrow> Panic
   | Some f \<Rightarrow> (case f (SwapId_String (Some (oo_swapID ob))) txHex err (sub_client s) of
       Ret (e, c) \<Rightarrow> Ret ((True, e), s\<lparr>sub_client := c,
         sub_log := sub_log s @ [TxCalled (SwapId_String (Some (oo_swapID ob))) txHex err e]\<rparr>)
     | Panic \<Rightarrow> Panic | OutOfFuel \<Rightarrow> OutOfFuel))"

definition call_csv_passed :: "'c observeCSVTX \<Rightarrow> 'c subscriber \<Rightarrow> ((bool \<times> go_error option) \<times> 'c subscriber) outcome" where
  "call_csv_passed ob s = (case oc_cb ob of
     None \<Rightarrow> Panic
   | Some f \<Rightarrow> (case f (SwapId_String (Some (oc_swapID ob))) (sub_client s) of
       Ret (e, c) \<Rightarrow> Ret ((True, e), s\<lparr>sub_client := c,
         sub_log := sub_log s @ [CsvCalled (SwapId_String (Some (oc_swapID ob))) e]\<rparr>)
     | Panic \<Rightarrow> Panic | OutOfFuel \<Rightarrow> OutOfFuel))"

definition sub_tick :: "'c subscriber \<Rightarrow> 'c subscriber" where
  "sub_tick s = s\<lparr>sub_clock := Suc (sub_clock s)\<rparr>"

definition observeOpeningTX_Callback ::
  "electrum_env \<Rightarrow> 'c observeOpeningTX \<Rightarrow> BlockHeight \<Rightarrow> 'c subscriber \<Rightarrow> ((bool \<times> go_error option) \<times> 'c subscriber) outcome" where
  "observeOpeningTX_Callback en ob currentHeight s =
     (let deadline = int (unat (oo_startingHeight ob)) + int (unat (oo_paymentWindow ob)) in
     if currentHeight \<le> 0
     then Ret ((False, Some (ErrText (''invalid electrum tip height: '' @ fmt_int currentHeight))), s)
     else if currentHeight < int (unat (oo_startingHeight ob)) \<or> deadline \<le> currentHeight
     then call_opening ob '''' (Some (ErrText (''claim payment deadline exceeded: current height '' @
            fmt_int currentHeight @ '', deadline '' @ fmt_int deadline))) s
     else (case el_GetHistory en (sub_clock s) (scriptHash en (oo_scriptPubkey ob)) of
        Inl e \<Rightarrow> Ret ((False, Some (ErrWrap ''failed to get history'' e)), sub_tick s)
      | Inr hs \<Rightarrow>
     (case getHeight en hs (oo_txID ob) of
        None \<Rightarrow> Ret ((False, None), sub_tick s)
      | Some txHeight \<Rightarrow>
     (case hasConfirmations txHeight currentHeight LiquidConfs of
        Inl e \<Rightarrow> Ret ((False, Some e), sub_tick s)
      | Inr confirmed \<Rightarrow>
     if \<not> confirmed then Ret ((False, None), sub_tick s)
     else (case el_GetRawTransaction en (Suc (sub_clock s)) (el_HashString en (oo_txID ob)) of
        Inl _ \<Rightarrow> Ret ((False, None), sub_tick (sub_tick s))
      | Inr rawTx \<Rightarrow> call_opening ob rawTx None (sub_tick (sub_tick s)))))))"

text \<open>The confirmations are noted in the log where the code has computed them.\<close>

definition observeCSVTX_Callback ::
  "electrum_env \<Rightarrow> 'c observeCSVTX \<Rightarrow> BlockHeight \<Rightarrow> 'c subscriber \<Rightarrow> ((bool \<times> go_error option) \<times> 'c subscriber) outcome" where
  "observeCSVTX_Callback en ob currentHeight s =
     (case el_GetHistory en (sub_clock s) (scriptHash en (oc_scriptPubkey ob)) of
        Inl e \<Rightarrow> Ret ((False, Some (ErrWrap ''failed to get history'' e)), sub_tick s)
      | Inr hs \<Rightarrow>
     (case getHeight en hs (oc_txID ob) of
        None \<Rightarrow> Ret ((False, None), sub_tick s)
      | Some txHeight \<Rightarrow>
     (case hasConfirmations txHeight currentHeight (oc_csv ob) of
        Inl e \<Rightarrow> Ret ((False, Some e), sub_tick s)
      | Inr mature \<Rightarrow>
     if \<not> mature then Ret ((False, None), sub_tick s)
     else call_csv_passed ob ((sub_tick s)\<lparr>sub_log := sub_log s @
       [Confirmations (oc_txID ob, oc_csv ob) (nat (currentHeight - txHeight + 1))]\<rparr>))))"

fun observer_Callback ::
  "electrum_env \<Rightarrow> 'c TXObserver \<Rightarrow> BlockHeight \<Rightarrow> 'c subscriber \<Rightarrow> ((bool \<times> go_error option) \<times> 'c subscriber) outcome" where
  "observer_Callback en (OpeningObserver ob) h s = observeOpeningTX_Callback en ob h s"
| "observer_Callback en (CsvObserver ob) h s = observeCSVTX_Callback en ob h s"

section \<open>The list of observers (\<open>electrum/block_subscriber.go\<close>)\<close>

definition Register :: "'c TXObserver \<Rightarrow> 'c subscriber \<Rightarrow> 'c subscriber" where
  "Register tx s = s\<lparr>txObservers := txObservers s @ [tx]\<rparr>"

definition Deregister :: "'c TXObserver \<Rightarrow> 'c subscriber \<Rightarrow> 'c subscriber" where
  "Deregister ob s = s\<lparr>txObservers := filter (\<lambda>x. GetSwapID x \<noteq> GetSwapID ob) (txObservers s)\<rparr>"

text \<open>The loop runs over the observers registered when it started, also those it removes meanwhile.\<close>

fun update_loop :: "electrum_env \<Rightarrow> BlockHeight \<Rightarrow> 'c TXObserver list \<Rightarrow> 'c subscriber \<Rightarrow> 'c subscriber outcome" where
  "update_loop en h [] s = Ret s"
| "update_loop en h (ob # obs) s = (case observer_Callback en ob h s of
     Ret ((callbacked, err), s) \<Rightarrow> update_loop en h obs (if callbacked \<and> taken err then Deregister ob s else s)
   | Panic \<Rightarrow> Panic | OutOfFuel \<Rightarrow> OutOfFuel)"

definition subscriber_Update :: "electrum_env \<Rightarrow> BlockHeight \<Rightarrow> 'c subscriber \<Rightarrow> 'c subscriber outcome" where
  "subscriber_Update en h s = update_loop en h (txObservers s) s"

section \<open>The watcher (\<open>lwk/electrumtxwatcher.go\<close>)\<close>

record 'c electrumTxWatcher =
  blockHeight :: BlockHeight
  terminalErr :: "go_error option"
  ew_subscriber :: "'c subscriber"
  confirmation_Callback :: "'c confirmationCallback option"
  csv_Callback :: "'c csvCallback option"

definition parseBlockHeight :: "int option \<Rightarrow> go_error + BlockHeight" where
  "parseBlockHeight blockHeader = (case blockHeader of
     None \<Rightarrow> Inl (ErrText ''electrum returned a nil block header'')
   | Some height \<Rightarrow> if height \<le> 0 then Inl (ErrText (''electrum returned invalid block header height: '' @ fmt_int height))
                   else Inr height)"

definition acceptBlockHeight :: "int option \<Rightarrow> 'c electrumTxWatcher \<Rightarrow> (go_error + BlockHeight \<times> bool) \<times> 'c electrumTxWatcher" where
  "acceptBlockHeight blockHeader r = (case parseBlockHeight blockHeader of
     Inl e \<Rightarrow> (Inl e, r)
   | Inr height \<Rightarrow> (case terminalErr r of
       Some e \<Rightarrow> (Inl e, r)
     | None \<Rightarrow> if 0 < blockHeight r \<and> height \<le> blockHeight r then (Inr (height, False), r)
              else (Inr (height, True), r\<lparr>blockHeight := height\<rparr>)))"

definition ew_fail :: "go_error \<Rightarrow> 'c electrumTxWatcher \<Rightarrow> 'c electrumTxWatcher" where
  "ew_fail err r = (if terminalErr r = None then r\<lparr>terminalErr := Some err\<rparr> else r)"

definition ew_GetBlockHeight :: "'c electrumTxWatcher \<Rightarrow> go_error + u32" where
  "ew_GetBlockHeight r = (case terminalErr r of
     Some e \<Rightarrow> Inl (ErrWrap ''electrum transaction watcher stopped'' e)
   | None \<Rightarrow> if blockHeight r \<le> 0 then Inl (ErrText ''block height not confirmed'')
            else if 4294967295 < blockHeight r
            then Inl (ErrText (''block height exceeds uint32: '' @ fmt_int (blockHeight r)))
            else Inr (word_of_int (blockHeight r)))"

definition update_subscriber :: "electrum_env \<Rightarrow> BlockHeight \<Rightarrow> 'c electrumTxWatcher \<Rightarrow> 'c electrumTxWatcher outcome" where
  "update_subscriber en h r = (case subscriber_Update en h (ew_subscriber r) of
     Ret s \<Rightarrow> Ret (r\<lparr>ew_subscriber := s\<rparr>) | Panic \<Rightarrow> Panic | OutOfFuel \<Rightarrow> OutOfFuel)"

text \<open>
  The first header of \<open>StartWatchingTxs\<close>: its error is returned and the loop is not started.  A later
  header with an error stops the watcher for good.  The result tells whether the loop goes on.
\<close>

definition on_initial_header :: "electrum_env \<Rightarrow> int option \<Rightarrow> 'c electrumTxWatcher \<Rightarrow> (go_error option \<times> 'c electrumTxWatcher) outcome" where
  "on_initial_header en hdr r = (case acceptBlockHeight hdr r of
     (Inl e, r) \<Rightarrow> Ret (Some e, r)
   | (Inr (height, changed), r) \<Rightarrow> if \<not> changed then Ret (None, r)
       else (case update_subscriber en height r of
          Ret r \<Rightarrow> Ret (None, r) | Panic \<Rightarrow> Panic | OutOfFuel \<Rightarrow> OutOfFuel))"

definition on_header :: "electrum_env \<Rightarrow> int option \<Rightarrow> 'c electrumTxWatcher \<Rightarrow> (bool \<times> 'c electrumTxWatcher) outcome" where
  "on_header en hdr r = (case acceptBlockHeight hdr r of
     (Inl e, r) \<Rightarrow> Ret (False, ew_fail e r)
   | (Inr (height, changed), r) \<Rightarrow> if \<not> changed then Ret (True, r)
       else (case update_subscriber en height r of
          Ret r \<Rightarrow> Ret (True, r) | Panic \<Rightarrow> Panic | OutOfFuel \<Rightarrow> OutOfFuel))"

text \<open>
  A registration whose swap id, transaction id or script does not parse is only logged.
  \<open>FromString\<close> overwrites the random id it is called on, which is left out here.
\<close>

definition ew_AddWaitForConfirmationTx ::
  "electrum_env \<Rightarrow> string \<Rightarrow> string \<Rightarrow> u32 \<Rightarrow> u32 \<Rightarrow> byte list \<Rightarrow> 'c electrumTxWatcher \<Rightarrow> 'c electrumTxWatcher" where
  "ew_AddWaitForConfirmationTx en swapIDStr txIDStr startingHeight paymentWindow script r =
     (case SwapId_FromString swapIDStr [] of
        (Some _, _) \<Rightarrow> r
      | (None, swapID) \<Rightarrow> (case el_NewHashFromStr en txIDStr of
        Inl _ \<Rightarrow> r
      | Inr txID \<Rightarrow> (case NewScriptPubKey en script of
        Inl _ \<Rightarrow> r
      | Inr scrypt \<Rightarrow> r\<lparr>ew_subscriber := Register (OpeningObserver
          \<lparr>oo_swapID = swapID, oo_txID = txID, oo_scriptPubkey = scrypt, oo_cb = confirmation_Callback r,
           oo_startingHeight = startingHeight, oo_paymentWindow = paymentWindow\<rparr>) (ew_subscriber r)\<rparr>)))"

definition ew_AddWaitForCsvTx ::
  "electrum_env \<Rightarrow> string \<Rightarrow> string \<Rightarrow> u32 \<Rightarrow> byte list \<Rightarrow> 'c electrumTxWatcher \<Rightarrow> 'c electrumTxWatcher" where
  "ew_AddWaitForCsvTx en swapIDStr txIDStr csv script r =
     (case SwapId_FromString swapIDStr [] of
        (Some _, _) \<Rightarrow> r
      | (None, swapID) \<Rightarrow> (case el_NewHashFromStr en txIDStr of
        Inl _ \<Rightarrow> r
      | Inr txID \<Rightarrow> (case NewScriptPubKey en script of
        Inl _ \<Rightarrow> r
      | Inr scrypt \<Rightarrow> (let s = ew_subscriber r in r\<lparr>ew_subscriber := Register (CsvObserver
          \<lparr>oc_swapID = swapID, oc_txID = txID, oc_scriptPubkey = scrypt, oc_cb = csv_Callback r, oc_csv = csv\<rparr>)
          (s\<lparr>sub_log := sub_log s @ [CsvAdded (SwapId_String (Some swapID)) (txID, csv)]\<rparr>)\<rparr>))))"

section \<open>The contract of refund watches\<close>

definition csv_listed :: "'c subscriber \<Rightarrow> string \<Rightarrow> csv_info \<Rightarrow> bool" where
  "csv_listed s k i \<longleftrightarrow> (\<exists>ob. CsvObserver ob \<in> set (txObservers s) \<and>
     SwapId_String (Some (oc_swapID ob)) = k \<and> (oc_txID ob, oc_csv ob) = i)"

text \<open>
  A swap waits for a confirmation or for a refund delay, not for both: the first is the taker's, the
  second the maker's.  The classification of the swaps is a parameter of the step relation.  The
  watcher keeps, beside the contract, that its observers respect it.
\<close>

inductive ew_step :: "electrum_env \<Rightarrow> (SwapId \<Rightarrow> bool) \<Rightarrow> 'c electrumTxWatcher \<Rightarrow> 'c electrumTxWatcher \<Rightarrow> bool"
  for en maker where
  ew_conf: "SwapId_FromString swapIDStr [] = (None, swapID) \<Longrightarrow> \<not> maker swapID \<Longrightarrow>
    ew_step en maker r (ew_AddWaitForConfirmationTx en swapIDStr txIDStr start window script r)"
| ew_csv: "SwapId_FromString swapIDStr [] = (None, swapID) \<Longrightarrow> maker swapID \<Longrightarrow>
    ew_step en maker r (ew_AddWaitForCsvTx en swapIDStr txIDStr csv script r)"
| ew_first: "on_initial_header en hdr r = Ret (err, r') \<Longrightarrow> ew_step en maker r r'"
| ew_header: "on_header en hdr r = Ret (go_on, r') \<Longrightarrow> ew_step en maker r r'"

abbreviation info_delay :: "csv_info \<Rightarrow> nat" where
  "info_delay i \<equiv> unat (snd i)"

definition roles_kept :: "(SwapId \<Rightarrow> bool) \<Rightarrow> 'c TXObserver list \<Rightarrow> bool" where
  "roles_kept maker obs \<longleftrightarrow> (\<forall>ob \<in> set obs. case ob of
     OpeningObserver x \<Rightarrow> \<not> maker (oo_swapID x) | CsvObserver x \<Rightarrow> maker (oc_swapID x))"

definition sub_inv :: "(SwapId \<Rightarrow> bool) \<Rightarrow> 'c subscriber \<Rightarrow> bool" where
  "sub_inv maker s \<longleftrightarrow> watch_inv info_delay sub_log csv_listed s \<and> roles_kept maker (txObservers s)"

lemma swap_id_text_inject [simp]:
  "SwapId_String (Some a) = SwapId_String (Some b) \<longleftrightarrow> a = b"
  by (simp add: SwapId_String_def)

text \<open>What one observer does to the log.\<close>

lemma sub_tick_simps [simp]:
  "txObservers (sub_tick s) = txObservers s" "sub_log (sub_tick s) = sub_log s"
  by (simp_all add: sub_tick_def)

lemma hasConfirmations_mature:
  "hasConfirmations txHeight tip required = Inr True \<Longrightarrow> 0 < txHeight \<and> txHeight \<le> tip \<and>
     unat required \<le> nat (tip - txHeight + 1)"
  by (auto simp: hasConfirmations_def le_nat_iff split: if_splits)

lemma call_opening_cases:
  "call_opening ob txHex err s = Ret (r, s') \<Longrightarrow> txObservers s' = txObservers s \<and> fst r \<and>
     sub_log s' = sub_log s @ [TxCalled (SwapId_String (Some (oo_swapID ob))) txHex err (snd r)]"
  by (auto simp: call_opening_def split: option.splits outcome.splits prod.splits)

lemma call_csv_passed_cases:
  "call_csv_passed ob s = Ret (r, s') \<Longrightarrow> txObservers s' = txObservers s \<and> fst r \<and>
     sub_log s' = sub_log s @ [CsvCalled (SwapId_String (Some (oc_swapID ob))) (snd r)]"
  by (auto simp: call_csv_passed_def split: option.splits outcome.splits prod.splits)

lemma opening_Callback_cases:
  assumes "observeOpeningTX_Callback en ob h s = Ret ((called, err), s')"
  shows "txObservers s' = txObservers s \<and> (sub_log s' = sub_log s \<and> \<not> called \<or>
    called \<and> (\<exists>hex e. sub_log s' = sub_log s @ [TxCalled (SwapId_String (Some (oo_swapID ob))) hex e err]))"
  using assms unfolding observeOpeningTX_Callback_def Let_def
  by (auto split: if_splits sum.splits option.splits dest!: call_opening_cases)

lemma csv_Callback_cases:
  assumes "observeCSVTX_Callback en ob h s = Ret ((called, err), s')"
  shows "txObservers s' = txObservers s \<and> (sub_log s' = sub_log s \<and> \<not> called \<or>
    called \<and> (\<exists>n \<ge> unat (oc_csv ob). sub_log s' = sub_log s @
      [Confirmations (oc_txID ob, oc_csv ob) n, CsvCalled (SwapId_String (Some (oc_swapID ob))) err]))"
  using assms unfolding observeCSVTX_Callback_def
  by (auto split: if_splits sum.splits option.splits dest!: call_csv_passed_cases hasConfirmations_mature)

lemma sub_inv_kept:
  assumes "sub_inv maker s" "justified info_delay (sub_log s')" "set (sub_log s) \<subseteq> set (sub_log s')"
    "\<And>k i. pending (sub_log s') k = Some i \<Longrightarrow> pending (sub_log s) k = Some i \<and> (removed \<longrightarrow> k \<noteq> k0)"
    "\<And>k i. csv_listed s' k i \<longleftrightarrow> csv_listed s k i \<and> (removed \<longrightarrow> k \<noteq> k0)" "roles_kept maker (txObservers s')"
  shows "sub_inv maker s'"
  using assms unfolding sub_inv_def watch_inv_def by blast

text \<open>The part of the contract that the loop keeps for the observers it still has to visit.\<close>

lemma update_loop_inv:
  assumes "update_loop en h obs s = Ret s'" "sub_inv maker s" "roles_kept maker obs"
    "\<And>ob. CsvObserver ob \<in> set obs \<Longrightarrow> CsvAdded (SwapId_String (Some (oc_swapID ob))) (oc_txID ob, oc_csv ob) \<in> set (sub_log s)"
  shows "sub_inv maker s'"
  using assms
proof (induction obs arbitrary: s)
  case (Cons ob obs)
  obtain called err s1 where cb: "observer_Callback en ob h s = Ret ((called, err), s1)"
    and rest: "update_loop en h obs (if called \<and> taken err then Deregister ob s1 else s1) = Ret s'"
    using Cons.prems(1) by (auto split: outcome.splits)
  have inv: "justified info_delay (sub_log s)" "\<And>k i. csv_listed s k i \<Longrightarrow> CsvAdded k i \<in> set (sub_log s)"
    "\<And>k i. pending (sub_log s) k = Some i \<Longrightarrow> csv_listed s k i" "roles_kept maker (txObservers s)"
    using Cons.prems(2) by (auto simp: sub_inv_def watch_inv_def)
  let ?s = "if called \<and> taken err then Deregister ob s1 else s1"
  have obs: "txObservers ?s = (if called \<and> taken err then filter (\<lambda>x. GetSwapID x \<noteq> GetSwapID ob) (txObservers s) else txObservers s)"
    using cb by (cases ob) (auto simp: Deregister_def dest!: opening_Callback_cases csv_Callback_cases)
  have kept: "csv_listed ?s k i \<longleftrightarrow> csv_listed s k i \<and> (called \<and> taken err \<longrightarrow> k \<noteq> SwapId_String (Some (GetSwapID ob)))" for k i
    unfolding csv_listed_def obs by auto
  have log: "sub_log ?s = sub_log s1" by (simp add: Deregister_def)
  have roles: "roles_kept maker (txObservers ?s)" using inv(4) by (auto simp: obs roles_kept_def)
  have "sub_inv maker ?s \<and> set (sub_log s) \<subseteq> set (sub_log ?s)"
  proof (cases ob)
    case (OpeningObserver x)
    have "\<not> maker (oo_swapID x)" using Cons.prems(3) OpeningObserver by (simp add: roles_kept_def)
    then have no: "\<not> csv_listed s (SwapId_String (Some (oo_swapID x))) i" for i
      using inv(4) by (fastforce simp: csv_listed_def roles_kept_def)
    then have none: "pending (sub_log s) (SwapId_String (Some (oo_swapID x))) = None"
      using inv(3) by (metis option.exhaust)
    have "sub_log s1 = sub_log s \<or> (\<exists>hex e. sub_log s1 = sub_log s @ [TxCalled (SwapId_String (Some (oo_swapID x))) hex e err])"
      using cb OpeningObserver by (auto dest!: opening_Callback_cases)
    then have "justified info_delay (sub_log s1)" "pending (sub_log s1) = pending (sub_log s)" "set (sub_log s) \<subseteq> set (sub_log s1)"
      using inv(1) by (auto simp: justified_snoc)
    moreover have "pending (sub_log s) k = Some i \<Longrightarrow> (called \<and> taken err \<longrightarrow> k \<noteq> SwapId_String (Some (GetSwapID ob)))" for k i
      using none OpeningObserver by auto
    ultimately have "sub_inv maker ?s"
      by (intro sub_inv_kept [OF Cons.prems(2) _ _ _ kept roles]; unfold log; simp)
    then show ?thesis using \<open>set (sub_log s) \<subseteq> set (sub_log s1)\<close> log by simp
  next
    case (CsvObserver x)
    let ?k = "SwapId_String (Some (oc_swapID x))"
    have added: "CsvAdded ?k (oc_txID x, oc_csv x) \<in> set (sub_log s)" using Cons.prems(4) CsvObserver by simp
    consider "sub_log s1 = sub_log s" "\<not> called" | n where "unat (oc_csv x) \<le> n" "called"
      "sub_log s1 = sub_log s @ [Confirmations (oc_txID x, oc_csv x) n, CsvCalled ?k err]"
      using cb CsvObserver by (auto dest!: csv_Callback_cases)
    then have "justified info_delay (sub_log s1) \<and> set (sub_log s) \<subseteq> set (sub_log s1) \<and>
        (\<forall>k i. pending (sub_log s1) k = Some i \<longrightarrow> pending (sub_log s) k = Some i \<and> (called \<and> taken err \<longrightarrow> k \<noteq> ?k))"
      using inv(1) added justified_call [OF inv(1), of "(oc_txID x, oc_csv x)" _ ?k err]
      by cases (auto simp: pending_append split: if_splits)
    then show ?thesis
      using sub_inv_kept [OF Cons.prems(2), of ?s "called \<and> taken err" ?k] kept roles CsvObserver unfolding log by auto
  qed
  then show ?case
    using Cons.IH [OF rest] Cons.prems(3,4) by (auto simp: roles_kept_def)
qed simp

lemma subscriber_Update_inv:
  assumes "subscriber_Update en h s = Ret s'" "sub_inv maker s"
  shows "sub_inv maker s'"
proof (rule update_loop_inv)
  show "update_loop en h (txObservers s) s = Ret s'" using assms(1) by (simp add: subscriber_Update_def)
  fix ob assume "CsvObserver ob \<in> set (txObservers s)"
  then have "csv_listed s (SwapId_String (Some (oc_swapID ob))) (oc_txID ob, oc_csv ob)"
    unfolding csv_listed_def by blast
  then show "CsvAdded (SwapId_String (Some (oc_swapID ob))) (oc_txID ob, oc_csv ob) \<in> set (sub_log s)"
    using assms(2) unfolding sub_inv_def watch_inv_def by blast
qed (use assms(2) in \<open>simp_all add: sub_inv_def\<close>)

lemma register_conf_inv:
  assumes "SwapId_FromString swapIDStr [] = (None, swapID)" "\<not> maker swapID" "sub_inv maker (ew_subscriber r)"
  shows "sub_inv maker (ew_subscriber (ew_AddWaitForConfirmationTx en swapIDStr txIDStr start window script r))"
  using assms
  by (auto simp: ew_AddWaitForConfirmationTx_def Register_def sub_inv_def watch_inv_def csv_listed_def roles_kept_def
      split: sum.split)

lemma register_csv_inv:
  assumes "SwapId_FromString swapIDStr [] = (None, swapID)" "maker swapID" "sub_inv maker (ew_subscriber r)"
  shows "sub_inv maker (ew_subscriber (ew_AddWaitForCsvTx en swapIDStr txIDStr csv script r))"
proof -
  let ?s = "ew_subscriber r" and ?k = "SwapId_String (Some swapID)"
  have "sub_inv maker (Register (CsvObserver \<lparr>oc_swapID = swapID, oc_txID = txID, oc_scriptPubkey = sc,
      oc_cb = cb, oc_csv = csv\<rparr>) (?s\<lparr>sub_log := sub_log ?s @ [CsvAdded ?k (txID, csv)]\<rparr>))" for txID sc cb
  proof -
    let ?s' = "Register (CsvObserver \<lparr>oc_swapID = swapID, oc_txID = txID, oc_scriptPubkey = sc,
      oc_cb = cb, oc_csv = csv\<rparr>) (?s\<lparr>sub_log := sub_log ?s @ [CsvAdded ?k (txID, csv)]\<rparr>)"
    have "csv_listed ?s' k i \<longleftrightarrow> csv_listed ?s k i \<or> k = ?k \<and> i = (txID, csv)" for k i
      by (auto simp: csv_listed_def Register_def)
    moreover have "sub_log ?s' = sub_log ?s @ [CsvAdded ?k (txID, csv)]" "roles_kept maker (txObservers ?s')"
      using assms(2,3) by (auto simp: Register_def roles_kept_def sub_inv_def)
    ultimately show ?thesis
      using assms(3) by (auto simp: sub_inv_def watch_inv_def justified_snoc split: if_splits)
  qed
  then show ?thesis
    using assms by (auto simp: ew_AddWaitForCsvTx_def Let_def split: sum.split)
qed

lemma header_cases:
  assumes "acceptBlockHeight hdr r = (a, r1)"
  shows "ew_subscriber r1 = ew_subscriber r"
  using assms by (auto simp: acceptBlockHeight_def split: sum.splits option.splits if_splits)

lemma update_subscriber_inv:
  "update_subscriber en h r = Ret r' \<Longrightarrow> sub_inv maker (ew_subscriber r) \<Longrightarrow> sub_inv maker (ew_subscriber r')"
  by (auto simp: update_subscriber_def split: outcome.splits intro: subscriber_Update_inv)

lemma ew_step_inv: "ew_step en maker r r' \<Longrightarrow> sub_inv maker (ew_subscriber r) \<Longrightarrow> sub_inv maker (ew_subscriber r')"
proof (induction rule: ew_step.induct)
  case (ew_first hdr r err r')
  then show ?case
    by (auto simp: on_initial_header_def split: prod.splits sum.splits if_splits outcome.splits
        dest!: header_cases dest: update_subscriber_inv)
next
  case (ew_header hdr r go_on r')
  then show ?case
    by (auto simp: on_header_def ew_fail_def split: prod.splits sum.splits if_splits outcome.splits
        dest!: header_cases dest: update_subscriber_inv)
qed (auto intro: register_conf_inv register_csv_inv)

definition fresh_ew :: "'c electrumTxWatcher \<Rightarrow> bool" where
  "fresh_ew r \<longleftrightarrow> sub_log (ew_subscriber r) = [] \<and> txObservers (ew_subscriber r) = []"

lemma ew_watch_inv:
  "watch_inv info_delay (\<lambda>r. sub_log (ew_subscriber r)) (\<lambda>r. csv_listed (ew_subscriber r)) r \<and>
     roles_kept maker (txObservers (ew_subscriber r)) \<longleftrightarrow> sub_inv maker (ew_subscriber r)"
  by (simp add: watch_inv_def sub_inv_def)

interpretation ew_watcher: csv_watcher info_delay fresh_ew "ew_step en maker" "\<lambda>r. sub_log (ew_subscriber r)"
  "\<lambda>r. csv_listed (ew_subscriber r)" "\<lambda>r. roles_kept maker (txObservers (ew_subscriber r))" for en maker
proof unfold_locales
  show "sub_log (ew_subscriber r) = [] \<and> \<not> csv_listed (ew_subscriber r) k i \<and>
      roles_kept maker (txObservers (ew_subscriber r))" if "fresh_ew r" for maker k i and r :: "'b electrumTxWatcher"
    using that by (simp add: fresh_ew_def csv_listed_def roles_kept_def)
next
  fix en maker and r r' :: "'b electrumTxWatcher"
  assume "ew_step en maker r r'"
    "watch_inv info_delay (\<lambda>r. sub_log (ew_subscriber r)) (\<lambda>r. csv_listed (ew_subscriber r)) r"
    "roles_kept maker (txObservers (ew_subscriber r))"
  then show "watch_inv info_delay (\<lambda>r. sub_log (ew_subscriber r)) (\<lambda>r. csv_listed (ew_subscriber r)) r' \<and>
      roles_kept maker (txObservers (ew_subscriber r'))"
    using ew_step_inv [of en maker r r'] ew_watch_inv [of r maker] ew_watch_inv [of r' maker] by blast
qed

text \<open>
  The Electrum watcher keeps the same promise, for every classification of the swaps into those
  that wait for a confirmation and those that wait for a refund: it announces a refund only right
  after the server's history gave the registered output enough confirmations, and a registered output
  keeps an observer until its swap took the announcement.
\<close>

theorem electrum_refund_watch:
  assumes "fresh_ew r" "(ew_step en maker)\<^sup>*\<^sup>* r r'"
  shows "(\<forall>pre k e later. sub_log (ew_subscriber r') = pre @ CsvCalled k e # later \<longrightarrow>
      (\<exists>p i n. pre = p @ [Confirmations i n] \<and> unat (snd i) \<le> n \<and> CsvAdded k i \<in> set p)) \<and>
    (\<forall>k i. pending (sub_log (ew_subscriber r')) k = Some i \<longrightarrow> csv_listed (ew_subscriber r') k i)"
  using ew_watcher.announced_when_mature [OF assms] ew_watcher.watch_not_lost [OF assms] by blast

definition demo_electrum :: electrum_env where
  "demo_electrum = \<lparr>el_GetHistory = (\<lambda>_ _. Inr [None, Some \<lparr>hist_Hash = ''tx'', hist_Height = 100\<rparr>]),
     el_GetRawTransaction = (\<lambda>_ _. Inr ''0200''), el_NewHashFromStr = (\<lambda>s. Inr (bytes_of_string s)),
     el_HashString = (\<lambda>_. ''tx''), el_ParsePkScript = (\<lambda>s. Inr s), el_sha256 = (\<lambda>_. replicate 32 1)\<rparr>"

definition demo_ew :: "nat electrumTxWatcher" where
  "demo_ew = \<lparr>blockHeight = 0, terminalErr = None,
     ew_subscriber = \<lparr>txObservers = [], sub_client = 0, sub_clock = 0, sub_log = []\<rparr>,
     confirmation_Callback = Some (\<lambda>_ _ _ n. Ret (None, Suc n)), csv_Callback = Some (\<lambda>_ n. Ret (None, Suc n))\<rparr>"

definition demo_swap_id :: SwapId where
  "demo_swap_id = replicate 32 1"

lemma demo_swap_id_text [simp]:
  "SwapId_FromString (hex_EncodeToString demo_swap_id) [] = (None, demo_swap_id)"
  by (simp add: SwapId_FromString_def demo_swap_id_def)

text \<open>A refund watch of sixty blocks for a transaction at height 100.\<close>

definition demo_ew_csv :: "nat electrumTxWatcher" where
  "demo_ew_csv = ew_AddWaitForCsvTx demo_electrum (hex_EncodeToString demo_swap_id) ''tx'' 60 [0] demo_ew"

theorem electrum_refund_watch_witness:
  "pending (sub_log (ew_subscriber demo_ew_csv)) (SwapId_String (Some demo_swap_id)) = Some (bytes_of_string ''tx'', 60) \<and>
   csv_listed (ew_subscriber demo_ew_csv) (SwapId_String (Some demo_swap_id)) (bytes_of_string ''tx'', 60)"
proof -
  have log: "sub_log (ew_subscriber demo_ew_csv) = [CsvAdded (SwapId_String (Some demo_swap_id)) (bytes_of_string ''tx'', 60)]"
    by (simp add: demo_ew_csv_def ew_AddWaitForCsvTx_def demo_electrum_def demo_ew_def NewScriptPubKey_def Register_def)
  have "(ew_step demo_electrum (\<lambda>_. True))\<^sup>*\<^sup>* demo_ew demo_ew_csv"
    unfolding demo_ew_csv_def by (rule r_into_rtranclp) (rule ew_csv [OF demo_swap_id_text], simp)
  from electrum_refund_watch [OF _ this] log show ?thesis
    by (auto simp: fresh_ew_def demo_ew_def pending_def)
qed

section \<open>Confirmations\<close>

lemma getHeight_found:
  "getHeight en hs txID = Some h \<Longrightarrow> \<exists>x. Some x \<in> set hs \<and> el_NewHashFromStr en (hist_Hash x) = Inr txID \<and> hist_Height x = h"
  by (induction en hs txID rule: getHeight.induct) (auto split: sum.splits if_splits)

text \<open>
  What an opening observer does with a tip: a tip that is not positive is refused without a call;
  a tip outside the payment window, computed without overflow, is reported as an error; inside the
  window the transaction is reported only when the history of the output's script lists it at a
  positive height at or below the tip with at least two confirmations, and otherwise nothing is
  reported.
\<close>

theorem electrum_confirmation_safe:
  assumes "observeOpeningTX_Callback en ob tip s = Ret ((called, answer), s')"
  shows "if tip \<le> 0 then \<not> called \<and> sub_log s' = sub_log s
    else if tip < uint (oo_startingHeight ob) \<or> uint (oo_startingHeight ob) + uint (oo_paymentWindow ob) \<le> tip
    then called \<and> (\<exists>e. sub_log s' = sub_log s @ [TxCalled (SwapId_String (Some (oo_swapID ob))) '''' (Some e) answer])
    else if called then (\<exists>raw hs x. sub_log s' = sub_log s @ [TxCalled (SwapId_String (Some (oo_swapID ob))) raw None answer] \<and>
      el_GetHistory en (sub_clock s) (scriptHash en (oo_scriptPubkey ob)) = Inr hs \<and> Some x \<in> set hs \<and>
      el_NewHashFromStr en (hist_Hash x) = Inr (oo_txID ob) \<and> 0 < hist_Height x \<and> hist_Height x \<le> tip \<and>
      2 \<le> tip - hist_Height x + 1)
    else sub_log s' = sub_log s"
proof (cases "tip \<le> 0 \<or> tip < uint (oo_startingHeight ob) \<or> uint (oo_startingHeight ob) + uint (oo_paymentWindow ob) \<le> tip")
  case True
  then show ?thesis
    using assms unfolding observeOpeningTX_Callback_def Let_def
    by (auto dest!: call_opening_cases split: if_splits)
next
  case False
  then have run: "(case el_GetHistory en (sub_clock s) (scriptHash en (oo_scriptPubkey ob)) of
        Inl e \<Rightarrow> Ret ((False, Some (ErrWrap ''failed to get history'' e)), sub_tick s)
      | Inr hs \<Rightarrow> (case getHeight en hs (oo_txID ob) of
        None \<Rightarrow> Ret ((False, None), sub_tick s)
      | Some txHeight \<Rightarrow> (case hasConfirmations txHeight tip LiquidConfs of
        Inl e \<Rightarrow> Ret ((False, Some e), sub_tick s)
      | Inr confirmed \<Rightarrow>
     if \<not> confirmed then Ret ((False, None), sub_tick s)
     else (case el_GetRawTransaction en (Suc (sub_clock s)) (el_HashString en (oo_txID ob)) of
        Inl _ \<Rightarrow> Ret ((False, None), sub_tick (sub_tick s))
      | Inr rawTx \<Rightarrow> call_opening ob rawTx None (sub_tick (sub_tick s)))))) = Ret ((called, answer), s')"
    using assms by (simp add: observeOpeningTX_Callback_def)
  show ?thesis
  proof (cases called)
    case True
    then obtain hs h raw where "el_GetHistory en (sub_clock s) (scriptHash en (oo_scriptPubkey ob)) = Inr hs"
      and h: "getHeight en hs (oo_txID ob) = Some h" "hasConfirmations h tip LiquidConfs = Inr True"
      and "call_opening ob raw None (sub_tick (sub_tick s)) = Ret ((called, answer), s')"
      using run by (auto split: sum.splits option.splits if_splits)
    moreover have "2 \<le> tip - h + 1" "0 < h" "h \<le> tip"
      using hasConfirmations_mature [OF h(2)] by (auto simp: LiquidConfs_def)
    ultimately show ?thesis
      using False True getHeight_found [OF h(1)] by (auto dest!: call_opening_cases)
  next
    assume n: "\<not> called"
    then have "sub_log s' = sub_log s"
      using run by (auto split: sum.splits option.splits if_splits dest!: call_opening_cases)
    then show ?thesis using False n by simp
  qed
qed

definition demo_opening_observer :: "nat observeOpeningTX" where
  "demo_opening_observer = \<lparr>oo_swapID = demo_swap_id, oo_txID = bytes_of_string ''tx'', oo_scriptPubkey = [0],
     oo_cb = Some (\<lambda>_ _ _ n. Ret (None, Suc n)), oo_startingHeight = 90, oo_paymentWindow = 30\<rparr>"

theorem electrum_confirmation_safe_witness:
  "\<exists>s' raw (x :: history_entry). observeOpeningTX_Callback demo_electrum demo_opening_observer 101 (ew_subscriber demo_ew) = Ret ((True, None), s') \<and>
     sub_log s' = [TxCalled (SwapId_String (Some demo_swap_id)) raw None None] \<and> 0 < hist_Height x \<and>
     hist_Height x \<le> 101 \<and> 2 \<le> 101 - hist_Height x + 1"
proof -
  obtain s' where run: "observeOpeningTX_Callback demo_electrum demo_opening_observer 101 (ew_subscriber demo_ew) = Ret ((True, None), s')"
    by (simp add: observeOpeningTX_Callback_def demo_opening_observer_def demo_electrum_def demo_ew_def
        hasConfirmations_def LiquidConfs_def call_opening_def Let_def)
  from electrum_confirmation_safe [OF run] have "\<exists>raw (x :: history_entry). sub_log s' = [TxCalled (SwapId_String (Some demo_swap_id)) raw None None] \<and>
     0 < hist_Height x \<and> hist_Height x \<le> 101 \<and> 2 \<le> 101 - hist_Height x + 1"
    by (auto simp: demo_opening_observer_def demo_ew_def)
  then show ?thesis using run by blast
qed

section \<open>The height\<close>

text \<open>Headers one after the other, as the loop of \<open>StartWatchingTxs\<close> takes them, until it stops.\<close>

fun take_headers :: "electrum_env \<Rightarrow> int option list \<Rightarrow> 'c electrumTxWatcher \<Rightarrow> 'c electrumTxWatcher outcome" where
  "take_headers en [] r = Ret r"
| "take_headers en (hdr # hdrs) r = (case on_header en hdr r of
     Ret (go_on, r) \<Rightarrow> if go_on then take_headers en hdrs r else Ret r
   | Panic \<Rightarrow> Panic | OutOfFuel \<Rightarrow> OutOfFuel)"

lemma on_header_height:
  assumes "on_header en hdr r = Ret (go_on, r')" "terminalErr r = None"
  shows "blockHeight r' = (case hdr of Some h \<Rightarrow> if 0 < h then (if 0 < blockHeight r \<and> h \<le> blockHeight r then blockHeight r else h)
      else blockHeight r | None \<Rightarrow> blockHeight r) \<and>
    (go_on \<longleftrightarrow> (case hdr of Some h \<Rightarrow> 0 < h | None \<Rightarrow> False)) \<and> (go_on \<longleftrightarrow> terminalErr r' = None)"
  using assms
  by (auto simp: on_header_def acceptBlockHeight_def parseBlockHeight_def ew_fail_def update_subscriber_def
      split: option.splits if_splits sum.splits outcome.splits)

definition header_ok :: "int option \<Rightarrow> bool" where
  "header_ok hdr \<longleftrightarrow> (case hdr of Some h \<Rightarrow> 0 < h | None \<Rightarrow> False)"

text \<open>
  The block height that swaps read from the Electrum watcher is the largest height of the headers
  received so far, and never decreases; after a header without a positive height the watcher has
  stopped and no height is given any more.
\<close>

theorem electrum_height_is_maximum:
  assumes "take_headers en hdrs r = Ret r'" "terminalErr r = None" "0 \<le> blockHeight r"
  shows "if list_all header_ok hdrs then terminalErr r' = None \<and> blockHeight r' = Max (set (blockHeight r # map the hdrs))
    else (\<exists>e. ew_GetBlockHeight r' = Inl e)"
  using assms
proof (induction hdrs arbitrary: r)
  case Nil
  then show ?case by simp
next
  case (Cons hdr hdrs)
  obtain go_on r1 where step: "on_header en hdr r = Ret (go_on, r1)"
    using Cons.prems(1) by (auto split: outcome.splits)
  note h = on_header_height [OF step Cons.prems(2)]
  show ?case
  proof (cases "header_ok hdr")
    case True
    then obtain x where x: "hdr = Some x" "0 < x" by (auto simp: header_ok_def split: option.splits)
    have r1: "go_on" "terminalErr r1 = None" "blockHeight r1 = max (blockHeight r) x"
      using h x Cons.prems(3) by (auto simp: max_def)
    have "take_headers en hdrs r1 = Ret r'" "0 \<le> blockHeight r1"
      using Cons.prems(1,3) step r1 by auto
    from Cons.IH [OF this(1) r1(2) this(2)] show ?thesis
      using True r1(3) x by (cases hdrs) (auto simp: max.assoc)
  next
    case False
    then have "\<not> go_on" "terminalErr r1 \<noteq> None" using h by (auto simp: header_ok_def split: option.splits)
    then have "r' = r1" "\<exists>e. ew_GetBlockHeight r1 = Inl e"
      using Cons.prems(1) step by (auto simp: ew_GetBlockHeight_def)
    then show ?thesis using False by simp
  qed
qed

theorem electrum_height_is_maximum_witness:
  "\<exists>r'. take_headers demo_electrum [Some 7, Some 5] demo_ew = Ret r' \<and> blockHeight r' = 7 \<and> ew_GetBlockHeight r' = Inr 7"
proof -
  obtain r' where run: "take_headers demo_electrum [Some 7, Some 5] demo_ew = Ret r'" and e: "terminalErr r' = None"
    by (simp add: demo_ew_def on_header_def acceptBlockHeight_def parseBlockHeight_def update_subscriber_def
        subscriber_Update_def)
  from electrum_height_is_maximum [OF run] have "blockHeight r' = 7"
    by (simp add: demo_ew_def header_ok_def)
  then show ?thesis using run e by (simp add: ew_GetBlockHeight_def)
qed

end
