(* ===== verification/PS_Peer.thy ===== *)
theory PS_Peer
  imports PS_Premium PS_Policy PS_Store
begin

text \<open>
  The peers that capability synchronisation knows (\<open>peersync/peer.go\<close>), the form in which their
  capabilities travel and are stored (\<open>peersync/capability_snapshot.go\<close>), and the store of peers
  (\<open>peersync/store.go\<close>).  A point in time is \<open>None\<close> for Go's zero time and otherwise the number of
  nanoseconds since some start.  Texts are ASCII where the code trims and upper-cases them.  A store
  value is the record that is marshalled into it.
\<close>

section \<open>Time\<close>

type_synonym gotime = "int option"

definition second :: int where "second = 1000000000"
definition minute :: int where "minute = 60 * second"

text \<open>\<open>now.Sub(t)\<close>, which for the zero time is the largest duration.\<close>

definition time_since :: "int \<Rightarrow> gotime \<Rightarrow> int" where
  "time_since now t = (case t of None \<Rightarrow> 2 ^ 63 - 1 | Some x \<Rightarrow> now - x)"

section \<open>Assets, rates and versions (\<open>peersync/peer.go\<close>)\<close>

datatype Asset = AssetUnknown | AssetBTC | AssetLBTC

definition strings_TrimSpace :: "string \<Rightarrow> string" where
  "strings_TrimSpace s = (let blank = (\<lambda>c. (of_char c :: nat) \<in> {9, 10, 11, 12, 13, 32})
     in rev (dropWhile blank (rev (dropWhile blank s))))"

definition strings_ToUpper :: "string \<Rightarrow> string" where
  "strings_ToUpper s = map (\<lambda>c. if 97 \<le> (of_char c :: nat) \<and> (of_char c :: nat) \<le> 122
     then char_of (of_char c - 32 :: nat) else c) s"

definition NewAsset :: "string \<Rightarrow> go_error + Asset" where
  "NewAsset v = (let normalized = strings_ToUpper (strings_TrimSpace v) in
     if normalized = ''BTC'' then Inr AssetBTC
     else if normalized = ''LBTC'' then Inr AssetLBTC
     else Inl (ErrText (''unsupported asset: '' @ v)))"

fun Asset_String :: "Asset \<Rightarrow> string" where
  "Asset_String AssetBTC = ''BTC''"
| "Asset_String AssetLBTC = ''LBTC''"
| "Asset_String AssetUnknown = ''UNKNOWN''"

definition MaxPremiumRatePPM :: int where "MaxPremiumRatePPM = 1000000"
definition MinPremiumRatePPM :: int where "MinPremiumRatePPM = - 1000000"

definition peer_NewPremiumRate :: "i64 \<Rightarrow> go_error + i64" where
  "peer_NewPremiumRate ppm =
     (if sint ppm < MinPremiumRatePPM \<or> MaxPremiumRatePPM < sint ppm
      then Inl (ErrText (''premium rate out of range: '' @ fmt_i64 ppm)) else Inr ppm)"

definition NewPeerID :: "string \<Rightarrow> go_error + string" where
  "NewPeerID v = (if v = '''' then Inl (ErrText ''peer ID cannot be empty'')
     else if 128 < length v then Inl (ErrText ''peer ID too long'') else Inr v)"

section \<open>Capabilities\<close>

record PeerCapability =
  cap_version :: u64
  supportedAssets :: "Asset list"
  isPeerAllowed :: bool
  btcSwapInPremiumRate :: "i64 option"
  btcSwapOutPremiumRate :: "i64 option"
  lbtcSwapInPremiumRate :: "i64 option"
  lbtcSwapOutPremiumRate :: "i64 option"
  observedAt :: gotime

definition SupportsAsset :: "PeerCapability \<Rightarrow> Asset \<Rightarrow> bool" where
  "SupportsAsset c asset = (asset \<in> set (supportedAssets c))"

fun GetPremiumRate :: "PeerCapability \<Rightarrow> AssetType \<Rightarrow> OperationType \<Rightarrow> i64 option" where
  "GetPremiumRate c BTC SwapIn = btcSwapInPremiumRate c"
| "GetPremiumRate c BTC SwapOut = btcSwapOutPremiumRate c"
| "GetPremiumRate c LBTC SwapIn = lbtcSwapInPremiumRate c"
| "GetPremiumRate c LBTC SwapOut = lbtcSwapOutPremiumRate c"
| "GetPremiumRate c _ _ = None"

definition ppmValue :: "i64 option \<Rightarrow> i64" where
  "ppmValue rate = (case rate of None \<Rightarrow> 0 | Some r \<Rightarrow> r)"

definition SupportedAssetStrings :: "PeerCapability option \<Rightarrow> string list" where
  "SupportedAssetStrings c = (case c of None \<Rightarrow> [] | Some c \<Rightarrow> map Asset_String (supportedAssets c))"

definition PremiumRateValue :: "PeerCapability option \<Rightarrow> AssetType \<Rightarrow> OperationType \<Rightarrow> i64" where
  "PremiumRateValue c asset operation = (case c of None \<Rightarrow> 0 | Some c \<Rightarrow> ppmValue (GetPremiumRate c asset operation))"

section \<open>Peers\<close>

definition StatusActive :: string where "StatusActive = ''active''"
definition StatusUnknown :: string where "StatusUnknown = ''unknown''"
definition StatusExpired :: string where "StatusExpired = ''expired''"

record Peer =
  peer_id :: string
  peer_address :: string
  capability :: "PeerCapability option"
  peer_status :: string
  lastPollAt :: gotime
  lastObservedAt :: gotime

definition NewPeer :: "string \<Rightarrow> string \<Rightarrow> Peer" where
  "NewPeer pid address = \<lparr>peer_id = pid, peer_address = address, capability = None,
     peer_status = StatusUnknown, lastPollAt = None, lastObservedAt = None\<rparr>"

definition UpdateCapability :: "int \<Rightarrow> PeerCapability \<Rightarrow> Peer \<Rightarrow> Peer" where
  "UpdateCapability now c p = p\<lparr>capability := Some c, lastObservedAt := Some now, peer_status := StatusActive\<rparr>"

definition MarkAsPolled :: "int \<Rightarrow> Peer \<Rightarrow> Peer" where
  "MarkAsPolled now p = p\<lparr>lastPollAt := Some now\<rparr>"

definition IsExpired :: "int \<Rightarrow> int \<Rightarrow> Peer \<Rightarrow> bool" where
  "IsExpired now timeout p = (case lastObservedAt p of None \<Rightarrow> False | Some t \<Rightarrow> timeout < time_since now (Some t))"

definition CheckAndUpdateStatus :: "int \<Rightarrow> int \<Rightarrow> Peer \<Rightarrow> Peer" where
  "CheckAndUpdateStatus now timeout p = (if IsExpired now timeout p then p\<lparr>peer_status := StatusExpired\<rparr> else p)"

definition IsCompatibleWith :: "Peer \<Rightarrow> u64 \<Rightarrow> bool" where
  "IsCompatibleWith p v = (case capability p of None \<Rightarrow> False | Some c \<Rightarrow> cap_version c = v)"

section \<open>Snapshots (\<open>peersync/capability_snapshot.go\<close>)\<close>

record PeerCapabilitySnapshot =
  snap_Version :: u64
  snap_Assets :: "string list"
  snap_PeerAllowed :: bool
  BTCSwapInPremiumRatePPM :: i64
  BTCSwapOutPremiumRatePPM :: i64
  LBTCSwapInPremiumRatePPM :: i64
  LBTCSwapOutPremiumRatePPM :: i64

definition SnapshotFromCapability :: "PeerCapability \<Rightarrow> PeerCapabilitySnapshot" where
  "SnapshotFromCapability c = \<lparr>snap_Version = cap_version c, snap_Assets = map Asset_String (supportedAssets c),
     snap_PeerAllowed = isPeerAllowed c,
     BTCSwapInPremiumRatePPM = ppmValue (GetPremiumRate c BTC SwapIn),
     BTCSwapOutPremiumRatePPM = ppmValue (GetPremiumRate c BTC SwapOut),
     LBTCSwapInPremiumRatePPM = ppmValue (GetPremiumRate c LBTC SwapIn),
     LBTCSwapOutPremiumRatePPM = ppmValue (GetPremiumRate c LBTC SwapOut)\<rparr>"

fun assets_of :: "string list \<Rightarrow> go_error + Asset list" where
  "assets_of [] = Inr []"
| "assets_of (symbol # symbols) = (case NewAsset symbol of
     Inl e \<Rightarrow> Inl e
   | Inr asset \<Rightarrow> (case assets_of symbols of Inl e \<Rightarrow> Inl e | Inr assets \<Rightarrow> Inr (asset # assets)))"

definition ToCapability :: "gotime \<Rightarrow> PeerCapabilitySnapshot \<Rightarrow> go_error + PeerCapability" where
  "ToCapability now s = (case assets_of (snap_Assets s) of
     Inl e \<Rightarrow> Inl e
   | Inr assets \<Rightarrow> (case peer_NewPremiumRate (BTCSwapInPremiumRatePPM s) of
     Inl e \<Rightarrow> Inl e
   | Inr btcIn \<Rightarrow> (case peer_NewPremiumRate (BTCSwapOutPremiumRatePPM s) of
     Inl e \<Rightarrow> Inl e
   | Inr btcOut \<Rightarrow> (case peer_NewPremiumRate (LBTCSwapInPremiumRatePPM s) of
     Inl e \<Rightarrow> Inl e
   | Inr lbtcIn \<Rightarrow> (case peer_NewPremiumRate (LBTCSwapOutPremiumRatePPM s) of
     Inl e \<Rightarrow> Inl e
   | Inr lbtcOut \<Rightarrow> Inr \<lparr>cap_version = snap_Version s, supportedAssets = assets, isPeerAllowed = snap_PeerAllowed s,
       btcSwapInPremiumRate = Some btcIn, btcSwapOutPremiumRate = Some btcOut,
       lbtcSwapInPremiumRate = Some lbtcIn, lbtcSwapOutPremiumRate = Some lbtcOut, observedAt = now\<rparr>)))))"

section \<open>Records of the store (\<open>peersync/store.go\<close>)\<close>

record peerRecord =
  rec_ID :: string
  rec_Address :: string
  rec_Status :: string
  rec_LastPollAt :: gotime
  rec_LastSeen :: gotime
  rec_cap :: PeerCapabilitySnapshot

text \<open>
  The record has the fields of a snapshot beside its own; here they are one field.  A record without
  a capability has the zero snapshot.
\<close>

definition zero_snapshot :: PeerCapabilitySnapshot where
  "zero_snapshot = \<lparr>snap_Version = 0, snap_Assets = [], snap_PeerAllowed = False, BTCSwapInPremiumRatePPM = 0,
     BTCSwapOutPremiumRatePPM = 0, LBTCSwapInPremiumRatePPM = 0, LBTCSwapOutPremiumRatePPM = 0\<rparr>"

definition hasCapabilityData :: "peerRecord \<Rightarrow> bool" where
  "hasCapabilityData r = (let s = rec_cap r in snap_Version s \<noteq> 0 \<or> snap_Assets s \<noteq> [] \<or> snap_PeerAllowed s \<or>
     BTCSwapInPremiumRatePPM s \<noteq> 0 \<or> BTCSwapOutPremiumRatePPM s \<noteq> 0 \<or>
     LBTCSwapInPremiumRatePPM s \<noteq> 0 \<or> LBTCSwapOutPremiumRatePPM s \<noteq> 0)"

definition peerToRecord :: "Peer \<Rightarrow> peerRecord" where
  "peerToRecord p = \<lparr>rec_ID = peer_id p, rec_Address = peer_address p, rec_Status = peer_status p,
     rec_LastPollAt = lastPollAt p, rec_LastSeen = lastObservedAt p,
     rec_cap = (case capability p of None \<Rightarrow> zero_snapshot | Some c \<Rightarrow> SnapshotFromCapability c)\<rparr>"

definition resolvePeerID :: "peerRecord \<Rightarrow> string \<Rightarrow> go_error + string" where
  "resolvePeerID r fallback = NewPeerID (if rec_ID r = '''' then fallback else rec_ID r)"

definition applyLifecycle :: "peerRecord \<Rightarrow> Peer \<Rightarrow> Peer" where
  "applyLifecycle r p = p\<lparr>peer_status := (if rec_Status r \<noteq> '''' then rec_Status r else StatusUnknown),
     lastPollAt := (if rec_LastPollAt r \<noteq> None then rec_LastPollAt r else lastPollAt p),
     lastObservedAt := (if rec_LastSeen r \<noteq> None then rec_LastSeen r else lastObservedAt p)\<rparr>"

definition rehydrateCapability :: "peerRecord \<Rightarrow> go_error + PeerCapability option" where
  "rehydrateCapability r = (if \<not> hasCapabilityData r then Inr None
     else (case ToCapability None (rec_cap r) of
        Inl e \<Rightarrow> Inl e | Inr c \<Rightarrow> Inr (Some (c\<lparr>observedAt := rec_LastSeen r\<rparr>))))"

definition toPeer :: "peerRecord \<Rightarrow> string \<Rightarrow> go_error + Peer" where
  "toPeer r key = (case resolvePeerID r key of
     Inl e \<Rightarrow> Inl e
   | Inr pid \<Rightarrow> (case rehydrateCapability r of
       Inl e \<Rightarrow> Inl e
     | Inr c \<Rightarrow> Inr ((applyLifecycle r (NewPeer pid (rec_Address r)))\<lparr>capability := c\<rparr>)))"

section \<open>The store\<close>

type_synonym peer_bucket = "peerRecord bucket"

definition peer_NewStore :: "bolt_env \<Rightarrow> nat \<Rightarrow> peer_bucket \<Rightarrow> go_error option \<times> peer_bucket" where
  "peer_NewStore env t b = (case create_bucket env t b of
     (Some e, b) \<Rightarrow> (Some (ErrWrap ''init peers bucket'' e), b) | (None, b) \<Rightarrow> (None, b))"

definition SavePeerState :: "bolt_env \<Rightarrow> nat \<Rightarrow> Peer \<Rightarrow> peer_bucket \<Rightarrow> go_error option \<times> peer_bucket" where
  "SavePeerState env t p b = db_Update env t (\<lambda>b. case b of
     None \<Rightarrow> Inl ErrPollBucketMissing
   | Some m \<Rightarrow> bucket_Put env t (bytes_of_string (peer_id p)) (peerToRecord p) m) b"

definition GetPeerState :: "bolt_env \<Rightarrow> nat \<Rightarrow> string \<Rightarrow> peer_bucket \<Rightarrow> go_error + Peer" where
  "GetPeerState env t pid b =
     (case db_View env t (\<lambda>b. case b of
         None \<Rightarrow> Inl ErrPollBucketMissing
       | Some m \<Rightarrow> (case m (bytes_of_string pid) of None \<Rightarrow> Inl ErrPeerNotFound | Some r \<Rightarrow> Inr r)) b of
        Inl e \<Rightarrow> if errors_Is e ErrPeerNotFound \<or> errors_Is e ErrPollBucketMissing then Inl ErrPeerNotFound else Inl e
      | Inr r \<Rightarrow> (case toPeer r pid of
          Inl e \<Rightarrow> Inl (ErrWrap (''materialize peer '' @ pid) e) | Inr p \<Rightarrow> Inr p))"

text \<open>The text of a key.\<close>

definition string_of_bytes :: "byte list \<Rightarrow> string" where
  "string_of_bytes bs = map (\<lambda>b. char_of (unat b)) bs"

fun materialize_all :: "(byte list \<times> peerRecord) list \<Rightarrow> go_error + Peer list" where
  "materialize_all [] = Inr []"
| "materialize_all ((k, r) # xs) = (case toPeer r (string_of_bytes k) of
     Inl e \<Rightarrow> Inl (ErrWrap (''materialize peer '' @ string_of_bytes k) e)
   | Inr p \<Rightarrow> (case materialize_all xs of Inl e \<Rightarrow> Inl e | Inr ps \<Rightarrow> Inr (p # ps)))"

definition bucket_entries :: "(byte list \<rightharpoonup> 'v) \<Rightarrow> (byte list \<times> 'v) list" where
  "bucket_entries m = map (\<lambda>k. (k, the (m k))) (sorted_list_of_set (dom m))"

definition GetAllPeerStates :: "bolt_env \<Rightarrow> nat \<Rightarrow> peer_bucket \<Rightarrow> go_error + Peer list" where
  "GetAllPeerStates env t b =
     (case db_View env t (\<lambda>b. case b of
         None \<Rightarrow> Inl ErrPollBucketMissing | Some m \<Rightarrow> materialize_all (bucket_entries m)) b of
        Inl e \<Rightarrow> if errors_Is e ErrPollBucketMissing then Inr [] else Inl e
      | Inr ps \<Rightarrow> Inr ps)"

definition RemovePeerState :: "bolt_env \<Rightarrow> nat \<Rightarrow> string \<Rightarrow> peer_bucket \<Rightarrow> go_error option \<times> peer_bucket" where
  "RemovePeerState env t pid b = db_Update env t (\<lambda>b. case b of
     None \<Rightarrow> Inl ErrPollBucketMissing | Some m \<Rightarrow> bucket_Delete env t (bytes_of_string pid) m) b"

definition shouldKeepPeer :: "byte list \<Rightarrow> string list \<Rightarrow> bool" where
  "shouldKeepPeer key keepPeers = (if keepPeers = [] then False
     else (case NewPeerID (string_of_bytes key) of Inl _ \<Rightarrow> False | Inr pid \<Rightarrow> pid \<in> set keepPeers))"

definition processPeerRecord ::
  "bolt_env \<Rightarrow> nat \<Rightarrow> int \<Rightarrow> int \<Rightarrow> byte list \<Rightarrow> peerRecord \<Rightarrow> (byte list \<rightharpoonup> peerRecord) \<Rightarrow> go_error + bool \<times> (byte list \<rightharpoonup> peerRecord)" where
  "processPeerRecord env t now timeout key r m =
     (case toPeer r (string_of_bytes key) of
        Inl e \<Rightarrow> Inl (ErrWrap (''materialize peer '' @ string_of_bytes key) e)
      | Inr p \<Rightarrow>
          if IsExpired now timeout p
          then (case bolt_Delete env t key of
                  Some e \<Rightarrow> Inl (ErrWrap (''delete peer '' @ string_of_bytes key) e) | None \<Rightarrow> Inr (True, m(key := None)))
          else (case bolt_Put env t key of
                  Some e \<Rightarrow> Inl (ErrWrap (''persist peer '' @ string_of_bytes key) e)
                | None \<Rightarrow> Inr (False, m(key \<mapsto> peerToRecord (CheckAndUpdateStatus now timeout p)))))"

text \<open>
  The loop of the cursor.  The entries a bbolt cursor visits while the loop deletes and writes are the
  database's business and a parameter.
\<close>

fun cleanup_loop ::
  "bolt_env \<Rightarrow> nat \<Rightarrow> int \<Rightarrow> int \<Rightarrow> string list \<Rightarrow> (byte list \<times> peerRecord) list \<Rightarrow> nat \<times> (byte list \<rightharpoonup> peerRecord) \<Rightarrow>
   go_error + nat \<times> (byte list \<rightharpoonup> peerRecord)" where
  "cleanup_loop env t now timeout keepPeers [] nm = Inr nm"
| "cleanup_loop env t now timeout keepPeers ((key, r) # xs) nm =
     (if shouldKeepPeer key keepPeers then cleanup_loop env t now timeout keepPeers xs nm
      else (case processPeerRecord env t now timeout key r (snd nm) of
         Inl e \<Rightarrow> Inl e
       | Inr (removed, m) \<Rightarrow> cleanup_loop env t now timeout keepPeers xs (if removed then Suc (fst nm) else fst nm, m)))"

definition CleanupExpiredExcept ::
  "bolt_env \<Rightarrow> ((byte list \<rightharpoonup> peerRecord) \<Rightarrow> (byte list \<times> peerRecord) list) \<Rightarrow> nat \<Rightarrow> int \<Rightarrow> int \<Rightarrow> string list \<Rightarrow>
   peer_bucket \<Rightarrow> (go_error + nat) \<times> peer_bucket" where
  "CleanupExpiredExcept env visit t now timeout keepPeers b =
     (if timeout \<le> 0 then (Inl (ErrText ''timeout must be positive''), b)
      else (case bolt_Begin env t of
         Some e \<Rightarrow> (if errors_Is e ErrPollBucketMissing then Inr 0 else Inl e, b)
       | None \<Rightarrow> (case b of
           None \<Rightarrow> (Inr 0, b)
         | Some m \<Rightarrow> (case cleanup_loop env t now timeout keepPeers (visit m) (0, m) of
             Inl e \<Rightarrow> (if errors_Is e ErrPollBucketMissing then Inr 0 else Inl e, b)
           | Inr (n, m') \<Rightarrow> (case bolt_Commit env t of
               Some e \<Rightarrow> (if errors_Is e ErrPollBucketMissing then Inr 0 else Inl e, b)
             | None \<Rightarrow> (Inr n, Some m'))))))"

definition CleanupExpired ::
  "bolt_env \<Rightarrow> ((byte list \<rightharpoonup> peerRecord) \<Rightarrow> (byte list \<times> peerRecord) list) \<Rightarrow> nat \<Rightarrow> int \<Rightarrow> int \<Rightarrow>
   peer_bucket \<Rightarrow> (go_error + nat) \<times> peer_bucket" where
  "CleanupExpired env visit t now timeout b = CleanupExpiredExcept env visit t now timeout [] b"

section \<open>Round trips\<close>

definition rate_ok :: "i64 option \<Rightarrow> bool" where
  "rate_ok r = (case r of None \<Rightarrow> False | Some x \<Rightarrow> MinPremiumRatePPM \<le> sint x \<and> sint x \<le> MaxPremiumRatePPM)"

definition cap_wf :: "PeerCapability \<Rightarrow> bool" where
  "cap_wf c \<longleftrightarrow> AssetUnknown \<notin> set (supportedAssets c) \<and>
     rate_ok (btcSwapInPremiumRate c) \<and> rate_ok (btcSwapOutPremiumRate c) \<and>
     rate_ok (lbtcSwapInPremiumRate c) \<and> rate_ok (lbtcSwapOutPremiumRate c)"

definition has_rates :: "PeerCapability \<Rightarrow> bool" where
  "has_rates c \<longleftrightarrow> btcSwapInPremiumRate c \<noteq> None \<and> btcSwapOutPremiumRate c \<noteq> None \<and>
     lbtcSwapInPremiumRate c \<noteq> None \<and> lbtcSwapOutPremiumRate c \<noteq> None"

definition peer_wf :: "Peer \<Rightarrow> bool" where
  "peer_wf p \<longleftrightarrow> NewPeerID (peer_id p) = Inr (peer_id p) \<and> peer_status p \<noteq> '''' \<and>
     (case capability p of None \<Rightarrow> True | Some c \<Rightarrow> cap_wf c)"

lemma NewAsset_String: "a \<noteq> AssetUnknown \<Longrightarrow> NewAsset (Asset_String a) = Inr a"
  by (cases a) (simp_all add: NewAsset_def strings_ToUpper_def strings_TrimSpace_def Let_def)

lemma NewAsset_known: "NewAsset s = Inr a \<Longrightarrow> a \<noteq> AssetUnknown"
  by (auto simp: NewAsset_def Let_def split: if_splits)

lemma assets_of_strings: "AssetUnknown \<notin> set as \<Longrightarrow> assets_of (map Asset_String as) = Inr as"
  by (induction as) (auto simp: NewAsset_String)

lemma assets_of_unknown: "AssetUnknown \<in> set as \<Longrightarrow> \<exists>e. assets_of (map Asset_String as) = Inl e"
proof (induction as)
  case (Cons a as)
  have "\<exists>e. NewAsset ''UNKNOWN'' = Inl e"
    by (simp add: NewAsset_def strings_ToUpper_def strings_TrimSpace_def Let_def)
  then show ?case using Cons by (cases a) (auto simp: NewAsset_String split: sum.split)
qed simp

lemma assets_of_known: "assets_of ss = Inr as \<Longrightarrow> AssetUnknown \<notin> set as"
  by (induction ss arbitrary: as) (auto dest: NewAsset_known split: sum.splits)

lemma peer_rate_ok: "peer_NewPremiumRate x = (if rate_ok (Some x) then Inr x else Inl (ErrText (''premium rate out of range: '' @ fmt_i64 x)))"
  by (auto simp: peer_NewPremiumRate_def rate_ok_def)

lemma ToCapability_wf: "ToCapability now s = Inr c \<Longrightarrow> cap_wf c"
  by (auto simp: ToCapability_def cap_wf_def peer_rate_ok dest!: assets_of_known split: sum.splits if_splits)

lemma ppmValue_Some [simp]: "rate_ok r \<Longrightarrow> Some (ppmValue r) = r"
  by (auto simp: ppmValue_def rate_ok_def split: option.splits)

lemma ppmValue_ok: "rate_ok (Some (ppmValue r)) \<longleftrightarrow> rate_ok r \<or> r = None"
  by (auto simp: ppmValue_def rate_ok_def MinPremiumRatePPM_def MaxPremiumRatePPM_def split: option.splits)

lemma ToCapability_snapshot:
  "cap_wf c \<Longrightarrow> ToCapability now (SnapshotFromCapability c) = Inr (c\<lparr>observedAt := now\<rparr>)"
  by (simp add: ToCapability_def SnapshotFromCapability_def cap_wf_def assets_of_strings peer_rate_ok ppmValue_ok)

text \<open>
  A capability survives the way through a message: it is read back as it was, with the time of
  reading, exactly when its assets are known and its rates lie within plus or minus 100 percent;
  otherwise the receiver refuses the message, and everything the receiver accepts is of that form.
\<close>

theorem capability_roundtrip:
  assumes "has_rates c"
  shows "(if cap_wf c then ToCapability now (SnapshotFromCapability c) = Inr (c\<lparr>observedAt := now\<rparr>)
      else \<exists>e. ToCapability now (SnapshotFromCapability c) = Inl e) \<and>
    (case ToCapability now s of Inr c' \<Rightarrow> cap_wf c' | Inl e \<Rightarrow> True)"
proof -
  have "\<exists>e. ToCapability now (SnapshotFromCapability c) = Inl e" if bad: "\<not> cap_wf c"
  proof (cases "AssetUnknown \<in> set (supportedAssets c)")
    case True
    then show ?thesis
      using assets_of_unknown [OF True] by (auto simp: ToCapability_def SnapshotFromCapability_def)
  next
    case False
    have "\<not> (rate_ok (btcSwapInPremiumRate c) \<and> rate_ok (btcSwapOutPremiumRate c) \<and>
        rate_ok (lbtcSwapInPremiumRate c) \<and> rate_ok (lbtcSwapOutPremiumRate c))"
      using bad False by (simp add: cap_wf_def)
    then show ?thesis
      using False assms
      by (auto simp: ToCapability_def SnapshotFromCapability_def assets_of_strings peer_rate_ok ppmValue_ok has_rates_def)
  qed
  then show ?thesis
    using ToCapability_snapshot [of c now] by (auto dest: ToCapability_wf split: sum.splits)
qed

definition demo_capability :: PeerCapability where
  "demo_capability = \<lparr>cap_version = 7, supportedAssets = [AssetBTC, AssetLBTC], isPeerAllowed = True,
     btcSwapInPremiumRate = Some 0, btcSwapOutPremiumRate = Some 2000, lbtcSwapInPremiumRate = Some (- 5),
     lbtcSwapOutPremiumRate = Some 1000, observedAt = None\<rparr>"

lemma demo_capability_wf: "cap_wf demo_capability" "has_rates demo_capability"
  by (simp_all add: demo_capability_def cap_wf_def has_rates_def rate_ok_def MinPremiumRatePPM_def MaxPremiumRatePPM_def)

theorem capability_roundtrip_witness:
  "ToCapability (Some 9) (SnapshotFromCapability demo_capability) = Inr (demo_capability\<lparr>observedAt := Some 9\<rparr>)"
  using capability_roundtrip [OF demo_capability_wf(2), of "Some 9"] demo_capability_wf(1) by simp

text \<open>What a record keeps of a peer: a capability without any data is lost.\<close>

definition kept_peer :: "Peer \<Rightarrow> Peer" where
  "kept_peer p = p\<lparr>capability := (case capability p of None \<Rightarrow> None
     | Some c \<Rightarrow> if SnapshotFromCapability c = zero_snapshot then None
                 else Some (c\<lparr>observedAt := lastObservedAt p\<rparr>))\<rparr>"

lemma hasCapabilityData_iff: "hasCapabilityData r \<longleftrightarrow> rec_cap r \<noteq> zero_snapshot"
  by (cases "rec_cap r") (auto simp: hasCapabilityData_def zero_snapshot_def Let_def)

lemma toPeer_record: "peer_wf p \<Longrightarrow> toPeer (peerToRecord p) key = Inr (kept_peer p)"
  by (cases "capability p")
    (auto simp: toPeer_def peerToRecord_def peer_wf_def resolvePeerID_def NewPeerID_def rehydrateCapability_def
      hasCapabilityData_iff kept_peer_def applyLifecycle_def NewPeer_def ToCapability_snapshot split: if_splits)

lemma toPeer_wf:
  assumes "toPeer r key = Inr p"
  shows "peer_wf p"
proof -
  obtain pid c where *: "resolvePeerID r key = Inr pid" "rehydrateCapability r = Inr c"
    "p = (applyLifecycle r (NewPeer pid (rec_Address r)))\<lparr>capability := c\<rparr>"
    using assms by (auto simp: toPeer_def split: sum.splits)
  have "case c of None \<Rightarrow> True | Some c \<Rightarrow> cap_wf c"
    using *(2) by (auto simp: rehydrateCapability_def cap_wf_def split: if_splits sum.splits dest!: ToCapability_wf)
  then show ?thesis
    using * by (auto simp: peer_wf_def applyLifecycle_def NewPeer_def StatusUnknown_def resolvePeerID_def NewPeerID_def
        split: if_splits)
qed

text \<open>
  A peer that was saved is read back: with its id, address, status and times, and with its
  capability dated at the last observation, unless the capability carries no data at all; what is
  stored of other peers does not change.
\<close>

theorem saved_peer_read_back:
  assumes "SavePeerState env t p b = (None, b')" "bolt_Begin env t' = None" "peer_wf p"
  shows "GetPeerState env t' (peer_id p) b' = Inr (kept_peer p) \<and>
    (\<forall>q. q = peer_id p \<or> GetPeerState env t' q b' = GetPeerState env t' q b)"
proof -
  obtain m where m: "b = Some m" "b' = Some (m(bytes_of_string (peer_id p) \<mapsto> peerToRecord p))"
    using assms(1) by (auto simp: SavePeerState_def db_Update_success bucket_Put_def split: option.splits)
  then show ?thesis
    using assms(2) by (auto simp: GetPeerState_def db_View_def toPeer_record [OF assms(3)])
qed

definition demo_peer :: Peer where
  "demo_peer = \<lparr>peer_id = ''peer'', peer_address = '''', capability = Some demo_capability,
     peer_status = StatusActive, lastPollAt = None, lastObservedAt = Some 5\<rparr>"

lemma demo_peer_wf: "peer_wf demo_peer"
  by (simp add: demo_peer_def peer_wf_def NewPeerID_def StatusActive_def demo_capability_wf)

theorem saved_peer_read_back_witness:
  "\<exists>b'. SavePeerState bolt_ok 0 demo_peer (Some Map.empty) = (None, b') \<and>
     GetPeerState bolt_ok 1 ''peer'' b' = Inr (kept_peer demo_peer)"
proof -
  have "SavePeerState bolt_ok 0 demo_peer (Some Map.empty) = (None, Some [bytes_of_string (peer_id demo_peer) \<mapsto> peerToRecord demo_peer])"
    by (simp add: SavePeerState_def db_Update_def bucket_Put_def)
  from this saved_peer_read_back [OF this _ demo_peer_wf, of 1] show ?thesis
    by (simp add: demo_peer_def)
qed

section \<open>Cleaning up\<close>

lemma assets_of_length: "assets_of ss = Inr as \<Longrightarrow> length as = length ss"
  by (induction ss arbitrary: as) (auto split: sum.splits)

lemma ToCapability_nonzero:
  assumes "ToCapability now s = Inr c" "s \<noteq> zero_snapshot"
  shows "SnapshotFromCapability c \<noteq> zero_snapshot"
proof -
  have len: "length (supportedAssets c) = length (snap_Assets s)"
    using assms(1) by (auto simp: ToCapability_def dest!: assets_of_length split: sum.splits)
  have "cap_version c = snap_Version s" "isPeerAllowed c = snap_PeerAllowed s"
    "btcSwapInPremiumRate c = Some (BTCSwapInPremiumRatePPM s)" "btcSwapOutPremiumRate c = Some (BTCSwapOutPremiumRatePPM s)"
    "lbtcSwapInPremiumRate c = Some (LBTCSwapInPremiumRatePPM s)" "lbtcSwapOutPremiumRate c = Some (LBTCSwapOutPremiumRatePPM s)"
    using assms(1) by (auto simp: ToCapability_def peer_rate_ok split: sum.splits if_splits)
  then show ?thesis
    using len assms(2) by (cases s) (auto simp: SnapshotFromCapability_def zero_snapshot_def ppmValue_def)
qed

lemma toPeer_kept:
  assumes "toPeer r key = Inr p"
  shows "kept_peer p = p"
proof -
  obtain pid c where *: "rehydrateCapability r = Inr c" "p = (applyLifecycle r (NewPeer pid (rec_Address r)))\<lparr>capability := c\<rparr>"
    using assms by (auto simp: toPeer_def split: sum.splits)
  have seen: "lastObservedAt p = rec_LastSeen r" using * by (simp add: applyLifecycle_def NewPeer_def)
  show ?thesis
  proof (cases c)
    case None
    then show ?thesis using * by (simp add: kept_peer_def)
  next
    case (Some x)
    then obtain c0 where c0: "ToCapability None (rec_cap r) = Inr c0" "x = c0\<lparr>observedAt := rec_LastSeen r\<rparr>" "rec_cap r \<noteq> zero_snapshot"
      using *(1) by (auto simp: rehydrateCapability_def hasCapabilityData_iff split: if_splits sum.splits)
    have "SnapshotFromCapability x = SnapshotFromCapability c0" by (simp add: c0(2) SnapshotFromCapability_def)
    then show ?thesis
      using ToCapability_nonzero [OF c0(1,3)] seen * Some c0(2) by (simp add: kept_peer_def)
  qed
qed

lemma toPeer_again: "toPeer r key = Inr p \<Longrightarrow> toPeer (peerToRecord p) key = Inr p"
  by (simp add: toPeer_record toPeer_wf toPeer_kept)

definition expired_record :: "int \<Rightarrow> int \<Rightarrow> byte list \<times> peerRecord \<Rightarrow> bool" where
  "expired_record now timeout = (\<lambda>(k, r). case toPeer r (string_of_bytes k) of Inl _ \<Rightarrow> False | Inr p \<Rightarrow> IsExpired now timeout p)"

definition cleaned :: "int \<Rightarrow> int \<Rightarrow> string list \<Rightarrow> byte list \<times> peerRecord \<Rightarrow> bool" where
  "cleaned now timeout keepPeers x \<longleftrightarrow> \<not> shouldKeepPeer (fst x) keepPeers \<and> expired_record now timeout x"

lemma cleanup_loop_effect:
  assumes "cleanup_loop env t now timeout keepPeers xs (n, m) = Inr (n', m')" "distinct (map fst xs)"
    "\<And>k r. (k, r) \<in> set xs \<Longrightarrow> m k = Some r"
  shows "n' = n + length (filter (cleaned now timeout keepPeers) xs) \<and>
    (\<forall>k. k \<notin> fst ` set xs \<longrightarrow> m' k = m k) \<and>
    (\<forall>(k, r) \<in> set xs. if cleaned now timeout keepPeers (k, r) then m' k = None
       else \<exists>r'. m' k = Some r' \<and> toPeer r' (string_of_bytes k) = toPeer r (string_of_bytes k))"
  using assms
proof (induction xs arbitrary: n m)
  case Nil
  then show ?case by simp
next
  case (Cons x xs)
  obtain k r where x: "x = (k, r)" by fastforce
  have mk: "m k = Some r" using Cons.prems(3) x by simp
  show ?case
  proof (cases "shouldKeepPeer k keepPeers")
    case True
    have "cleanup_loop env t now timeout keepPeers xs (n, m) = Inr (n', m')" using Cons.prems(1) x True by simp
    from Cons.IH [OF this] Cons.prems(2,3) show ?thesis
      using mk True x by (auto simp: cleaned_def)
  next
    case False
    obtain p where p: "toPeer r (string_of_bytes k) = Inr p"
      using Cons.prems(1) x False by (auto simp: processPeerRecord_def split: sum.splits)
    let ?m = "if IsExpired now timeout p then m(k := None) else m(k \<mapsto> peerToRecord p)"
    have loop: "cleanup_loop env t now timeout keepPeers xs (if IsExpired now timeout p then Suc n else n, ?m) = Inr (n', m')"
      using Cons.prems(1) x False p by (auto simp: processPeerRecord_def CheckAndUpdateStatus_def split: option.splits if_splits)
    have "?m k' = Some r'" if "(k', r') \<in> set xs" for k' r'
      using that Cons.prems(2,3) x by (cases "k' = k") (auto simp: rev_image_eqI)
    from Cons.IH [OF loop _ this] Cons.prems(2) show ?thesis
      using x False p toPeer_again [OF p] by (auto simp: cleaned_def expired_record_def)
  qed
qed

definition readable :: "(byte list \<rightharpoonup> peerRecord) \<Rightarrow> bool" where
  "readable m \<longleftrightarrow> (\<forall>k r. m k = Some r \<longrightarrow> (\<exists>p. toPeer r (string_of_bytes k) = Inr p))"

lemma cleanup_loop_succeeds:
  assumes "\<And>k. bolt_Put env t k = None" "\<And>k. bolt_Delete env t k = None"
    "\<And>k r. (k, r) \<in> set xs \<Longrightarrow> \<exists>p. toPeer r (string_of_bytes k) = Inr p"
  shows "\<exists>n' m'. cleanup_loop env t now timeout keepPeers xs nm = Inr (n', m')"
  using assms(3)
proof (induction xs arbitrary: nm)
  case Nil
  then show ?case by (cases nm) simp
next
  case (Cons x xs)
  obtain k r where x: "x = (k, r)" by fastforce
  obtain p where "toPeer r (string_of_bytes k) = Inr p" using Cons.prems x by auto
  then show ?case
    using Cons.IH Cons.prems x assms(1,2) by (simp add: processPeerRecord_def)
qed

text \<open>
  A clean-up of a readable store in a transaction that goes through removes exactly the peers
  that are expired and not to be kept, and returns their number; every other peer reads back as
  before.  Of the database's cursor it assumes that it visits every entry once.
\<close>

theorem cleanup_exact:
  assumes "0 < timeout" "readable m" "distinct (map fst (visit m))" "set (visit m) = {(k, r). m k = Some r}"
    "bolt_Begin env t = None" "bolt_Commit env t = None" "\<And>k. bolt_Put env t k = None" "\<And>k. bolt_Delete env t k = None"
  shows "\<exists>m'. CleanupExpiredExcept env visit t now timeout keepPeers (Some m) =
      (Inr (length (filter (cleaned now timeout keepPeers) (visit m))), Some m') \<and>
    (\<forall>k. case m k of
        None \<Rightarrow> m' k = None
      | Some r \<Rightarrow> if cleaned now timeout keepPeers (k, r) then m' k = None
          else (\<exists>r'. m' k = Some r' \<and> toPeer r' (string_of_bytes k) = toPeer r (string_of_bytes k)))"
proof -
  have entries: "\<And>k r. (k, r) \<in> set (visit m) \<longleftrightarrow> m k = Some r" using assms(4) by auto
  have ok: "\<exists>p. toPeer r (string_of_bytes k) = Inr p" if "(k, r) \<in> set (visit m)" for k r
    using assms(2) that entries by (auto simp: readable_def)
  from cleanup_loop_succeeds [OF assms(7,8) ok] obtain n m' where
    loop: "cleanup_loop env t now timeout keepPeers (visit m) (0, m) = Inr (n, m')" by blast
  note eff = cleanup_loop_effect [OF loop assms(3)]
  have dom: "k \<in> fst ` set (visit m) \<longleftrightarrow> m k \<noteq> None" for k
    using entries by force
  show ?thesis
  proof (intro exI conjI allI)
    show "CleanupExpiredExcept env visit t now timeout keepPeers (Some m) =
        (Inr (length (filter (cleaned now timeout keepPeers) (visit m))), Some m')"
      using assms(1,5,6) loop eff entries by (auto simp: CleanupExpiredExcept_def)
    fix k
    show "case m k of None \<Rightarrow> m' k = None
      | Some r \<Rightarrow> if cleaned now timeout keepPeers (k, r) then m' k = None
          else (\<exists>r'. m' k = Some r' \<and> toPeer r' (string_of_bytes k) = toPeer r (string_of_bytes k))"
      using eff entries dom [of k] by (auto split: option.split)
  qed
qed

definition demo_visit :: "(byte list \<rightharpoonup> peerRecord) \<Rightarrow> (byte list \<times> peerRecord) list" where
  "demo_visit m = bucket_entries m"

text \<open>One peer, last seen at time 5, is cleaned up an hour later.\<close>

theorem cleanup_exact_witness:
  "\<exists>m'. CleanupExpiredExcept bolt_ok demo_visit 0 (60 * minute) (30 * minute) []
      (Some [bytes_of_string ''peer'' \<mapsto> peerToRecord demo_peer]) = (Inr 1, Some m') \<and>
    m' (bytes_of_string ''peer'') = None"
proof -
  let ?k = "bytes_of_string ''peer''" and ?r = "peerToRecord demo_peer"
  let ?m = "[?k \<mapsto> ?r]"
  have rd: "toPeer ?r key = Inr (kept_peer demo_peer)" for key by (rule toPeer_record [OF demo_peer_wf])
  have v: "demo_visit ?m = [(?k, ?r)]" by (simp add: demo_visit_def bucket_entries_def)
  have "IsExpired (60 * minute) (30 * minute) (kept_peer demo_peer)"
    by (simp add: kept_peer_def demo_peer_def IsExpired_def time_since_def minute_def second_def)
  then have c: "cleaned (60 * minute) (30 * minute) [] (?k, ?r)"
    by (simp add: cleaned_def shouldKeepPeer_def expired_record_def rd)
  have "readable ?m" by (auto simp: readable_def rd split: if_splits)
  then have "\<exists>m'. CleanupExpiredExcept bolt_ok demo_visit 0 (60 * minute) (30 * minute) [] (Some ?m) =
      (Inr (length (filter (cleaned (60 * minute) (30 * minute) []) (demo_visit ?m))), Some m') \<and>
    (\<forall>k. case ?m k of None \<Rightarrow> m' k = None
      | Some r \<Rightarrow> if cleaned (60 * minute) (30 * minute) [] (k, r) then m' k = None
          else (\<exists>r'. m' k = Some r' \<and> toPeer r' (string_of_bytes k) = toPeer r (string_of_bytes k)))"
    by (intro cleanup_exact) (auto simp: v minute_def second_def split: if_splits)
  then obtain m' where run: "CleanupExpiredExcept bolt_ok demo_visit 0 (60 * minute) (30 * minute) [] (Some ?m) =
      (Inr (length (filter (cleaned (60 * minute) (30 * minute) []) (demo_visit ?m))), Some m')"
    and all: "\<forall>k. case ?m k of None \<Rightarrow> m' k = None
      | Some r \<Rightarrow> if cleaned (60 * minute) (30 * minute) [] (k, r) then m' k = None
          else (\<exists>r'. m' k = Some r' \<and> toPeer r' (string_of_bytes k) = toPeer r (string_of_bytes k))"
    by blast
  from spec [OF all, of ?k] run show ?thesis using c v by simp
qed

end
