(* ===== verification/PS_PeerSync.thy ===== *)
theory PS_PeerSync
  imports PS_Peer PS_SwapData
begin

text \<open>
  Capability synchronisation: the guard over policy and premium (\<open>peersync/guard.go\<close>), the handler of
  poll messages (\<open>peersync/message_handler.go\<close>), the poller (\<open>peersync/poller.go\<close>), the service that ties
  them together (\<open>peersync/peersync.go\<close>, \<open>peersync/compatibility.go\<close>), and the adapters that turn node
  events into messages (\<open>peersync/lightning_adapter.go\<close>, \<open>peersync/cln_lightning_adapter.go\<close>).

  The node, the clock and the database are parameters, read at a tick that advances with every call.
  The goroutines run one after the other.  A capability message stands for its JSON text.
\<close>

section \<open>Environment and state\<close>

record ps_lightning =
  ln_SendCustomMessage :: "nat \<Rightarrow> string \<Rightarrow> MessageType \<Rightarrow> PeerCapabilitySnapshot \<Rightarrow> go_error option"
  ln_ListPeers :: "nat \<Rightarrow> go_error + string list"

record PeerSync =
  ps_bolt :: bolt_env
  ps_visit :: "(byte list \<rightharpoonup> peerRecord) \<Rightarrow> (byte list \<times> peerRecord) list"
  ps_now :: "nat \<Rightarrow> int"
  ps_lightning_client :: "ps_lightning option"
  ps_policy :: "Policy option"
  ps_premium :: "premium_bucket option"
  ps_supportedAssets :: "Asset list"
  ps_json :: "byte list \<Rightarrow> go_error + PeerCapabilitySnapshot"

record ps_world =
  ps_store :: peer_bucket
  ps_clock :: nat
  ps_sent :: "(string \<times> MessageType \<times> PeerCapabilitySnapshot) list"
  lastRequestedAt :: "string \<rightharpoonup> int"

definition ps_tick :: "ps_world \<Rightarrow> ps_world" where
  "ps_tick w = w\<lparr>ps_clock := Suc (ps_clock w)\<rparr>"

definition pollInterval :: int where "pollInterval = 10 * second"
definition cleanupTimeout :: int where "cleanupTimeout = 30 * minute"
definition requestPollInterval :: int where "requestPollInterval = 10 * minute"

section \<open>The guard (\<open>peersync/guard.go\<close>)\<close>

definition guard_Allow :: "PeerSync \<Rightarrow> string \<Rightarrow> bool" where
  "guard_Allow ps peer = (case ps_policy ps of None \<Rightarrow> True | Some p \<Rightarrow> IsPeerAllowed p peer)"

definition guard_Suspicious :: "PeerSync \<Rightarrow> string \<Rightarrow> bool" where
  "guard_Suspicious ps peer = (case ps_policy ps of None \<Rightarrow> False | Some p \<Rightarrow> IsPeerSuspicious p peer)"

definition defaultPremiumRate :: "AssetType \<Rightarrow> OperationType \<Rightarrow> i64" where
  "defaultPremiumRate asset operation = (case DefaultPremiumRate asset of
     None \<Rightarrow> 0
   | Some ratesByAsset \<Rightarrow> (case ratesByAsset operation of None \<Rightarrow> 0 | Some v \<Rightarrow> v))"

definition guard_PremiumRate :: "PeerSync \<Rightarrow> nat \<Rightarrow> string \<Rightarrow> AssetType \<Rightarrow> OperationType \<Rightarrow> i64" where
  "guard_PremiumRate ps t peer asset operation = (case ps_premium ps of
     None \<Rightarrow> defaultPremiumRate asset operation
   | Some b \<Rightarrow> (case Setting_GetRate (ps_bolt ps) t peer asset operation b of
       Inl _ \<Rightarrow> defaultPremiumRate asset operation
     | Inr rate \<Rightarrow> pr_premiumRate rate))"

text \<open>The protocol version as the version of a capability.\<close>

definition own_version :: u64 where
  "own_version = ucast PEERSWAP_PROTOCOL_VERSION"

section \<open>Own capability (\<open>peersync/peersync.go\<close>)\<close>

fun normalize_loop :: "string list \<Rightarrow> Asset list \<Rightarrow> Asset list" where
  "normalize_loop [] assets = assets"
| "normalize_loop (symbol # symbols) assets =
     (let s = strings_TrimSpace symbol in
      if s = '''' then normalize_loop symbols assets
      else (case NewAsset (strings_ToUpper s) of
         Inl _ \<Rightarrow> normalize_loop symbols assets
       | Inr asset \<Rightarrow> if asset = AssetUnknown \<or> asset \<in> set assets then normalize_loop symbols assets
                     else normalize_loop symbols (assets @ [asset])))"

definition normalizeSupportedAssets :: "string list \<Rightarrow> Asset list" where
  "normalizeSupportedAssets symbols = (if symbols = [] then [AssetBTC, AssetLBTC]
     else (let assets = normalize_loop symbols [] in if assets = [] then [AssetBTC, AssetLBTC] else assets))"

definition localCapabilityForPeer :: "PeerSync \<Rightarrow> string \<Rightarrow> ps_world \<Rightarrow> PeerCapability" where
  "localCapabilityForPeer ps peer w =
     (let rate = (\<lambda>asset operation. Some (guard_PremiumRate ps (ps_clock w) peer asset operation))
      in \<lparr>cap_version = own_version, supportedAssets = ps_supportedAssets ps,
          isPeerAllowed = guard_Allow ps peer,
          btcSwapInPremiumRate = rate BTC SwapIn, btcSwapOutPremiumRate = rate BTC SwapOut,
          lbtcSwapInPremiumRate = rate LBTC SwapIn, lbtcSwapOutPremiumRate = rate LBTC SwapOut,
          observedAt = Some (ps_now ps (ps_clock w))\<rparr>)"

definition capabilityToDTO :: "PeerSync \<Rightarrow> PeerCapability \<Rightarrow> string \<Rightarrow> PeerCapabilitySnapshot" where
  "capabilityToDTO ps c peer = (SnapshotFromCapability c)\<lparr>snap_PeerAllowed := guard_Allow ps peer\<rparr>"

definition sendCapability :: "PeerSync \<Rightarrow> string \<Rightarrow> MessageType \<Rightarrow> ps_world \<Rightarrow> go_error option \<times> ps_world" where
  "sendCapability ps peer msgType w = (case ps_lightning_client ps of
     None \<Rightarrow> (Some (ErrText ''lightning not configured''), w)
   | Some ln \<Rightarrow> (let msg = capabilityToDTO ps (localCapabilityForPeer ps peer w) peer
       in (ln_SendCustomMessage ln (ps_clock w) peer msgType msg,
           (ps_tick w)\<lparr>ps_sent := ps_sent w @ [(peer, msgType, msg)]\<rparr>)))"

definition RequestPoll :: "PeerSync \<Rightarrow> string \<Rightarrow> ps_world \<Rightarrow> go_error option \<times> ps_world" where
  "RequestPoll ps peer w = (if guard_Suspicious ps peer then (None, w)
     else sendCapability ps peer MESSAGETYPE_REQUEST_POLL w)"

text \<open>The goroutines of the initial synchronisation, one after the other.\<close>

definition initial_requests :: "PeerSync \<Rightarrow> string list \<Rightarrow> ps_world \<Rightarrow> ps_world" where
  "initial_requests ps peers w =
     fold (\<lambda>peer w. if guard_Suspicious ps peer then w else snd (RequestPoll ps peer w)) peers w"

definition performInitialSync :: "PeerSync \<Rightarrow> ps_world \<Rightarrow> go_error option \<times> ps_world" where
  "performInitialSync ps w = (case ps_lightning_client ps of
     None \<Rightarrow> (Some (ErrText ''lightning not configured''), w)
   | Some ln \<Rightarrow> (case ln_ListPeers ln (ps_clock w) of
       Inl e \<Rightarrow> (Some e, ps_tick w)
     | Inr peers \<Rightarrow> (None, initial_requests ps peers (ps_tick w))))"

text \<open>When to poll and what to believe.\<close>

definition ShouldPoll :: "int \<Rightarrow> Peer \<Rightarrow> bool" where
  "ShouldPoll now peer = (if peer_status peer = StatusExpired then False
     else pollInterval < time_since now (lastPollAt peer))"

definition MergeCapabilities :: "PeerCapability option \<Rightarrow> PeerCapability \<Rightarrow> PeerCapability" where
  "MergeCapabilities local remote = (case local of
     None \<Rightarrow> remote
   | Some l \<Rightarrow> if cap_version remote < cap_version l then l else remote)"

section \<open>Messages (\<open>peersync/message_handler.go\<close>)\<close>

definition parseCapabilityMessage :: "PeerSync \<Rightarrow> gotime \<Rightarrow> byte list \<Rightarrow> go_error + PeerCapability" where
  "parseCapabilityMessage ps now payload = (case ps_json ps payload of
     Inl e \<Rightarrow> Inl (ErrWrap ''decode capability message'' e)
   | Inr s \<Rightarrow> (case ToCapability now s of
       Inl e \<Rightarrow> Inl (ErrWrap ''invalid capability payload'' e) | Inr c \<Rightarrow> Inr c))"

definition findPeer :: "PeerSync \<Rightarrow> string \<Rightarrow> ps_world \<Rightarrow> go_error + Peer" where
  "findPeer ps peerID w = (case GetPeerState (ps_bolt ps) (ps_clock w) peerID (ps_store w) of
     Inr peer \<Rightarrow> Inr peer
   | Inl e \<Rightarrow> if errors_Is e ErrPeerNotFound then Inr (NewPeer peerID '''') else Inl e)"

definition save_peer :: "PeerSync \<Rightarrow> Peer \<Rightarrow> ps_world \<Rightarrow> go_error option \<times> ps_world" where
  "save_peer ps peer w = (case SavePeerState (ps_bolt ps) (ps_clock w) peer (ps_store w) of
     (err, b) \<Rightarrow> (err, (ps_tick w)\<lparr>ps_store := b\<rparr>))"

definition storeCapabilityMessage :: "PeerSync \<Rightarrow> string \<Rightarrow> byte list \<Rightarrow> ps_world \<Rightarrow> go_error option \<times> ps_world" where
  "storeCapabilityMessage ps from payload w =
     (let now = ps_now ps (ps_clock w) in
      case parseCapabilityMessage ps (Some now) payload of
        Inl e \<Rightarrow> (Some e, w)
      | Inr c \<Rightarrow> if guard_Suspicious ps from then (None, w)
          else (case findPeer ps from w of
            Inl e \<Rightarrow> (Some (ErrWrap (''unknown peer '' @ from) e), ps_tick w)
          | Inr peer \<Rightarrow>
              (let peer = UpdateCapability now (MergeCapabilities (capability peer) c) peer
               in case save_peer ps peer (ps_tick w) of
                    (Some e, w) \<Rightarrow> (Some (ErrWrap ''failed to store peer state'' e), w)
                  | (None, w) \<Rightarrow> (None, w))))"

definition handlePollMessage :: "PeerSync \<Rightarrow> string \<Rightarrow> byte list \<Rightarrow> ps_world \<Rightarrow> ps_world" where
  "handlePollMessage ps from payload w = snd (storeCapabilityMessage ps from payload w)"

definition handleRequestPollMessage :: "PeerSync \<Rightarrow> string \<Rightarrow> byte list \<Rightarrow> ps_world \<Rightarrow> ps_world" where
  "handleRequestPollMessage ps from payload w = (if guard_Suspicious ps from then w
     else snd (sendCapability ps from MESSAGETYPE_POLL (snd (storeCapabilityMessage ps from payload w))))"

definition processMessage :: "PeerSync \<Rightarrow> string \<Rightarrow> MessageType \<Rightarrow> byte list \<Rightarrow> ps_world \<Rightarrow> ps_world" where
  "processMessage ps from msgType payload w =
     (if msgType = MESSAGETYPE_POLL then handlePollMessage ps from payload w
      else if msgType = MESSAGETYPE_REQUEST_POLL then handleRequestPollMessage ps from payload w
      else w)"

section \<open>Polling (\<open>peersync/poller.go\<close>)\<close>

definition capabilityIsStale :: "int \<Rightarrow> Peer \<Rightarrow> bool" where
  "capabilityIsStale now peer = (case lastObservedAt peer of
     None \<Rightarrow> False | Some t \<Rightarrow> cleanupTimeout div 2 < time_since now (Some t))"

definition poll_peer :: "PeerSync \<Rightarrow> int \<Rightarrow> bool \<Rightarrow> Peer \<Rightarrow> ps_world \<Rightarrow> ps_world" where
  "poll_peer ps now force peer w =
     (if \<not> force \<and> \<not> ShouldPoll (ps_now ps (ps_clock w)) peer then w
      else if guard_Suspicious ps (peer_id peer) then w
      else (case sendCapability ps (peer_id peer)
              (if capabilityIsStale now peer then MESSAGETYPE_REQUEST_POLL else MESSAGETYPE_POLL) w of
         (Some e, w) \<Rightarrow> w
       | (None, w) \<Rightarrow> snd (save_peer ps (MarkAsPolled (ps_now ps (ps_clock w)) peer) w)))"

definition connectedPeers :: "PeerSync \<Rightarrow> nat \<Rightarrow> go_error + string list" where
  "connectedPeers ps t = (case ps_lightning_client ps of
     None \<Rightarrow> Inr []
   | Some ln \<Rightarrow> (case ln_ListPeers ln t of Inl e \<Rightarrow> Inl e | Inr peers \<Rightarrow> Inr (remdups peers)))"

definition allowRequest :: "int \<Rightarrow> bool \<Rightarrow> string \<Rightarrow> (string \<rightharpoonup> int) \<Rightarrow> bool \<times> (string \<rightharpoonup> int)" where
  "allowRequest now force peerID m = (case m peerID of
     Some t \<Rightarrow> if \<not> force \<and> now - t < requestPollInterval then (False, m) else (True, m(peerID \<mapsto> now))
   | None \<Rightarrow> (True, m(peerID \<mapsto> now)))"

definition pruneRequestTimes :: "string list \<Rightarrow> (string \<rightharpoonup> int) \<Rightarrow> (string \<rightharpoonup> int)" where
  "pruneRequestTimes connected m = (\<lambda>pid. if pid \<in> set connected then m pid else None)"

definition request_peer :: "PeerSync \<Rightarrow> int \<Rightarrow> bool \<Rightarrow> string list \<Rightarrow> string \<Rightarrow> ps_world \<Rightarrow> ps_world" where
  "request_peer ps now force known peerID w =
     (if peerID \<in> set known then w
      else if guard_Suspicious ps peerID then w
      else (case allowRequest now force peerID (lastRequestedAt w) of
         (False, m) \<Rightarrow> w
       | (True, m) \<Rightarrow> snd (sendCapability ps peerID MESSAGETYPE_REQUEST_POLL (w\<lparr>lastRequestedAt := m\<rparr>))))"

definition requestUnknownConnectedPeers :: "PeerSync \<Rightarrow> string list \<Rightarrow> bool \<Rightarrow> ps_world \<Rightarrow> ps_world" where
  "requestUnknownConnectedPeers ps known force w = (case connectedPeers ps (ps_clock w) of
     Inl e \<Rightarrow> ps_tick w
   | Inr connected \<Rightarrow>
       (let w = (ps_tick w)\<lparr>lastRequestedAt := pruneRequestTimes connected (lastRequestedAt w)\<rparr>;
            now = ps_now ps (ps_clock w)
        in fold (request_peer ps now force known) connected w))"

definition pollPeers :: "PeerSync \<Rightarrow> bool \<Rightarrow> ps_world \<Rightarrow> ps_world" where
  "pollPeers ps force w = (case GetAllPeerStates (ps_bolt ps) (ps_clock w) (ps_store w) of
     Inl e \<Rightarrow> ps_tick w
   | Inr peers \<Rightarrow>
       (let now = ps_now ps (ps_clock w);
            w = fold (poll_peer ps now force) peers (ps_tick w)
        in requestUnknownConnectedPeers ps (map peer_id peers) force w))"

definition PollAllPeers :: "PeerSync \<Rightarrow> ps_world \<Rightarrow> ps_world" where
  "PollAllPeers ps w = pollPeers ps False w"

definition ForcePollAllPeers :: "PeerSync \<Rightarrow> ps_world \<Rightarrow> ps_world" where
  "ForcePollAllPeers ps w = pollPeers ps True w"

definition cleanupExpired :: "PeerSync \<Rightarrow> ps_world \<Rightarrow> go_error option \<times> ps_world" where
  "cleanupExpired ps w = (case connectedPeers ps (ps_clock w) of
     Inl e \<Rightarrow> (Some (ErrWrap ''skipping cleanup sweep, list connected peers'' e), ps_tick w)
   | Inr connected \<Rightarrow> (let w = ps_tick w in
       case CleanupExpiredExcept (ps_bolt ps) (ps_visit ps) (ps_clock w) (ps_now ps (ps_clock w)) cleanupTimeout
              connected (ps_store w) of
         (Inl e, b) \<Rightarrow> (Some e, (ps_tick w)\<lparr>ps_store := b\<rparr>)
       | (Inr _, b) \<Rightarrow> (None, (ps_tick w)\<lparr>ps_store := b\<rparr>)))"

section \<open>Compatibility (\<open>peersync/compatibility.go\<close>)\<close>

definition HasCompatiblePeer :: "PeerSync \<Rightarrow> string \<Rightarrow> ps_world \<Rightarrow> bool" where
  "HasCompatiblePeer ps peerID w = (case NewPeerID peerID of
     Inl _ \<Rightarrow> False
   | Inr pid \<Rightarrow> (case GetPeerState (ps_bolt ps) (ps_clock w) pid (ps_store w) of
       Inl _ \<Rightarrow> False | Inr peer \<Rightarrow> IsCompatibleWith peer own_version))"

definition CompatiblePeers :: "PeerSync \<Rightarrow> ps_world \<Rightarrow> go_error + (string \<rightharpoonup> Peer)" where
  "CompatiblePeers ps w = (case GetAllPeerStates (ps_bolt ps) (ps_clock w) (ps_store w) of
     Inl e \<Rightarrow> Inl e
   | Inr peers \<Rightarrow> Inr (map_of (map (\<lambda>p. (peer_id p, p))
       (rev (filter (\<lambda>p. IsCompatibleWith p own_version) peers)))))"

section \<open>Adapters\<close>

text \<open>What the adapters make of a node event: a message, or nothing.\<close>

definition cln_PushCustomMessage :: "string \<Rightarrow> string \<Rightarrow> byte list \<Rightarrow> (string \<times> MessageType \<times> byte list) option" where
  "cln_PushCustomMessage peerID msgType payload = (case PeerswapCustomMessageType msgType of
     Inl _ \<Rightarrow> None
   | Inr messageType \<Rightarrow> (case NewPeerID peerID of Inl _ \<Rightarrow> None | Inr pid \<Rightarrow> Some (pid, messageType, payload)))"

definition lnd_customMessageFrom :: "byte list \<Rightarrow> u32 \<Rightarrow> byte list \<Rightarrow> (string \<times> MessageType \<times> byte list) option" where
  "lnd_customMessageFrom peer msgType payload = (case PeerswapCustomMessageType (fmt_hex (int (unat msgType))) of
     Inl _ \<Rightarrow> None
   | Inr messageType \<Rightarrow> (case NewPeerID (hex_EncodeToString peer) of
       Inl _ \<Rightarrow> None | Inr pid \<Rightarrow> Some (pid, messageType, payload)))"

definition adapter_ListPeers :: "string list \<Rightarrow> string list" where
  "adapter_ListPeers peers = filter (\<lambda>pid. NewPeerID pid = Inr pid) peers"

section \<open>What every step keeps\<close>

inductive ps_step :: "PeerSync \<Rightarrow> ps_world \<Rightarrow> ps_world \<Rightarrow> bool" for ps where
  ps_message: "NewPeerID from = Inr from \<Longrightarrow> ps_step ps w (processMessage ps from msgType payload w)"
| ps_poll: "ps_step ps w (pollPeers ps force w)"
| ps_cleanup: "ps_step ps w (snd (cleanupExpired ps w))"
| ps_initial: "ps_step ps w (snd (performInitialSync ps w))"
| ps_request: "ps_step ps w (snd (RequestPoll ps peer w))"

definition record_of :: "ps_world \<Rightarrow> string \<Rightarrow> peerRecord option" where
  "record_of w q = (case ps_store w of None \<Rightarrow> None | Some m \<Rightarrow> m (bytes_of_string q))"

text \<open>
  A record reads back, as the peer whose id is its key.  This is what makes the store usable: a single
  record that does not read back makes every listing of the peers fail.
\<close>

definition entry_wf :: "byte list \<Rightarrow> peerRecord \<Rightarrow> bool" where
  "entry_wf k r \<longleftrightarrow> (\<exists>p. toPeer r (string_of_bytes k) = Inr p \<and> bytes_of_string (peer_id p) = k)"

definition store_wf :: "ps_world \<Rightarrow> bool" where
  "store_wf w \<longleftrightarrow> (case ps_store w of None \<Rightarrow> True | Some m \<Rightarrow> \<forall>k r. m k = Some r \<longrightarrow> entry_wf k r)"

definition safe_change :: "PeerSync \<Rightarrow> ps_world \<Rightarrow> ps_world \<Rightarrow> bool" where
  "safe_change ps w w' \<longleftrightarrow> (store_wf w \<longrightarrow> store_wf w' \<and>
     (\<exists>new. ps_sent w' = ps_sent w @ new \<and> (\<forall>x \<in> set new. \<not> guard_Suspicious ps (fst x))) \<and>
     (\<forall>q. guard_Suspicious ps q \<and> record_of w q = None \<longrightarrow> record_of w' q = None))"

lemma safe_refl [simp]: "safe_change ps w w"
  by (simp add: safe_change_def)

lemma safe_trans: "safe_change ps w w1 \<Longrightarrow> safe_change ps w1 w2 \<Longrightarrow> safe_change ps w w2"
  unfolding safe_change_def by (force simp: ball_Un)

lemma safe_same: "ps_store w' = ps_store w \<Longrightarrow> ps_sent w' = ps_sent w \<Longrightarrow> safe_change ps w w'"
  by (simp add: safe_change_def record_of_def store_wf_def)

lemma safe_tick [simp]: "safe_change ps w (ps_tick w)"
  by (simp add: safe_same ps_tick_def)

lemma safe_fold: "(\<And>x w. x \<in> set xs \<Longrightarrow> safe_change ps w (f x w)) \<Longrightarrow> safe_change ps w (fold f xs w)"
proof (induction xs arbitrary: w)
  case (Cons x xs)
  then show ?case using safe_trans [of ps w "f x w"] by simp
qed simp

lemma safe_send: "\<not> guard_Suspicious ps peer \<Longrightarrow> safe_change ps w (snd (sendCapability ps peer ty w))"
  by (auto simp: sendCapability_def safe_change_def record_of_def store_wf_def ps_tick_def Let_def split: option.split)

lemma char_of_byte [simp]: "char_of (unat (of_char c :: byte)) = c"
proof -
  have "(of_char c :: byte) = of_nat (of_char c)" by (simp add: of_nat_of_char)
  moreover have "(of_char c :: nat) < 256"
    using of_char_of [of "of_char c :: nat"] by (metis char_of_char mod_less_divisor zero_less_numeral)
  ultimately have "unat (of_char c :: byte) = of_char c" by (simp add: unat_of_nat)
  then show ?thesis by simp
qed

lemma string_of_bytes_of_string [simp]: "string_of_bytes (bytes_of_string s) = s"
  by (simp add: string_of_bytes_def bytes_of_string_def o_def)

lemma entry_wf_record: "peer_wf p \<Longrightarrow> entry_wf (bytes_of_string (peer_id p)) (peerToRecord p)"
  by (simp add: entry_wf_def toPeer_record kept_peer_def)

lemma safe_save:
  assumes "\<not> guard_Suspicious ps (peer_id p)" "peer_wf p"
  shows "safe_change ps w (snd (save_peer ps p w))"
proof -
  obtain err b where s: "SavePeerState (ps_bolt ps) (ps_clock w) p (ps_store w) = (err, b)" by fastforce
  have "b = ps_store w \<or> (\<exists>m. ps_store w = Some m \<and> b = Some (m(bytes_of_string (peer_id p) \<mapsto> peerToRecord p)))"
    using s by (auto simp: SavePeerState_def db_Update_def bucket_Put_def split: option.splits sum.splits)
  then show ?thesis
    using assms s
    by (auto simp: save_peer_def safe_change_def record_of_def store_wf_def ps_tick_def entry_wf_record)
qed

lemma GetPeerState_wf:
  assumes "GetPeerState env t q (ps_store w) = Inr p" "store_wf w"
  shows "peer_wf p \<and> peer_id p = q"
proof -
  obtain m r where m: "ps_store w = Some m" "m (bytes_of_string q) = Some r" "toPeer r q = Inr p"
    using assms(1) by (auto simp: GetPeerState_def db_View_def split: sum.splits option.splits if_splits)
  then have "entry_wf (bytes_of_string q) r" using assms(2) by (simp add: store_wf_def)
  then show ?thesis using m(3) toPeer_wf by (auto simp: entry_wf_def)
qed

lemma findPeer_wf:
  assumes "findPeer ps q w = Inr p" "NewPeerID q = Inr q" "store_wf w"
  shows "peer_wf p \<and> peer_id p = q"
  using assms GetPeerState_wf
  by (fastforce simp: findPeer_def NewPeer_def peer_wf_def StatusUnknown_def split: sum.splits if_splits)

lemma safe_store:
  assumes "NewPeerID from = Inr from"
  shows "safe_change ps w (snd (storeCapabilityMessage ps from payload w))"
proof (cases "parseCapabilityMessage ps (Some (ps_now ps (ps_clock w))) payload")
  case (Inr c)
  then have c: "cap_wf c"
    by (auto simp: parseCapabilityMessage_def split: sum.splits dest: ToCapability_wf)
  show ?thesis
  proof (cases "guard_Suspicious ps from \<or> (\<exists>e. findPeer ps from w = Inl e) \<or> \<not> store_wf w")
    case True
    then show ?thesis
      using Inr by (auto simp: storeCapabilityMessage_def Let_def) (simp add: safe_change_def)
  next
    case False
    then obtain p where p: "findPeer ps from w = Inr p" by (cases "findPeer ps from w") auto
    let ?p = "UpdateCapability (ps_now ps (ps_clock w)) (MergeCapabilities (capability p) c) p"
    have "peer_wf p" "peer_id p = from" using findPeer_wf [OF p assms] False by auto
    then have "peer_wf ?p" "peer_id ?p = from"
      using c by (auto simp: peer_wf_def UpdateCapability_def MergeCapabilities_def StatusActive_def split: option.splits)
    then have "safe_change ps (ps_tick w) (snd (save_peer ps ?p (ps_tick w)))"
      using False by (intro safe_save) auto
    then have "safe_change ps w (snd (save_peer ps ?p (ps_tick w)))"
      using safe_tick safe_trans by blast
    then show ?thesis
      using Inr False p by (auto simp: storeCapabilityMessage_def Let_def split: prod.splits option.splits)
  qed
qed (simp add: storeCapabilityMessage_def)

lemma safe_message: "NewPeerID from = Inr from \<Longrightarrow> safe_change ps w (processMessage ps from ty payload w)"
  using safe_store safe_send safe_trans
  by (auto simp: processMessage_def handlePollMessage_def handleRequestPollMessage_def) blast

lemma safe_poll_peer: "peer_wf p \<Longrightarrow> safe_change ps w (poll_peer ps now force p w)"
proof (cases "guard_Suspicious ps (peer_id p) \<or> \<not> force \<and> \<not> ShouldPoll (ps_now ps (ps_clock w)) p")
  case True
  then show ?thesis by (auto simp: poll_peer_def)
next
  case False
  assume wf: "peer_wf p"
  obtain err w1 where s: "sendCapability ps (peer_id p)
      (if capabilityIsStale now p then MESSAGETYPE_REQUEST_POLL else MESSAGETYPE_POLL) w = (err, w1)" by fastforce
  have "safe_change ps w w1"
    using safe_send [of ps "peer_id p" w "if capabilityIsStale now p then MESSAGETYPE_REQUEST_POLL else MESSAGETYPE_POLL"] False s
    by simp
  moreover have "peer_wf (MarkAsPolled t p)" "peer_id (MarkAsPolled t p) = peer_id p" for t
    using wf by (auto simp: peer_wf_def MarkAsPolled_def)
  then have "safe_change ps w1 (snd (save_peer ps (MarkAsPolled (ps_now ps (ps_clock w1)) p) w1))"
    using False by (intro safe_save) auto
  ultimately show ?thesis
    using False s safe_trans by (auto simp: poll_peer_def split: option.split)
qed

lemma materialize_wf: "materialize_all xs = Inr ps \<Longrightarrow> p \<in> set ps \<Longrightarrow> peer_wf p"
  by (induction xs arbitrary: ps rule: materialize_all.induct) (auto split: sum.splits dest: toPeer_wf)

lemma GetAllPeerStates_wf: "GetAllPeerStates env t b = Inr ps \<Longrightarrow> p \<in> set ps \<Longrightarrow> peer_wf p"
  by (auto simp: GetAllPeerStates_def db_View_def split: sum.splits option.splits if_splits dest: materialize_wf)

lemma safe_requests: "safe_change ps w (requestUnknownConnectedPeers ps known force w)"
proof (cases "connectedPeers ps (ps_clock w)")
  case (Inr connected)
  have "safe_change ps w (request_peer ps now force known peer w)" for now peer w
    using safe_trans [OF safe_same safe_send [of ps peer]]
    by (auto simp: request_peer_def split: prod.split bool.split)
  then have requests: "safe_change ps w1 (fold (request_peer ps now force known) connected w1)" for now w1
    by (intro safe_fold) auto
  have "safe_change ps w ((ps_tick w)\<lparr>lastRequestedAt := pruneRequestTimes connected (lastRequestedAt w)\<rparr>)"
    by (simp add: safe_same ps_tick_def)
  from safe_trans [OF this requests] show ?thesis
    by (simp add: Inr requestUnknownConnectedPeers_def Let_def)
qed (simp add: requestUnknownConnectedPeers_def)

lemma safe_poll: "safe_change ps w (pollPeers ps force w)"
proof (cases "GetAllPeerStates (ps_bolt ps) (ps_clock w) (ps_store w)")
  case (Inr peers)
  have "safe_change ps (ps_tick w) (fold (poll_peer ps now force) peers (ps_tick w))" for now
    using GetAllPeerStates_wf [OF Inr] by (intro safe_fold safe_poll_peer) auto
  then show ?thesis
    using Inr safe_tick safe_requests safe_trans unfolding pollPeers_def Let_def by (metis sum.case(2))
qed (simp add: pollPeers_def)

lemma cleanup_loop_wf:
  assumes "cleanup_loop env t now timeout keepPeers xs (n, m) = Inr (n', m')"
    "\<And>k r. (k, r) \<in> set xs \<Longrightarrow> entry_wf k r" "\<And>k r. m k = Some r \<Longrightarrow> entry_wf k r"
  shows "(\<forall>k r. m' k = Some r \<longrightarrow> entry_wf k r) \<and> (\<forall>k. k \<notin> fst ` set xs \<and> m k = None \<longrightarrow> m' k = None)"
  using assms
proof (induction xs arbitrary: n m)
  case (Cons x xs)
  obtain k r where x: "x = (k, r)" by fastforce
  show ?case
  proof (cases "shouldKeepPeer k keepPeers")
    case True
    then have loop: "cleanup_loop env t now timeout keepPeers xs (n, m) = Inr (n', m')" using Cons.prems(1) x by simp
    from Cons.IH [OF loop _ Cons.prems(3)] Cons.prems(2) show ?thesis by simp
  next
    case False
    obtain p where p: "toPeer r (string_of_bytes k) = Inr p" "bytes_of_string (peer_id p) = k"
      using Cons.prems(2) x by (auto simp: entry_wf_def)
    let ?m = "if IsExpired now timeout p then m(k := None) else m(k \<mapsto> peerToRecord p)"
    have loop: "cleanup_loop env t now timeout keepPeers xs (if IsExpired now timeout p then Suc n else n, ?m) = Inr (n', m')"
      using Cons.prems(1) x False p(1) by (auto simp: processPeerRecord_def CheckAndUpdateStatus_def split: option.splits if_splits)
    have "entry_wf k' r'" if "?m k' = Some r'" for k' r'
      using that Cons.prems(3) entry_wf_record [OF toPeer_wf [OF p(1)]] p(2) by (auto split: if_splits)
    from Cons.IH [OF loop _ this] Cons.prems(2)
    have "(\<forall>k r. m' k = Some r \<longrightarrow> entry_wf k r) \<and> (\<forall>k'. k' \<notin> fst ` set xs \<and> ?m k' = None \<longrightarrow> m' k' = None)" by simp
    then show ?thesis using x by auto
  qed
qed auto

definition cursor_visits :: "PeerSync \<Rightarrow> bool" where
  "cursor_visits ps \<longleftrightarrow> (\<forall>m k r. (k, r) \<in> set (ps_visit ps m) \<longrightarrow> m k = Some r)"

lemma safe_cleanup:
  assumes "cursor_visits ps"
  shows "safe_change ps w (snd (cleanupExpired ps w))"
proof (cases "connectedPeers ps (ps_clock w)")
  case (Inr connected)
  obtain res b where c: "CleanupExpiredExcept (ps_bolt ps) (ps_visit ps) (ps_clock (ps_tick w))
      (ps_now ps (ps_clock (ps_tick w))) cleanupTimeout connected (ps_store w) = (res, b)" by fastforce
  have "b = ps_store w \<or> (\<exists>n m m'. ps_store w = Some m \<and> b = Some m' \<and> cleanup_loop (ps_bolt ps) (ps_clock (ps_tick w))
      (ps_now ps (ps_clock (ps_tick w))) cleanupTimeout connected (ps_visit ps m) (0, m) = Inr (n, m'))"
    using c by (auto simp: CleanupExpiredExcept_def split: if_splits option.splits sum.splits)
  then have "safe_change ps w ((ps_tick (ps_tick w))\<lparr>ps_store := b\<rparr>)"
  proof (elim disjE exE conjE)
    fix n m m'
    assume m: "ps_store w = Some m" "b = Some m'" and loop: "cleanup_loop (ps_bolt ps) (ps_clock (ps_tick w))
      (ps_now ps (ps_clock (ps_tick w))) cleanupTimeout connected (ps_visit ps m) (0, m) = Inr (n, m')"
    have visited: "(k, r) \<in> set (ps_visit ps m) \<Longrightarrow> m k = Some r" for k r
      using assms by (simp add: cursor_visits_def)
    then have unvisited: "m k = None \<Longrightarrow> k \<notin> fst ` set (ps_visit ps m)" for k by force
    show ?thesis
    proof (cases "store_wf w")
      case True
      then have wf: "\<And>k r. m k = Some r \<Longrightarrow> entry_wf k r" using m by (simp add: store_wf_def)
      have "(k, r) \<in> set (ps_visit ps m) \<Longrightarrow> entry_wf k r" for k r using visited wf by blast
      from cleanup_loop_wf [OF loop this wf] unvisited show ?thesis
        using m by (simp add: safe_change_def store_wf_def record_of_def ps_tick_def)
    qed (simp add: safe_change_def)
  qed (simp add: safe_same ps_tick_def)
  moreover have "ps_store (ps_tick w) = ps_store w" by (simp add: ps_tick_def)
  ultimately show ?thesis
    using Inr c by (auto simp: cleanupExpired_def Let_def split: sum.split prod.split)
qed (simp add: cleanupExpired_def)

lemma safe_initial: "safe_change ps w (snd (performInitialSync ps w))"
proof -
  have "safe_change ps w1 (initial_requests ps peers w1)" for peers w1
    unfolding initial_requests_def by (rule safe_fold) (auto simp: RequestPoll_def safe_send)
  then show ?thesis
    using safe_trans [OF safe_tick] by (auto simp: performInitialSync_def split: option.split sum.split)
qed

lemma ps_step_safe: "ps_step ps w w' \<Longrightarrow> cursor_visits ps \<Longrightarrow> safe_change ps w w'"
  by (induction rule: ps_step.induct)
    (auto intro: safe_message safe_poll safe_cleanup safe_initial simp: RequestPoll_def safe_send)

lemma ps_run_safe:
  assumes "(ps_step ps)\<^sup>*\<^sup>* w w'" "cursor_visits ps"
  shows "safe_change ps w w'"
  using assms(1)
proof (induction rule: rtranclp_induct)
  case (step w1 w2)
  then show ?case using ps_step_safe [OF step(2) assms(2)] safe_trans by blast
qed simp

text \<open>
  Through every sequence of messages, polls, requests and clean-ups no capability is sent to a
  peer on the suspicious list, and none is recorded for it: a suspicious peer without a record stays
  without one.
\<close>

theorem suspicious_peers_excluded:
  assumes "(ps_step ps)\<^sup>*\<^sup>* w w'" "cursor_visits ps" "store_wf w"
  shows "\<exists>new. ps_sent w' = ps_sent w @ new \<and> list_all (\<lambda>x. \<not> guard_Suspicious ps (fst x)) new \<and>
    (\<forall>q. guard_Suspicious ps q \<and> record_of w q = None \<longrightarrow> record_of w' q = None)"
  using ps_run_safe [OF assms(1,2)] assms(3) by (auto simp: safe_change_def list_all_iff)

lemma materialize_all_wf:
  "(\<And>k r. (k, r) \<in> set xs \<Longrightarrow> entry_wf k r) \<Longrightarrow> \<exists>peers. materialize_all xs = Inr peers"
proof (induction xs rule: materialize_all.induct)
  case (2 k r xs)
  obtain p where "toPeer r (string_of_bytes k) = Inr p" using 2(2) [of k r] by (auto simp: entry_wf_def)
  then show ?case using 2 by auto
qed simp

text \<open>
  C39. The store of peers stays well-formed: through every sequence of messages, polls, requests and
  clean-ups every stored record reads back as the peer whose id is its key, with an id of at most 128
  characters, known assets and rates in range, so that listing the peers succeeds.
\<close>

theorem peer_store_stays_readable:
  assumes "(ps_step ps)\<^sup>*\<^sup>* w w'" "cursor_visits ps" "store_wf w" "bolt_Begin (ps_bolt ps) t = None"
  shows "store_wf w' \<and> (\<exists>peers. GetAllPeerStates (ps_bolt ps) t (ps_store w') = Inr peers \<and> list_all peer_wf peers)"
proof -
  have wf: "store_wf w'" using ps_run_safe [OF assms(1,2)] assms(3) by (simp add: safe_change_def)
  have "\<exists>peers. GetAllPeerStates (ps_bolt ps) t (ps_store w') = Inr peers"
  proof (cases "ps_store w'")
    case (Some m)
    have "entry_wf k r" if "(k, r) \<in> set (bucket_entries m)" for k r
    proof -
      have "finite (dom m)"
        using that by (cases "finite (dom m)") (auto simp: bucket_entries_def)
      then have "m k = Some r" using that by (auto simp: bucket_entries_def)
      then show ?thesis using wf Some by (simp add: store_wf_def)
    qed
    from materialize_all_wf [OF this] obtain peers where "materialize_all (bucket_entries m) = Inr peers" by blast
    then show ?thesis using Some assms(4) by (simp add: GetAllPeerStates_def db_View_def)
  qed (use assms(4) in \<open>simp add: GetAllPeerStates_def db_View_def\<close>)
  then show ?thesis
    using wf GetAllPeerStates_wf by (fastforce simp: list_all_iff)
qed

definition demo_ps :: PeerSync where
  "demo_ps = \<lparr>ps_bolt = bolt_ok, ps_visit = (\<lambda>_. []), ps_now = (\<lambda>t. int t * minute),
     ps_lightning_client = Some \<lparr>ln_SendCustomMessage = (\<lambda>_ _ _ _. None), ln_ListPeers = (\<lambda>_. Inr [''new'', ''bad''])\<rparr>,
     ps_policy = Some (DefaultPolicy\<lparr>SuspiciousPeerList := [''bad'']\<rparr>), ps_premium = None,
     ps_supportedAssets = [AssetBTC], ps_json = (\<lambda>_. Inr (SnapshotFromCapability demo_capability))\<rparr>"

definition demo_ps_world :: ps_world where
  "demo_ps_world = \<lparr>ps_store = Some Map.empty, ps_clock = 0, ps_sent = [], lastRequestedAt = Map.empty\<rparr>"

lemma demo_ps_ok: "cursor_visits demo_ps" "store_wf demo_ps_world" "guard_Suspicious demo_ps ''bad''"
  by (simp_all add: demo_ps_def cursor_visits_def demo_ps_world_def store_wf_def guard_Suspicious_def IsPeerSuspicious_def
      DefaultPolicy_def)

text \<open>A poll message of a suspicious peer, and one of a good peer.\<close>

theorem suspicious_peers_excluded_witness:
  "record_of (processMessage demo_ps ''bad'' MESSAGETYPE_POLL [] demo_ps_world) ''bad'' = None"
proof -
  have "(ps_step demo_ps)\<^sup>*\<^sup>* demo_ps_world (processMessage demo_ps ''bad'' MESSAGETYPE_POLL [] demo_ps_world)"
    by (rule r_into_rtranclp, rule ps_message) (simp add: NewPeerID_def)
  from suspicious_peers_excluded [OF this demo_ps_ok(1,2)] demo_ps_ok(3) show ?thesis
    by (auto simp: record_of_def demo_ps_world_def)
qed

theorem peer_store_stays_readable_witness:
  "\<exists>peers. GetAllPeerStates bolt_ok 5 (ps_store (processMessage demo_ps ''good'' MESSAGETYPE_POLL [] demo_ps_world)) = Inr peers \<and>
     list_all peer_wf peers"
proof -
  have "(ps_step demo_ps)\<^sup>*\<^sup>* demo_ps_world (processMessage demo_ps ''good'' MESSAGETYPE_POLL [] demo_ps_world)"
    by (rule r_into_rtranclp, rule ps_message) (simp add: NewPeerID_def)
  moreover have "ps_bolt demo_ps = bolt_ok" by (simp add: demo_ps_def)
  ultimately show ?thesis
    using peer_store_stays_readable [OF _ demo_ps_ok(1,2), of _ 5] by simp
qed

section \<open>What a poll message does\<close>

definition bolt_works :: "bolt_env \<Rightarrow> bool" where
  "bolt_works env \<longleftrightarrow> (\<forall>t. bolt_Begin env t = None \<and> bolt_Commit env t = None \<and> (\<forall>k. bolt_Put env t k = None))"

definition known_version :: "PeerSync \<Rightarrow> string \<Rightarrow> ps_world \<Rightarrow> u64 option" where
  "known_version ps q w = (case GetPeerState (ps_bolt ps) (ps_clock w) q (ps_store w) of
     Inl _ \<Rightarrow> None | Inr p \<Rightarrow> map_option cap_version (capability p))"

text \<open>
  A valid poll message of a peer that is not suspicious is recorded: the version known of the peer
  becomes the larger of the known and the advertised one, and the peer counts as compatible exactly
  when that is the version of this program.  A peer that goes back to an older version is therefore
  still taken for one of the newer version.
\<close>

theorem poll_message_recorded:
  assumes "NewPeerID q = Inr q" "\<not> guard_Suspicious ps q" "bolt_works (ps_bolt ps)" "store_wf w" "ps_store w \<noteq> None"
    "ps_json ps payload = Inr s" "ToCapability (Some (ps_now ps (ps_clock w))) s = Inr c" "cap_version c \<noteq> 0"
  defines "w' \<equiv> processMessage ps q MESSAGETYPE_POLL payload w"
    and "v \<equiv> (case known_version ps q w of None \<Rightarrow> cap_version c | Some old \<Rightarrow> max old (cap_version c))"
  shows "known_version ps q w' = Some v \<and> (HasCompatiblePeer ps q w' \<longleftrightarrow> v = own_version)"
proof -
  have works: "bolt_Begin (ps_bolt ps) t = None" "bolt_Commit (ps_bolt ps) t = None" "bolt_Put (ps_bolt ps) t k = None" for t k
    using assms(3) by (auto simp: bolt_works_def)
  obtain m where m: "ps_store w = Some m" using assms(5) by blast
  obtain p where p: "findPeer ps q w = Inr p" and old: "map_option cap_version (capability p) = known_version ps q w"
  proof (cases "m (bytes_of_string q)")
    case None
    then show ?thesis
      using that [of "NewPeer q ''''"] m works by (simp add: findPeer_def GetPeerState_def db_View_def known_version_def NewPeer_def)
  next
    case (Some r)
    then obtain x where "toPeer r q = Inr x" using assms(4) m by (fastforce simp: store_wf_def entry_wf_def)
    then show ?thesis
      using that [of x] Some m works by (simp add: findPeer_def GetPeerState_def db_View_def known_version_def)
  qed
  let ?c = "MergeCapabilities (capability p) c"
  let ?p = "UpdateCapability (ps_now ps (ps_clock w)) ?c p"
  have pid: "peer_wf p" "peer_id p = q" using findPeer_wf [OF p assms(1,4)] by auto
  have wf: "peer_wf ?p" "peer_id ?p = q"
    using pid ToCapability_wf [OF assms(7)]
    by (auto simp: peer_wf_def UpdateCapability_def MergeCapabilities_def StatusActive_def split: option.splits)
  have ver: "cap_version ?c = v"
    using old by (auto simp: MergeCapabilities_def v_def max_def split: option.splits)
  then have "cap_version ?c \<noteq> 0"
    using assms(8) by (auto simp: v_def max_def split: option.splits if_splits)
  then have kept: "capability (kept_peer ?p) = Some (?c\<lparr>observedAt := Some (ps_now ps (ps_clock w))\<rparr>)"
    by (auto simp: kept_peer_def UpdateCapability_def SnapshotFromCapability_def zero_snapshot_def)
  have store: "ps_store w' = Some (m(bytes_of_string q \<mapsto> peerToRecord ?p))"
    using assms(2,6,7) p m works wf(2) unfolding w'_def
    by (simp add: processMessage_def handlePollMessage_def storeCapabilityMessage_def parseCapabilityMessage_def Let_def
        save_peer_def SavePeerState_def db_Update_def bucket_Put_def ps_tick_def)
  then have "GetPeerState (ps_bolt ps) t q (ps_store w') = Inr (kept_peer ?p)" for t
    using works by (simp add: GetPeerState_def db_View_def toPeer_record [OF wf(1)])
  then show ?thesis
    using kept ver assms(1) by (simp add: known_version_def HasCompatiblePeer_def IsCompatibleWith_def)
qed

theorem poll_message_recorded_witness:
  "HasCompatiblePeer demo_ps ''good'' (processMessage demo_ps ''good'' MESSAGETYPE_POLL [] demo_ps_world)"
proof -
  let ?c = "demo_capability\<lparr>observedAt := Some (ps_now demo_ps (ps_clock demo_ps_world))\<rparr>"
  have none: "known_version demo_ps ''good'' demo_ps_world = None"
    by (simp add: known_version_def GetPeerState_def db_View_def demo_ps_def demo_ps_world_def)
  have "HasCompatiblePeer demo_ps ''good'' (processMessage demo_ps ''good'' MESSAGETYPE_POLL [] demo_ps_world) \<longleftrightarrow>
      (case known_version demo_ps ''good'' demo_ps_world of None \<Rightarrow> cap_version ?c | Some old \<Rightarrow> max old (cap_version ?c)) = own_version"
    using ToCapability_snapshot [OF demo_capability_wf(1)]
    by (intro poll_message_recorded [THEN conjunct2])
      (auto simp: NewPeerID_def guard_Suspicious_def IsPeerSuspicious_def DefaultPolicy_def demo_ps_def bolt_works_def demo_ps_ok
        demo_ps_world_def demo_capability_def store_wf_def)
  then show ?thesis by (simp add: none demo_capability_def own_version_def PEERSWAP_PROTOCOL_VERSION_def)
qed

section \<open>The rate of requests\<close>

text \<open>The times at which polls, one after the other, may send a request to a connected, unknown peer.\<close>

fun request_times :: "string \<Rightarrow> int list \<Rightarrow> (string \<rightharpoonup> int) \<Rightarrow> int list" where
  "request_times q [] m = []"
| "request_times q (now # nows) m = (case allowRequest now False q m of
     (ok, m) \<Rightarrow> if ok then now # request_times q nows m else request_times q nows m)"

text \<open>
  However often it is polled, a connected peer that does not answer gets requests at least ten
  minutes apart.
\<close>

theorem requests_rate_limited:
  "sorted_wrt (\<lambda>a b. requestPollInterval \<le> b - a) (request_times q nows m) \<and>
   list_all (\<lambda>a. case m q of None \<Rightarrow> True | Some t \<Rightarrow> requestPollInterval \<le> a - t) (request_times q nows m)"
proof (induction nows arbitrary: m)
  case (Cons now nows)
  show ?case
  proof (cases "\<exists>t. m q = Some t \<and> now - t < requestPollInterval")
    case True
    then show ?thesis using Cons.IH [of m] by (auto simp: allowRequest_def)
  next
    case False
    then have allowed: "allowRequest now False q m = (True, m(q \<mapsto> now))"
      by (auto simp: allowRequest_def split: option.split)
    let ?ts = "request_times q nows (m(q \<mapsto> now))"
    have later: "requestPollInterval \<le> a - now" if "a \<in> set ?ts" for a
      using Cons.IH [of "m(q \<mapsto> now)"] that by (simp add: fun_upd_def list_all_iff)
    have "0 \<le> requestPollInterval" by (simp add: requestPollInterval_def minute_def second_def)
    then have "requestPollInterval \<le> a - t" if "m q = Some t" "a \<in> set ?ts" for a t
      using later [OF that(2)] False that(1) by force
    moreover have "requestPollInterval \<le> now - t" if "m q = Some t" for t using False that by force
    moreover have "sorted_wrt (\<lambda>a b. requestPollInterval \<le> b - a) ?ts" using Cons.IH by blast
    ultimately show ?thesis
      using allowed later by (simp add: list_all_iff split: option.split)
  qed
qed simp

end
