(* ===== verification/PS_Lightning.thy ===== *)
theory PS_Lightning
  imports PS_SwapData PS_Logs
begin

text \<open>
  The two Lightning nodes behind the swaps: the Core Lightning client (\<open>clightning/clightning.go\<close>) and
  the lnd client (\<open>lnd/client.go\<close>, \<open>lnd/paymentwatcher.go\<close>): how a claim invoice is paid over the swap's
  channel, how an old payment is recovered, what a channel can carry, how a route is probed, and when
  a payment is announced.

  The nodes' RPC interfaces are parameters, read at a clock that advances with every call.  The calls
  that create an HTLC are recorded.  The numbers of a channel id (\<open>lnwire.ShortChannelID\<close>) and their
  text, and lnd's block padding, are third-party and parameters.
\<close>

section \<open>Channel ids (\<open>lightning/lightning.go\<close>)\<close>

definition ClnStyle :: "string \<Rightarrow> string" where
  "ClnStyle s = strings_ReplaceAll s CHR '':'' CHR ''x''"

definition LndStyle :: "string \<Rightarrow> string" where
  "LndStyle s = strings_ReplaceAll s CHR ''x'' CHR '':''"

section \<open>Core Lightning (\<open>clightning/clightning.go\<close>)\<close>

record DecodedBolt11 =
  b11_PaymentHash :: string
  b11_AmountMsat :: u64
  b11_MinFinalCltvExpiry :: i64
  b11_Payee :: string
  b11_PaymentSecret :: string

record RouteHop =
  hop_Id :: string
  hop_ShortChannelId :: string
  hop_AmountMsat :: u64
  hop_Delay :: u32
  hop_Direction :: nat

record PeerChannel =
  PeerId :: string
  PeerConnected :: bool
  ch_State :: string
  ShortChannelId :: string
  ch_TotalMsat :: u64
  ch_ToUsMsat :: u64
  ch_ReceivableMsat :: u64
  ch_SpendableMsat :: u64
  ch_TheirReserveMsat :: u64
  ch_OurReserveMsat :: u64

text \<open>An error of \<open>waitsendpay\<close>: a payment error with its code, or another error.\<close>

datatype wait_error = PaymentError int go_error | WaitError go_error

fun wait_err :: "wait_error \<Rightarrow> go_error" where
  "wait_err (PaymentError _ e) = e"
| "wait_err (WaitError e) = e"

record send_pay =
  sp_route :: "RouteHop list"
  sp_paymentHash :: string
  sp_amountMsat :: u64
  sp_bolt11 :: string
  sp_paymentSecret :: string

record cln_env =
  cln_nodeId :: string
  cln_DecodeBolt11 :: "nat \<Rightarrow> string \<Rightarrow> go_error + DecodedBolt11"
  cln_SendPay :: "nat \<Rightarrow> send_pay \<Rightarrow> go_error option"
  cln_WaitSendPay :: "nat \<Rightarrow> string \<Rightarrow> wait_error + string"
  cln_ListSendPaysByHash :: "nat \<Rightarrow> string \<Rightarrow> go_error + (string \<times> string) list"
  cln_ListPeerChannels :: "nat \<Rightarrow> go_error + PeerChannel list"
  cln_GetChannel :: "nat \<Rightarrow> string \<Rightarrow> go_error + (string \<times> u64) list"
  cln_random_hash :: "nat \<Rightarrow> go_error + string"

text \<open>The node as the client sees it: a clock, and the HTLCs asked for so far.\<close>

record 'h node_world =
  nw_clock :: nat
  nw_htlcs :: "'h list"

definition nw_tick :: "'h node_world \<Rightarrow> 'h node_world" where
  "nw_tick w = w\<lparr>nw_clock := Suc (nw_clock w)\<rparr>"

definition nw_send :: "'h \<Rightarrow> 'h node_world \<Rightarrow> 'h node_world" where
  "nw_send h w = w\<lparr>nw_clock := Suc (nw_clock w), nw_htlcs := nw_htlcs w @ [h]\<rparr>"

definition buildDirectClaimRoute :: "DecodedBolt11 \<Rightarrow> string \<Rightarrow> u32 \<Rightarrow> go_error + RouteHop list" where
  "buildDirectClaimRoute bolt11 scid maxTotalCLTVDelta =
     (let delay = u32_of_u64 (b11_MinFinalCltvExpiry bolt11 + 1);
          route = [\<lparr>hop_Id = b11_Payee bolt11, hop_ShortChannelId = ClnStyle scid, hop_AmountMsat = b11_AmountMsat bolt11,
                    hop_Delay = delay, hop_Direction = 0\<rparr>]
      in if maxTotalCLTVDelta \<noteq> 0
         then (if sint (b11_MinFinalCltvExpiry bolt11) < 0 \<or> 4294967295 \<le> b11_MinFinalCltvExpiry bolt11
               then Inl (ErrText (''invalid invoice CLTV delta: '' @ fmt_i64 (b11_MinFinalCltvExpiry bolt11)))
               else (case ValidateTotalCLTVDelta delay maxTotalCLTVDelta of Some e \<Rightarrow> Inl e | None \<Rightarrow> Inr route))
         else Inr route)"

definition cln_payInvoiceViaChannel ::
  "cln_env \<Rightarrow> string \<Rightarrow> string \<Rightarrow> u32 \<Rightarrow> send_pay node_world \<Rightarrow> (go_error + string) \<times> send_pay node_world" where
  "cln_payInvoiceViaChannel en payreq scid maxTotalCLTVDelta w =
     (let t = nw_clock w; w = nw_tick w in case cln_DecodeBolt11 en t payreq of
        Inl e \<Rightarrow> (Inl e, w)
      | Inr bolt11 \<Rightarrow> (case buildDirectClaimRoute bolt11 scid maxTotalCLTVDelta of
        Inl e \<Rightarrow> (Inl e, w)
      | Inr route \<Rightarrow>
          (let pay = \<lparr>sp_route = route, sp_paymentHash = b11_PaymentHash bolt11, sp_amountMsat = b11_AmountMsat bolt11,
                      sp_bolt11 = payreq, sp_paymentSecret = b11_PaymentSecret bolt11\<rparr>;
               t = nw_clock w; w = nw_send pay w
           in case cln_SendPay en t pay of
                Some e \<Rightarrow> (Inl e, w)
              | None \<Rightarrow> (case cln_WaitSendPay en (nw_clock w) (b11_PaymentHash bolt11) of
                  Inl e \<Rightarrow> (Inl (wait_err e), nw_tick w)
                | Inr preimage \<Rightarrow> (Inr preimage, nw_tick w)))))"

definition cln_PayInvoiceViaChannel ::
  "cln_env \<Rightarrow> string \<Rightarrow> string \<Rightarrow> send_pay node_world \<Rightarrow> (go_error + string) \<times> send_pay node_world" where
  "cln_PayInvoiceViaChannel en payreq scid w = cln_payInvoiceViaChannel en payreq scid 0 w"

definition cln_RebalancePayment ::
  "cln_env \<Rightarrow> string \<Rightarrow> string \<Rightarrow> u32 \<Rightarrow> send_pay node_world \<Rightarrow> (go_error + string) \<times> send_pay node_world" where
  "cln_RebalancePayment en payreq channel maxTotalCLTVDelta w = cln_payInvoiceViaChannel en payreq channel maxTotalCLTVDelta w"

text \<open>The payments are pairs of status and preimage.\<close>

definition cln_RecoverClaimPayment ::
  "cln_env \<Rightarrow> string \<Rightarrow> send_pay node_world \<Rightarrow> (go_error + string) \<times> send_pay node_world" where
  "cln_RecoverClaimPayment en payreq w =
     (let t = nw_clock w; w = nw_tick w in case cln_DecodeBolt11 en t payreq of
        Inl e \<Rightarrow> (Inl e, w)
      | Inr bolt11 \<Rightarrow> (let t = nw_clock w; w = nw_tick w in
     (case cln_ListSendPaysByHash en t (b11_PaymentHash bolt11) of
        Inl e \<Rightarrow> (Inl e, w)
      | Inr payments \<Rightarrow>
          if payments = [] then (Inl (ErrText ''claim payment was not found''), w)
          else (case List.find (\<lambda>(status, preimage). status = ''complete'' \<and> preimage \<noteq> '''') payments of
             Some (_, preimage) \<Rightarrow> (Inr preimage, w)
           | None \<Rightarrow> if (\<exists>(status, preimage) \<in> set payments. status = ''pending'')
               then (case cln_WaitSendPay en (nw_clock w) (b11_PaymentHash bolt11) of
                  Inl e \<Rightarrow> (Inl (wait_err e), nw_tick w) | Inr preimage \<Rightarrow> (Inr preimage, nw_tick w))
               else (Inl (ErrText ''claim payment already failed''), w)))))"

subsection \<open>What a channel can carry\<close>

definition GetSpendableMsat :: "PeerChannel \<Rightarrow> u64" where
  "GetSpendableMsat ch = (if 0 < ch_SpendableMsat ch then ch_SpendableMsat ch else ch_ToUsMsat ch - ch_OurReserveMsat ch)"

definition GetReceivableMsat :: "PeerChannel \<Rightarrow> u64" where
  "GetReceivableMsat ch = (if 0 < ch_ReceivableMsat ch then ch_ReceivableMsat ch
     else ch_TotalMsat ch - ch_ToUsMsat ch - ch_TheirReserveMsat ch)"

definition cln_checkChannel :: "PeerChannel \<Rightarrow> go_error option" where
  "cln_checkChannel ch = (if \<not> PeerConnected ch then Some (ErrText ''channel peer is not connected'')
     else if ch_State ch \<noteq> ''CHANNELD_NORMAL'' then Some (ErrText (''channel not in normal operation mode: '' @ ch_State ch))
     else None)"

text \<open>The last matching entry counts, and a failing call counts as no limit.\<close>

definition cln_getMaxHtlcAmtMsat :: "cln_env \<Rightarrow> nat \<Rightarrow> string \<Rightarrow> string \<Rightarrow> u64" where
  "cln_getMaxHtlcAmtMsat en t scid nodeId = (case cln_GetChannel en t scid of
     Inl _ \<Rightarrow> 0
   | Inr chgs \<Rightarrow> fold (\<lambda>(source, htlcMax) m. if source = nodeId then htlcMax else m) chgs 0)"

text \<open>The limit of an HTLC is skipped when it is not set.\<close>

definition with_limit :: "u64 \<Rightarrow> u64 \<Rightarrow> u64" where
  "with_limit maxHtlcAmtMsat amount = (if maxHtlcAmtMsat = 0 then amount else min maxHtlcAmtMsat amount)"

definition err_no_channel :: "string \<Rightarrow> go_error" where
  "err_no_channel scid = ErrText (''could not find a channel with scid: '' @ scid)"

definition cln_SpendableMsat :: "cln_env \<Rightarrow> nat \<Rightarrow> string \<Rightarrow> go_error + u64" where
  "cln_SpendableMsat en t scid = (case cln_ListPeerChannels en t of
     Inl e \<Rightarrow> Inl e
   | Inr channels \<Rightarrow> (case List.find (\<lambda>ch. ShortChannelId ch = ClnStyle scid) channels of
       None \<Rightarrow> Inl (err_no_channel (ClnStyle scid))
     | Some ch \<Rightarrow> (case cln_checkChannel ch of
         Some e \<Rightarrow> Inl e
       | None \<Rightarrow> Inr (with_limit (cln_getMaxHtlcAmtMsat en (Suc t) (ClnStyle scid) (cln_nodeId en)) (GetSpendableMsat ch)))))"

definition cln_ReceivableMsat :: "cln_env \<Rightarrow> nat \<Rightarrow> string \<Rightarrow> go_error + u64" where
  "cln_ReceivableMsat en t scid = (case cln_ListPeerChannels en t of
     Inl e \<Rightarrow> Inl e
   | Inr channels \<Rightarrow> (case List.find (\<lambda>ch. ShortChannelId ch = ClnStyle scid) channels of
       None \<Rightarrow> Inl (err_no_channel (ClnStyle scid))
     | Some ch \<Rightarrow> (case cln_checkChannel ch of
         Some e \<Rightarrow> Inl e
       | None \<Rightarrow> Inr (with_limit (cln_getMaxHtlcAmtMsat en (Suc t) (ClnStyle scid) (PeerId ch)) (GetReceivableMsat ch)))))"

subsection \<open>Probing\<close>

text \<open>
  The last channel with the id counts, and its check fails the probe; without such a channel the
  probe goes out on the zero value.
\<close>

definition zero_channel :: PeerChannel where
  "zero_channel = \<lparr>PeerId = '''', PeerConnected = False, ch_State = '''', ShortChannelId = '''', ch_TotalMsat = 0, ch_ToUsMsat = 0,
     ch_ReceivableMsat = 0, ch_SpendableMsat = 0, ch_TheirReserveMsat = 0, ch_OurReserveMsat = 0\<rparr>"

fun probe_channel :: "string \<Rightarrow> PeerChannel list \<Rightarrow> PeerChannel \<Rightarrow> go_error + PeerChannel" where
  "probe_channel scid [] channel = Inr channel"
| "probe_channel scid (ch # chs) channel =
     (if ShortChannelId ch = ClnStyle scid
      then (case cln_checkChannel ch of Some e \<Rightarrow> Inl e | None \<Rightarrow> probe_channel scid chs ch)
      else probe_channel scid chs channel)"

definition cln_ProbePayment ::
  "cln_env \<Rightarrow> string \<Rightarrow> u64 \<Rightarrow> send_pay node_world \<Rightarrow> (go_error + bool \<times> string) \<times> send_pay node_world" where
  "cln_ProbePayment en scid amountMsat w =
     (let t = nw_clock w; w = nw_tick w in case cln_ListPeerChannels en t of
        Inl e \<Rightarrow> (Inl (ErrText (''ListPeerChannelsRequest() '' @ Error e)), w)
      | Inr channels \<Rightarrow> (case probe_channel scid channels zero_channel of
        Inl e \<Rightarrow> (Inl e, w)
      | Inr channel \<Rightarrow> (let t = nw_clock w; w = nw_tick w in case cln_random_hash en t of
        Inl e \<Rightarrow> (Inl (ErrText (''GetPreimage() '' @ Error e)), w)
      | Inr paymentHash \<Rightarrow>
          (let pay = \<lparr>sp_route = [\<lparr>hop_Id = PeerId channel, hop_ShortChannelId = ShortChannelId channel, hop_AmountMsat = amountMsat,
                        hop_Delay = 9, hop_Direction = 0\<rparr>], sp_paymentHash = paymentHash, sp_amountMsat = amountMsat,
                      sp_bolt11 = '''', sp_paymentSecret = ''''\<rparr>;
               t = nw_clock w; w = nw_send pay w
           in case cln_SendPay en t pay of
                Some e \<Rightarrow> (Inl (ErrText (''SendPay() '' @ Error e)), w)
              | None \<Rightarrow> (case cln_WaitSendPay en (nw_clock w) paymentHash of
                  Inr _ \<Rightarrow> (Inr (True, ''''), nw_tick w)
                | Inl (WaitError e) \<Rightarrow> (Inl (ErrText (''WaitSendPay() '' @ Error e)), nw_tick w)
                | Inl (PaymentError code e) \<Rightarrow>
                    if code \<noteq> 203 then (Inr (False, Error e), nw_tick w) else (Inr (True, ''''), nw_tick w))))))"

section \<open>lnd (\<open>lnd/client.go\<close>)\<close>

record PayReq =
  pr_Destination :: string
  pr_PaymentHash :: string
  pr_NumSatoshis :: i64
  pr_NumMsat :: i64
  pr_CltvExpiry :: i64

record Channel =
  ChanId :: u64
  ch_Active :: bool
  RemotePubkey :: string
  LocalBalance :: i64
  RemoteBalance :: i64
  ch_LocalReserveSat :: u64
  ch_RemoteReserveSat :: u64

record SendPaymentRequest =
  spr_PaymentRequest :: string
  spr_CltvLimit :: u32
  spr_FeeLimitMsat :: i64
  spr_OutgoingChanIds :: "u64 list"
  spr_MaxParts :: nat

datatype payment_status = Payment_UNKNOWN | Payment_IN_FLIGHT | Payment_SUCCEEDED | Payment_FAILED | Payment_other nat

record Payment =
  pay_Status :: payment_status
  PaymentPreimage :: string
  FailureReason :: string

text \<open>
  \<open>lnd_Recv t n\<close> is the \<open>n\<close>-th message of the stream opened at the clock \<open>t\<close>.  A probe is an HTLC
  too; \<open>probe_failure\<close> is the failure of its attempt, if it has one: whether its code is
  \<open>INCORRECT_OR_UNKNOWN_PAYMENT_DETAILS\<close>, and the code's name.
\<close>

datatype lnd_htlc = PaymentHtlc SendPaymentRequest | ProbeHtlc u64 u64

record lnd_env =
  lnd_pubkey :: string
  lnd_BlockPadding :: "16 word"
  lnd_scid_fields :: "u64 \<Rightarrow> u32 \<times> u32 \<times> 16 word"
  lnd_scid_String :: "u32 \<times> u32 \<times> 16 word \<Rightarrow> string"
  lnd_DecodePayReq :: "nat \<Rightarrow> string \<Rightarrow> go_error + PayReq"
  lnd_ListChannels :: "nat \<Rightarrow> bool \<Rightarrow> go_error + Channel list"
  lnd_ListPeers :: "nat \<Rightarrow> go_error + string list"
  lnd_GetChanInfo :: "nat \<Rightarrow> u64 \<Rightarrow> go_error + (string \<times> u64 \<times> string \<times> u64)"
  lnd_SendPaymentV2 :: "nat \<Rightarrow> SendPaymentRequest \<Rightarrow> go_error option"
  lnd_TrackPaymentV2 :: "nat \<Rightarrow> byte list \<Rightarrow> go_error option"
  lnd_Recv :: "nat \<Rightarrow> nat \<Rightarrow> go_error + Payment"
  lnd_NewVertexFromStr :: "string \<Rightarrow> go_error option"
  lnd_BuildRoute :: "nat \<Rightarrow> string \<Rightarrow> u64 \<Rightarrow> u64 \<Rightarrow> go_error option"
  lnd_random_hash :: "nat \<Rightarrow> go_error option"
  lnd_SendToRoute :: "nat \<Rightarrow> go_error + (bool \<times> string) option"

definition lnd_scid :: "lnd_env \<Rightarrow> u64 \<Rightarrow> string" where
  "lnd_scid en chanId = lnd_scid_String en (lnd_scid_fields en chanId)"

definition LndShortChannelIdToCLShortChannelId :: "u32 \<times> u32 \<times> 16 word \<Rightarrow> string" where
  "LndShortChannelIdToCLShortChannelId ci = (case ci of (blockHeight, txIndex, txPosition) \<Rightarrow>
     fmt_u32 blockHeight @ ''x'' @ fmt_u32 txIndex @ ''x'' @ fmt_nat (unat txPosition))"

definition uint64ToInt64 :: "u64 \<Rightarrow> i64" where
  "uint64ToInt64 value = (if 9223372036854775807 < value then 9223372036854775807 else value)"

definition defaultPaymentFeeLimitMsat :: "u64 \<Rightarrow> i64" where
  "defaultPaymentFeeLimitMsat amountMsat =
     (if amountMsat \<le> 1000000 then uint64ToInt64 amountMsat else uint64ToInt64 (amountMsat div 20))"

text \<open>The balance is compared as a signed number.\<close>

definition lnd_CheckChannel :: "lnd_env \<Rightarrow> nat \<Rightarrow> string \<Rightarrow> u64 \<Rightarrow> go_error + Channel" where
  "lnd_CheckChannel en t shortChannelId amountSat = (case lnd_ListChannels en t True of
     Inl e \<Rightarrow> Inl e
   | Inr channels \<Rightarrow> (case List.find (\<lambda>v. lnd_scid en (ChanId v) = shortChannelId \<or>
         LndShortChannelIdToCLShortChannelId (lnd_scid_fields en (ChanId v)) = shortChannelId) channels of
       None \<Rightarrow> Inl (ErrText ''channel not found'')
     | Some channel \<Rightarrow> if sint (LocalBalance channel) < sint amountSat
         then Inl (ErrText ''not enough outbound capacity to pay invoice'') else Inr channel))"

definition buildDirectClaimPaymentRequest :: "lnd_env \<Rightarrow> string \<Rightarrow> PayReq \<Rightarrow> Channel \<Rightarrow> u32 \<Rightarrow> go_error + SendPaymentRequest" where
  "buildDirectClaimPaymentRequest en payreq decoded channel maxTotalCLTVDelta =
     (let request = (\<lambda>cltvLimit. \<lparr>spr_PaymentRequest = payreq, spr_CltvLimit = cltvLimit, spr_FeeLimitMsat = 0,
            spr_OutgoingChanIds = [ChanId channel], spr_MaxParts = 1\<rparr>);
          padding = ucast (lnd_BlockPadding en) :: u64
      in if pr_Destination decoded \<noteq> RemotePubkey channel
         then Inl (ErrText (''destination pubkey in invoice does not match remote pubkey of channel. destination pubkey in invoice: '' @
           pr_Destination decoded @ '', remote pubkey of channel: '' @ RemotePubkey channel))
         else if maxTotalCLTVDelta = 0 then Inr (request (u32_of_u64 (pr_CltvExpiry decoded + padding + 1)))
         else if sint (pr_CltvExpiry decoded) < 0
         then Inl (ErrText (''invalid invoice CLTV delta: '' @ fmt_i64 (pr_CltvExpiry decoded)))
         else (let required = pr_CltvExpiry decoded + padding in
           if 4294967295 < required then Inl (ErrText (''invoice CLTV delta is too large: '' @ fmt_u64 required))
           else (case ValidateTotalCLTVDelta (u32_of_u64 required) maxTotalCLTVDelta of
              Some e \<Rightarrow> Inl e
            | None \<Rightarrow> if 2147483647 \<le> maxTotalCLTVDelta then Inl (ErrText ''payment CLTV limit is too large'')
                else Inr (request (maxTotalCLTVDelta + 1)))))"

text \<open>The stream of a payment: the loop ends with an error, a success or a failure.  A stream that
  never brings one is read for ever.\<close>

partial_function (option) payment_loop :: "lnd_env \<Rightarrow> nat \<Rightarrow> nat \<Rightarrow> (go_error + string) option" where
  "payment_loop en t n = (case lnd_Recv en t n of
     Inl e \<Rightarrow> Some (Inl e)
   | Inr res \<Rightarrow> if pay_Status res = Payment_SUCCEEDED then Some (Inr (PaymentPreimage res))
       else if pay_Status res = Payment_FAILED then Some (Inl (ErrText (''payment failure '' @ FailureReason res)))
       else payment_loop en t (Suc n))"

definition sendPaymentV2 ::
  "lnd_env \<Rightarrow> SendPaymentRequest \<Rightarrow> lnd_htlc node_world \<Rightarrow> ((go_error + string) \<times> lnd_htlc node_world) option" where
  "sendPaymentV2 en req w = (let t = nw_clock w; w = nw_send (PaymentHtlc req) w in
     case lnd_SendPaymentV2 en t req of
       Some e \<Rightarrow> Some (Inl e, w)
     | None \<Rightarrow> (case payment_loop en t 0 of None \<Rightarrow> None | Some r \<Rightarrow> Some (r, w)))"

definition lnd_PayInvoice ::
  "lnd_env \<Rightarrow> string \<Rightarrow> lnd_htlc node_world \<Rightarrow> ((go_error + string) \<times> lnd_htlc node_world) option" where
  "lnd_PayInvoice en payreq w = (let t = nw_clock w; w = nw_tick w in
     case lnd_DecodePayReq en t payreq of
       Inl e \<Rightarrow> Some (Inl e, w)
     | Inr decoded \<Rightarrow> sendPaymentV2 en \<lparr>spr_PaymentRequest = payreq, spr_CltvLimit = 0,
         spr_FeeLimitMsat = defaultPaymentFeeLimitMsat (pr_NumMsat decoded), spr_OutgoingChanIds = [], spr_MaxParts = 0\<rparr> w)"

definition lnd_payInvoiceViaChannel ::
  "lnd_env \<Rightarrow> string \<Rightarrow> string \<Rightarrow> u32 \<Rightarrow> lnd_htlc node_world \<Rightarrow> ((go_error + string) \<times> lnd_htlc node_world) option" where
  "lnd_payInvoiceViaChannel en payreq scid maxTotalCLTVDelta w =
     (let t = nw_clock w; w = nw_tick w in case lnd_DecodePayReq en t payreq of
        Inl e \<Rightarrow> Some (Inl e, w)
      | Inr decoded \<Rightarrow> (let t = nw_clock w; w = nw_tick w in
     (case lnd_CheckChannel en t scid (pr_NumSatoshis decoded) of
        Inl e \<Rightarrow> Some (Inl e, w)
      | Inr channel \<Rightarrow> (case buildDirectClaimPaymentRequest en payreq decoded channel maxTotalCLTVDelta of
          Inl e \<Rightarrow> Some (Inl e, w)
        | Inr request \<Rightarrow> sendPaymentV2 en request w))))"

definition lnd_PayInvoiceViaChannel ::
  "lnd_env \<Rightarrow> string \<Rightarrow> string \<Rightarrow> lnd_htlc node_world \<Rightarrow> ((go_error + string) \<times> lnd_htlc node_world) option" where
  "lnd_PayInvoiceViaChannel en payreq scid w = lnd_payInvoiceViaChannel en payreq scid 0 w"

definition lnd_RebalancePayment ::
  "lnd_env \<Rightarrow> string \<Rightarrow> string \<Rightarrow> u32 \<Rightarrow> lnd_htlc node_world \<Rightarrow> ((go_error + string) \<times> lnd_htlc node_world) option" where
  "lnd_RebalancePayment en payreq channelID maxTotalCLTVDelta w = lnd_payInvoiceViaChannel en payreq channelID maxTotalCLTVDelta w"

definition status_text :: "payment_status \<Rightarrow> string" where
  "status_text s = (case s of Payment_UNKNOWN \<Rightarrow> ''UNKNOWN'' | Payment_IN_FLIGHT \<Rightarrow> ''IN_FLIGHT''
     | Payment_SUCCEEDED \<Rightarrow> ''SUCCEEDED'' | Payment_FAILED \<Rightarrow> ''FAILED'' | Payment_other n \<Rightarrow> fmt_nat n)"

definition lnd_RecoverClaimPayment ::
  "lnd_env \<Rightarrow> string \<Rightarrow> lnd_htlc node_world \<Rightarrow> (go_error + string) \<times> lnd_htlc node_world" where
  "lnd_RecoverClaimPayment en payreq w =
     (let t = nw_clock w; w = nw_tick w in case lnd_DecodePayReq en t payreq of
        Inl e \<Rightarrow> (Inl e, w)
      | Inr decoded \<Rightarrow> (case hex_DecodeString (pr_PaymentHash decoded) of
        (_, Some e) \<Rightarrow> (Inl (ErrWrap ''decode payment hash'' (ErrHex e)), w)
      | (paymentHash, None) \<Rightarrow> (let t = nw_clock w; w = nw_tick w in
     (case lnd_TrackPaymentV2 en t paymentHash of
        Some e \<Rightarrow> (Inl e, w)
      | None \<Rightarrow> (case lnd_Recv en t 0 of
          Inl e \<Rightarrow> (Inl (ErrWrap ''track claim payment'' e), w)
        | Inr payment \<Rightarrow> if pay_Status payment \<noteq> Payment_SUCCEEDED \<or> PaymentPreimage payment = ''''
            then (Inl (ErrText (''claim payment did not succeed: '' @ status_text (pay_Status payment))), w)
            else (Inr (PaymentPreimage payment), w))))))"

subsection \<open>What a channel can carry\<close>

definition isPeerConnected :: "lnd_env \<Rightarrow> nat \<Rightarrow> string \<Rightarrow> bool" where
  "isPeerConnected en t pubkey = (case lnd_ListPeers en t of Inl _ \<Rightarrow> False | Inr peers \<Rightarrow> pubkey \<in> set peers)"

definition lnd_checkChannel :: "lnd_env \<Rightarrow> nat \<Rightarrow> Channel \<Rightarrow> go_error option" where
  "lnd_checkChannel en t ch = (if \<not> ch_Active ch then Some (ErrText ''channel not active'')
     else if \<not> isPeerConnected en t (RemotePubkey ch) then Some (ErrText ''peer is not connected'') else None)"

definition lnd_getMaxHtlcAmtMsat :: "lnd_env \<Rightarrow> nat \<Rightarrow> u64 \<Rightarrow> string \<Rightarrow> u64" where
  "lnd_getMaxHtlcAmtMsat en t chanId pubkey = (case lnd_GetChanInfo en t chanId of
     Inl _ \<Rightarrow> 0
   | Inr (node1, max1, node2, max2) \<Rightarrow> if node1 = pubkey then max1 else if node2 = pubkey then max2 else 0)"

definition lnd_SpendableMsat :: "lnd_env \<Rightarrow> nat \<Rightarrow> string \<Rightarrow> go_error + u64" where
  "lnd_SpendableMsat en t scid = (case lnd_ListChannels en t False of
     Inl e \<Rightarrow> Inl e
   | Inr channels \<Rightarrow> (case List.find (\<lambda>ch. lnd_scid en (ChanId ch) = LndStyle scid) channels of
       None \<Rightarrow> Inl (err_no_channel scid)
     | Some ch \<Rightarrow> (case lnd_checkChannel en (t + 1) ch of
         Some e \<Rightarrow> Inl e
       | None \<Rightarrow> Inr (with_limit (lnd_getMaxHtlcAmtMsat en (t + 2) (ChanId ch) (lnd_pubkey en))
           ((LocalBalance ch - ch_LocalReserveSat ch) * 1000)))))"

definition lnd_ReceivableMsat :: "lnd_env \<Rightarrow> nat \<Rightarrow> string \<Rightarrow> go_error + u64" where
  "lnd_ReceivableMsat en t scid = (case lnd_ListChannels en t False of
     Inl e \<Rightarrow> Inl e
   | Inr channels \<Rightarrow> (case List.find (\<lambda>ch. lnd_scid en (ChanId ch) = LndStyle scid) channels of
       None \<Rightarrow> Inl (err_no_channel scid)
     | Some ch \<Rightarrow> (case lnd_checkChannel en (t + 1) ch of
         Some e \<Rightarrow> Inl e
       | None \<Rightarrow> Inr (with_limit (lnd_getMaxHtlcAmtMsat en (t + 2) (ChanId ch) (RemotePubkey ch))
           ((RemoteBalance ch - ch_RemoteReserveSat ch) * 1000)))))"

subsection \<open>Probing\<close>

text \<open>One probe, over the last channel with the id.\<close>

definition lnd_probePayment ::
  "lnd_env \<Rightarrow> string \<Rightarrow> u64 \<Rightarrow> lnd_htlc node_world \<Rightarrow> (go_error + bool \<times> string) \<times> lnd_htlc node_world" where
  "lnd_probePayment en scid amountMsat w =
     (let t = nw_clock w; w = nw_tick w in case lnd_ListChannels en t False of
        Inl e \<Rightarrow> (Inl (ErrText (''ListChannels() '' @ Error e)), w)
      | Inr channels \<Rightarrow> (case List.find (\<lambda>ch. lnd_scid en (ChanId ch) = LndStyle scid) (rev channels) of
        None \<Rightarrow> (Inl (err_no_channel scid), w)
      | Some channel \<Rightarrow>
     if ChanId channel = 0 then (Inl (err_no_channel scid), w)
     else (case lnd_NewVertexFromStr en (RemotePubkey channel) of
        Some e \<Rightarrow> (Inl (ErrText (''NewVertexFromStr() '' @ Error e)), w)
      | None \<Rightarrow> (let t = nw_clock w; w = nw_tick w in
     (case lnd_BuildRoute en t (RemotePubkey channel) (ChanId channel) amountMsat of
        Some e \<Rightarrow> (Inl (ErrText (''BuildRoute() '' @ Error e)), w)
      | None \<Rightarrow> (let t = nw_clock w; w = nw_tick w in
     (case lnd_random_hash en t of
        Some e \<Rightarrow> (Inl (ErrText (''GetPreimage() '' @ Error e)), w)
      | None \<Rightarrow> (let t = nw_clock w; w = nw_send (ProbeHtlc (ChanId channel) amountMsat) w in
     (case lnd_SendToRoute en t of
        Inl e \<Rightarrow> (Inl (ErrText (''SendToRouteV2() '' @ Error e)), w)
      | Inr None \<Rightarrow> (Inr (False, ''probe payment unexpectedly settled''), w)
      | Inr (Some (unknown_details, code)) \<Rightarrow> if unknown_details then (Inr (True, ''''), w) else (Inr (False, code), w))))))))))"

text \<open>
  \<open>backoff.Retry\<close> with five retries repeats the probe while it gives an error.  The result is the
  success and the text of the last probe beside the last error; an error of the probe itself leaves
  both at their zero values.
\<close>

definition probe_once ::
  "lnd_env \<Rightarrow> string \<Rightarrow> u64 \<Rightarrow> lnd_htlc node_world \<Rightarrow> ((bool \<times> string) \<times> go_error option) \<times> lnd_htlc node_world" where
  "probe_once en scid amountMsat w = (case lnd_probePayment en scid amountMsat w of
     (Inl e, w) \<Rightarrow> (((False, ''''), Some e), w)
   | (Inr (success, paymentError), w) \<Rightarrow> (((success, paymentError),
       if paymentError \<noteq> '''' then Some (ErrText (''probePayment() '' @ paymentError))
       else if \<not> success then Some (ErrText ''probePayment() failed'') else None), w))"

fun probe_retry ::
  "lnd_env \<Rightarrow> string \<Rightarrow> u64 \<Rightarrow> nat \<Rightarrow> lnd_htlc node_world \<Rightarrow> ((bool \<times> string) \<times> go_error option) \<times> lnd_htlc node_world" where
  "probe_retry en scid amountMsat 0 w = probe_once en scid amountMsat w"
| "probe_retry en scid amountMsat (Suc n) w = (case probe_once en scid amountMsat w of
     ((res, None), w) \<Rightarrow> ((res, None), w)
   | ((_, Some _), w) \<Rightarrow> probe_retry en scid amountMsat n w)"

definition lnd_ProbePayment ::
  "lnd_env \<Rightarrow> string \<Rightarrow> u64 \<Rightarrow> lnd_htlc node_world \<Rightarrow> ((bool \<times> string) \<times> go_error option) \<times> lnd_htlc node_world" where
  "lnd_ProbePayment en scid amountMsat w = probe_retry en scid amountMsat 5 w"

section \<open>Paying a claim\<close>

text \<open>
  What the swaps rely on when they pay a claim invoice: an attempt creates at most one HTLC, that HTLC
  is a direct one under the given limit, a success needs an HTLC, and recovering an old payment creates
  none.
\<close>

locale claim_payer =
  fixes rebalance :: "string \<Rightarrow> string \<Rightarrow> u32 \<Rightarrow> 'h node_world \<Rightarrow> ((go_error + string) \<times> 'h node_world) option"
    and recover :: "string \<Rightarrow> 'h node_world \<Rightarrow> (go_error + string) \<times> 'h node_world"
    and direct :: "string \<Rightarrow> string \<Rightarrow> u32 \<Rightarrow> 'h \<Rightarrow> bool"
  assumes rebalance_direct: "rebalance payreq scid limit w = Some (r, w') \<Longrightarrow>
      nw_htlcs w' = nw_htlcs w \<and> (\<exists>e. r = Inl e) \<or> (\<exists>h. nw_htlcs w' = nw_htlcs w @ [h] \<and> direct payreq scid limit h)"
    and recover_silent: "nw_htlcs (snd (recover payreq w)) = nw_htlcs w"

text \<open>At most \<open>n\<close> attempts, until one succeeds.\<close>

fun pay_attempts ::
  "(string \<Rightarrow> string \<Rightarrow> u32 \<Rightarrow> 'w \<Rightarrow> ((go_error + string) \<times> 'w) option) \<Rightarrow>
   nat \<Rightarrow> string \<Rightarrow> string \<Rightarrow> u32 \<Rightarrow> 'w \<Rightarrow> ((go_error + string) \<times> 'w) option" where
  "pay_attempts rebalance 0 payreq scid limit w = Some (Inl (ErrText ''no attempt''), w)"
| "pay_attempts rebalance (Suc n) payreq scid limit w = (case rebalance payreq scid limit w of
     None \<Rightarrow> None
   | Some (Inr preimage, w) \<Rightarrow> Some (Inr preimage, w)
   | Some (Inl e, w) \<Rightarrow> if n = 0 then Some (Inl e, w) else pay_attempts rebalance n payreq scid limit w)"

context claim_payer
begin

lemma attempts_direct:
  "pay_attempts rebalance n payreq scid limit w = Some (r, w') \<Longrightarrow>
   \<exists>hs. nw_htlcs w' = nw_htlcs w @ hs \<and> length hs \<le> n \<and> list_all (direct payreq scid limit) hs \<and>
     (hs = [] \<longrightarrow> (\<exists>e. r = Inl e))"
proof (induction n arbitrary: w)
  case (Suc n)
  obtain r1 w1 where step: "rebalance payreq scid limit w = Some (r1, w1)"
    using Suc.prems by (auto split: option.splits)
  from rebalance_direct [OF step] obtain hs1 where hs1: "nw_htlcs w1 = nw_htlcs w @ hs1" "length hs1 \<le> 1"
    "list_all (direct payreq scid limit) hs1" "hs1 = [] \<longrightarrow> (\<exists>e. r1 = Inl e)"
    by (metis One_nat_def append_Nil2 le_zero_eq length_0_conv length_Cons list.pred_inject(1,2) not_Cons_self2 zero_le order_refl)
  show ?case
  proof (cases "(\<exists>e. r1 = Inl e) \<and> n \<noteq> 0")
    case True
    then have "pay_attempts rebalance n payreq scid limit w1 = Some (r, w')"
      using Suc.prems step by auto
    from Suc.IH [OF this] obtain hs where "nw_htlcs w' = nw_htlcs w1 @ hs" "length hs \<le> n"
      "list_all (direct payreq scid limit) hs" "hs = [] \<longrightarrow> (\<exists>e. r = Inl e)"
      by blast
    then show ?thesis
      using hs1 by (intro exI [of _ "hs1 @ hs"]) auto
  next
    case False
    then have "r = r1" "w' = w1"
      using Suc.prems step by (auto split: sum.splits if_splits)
    then show ?thesis using hs1 by auto
  qed
qed auto

lemma recover_then_pay:
  "pay_attempts rebalance n payreq scid limit (snd (recover payreq' w)) = Some (r, w') \<Longrightarrow>
   \<exists>hs. nw_htlcs w' = nw_htlcs w @ hs \<and> length hs \<le> n \<and> list_all (direct payreq scid limit) hs"
  using attempts_direct recover_silent by metis

end

lemma ValidateTotalCLTVDelta_None: "ValidateTotalCLTVDelta r l = None \<longleftrightarrow> l = 0 \<or> r \<le> l"
  by (auto simp: ValidateTotalCLTVDelta_def)

lemma unat_u32_of_u64: "x < 4294967296 \<Longrightarrow> unat (u32_of_u64 x) = unat x"
  by (simp add: u32_of_u64_def unsigned_ucast_eq take_bit_nat_eq_self word_less_nat_alt)

text \<open>
  A direct HTLC on Core Lightning: the route is the one hop over the channel to the payee of the
  invoice, with its amount and its hash; under a limit the delay is the invoice's plus one and within
  the limit.
\<close>

definition cln_direct :: "cln_env \<Rightarrow> string \<Rightarrow> string \<Rightarrow> u32 \<Rightarrow> send_pay \<Rightarrow> bool" where
  "cln_direct en payreq scid limit h \<longleftrightarrow> (\<exists>t bolt11 hop. cln_DecodeBolt11 en t payreq = Inr bolt11 \<and> sp_route h = [hop] \<and>
     hop_Id hop = b11_Payee bolt11 \<and> hop_ShortChannelId hop = ClnStyle scid \<and> hop_AmountMsat hop = b11_AmountMsat bolt11 \<and>
     sp_paymentHash h = b11_PaymentHash bolt11 \<and> sp_bolt11 h = payreq \<and>
     (limit \<noteq> 0 \<longrightarrow> unat (hop_Delay hop) = Suc (unat (b11_MinFinalCltvExpiry bolt11)) \<and> hop_Delay hop \<le> limit))"

text \<open>
  On lnd: a payment in one part over the one channel, whose remote end is the destination of the
  invoice and which has the balance; under a limit the invoice's delay with lnd's padding is within
  the limit, and lnd is given the limit plus one.
\<close>

definition lnd_direct :: "lnd_env \<Rightarrow> string \<Rightarrow> string \<Rightarrow> u32 \<Rightarrow> lnd_htlc \<Rightarrow> bool" where
  "lnd_direct en payreq scid limit h \<longleftrightarrow> (\<exists>t t' decoded channels ch req. lnd_DecodePayReq en t payreq = Inr decoded \<and>
     lnd_ListChannels en t' True = Inr channels \<and> ch \<in> set channels \<and>
     (lnd_scid en (ChanId ch) = scid \<or> LndShortChannelIdToCLShortChannelId (lnd_scid_fields en (ChanId ch)) = scid) \<and>
     RemotePubkey ch = pr_Destination decoded \<and> sint (pr_NumSatoshis decoded) \<le> sint (LocalBalance ch) \<and>
     h = PaymentHtlc req \<and> spr_PaymentRequest req = payreq \<and> spr_OutgoingChanIds req = [ChanId ch] \<and> spr_MaxParts req = 1 \<and>
     (limit \<noteq> 0 \<longrightarrow> unat (pr_CltvExpiry decoded) + unat (lnd_BlockPadding en) \<le> unat limit \<and>
        unat (spr_CltvLimit req) = Suc (unat limit)))"

lemma buildDirectClaimRoute_hop:
  assumes "buildDirectClaimRoute bolt11 scid limit = Inr route"
  shows "\<exists>hop. route = [hop] \<and> hop_Id hop = b11_Payee bolt11 \<and> hop_ShortChannelId hop = ClnStyle scid \<and>
    hop_AmountMsat hop = b11_AmountMsat bolt11 \<and>
    (limit \<noteq> 0 \<longrightarrow> unat (hop_Delay hop) = Suc (unat (b11_MinFinalCltvExpiry bolt11)) \<and> hop_Delay hop \<le> limit)"
proof -
  have "unat (u32_of_u64 (b11_MinFinalCltvExpiry bolt11 + 1)) = Suc (unat (b11_MinFinalCltvExpiry bolt11))"
    if "\<not> 4294967295 \<le> b11_MinFinalCltvExpiry bolt11"
  proof -
    have "unat (b11_MinFinalCltvExpiry bolt11) < 4294967295" using that by (simp add: word_le_nat_alt)
    moreover from this have "unat (b11_MinFinalCltvExpiry bolt11 + 1) = Suc (unat (b11_MinFinalCltvExpiry bolt11))"
      by (simp add: unat_word_ariths)
    ultimately show ?thesis by (simp add: unat_u32_of_u64 word_less_nat_alt)
  qed
  then show ?thesis
    using assms by (auto simp: buildDirectClaimRoute_def Let_def ValidateTotalCLTVDelta_None split: if_splits option.splits)
qed

lemma nw_simps [simp]:
  "nw_htlcs (nw_tick w) = nw_htlcs w" "nw_htlcs (nw_send h w) = nw_htlcs w @ [h]"
  by (simp_all add: nw_tick_def nw_send_def)

lemma cln_pay_direct:
  assumes "cln_payInvoiceViaChannel en payreq scid limit w = (r, w')"
  shows "nw_htlcs w' = nw_htlcs w \<and> (\<exists>e. r = Inl e) \<or> (\<exists>h. nw_htlcs w' = nw_htlcs w @ [h] \<and> cln_direct en payreq scid limit h)"
proof (cases "cln_DecodeBolt11 en (nw_clock w) payreq")
  case (Inl e)
  then show ?thesis using assms by (auto simp: cln_payInvoiceViaChannel_def)
next
  case (Inr bolt11)
  show ?thesis
  proof (cases "buildDirectClaimRoute bolt11 scid limit")
    case (Inl e)
    then show ?thesis using assms Inr by (auto simp: cln_payInvoiceViaChannel_def)
  next
    case route: (Inr route)
    let ?h = "\<lparr>sp_route = route, sp_paymentHash = b11_PaymentHash bolt11, sp_amountMsat = b11_AmountMsat bolt11,
      sp_bolt11 = payreq, sp_paymentSecret = b11_PaymentSecret bolt11\<rparr>"
    have "nw_htlcs w' = nw_htlcs w @ [?h]"
      using assms Inr route
      by (auto simp: cln_payInvoiceViaChannel_def Let_def split: option.splits sum.splits)
    moreover have "cln_direct en payreq scid limit ?h"
      using buildDirectClaimRoute_hop [OF route] Inr by (auto simp: cln_direct_def)
    ultimately show ?thesis by blast
  qed
qed

lemma buildDirectClaimPaymentRequest_ok:
  assumes "buildDirectClaimPaymentRequest en payreq decoded ch limit = Inr req"
  shows "RemotePubkey ch = pr_Destination decoded \<and> spr_PaymentRequest req = payreq \<and> spr_OutgoingChanIds req = [ChanId ch] \<and>
    spr_MaxParts req = 1 \<and> (limit \<noteq> 0 \<longrightarrow> unat (pr_CltvExpiry decoded) + unat (lnd_BlockPadding en) \<le> unat limit \<and>
        unat (spr_CltvLimit req) = Suc (unat limit))"
proof -
  let ?req = "pr_CltvExpiry decoded + ucast (lnd_BlockPadding en) :: u64"
  have pad: "unat (ucast (lnd_BlockPadding en) :: u64) = unat (lnd_BlockPadding en)" "unat (lnd_BlockPadding en) < 65536"
    using unsigned_less [of "lnd_BlockPadding en", where 'a = nat] by (simp_all add: unsigned_ucast_eq take_bit_nat_eq_self)
  have nonneg: "unat (pr_CltvExpiry decoded) < 9223372036854775808" if "0 \<le> sint (pr_CltvExpiry decoded)"
  proof -
    have "uint (pr_CltvExpiry decoded) = sint (pr_CltvExpiry decoded)"
      using that sint_less [of "pr_CltvExpiry decoded"] by (simp add: uint_sint take_bit_int_eq_self)
    then show ?thesis
      using sint_less [of "pr_CltvExpiry decoded"] by (simp add: unat_eq_nat_uint)
  qed
  have "unat (pr_CltvExpiry decoded) + unat (lnd_BlockPadding en) \<le> unat limit \<and> unat (limit + 1) = Suc (unat limit)"
    if "limit \<noteq> 0" "0 \<le> sint (pr_CltvExpiry decoded)" "?req \<le> 4294967295" "u32_of_u64 ?req \<le> limit" "limit < 2147483647"
  proof -
    have sum: "unat ?req = unat (pr_CltvExpiry decoded) + unat (lnd_BlockPadding en)"
      using nonneg [OF that(2)] pad by (simp add: unat_word_ariths)
    have "unat (u32_of_u64 ?req) = unat ?req"
      using that(3) by (intro unat_u32_of_u64) (simp add: word_less_nat_alt word_le_nat_alt)
    moreover have "unat limit < 2147483647" using that(5) by (simp add: word_less_nat_alt)
    ultimately show ?thesis
      using that(4) sum by (simp add: word_le_nat_alt unat_word_ariths)
  qed
  then show ?thesis
    using assms
    by (auto simp: buildDirectClaimPaymentRequest_def Let_def ValidateTotalCLTVDelta_None not_less not_le split: if_splits option.splits)
qed

lemma sendPaymentV2_htlcs: "sendPaymentV2 en req w = Some (r, w') \<Longrightarrow> nw_htlcs w' = nw_htlcs w @ [PaymentHtlc req]"
  by (auto simp: sendPaymentV2_def Let_def split: option.splits)

lemma lnd_CheckChannel_found:
  assumes "lnd_CheckChannel en t scid amount = Inr ch"
  shows "\<exists>channels. lnd_ListChannels en t True = Inr channels \<and> ch \<in> set channels \<and>
     (lnd_scid en (ChanId ch) = scid \<or> LndShortChannelIdToCLShortChannelId (lnd_scid_fields en (ChanId ch)) = scid) \<and>
     sint amount \<le> sint (LocalBalance ch)"
  using assms by (auto simp: lnd_CheckChannel_def find_Some_iff split: sum.splits option.splits if_splits dest: nth_mem)

lemma lnd_pay_direct:
  assumes "lnd_payInvoiceViaChannel en payreq scid limit w = Some (r, w')"
  shows "nw_htlcs w' = nw_htlcs w \<and> (\<exists>e. r = Inl e) \<or> (\<exists>h. nw_htlcs w' = nw_htlcs w @ [h] \<and> lnd_direct en payreq scid limit h)"
proof (cases "\<exists>decoded ch req. lnd_DecodePayReq en (nw_clock w) payreq = Inr decoded \<and>
    lnd_CheckChannel en (nw_clock (nw_tick w)) scid (pr_NumSatoshis decoded) = Inr ch \<and>
    buildDirectClaimPaymentRequest en payreq decoded ch limit = Inr req")
  case True
  then obtain decoded ch req where steps: "lnd_DecodePayReq en (nw_clock w) payreq = Inr decoded"
    "lnd_CheckChannel en (nw_clock (nw_tick w)) scid (pr_NumSatoshis decoded) = Inr ch"
    "buildDirectClaimPaymentRequest en payreq decoded ch limit = Inr req"
    by blast
  then have "nw_htlcs w' = nw_htlcs w @ [PaymentHtlc req]"
    using assms sendPaymentV2_htlcs by (fastforce simp: lnd_payInvoiceViaChannel_def Let_def)
  moreover have "lnd_direct en payreq scid limit (PaymentHtlc req)"
    using lnd_CheckChannel_found [OF steps(2)] buildDirectClaimPaymentRequest_ok [OF steps(3)] steps(1)
    unfolding lnd_direct_def by blast
  ultimately show ?thesis by blast
next
  case False
  then show ?thesis
    using assms by (auto simp: lnd_payInvoiceViaChannel_def Let_def split: sum.splits)
qed

lemma cln_recover_silent: "nw_htlcs (snd (cln_RecoverClaimPayment en payreq w)) = nw_htlcs w"
  by (simp add: cln_RecoverClaimPayment_def Let_def split: sum.split option.split prod.split)

lemma lnd_recover_silent: "nw_htlcs (snd (lnd_RecoverClaimPayment en payreq w)) = nw_htlcs w"
  by (simp add: lnd_RecoverClaimPayment_def Let_def split: sum.split option.split prod.split)

interpretation cln_payer: claim_payer "\<lambda>p s l w. Some (cln_RebalancePayment en p s l w)" "cln_RecoverClaimPayment en" "cln_direct en"
  for en
  using cln_pay_direct cln_recover_silent by unfold_locales (auto simp: cln_RebalancePayment_def)

interpretation lnd_payer: claim_payer "lnd_RebalancePayment en" "lnd_RecoverClaimPayment en" "lnd_direct en"
  for en
  using lnd_pay_direct lnd_recover_silent by unfold_locales (auto simp: lnd_RebalancePayment_def)

text \<open>
  C24. Paying a claim invoice in up to \<open>n\<close> attempts creates at most \<open>n\<close> HTLCs on either node, none of
  them if it fails before, and each of them is a direct one: over the swap's channel alone to the
  payee of the invoice, and under a limit on the total delay within that limit, without wrapping
  around.  A success has created one.
\<close>

theorem claim_payments_direct:
  "(pay_attempts (\<lambda>p s l w. Some (cln_RebalancePayment en p s l w)) n payreq scid limit w = Some (r, w') \<longrightarrow>
     (\<exists>hs. nw_htlcs w' = nw_htlcs w @ hs \<and> length hs \<le> n \<and> list_all (cln_direct en payreq scid limit) hs \<and>
       (hs = [] \<longrightarrow> (\<exists>e. r = Inl e)))) \<and>
   (pay_attempts (lnd_RebalancePayment ln) n payreq scid limit v = Some (r, v') \<longrightarrow>
     (\<exists>hs. nw_htlcs v' = nw_htlcs v @ hs \<and> length hs \<le> n \<and> list_all (lnd_direct ln payreq scid limit) hs \<and>
       (hs = [] \<longrightarrow> (\<exists>e. r = Inl e))))"
  using cln_payer.attempts_direct lnd_payer.attempts_direct by blast

text \<open>Nodes on which the invoice \<open>inv\<close> has a final delay of four blocks.\<close>

definition demo_cln :: cln_env where
  "demo_cln = \<lparr>cln_nodeId = ''me'', cln_DecodeBolt11 = (\<lambda>_ _. Inr \<lparr>b11_PaymentHash = ''00'', b11_AmountMsat = 7000,
     b11_MinFinalCltvExpiry = 4, b11_Payee = ''peer'', b11_PaymentSecret = ''''\<rparr>), cln_SendPay = (\<lambda>_ _. None),
     cln_WaitSendPay = (\<lambda>t _. if t < 5 then Inl (WaitError (ErrText ''try again'')) else Inr ''preimage''),
     cln_ListSendPaysByHash = (\<lambda>_ _. Inr []),
     cln_ListPeerChannels = (\<lambda>_. Inr [\<lparr>PeerId = ''peer'', PeerConnected = True, ch_State = ''CHANNELD_NORMAL'', ShortChannelId = ''1x2x3'',
       ch_TotalMsat = 9000000, ch_ToUsMsat = 0, ch_ReceivableMsat = 0, ch_SpendableMsat = 0, ch_TheirReserveMsat = 0,
       ch_OurReserveMsat = 1000000\<rparr>, \<lparr>PeerId = ''peer'', PeerConnected = True, ch_State = ''CHANNELD_NORMAL'', ShortChannelId = ''4x5x6'',
       ch_TotalMsat = 9000000, ch_ToUsMsat = 8000000, ch_ReceivableMsat = 0, ch_SpendableMsat = 6000000, ch_TheirReserveMsat = 0,
       ch_OurReserveMsat = 1000000\<rparr>]),
     cln_GetChannel = (\<lambda>_ scid. Inr (if scid = ''4x5x6'' then [(''me'', 5000000)] else [])), cln_random_hash = (\<lambda>_. Inr ''11'')\<rparr>"

definition demo_lnd :: lnd_env where
  "demo_lnd = \<lparr>lnd_pubkey = ''me'', lnd_BlockPadding = 3, lnd_scid_fields = (\<lambda>c. if c = 5 then (1, 2, 3) else (4, 5, 6)),
     lnd_scid_String = (\<lambda>f. if f = (1, 2, 3) then ''1:2:3'' else ''4:5:6''),
     lnd_DecodePayReq = (\<lambda>_ _. Inr \<lparr>pr_Destination = ''peer'', pr_PaymentHash = ''00'', pr_NumSatoshis = 7, pr_NumMsat = 7000, pr_CltvExpiry = 4\<rparr>),
     lnd_ListChannels = (\<lambda>_ _. Inr [\<lparr>ChanId = 5, ch_Active = True, RemotePubkey = ''peer'', LocalBalance = 100, RemoteBalance = 8900,
       ch_LocalReserveSat = 1000, ch_RemoteReserveSat = 0\<rparr>, \<lparr>ChanId = 6, ch_Active = True, RemotePubkey = ''peer'', LocalBalance = 5000,
       RemoteBalance = 4000, ch_LocalReserveSat = 1000, ch_RemoteReserveSat = 0\<rparr>]),
     lnd_ListPeers = (\<lambda>_. Inr [''peer'']), lnd_GetChanInfo = (\<lambda>_ _. Inl (ErrText ''no graph'')), lnd_SendPaymentV2 = (\<lambda>_ _. None),
     lnd_TrackPaymentV2 = (\<lambda>_ _. None),
     lnd_Recv = (\<lambda>_ n. Inr \<lparr>pay_Status = (if n = 0 then Payment_IN_FLIGHT else Payment_SUCCEEDED), PaymentPreimage = ''preimage'', FailureReason = ''''\<rparr>),
     lnd_NewVertexFromStr = (\<lambda>_. None), lnd_BuildRoute = (\<lambda>_ _ _ _. None), lnd_random_hash = (\<lambda>_. None),
     lnd_SendToRoute = (\<lambda>t. Inr (Some (7 < t, ''TEMPORARY_CHANNEL_FAILURE'')))\<rparr>"

lemma demo_cln_pays:
  "\<exists>w'. pay_attempts (\<lambda>p s l w. Some (cln_RebalancePayment demo_cln p s l w)) 3 ''inv'' ''1:2:3'' 9 \<lparr>nw_clock = 0, nw_htlcs = []\<rparr> =
     Some (Inr ''preimage'', w')"
proof -
  have "ValidateTotalCLTVDelta 5 9 = None"
    by (simp add: ValidateTotalCLTVDelta_None word_le_nat_alt)
  then show ?thesis
    by (simp add: numeral_3_eq_3 cln_RebalancePayment_def cln_payInvoiceViaChannel_def buildDirectClaimRoute_def nw_tick_def nw_send_def
      u32_of_u64_def word_le_nat_alt demo_cln_def)
qed

lemma demo_lnd_pays:
  "\<exists>v'. pay_attempts (lnd_RebalancePayment demo_lnd) 3 ''inv'' ''1:2:3'' 9 \<lparr>nw_clock = 0, nw_htlcs = []\<rparr> = Some (Inr ''preimage'', v')"
proof -
  let ?dec = "\<lparr>pr_Destination = ''peer'', pr_PaymentHash = ''00'', pr_NumSatoshis = 7, pr_NumMsat = 7000, pr_CltvExpiry = 4\<rparr>"
  let ?ch = "\<lparr>ChanId = 5, ch_Active = True, RemotePubkey = ''peer'', LocalBalance = 100, RemoteBalance = 8900,
    ch_LocalReserveSat = 1000, ch_RemoteReserveSat = 0\<rparr>"
  have loop: "payment_loop demo_lnd t 0 = Some (Inr ''preimage'')" for t
    by (simp add: payment_loop.simps [of _ _ 0] payment_loop.simps [of _ _ "Suc 0"] demo_lnd_def)
  have decode: "lnd_DecodePayReq demo_lnd t ''inv'' = Inr ?dec" and send: "lnd_SendPaymentV2 demo_lnd t req = None" for t req
    by (simp_all add: demo_lnd_def)
  have channel: "lnd_CheckChannel demo_lnd t ''1:2:3'' 7 = Inr ?ch" for t
    by (simp add: lnd_CheckChannel_def lnd_scid_def demo_lnd_def)
  have "ValidateTotalCLTVDelta 7 9 = None"
    by (simp add: ValidateTotalCLTVDelta_None word_le_nat_alt)
  then obtain req where req: "buildDirectClaimPaymentRequest demo_lnd ''inv'' ?dec ?ch 9 = Inr req"
    by (simp add: buildDirectClaimPaymentRequest_def Let_def demo_lnd_def u32_of_u64_def word_le_nat_alt word_less_nat_alt)
  show ?thesis
    by (simp add: numeral_3_eq_3 lnd_RebalancePayment_def lnd_payInvoiceViaChannel_def Let_def decode channel req sendPaymentV2_def send loop)
qed

theorem claim_payments_direct_witness:
  "(\<exists>hs. hs \<noteq> [] \<and> length hs \<le> 3 \<and> list_all (cln_direct demo_cln ''inv'' ''1:2:3'' 9) hs) \<and>
   (\<exists>hs. hs \<noteq> [] \<and> length hs \<le> 3 \<and> list_all (lnd_direct demo_lnd ''inv'' ''1:2:3'' 9) hs)"
proof -
  let ?w = "\<lparr>nw_clock = 0, nw_htlcs = []\<rparr>"
  obtain w' v' where "pay_attempts (\<lambda>p s l w. Some (cln_RebalancePayment demo_cln p s l w)) 3 ''inv'' ''1:2:3'' 9 ?w = Some (Inr ''preimage'', w')"
    "pay_attempts (lnd_RebalancePayment demo_lnd) 3 ''inv'' ''1:2:3'' 9 ?w = Some (Inr ''preimage'', v')"
    using demo_cln_pays demo_lnd_pays by blast
  then show ?thesis
    using claim_payments_direct [of demo_cln 3 "''inv''" "''1:2:3''" 9 ?w "Inr ''preimage''" w' demo_lnd ?w v'] by auto
qed

section \<open>Capacity\<close>

lemma with_limit_le: "with_limit l a \<le> a" "l \<noteq> 0 \<Longrightarrow> with_limit l a \<le> l"
  by (simp_all add: with_limit_def)

lemma find_SomeD: "List.find P xs = Some x \<Longrightarrow> x \<in> set xs \<and> P x"
  by (auto simp: find_Some_iff)

lemma unat_diff_times_1000_le: "b \<le> a \<Longrightarrow> unat ((a - b) * 1000 :: u64) \<le> (unat a - unat b) * 1000"
  by (subst unat_mult_1000) (simp add: unat_sub)

text \<open>
  The spendable amount both clients report is one of a channel with the given id, in either
  spelling, that is connected and in normal operation; it never exceeds the HTLC limit where one is
  known; and it never exceeds what the node holds above its reserve, as long as it holds the reserve.
\<close>

theorem spendable_bounded:
  "(cln_SpendableMsat en t scid = Inr v \<longrightarrow>
     (\<exists>chs ch limit. cln_ListPeerChannels en t = Inr chs \<and> ch \<in> set chs \<and> ShortChannelId ch = ClnStyle scid \<and> PeerConnected ch \<and>
        ch_State ch = ''CHANNELD_NORMAL'' \<and> limit = cln_getMaxHtlcAmtMsat en (Suc t) (ClnStyle scid) (cln_nodeId en) \<and> (limit \<noteq> 0 \<longrightarrow> v \<le> limit) \<and>
        (ch_OurReserveMsat ch \<le> ch_ToUsMsat ch \<longrightarrow>
           unat v \<le> max (unat (ch_SpendableMsat ch)) (unat (ch_ToUsMsat ch) - unat (ch_OurReserveMsat ch))))) \<and>
   (lnd_SpendableMsat ln t scid = Inr v \<longrightarrow>
     (\<exists>chs ch limit. lnd_ListChannels ln t False = Inr chs \<and> ch \<in> set chs \<and> lnd_scid ln (ChanId ch) = LndStyle scid \<and> ch_Active ch \<and>
        isPeerConnected ln (Suc t) (RemotePubkey ch) \<and> limit = lnd_getMaxHtlcAmtMsat ln (t + 2) (ChanId ch) (lnd_pubkey ln) \<and>
        (limit \<noteq> 0 \<longrightarrow> v \<le> limit) \<and>
        (ch_LocalReserveSat ch \<le> LocalBalance ch \<longrightarrow> unat v \<le> (unat (LocalBalance ch) - unat (ch_LocalReserveSat ch)) * 1000)))"
proof (intro conjI impI)
  assume "cln_SpendableMsat en t scid = Inr v"
  then obtain chs ch where ch: "cln_ListPeerChannels en t = Inr chs" "List.find (\<lambda>ch. ShortChannelId ch = ClnStyle scid) chs = Some ch"
    "cln_checkChannel ch = None" and v: "v = with_limit (cln_getMaxHtlcAmtMsat en (Suc t) (ClnStyle scid) (cln_nodeId en)) (GetSpendableMsat ch)"
    by (auto simp: cln_SpendableMsat_def split: sum.splits option.splits)
  have "unat v \<le> unat (GetSpendableMsat ch)" using with_limit_le(1) v by (simp add: word_le_nat_alt)
  then have "unat v \<le> max (unat (ch_SpendableMsat ch)) (unat (ch_ToUsMsat ch) - unat (ch_OurReserveMsat ch))"
    if "ch_OurReserveMsat ch \<le> ch_ToUsMsat ch"
    using that by (auto simp: GetSpendableMsat_def unat_sub split: if_splits)
  then show "\<exists>chs ch limit. cln_ListPeerChannels en t = Inr chs \<and> ch \<in> set chs \<and> ShortChannelId ch = ClnStyle scid \<and> PeerConnected ch \<and>
        ch_State ch = ''CHANNELD_NORMAL'' \<and> limit = cln_getMaxHtlcAmtMsat en (Suc t) (ClnStyle scid) (cln_nodeId en) \<and> (limit \<noteq> 0 \<longrightarrow> v \<le> limit) \<and>
        (ch_OurReserveMsat ch \<le> ch_ToUsMsat ch \<longrightarrow>
           unat v \<le> max (unat (ch_SpendableMsat ch)) (unat (ch_ToUsMsat ch) - unat (ch_OurReserveMsat ch)))"
    using ch find_SomeD [OF ch(2)] with_limit_le(2) v by (auto simp: cln_checkChannel_def split: if_splits)
next
  assume "lnd_SpendableMsat ln t scid = Inr v"
  then obtain chs ch where ch: "lnd_ListChannels ln t False = Inr chs" "List.find (\<lambda>ch. lnd_scid ln (ChanId ch) = LndStyle scid) chs = Some ch"
    "lnd_checkChannel ln (t + 1) ch = None" and v: "v = with_limit (lnd_getMaxHtlcAmtMsat ln (t + 2) (ChanId ch) (lnd_pubkey ln))
      ((LocalBalance ch - ch_LocalReserveSat ch) * 1000)"
    by (auto simp: lnd_SpendableMsat_def split: sum.splits option.splits)
  have "unat v \<le> unat ((LocalBalance ch - ch_LocalReserveSat ch) * 1000)" using with_limit_le(1) v by (simp add: word_le_nat_alt)
  then have "unat v \<le> (unat (LocalBalance ch) - unat (ch_LocalReserveSat ch)) * 1000" if "ch_LocalReserveSat ch \<le> LocalBalance ch"
    using unat_diff_times_1000_le [OF that] by simp
  then show "\<exists>chs ch limit. lnd_ListChannels ln t False = Inr chs \<and> ch \<in> set chs \<and> lnd_scid ln (ChanId ch) = LndStyle scid \<and> ch_Active ch \<and>
        isPeerConnected ln (Suc t) (RemotePubkey ch) \<and> limit = lnd_getMaxHtlcAmtMsat ln (t + 2) (ChanId ch) (lnd_pubkey ln) \<and>
        (limit \<noteq> 0 \<longrightarrow> v \<le> limit) \<and>
        (ch_LocalReserveSat ch \<le> LocalBalance ch \<longrightarrow> unat v \<le> (unat (LocalBalance ch) - unat (ch_LocalReserveSat ch)) * 1000)"
    using ch find_SomeD [OF ch(2)] with_limit_le(2) v by (auto simp: lnd_checkChannel_def split: if_splits)
qed

theorem spendable_bounded_witness:
  "cln_SpendableMsat demo_cln 0 ''4:5:6'' = Inr 5000000 \<and> lnd_SpendableMsat demo_lnd 0 ''4x5x6'' = Inr 4000000 \<and>
   (\<exists>ch :: PeerChannel. ShortChannelId ch = ''4x5x6'' \<and> PeerConnected ch) \<and> (\<exists>ch :: Channel. lnd_scid demo_lnd (ChanId ch) = ''4:5:6'' \<and> ch_Active ch)"
proof -
  have c: "cln_SpendableMsat demo_cln 0 ''4:5:6'' = Inr 5000000"
    by (simp add: cln_SpendableMsat_def demo_cln_def ClnStyle_def strings_ReplaceAll_def cln_checkChannel_def with_limit_def
      cln_getMaxHtlcAmtMsat_def GetSpendableMsat_def min_def word_le_nat_alt word_less_nat_alt)
  have l: "lnd_SpendableMsat demo_lnd 0 ''4x5x6'' = Inr 4000000"
    by (simp add: lnd_SpendableMsat_def demo_lnd_def LndStyle_def strings_ReplaceAll_def lnd_scid_def lnd_checkChannel_def with_limit_def
      lnd_getMaxHtlcAmtMsat_def isPeerConnected_def)
  have styles: "ClnStyle ''4:5:6'' = ''4x5x6''" "LndStyle ''4x5x6'' = ''4:5:6''"
    by (simp_all add: ClnStyle_def LndStyle_def strings_ReplaceAll_def)
  obtain ch :: PeerChannel where "ShortChannelId ch = ''4x5x6''" "PeerConnected ch"
    using spendable_bounded [THEN conjunct1, THEN mp, OF c] unfolding styles by blast
  moreover obtain ch :: Channel where "lnd_scid demo_lnd (ChanId ch) = ''4:5:6''" "ch_Active ch"
    using spendable_bounded [THEN conjunct2, THEN mp, OF l] unfolding styles by blast
  ultimately show ?thesis using c l by blast
qed

text \<open>
  Below the reserve the difference wraps around: on an empty channel with a reserve both clients
  report an amount larger than all bitcoin there are, so that a swap over it passes the capacity check.
\<close>

theorem spendable_wraps_below_reserve:
  "cln_SpendableMsat demo_cln 0 ''1:2:3'' = Inr (- 1000000) \<and> lnd_SpendableMsat demo_lnd 0 ''1x2x3'' = Inr (- 900000) \<and>
   unat (- 1000000 :: u64) = 18446744073708551616 \<and> 21000000 * 100000000 * 1000 < unat (- 900000 :: u64)"
proof -
  have "cln_SpendableMsat demo_cln 0 ''1:2:3'' = Inr (- 1000000)"
    by (simp add: cln_SpendableMsat_def demo_cln_def ClnStyle_def strings_ReplaceAll_def cln_checkChannel_def with_limit_def
      cln_getMaxHtlcAmtMsat_def GetSpendableMsat_def)
  moreover have "lnd_SpendableMsat demo_lnd 0 ''1x2x3'' = Inr (- 900000)"
    by (simp add: lnd_SpendableMsat_def demo_lnd_def LndStyle_def strings_ReplaceAll_def lnd_scid_def lnd_checkChannel_def with_limit_def
      lnd_getMaxHtlcAmtMsat_def isPeerConnected_def)
  ultimately show ?thesis by simp
qed

section \<open>Probes\<close>

definition probed :: "lnd_env \<Rightarrow> string \<Rightarrow> u64 \<Rightarrow> lnd_htlc \<Rightarrow> bool" where
  "probed en scid amountMsat h \<longleftrightarrow> (\<exists>chanId. h = ProbeHtlc chanId amountMsat \<and> chanId \<noteq> 0 \<and> lnd_scid en chanId = LndStyle scid)"

lemma lnd_probePayment_effect:
  assumes "lnd_probePayment en scid amountMsat w = (r, w')"
  shows "\<exists>hs. nw_htlcs w' = nw_htlcs w @ hs \<and> length hs \<le> 1 \<and> list_all (probed en scid amountMsat) hs \<and>
    (case r of Inr (True, m) \<Rightarrow> m = '''' \<and> hs \<noteq> [] \<and> (\<exists>t code. lnd_SendToRoute en t = Inr (Some (True, code))) | _ \<Rightarrow> True)"
proof (cases "lnd_ListChannels en (nw_clock w) False")
  case (Inl e)
  then show ?thesis using assms by (auto simp: lnd_probePayment_def Let_def)
next
  case (Inr channels)
  show ?thesis
  proof (cases "List.find (\<lambda>ch. lnd_scid en (ChanId ch) = LndStyle scid) (rev channels)")
    case None
    then show ?thesis using assms Inr by (auto simp: lnd_probePayment_def Let_def)
  next
    case (Some ch)
    then have scid: "lnd_scid en (ChanId ch) = LndStyle scid" by (auto dest: find_SomeD)
    show ?thesis
    proof (cases "ChanId ch = 0")
      case True
      then show ?thesis using assms Inr Some by (auto simp: lnd_probePayment_def Let_def)
    next
      case False
      then show ?thesis
        using assms Inr Some scid
        by (fastforce simp: lnd_probePayment_def Let_def probed_def split: option.splits sum.splits if_splits)
    qed
  qed
qed

lemma probe_once_effect:
  assumes "probe_once en scid amountMsat w = (((success, m), err), w')"
  shows "\<exists>hs. nw_htlcs w' = nw_htlcs w @ hs \<and> length hs \<le> 1 \<and> list_all (probed en scid amountMsat) hs \<and>
    (err = None \<longleftrightarrow> success) \<and> (success \<longrightarrow> m = '''' \<and> hs \<noteq> [] \<and> (\<exists>t code. lnd_SendToRoute en t = Inr (Some (True, code))))"
proof -
  obtain r w1 where probe: "lnd_probePayment en scid amountMsat w = (r, w1)" by fastforce
  show ?thesis
    using assms lnd_probePayment_effect [OF probe]
    by (auto simp: probe_once_def probe split: sum.splits prod.splits bool.splits if_splits)
qed

lemma probe_retry_effect:
  assumes "probe_retry en scid amountMsat n w = (((success, m), err), w')"
  shows "\<exists>hs. nw_htlcs w' = nw_htlcs w @ hs \<and> length hs \<le> Suc n \<and> list_all (probed en scid amountMsat) hs \<and>
    (err = None \<longleftrightarrow> success) \<and> (success \<longrightarrow> m = '''' \<and> hs \<noteq> [] \<and> (\<exists>t code. lnd_SendToRoute en t = Inr (Some (True, code))))"
  using assms
proof (induction n arbitrary: w)
  case 0
  then show ?case using probe_once_effect by fastforce
next
  case (Suc n)
  obtain success1 m1 err1 w1 where probe: "probe_once en scid amountMsat w = (((success1, m1), err1), w1)" by (metis prod.exhaust)
  obtain hs1 where hs1: "nw_htlcs w1 = nw_htlcs w @ hs1" "length hs1 \<le> 1" "list_all (probed en scid amountMsat) hs1"
    "err1 = None \<longleftrightarrow> success1"
    "success1 \<longrightarrow> m1 = '''' \<and> hs1 \<noteq> [] \<and> (\<exists>t code. lnd_SendToRoute en t = Inr (Some (True, code)))"
    using probe_once_effect [OF probe] by blast
  show ?case
  proof (cases err1)
    case None
    then show ?thesis
      using Suc.prems probe hs1 by (intro exI [of _ hs1]) auto
  next
    case (Some e)
    then have "probe_retry en scid amountMsat n w1 = (((success, m), err), w')"
      using Suc.prems probe by simp
    from Suc.IH [OF this] obtain hs where "nw_htlcs w' = nw_htlcs w1 @ hs" "length hs \<le> Suc n" "list_all (probed en scid amountMsat) hs"
      "err = None \<longleftrightarrow> success" "success \<longrightarrow> m = '''' \<and> hs \<noteq> [] \<and> (\<exists>t code. lnd_SendToRoute en t = Inr (Some (True, code)))"
      by blast
    then show ?thesis
      using hs1 by (intro exI [of _ "hs1 @ hs"]) auto
  qed
qed

text \<open>
  Probing with lnd sends at most six HTLCs, each of the given amount over a channel with the given
  id; it succeeds, which is when it gives no error, only if one of them was refused by the peer as a
  payment it does not know.
\<close>

theorem probe_bounded:
  assumes "lnd_ProbePayment en scid amountMsat w = (((success, m), err), w')"
  shows "\<exists>hs. nw_htlcs w' = nw_htlcs w @ hs \<and> length hs \<le> 6 \<and> list_all (probed en scid amountMsat) hs \<and>
    (err = None \<longleftrightarrow> success) \<and> (success \<longrightarrow> m = '''' \<and> hs \<noteq> [] \<and> (\<exists>t code. lnd_SendToRoute en t = Inr (Some (True, code))))"
  using probe_retry_effect [OF assms [unfolded lnd_ProbePayment_def]] by simp

lemma demo_probe:
  "lnd_probePayment demo_lnd ''4:5:6'' 1000 \<lparr>nw_clock = n, nw_htlcs = hs\<rparr> =
     (Inr (if 7 < n + 3 then (True, '''') else (False, ''TEMPORARY_CHANNEL_FAILURE'')),
      \<lparr>nw_clock = n + 4, nw_htlcs = hs @ [ProbeHtlc 6 1000]\<rparr>)"
  by (simp add: lnd_probePayment_def Let_def demo_lnd_def lnd_scid_def LndStyle_def strings_ReplaceAll_def nw_tick_def nw_send_def)

theorem probe_bounded_witness:
  "\<exists>w' hs. lnd_ProbePayment demo_lnd ''4:5:6'' 1000 \<lparr>nw_clock = 0, nw_htlcs = []\<rparr> = (((True, ''''), None), w') \<and>
     nw_htlcs w' = hs \<and> length hs = 3 \<and> list_all (probed demo_lnd ''4:5:6'' 1000) hs"
proof -
  obtain w' where run: "lnd_ProbePayment demo_lnd ''4:5:6'' 1000 \<lparr>nw_clock = 0, nw_htlcs = []\<rparr> = (((True, ''''), None), w')" "length (nw_htlcs w') = 3"
    by (simp add: lnd_ProbePayment_def numeral_eq_Suc probe_once_def demo_probe)
  then show ?thesis using probe_bounded [OF run(1)] by auto
qed

section \<open>Announced payments (\<open>lnd/paymentwatcher.go\<close>, \<open>AddPaymentNotifier\<close>)\<close>

text \<open>
  Core Lightning: \<open>waitinvoice\<close> blocks until the invoice is paid or expired; the result tells whether the
  payment handlers are called.
\<close>

definition cln_AddPaymentNotifier :: "go_error + string \<Rightarrow> bool" where
  "cln_AddPaymentNotifier res = (case res of Inl _ \<Rightarrow> False | Inr status \<Rightarrow> status = ''paid'')"

definition getLabel :: "string \<Rightarrow> InvoiceType \<Rightarrow> string" where
  "getLabel swapId invoiceType = swapId @ ''_'' @ InvoiceType_String invoiceType"

text \<open>
  lnd: the watched invoices, and for those with a running subscription what it announces.  The log
  holds the registrations, the settled invoices and the calls, for the statements below.
\<close>

datatype invoice_event = Recv_error go_error | Invoice_OPEN | Invoice_SETTLED | Invoice_CANCELED | Invoice_other nat

datatype payment_log = PayAdded string string InvoiceType | PaySettled string | PayCalled string InvoiceType

record PaymentWatcher =
  paymentWatchers :: "string set"
  payment_streams :: "string \<rightharpoonup> string \<times> InvoiceType"
  paymentCallback_set :: bool
  pw_clock :: nat
  pw_log :: "payment_log list"

definition NewPaymentWatcher :: PaymentWatcher where
  "NewPaymentWatcher = \<lparr>paymentWatchers = {}, payment_streams = Map.empty, paymentCallback_set = False, pw_clock = 0, pw_log = []\<rparr>"

definition pw_AddPaymentCallback :: "PaymentWatcher \<Rightarrow> PaymentWatcher" where
  "pw_AddPaymentCallback p = p\<lparr>paymentCallback_set := True\<rparr>"

text \<open>A registration that fails leaves its mark in the table.\<close>

definition AddWaitForPayment ::
  "lnd_env \<Rightarrow> (nat \<Rightarrow> byte list \<Rightarrow> go_error option) \<Rightarrow> string \<Rightarrow> string \<Rightarrow> InvoiceType \<Rightarrow> PaymentWatcher \<Rightarrow> PaymentWatcher" where
  "AddWaitForPayment en subscribe swapId payreq invoiceType p =
     (if payreq \<in> paymentWatchers p then p
      else (let t = pw_clock p;
                p = p\<lparr>paymentWatchers := insert payreq (paymentWatchers p), pw_clock := t + 2\<rparr>
            in case lnd_DecodePayReq en t payreq of
                 Inl _ \<Rightarrow> p
               | Inr invoice \<Rightarrow> (case hex_DecodeString (pr_PaymentHash invoice) of
                   (_, Some _) \<Rightarrow> p
                 | (rHash, None) \<Rightarrow> (case subscribe (Suc t) rHash of
                     Some _ \<Rightarrow> p
                   | None \<Rightarrow> p\<lparr>payment_streams := (payment_streams p)(payreq \<mapsto> (swapId, invoiceType)),
                       pw_log := pw_log p @ [PayAdded swapId payreq invoiceType]\<rparr>))))"

text \<open>The goroutine's deferred clean-up.\<close>

definition end_subscription :: "string \<Rightarrow> PaymentWatcher \<Rightarrow> PaymentWatcher" where
  "end_subscription payreq p = p\<lparr>paymentWatchers := paymentWatchers p - {payreq},
     payment_streams := (payment_streams p)(payreq := None)\<rparr>"

definition on_invoice_event :: "string \<Rightarrow> invoice_event \<Rightarrow> PaymentWatcher \<Rightarrow> PaymentWatcher" where
  "on_invoice_event payreq ev p = (case payment_streams p payreq of
     None \<Rightarrow> p
   | Some (swapId, invoiceType) \<Rightarrow> (case ev of
       Recv_error _ \<Rightarrow> end_subscription payreq p
     | Invoice_SETTLED \<Rightarrow> end_subscription payreq (p\<lparr>pw_log := pw_log p @ PaySettled payreq #
         (if paymentCallback_set p then [PayCalled swapId invoiceType] else [])\<rparr>)
     | Invoice_CANCELED \<Rightarrow> end_subscription payreq p
     | Invoice_OPEN \<Rightarrow> p
     | Invoice_other _ \<Rightarrow> p))"

inductive pw_step :: "lnd_env \<Rightarrow> (nat \<Rightarrow> byte list \<Rightarrow> go_error option) \<Rightarrow> PaymentWatcher \<Rightarrow> PaymentWatcher \<Rightarrow> bool"
  for en subscribe where
  add: "pw_step en subscribe p (AddWaitForPayment en subscribe swapId payreq invoiceType p)"
| event: "pw_step en subscribe p (on_invoice_event payreq ev p)"
| callback: "pw_step en subscribe p (pw_AddPaymentCallback p)"

definition calls_settled :: "payment_log list \<Rightarrow> bool" where
  "calls_settled = every_event (\<lambda>pre x. case x of
     PayCalled swapId it \<Rightarrow> \<exists>p payreq. pre = p @ [PaySettled payreq] \<and> PayAdded swapId payreq it \<in> set p | _ \<Rightarrow> True)"

definition pw_inv :: "PaymentWatcher \<Rightarrow> bool" where
  "pw_inv p \<longleftrightarrow> dom (payment_streams p) \<subseteq> paymentWatchers p \<and> calls_settled (pw_log p) \<and>
     (\<forall>payreq swapId it. payment_streams p payreq = Some (swapId, it) \<longrightarrow> PayAdded swapId payreq it \<in> set (pw_log p))"

lemma calls_settled_at:
  "calls_settled log \<Longrightarrow> log = pre @ PayCalled s it # later \<Longrightarrow> \<exists>p r. pre = p @ [PaySettled r] \<and> PayAdded s r it \<in> set p"
  unfolding calls_settled_def by (drule (1) every_eventD) simp

lemma calls_settled_snoc:
  "calls_settled (log @ [x]) \<longleftrightarrow> calls_settled log \<and>
     (case x of PayCalled s it \<Rightarrow> \<exists>p r. log = p @ [PaySettled r] \<and> PayAdded s r it \<in> set p | _ \<Rightarrow> True)"
  by (simp add: calls_settled_def)

lemma calls_settled_call:
  "calls_settled log \<Longrightarrow> PayAdded s r it \<in> set log \<Longrightarrow> calls_settled (log @ [PaySettled r, PayCalled s it])"
  by (auto simp: calls_settled_def every_event_two)

lemma AddWaitForPayment_cases:
  obtains "AddWaitForPayment en subscribe swapId payreq it p = p" "payreq \<in> paymentWatchers p"
  | p' where "AddWaitForPayment en subscribe swapId payreq it p = p'" "payreq \<notin> paymentWatchers p"
    "paymentWatchers p' = insert payreq (paymentWatchers p)" "payment_streams p' = payment_streams p" "pw_log p' = pw_log p"
  | p' where "AddWaitForPayment en subscribe swapId payreq it p = p'" "payreq \<notin> paymentWatchers p"
    "paymentWatchers p' = insert payreq (paymentWatchers p)" "payment_streams p' = (payment_streams p)(payreq \<mapsto> (swapId, it))"
    "pw_log p' = pw_log p @ [PayAdded swapId payreq it]"
proof (cases "payreq \<in> paymentWatchers p")
  case True
  then show ?thesis using that(1) by (simp add: AddWaitForPayment_def)
next
  case False
  let ?p = "p\<lparr>paymentWatchers := insert payreq (paymentWatchers p), pw_clock := pw_clock p + 2\<rparr>"
  let ?q = "?p\<lparr>payment_streams := (payment_streams p)(payreq \<mapsto> (swapId, it)), pw_log := pw_log p @ [PayAdded swapId payreq it]\<rparr>"
  have "AddWaitForPayment en subscribe swapId payreq it p \<in> {?p, ?q}"
    using False by (simp add: AddWaitForPayment_def Let_def split: sum.split prod.split option.split)
  then show ?thesis
    using that(2) [of ?p] that(3) [of ?q] False by auto
qed

lemma pw_step_inv:
  assumes "pw_step en subscribe p p'" "pw_inv p"
  shows "pw_inv p'"
  using assms
proof cases
  case (add swapId payreq it)
  then show ?thesis
    using assms(2)
    by (cases rule: AddWaitForPayment_cases [of en subscribe swapId payreq it p])
      (auto simp: pw_inv_def calls_settled_snoc split: if_splits)
next
  case (event payreq ev)
  then show ?thesis
    using assms(2)
    by (cases ev)
      (auto simp: pw_inv_def on_invoice_event_def end_subscription_def calls_settled_snoc calls_settled_call split: option.splits if_splits)
next
  case callback
  then show ?thesis using assms(2) by (simp add: pw_inv_def pw_AddPaymentCallback_def)
qed

text \<open>A failed registration blocks its invoice: no later step starts a subscription for it.\<close>

lemma pw_step_stuck:
  assumes "pw_step en subscribe p p'" "payreq \<in> paymentWatchers p" "payment_streams p payreq = None"
  shows "payreq \<in> paymentWatchers p' \<and> payment_streams p' payreq = None"
  using assms
proof cases
  case (add swapId r it)
  then show ?thesis
    using assms(2,3) by (cases rule: AddWaitForPayment_cases [of en subscribe swapId r it p]) auto
next
  case (event r ev)
  then show ?thesis
    using assms(2,3) by (cases ev) (auto simp: on_invoice_event_def end_subscription_def split: option.splits)
next
  case callback
  then show ?thesis using assms by (simp add: pw_AddPaymentCallback_def)
qed

text \<open>
  Through every sequence of registrations and invoice updates the swaps are told of a payment only
  right after lnd reported an invoice as settled that was registered for that swap and kind.  An invoice
  whose registration failed, which leaves it in the table without a subscription, never gets one again:
  its payment is not announced until the program is restarted.
\<close>

theorem payment_announced_when_settled:
  assumes "(pw_step en subscribe)\<^sup>*\<^sup>* NewPaymentWatcher p"
  shows "(\<forall>pre swapId it later. pw_log p = pre @ PayCalled swapId it # later \<longrightarrow>
      (\<exists>q payreq. pre = q @ [PaySettled payreq] \<and> PayAdded swapId payreq it \<in> set q)) \<and>
    (\<forall>payreq p'. payreq \<in> paymentWatchers p \<and> payment_streams p payreq = None \<and> (pw_step en subscribe)\<^sup>*\<^sup>* p p' \<longrightarrow>
      payment_streams p' payreq = None)"
proof -
  have "pw_inv p"
    using assms
  proof (induction rule: rtranclp_induct)
    case base
    then show ?case by (simp add: pw_inv_def NewPaymentWatcher_def calls_settled_def)
  qed (rule pw_step_inv)
  moreover have "payreq \<in> paymentWatchers p' \<and> payment_streams p' payreq = None"
    if "(pw_step en subscribe)\<^sup>*\<^sup>* p p'" "payreq \<in> paymentWatchers p" "payment_streams p payreq = None" for payreq p'
    using that by (induction rule: rtranclp_induct) (auto dest: pw_step_stuck)
  ultimately show ?thesis
    unfolding pw_inv_def by (blast intro: calls_settled_at)
qed

text \<open>One invoice is settled, one could not be subscribed to.\<close>

theorem payment_announced_when_settled_witness:
  "\<exists>p. (pw_step demo_lnd (\<lambda>t _. if t = 3 then Some (ErrText ''unavailable'') else None))\<^sup>*\<^sup>* NewPaymentWatcher p \<and>
     pw_log p = [PayAdded ''id'' ''a'' INVOICE_CLAIM, PaySettled ''a'', PayCalled ''id'' INVOICE_CLAIM] \<and>
     payment_streams (AddWaitForPayment demo_lnd (\<lambda>t _. if t = 3 then Some (ErrText ''unavailable'') else None) ''id'' ''b'' INVOICE_FEE p) ''b'' = None"
proof -
  let ?sub = "\<lambda>t _. if t = (3 :: nat) then Some (ErrText ''unavailable'') else None"
  let ?p = "on_invoice_event ''a'' Invoice_SETTLED (AddWaitForPayment demo_lnd ?sub ''id'' ''b'' INVOICE_FEE
    (AddWaitForPayment demo_lnd ?sub ''id'' ''a'' INVOICE_CLAIM (pw_AddPaymentCallback NewPaymentWatcher)))"
  have run: "(pw_step demo_lnd ?sub)\<^sup>*\<^sup>* NewPaymentWatcher ?p"
    by (rule rtranclp.rtrancl_into_rtrancl, rule rtranclp.rtrancl_into_rtrancl, rule rtranclp.rtrancl_into_rtrancl,
      rule r_into_rtranclp, rule pw_step.callback, rule pw_step.add, rule pw_step.add, rule pw_step.event)
  have p: "pw_log ?p = [PayAdded ''id'' ''a'' INVOICE_CLAIM, PaySettled ''a'', PayCalled ''id'' INVOICE_CLAIM]"
    "''b'' \<in> paymentWatchers ?p" "payment_streams ?p ''b'' = None"
    by (simp_all add: on_invoice_event_def end_subscription_def AddWaitForPayment_def pw_AddPaymentCallback_def NewPaymentWatcher_def
      demo_lnd_def from_hex_char_def Let_def)
  then have "payment_streams (AddWaitForPayment demo_lnd ?sub ''id'' ''b'' INVOICE_FEE ?p) ''b'' = None"
    using payment_announced_when_settled [OF run] pw_step.add by blast
  then show ?thesis using run p by blast
qed

end
