(* ===== verification/PS_Onchain.thy ===== *)
theory PS_Onchain
  imports PS_SwapData PS_Store
begin

text \<open>
  The opening transaction on the chain: the script it pays to and the witnesses that spend it
  (\<open>onchain/utils.go\<close>), and how a taker validates the transaction on Bitcoin (\<open>onchain/bitcoin.go\<close>) and
  on Liquid (\<open>onchain/liquid.go\<close>).  Serialising scripts, decoding transactions, hashing, addresses and
  unblinding are third-party code and parameters.

  What the script demands of a spender is stated for every script interpreter that follows the rules
  of the opcodes used; the rules are a hypothesis, and an interpreter that follows them is given.
\<close>

section \<open>Scripts (\<open>onchain/utils.go\<close>)\<close>

datatype opcode = OP_CHECKSIG | OP_NOTIF | OP_SIZE | OP_EQUALVERIFY | OP_SHA256 | OP_ENDIF | OP_ELSE
  | OP_CHECKSEQUENCEVERIFY

text \<open>A call of the script builder: \<open>AddData\<close>, \<open>AddOp\<close>, \<open>AddInt64\<close>.\<close>

datatype script_item = AddData "byte list" | AddOp opcode | AddInt64 int

definition opening_items :: "byte list \<Rightarrow> byte list \<Rightarrow> byte list \<Rightarrow> u32 \<Rightarrow> script_item list" where
  "opening_items takerPubkeyHash makerPubkeyHash pHash csv =
     [AddData makerPubkeyHash, AddOp OP_CHECKSIG, AddOp OP_NOTIF,
      AddData makerPubkeyHash, AddOp OP_CHECKSIG, AddOp OP_NOTIF,
      AddOp OP_SIZE, AddData (h2b ''20''), AddOp OP_EQUALVERIFY, AddOp OP_SHA256, AddData pHash, AddOp OP_EQUALVERIFY,
      AddOp OP_ENDIF,
      AddData takerPubkeyHash, AddOp OP_CHECKSIG,
      AddOp OP_ELSE,
      AddInt64 (uint csv), AddOp OP_CHECKSEQUENCEVERIFY,
      AddOp OP_ENDIF]"

text \<open>The third-party code of this theory.\<close>

record tx_out =
  out_Value :: i64
  out_PkScript :: "byte list"

record liquid_out =
  lo_Script :: "byte list"
  lo_Asset :: "byte list"
  lo_IsConfidential :: bool
  lo_Value :: "byte list"
  lo_payload :: "byte list"

record unblinded =
  ub_Value :: u64
  ub_Asset :: "byte list"
  ub_AssetBlindingFactor :: "byte list"
  ub_ValueBlindingFactor :: "byte list"

record chain_env =
  ce_Script :: "script_item list \<Rightarrow> go_error + byte list"
  ce_sha256 :: "byte list \<Rightarrow> byte list"
  ce_Deserialize :: "byte list \<Rightarrow> go_error + tx_out list"
  ce_TxHash :: "byte list \<Rightarrow> string"
  ce_WitnessScriptHash :: "byte list \<Rightarrow> go_error + byte list"
  ce_NewTxFromHex :: "string \<Rightarrow> go_error + liquid_out list"
  ce_OpeningAddress :: "byte list \<Rightarrow> go_error + string"
  ce_ToOutputScript :: "string \<Rightarrow> go_error + byte list"
  ce_UnblindOutputWithKey :: "liquid_out \<Rightarrow> byte list \<Rightarrow> go_error + unblinded"
  ce_AssetCommitment :: "byte list \<Rightarrow> byte list \<Rightarrow> go_error + byte list"

definition GetOpeningTxScript :: "chain_env \<Rightarrow> byte list \<Rightarrow> byte list \<Rightarrow> byte list \<Rightarrow> u32 \<Rightarrow> go_error + byte list" where
  "GetOpeningTxScript ce takerPubkeyHash makerPubkeyHash pHash csv =
     ce_Script ce (opening_items takerPubkeyHash makerPubkeyHash pHash csv)"

definition hex_bytes :: "string \<Rightarrow> go_error + byte list" where
  "hex_bytes s = (case hex_DecodeString s of (_, Some e) \<Rightarrow> Inl (ErrHex e) | (bs, None) \<Rightarrow> Inr bs)"

definition ParamsToTxScript :: "chain_env \<Rightarrow> OpeningParams \<Rightarrow> u32 \<Rightarrow> go_error + byte list" where
  "ParamsToTxScript ce p locktimeHeight = (case hex_bytes (op_TakerPubkey p) of
     Inl e \<Rightarrow> Inl e
   | Inr takerBytes \<Rightarrow> (case hex_bytes (op_MakerPubkey p) of
       Inl e \<Rightarrow> Inl e
     | Inr makerBytes \<Rightarrow> (case hex_bytes (op_ClaimPaymentHash p) of
         Inl e \<Rightarrow> Inl e
       | Inr phashBytes \<Rightarrow> GetOpeningTxScript ce takerBytes makerBytes phashBytes locktimeHeight)))"

definition SigHashAll :: byte where
  "SigHashAll = 1"

text \<open>Witnesses, in the order they are put into the transaction: the last item before the script is
  the top of the stack.\<close>

definition GetPreimageWitness :: "byte list \<Rightarrow> byte list \<Rightarrow> byte list \<Rightarrow> byte list list" where
  "GetPreimageWitness signature preimage redeemScript = [signature @ [SigHashAll], preimage, [], [], redeemScript]"

definition GetCsvWitness :: "byte list \<Rightarrow> byte list \<Rightarrow> byte list list" where
  "GetCsvWitness signature redeemScript = [signature @ [SigHashAll], redeemScript]"

definition GetCooperativeWitness :: "byte list \<Rightarrow> byte list \<Rightarrow> byte list \<Rightarrow> byte list list" where
  "GetCooperativeWitness takerSig makerSig redeemScript =
     [takerSig @ [SigHashAll], makerSig @ [SigHashAll], [], redeemScript]"

section \<open>Validation on Bitcoin (\<open>onchain/bitcoin.go\<close>)\<close>

definition BitcoinCsv :: u32 where "BitcoinCsv = 1008"
definition BitcoinMinConfs :: u32 where "BitcoinMinConfs = 3"
definition BitcoinCsvSafetyLimit :: u32 where "BitcoinCsvSafetyLimit = BitcoinCsv div 2"

definition decode_tx :: "chain_env \<Rightarrow> string \<Rightarrow> go_error + tx_out list" where
  "decode_tx ce txHex = (case hex_bytes txHex of Inl e \<Rightarrow> Inl e | Inr bs \<Rightarrow> ce_Deserialize ce bs)"

text \<open>The first output with the amount, and its index.\<close>

fun find_amount :: "i64 \<Rightarrow> tx_out list \<Rightarrow> nat \<Rightarrow> (nat \<times> tx_out) option" where
  "find_amount amount [] i = None"
| "find_amount amount (out # outs) i = (if out_Value out = amount then Some (i, out) else find_amount amount outs (Suc i))"

definition bitcoin_GetOutputScript :: "chain_env \<Rightarrow> OpeningParams \<Rightarrow> go_error + byte list" where
  "bitcoin_GetOutputScript ce p = (case ParamsToTxScript ce p BitcoinCsv of
     Inl e \<Rightarrow> Inl e
   | Inr redeemScript \<Rightarrow> (case ce_WitnessScriptHash ce (ce_sha256 ce redeemScript) of
       Inl e \<Rightarrow> Inl e
     | Inr scriptAddress \<Rightarrow> ce_Script ce [AddData [0], AddData scriptAddress]))"

definition bitcoin_ValidateTx :: "chain_env \<Rightarrow> OpeningParams \<Rightarrow> string \<Rightarrow> go_error + bool" where
  "bitcoin_ValidateTx ce p openingTxHex = (case decode_tx ce openingTxHex of
     Inl e \<Rightarrow> Inl e
   | Inr outs \<Rightarrow> (case find_amount (op_Amount p) outs 0 of
       None \<Rightarrow> Inr False
     | Some (_, scriptOut) \<Rightarrow> (case bitcoin_GetOutputScript ce p of
         Inl e \<Rightarrow> Inl e
       | Inr wantScript \<Rightarrow> Inr (wantScript = out_PkScript scriptOut))))"

definition bitcoin_GetVoutAndVerify :: "chain_env \<Rightarrow> string \<Rightarrow> OpeningParams \<Rightarrow> go_error + bool \<times> u32" where
  "bitcoin_GetVoutAndVerify ce txHex p = (case decode_tx ce txHex of
     Inl e \<Rightarrow> Inl e
   | Inr outs \<Rightarrow> (case find_amount (op_Amount p) outs 0 of
       None \<Rightarrow> Inr (False, 0)
     | Some (i, scriptOut) \<Rightarrow> (case bitcoin_GetOutputScript ce p of
         Inl e \<Rightarrow> Inl e
       | Inr wantScript \<Rightarrow> Inr (if wantScript = out_PkScript scriptOut then (True, of_nat i) else (False, 0)))))"

definition bitcoin_TxIdFromHex :: "chain_env \<Rightarrow> string \<Rightarrow> go_error + string" where
  "bitcoin_TxIdFromHex ce txHex = (case hex_bytes txHex of
     Inl e \<Rightarrow> Inl e
   | Inr bs \<Rightarrow> (case ce_Deserialize ce bs of Inl e \<Rightarrow> Inl e | Inr _ \<Rightarrow> Inr (ce_TxHash ce bs)))"

section \<open>Validation on Liquid (\<open>onchain/liquid.go\<close>)\<close>

text \<open>The serialised policy asset: a prefix and the reversed asset id.\<close>

definition liquid_asset :: "string \<Rightarrow> byte list" where
  "liquid_asset assetID = 1 # rev (h2b assetID)"

fun find_script :: "byte list \<Rightarrow> liquid_out list \<Rightarrow> nat \<Rightarrow> nat option" where
  "find_script want [] i = None"
| "find_script want (out # outs) i = (if lo_Script out = want then Some i else find_script want outs (Suc i))"

definition FindVout :: "chain_env \<Rightarrow> liquid_out list \<Rightarrow> byte list \<Rightarrow> go_error + nat" where
  "FindVout ce outputs redeemScript = (case ce_OpeningAddress ce ([0, 32] @ ce_sha256 ce redeemScript) of
     Inl e \<Rightarrow> Inl e
   | Inr wantAddr \<Rightarrow> (case ce_ToOutputScript ce wantAddr of
       Inl e \<Rightarrow> Inl e
     | Inr wantBytes \<Rightarrow> (case find_script wantBytes outputs 0 of
         None \<Rightarrow> Inl (ErrText ''vout not found'') | Some i \<Rightarrow> Inr i)))"

definition validateOpeningOutput ::
  "chain_env \<Rightarrow> byte list \<Rightarrow> liquid_out \<Rightarrow> u64 \<Rightarrow> byte list \<Rightarrow> go_error + unblinded" where
  "validateOpeningOutput ce asset out expectedAmount blindingKey =
     (case ce_UnblindOutputWithKey ce out blindingKey of
        Inl e \<Rightarrow> Inl (ErrWrap ''failed to unblind opening output'' e)
      | Inr ub \<Rightarrow>
     if length asset \<noteq> 33 then Inl (ErrText (''invalid policy asset serialization length: '' @ fmt_nat (length asset)))
     else if ub_Asset ub \<noteq> tl asset
     then Inl (ErrText (''invalid asset id got: '' @ hex_EncodeToString (ub_Asset ub) @ '', expected '' @ hex_EncodeToString (tl asset)))
     else (case (if \<not> lo_IsConfidential out
                 then (if lo_Asset out \<noteq> asset
                       then Some (ErrText (''invalid explicit asset got: '' @ hex_EncodeToString (lo_Asset out) @ '', expected '' @ hex_EncodeToString asset))
                       else None)
                 else (case ce_AssetCommitment ce (ub_Asset ub) (ub_AssetBlindingFactor ub) of
                         Inl e \<Rightarrow> Some (ErrWrap ''failed to reconstruct asset commitment'' e)
                       | Inr assetCommitment \<Rightarrow> if assetCommitment \<noteq> lo_Asset out
                           then Some (ErrText (''invalid asset commitment got: '' @ hex_EncodeToString (lo_Asset out) @ '', expected '' @ hex_EncodeToString assetCommitment))
                           else None)) of
             Some e \<Rightarrow> Inl e
           | None \<Rightarrow> if ub_Value ub \<noteq> expectedAmount
               then Inl (ErrText (''tx value is not equal to the swap contract expected: '' @ fmt_u64 expectedAmount @ '', tx: '' @ fmt_u64 (ub_Value ub)))
               else Inr ub))"

text \<open>A missing blinding key is dereferenced: \<open>None\<close> is the panic.\<close>

definition liquid_ValidateTx :: "chain_env \<Rightarrow> byte list \<Rightarrow> OpeningParams \<Rightarrow> string \<Rightarrow> (go_error + bool) option" where
  "liquid_ValidateTx ce asset p txHex = (case ParamsToTxScript ce p (op_CSV p) of
     Inl e \<Rightarrow> Some (Inl e)
   | Inr redeemScript \<Rightarrow> (case ce_NewTxFromHex ce txHex of
       Inl e \<Rightarrow> Some (Inl e)
     | Inr outs \<Rightarrow> (case FindVout ce outs redeemScript of
         Inl e \<Rightarrow> Some (Inl e)
       | Inr vout \<Rightarrow> (case op_BlindingKey p of
           None \<Rightarrow> None
         | Some key \<Rightarrow> Some (case validateOpeningOutput ce asset (outs ! vout) (op_Amount p) key of
             Inl e \<Rightarrow> Inl e | Inr _ \<Rightarrow> Inr True)))))"

definition VoutFromTxHex :: "chain_env \<Rightarrow> string \<Rightarrow> byte list \<Rightarrow> go_error + nat" where
  "VoutFromTxHex ce txHex redeemScript = (case ce_NewTxFromHex ce txHex of
     Inl e \<Rightarrow> Inl e | Inr outs \<Rightarrow> FindVout ce outs redeemScript)"

definition liquid_GetOutputScript :: "chain_env \<Rightarrow> OpeningParams \<Rightarrow> go_error + byte list" where
  "liquid_GetOutputScript ce p = (case ParamsToTxScript ce p (op_CSV p) of
     Inl e \<Rightarrow> Inl e
   | Inr redeemScript \<Rightarrow> (case ce_OpeningAddress ce ([0, 32] @ ce_sha256 ce redeemScript) of
       Inl e \<Rightarrow> Inl e | Inr wantAddr \<Rightarrow> ce_ToOutputScript ce wantAddr))"

datatype transactionKind = transactionKindPreimageSpending | transactionKindCoop | transactionKindOpening
  | transactionKindCSV | transactionKindOther

fun getEstimatedTxSize :: "transactionKind \<Rightarrow> int" where
  "getEstimatedTxSize transactionKindPreimageSpending = 1350 div 4"
| "getEstimatedTxSize transactionKindCoop = 1360 div 4"
| "getEstimatedTxSize transactionKindOpening = 3000 div 4"
| "getEstimatedTxSize transactionKindCSV = 1350 div 4"
| "getEstimatedTxSize transactionKindOther = 1360"

section \<open>Who can spend the opening output\<close>

text \<open>
  Script truth: any non-zero byte, except a sign bit alone.  \<open>checksig\<close> tells whether a signature, with
  its hash type, is valid for a key in the spending transaction; \<open>csv_ok n\<close> whether the sequence number
  of the input satisfies a relative delay of \<open>n\<close>.
\<close>

definition truthy :: "byte list \<Rightarrow> bool" where
  "truthy x \<longleftrightarrow> x \<noteq> [] \<and> ((\<exists>b \<in> set (butlast x). b \<noteq> 0) \<or> last x \<noteq> 0 \<and> last x \<noteq> 128)"

definition bool_bytes :: "bool \<Rightarrow> byte list" where
  "bool_bytes b = (if b then [1] else [])"

lemma truthy_bool_bytes [simp]: "truthy (bool_bytes b) = b"
  by (simp add: truthy_def bool_bytes_def)

text \<open>
  The rules of the opcodes: \<open>exec c s st\<close> tells whether the items \<open>s\<close> succeed on the stack \<open>st\<close> (top first)
  under the open conditionals \<open>c\<close>.  Items of a branch that is not taken are skipped, and a script
  succeeds with a single true value on the stack, as for a version 0 witness program.  \<open>num\<close> is the
  byte form of a number.
\<close>

definition conditional :: "script_item \<Rightarrow> bool" where
  "conditional i \<longleftrightarrow> i \<in> {AddOp OP_NOTIF, AddOp OP_ELSE, AddOp OP_ENDIF}"

definition script_rules ::
  "(byte list \<Rightarrow> byte list \<Rightarrow> bool) \<Rightarrow> (byte list \<Rightarrow> byte list) \<Rightarrow> (int \<Rightarrow> bool) \<Rightarrow> (int \<Rightarrow> byte list) \<Rightarrow>
   (bool list \<Rightarrow> script_item list \<Rightarrow> byte list list \<Rightarrow> bool) \<Rightarrow> bool" where
  "script_rules checksig sha csv_ok num exec \<longleftrightarrow>
     (\<forall>st. exec [] [] st \<longleftrightarrow> (\<exists>x. st = [x] \<and> truthy x)) \<and>
     (\<forall>c i s st. False \<in> set c \<and> \<not> conditional i \<longrightarrow> exec c (i # s) st = exec c s st) \<and>
     (\<forall>c s st. exec c (AddOp OP_NOTIF # s) st = (if False \<in> set c then exec (False # c) s st
        else (case st of [] \<Rightarrow> False | x # st \<Rightarrow> exec ((\<not> truthy x) # c) s st))) \<and>
     (\<forall>b c s st. exec (b # c) (AddOp OP_ELSE # s) st = exec ((\<not> b) # c) s st) \<and>
     (\<forall>b c s st. exec (b # c) (AddOp OP_ENDIF # s) st = exec c s st) \<and>
     (\<forall>c s st. False \<notin> set c \<longrightarrow>
        (\<forall>d. exec c (AddData d # s) st = exec c s (d # st)) \<and>
        (\<forall>n. exec c (AddInt64 n # s) st = exec c s (num n # st)) \<and>
        (exec c (AddOp OP_CHECKSIG # s) st = (case st of k # sg # st \<Rightarrow> exec c s (bool_bytes (checksig sg k) # st) | _ \<Rightarrow> False)) \<and>
        (exec c (AddOp OP_SIZE # s) st = (case st of x # st \<Rightarrow> exec c s (num (int (length x)) # x # st) | _ \<Rightarrow> False)) \<and>
        (exec c (AddOp OP_EQUALVERIFY # s) st = (case st of a # b # st \<Rightarrow> a = b \<and> exec c s st | _ \<Rightarrow> False)) \<and>
        (exec c (AddOp OP_SHA256 # s) st = (case st of x # st \<Rightarrow> exec c s (sha x # st) | _ \<Rightarrow> False)) \<and>
        (\<forall>n. 0 \<le> n \<and> n < 4294967296 \<longrightarrow>
           exec c (AddOp OP_CHECKSEQUENCEVERIFY # s) (num n # st) = (csv_ok n \<and> exec c s (num n # st)))) \<and>
     (\<forall>n. num (int n) = [32] \<longleftrightarrow> n = 32) \<and> (\<forall>n > 0. truthy (num n))"

lemma h2b_20 [simp]: "h2b ''20'' = [32]"
  by (simp add: h2b_def from_hex_char_def)

text \<open>The stack a witness gives to the script.\<close>

definition witness_stack :: "byte list list \<Rightarrow> byte list list" where
  "witness_stack w = rev (butlast w)"

definition can_spend ::
  "(bool list \<Rightarrow> script_item list \<Rightarrow> byte list list \<Rightarrow> bool) \<Rightarrow> byte list \<Rightarrow> byte list \<Rightarrow> byte list \<Rightarrow> u32 \<Rightarrow> byte list list \<Rightarrow> bool" where
  "can_spend exec taker maker pHash csv st = exec [] (opening_items taker maker pHash csv) st"

lemma script_rulesD:
  assumes "script_rules checksig sha csv_ok num exec"
  shows "exec [] [] st \<longleftrightarrow> (\<exists>x. st = [x] \<and> truthy x)"
    and "False \<in> set c \<Longrightarrow> \<not> conditional i \<Longrightarrow> exec c (i # s) st = exec c s st"
    and "False \<notin> set c \<Longrightarrow> exec c (AddOp OP_NOTIF # s) st = (case st of [] \<Rightarrow> False | x # st \<Rightarrow> exec ((\<not> truthy x) # c) s st)"
    and "False \<in> set c \<Longrightarrow> exec c (AddOp OP_NOTIF # s) st = exec (False # c) s st"
    and "exec (b # c) (AddOp OP_ELSE # s) st = exec ((\<not> b) # c) s st"
    and "exec (b # c) (AddOp OP_ENDIF # s) st = exec c s st"
    and "False \<notin> set c \<Longrightarrow> exec c (AddData d # s) st = exec c s (d # st)"
    and "False \<notin> set c \<Longrightarrow> exec c (AddInt64 n # s) st = exec c s (num n # st)"
    and "False \<notin> set c \<Longrightarrow> exec c (AddOp OP_CHECKSIG # s) st =
      (case st of k # sg # st \<Rightarrow> exec c s (bool_bytes (checksig sg k) # st) | _ \<Rightarrow> False)"
    and "False \<notin> set c \<Longrightarrow> exec c (AddOp OP_SIZE # s) st = (case st of x # st \<Rightarrow> exec c s (num (int (length x)) # x # st) | _ \<Rightarrow> False)"
    and "False \<notin> set c \<Longrightarrow> exec c (AddOp OP_EQUALVERIFY # s) st = (case st of a # b # st \<Rightarrow> a = b \<and> exec c s st | _ \<Rightarrow> False)"
    and "False \<notin> set c \<Longrightarrow> exec c (AddOp OP_SHA256 # s) st = (case st of x # st \<Rightarrow> exec c s (sha x # st) | _ \<Rightarrow> False)"
    and "False \<notin> set c \<Longrightarrow> 0 \<le> n \<Longrightarrow> n < 4294967296 \<Longrightarrow>
      exec c (AddOp OP_CHECKSEQUENCEVERIFY # s) (num n # st) = (csv_ok n \<and> exec c s (num n # st))"
    and "num (int k) = [32] \<longleftrightarrow> k = 32"
    and "0 < n \<Longrightarrow> truthy (num n)"
  using assms unfolding script_rules_def by (elim conjE, simp)+

lemma refund_branch:
  assumes "script_rules checksig sha csv_ok num exec" "0 < csv" "checksig s1 maker"
  shows "can_spend exec taker maker pHash csv (s1 # st) \<longleftrightarrow> st = [] \<and> csv_ok (uint csv)"
proof -
  have "0 < uint csv" "uint csv < 4294967296"
    using assms(2) unsigned_less [of csv, where 'a = int] by (simp_all add: word_less_def)
  then show ?thesis
    using assms(3) by (auto simp: can_spend_def opening_items_def script_rulesD [OF assms(1)] conditional_def)
qed

lemma joint_branch:
  assumes "script_rules checksig sha csv_ok num exec" "\<not> checksig s1 maker" "checksig s2 maker"
  shows "can_spend exec taker maker pHash csv (s1 # s2 # st) \<longleftrightarrow> (\<exists>s3. st = [s3] \<and> checksig s3 taker)"
  using assms(2,3) by (auto simp: can_spend_def opening_items_def script_rulesD [OF assms(1)] conditional_def split: list.splits)

lemma preimage_branch:
  assumes "script_rules checksig sha csv_ok num exec" "\<not> checksig s1 maker" "\<not> checksig s2 maker"
  shows "can_spend exec taker maker pHash csv (s1 # s2 # st) \<longleftrightarrow>
    (\<exists>x s3. st = [x, s3] \<and> length x = 32 \<and> sha x = pHash \<and> checksig s3 taker)"
proof -
  have size: "[32] = num (int k) \<longleftrightarrow> k = 32" for k
    using script_rulesD(14) [OF assms(1), of k] by metis
  show ?thesis
    using assms(2,3) size [of 32]
    by (auto simp: can_spend_def opening_items_def script_rulesD [OF assms(1)] conditional_def size split: list.splits)
qed

lemma short_stack:
  assumes "script_rules checksig sha csv_ok num exec"
  shows "\<not> can_spend exec taker maker pHash csv []"
    and "\<not> checksig s1 maker \<Longrightarrow> \<not> can_spend exec taker maker pHash csv [s1]"
  by (simp_all add: can_spend_def opening_items_def script_rulesD [OF assms] conditional_def)

text \<open>The witnesses the program builds, under valid signatures.\<close>

lemma csv_witness:
  assumes "script_rules checksig sha csv_ok num exec" "0 < csv" "checksig (sig @ [SigHashAll]) maker" "csv_ok (uint csv)"
  shows "can_spend exec taker maker pHash csv (witness_stack (GetCsvWitness sig script))"
  using refund_branch [OF assms(1-3)] assms(4) by (simp add: witness_stack_def GetCsvWitness_def)

lemma preimage_witness:
  assumes "script_rules checksig sha csv_ok num exec" "\<not> checksig [] maker" "checksig (sig @ [SigHashAll]) taker"
    "length preimage = 32" "sha preimage = pHash"
  shows "can_spend exec taker maker pHash csv (witness_stack (GetPreimageWitness sig preimage script))"
  using preimage_branch [OF assms(1,2,2)] assms(3-5) by (simp add: witness_stack_def GetPreimageWitness_def)

lemma cooperative_witness:
  assumes "script_rules checksig sha csv_ok num exec" "\<not> checksig [] maker" "checksig (sig @ [SigHashAll]) maker"
    "checksig (sig' @ [SigHashAll]) taker"
  shows "can_spend exec taker maker pHash csv (witness_stack (GetCooperativeWitness sig' sig script))"
  using joint_branch [OF assms(1-3)] assms(4) by (simp add: witness_stack_def GetCooperativeWitness_def)

text \<open>
  C21. Under every interpreter that follows the script rules, the opening output can be spent in
  exactly three ways: by the maker alone once the refund delay has passed, by maker and taker
  together, or by the taker with a 32 byte preimage of the payment hash.  The three witnesses the
  program builds succeed with valid signatures, the preimage and the delay, as long as the empty
  signature is not a valid one.
\<close>

theorem opening_output_spending:
  assumes "script_rules checksig sha csv_ok num exec" "0 < csv" "\<not> checksig [] maker"
  shows "(can_spend exec taker maker pHash csv st \<longleftrightarrow>
      (\<exists>s1. st = [s1] \<and> checksig s1 maker \<and> csv_ok (uint csv)) \<or>
      (\<exists>s1 s2 s3. st = [s1, s2, s3] \<and> \<not> checksig s1 maker \<and> checksig s2 maker \<and> checksig s3 taker) \<or>
      (\<exists>s1 s2 x s3. st = [s1, s2, x, s3] \<and> \<not> checksig s1 maker \<and> \<not> checksig s2 maker \<and>
         length x = 32 \<and> sha x = pHash \<and> checksig s3 taker)) \<and>
    (can_spend exec taker maker pHash csv (witness_stack (GetCsvWitness sig script)) \<longleftrightarrow>
       checksig (sig @ [SigHashAll]) maker \<and> csv_ok (uint csv)) \<and>
    (can_spend exec taker maker pHash csv (witness_stack (GetCooperativeWitness sig' sig script)) \<longleftrightarrow>
       checksig (sig @ [SigHashAll]) maker \<and> checksig (sig' @ [SigHashAll]) taker) \<and>
    (can_spend exec taker maker pHash csv (witness_stack (GetPreimageWitness sig preimage script)) \<longleftrightarrow>
       length preimage = 32 \<and> sha preimage = pHash \<and> checksig (sig @ [SigHashAll]) taker)"
proof -
  note branches = refund_branch [OF assms(1,2)] joint_branch [OF assms(1)] preimage_branch [OF assms(1)] short_stack [OF assms(1)]
  have main: "can_spend exec taker maker pHash csv st \<longleftrightarrow>
      (\<exists>s1. st = [s1] \<and> checksig s1 maker \<and> csv_ok (uint csv)) \<or>
      (\<exists>s1 s2 s3. st = [s1, s2, s3] \<and> \<not> checksig s1 maker \<and> checksig s2 maker \<and> checksig s3 taker) \<or>
      (\<exists>s1 s2 x s3. st = [s1, s2, x, s3] \<and> \<not> checksig s1 maker \<and> \<not> checksig s2 maker \<and>
         length x = 32 \<and> sha x = pHash \<and> checksig s3 taker)" for st
  proof (cases st)
    case (Cons s1 st')
    show ?thesis
    proof (cases "checksig s1 maker")
      case False
      then show ?thesis
      proof (cases st')
        case (Cons s2 st'')
        then show ?thesis using False \<open>st = s1 # st'\<close> branches by (cases "checksig s2 maker") auto
      qed (use False Cons branches in auto)
    qed (use Cons branches in auto)
  qed (use branches in auto)
  then show ?thesis
    using assms(3)
    by (auto simp: main witness_stack_def GetCsvWitness_def GetCooperativeWitness_def GetPreimageWitness_def)
qed

text \<open>An interpreter that follows the rules; numbers are little endian with a sign bit.\<close>

definition script_num :: "int \<Rightarrow> byte list" where
  "script_num n = (if n \<le> 0 then []
     else (let ds = map of_nat (rev (digits_base 256 (nat n))) in if 128 \<le> last ds then ds @ [0] else ds))"

definition script_value :: "byte list \<Rightarrow> int" where
  "script_value bs = int (digits_value 256 (rev (map unat bs)))"

fun run_script ::
  "(byte list \<Rightarrow> byte list \<Rightarrow> bool) \<Rightarrow> (byte list \<Rightarrow> byte list) \<Rightarrow> (int \<Rightarrow> bool) \<Rightarrow> bool list \<Rightarrow> script_item list \<Rightarrow> byte list list \<Rightarrow> bool" where
  "run_script chk sha csv_ok c [] st = (c = [] \<and> (case st of [x] \<Rightarrow> truthy x | _ \<Rightarrow> False))"
| "run_script chk sha csv_ok c (i # s) st =
     (if i = AddOp OP_NOTIF then (if False \<in> set c then run_script chk sha csv_ok (False # c) s st
        else (case st of [] \<Rightarrow> False | x # st \<Rightarrow> run_script chk sha csv_ok ((\<not> truthy x) # c) s st))
      else if i = AddOp OP_ELSE then (case c of [] \<Rightarrow> False | b # c \<Rightarrow> run_script chk sha csv_ok ((\<not> b) # c) s st)
      else if i = AddOp OP_ENDIF then (case c of [] \<Rightarrow> False | b # c \<Rightarrow> run_script chk sha csv_ok c s st)
      else if False \<in> set c then run_script chk sha csv_ok c s st
      else (case i of
          AddData d \<Rightarrow> run_script chk sha csv_ok c s (d # st)
        | AddInt64 n \<Rightarrow> run_script chk sha csv_ok c s (script_num n # st)
        | AddOp OP_CHECKSIG \<Rightarrow> (case st of k # sg # st \<Rightarrow> run_script chk sha csv_ok c s (bool_bytes (chk sg k) # st) | _ \<Rightarrow> False)
        | AddOp OP_SIZE \<Rightarrow> (case st of x # st \<Rightarrow> run_script chk sha csv_ok c s (script_num (int (length x)) # x # st) | _ \<Rightarrow> False)
        | AddOp OP_EQUALVERIFY \<Rightarrow> (case st of a # b # st \<Rightarrow> a = b \<and> run_script chk sha csv_ok c s st | _ \<Rightarrow> False)
        | AddOp OP_SHA256 \<Rightarrow> (case st of x # st \<Rightarrow> run_script chk sha csv_ok c s (sha x # st) | _ \<Rightarrow> False)
        | AddOp OP_CHECKSEQUENCEVERIFY \<Rightarrow> (case st of x # st \<Rightarrow> csv_ok (script_value x) \<and> run_script chk sha csv_ok c s (x # st) | _ \<Rightarrow> False)
        | _ \<Rightarrow> False))"

lemma digits_value_zero [simp]: "digits_value b (0 # ds) = digits_value b ds"
  by (simp add: digits_value_def)

lemma script_value_num: "0 \<le> n \<Longrightarrow> script_value (script_num n) = n"
proof -
  assume n: "0 \<le> n"
  let ?ds = "digits_base 256 (nat n)"
  have "map (\<lambda>d. unat (of_nat d :: byte)) ?ds = ?ds"
    using digits_base_small [of 256 _ "nat n"] by (intro map_idI) (simp add: unat_of_nat)
  then have "rev (map unat (map (of_nat :: nat \<Rightarrow> byte) (rev ?ds))) = ?ds"
    by (simp add: rev_map o_def)
  then show ?thesis
    using n digits_base_value [of 256 "nat n"]
    by (auto simp: script_num_def script_value_def Let_def digits_value_def)
qed

lemma script_num_32: "script_num (int n) = [32] \<longleftrightarrow> n = 32"
proof
  assume "script_num (int n) = [32]"
  then have "int n = script_value [32]" using script_value_num [of "int n"] by simp
  then show "n = 32" by (simp add: script_value_def digits_value_def)
next
  assume "n = 32"
  then show "script_num (int n) = [32]"
    by (simp add: script_num_def digits_base.simps [of 256 32] Let_def word_le_nat_alt)
qed

lemma digits_value_zeros: "(\<And>d. d \<in> set ds \<Longrightarrow> d = 0) \<Longrightarrow> digits_value b ds = 0"
proof (induction ds)
  case (Cons d ds)
  then have "d = 0" "digits_value b ds = 0" by simp_all
  then show ?case by simp
qed (simp add: digits_value_def)

lemma truthy_script_num:
  assumes "0 < n"
  shows "truthy (script_num n)"
proof -
  let ?ds = "map of_nat (rev (digits_base 256 (nat n))) :: byte list"
  have "?ds \<noteq> []" by simp
  show ?thesis
  proof (cases "128 \<le> last ?ds")
    case True
    have "\<not> (128 :: byte) \<le> 0" by simp
    with True have "last ?ds \<noteq> 0" by metis
    moreover have "last ?ds \<in> set ?ds" using \<open>?ds \<noteq> []\<close> last_in_set by blast
    moreover have "script_num n = ?ds @ [0]" using True assms by (simp add: script_num_def Let_def)
    ultimately show ?thesis by (auto simp: truthy_def)
  next
    case False
    have num: "script_num n = ?ds" using False assms by (simp add: script_num_def Let_def)
    have "\<exists>b \<in> set ?ds. b \<noteq> 0"
    proof (rule ccontr)
      assume "\<not> (\<exists>b \<in> set ?ds. b \<noteq> 0)"
      then have "script_value ?ds = 0"
        unfolding script_value_def by (subst digits_value_zeros) auto
      then show False using script_value_num [of n] assms num by simp
    qed
    then have "(\<exists>b \<in> set (butlast ?ds). b \<noteq> 0) \<or> last ?ds \<noteq> 0"
      using \<open>?ds \<noteq> []\<close> by (metis append_butlast_last_id in_set_conv_decomp Un_iff empty_iff empty_set set_append set_ConsD)
    moreover have "last ?ds \<noteq> 128" using False by auto
    ultimately show ?thesis using num \<open>?ds \<noteq> []\<close> unfolding truthy_def by metis
  qed
qed

lemma run_script_rules: "script_rules chk sha csv_ok script_num (run_script chk sha csv_ok)"
  unfolding script_rules_def
  by (auto simp: conditional_def script_value_num script_num_32 truthy_script_num split: list.splits script_item.splits opcode.splits)

text \<open>A preimage claim under this interpreter, with signatures that are the key and a constant hash.\<close>

theorem opening_output_spending_witness:
  "can_spend (run_script (\<lambda>sg k. sg = k @ [SigHashAll]) (\<lambda>_. [7]) (\<lambda>n. n \<le> 5)) [2] [3] [7] 1008
     (witness_stack (GetPreimageWitness [2] (replicate 32 0) [])) \<and>
   \<not> can_spend (run_script (\<lambda>sg k. sg = k @ [SigHashAll]) (\<lambda>_. [7]) (\<lambda>n. n \<le> 5)) [2] [3] [7] 1008
     (witness_stack (GetCsvWitness [3] []))"
proof -
  let ?chk = "\<lambda>sg k :: byte list. sg = k @ [SigHashAll]"
  note spending = opening_output_spending [OF run_script_rules [of ?chk "\<lambda>_. [7]" "\<lambda>n. n \<le> 5"], of 1008 "[3]" "[2]" "[7]"]
  show ?thesis
    using spending [of "[]" "[2]" "[]" "[]" "replicate 32 0"] spending [of "[]" "[3]" "[]" "[]" "[]"] by simp
qed

section \<open>Validated transactions\<close>

lemma all_less_Suc_cases: "(\<forall>l < Suc j. P l) \<longleftrightarrow> P 0 \<and> (\<forall>l < j. P (Suc l))"
  using less_Suc_eq_0_disj by auto

lemma ex_nat_cases: "(\<exists>j. P j) \<longleftrightarrow> P 0 \<or> (\<exists>j. P (Suc j))"
  by (metis not0_implies_Suc)

lemma find_amount_first:
  "find_amount a outs k = Some (i, out) \<longleftrightarrow>
     (\<exists>j. i = k + j \<and> j < length outs \<and> outs ! j = out \<and> out_Value out = a \<and> (\<forall>l < j. out_Value (outs ! l) \<noteq> a))"
proof (induction outs arbitrary: k)
  case (Cons x outs)
  show ?case
    by (subst ex_nat_cases) (auto simp: Cons.IH all_less_Suc_cases)
qed simp

lemma find_amount_None: "find_amount a outs k = None \<longleftrightarrow> (\<forall>out \<in> set outs. out_Value out \<noteq> a)"
  by (induction outs arbitrary: k) auto

text \<open>
  C22. On Bitcoin a transaction is valid exactly when it decodes, the parameters give an output
  script, and the first output with the swap's amount pays to that script; the search for the output
  to claim agrees with the validation and returns the index of that output.
\<close>

theorem bitcoin_validation_exact:
  "(bitcoin_ValidateTx ce p txHex = Inr True \<longleftrightarrow>
     (\<exists>outs i script. decode_tx ce txHex = Inr outs \<and> bitcoin_GetOutputScript ce p = Inr script \<and> i < length outs \<and>
        out_Value (outs ! i) = op_Amount p \<and> out_PkScript (outs ! i) = script \<and> (\<forall>j < i. out_Value (outs ! j) \<noteq> op_Amount p))) \<and>
   (case bitcoin_GetVoutAndVerify ce txHex p of
      Inr (ok, vout) \<Rightarrow> bitcoin_ValidateTx ce p txHex = Inr ok \<and> (if ok then
        \<exists>outs i. decode_tx ce txHex = Inr outs \<and> i < length outs \<and> vout = of_nat i \<and> out_Value (outs ! i) = op_Amount p \<and>
          (\<forall>j < i. out_Value (outs ! j) \<noteq> op_Amount p) else vout = 0)
    | Inl e \<Rightarrow> bitcoin_ValidateTx ce p txHex = Inl e)"
proof (cases "decode_tx ce txHex")
  case (Inr outs)
  show ?thesis
  proof (cases "find_amount (op_Amount p) outs 0")
    case None
    then have none: "\<forall>out \<in> set outs. out_Value out \<noteq> op_Amount p"
      by (simp add: find_amount_None)
    show ?thesis
      using Inr None none by (auto simp: bitcoin_ValidateTx_def bitcoin_GetVoutAndVerify_def)
  next
    case (Some io)
    obtain i out where io: "io = (i, out)" by fastforce
    then have out: "i < length outs" "outs ! i = out" "out_Value out = op_Amount p" "\<forall>l < i. out_Value (outs ! l) \<noteq> op_Amount p"
      using Some by (auto simp: find_amount_first)
    have unique: "j = i" if "out_Value (outs ! j) = op_Amount p" "\<forall>l < j. out_Value (outs ! l) \<noteq> op_Amount p" for j
      using that out by (metis linorder_neqE_nat)
    have first: "(j < length outs \<and> out_Value (outs ! j) = op_Amount p \<and> out_PkScript (outs ! j) = s \<and>
        (\<forall>l < j. out_Value (outs ! l) \<noteq> op_Amount p)) \<longleftrightarrow> (j = i \<and> out_PkScript out = s)" for j s
      using unique out by blast
    have at: "\<exists>j. j < length outs \<and> (of_nat i :: u32) = of_nat j \<and> out_Value (outs ! j) = op_Amount p \<and>
        (\<forall>l < j. out_Value (outs ! l) \<noteq> op_Amount p)"
      using out by blast
    show ?thesis
    proof (cases "bitcoin_GetOutputScript ce p")
      case (Inl e)
      then show ?thesis
        by (simp add: bitcoin_ValidateTx_def bitcoin_GetVoutAndVerify_def Inr Some io)
    next
      case (Inr script)
      with at show ?thesis
        by (simp add: bitcoin_ValidateTx_def bitcoin_GetVoutAndVerify_def \<open>decode_tx ce txHex = Inr outs\<close> Some io first)
    qed
  qed
qed (simp add: bitcoin_ValidateTx_def bitcoin_GetVoutAndVerify_def)

text \<open>A transaction whose second output is the swap's, with a script builder that returns the pushed data.\<close>

definition example_chain :: chain_env where
  "example_chain = \<lparr>ce_Script = (\<lambda>is. Inr (concat (map (\<lambda>i. case i of AddData d \<Rightarrow> d | _ \<Rightarrow> []) is))), ce_sha256 = (\<lambda>bs. [7]),
     ce_Deserialize = (\<lambda>_. Inr [\<lparr>out_Value = 5, out_PkScript = [9]\<rparr>, \<lparr>out_Value = 8, out_PkScript = [0, 7]\<rparr>]),
     ce_TxHash = (\<lambda>_. []), ce_WitnessScriptHash = Inr, ce_NewTxFromHex = (\<lambda>_. Inr [\<lparr>lo_Script = [0, 32, 7], lo_Asset = 1 # replicate 32 4,
     lo_IsConfidential = False, lo_Value = [], lo_payload = []\<rparr>]), ce_OpeningAddress = (\<lambda>bs. Inr (hex_EncodeToString bs)),
     ce_ToOutputScript = hex_bytes, ce_UnblindOutputWithKey = (\<lambda>_ _. Inr \<lparr>ub_Value = 8, ub_Asset = replicate 32 4, ub_AssetBlindingFactor = [], ub_ValueBlindingFactor = []\<rparr>),
     ce_AssetCommitment = (\<lambda>_ _. Inl (ErrText ''no commitment''))\<rparr>"

definition example_params :: OpeningParams where
  "example_params = \<lparr>op_TakerPubkey = [], op_MakerPubkey = [], op_ClaimPaymentHash = [], op_Amount = 8, op_CSV = 60,
     op_BlindingKey = Some [1]\<rparr>"

theorem bitcoin_validation_exact_witness:
  "bitcoin_ValidateTx example_chain example_params [] = Inr True \<and>
   (\<exists>i. bitcoin_GetVoutAndVerify example_chain [] example_params = Inr (True, of_nat i) \<and> i = 1)"
  using bitcoin_validation_exact [of example_chain example_params "[]"]
  by (simp add: bitcoin_GetVoutAndVerify_def decode_tx_def bitcoin_GetOutputScript_def ParamsToTxScript_def GetOpeningTxScript_def
    hex_bytes_def example_chain_def example_params_def)

lemma find_script_first:
  "find_script want outs k = Some i \<longleftrightarrow>
     (\<exists>j. i = k + j \<and> j < length outs \<and> lo_Script (outs ! j) = want \<and> (\<forall>l < j. lo_Script (outs ! l) \<noteq> want))"
proof (induction outs arbitrary: k)
  case (Cons x outs)
  show ?case
    by (subst ex_nat_cases) (auto simp: Cons.IH all_less_Suc_cases)
qed simp

lemma validateOpeningOutput_accepts:
  "validateOpeningOutput ce asset out amount key = Inr ub \<longleftrightarrow>
     ce_UnblindOutputWithKey ce out key = Inr ub \<and> length asset = 33 \<and> ub_Asset ub = tl asset \<and> ub_Value ub = amount \<and>
     (if lo_IsConfidential out then ce_AssetCommitment ce (ub_Asset ub) (ub_AssetBlindingFactor ub) = Inr (lo_Asset out)
      else lo_Asset out = asset)"
  by (auto simp: validateOpeningOutput_def split: sum.splits if_splits)

text \<open>
  C23. On Liquid a transaction is valid exactly when its first output to the swap's script unblinds
  under the swap's blinding key to the agreed amount of the policy asset, with an asset field that is
  the policy asset itself or the commitment to the unblinded asset; it never answers false without an error.
\<close>

theorem liquid_validation_exact:
  "(liquid_ValidateTx ce asset p txHex = Some (Inr True) \<longleftrightarrow>
     (\<exists>outs i script key ub. ce_NewTxFromHex ce txHex = Inr outs \<and> liquid_GetOutputScript ce p = Inr script \<and> op_BlindingKey p = Some key \<and>
        i < length outs \<and> lo_Script (outs ! i) = script \<and> (\<forall>j < i. lo_Script (outs ! j) \<noteq> script) \<and>
        ce_UnblindOutputWithKey ce (outs ! i) key = Inr ub \<and> ub_Value ub = op_Amount p \<and> length asset = 33 \<and> ub_Asset ub = tl asset \<and>
        (if lo_IsConfidential (outs ! i) then ce_AssetCommitment ce (ub_Asset ub) (ub_AssetBlindingFactor ub) = Inr (lo_Asset (outs ! i))
         else lo_Asset (outs ! i) = asset))) \<and>
   liquid_ValidateTx ce asset p txHex \<noteq> Some (Inr False)"
proof -
  let ?found = "\<lambda>i. \<exists>outs key ub script. ce_NewTxFromHex ce txHex = Inr outs \<and> op_BlindingKey p = Some key \<and>
    liquid_GetOutputScript ce p = Inr script \<and> find_script script outs 0 = Some i \<and>
    validateOpeningOutput ce asset (outs ! i) (op_Amount p) key = Inr ub"
  have "liquid_ValidateTx ce asset p txHex = Some (Inr True) \<longleftrightarrow> (\<exists>i. ?found i)"
    by (auto simp: liquid_ValidateTx_def FindVout_def liquid_GetOutputScript_def split: sum.splits option.splits)
  moreover have "liquid_ValidateTx ce asset p txHex \<noteq> Some (Inr False)"
    by (simp add: liquid_ValidateTx_def split: sum.split option.split)
  ultimately show ?thesis
    by (simp add: find_script_first validateOpeningOutput_accepts) blast
qed

theorem liquid_validation_exact_witness:
  "liquid_ValidateTx example_chain (1 # replicate 32 4) example_params [] = Some (Inr True) \<and>
   liquid_ValidateTx example_chain (1 # replicate 32 5) example_params [] \<noteq> Some (Inr False)"
  using liquid_validation_exact [of example_chain "1 # replicate 32 4" example_params "[]"]
    liquid_validation_exact [of example_chain "1 # replicate 32 5" example_params "[]"]
  by (simp add: liquid_GetOutputScript_def ParamsToTxScript_def GetOpeningTxScript_def hex_bytes_def example_chain_def example_params_def
    exI [of _ "0::nat"])

end
