(* ===== verification/PS_LndWatcher.thy ===== *)
theory PS_LndWatcher
  imports PS_Onchain PS_Logs
begin

text \<open>
  The chain watcher over lnd (\<open>lnd/txwatcher.go\<close>).  A registration opens a stream of lnd; the goroutine
  that reads it is the entry of the stream in the state, and one message of the stream is one step.
  lnd's RPC interface is a parameter, read at a clock.  The answers of the callbacks are ignored by the
  code, so that only the calls are kept, in a log.  \<open>None\<close> is the panic of calling a nil callback.
\<close>

section \<open>State\<close>

record lw_env =
  lw_NewHashFromStr :: "string \<Rightarrow> go_error + byte list"
  lw_RegisterConfirmationsNtfn :: "nat \<Rightarrow> byte list \<Rightarrow> u32 \<Rightarrow> u32 \<Rightarrow> go_error option"
  lw_RegisterBlockEpochNtfn :: "nat \<Rightarrow> u32 \<Rightarrow> go_error option"
  lw_GetInfo :: "nat \<Rightarrow> go_error + u32"
  lw_targetConfs :: u32

text \<open>\<open>LwConfs k refund n\<close>: the number of confirmations computed for a swap, by a refund watch or not.\<close>

datatype lw_event = LwConfAdded string | LwCsvAdded string | LwConfs string bool nat | LwCsvCalled string | LwTxCalled string string

record lnd_TxWatcher =
  confirmationWatchers :: "string set"
  waitForCsvWatchers :: "string set"
  confirmationCallback_set :: bool
  csvPassedCallback_set :: bool
  conf_streams :: "string set"
  csv_streams :: "nat \<rightharpoonup> string \<times> u32 option"
  lw_next :: nat
  lw_clock :: nat
  lw_log :: "lw_event list"

definition lnd_NewTxWatcher :: lnd_TxWatcher where
  "lnd_NewTxWatcher = \<lparr>confirmationWatchers = {}, waitForCsvWatchers = {}, confirmationCallback_set = False,
     csvPassedCallback_set = False, conf_streams = {}, csv_streams = Map.empty, lw_next = 0, lw_clock = 0, lw_log = []\<rparr>"

definition lw_AddConfirmationCallback :: "lnd_TxWatcher \<Rightarrow> lnd_TxWatcher" where
  "lw_AddConfirmationCallback t = t\<lparr>confirmationCallback_set := True\<rparr>"

definition lw_AddCsvCallback :: "lnd_TxWatcher \<Rightarrow> lnd_TxWatcher" where
  "lw_AddCsvCallback t = t\<lparr>csvPassedCallback_set := True\<rparr>"

definition lw_GetBlockHeight :: "lw_env \<Rightarrow> lnd_TxWatcher \<Rightarrow> (go_error + u32) \<times> lnd_TxWatcher" where
  "lw_GetBlockHeight en t = (lw_GetInfo en (lw_clock t), t\<lparr>lw_clock := Suc (lw_clock t)\<rparr>)"

section \<open>Registrations\<close>

definition addTxWatcher :: "lw_env \<Rightarrow> string \<Rightarrow> u32 \<Rightarrow> u32 \<Rightarrow> lnd_TxWatcher \<Rightarrow> go_error option \<times> lnd_TxWatcher" where
  "addTxWatcher en txId numConfs heightHint t = (case lw_NewHashFromStr en txId of
     Inl e \<Rightarrow> (Some e, t)
   | Inr txIdHash \<Rightarrow> (lw_RegisterConfirmationsNtfn en (lw_clock t) txIdHash numConfs heightHint, t\<lparr>lw_clock := Suc (lw_clock t)\<rparr>))"

text \<open>A registration that fails leaves its mark in \<open>confirmationWatchers\<close>.\<close>

definition lw_AddWaitForConfirmationTx :: "lw_env \<Rightarrow> string \<Rightarrow> string \<Rightarrow> u32 \<Rightarrow> lnd_TxWatcher \<Rightarrow> lnd_TxWatcher" where
  "lw_AddWaitForConfirmationTx en swapId txId heightHint t =
     (if swapId \<in> confirmationWatchers t then t
      else (case addTxWatcher en txId (lw_targetConfs en) heightHint
                   (t\<lparr>confirmationWatchers := insert swapId (confirmationWatchers t)\<rparr>) of
         (Some _, t) \<Rightarrow> t
       | (None, t) \<Rightarrow> t\<lparr>conf_streams := insert swapId (conf_streams t), lw_log := lw_log t @ [LwConfAdded swapId]\<rparr>))"

text \<open>The mark of a refund watch goes into \<open>confirmationWatchers\<close> too.\<close>

definition lw_AddWaitForCsvTx :: "lw_env \<Rightarrow> string \<Rightarrow> string \<Rightarrow> u32 \<Rightarrow> lnd_TxWatcher \<Rightarrow> lnd_TxWatcher" where
  "lw_AddWaitForCsvTx en swapId txId heightHint t =
     (if swapId \<in> waitForCsvWatchers t then t
      else (case addTxWatcher en txId 144 heightHint (t\<lparr>confirmationWatchers := insert swapId (confirmationWatchers t)\<rparr>) of
         (Some _, t) \<Rightarrow> t
       | (None, t) \<Rightarrow> t\<lparr>csv_streams := (csv_streams t)(lw_next t \<mapsto> (swapId, None)), lw_next := Suc (lw_next t),
           lw_log := lw_log t @ [LwCsvAdded swapId]\<rparr>))"

section \<open>Streams\<close>

text \<open>
  A message of a confirmation stream.  At its end the reader stops without telling the goroutine that
  waits for the confirmation, which then waits for ever.
\<close>

datatype conf_message = Conf "byte list" u32 | Reorg | Unexpected | Conf_EOF | Conf_error go_error

definition end_conf :: "string \<Rightarrow> lnd_TxWatcher \<Rightarrow> lnd_TxWatcher" where
  "end_conf swapId t = t\<lparr>confirmationWatchers := confirmationWatchers t - {swapId}, conf_streams := conf_streams t - {swapId}\<rparr>"

definition on_confirmation :: "lw_env \<Rightarrow> string \<Rightarrow> conf_message \<Rightarrow> lnd_TxWatcher \<Rightarrow> lnd_TxWatcher option" where
  "on_confirmation en swapId msg t =
     (if swapId \<notin> conf_streams t then Some t
      else (case msg of
         Reorg \<Rightarrow> Some t
       | Conf_EOF \<Rightarrow> Some (t\<lparr>conf_streams := conf_streams t - {swapId}\<rparr>)
       | Unexpected \<Rightarrow> Some (end_conf swapId t)
       | Conf_error _ \<Rightarrow> Some (end_conf swapId t)
       | Conf rawTx blockHeight \<Rightarrow> (case lw_GetBlockHeight en t of
           (Inl _, t) \<Rightarrow> Some (end_conf swapId t)
         | (Inr currentHeight, t) \<Rightarrow>
             (let confs = currentHeight - blockHeight + 1;
                  t = t\<lparr>lw_log := lw_log t @ [LwConfs swapId False (unat confs)]\<rparr>
              in if BitcoinCsvSafetyLimit \<le> confs
                 then (if csvPassedCallback_set t then Some (end_conf swapId (t\<lparr>lw_log := lw_log t @ [LwCsvCalled swapId]\<rparr>)) else None)
                 else Some (end_conf swapId (if confirmationCallback_set t
                   then t\<lparr>lw_log := lw_log t @ [LwTxCalled swapId (hex_EncodeToString rawTx)]\<rparr> else t))))))"

definition end_csv :: "nat \<Rightarrow> string \<Rightarrow> lnd_TxWatcher \<Rightarrow> lnd_TxWatcher" where
  "end_csv n swapId t = t\<lparr>waitForCsvWatchers := waitForCsvWatchers t - {swapId}, csv_streams := (csv_streams t)(n := None)\<rparr>"

text \<open>A refund watch first waits for 144 confirmations, then reads blocks from that height.\<close>

definition on_csv_confirmation :: "lw_env \<Rightarrow> nat \<Rightarrow> conf_message \<Rightarrow> lnd_TxWatcher \<Rightarrow> lnd_TxWatcher" where
  "on_csv_confirmation en n msg t = (case csv_streams t n of
     Some (swapId, None) \<Rightarrow> (case msg of
        Reorg \<Rightarrow> t
      | Conf_EOF \<Rightarrow> t\<lparr>csv_streams := (csv_streams t)(n := None)\<rparr>
      | Unexpected \<Rightarrow> end_csv n swapId t
      | Conf_error _ \<Rightarrow> end_csv n swapId t
      | Conf _ blockHeight \<Rightarrow> (let now = lw_clock t; t = t\<lparr>lw_clock := Suc now\<rparr> in
          case lw_RegisterBlockEpochNtfn en now blockHeight of
            Some _ \<Rightarrow> end_csv n swapId t
          | None \<Rightarrow> t\<lparr>csv_streams := (csv_streams t)(n \<mapsto> (swapId, Some blockHeight))\<rparr>))
   | _ \<Rightarrow> t)"

definition on_csv_block :: "nat \<Rightarrow> go_error + u32 \<Rightarrow> lnd_TxWatcher \<Rightarrow> lnd_TxWatcher" where
  "on_csv_block n msg t = (case csv_streams t n of
     Some (swapId, Some blockHeight) \<Rightarrow> (case msg of
        Inl _ \<Rightarrow> end_csv n swapId t
      | Inr height \<Rightarrow>
          if BitcoinCsv \<le> height - blockHeight + 1
          then end_csv n swapId (t\<lparr>lw_log := lw_log t @ LwConfs swapId True (unat (height - blockHeight + 1)) #
            (if csvPassedCallback_set t then [LwCsvCalled swapId] else [])\<rparr>)
          else t)
   | _ \<Rightarrow> t)"

inductive lw_step :: "lw_env \<Rightarrow> lnd_TxWatcher \<Rightarrow> lnd_TxWatcher \<Rightarrow> bool" for en where
  add_conf: "lw_step en t (lw_AddWaitForConfirmationTx en swapId txId hint t)"
| add_csv: "lw_step en t (lw_AddWaitForCsvTx en swapId txId hint t)"
| conf: "on_confirmation en swapId msg t = Some t' \<Longrightarrow> lw_step en t t'"
| csv_conf: "lw_step en t (on_csv_confirmation en n msg t)"
| csv_block: "lw_step en t (on_csv_block n block t)"
| conf_callback: "lw_step en t (lw_AddConfirmationCallback t)"
| csv_callback: "lw_step en t (lw_AddCsvCallback t)"

section \<open>What is announced\<close>

definition lw_justified :: "lw_event list \<Rightarrow> bool" where
  "lw_justified = every_event (\<lambda>pre x. case x of
     LwCsvCalled k \<Rightarrow> \<exists>p refund n. pre = p @ [LwConfs k refund n] \<and>
       (if refund then 1008 \<le> n \<and> LwCsvAdded k \<in> set p else 504 \<le> n \<and> LwConfAdded k \<in> set p)
   | LwTxCalled k _ \<Rightarrow> \<exists>p n. pre = p @ [LwConfs k False n] \<and> n < 504 \<and> LwConfAdded k \<in> set p
   | _ \<Rightarrow> True)"

definition lw_inv :: "lnd_TxWatcher \<Rightarrow> bool" where
  "lw_inv t \<longleftrightarrow> lw_justified (lw_log t) \<and> waitForCsvWatchers t = {} \<and>
     (\<forall>k \<in> conf_streams t. LwConfAdded k \<in> set (lw_log t)) \<and>
     (\<forall>n k h. csv_streams t n = Some (k, h) \<longrightarrow> LwCsvAdded k \<in> set (lw_log t))"

lemma lw_inv_frame:
  assumes "lw_inv t" "lw_justified (lw_log t')" "set (lw_log t) \<subseteq> set (lw_log t')" "waitForCsvWatchers t' \<subseteq> waitForCsvWatchers t"
    "conf_streams t' \<subseteq> conf_streams t" "\<And>n k h. csv_streams t' n = Some (k, h) \<Longrightarrow> \<exists>h'. csv_streams t n = Some (k, h')"
  shows "lw_inv t'"
  using assms unfolding lw_inv_def by blast

lemma limits: "unat BitcoinCsvSafetyLimit = 504" "unat BitcoinCsv = 1008"
  by (simp_all add: BitcoinCsvSafetyLimit_def BitcoinCsv_def)

lemma addTxWatcher_frame [simp]:
  assumes "addTxWatcher en txId n hint t = (r, t')"
  shows "conf_streams t' = conf_streams t \<and> csv_streams t' = csv_streams t \<and> lw_log t' = lw_log t \<and>
    confirmationWatchers t' = confirmationWatchers t \<and> waitForCsvWatchers t' = waitForCsvWatchers t \<and> lw_next t' = lw_next t"
  using assms by (auto simp: addTxWatcher_def split: sum.splits)

lemma lw_justified_snoc [simp]:
  "lw_justified (log @ [LwConfAdded k]) = lw_justified log" "lw_justified (log @ [LwCsvAdded k]) = lw_justified log"
  "lw_justified (log @ [LwConfs k r n]) = lw_justified log"
  by (simp_all add: lw_justified_def)

lemma lw_justified_csv:
  "lw_justified log \<Longrightarrow> (if refund then 1008 \<le> n \<and> LwCsvAdded k \<in> set log else 504 \<le> n \<and> LwConfAdded k \<in> set log) \<Longrightarrow>
     lw_justified (log @ [LwConfs k refund n, LwCsvCalled k])"
  by (auto simp: lw_justified_def every_event_two)

lemma lw_justified_tx:
  "lw_justified log \<Longrightarrow> n < 504 \<Longrightarrow> LwConfAdded k \<in> set log \<Longrightarrow> lw_justified (log @ [LwConfs k False n, LwTxCalled k raw])"
  by (auto simp: lw_justified_def every_event_two)

lemma on_confirmation_inv:
  assumes "on_confirmation en k msg t = Some t'" "lw_inv t"
  shows "lw_inv t'"
proof (cases "k \<in> conf_streams t \<and> (\<exists>raw h current. msg = Conf raw h \<and> lw_GetInfo en (lw_clock t) = Inr current)")
  case False
  then have "lw_log t' = lw_log t \<and> waitForCsvWatchers t' = waitForCsvWatchers t \<and> conf_streams t' \<subseteq> conf_streams t \<and> csv_streams t' = csv_streams t"
    using assms(1) by (cases msg) (auto simp: on_confirmation_def end_conf_def lw_GetBlockHeight_def split: if_splits sum.splits)
  moreover have "lw_justified (lw_log t)" using assms(2) by (simp add: lw_inv_def)
  ultimately show ?thesis by (intro lw_inv_frame [OF assms(2)]) auto
next
  case True
  then obtain raw h current where msg: "k \<in> conf_streams t" "msg = Conf raw h" "lw_GetInfo en (lw_clock t) = Inr current" by blast
  let ?n = "unat (current - h + 1)"
  have added: "lw_justified (lw_log t)" "LwConfAdded k \<in> set (lw_log t)" using assms(2) msg(1) by (auto simp: lw_inv_def)
  have "lw_justified (lw_log t') \<and> (lw_log t' = lw_log t @ [LwConfs k False ?n] \<or>
      (\<exists>x. lw_log t' = lw_log t @ [LwConfs k False ?n, x]))"
  proof (cases "BitcoinCsvSafetyLimit \<le> current - h + 1")
    case True
    then have "504 \<le> ?n" by (simp add: word_le_nat_alt limits)
    then show ?thesis
      using assms(1) msg True lw_justified_csv [of "lw_log t" False ?n k] added
      by (auto simp: on_confirmation_def lw_GetBlockHeight_def Let_def end_conf_def split: if_splits)
  next
    case False
    then have "?n < 504" by (simp add: word_le_nat_alt limits)
    then show ?thesis
      using assms(1) msg False lw_justified_tx [of "lw_log t" ?n k] added
      by (auto simp: on_confirmation_def lw_GetBlockHeight_def Let_def end_conf_def split: if_splits)
  qed
  moreover have "conf_streams t' \<subseteq> conf_streams t \<and> csv_streams t' = csv_streams t \<and> waitForCsvWatchers t' = waitForCsvWatchers t"
    using assms(1) msg by (auto simp: on_confirmation_def lw_GetBlockHeight_def Let_def end_conf_def split: if_splits)
  ultimately show ?thesis
    by (intro lw_inv_frame [OF assms(2)]) auto
qed

lemma on_csv_block_inv:
  assumes "lw_inv t"
  shows "lw_inv (on_csv_block n msg t)"
proof (cases "\<exists>k h height. csv_streams t n = Some (k, Some h) \<and> msg = Inr height \<and> BitcoinCsv \<le> height - h + 1")
  case False
  then have "on_csv_block n msg t = t \<or> (\<exists>k. on_csv_block n msg t = end_csv n k t)"
    by (auto simp: on_csv_block_def split: option.split sum.split)
  moreover have "lw_justified (lw_log t)" using assms by (simp add: lw_inv_def)
  ultimately show ?thesis
    by (intro lw_inv_frame [OF assms]) (auto simp: end_csv_def split: if_splits)
next
  case True
  then obtain k h height where msg: "csv_streams t n = Some (k, Some h)" "msg = Inr height" "BitcoinCsv \<le> height - h + 1" by blast
  moreover have "1008 \<le> unat (height - h + 1)" using msg(3) by (simp add: word_le_nat_alt limits)
  moreover have "lw_justified (lw_log t)" "LwCsvAdded k \<in> set (lw_log t)" using assms msg(1) unfolding lw_inv_def by blast+
  ultimately have "lw_justified (lw_log (on_csv_block n msg t))"
    using lw_justified_csv [of "lw_log t" True "unat (height - h + 1)" k] by (simp add: on_csv_block_def end_csv_def)
  then show ?thesis
    using msg by (intro lw_inv_frame [OF assms]) (auto simp: on_csv_block_def end_csv_def split: if_splits)
qed

lemma lw_step_inv:
  assumes "lw_step en t t'" "lw_inv t"
  shows "lw_inv t'"
  using assms
proof cases
  case (add_conf k txId hint)
  then consider "lw_log t' = lw_log t" "conf_streams t' = conf_streams t"
      | "lw_log t' = lw_log t @ [LwConfAdded k]" "conf_streams t' = insert k (conf_streams t)"
    by (auto simp: lw_AddWaitForConfirmationTx_def dest!: addTxWatcher_frame split: option.splits prod.splits if_splits)
  moreover have "waitForCsvWatchers t' = waitForCsvWatchers t" "csv_streams t' = csv_streams t"
    using add_conf by (auto simp: lw_AddWaitForConfirmationTx_def dest!: addTxWatcher_frame split: option.splits prod.splits if_splits)
  ultimately show ?thesis
    using assms(2) by cases (simp_all add: lw_inv_def)
next
  case (add_csv k txId hint)
  then consider "lw_log t' = lw_log t" "csv_streams t' = csv_streams t"
      | "lw_log t' = lw_log t @ [LwCsvAdded k]" "csv_streams t' = (csv_streams t)(lw_next t \<mapsto> (k, None))"
    by (auto simp: lw_AddWaitForCsvTx_def dest!: addTxWatcher_frame split: option.splits prod.splits if_splits)
  moreover have "waitForCsvWatchers t' = waitForCsvWatchers t" "conf_streams t' = conf_streams t"
    using add_csv by (auto simp: lw_AddWaitForCsvTx_def dest!: addTxWatcher_frame split: option.splits prod.splits if_splits)
  ultimately show ?thesis
    using assms(2) by cases (simp_all add: lw_inv_def)
next
  case (conf k msg)
  then show ?thesis using assms(2) on_confirmation_inv by blast
next
  case (csv_conf n msg)
  moreover have "lw_justified (lw_log t)" using assms(2) by (simp add: lw_inv_def)
  ultimately show ?thesis
    by (cases msg; intro lw_inv_frame [OF assms(2)])
      (auto simp: on_csv_confirmation_def end_csv_def Let_def split: option.splits if_splits)
next
  case (csv_block n block)
  then show ?thesis using assms(2) on_csv_block_inv by blast
qed (auto simp: lw_inv_def lw_AddConfirmationCallback_def lw_AddCsvCallback_def)

lemma lw_reachable_inv: "(lw_step en)\<^sup>*\<^sup>* lnd_NewTxWatcher t \<Longrightarrow> lw_inv t"
proof (induction rule: rtranclp_induct)
  case base
  then show ?case by (simp add: lw_inv_def lnd_NewTxWatcher_def lw_justified_def)
qed (rule lw_step_inv)

text \<open>
  Over lnd a swap is told that its refund delay has passed only right after 1008 confirmations were
  counted for it by a refund watch, or 504 by a confirmation watch, half the delay, after which it is
  not safe to pay; and that its opening transaction is confirmed only after fewer than 504.  The counts
  are differences of two heights in 32 bits.  No refund watch is ever refused, because the table of
  refund watches stays empty; the mark goes to the other table, so that a swap with a refund watch is
  refused a confirmation watch.
\<close>

theorem lnd_watch_announcements:
  assumes "(lw_step en)\<^sup>*\<^sup>* lnd_NewTxWatcher t"
  shows "(\<forall>pre k later. lw_log t = pre @ LwCsvCalled k # later \<longrightarrow> (\<exists>p refund n. pre = p @ [LwConfs k refund n] \<and>
       (if refund then 1008 \<le> n \<and> LwCsvAdded k \<in> set p else 504 \<le> n \<and> LwConfAdded k \<in> set p))) \<and>
    (\<forall>pre k raw later. lw_log t = pre @ LwTxCalled k raw # later \<longrightarrow>
       (\<exists>p n. pre = p @ [LwConfs k False n] \<and> n < 504 \<and> LwConfAdded k \<in> set p)) \<and>
    (\<forall>k txId hint. lw_AddWaitForConfirmationTx en k txId' hint' (lw_AddWaitForCsvTx en k txId hint t) = lw_AddWaitForCsvTx en k txId hint t) \<and>
    waitForCsvWatchers t = {}"
proof -
  have inv: "lw_inv t" using lw_reachable_inv [OF assms] .
  then have just: "lw_justified (lw_log t)" and empty: "waitForCsvWatchers t = {}" by (auto simp: lw_inv_def)
  have "\<exists>p refund n. pre = p @ [LwConfs k refund n] \<and>
      (if refund then 1008 \<le> n \<and> LwCsvAdded k \<in> set p else 504 \<le> n \<and> LwConfAdded k \<in> set p)"
    if "lw_log t = pre @ LwCsvCalled k # later" for pre k later
    using every_eventD [OF just [unfolded lw_justified_def] that] by simp
  moreover have "\<exists>p n. pre = p @ [LwConfs k False n] \<and> n < 504 \<and> LwConfAdded k \<in> set p"
    if "lw_log t = pre @ LwTxCalled k raw # later" for pre k raw later
    using every_eventD [OF just [unfolded lw_justified_def] that] by simp
  moreover have "k \<in> confirmationWatchers (lw_AddWaitForCsvTx en k txId hint t)" for k txId hint
    using empty by (auto simp: lw_AddWaitForCsvTx_def dest!: addTxWatcher_frame split: option.split prod.split)
  then have "lw_AddWaitForConfirmationTx en k txId' hint' (lw_AddWaitForCsvTx en k txId hint t) = lw_AddWaitForCsvTx en k txId hint t" for k txId hint
    by (simp add: lw_AddWaitForConfirmationTx_def)
  ultimately show ?thesis using empty by blast
qed

text \<open>A refund watch and a confirmation watch that both come to their end.\<close>

definition demo_lw :: lw_env where
  "demo_lw = \<lparr>lw_NewHashFromStr = (\<lambda>_. Inr []), lw_RegisterConfirmationsNtfn = (\<lambda>_ _ _ _. None), lw_RegisterBlockEpochNtfn = (\<lambda>_ _. None),
     lw_GetInfo = (\<lambda>_. Inr 102), lw_targetConfs = 3\<rparr>"

definition demo_lw_run :: lnd_TxWatcher where
  "demo_lw_run = on_csv_block 0 (Inr 1107) (on_csv_confirmation demo_lw 0 (Conf [] 100)
     (lw_AddWaitForCsvTx demo_lw ''a'' '''' 0 (lw_AddCsvCallback lnd_NewTxWatcher)))"

theorem lnd_watch_announcements_witness:
  "(lw_step demo_lw)\<^sup>*\<^sup>* lnd_NewTxWatcher demo_lw_run \<and>
   lw_log demo_lw_run = [LwCsvAdded ''a'', LwConfs ''a'' True 1008, LwCsvCalled ''a''] \<and> waitForCsvWatchers demo_lw_run = {}"
proof -
  have run: "(lw_step demo_lw)\<^sup>*\<^sup>* lnd_NewTxWatcher demo_lw_run"
    unfolding demo_lw_run_def
    by (rule rtranclp.rtrancl_into_rtrancl, rule rtranclp.rtrancl_into_rtrancl, rule rtranclp.rtrancl_into_rtrancl,
      rule r_into_rtranclp, rule lw_step.csv_callback, rule lw_step.add_csv, rule lw_step.csv_conf, rule lw_step.csv_block)
  moreover have "lw_log demo_lw_run = [LwCsvAdded ''a'', LwConfs ''a'' True 1008, LwCsvCalled ''a'']"
    by (simp add: demo_lw_run_def on_csv_block_def on_csv_confirmation_def end_csv_def lw_AddWaitForCsvTx_def addTxWatcher_def
      lw_AddCsvCallback_def lnd_NewTxWatcher_def demo_lw_def BitcoinCsv_def Let_def)
  ultimately show ?thesis using lnd_watch_announcements [OF run] by blast
qed

end
