(* ===== verification/PS_Fees.thy ===== *)
theory PS_Fees
  imports Complex_Main PS_Premium
begin

text \<open>
  On-chain fees: the fee floor by the version of Bitcoin Core (\<open>onchain/fee_floor.go\<close>), the estimators
  (\<open>onchain/estimator.go\<close>) and the fee of a transaction (\<open>onchain/bitcoin.go\<close>, \<open>GetFee\<close>).  The backends
  are parameters, read at a clock; the JSON numbers they return are of an abstract type, which
  \<open>btcutil.NewAmount\<close>, a parameter too, turns into satoshis.  The floating point arithmetic of \<open>GetFee\<close>
  is written out.
\<close>

section \<open>The fee floor (\<open>onchain/fee_floor.go\<close>)\<close>

definition LegacyFeeFloorSatPerKw :: i64 where "LegacyFeeFloorSatPerKw = 253"
definition ModernFeeFloorSatPerKw :: i64 where "ModernFeeFloorSatPerKw = 25"

text \<open>
  The first match of the expression \<open>(\d+)(?:\.(\d+))?(?:\.(\d+))?\<close>: the first run of digits, and up to
  two further runs, each after a dot.  A group that does not take part is empty.
\<close>

definition dot_run :: "string \<Rightarrow> string \<times> string" where
  "dot_run s = (case s of
     c # d # r \<Rightarrow> if c = CHR ''.'' \<and> is_digit d then (takeWhile is_digit (d # r), dropWhile is_digit r) else ('''', s)
   | _ \<Rightarrow> ('''', s))"

definition FindStringSubmatch :: "string \<Rightarrow> (string \<times> string \<times> string) option" where
  "FindStringSubmatch input = (let s = dropWhile (\<lambda>c. \<not> is_digit c) input in
     if s = [] then None
     else (case dot_run (dropWhile is_digit s) of (minor, rest) \<Rightarrow>
       Some (takeWhile is_digit s, minor, fst (dot_run rest))))"

record bitcoinVersion =
  major :: int
  minor :: int
  patch :: int

definition bitcoinVersion_String :: "bitcoinVersion \<Rightarrow> string" where
  "bitcoinVersion_String v = fmt_int (major v) @ ''.'' @ fmt_int (minor v) @ ''.'' @ fmt_int (patch v)"

definition parseVersionSegment :: "string \<Rightarrow> int" where
  "parseVersionSegment m = (if m = '''' then 0 else (case strconv_Atoi m of Inl _ \<Rightarrow> 0 | Inr value \<Rightarrow> value))"

definition normalizeBitcoinVersion :: "string \<Rightarrow> bitcoinVersion option" where
  "normalizeBitcoinVersion input = (case FindStringSubmatch input of
     None \<Rightarrow> None
   | Some (m1, m2, m3) \<Rightarrow> (case strconv_Atoi m1 of
       Inl _ \<Rightarrow> None
     | Inr maj \<Rightarrow> Some \<lparr>major = maj, minor = parseVersionSegment m2, patch = parseVersionSegment m3\<rparr>))"

definition DetermineFeeFloor :: "string \<Rightarrow> i64 \<times> string" where
  "DetermineFeeFloor versionString = (case normalizeBitcoinVersion versionString of
     None \<Rightarrow> (LegacyFeeFloorSatPerKw, '''')
   | Some version \<Rightarrow>
       if 29 < major version \<or> major version = 29 \<and> 2 \<le> minor version
       then (ModernFeeFloorSatPerKw, bitcoinVersion_String version)
       else (LegacyFeeFloorSatPerKw, bitcoinVersion_String version))"

section \<open>Estimators (\<open>onchain/estimator.go\<close>)\<close>

text \<open>Amounts are signed: \<open>max\<close> and \<open>/\<close> on them are the signed ones.\<close>

definition max_i64 :: "i64 \<Rightarrow> i64 \<Rightarrow> i64" where
  "max_i64 a b = (if sint a < sint b then b else a)"

lemma sint_max_i64 [simp]: "sint (max_i64 a b) = max (sint a) (sint b)"
  by (simp add: max_i64_def)

definition witnessScaleFactor :: i64 where "witnessScaleFactor = 4"
definition defaultUpdateInterval :: int where "defaultUpdateInterval = 10 * 60 * 1000000000"
definition DefaultBitcoinStaticFeePerKW :: i64 where "DefaultBitcoinStaticFeePerKW = 12500"

record 'f GBitcoindBackend =
  be_Ping :: "nat \<Rightarrow> bool \<times> go_error option"
  be_GetMempoolInfo :: "nat \<Rightarrow> go_error + 'f"
  be_EstimateFee :: "nat \<Rightarrow> u32 \<Rightarrow> string \<Rightarrow> go_error + 'f"
  be_NewAmount :: "'f \<Rightarrow> go_error + i64"
  be_Now :: "nat \<Rightarrow> int"

record minFeeManager =
  minFeePerKW :: i64
  lastUpdatedTime :: int
  minUpdateInterval :: int
  mfm_feeFloorSatPerKw :: i64

record GBitcoindEstimator =
  estimateMode :: string
  fallbackFeeRate :: i64
  feeFloorSatPerKw :: i64
  minFeeManager_of :: "minFeeManager option"
  est_clock :: nat

definition est_tick :: "GBitcoindEstimator \<Rightarrow> GBitcoindEstimator" where
  "est_tick g = g\<lparr>est_clock := Suc (est_clock g)\<rparr>"

definition NewGBitcoindEstimator :: "'f GBitcoindBackend \<Rightarrow> string \<Rightarrow> i64 \<Rightarrow> i64 \<Rightarrow> go_error option + GBitcoindEstimator" where
  "NewGBitcoindEstimator be mode fallBackFeeRate feeFloor = (case be_Ping be 0 of (ok, err) \<Rightarrow>
     if \<not> ok then Inl err
     else Inr \<lparr>estimateMode = mode, fallbackFeeRate = fallBackFeeRate, feeFloorSatPerKw = feeFloor, minFeeManager_of = None, est_clock = 1\<rparr>)"

text \<open>\<open>BTC/kB\<close> to satoshis per kilo weight unit.\<close>

definition to_sat_per_kw :: "'f GBitcoindBackend \<Rightarrow> 'f \<Rightarrow> go_error + i64" where
  "to_sat_per_kw be x = (case be_NewAmount be x of Inl e \<Rightarrow> Inl e | Inr amount \<Rightarrow> Inr (word_of_int (sint amount sdiv sint witnessScaleFactor)))"

definition fetchMinMempoolFee :: "'f GBitcoindBackend \<Rightarrow> nat \<Rightarrow> go_error + i64" where
  "fetchMinMempoolFee be t = (case be_GetMempoolInfo be t of Inl e \<Rightarrow> Inl e | Inr fee \<Rightarrow> to_sat_per_kw be fee)"

definition newMinFeeManager :: "'f GBitcoindBackend \<Rightarrow> nat \<Rightarrow> int \<Rightarrow> i64 \<Rightarrow> go_error + minFeeManager" where
  "newMinFeeManager be t interval feeFloor = (case fetchMinMempoolFee be t of
     Inl e \<Rightarrow> Inl e
   | Inr minFee \<Rightarrow> Inr \<lparr>minFeePerKW = max_i64 minFee feeFloor, lastUpdatedTime = be_Now be (Suc t), minUpdateInterval = interval,
       mfm_feeFloorSatPerKw = feeFloor\<rparr>)"

definition est_Start :: "'f GBitcoindBackend \<Rightarrow> GBitcoindEstimator \<Rightarrow> go_error option \<times> GBitcoindEstimator" where
  "est_Start be g = (case newMinFeeManager be (est_clock g) defaultUpdateInterval (feeFloorSatPerKw g) of
     Inl e \<Rightarrow> (Some e, g\<lparr>est_clock := est_clock g + 2\<rparr>)
   | Inr m \<Rightarrow> (None, g\<lparr>est_clock := est_clock g + 2, minFeeManager_of := Some m\<rparr>))"

definition fetchMinFee :: "'f GBitcoindBackend \<Rightarrow> nat \<Rightarrow> minFeeManager \<Rightarrow> i64 \<times> minFeeManager" where
  "fetchMinFee be t m =
     (if be_Now be t - lastUpdatedTime m < minUpdateInterval m then (minFeePerKW m, m)
      else (case fetchMinMempoolFee be (t + 1) of
         Inl _ \<Rightarrow> (minFeePerKW m, m)
       | Inr newMinFee \<Rightarrow> (let fee = max_i64 newMinFee (mfm_feeFloorSatPerKw m) in
           (fee, m\<lparr>minFeePerKW := fee, lastUpdatedTime := be_Now be (t + 2)\<rparr>))))"

definition currentFeeFloor :: "'f GBitcoindBackend \<Rightarrow> GBitcoindEstimator \<Rightarrow> i64 \<times> GBitcoindEstimator" where
  "currentFeeFloor be g = (case minFeeManager_of g of
     None \<Rightarrow> (feeFloorSatPerKw g, g)
   | Some m \<Rightarrow> (case fetchMinFee be (est_clock g) m of
       (fee, m) \<Rightarrow> (fee, g\<lparr>minFeeManager_of := Some m, est_clock := est_clock g + 3\<rparr>)))"

definition estimateFee :: "'f GBitcoindBackend \<Rightarrow> u32 \<Rightarrow> GBitcoindEstimator \<Rightarrow> (go_error + i64) \<times> GBitcoindEstimator" where
  "estimateFee be targetBlocks g = (let t = est_clock g; g = est_tick g in
     case be_EstimateFee be t targetBlocks (estimateMode g) of
       Inl e \<Rightarrow> (Inl e, g)
     | Inr res \<Rightarrow> (case to_sat_per_kw be res of
         Inl e \<Rightarrow> (Inl e, g)
       | Inr satPerKw \<Rightarrow> (case currentFeeFloor be g of
           (minRelayFee, g) \<Rightarrow> (Inr (if sint satPerKw < sint minRelayFee then minRelayFee else satPerKw), g))))"

definition EstimateFeePerKW :: "'f GBitcoindBackend \<Rightarrow> u32 \<Rightarrow> GBitcoindEstimator \<Rightarrow> i64 \<times> GBitcoindEstimator" where
  "EstimateFeePerKW be targetBlocks g = (case estimateFee be targetBlocks g of
     (Inr feeEstimate, g) \<Rightarrow> if feeEstimate = 0
       then (case currentFeeFloor be g of (feeFloor, g) \<Rightarrow> (max_i64 (fallbackFeeRate g) feeFloor, g)) else (feeEstimate, g)
   | (Inl _, g) \<Rightarrow> (case currentFeeFloor be g of (feeFloor, g) \<Rightarrow> (max_i64 (fallbackFeeRate g) feeFloor, g)))"

text \<open>lnd's estimator: the response may be missing, and there is no floor.\<close>

definition LndEstimator_EstimateFeePerKW :: "i64 \<Rightarrow> go_error + i64 option \<Rightarrow> i64" where
  "LndEstimator_EstimateFeePerKW fallback res = (case res of
     Inr (Some satPerKw) \<Rightarrow> if satPerKw = 0 then fallback else satPerKw | _ \<Rightarrow> fallback)"

definition RegtestFeeEstimator_EstimateFeePerKW :: i64 where
  "RegtestFeeEstimator_EstimateFeePerKW = DefaultBitcoinStaticFeePerKW"

section \<open>The fee of a transaction (\<open>GetFee\<close>)\<close>

text \<open>
  Rounding a quotient of natural numbers to the nearest \<open>float64\<close>, ties to even: \<open>f64_scale\<close> is the
  number of binary places that give the quotient a 53-bit significand.  The result is the significand
  and the number of places; quotients of \<open>2 ^ 53\<close> and more, which do not arise here, lose bits
  through \<open>f64_round\<close>.
\<close>

function f64_scale :: "nat \<Rightarrow> nat \<Rightarrow> nat" where
  "f64_scale a b = (if a = 0 \<or> b * 2 ^ 52 \<le> a then 0 else Suc (f64_scale (2 * a) b))"
  by pat_completeness auto

termination f64_scale
  by (relation "measure (\<lambda>(a, b). b * 2 ^ 52 - a)") auto

declare f64_scale.simps [simp del]

definition round_half_even :: "nat \<Rightarrow> nat \<Rightarrow> nat" where
  "round_half_even a b = (let q = a div b; r = a mod b in
     if b < 2 * r \<or> b = 2 * r \<and> odd q then Suc q else q)"

definition f64_quot :: "nat \<Rightarrow> nat \<Rightarrow> nat \<times> nat" where
  "f64_quot a b = (let e = f64_scale a b in (f64_round (round_half_even (a * 2 ^ e) b), e))"

record BitcoinOnChain =
  fallbackFeeRateSatPerKw :: i64
  chain_feeFloorSatPerKw :: i64

definition fee_rate :: "BitcoinOnChain \<Rightarrow> go_error + i64 \<Rightarrow> i64" where
  "fee_rate b estimate =
     (let satPerKw = (case estimate of Inl _ \<Rightarrow> fallbackFeeRateSatPerKw b
                      | Inr satPerKw \<Rightarrow> if satPerKw = 0 then fallbackFeeRateSatPerKw b else satPerKw)
      in if sint satPerKw < sint (chain_feeFloorSatPerKw b) then chain_feeFloorSatPerKw b else satPerKw)"

text \<open>
  The fee of \<open>txSize\<close> virtual bytes: \<open>float64(satPerKb) / 1000\<close>, the product with \<open>float64(txSize)\<close>
  and the conversion to \<open>uint64\<close>, which drops the fraction.  Rate and size are not negative.
\<close>

definition fee_of_rate :: "nat \<Rightarrow> nat \<Rightarrow> nat" where
  "fee_of_rate satPerKb txSize = (case f64_quot (f64_round satPerKb) 1000 of (m, e) \<Rightarrow>
     (case f64_quot (m * f64_round txSize) (2 ^ e) of (m', e') \<Rightarrow> m' div 2 ^ e'))"

definition GetFee :: "BitcoinOnChain \<Rightarrow> go_error + i64 \<Rightarrow> i64 \<Rightarrow> u64" where
  "GetFee b estimate txSize = word_of_nat (fee_of_rate (nat (sint (fee_rate b estimate * witnessScaleFactor))) (nat (sint txSize)))"

section \<open>Accuracy of the fee\<close>

lemma f64_scale_bounds:
  "0 < a \<Longrightarrow> 0 < b \<Longrightarrow> a < b * 2 ^ 53 \<Longrightarrow> b * 2 ^ 52 \<le> a * 2 ^ f64_scale a b \<and> a * 2 ^ f64_scale a b < b * 2 ^ 53"
proof (induction a b rule: f64_scale.induct)
  case (1 a b)
  show ?case
  proof (cases "b * 2 ^ 52 \<le> a")
    case True
    then show ?thesis using "1.prems" by (simp add: f64_scale.simps [of a b])
  next
    case False
    then have "2 * a < b * 2 ^ 53" by simp
    then have "b * 2 ^ 52 \<le> 2 * a * 2 ^ f64_scale (2 * a) b \<and> 2 * a * 2 ^ f64_scale (2 * a) b < b * 2 ^ 53"
      using 1 False by simp
    moreover have "f64_scale a b = Suc (f64_scale (2 * a) b)"
      using "1.prems" False by (simp add: f64_scale.simps [of a b])
    ultimately show ?thesis by (simp add: mult.assoc mult.left_commute)
  qed
qed

lemma nat_quotient:
  assumes "0 < b"
  shows "real a / real b = real (a div b) + real (a mod b) / real b" "real (a div b) \<le> real a / real b" "real a / real b < real (a div b) + 1"
proof -
  have "real a = real (a div b) * real b + real (a mod b)"
    by (metis div_mult_mod_eq of_nat_add of_nat_mult)
  then show "real a / real b = real (a div b) + real (a mod b) / real b"
    using assms by (simp add: add_divide_distrib)
  moreover have "0 \<le> real (a mod b) / real b" "real (a mod b) / real b < 1"
    using assms by simp_all
  ultimately show "real (a div b) \<le> real a / real b" "real a / real b < real (a div b) + 1"
    by linarith+
qed

lemma round_half_even_error:
  assumes "0 < b"
  shows "\<bar>real (round_half_even a b) - real a / real b\<bar> \<le> 1 / 2"
proof -
  note nat_quotient(1) [OF assms, of a]
  moreover have "real (a mod b) / real b \<le> 1 / 2" if "2 * (a mod b) \<le> b"
    using that assms by (simp add: field_simps)
  moreover have "1 / 2 \<le> real (a mod b) / real b" if "b \<le> 2 * (a mod b)"
    using that assms by (simp add: field_simps)
  moreover have "0 \<le> real (a mod b) / real b" "real (a mod b) / real b < 1"
    using assms by simp_all
  ultimately show ?thesis
    by (auto simp: round_half_even_def Let_def)
qed

lemma round_half_even_le: "0 < b \<Longrightarrow> a < b * n \<Longrightarrow> round_half_even a b \<le> n"
  by (auto simp: round_half_even_def Let_def less_mult_imp_div_less mult.commute Suc_leI less_imp_le)

lemma f64_round_le: "n \<le> 9007199254740992 \<Longrightarrow> f64_round n = n"
  by (cases "n = 9007199254740992") (simp_all add: f64_round_def f64_shift.simps Let_def)

lemma f64_quot_error:
  assumes "0 < b" "a < b * 2 ^ 53" "f64_quot a b = (m, e)"
  shows "\<bar>real m / 2 ^ e - real a / real b\<bar> \<le> real a / real b / 2 ^ 53"
proof (cases "a = 0")
  case True
  then show ?thesis using assms by (simp add: f64_quot_def f64_scale.simps round_half_even_def Let_def)
next
  case False
  let ?q = "round_half_even (a * 2 ^ e) b"
  have e: "e = f64_scale a b" using assms(3) by (simp add: f64_quot_def Let_def)
  have bounds: "b * 2 ^ 52 \<le> a * 2 ^ e" "a * 2 ^ e < b * 2 ^ 53"
    using f64_scale_bounds [of a b] False assms(1,2) by (simp_all add: e)
  have "?q \<le> 2 ^ 53" using round_half_even_le [OF assms(1) bounds(2)] .
  then have m: "m = ?q"
    using assms(3) f64_round_le [of ?q] by (simp add: f64_quot_def Let_def e)
  have scaled: "real (a * 2 ^ e) / real b = real a / real b * 2 ^ e" by simp
  have "\<bar>real m - real a / real b * 2 ^ e\<bar> \<le> 1 / 2"
    using round_half_even_error [OF assms(1), of "a * 2 ^ e"] m scaled by simp
  then have "\<bar>real m - real a / real b * 2 ^ e\<bar> / 2 ^ e \<le> 1 / 2 / 2 ^ e"
    by (rule divide_right_mono) simp
  moreover have eq: "real m / 2 ^ e - real a / real b = (real m - real a / real b * 2 ^ e) / 2 ^ e"
    by (simp add: diff_divide_distrib)
  have "\<bar>real m / 2 ^ e - real a / real b\<bar> = \<bar>real m - real a / real b * 2 ^ e\<bar> / 2 ^ e"
    unfolding eq abs_divide by simp
  ultimately have "\<bar>real m / 2 ^ e - real a / real b\<bar> \<le> 1 / 2 / 2 ^ e"
    by simp
  moreover have "real (b * 2 ^ 52) \<le> real (a * 2 ^ e)" using bounds(1) by (simp only: of_nat_le_iff)
  then have "2 ^ 52 \<le> real a / real b * 2 ^ e"
    using assms(1) by (simp add: field_simps)
  then have "1 / 2 / 2 ^ e \<le> real a / real b / 2 ^ 53"
    using assms(1) by (simp add: field_simps)
  ultimately show ?thesis by linarith
qed

text \<open>
  The floating point computation of a fee is as good as exact: for a product of rate and size below
  \<open>2 ^ 51\<close>, which all amounts of bitcoin are far below, the fee is the rate per thousand bytes times the
  size, divided by thousand and rounded down, except that it may be one satoshi less where that
  division has no remainder.
\<close>

theorem fee_of_rate_accurate:
  assumes "satPerKb * txSize < 2 ^ 51" "satPerKb < 2 ^ 53" "txSize < 2 ^ 53"
  shows "1000 * fee_of_rate satPerKb txSize \<le> satPerKb * txSize \<and> satPerKb * txSize \<le> 1000 * fee_of_rate satPerKb txSize + 1000"
proof -
  obtain m e where me: "f64_quot satPerKb 1000 = (m, e)" by fastforce
  obtain m' e' where me': "f64_quot (m * txSize) (2 ^ e) = (m', e')" by fastforce
  define x where "x = real satPerKb * real txSize"
  define y where "y = real m / 2 ^ e * real txSize"
  define z where "z = real m' / 2 ^ e'"
  have x: "0 \<le> x" "x < 2 ^ 51"
    using assms(1) unfolding x_def by (metis of_nat_0_le_iff of_nat_mult, metis of_nat_less_iff of_nat_mult of_nat_numeral of_nat_power)
  have "\<bar>real m / 2 ^ e - real satPerKb / 1000\<bar> \<le> real satPerKb / 1000 / 2 ^ 53"
    using f64_quot_error [OF _ _ me] assms(2) by simp
  then have "\<bar>(real m / 2 ^ e - real satPerKb / 1000) * real txSize\<bar> \<le> real satPerKb / 1000 / 2 ^ 53 * real txSize"
    by (simp only: abs_mult abs_of_nat) (rule mult_right_mono, simp_all)
  then have y: "\<bar>y - x / 1000\<bar> \<le> x / 1000 / 2 ^ 53"
    by (simp add: x_def y_def left_diff_distrib)
  have powers: "(2 :: real) ^ 53 = 9007199254740992" "(2 :: real) ^ 51 = 2251799813685248" by simp_all
  have "y < 2 ^ 53" using x y unfolding powers by linarith
  then have "real (m * txSize) < real (2 ^ e * 2 ^ 53)" by (simp add: y_def field_simps)
  then have "m * txSize < 2 ^ e * 2 ^ 53" by (simp only: of_nat_less_iff)
  from f64_quot_error [OF _ this me'] have z: "\<bar>z - y\<bar> \<le> y / 2 ^ 53"
    by (simp add: y_def z_def)
  have close: "1000 * z < x + 1" "x - 1 < 1000 * z" using x y z unfolding powers by linarith+
  have fee: "fee_of_rate satPerKb txSize = m' div 2 ^ e'"
    using assms(2,3) me me' by (simp add: fee_of_rate_def)
  have "real (m' div 2 ^ e') \<le> z" "z < real (m' div 2 ^ e') + 1"
    using nat_quotient [of "2 ^ e'" m'] by (simp_all add: z_def)
  then have "1000 * real (m' div 2 ^ e') < x + 1" "x - 1 < 1000 * real (m' div 2 ^ e') + 1000"
    using close by linarith+
  then have "real (1000 * (m' div 2 ^ e')) < real (satPerKb * txSize + 1)" "real (satPerKb * txSize) < real (1000 * (m' div 2 ^ e') + 1001)"
    by (simp_all add: x_def)
  then show ?thesis
    unfolding fee by (simp only: of_nat_less_iff) linarith
qed

lemma fee_253_350: "fee_of_rate 1012 350 = 354"
proof -
  have "f64_quot 1012 1000 = (4557642822898942, 52)"
    by (simp add: f64_quot_def f64_scale.simps round_half_even_def Let_def)
  moreover have "f64_quot (4557642822898942 * 350) (2 ^ 52) = (6231152296932147, 44)"
    by (simp add: f64_quot_def f64_scale.simps round_half_even_def Let_def)
  ultimately show ?thesis by (simp add: fee_of_rate_def)
qed

theorem fee_of_rate_accurate_witness:
  "fee_of_rate 1012 350 = 354 \<and> 1000 * fee_of_rate 1012 350 \<le> 1012 * 350"
  using fee_of_rate_accurate [of 1012 350] fee_253_350 by simp

section \<open>The floor\<close>

definition est_inv :: "i64 \<Rightarrow> GBitcoindEstimator \<Rightarrow> bool" where
  "est_inv feeFloor g \<longleftrightarrow> feeFloorSatPerKw g = feeFloor \<and>
     (case minFeeManager_of g of None \<Rightarrow> True | Some m \<Rightarrow> mfm_feeFloorSatPerKw m = feeFloor \<and> sint feeFloor \<le> sint (minFeePerKW m))"

lemma currentFeeFloor_inv:
  assumes "currentFeeFloor be g = (fee, g')" "est_inv feeFloor g"
  shows "sint feeFloor \<le> sint fee \<and> est_inv feeFloor g'"
  using assms
  by (auto simp: currentFeeFloor_def fetchMinFee_def est_inv_def Let_def split: option.splits prod.splits if_splits sum.splits)

lemma est_Start_inv: "est_Start be g = (err, g') \<Longrightarrow> est_inv feeFloor g \<Longrightarrow> est_inv feeFloor g'"
  by (auto simp: est_Start_def newMinFeeManager_def est_inv_def split: sum.splits option.splits)

lemma estimateFee_inv:
  assumes "estimateFee be n g = (r, g')" "est_inv feeFloor g"
  shows "est_inv feeFloor g' \<and> (\<forall>fee. r = Inr fee \<longrightarrow> sint feeFloor \<le> sint fee)"
proof -
  have tick: "est_inv feeFloor (est_tick g)" using assms(2) by (simp add: est_inv_def est_tick_def)
  obtain fee g1 where "currentFeeFloor be (est_tick g) = (fee, g1)" by fastforce
  with currentFeeFloor_inv [OF this tick] show ?thesis
    using assms(1) tick by (auto simp: estimateFee_def Let_def split: sum.splits)
qed

lemma EstimateFeePerKW_inv:
  assumes "EstimateFeePerKW be n g = (fee, g')" "est_inv feeFloor g"
  shows "est_inv feeFloor g' \<and> sint feeFloor \<le> sint fee"
proof -
  obtain r g1 where est: "estimateFee be n g = (r, g1)" by fastforce
  obtain fl g2 where cur: "currentFeeFloor be g1 = (fl, g2)" by fastforce
  have est': "est_inv feeFloor g1" "\<And>fee. r = Inr fee \<Longrightarrow> sint feeFloor \<le> sint fee"
    using estimateFee_inv [OF est assms(2)] by auto
  have cur': "sint feeFloor \<le> sint fl" "est_inv feeFloor g2"
    using currentFeeFloor_inv [OF cur est'(1)] by auto
  have "sint feeFloor \<le> sint (max_i64 (fallbackFeeRate g2) fl)"
    using cur'(1) by (simp add: le_max_iff_disj)
  then show ?thesis
    using est' cur' assms(1) est cur
    by (auto simp: EstimateFeePerKW_def simp del: sint_max_i64 split: sum.splits if_splits)
qed

inductive est_step :: "'f GBitcoindBackend \<Rightarrow> GBitcoindEstimator \<Rightarrow> GBitcoindEstimator \<Rightarrow> bool" for be where
  start: "est_Start be g = (err, g') \<Longrightarrow> est_step be g g'"
| estimate: "EstimateFeePerKW be n g = (fee, g') \<Longrightarrow> est_step be g g'"

text \<open>
  The estimator over bitcoind never answers less than the fee floor it was made with, whether it was
  started or not, however the node's answers change or fail; and the rate \<open>GetFee\<close> uses is never below
  the floor of the chain, for any estimator.
\<close>

theorem estimates_above_floor:
  assumes "NewGBitcoindEstimator be mode fallback feeFloor = Inr g0" "(est_step be)\<^sup>*\<^sup>* g0 g" "EstimateFeePerKW be n g = (fee, g')"
  shows "sint feeFloor \<le> sint fee \<and> sint (chain_feeFloorSatPerKw b) \<le> sint (fee_rate b estimate)"
proof -
  have "est_inv feeFloor g0"
    using assms(1) by (auto simp: NewGBitcoindEstimator_def est_inv_def split: prod.splits if_splits)
  from assms(2) this have "est_inv feeFloor g"
  proof (induction rule: rtranclp_induct)
    case (step g g')
    from step.hyps(2) step.IH [OF step.prems] show ?case
      by cases (auto dest: est_Start_inv EstimateFeePerKW_inv)
  qed
  then show ?thesis
    using EstimateFeePerKW_inv [OF assms(3)] by (auto simp: fee_rate_def Let_def)
qed

text \<open>A node whose estimate is below the floor.\<close>

definition demo_backend :: "i64 GBitcoindBackend" where
  "demo_backend = \<lparr>be_Ping = (\<lambda>_. (True, None)), be_GetMempoolInfo = (\<lambda>_. Inr 1000), be_EstimateFee = (\<lambda>_ _ _. Inr 400),
     be_NewAmount = Inr, be_Now = int\<rparr>"

theorem estimates_above_floor_witness:
  "\<exists>g fee g'. NewGBitcoindEstimator demo_backend ''ECONOMICAL'' 12500 253 = Inr g \<and> EstimateFeePerKW demo_backend 6 g = (fee, g') \<and>
     sint (253 :: i64) \<le> sint fee \<and> fee = 253"
proof -
  let ?g = "\<lparr>estimateMode = ''ECONOMICAL'', fallbackFeeRate = 12500, feeFloorSatPerKw = 253, minFeeManager_of = None, est_clock = 1\<rparr>"
  have new: "NewGBitcoindEstimator demo_backend ''ECONOMICAL'' 12500 253 = Inr ?g"
    by (simp add: NewGBitcoindEstimator_def demo_backend_def)
  moreover obtain g' where est: "EstimateFeePerKW demo_backend 6 ?g = (253, g')"
    by (simp add: EstimateFeePerKW_def estimateFee_def currentFeeFloor_def est_tick_def to_sat_per_kw_def demo_backend_def witnessScaleFactor_def Let_def
      signed_divide_int_def)
  ultimately show ?thesis
    using estimates_above_floor [OF new rtranclp.rtrancl_refl est] by blast
qed

section \<open>The floor of a version\<close>

lemma fmt_nat_digits: "list_all is_digit (fmt_nat n)" "fmt_nat n \<noteq> []"
proof -
  have "d < 10" if "d \<in> set (digits_base 10 n)" for d
    using digits_base_small [of 10 d n] that by simp
  then show "list_all is_digit (fmt_nat n)"
    by (auto simp: fmt_nat_def list_all_iff is_digit_digit_char)
  show "fmt_nat n \<noteq> []" by (simp add: fmt_nat_def)
qed

lemma Atoi_fmt_nat: "n < 2 ^ 63 \<Longrightarrow> strconv_Atoi (fmt_nat n) = Inr (int n)"
  unfolding strconv_Atoi_def fmt_nat_def by (rule ParseInt_digits) simp_all

lemma run_append:
  assumes "list_all P xs" "ys = [] \<or> \<not> P (hd ys)"
  shows "takeWhile P (xs @ ys) = xs" "dropWhile P (xs @ ys) = ys"
  using assms by (cases ys; induction xs; auto)+

lemma dot_run_number:
  assumes "rest = [] \<or> \<not> is_digit (hd rest)"
  shows "dot_run (CHR ''.'' # fmt_nat n @ rest) = (fmt_nat n, rest)"
proof -
  obtain d ds where ds: "fmt_nat n = d # ds" using fmt_nat_digits(2) by (meson neq_Nil_conv)
  then have "is_digit d" "list_all is_digit ds" using fmt_nat_digits(1) [of n] by auto
  then show ?thesis
    using run_append [OF \<open>list_all is_digit ds\<close> assms] by (simp add: dot_run_def ds)
qed

text \<open>
  The fee floor is read from the first version number in the text bitcoind gives: 0.1 satoshis per
  byte from version 29.2 on, and the old floor before, whatever surrounds the number.
\<close>

theorem fee_floor_by_version:
  assumes "list_all (\<lambda>c. \<not> is_digit c) prefix" "maj < 2 ^ 63" "mnr < 2 ^ 63" "rest = [] \<or> \<not> is_digit (hd rest)"
  shows "fst (DetermineFeeFloor (prefix @ fmt_nat maj @ ''.'' @ fmt_nat mnr @ rest)) =
    (if 29 < maj \<or> maj = 29 \<and> 2 \<le> mnr then 25 else 253)"
proof -
  let ?s = "fmt_nat maj @ ''.'' @ fmt_nat mnr @ rest"
  have skip: "dropWhile (\<lambda>c. \<not> is_digit c) (prefix @ ?s) = ?s"
  proof (rule run_append(2) [OF assms(1)])
    show "?s = [] \<or> \<not> \<not> is_digit (hd ?s)"
      using fmt_nat_digits [of maj] by (cases "fmt_nat maj") auto
  qed
  have "\<not> is_digit CHR ''.''" by (simp add: is_digit_def)
  then have major: "takeWhile is_digit ?s = fmt_nat maj" "dropWhile is_digit ?s = ''.'' @ fmt_nat mnr @ rest"
    using run_append [OF fmt_nat_digits(1), of "''.'' @ fmt_nat mnr @ rest" maj] by simp_all
  have "FindStringSubmatch (prefix @ ?s) = Some (fmt_nat maj, fmt_nat mnr, fst (dot_run rest))"
    using dot_run_number [OF assms(4), of mnr] unfolding FindStringSubmatch_def Let_def skip major by simp
  then obtain p where "normalizeBitcoinVersion (prefix @ ?s) = Some \<lparr>major = int maj, minor = int mnr, patch = p\<rparr>"
    using Atoi_fmt_nat [OF assms(2)] Atoi_fmt_nat [OF assms(3)] fmt_nat_digits(2) [of mnr]
    by (simp add: normalizeBitcoinVersion_def parseVersionSegment_def)
  then show ?thesis
    by (simp add: DetermineFeeFloor_def LegacyFeeFloorSatPerKw_def ModernFeeFloorSatPerKw_def)
qed

theorem fee_floor_by_version_witness:
  "fst (DetermineFeeFloor (''/Satoshi:'' @ fmt_nat 29 @ ''.'' @ fmt_nat 2 @ ''.0/'')) = 25 \<and>
   fst (DetermineFeeFloor (''/Satoshi:'' @ fmt_nat 29 @ ''.'' @ fmt_nat 1 @ ''.0/'')) = 253"
  using fee_floor_by_version [of "''/Satoshi:''" 29 2 "''.0/''"] fee_floor_by_version [of "''/Satoshi:''" 29 1 "''.0/''"]
  by (simp add: is_digit_def)

end
