(* ===== verification/PS_Spending.thy ===== *)
theory PS_Spending
  imports PS_Onchain PS_Fees
begin

text \<open>
  The transactions that spend the opening output on Bitcoin: \<open>PrepareSpendingTransaction\<close>
  (\<open>onchain/bitcoin.go\<close>) and the three claims of the two wallets (\<open>clightning/clightning_wallet.go\<close>,
  \<open>lnd/lnd_wallet.go\<close>).  Addresses, signature hashes, signatures and the serialised form are third-party
  and parameters; the wallets' calls are read at a clock.  \<open>None\<close> is a panic.
\<close>

section \<open>Transactions and claims\<close>

record spending_tx =
  in_PrevHash :: string
  in_Vout :: u32
  in_Sequence :: u32
  out_Amount :: i64
  out_Script :: "byte list"
  in_Witness :: "byte list list"

record tx_env =
  te_DecodeAddress :: "string \<Rightarrow> go_error + byte list"
  te_SerializeSizeStripped :: "spending_tx \<Rightarrow> i64"
  te_CalcWitnessSigHash :: "spending_tx \<Rightarrow> byte list \<Rightarrow> i64 \<Rightarrow> go_error + byte list"
  te_Sign :: "byte list \<Rightarrow> byte list \<Rightarrow> go_error + byte list"
  te_Serialize :: "spending_tx \<Rightarrow> go_error + byte list"
  te_TxHash :: "spending_tx \<Rightarrow> string"

definition PrepareSpendingTransaction ::
  "chain_env \<Rightarrow> tx_env \<Rightarrow> BitcoinOnChain \<Rightarrow> go_error + i64 \<Rightarrow> OpeningParams \<Rightarrow> ClaimParams \<Rightarrow> string \<Rightarrow> u32 \<Rightarrow> u32 \<Rightarrow> u64 \<Rightarrow>
   (go_error + spending_tx \<times> byte list \<times> byte list) option" where
  "PrepareSpendingTransaction ce te b estimate swapParams claimParams spendingAddr vout csv preparedFee =
     (case hex_bytes (cp_OpeningTxHex claimParams) of
        Inl e \<Rightarrow> Some (Inl e)
      | Inr txBytes \<Rightarrow> (case ce_Deserialize ce txBytes of
        Inl e \<Rightarrow> Some (Inl e)
      | Inr outs \<Rightarrow> (case te_DecodeAddress te spendingAddr of
        Inl e \<Rightarrow> Some (Inl e)
      | Inr scriptAddress \<Rightarrow> (case ce_Script ce [AddData [0], AddData scriptAddress] of
        Inl e \<Rightarrow> Some (Inl e)
      | Inr changeScript \<Rightarrow>
     if \<not> unat vout < length outs then None
     else (case ParamsToTxScript ce swapParams BitcoinCsv of
        Inl e \<Rightarrow> Some (Inl e)
      | Inr redeemScript \<Rightarrow>
          (let tx = \<lparr>in_PrevHash = ce_TxHash ce txBytes, in_Vout = vout, in_Sequence = csv,
                     out_Amount = out_Value (outs ! unat vout) - 200, out_Script = changeScript, in_Witness = []\<rparr>;
               fee = (if preparedFee = 0 then GetFee b estimate (te_SerializeSizeStripped te tx + 74) else preparedFee);
               tx = tx\<lparr>out_Amount := out_Amount tx - fee\<rparr>
           in case te_CalcWitnessSigHash te tx redeemScript (op_Amount swapParams) of
                Inl e \<Rightarrow> Some (Inl e)
              | Inr sigHash \<Rightarrow> Some (Inr (tx, sigHash, redeemScript))))))))"

text \<open>The wallets of the two nodes differ in what they answer.\<close>

datatype node = CLN | LND

record bitcoin_wallet =
  bw_node :: node
  bw_NewAddress :: "nat \<Rightarrow> go_error + string"
  bw_Publish :: "nat \<Rightarrow> spending_tx \<Rightarrow> go_error + string"
  bw_estimate :: "nat \<Rightarrow> go_error + i64"

record spend_world =
  sw_clock :: nat
  sw_published :: "spending_tx list"

definition sw_tick :: "spend_world \<Rightarrow> spend_world" where
  "sw_tick w = w\<lparr>sw_clock := Suc (sw_clock w)\<rparr>"

type_synonym claim_result = "(go_error + string \<times> string \<times> string) \<times> spend_world"

text \<open>
  Serialising and publishing the signed transaction.  Core Lightning answers the id that bitcoind
  returns, lnd the hash of the transaction; for a cooperative close both answer the hash.
\<close>

definition publish_claim ::
  "tx_env \<Rightarrow> bitcoin_wallet \<Rightarrow> bool \<Rightarrow> string \<Rightarrow> spending_tx \<Rightarrow> spend_world \<Rightarrow> claim_result" where
  "publish_claim te bw answer_hash address tx w = (case te_Serialize te tx of
     Inl e \<Rightarrow> (Inl e, w)
   | Inr bs \<Rightarrow> (let t = sw_clock w; w = w\<lparr>sw_clock := Suc t, sw_published := sw_published w @ [tx]\<rparr> in
       case bw_Publish bw t tx of
         Inl e \<Rightarrow> (Inl e, w)
       | Inr sentId \<Rightarrow> (Inr (if answer_hash \<or> bw_node bw = LND then te_TxHash te tx else sentId, hex_EncodeToString bs, address), w)))"

text \<open>
  The output to spend.  That the output is the right one is not looked at: a transaction without it
  gives the index zero.
\<close>

definition claim_vout :: "chain_env \<Rightarrow> OpeningParams \<Rightarrow> ClaimParams \<Rightarrow> go_error + u32" where
  "claim_vout ce swapParams claimParams = (case bitcoin_GetVoutAndVerify ce (cp_OpeningTxHex claimParams) swapParams of
     Inl e \<Rightarrow> Inl e | Inr (_, vout) \<Rightarrow> Inr vout)"

definition prepare_and_sign ::
  "chain_env \<Rightarrow> tx_env \<Rightarrow> BitcoinOnChain \<Rightarrow> bitcoin_wallet \<Rightarrow> OpeningParams \<Rightarrow> ClaimParams \<Rightarrow> string \<Rightarrow> u32 \<Rightarrow> u32 \<Rightarrow> spend_world \<Rightarrow>
   ((go_error + spending_tx \<times> byte list \<times> byte list) \<times> spend_world) option" where
  "prepare_and_sign ce te b bw swapParams claimParams newAddr vout csv w =
     (case PrepareSpendingTransaction ce te b (bw_estimate bw (sw_clock w)) swapParams claimParams newAddr vout csv 0 of
        None \<Rightarrow> None
      | Some (Inl e) \<Rightarrow> Some (Inl e, sw_tick w)
      | Some (Inr (tx, sigHash, redeemScript)) \<Rightarrow> (case te_Sign te (cp_Signer claimParams) sigHash of
          Inl e \<Rightarrow> Some (Inl e, sw_tick w)
        | Inr sigBytes \<Rightarrow> Some (Inr (tx, sigBytes, redeemScript), sw_tick w)))"

definition CreatePreimageSpendingTransaction ::
  "chain_env \<Rightarrow> tx_env \<Rightarrow> BitcoinOnChain \<Rightarrow> bitcoin_wallet \<Rightarrow> OpeningParams \<Rightarrow> ClaimParams \<Rightarrow> spend_world \<Rightarrow> claim_result option" where
  "CreatePreimageSpendingTransaction ce te b bw swapParams claimParams w =
     (case claim_vout ce swapParams claimParams of
        Inl e \<Rightarrow> Some (Inl e, w)
      | Inr vout \<Rightarrow> (let t = sw_clock w; w = sw_tick w in case bw_NewAddress bw t of
        Inl e \<Rightarrow> Some (Inl e, w)
      | Inr newAddr \<Rightarrow> (case prepare_and_sign ce te b bw swapParams claimParams newAddr vout 0 w of
        None \<Rightarrow> None
      | Some (Inl e, w) \<Rightarrow> Some (Inl e, w)
      | Some (Inr (tx, sigBytes, redeemScript), w) \<Rightarrow> (case MakePreimageFromStr (cp_Preimage claimParams) of
        (_, Some e) \<Rightarrow> Some (Inl e, w)
      | (preimage, None) \<Rightarrow> Some (publish_claim te bw False newAddr
          (tx\<lparr>in_Witness := GetPreimageWitness sigBytes preimage redeemScript\<rparr>) w)))))"

text \<open>Core Lightning answers an empty address here and for the cooperative close.\<close>

definition CreateCsvSpendingTransaction ::
  "chain_env \<Rightarrow> tx_env \<Rightarrow> BitcoinOnChain \<Rightarrow> bitcoin_wallet \<Rightarrow> OpeningParams \<Rightarrow> ClaimParams \<Rightarrow> spend_world \<Rightarrow> claim_result option" where
  "CreateCsvSpendingTransaction ce te b bw swapParams claimParams w =
     (let t = sw_clock w; w = sw_tick w in case bw_NewAddress bw t of
        Inl e \<Rightarrow> Some (Inl e, w)
      | Inr newAddr \<Rightarrow> (case claim_vout ce swapParams claimParams of
        Inl e \<Rightarrow> Some (Inl e, w)
      | Inr vout \<Rightarrow> (case prepare_and_sign ce te b bw swapParams claimParams newAddr vout BitcoinCsv w of
        None \<Rightarrow> None
      | Some (Inl e, w) \<Rightarrow> Some (Inl e, w)
      | Some (Inr (tx, sigBytes, redeemScript), w) \<Rightarrow> Some (publish_claim te bw False (if bw_node bw = CLN then '''' else newAddr)
          (tx\<lparr>in_Witness := GetCsvWitness sigBytes redeemScript\<rparr>) w))))"

definition CreateCoopSpendingTransaction ::
  "chain_env \<Rightarrow> tx_env \<Rightarrow> BitcoinOnChain \<Rightarrow> bitcoin_wallet \<Rightarrow> OpeningParams \<Rightarrow> ClaimParams \<Rightarrow> byte list \<Rightarrow> spend_world \<Rightarrow> claim_result option" where
  "CreateCoopSpendingTransaction ce te b bw swapParams claimParams takerSigner w =
     (let t = sw_clock w; w = sw_tick w in case bw_NewAddress bw t of
        Inl e \<Rightarrow> Some (Inl e, w)
      | Inr refundAddr \<Rightarrow> (let refundFee = GetFee b (bw_estimate bw (sw_clock w)) 250; w = sw_tick w in
     (case claim_vout ce swapParams claimParams of
        Inl e \<Rightarrow> Some (Inl e, w)
      | Inr vout \<Rightarrow>
     (case PrepareSpendingTransaction ce te b (bw_estimate bw (sw_clock w)) swapParams claimParams refundAddr vout 0 refundFee of
        None \<Rightarrow> None
      | Some (Inl e) \<Rightarrow> Some (Inl e, sw_tick w)
      | Some (Inr (tx, sigHash, redeemScript)) \<Rightarrow> (case te_Sign te takerSigner sigHash of
          Inl e \<Rightarrow> Some (Inl e, sw_tick w)
        | Inr takerSig \<Rightarrow> (case te_Sign te (cp_Signer claimParams) sigHash of
            Inl e \<Rightarrow> Some (Inl e, sw_tick w)
          | Inr makerSig \<Rightarrow> Some (publish_claim te bw True (if bw_node bw = CLN then '''' else refundAddr)
              (tx\<lparr>in_Witness := GetCooperativeWitness takerSig makerSig redeemScript\<rparr>) (sw_tick w))))))))"

section \<open>Claims are accepted\<close>

text \<open>
  A published transaction is accepted: its witness satisfies the script of the opening output, for the
  signature hash and the sequence number of the transaction.
\<close>

definition accepted ::
  "(byte list \<Rightarrow> u32 \<Rightarrow> bool list \<Rightarrow> script_item list \<Rightarrow> byte list list \<Rightarrow> bool) \<Rightarrow> tx_env \<Rightarrow> OpeningParams \<Rightarrow> byte list \<Rightarrow>
   byte list \<Rightarrow> byte list \<Rightarrow> byte list \<Rightarrow> spending_tx \<Rightarrow> bool" where
  "accepted exec te p redeemScript taker maker pHash tx \<longleftrightarrow> last (in_Witness tx) = redeemScript \<and>
     (\<exists>h. te_CalcWitnessSigHash te (tx\<lparr>in_Witness := []\<rparr>) redeemScript (op_Amount p) = Inr h \<and>
       can_spend (exec h (in_Sequence tx)) taker maker pHash BitcoinCsv (witness_stack (in_Witness tx)))"

text \<open>
  What the claims rely on: the script interpreter of the network follows the opcode rules, where a
  relative delay is met by a sequence number that is as large, and an empty signature is never valid.
\<close>

definition network_rules ::
  "(byte list \<Rightarrow> byte list \<Rightarrow> byte list \<Rightarrow> bool) \<Rightarrow> (byte list \<Rightarrow> byte list) \<Rightarrow> (int \<Rightarrow> byte list) \<Rightarrow>
   (byte list \<Rightarrow> u32 \<Rightarrow> bool list \<Rightarrow> script_item list \<Rightarrow> byte list list \<Rightarrow> bool) \<Rightarrow> bool" where
  "network_rules verify sha num exec \<longleftrightarrow> (\<forall>h sequence. script_rules (verify h) sha (\<lambda>n. n \<le> uint sequence) num (exec h sequence)) \<and>
     (\<forall>h k. \<not> verify h [] k)"

definition signs_for :: "tx_env \<Rightarrow> (byte list \<Rightarrow> byte list \<Rightarrow> byte list \<Rightarrow> bool) \<Rightarrow> byte list \<Rightarrow> byte list \<Rightarrow> bool" where
  "signs_for te verify key pubkey \<longleftrightarrow> (\<forall>h sig. te_Sign te key h = Inr sig \<longrightarrow> verify h (sig @ [SigHashAll]) pubkey)"

text \<open>
  The transaction spends the output of the swap, and pays out all of it but 200 and the fee for the
  size of such a transaction, at a rate the estimator gave.
\<close>

definition spends_opening ::
  "chain_env \<Rightarrow> tx_env \<Rightarrow> BitcoinOnChain \<Rightarrow> bitcoin_wallet \<Rightarrow> OpeningParams \<Rightarrow> ClaimParams \<Rightarrow> spending_tx \<Rightarrow> bool" where
  "spends_opening ce te b bw p c tx \<longleftrightarrow> (\<exists>bs outs script t size. hex_bytes (cp_OpeningTxHex c) = Inr bs \<and> ce_Deserialize ce bs = Inr outs \<and>
     bitcoin_GetOutputScript ce p = Inr script \<and> in_PrevHash tx = ce_TxHash ce bs \<and>
     unat (in_Vout tx) < length outs \<and> outs ! unat (in_Vout tx) = \<lparr>out_Value = op_Amount p, out_PkScript = script\<rparr> \<and>
     size \<in> {250, te_SerializeSizeStripped te (tx\<lparr>out_Amount := op_Amount p - 200, in_Witness := []\<rparr>) + 74} \<and>
     out_Amount tx = op_Amount p - 200 - GetFee b (bw_estimate bw t) size)"

lemma PrepareSpendingTransaction_ok:
  assumes "PrepareSpendingTransaction ce te b est p c addr vout csv fee = Some (Inr (tx, sigHash, redeemScript))"
  shows "in_Vout tx = vout \<and> in_Sequence tx = csv \<and> in_Witness tx = [] \<and> ParamsToTxScript ce p BitcoinCsv = Inr redeemScript \<and>
    te_CalcWitnessSigHash te tx redeemScript (op_Amount p) = Inr sigHash \<and>
    (\<exists>bs outs. hex_bytes (cp_OpeningTxHex c) = Inr bs \<and> ce_Deserialize ce bs = Inr outs \<and> in_PrevHash tx = ce_TxHash ce bs \<and>
       unat vout < length outs \<and>
       out_Amount tx = out_Value (outs ! unat vout) - 200 -
         (if fee = 0 then GetFee b est (te_SerializeSizeStripped te (tx\<lparr>out_Amount := out_Value (outs ! unat vout) - 200, in_Witness := []\<rparr>) + 74)
          else fee))"
  using assms
  by (auto simp: PrepareSpendingTransaction_def Let_def split: sum.splits if_splits)

lemma claim_vout_valid:
  assumes "bitcoin_ValidateTx ce p (cp_OpeningTxHex c) = Inr True" "claim_vout ce p c = Inr vout"
    "decode_tx ce (cp_OpeningTxHex c) = Inr outs" "unat vout < length outs" "length outs < 2 ^ 32"
  shows "\<exists>script. bitcoin_GetOutputScript ce p = Inr script \<and> outs ! unat vout = \<lparr>out_Value = op_Amount p, out_PkScript = script\<rparr>"
proof -
  obtain i out script where find: "find_amount (op_Amount p) outs 0 = Some (i, out)" "bitcoin_GetOutputScript ce p = Inr script" "script = out_PkScript out"
    using assms(1,3) by (auto simp: bitcoin_ValidateTx_def split: option.splits sum.splits)
  then have i: "i < length outs" "outs ! i = out" "out_Value out = op_Amount p"
    by (auto simp: find_amount_first)
  have "vout = of_nat i"
    using assms(2,3) find by (simp add: claim_vout_def bitcoin_GetVoutAndVerify_def)
  then have "unat vout = i" using i(1) assms(5) by (simp add: unat_of_nat)
  then show ?thesis using find i by auto
qed

lemma publish_claim_ok:
  assumes "publish_claim te bw a addr tx w = (Inr r, w')"
  shows "sw_published w' = sw_published w @ [tx]"
  using assms by (auto simp: publish_claim_def Let_def split: sum.splits)

lemma sw_published_tick [simp]: "sw_published (sw_tick w) = sw_published w"
  by (simp add: sw_tick_def)

lemma prepare_and_sign_ok:
  assumes "prepare_and_sign ce te b bw p c addr vout csv w = Some (Inr (tx, sig, redeemScript), w')"
  shows "sw_published w' = sw_published w \<and> (\<exists>h. PrepareSpendingTransaction ce te b (bw_estimate bw (sw_clock w)) p c addr vout csv 0 =
    Some (Inr (tx, h, redeemScript)) \<and> te_Sign te (cp_Signer c) h = Inr sig)"
  using assms by (auto simp: prepare_and_sign_def split: option.splits sum.splits prod.splits)

text \<open>The size of a transaction bounds the number of its outputs.\<close>

definition outputs_bounded :: "chain_env \<Rightarrow> bool" where
  "outputs_bounded ce \<longleftrightarrow> (\<forall>bs outs. ce_Deserialize ce bs = Inr outs \<longrightarrow> length outs < 2 ^ 32)"

lemma spends_openingI:
  assumes "PrepareSpendingTransaction ce te b (bw_estimate bw t) p c addr vout csv fee = Some (Inr (tx, h, redeemScript))"
    "bitcoin_ValidateTx ce p (cp_OpeningTxHex c) = Inr True" "claim_vout ce p c = Inr vout" "outputs_bounded ce"
    "fee = 0 \<or> fee = GetFee b (bw_estimate bw t') 250"
  shows "spends_opening ce te b bw p c (tx\<lparr>in_Witness := wit\<rparr>)"
proof -
  let ?size = "\<lambda>v. te_SerializeSizeStripped te (tx\<lparr>out_Amount := v - 200, in_Witness := []\<rparr>) + 74"
  obtain bs outs where tx: "in_Vout tx = vout" "hex_bytes (cp_OpeningTxHex c) = Inr bs" "ce_Deserialize ce bs = Inr outs"
    "in_PrevHash tx = ce_TxHash ce bs" "unat vout < length outs"
    "out_Amount tx = out_Value (outs ! unat vout) - 200 -
       (if fee = 0 then GetFee b (bw_estimate bw t) (?size (out_Value (outs ! unat vout))) else fee)"
    using PrepareSpendingTransaction_ok [OF assms(1)] by blast
  have "length outs < 2 ^ 32" "decode_tx ce (cp_OpeningTxHex c) = Inr outs"
    using tx(2,3) assms(4) by (auto simp: decode_tx_def outputs_bounded_def)
  from claim_vout_valid [OF assms(2,3) this(2) tx(5) this(1)] obtain script where
    out: "bitcoin_GetOutputScript ce p = Inr script" "outs ! unat vout = \<lparr>out_Value = op_Amount p, out_PkScript = script\<rparr>"
    by blast
  define size where "size = (if fee = 0 then ?size (op_Amount p) else 250)"
  define u where "u = (if fee = 0 then t else t')"
  have "out_Amount tx = op_Amount p - 200 - GetFee b (bw_estimate bw u) size"
    using tx(6) out(2) assms(5) by (auto simp: size_def u_def)
  moreover have "(tx\<lparr>in_Witness := wit\<rparr>)\<lparr>out_Amount := op_Amount p - 200, in_Witness := []\<rparr> =
      tx\<lparr>out_Amount := op_Amount p - 200, in_Witness := []\<rparr>"
    by (cases tx) simp
  ultimately show ?thesis
    unfolding spends_opening_def using tx(1-5) out
    by (intro exI [of _ bs] exI [of _ outs] exI [of _ script] exI [of _ u] exI [of _ size]) (simp add: size_def)
qed

lemma MakePreimageFromStr_length: "MakePreimageFromStr s = (pre, None) \<Longrightarrow> length pre = 32"
  by (auto simp: MakePreimageFromStr_def MakePreimage_def PreimageSize_def split: if_splits prod.splits option.splits)

lemma BitcoinCsv_pos: "0 < BitcoinCsv"
  by (simp add: BitcoinCsv_def word_less_nat_alt)

lemma acceptedI:
  assumes "PrepareSpendingTransaction ce te b est p c addr vout csv fee = Some (Inr (tx, h, redeemScript))"
    "can_spend (exec h csv) taker maker pHash BitcoinCsv (witness_stack wit)" "last wit = redeemScript"
  shows "accepted exec te p redeemScript taker maker pHash (tx\<lparr>in_Witness := wit\<rparr>)"
proof -
  have tx: "in_Witness tx = []" "in_Sequence tx = csv" "te_CalcWitnessSigHash te tx redeemScript (op_Amount p) = Inr h"
    using PrepareSpendingTransaction_ok [OF assms(1)] by auto
  have same: "tx\<lparr>in_Witness := []\<rparr> = tx" using tx(1) by (cases tx) simp
  show ?thesis
    unfolding accepted_def using tx(2,3) assms(2,3) by (intro conjI exI [of _ h]) (simp_all add: same)
qed

text \<open>
  C25. The transaction with which a taker claims on Bitcoin spends the opening output and is accepted: if
  the opening transaction was validated, the taker's key signs for its public key and the preimage
  hashes to the payment hash, a claim that succeeds has published one transaction; its input is the
  output of the swap, its witness satisfies the opening script, and it pays out the amount less the
  fee.  The same holds for the maker's refund, whose sequence number meets the refund delay, and for
  the cooperative close with the taker's key.
\<close>

theorem bitcoin_claims_accepted:
  assumes "network_rules verify sha num exec" "outputs_bounded ce" "bitcoin_ValidateTx ce p (cp_OpeningTxHex c) = Inr True"
    "hex_bytes (op_TakerPubkey p) = Inr taker" "hex_bytes (op_MakerPubkey p) = Inr maker" "hex_bytes (op_ClaimPaymentHash p) = Inr pHash"
  shows "(CreatePreimageSpendingTransaction ce te b bw p c w = Some (Inr r, w') \<and> signs_for te verify (cp_Signer c) taker \<and>
       sha (fst (MakePreimageFromStr (cp_Preimage c))) = pHash \<longrightarrow>
     (\<exists>tx redeemScript. sw_published w' = sw_published w @ [tx] \<and> spends_opening ce te b bw p c tx \<and>
        ParamsToTxScript ce p BitcoinCsv = Inr redeemScript \<and> accepted exec te p redeemScript taker maker pHash tx)) \<and>
   (CreateCsvSpendingTransaction ce te b bw p c w = Some (Inr r, w') \<and> signs_for te verify (cp_Signer c) maker \<longrightarrow>
     (\<exists>tx redeemScript. sw_published w' = sw_published w @ [tx] \<and> spends_opening ce te b bw p c tx \<and> in_Sequence tx = 1008 \<and>
        ParamsToTxScript ce p BitcoinCsv = Inr redeemScript \<and> accepted exec te p redeemScript taker maker pHash tx)) \<and>
   (CreateCoopSpendingTransaction ce te b bw p c takerKey w = Some (Inr r, w') \<and> signs_for te verify (cp_Signer c) maker \<and>
       signs_for te verify takerKey taker \<longrightarrow>
     (\<exists>tx redeemScript. sw_published w' = sw_published w @ [tx] \<and> spends_opening ce te b bw p c tx \<and>
        ParamsToTxScript ce p BitcoinCsv = Inr redeemScript \<and> accepted exec te p redeemScript taker maker pHash tx))"
proof (intro conjI impI)
  have rules: "script_rules (verify h) sha (\<lambda>n. n \<le> uint sequence) num (exec h sequence)" "\<not> verify h [] maker" for h sequence
    using assms(1) by (simp_all add: network_rules_def)
  {
    assume run: "CreatePreimageSpendingTransaction ce te b bw p c w = Some (Inr r, w') \<and> signs_for te verify (cp_Signer c) taker \<and>
      sha (fst (MakePreimageFromStr (cp_Preimage c))) = pHash"
    then obtain vout addr tx sig redeemScript w1 pre where steps: "claim_vout ce p c = Inr vout"
      "prepare_and_sign ce te b bw p c addr vout 0 (sw_tick w) = Some (Inr (tx, sig, redeemScript), w1)"
      "MakePreimageFromStr (cp_Preimage c) = (pre, None)"
      "publish_claim te bw False addr (tx\<lparr>in_Witness := GetPreimageWitness sig pre redeemScript\<rparr>) w1 = (Inr r, w')"
      by (auto simp: CreatePreimageSpendingTransaction_def Let_def split: sum.splits option.splits prod.splits)
    from prepare_and_sign_ok [OF steps(2)] obtain h where prep:
      "PrepareSpendingTransaction ce te b (bw_estimate bw (sw_clock (sw_tick w))) p c addr vout 0 0 = Some (Inr (tx, h, redeemScript))" "te_Sign te (cp_Signer c) h = Inr sig"
      "sw_published w1 = sw_published w"
      by auto
    have "verify h (sig @ [SigHashAll]) taker" "sha pre = pHash"
      using run prep(2) steps(3) by (auto simp: signs_for_def)
    with preimage_witness [OF rules this(1) MakePreimageFromStr_length [OF steps(3)] this(2)]
    have "accepted exec te p redeemScript taker maker pHash (tx\<lparr>in_Witness := GetPreimageWitness sig pre redeemScript\<rparr>)"
      by (intro acceptedI [OF prep(1)]) (simp_all add: GetPreimageWitness_def)
    then show "\<exists>tx redeemScript. sw_published w' = sw_published w @ [tx] \<and> spends_opening ce te b bw p c tx \<and>
        ParamsToTxScript ce p BitcoinCsv = Inr redeemScript \<and> accepted exec te p redeemScript taker maker pHash tx"
      using publish_claim_ok [OF steps(4)] spends_openingI [OF prep(1) assms(3) steps(1) assms(2)] prep(3)
        PrepareSpendingTransaction_ok [OF prep(1)] by auto
  next
    assume run: "CreateCsvSpendingTransaction ce te b bw p c w = Some (Inr r, w') \<and> signs_for te verify (cp_Signer c) maker"
    then obtain vout addr addr' tx sig redeemScript w1 where steps: "claim_vout ce p c = Inr vout"
      "prepare_and_sign ce te b bw p c addr vout BitcoinCsv (sw_tick w) = Some (Inr (tx, sig, redeemScript), w1)"
      "publish_claim te bw False addr' (tx\<lparr>in_Witness := GetCsvWitness sig redeemScript\<rparr>) w1 = (Inr r, w')"
      by (auto simp: CreateCsvSpendingTransaction_def Let_def split: sum.splits option.splits prod.splits)
    from prepare_and_sign_ok [OF steps(2)] obtain h where prep:
      "PrepareSpendingTransaction ce te b (bw_estimate bw (sw_clock (sw_tick w))) p c addr vout BitcoinCsv 0 = Some (Inr (tx, h, redeemScript))" "te_Sign te (cp_Signer c) h = Inr sig"
      "sw_published w1 = sw_published w"
      by auto
    have "verify h (sig @ [SigHashAll]) maker" using run prep(2) by (auto simp: signs_for_def)
    from csv_witness [OF rules(1) BitcoinCsv_pos this]
    have "accepted exec te p redeemScript taker maker pHash (tx\<lparr>in_Witness := GetCsvWitness sig redeemScript\<rparr>)"
      by (intro acceptedI [OF prep(1)]) (simp_all add: GetCsvWitness_def)
    then show "\<exists>tx redeemScript. sw_published w' = sw_published w @ [tx] \<and> spends_opening ce te b bw p c tx \<and> in_Sequence tx = 1008 \<and>
        ParamsToTxScript ce p BitcoinCsv = Inr redeemScript \<and> accepted exec te p redeemScript taker maker pHash tx"
      using publish_claim_ok [OF steps(3)] spends_openingI [OF prep(1) assms(3) steps(1) assms(2)] prep(3)
        PrepareSpendingTransaction_ok [OF prep(1)] by (auto simp: BitcoinCsv_def)
  next
    assume run: "CreateCoopSpendingTransaction ce te b bw p c takerKey w = Some (Inr r, w') \<and> signs_for te verify (cp_Signer c) maker \<and>
      signs_for te verify takerKey taker"
    then obtain vout addr addr' t t' tx h takerSig makerSig redeemScript w1 where steps: "claim_vout ce p c = Inr vout"
      "PrepareSpendingTransaction ce te b (bw_estimate bw t) p c addr vout 0 (GetFee b (bw_estimate bw t') 250) = Some (Inr (tx, h, redeemScript))"
      "te_Sign te takerKey h = Inr takerSig" "te_Sign te (cp_Signer c) h = Inr makerSig"
      "publish_claim te bw True addr' (tx\<lparr>in_Witness := GetCooperativeWitness takerSig makerSig redeemScript\<rparr>) w1 = (Inr r, w')"
      "sw_published w1 = sw_published w"
      by (fastforce simp: CreateCoopSpendingTransaction_def Let_def split: sum.splits option.splits prod.splits)
    have "verify h (makerSig @ [SigHashAll]) maker" "verify h (takerSig @ [SigHashAll]) taker"
      using run steps(3,4) by (auto simp: signs_for_def)
    from cooperative_witness [OF rules this]
    have "accepted exec te p redeemScript taker maker pHash (tx\<lparr>in_Witness := GetCooperativeWitness takerSig makerSig redeemScript\<rparr>)"
      by (intro acceptedI [OF steps(2)]) (simp_all add: GetCooperativeWitness_def)
    then show "\<exists>tx redeemScript. sw_published w' = sw_published w @ [tx] \<and> spends_opening ce te b bw p c tx \<and>
        ParamsToTxScript ce p BitcoinCsv = Inr redeemScript \<and> accepted exec te p redeemScript taker maker pHash tx"
      using publish_claim_ok [OF steps(5)] spends_openingI [OF steps(2) assms(3) steps(1) assms(2)] steps(6)
        PrepareSpendingTransaction_ok [OF steps(2)] by auto
  }
qed

text \<open>
  A swap whose opening transaction is the one of \<^const>\<open>example_chain\<close>: signatures are the key, the
  hash of every preimage is the empty list, and the claims of both sides are published.
\<close>

definition example_spend :: tx_env where
  "example_spend = \<lparr>te_DecodeAddress = (\<lambda>_. Inr [5]), te_SerializeSizeStripped = (\<lambda>_. 80), te_CalcWitnessSigHash = (\<lambda>_ _ _. Inr [6]),
     te_Sign = (\<lambda>key _. Inr key), te_Serialize = (\<lambda>_. Inr []), te_TxHash = (\<lambda>_. [])\<rparr>"

definition example_claim :: ClaimParams where
  "example_claim = \<lparr>cp_Preimage = replicate 64 (CHR ''0''), cp_Signer = [], cp_OpeningTxHex = []\<rparr>"

definition example_node :: bitcoin_wallet where
  "example_node = \<lparr>bw_node = LND, bw_NewAddress = (\<lambda>_. Inr []), bw_Publish = (\<lambda>_ _. Inr []), bw_estimate = (\<lambda>_. Inr 253)\<rparr>"

definition example_exec :: "byte list \<Rightarrow> u32 \<Rightarrow> bool list \<Rightarrow> script_item list \<Rightarrow> byte list list \<Rightarrow> bool" where
  "example_exec h sequence = run_script (\<lambda>sg k. sg = k @ [SigHashAll]) (\<lambda>_. []) (\<lambda>n. n \<le> uint sequence)"

lemma example_rules: "network_rules (\<lambda>h sg k. sg = k @ [SigHashAll]) (\<lambda>_. []) script_num example_exec"
  by (simp add: network_rules_def example_exec_def run_script_rules)

definition example_opening :: chain_env where
  "example_opening = example_chain\<lparr>ce_Deserialize := (\<lambda>_. Inr [\<lparr>out_Value = 5, out_PkScript = [9]\<rparr>, \<lparr>out_Value = 100000, out_PkScript = [0, 7]\<rparr>])\<rparr>"

definition example_swap :: OpeningParams where
  "example_swap = example_params\<lparr>op_Amount := 100000\<rparr>"

definition example_fees :: BitcoinOnChain where
  "example_fees = \<lparr>fallbackFeeRateSatPerKw = 253, chain_feeFloorSatPerKw = 253\<rparr>"

lemmas example_spend_defs = claim_vout_def prepare_and_sign_def PrepareSpendingTransaction_def publish_claim_def
  bitcoin_GetVoutAndVerify_def bitcoin_ValidateTx_def decode_tx_def bitcoin_GetOutputScript_def ParamsToTxScript_def
  GetOpeningTxScript_def hex_bytes_def example_chain_def example_params_def example_spend_def example_claim_def example_opening_def
  example_swap_def example_node_def sw_tick_def Let_def

theorem bitcoin_claims_accepted_witness:
  "\<exists>r w' tx rs. CreateCsvSpendingTransaction example_opening example_spend example_fees example_node example_swap example_claim
       \<lparr>sw_clock = 0, sw_published = []\<rparr> = Some (Inr r, w') \<and>
     sw_published w' = [tx] \<and> spends_opening example_opening example_spend example_fees example_node example_swap example_claim tx \<and>
     in_Sequence tx = 1008 \<and> accepted example_exec example_spend example_swap rs [] [] [] tx"
proof -
  let ?w = "\<lparr>sw_clock = 0, sw_published = []\<rparr>"
  have "\<exists>r w'. CreateCsvSpendingTransaction example_opening example_spend example_fees example_node example_swap example_claim ?w = Some (Inr r, w')"
    by (simp add: CreateCsvSpendingTransaction_def example_spend_defs)
  then obtain r w' where run: "CreateCsvSpendingTransaction example_opening example_spend example_fees example_node example_swap example_claim ?w =
      Some (Inr r, w')"
    by blast
  have valid: "bitcoin_ValidateTx example_opening example_swap (cp_OpeningTxHex example_claim) = Inr True"
    and keys: "hex_bytes (op_TakerPubkey example_swap) = Inr []" "hex_bytes (op_MakerPubkey example_swap) = Inr []"
      "hex_bytes (op_ClaimPaymentHash example_swap) = Inr []"
    and signer: "signs_for example_spend (\<lambda>h sg k. sg = k @ [SigHashAll]) (cp_Signer example_claim) []"
    and bounded: "outputs_bounded example_opening"
    by (simp_all add: example_spend_defs signs_for_def outputs_bounded_def)
  note claims = bitcoin_claims_accepted [OF example_rules bounded valid keys,
    where te = example_spend and b = example_fees and bw = example_node and w = ?w and r = r and w' = w']
  from claims [THEN conjunct2, THEN conjunct1, rule_format, OF conjI [OF run signer]] show ?thesis
    using run by (cases r) auto
qed

end
