(* ===== verification/PS_LiquidSpending.thy ===== *)
theory PS_LiquidSpending
  imports PS_Spending
begin

text \<open>
  The transactions of a swap on Liquid (\<open>onchain/liquid.go\<close>): the opening transaction, the three claims
  and the transaction they share.  Commitments, proofs, addresses, signature hashes, the serialised
  form and the wallet behind the interface \<open>wallet.Wallet\<close> are parameters; the wallet and the random
  bytes are read at a clock.  \<open>None\<close> is a panic: a missing blinding key or a missing ephemeral key.
\<close>

section \<open>Transactions\<close>

record liquid_tx_out =
  lt_Asset :: "byte list"
  lt_Value :: "byte list"
  lt_Script :: "byte list"
  lt_Nonce :: "byte list"
  lt_RangeProof :: "byte list"
  lt_SurjectionProof :: "byte list"

record liquid_tx =
  lt_PrevHash :: "byte list"
  lt_Vout :: u32
  lt_Sequence :: u32
  lt_Witness :: "byte list list"
  lt_Outputs :: "liquid_tx_out list"

record range_proof_args =
  rp_Value :: u64
  rp_Nonce :: "byte list"
  rp_Asset :: "byte list"
  rp_AssetBlindingFactor :: "byte list"
  rp_ValueBlindFactor :: "byte list"
  rp_ValueCommit :: "byte list"
  rp_ScriptPubkey :: "byte list"

record liquid_env =
  le_FinalValueBlindingFactor :: "u64 \<Rightarrow> u64 \<Rightarrow> byte list \<Rightarrow> byte list \<Rightarrow> byte list \<Rightarrow> go_error + byte list"
  le_ValueCommitment :: "u64 \<Rightarrow> byte list \<Rightarrow> byte list \<Rightarrow> go_error + byte list"
  le_SurjectionProof :: "byte list \<Rightarrow> byte list \<Rightarrow> byte list \<Rightarrow> byte list \<Rightarrow> byte list \<Rightarrow> byte list option"
  le_FromConfidential :: "string \<Rightarrow> go_error + byte list"
  le_TxHash :: "string \<Rightarrow> byte list"
  le_NonceHash :: "byte list \<Rightarrow> byte list \<Rightarrow> go_error + byte list"
  le_RangeProof :: "range_proof_args \<Rightarrow> go_error + byte list"
  le_PubKey :: "byte list \<Rightarrow> byte list"
  le_NewTxOutput :: "byte list \<Rightarrow> byte list \<Rightarrow> byte list \<Rightarrow> liquid_tx_out"
  le_ValueToBytes :: "u64 \<Rightarrow> byte list"
  le_HashForWitnessV0 :: "liquid_tx \<Rightarrow> byte list \<Rightarrow> byte list \<Rightarrow> byte list"
  le_Sign :: "byte list \<Rightarrow> byte list \<Rightarrow> go_error + byte list"
  le_ToHex :: "liquid_tx \<Rightarrow> go_error + string"
  le_ConfidentialWitnessScriptHash :: "byte list \<Rightarrow> byte list \<Rightarrow> (go_error + string) option"

text \<open>The factors that \<open>AddBlindingRandomFactors\<close> puts into the claim parameters.\<close>

record blinding_factors =
  OutputAssetBlindingFactor :: "byte list"
  BlindingSeed :: "byte list"
  EphemeralKey :: "byte list option"

definition createSpendingTransaction ::
  "chain_env \<Rightarrow> liquid_env \<Rightarrow> byte list \<Rightarrow> string \<Rightarrow> u64 \<Rightarrow> u32 \<Rightarrow> byte list \<Rightarrow> string \<Rightarrow> u64 \<Rightarrow> byte list option \<Rightarrow> blinding_factors \<Rightarrow>
   (go_error + liquid_tx \<times> byte list) option" where
  "createSpendingTransaction ce le asset openingTxHex swapAmount csv redeemScript redeemAddr preparedFee blindingKey bf =
     (if preparedFee = 0 then Some (Inl (ErrText ''fee must be set other than 0''))
      else (case ce_NewTxFromHex ce openingTxHex of
        Inl e \<Rightarrow> Some (Inl e)
      | Inr outs \<Rightarrow> (case FindVout ce outs redeemScript of
        Inl e \<Rightarrow> Some (Inl e)
      | Inr vout \<Rightarrow> (case blindingKey of
        None \<Rightarrow> None
      | Some key \<Rightarrow> (case validateOpeningOutput ce asset (outs ! vout) swapAmount key of
        Inl e \<Rightarrow> Some (Inl e)
      | Inr ubRes \<Rightarrow>
     (let outputValue = ub_Value ubRes - preparedFee; outputAbf = OutputAssetBlindingFactor bf in
     (case le_FinalValueBlindingFactor le (ub_Value ubRes) outputValue (ub_AssetBlindingFactor ubRes) outputAbf (ub_ValueBlindingFactor ubRes) of
        Inl e \<Rightarrow> Some (Inl e)
      | Inr outputVbf \<Rightarrow> (case ce_AssetCommitment ce (ub_Asset ubRes) outputAbf of
        Inl e \<Rightarrow> Some (Inl e)
      | Inr assetcommitment \<Rightarrow> (case le_ValueCommitment le outputValue assetcommitment outputVbf of
        Inl e \<Rightarrow> Some (Inl e)
      | Inr valueCommitment \<Rightarrow>
     (case le_SurjectionProof le (ub_Asset ubRes) outputAbf (ub_Asset ubRes) (ub_AssetBlindingFactor ubRes) (BlindingSeed bf) of
        None \<Rightarrow> Some (Inl (ErrText ''failed to generate surjection proof, please retry''))
      | Some surjectionProof \<Rightarrow> (case ce_ToOutputScript ce redeemAddr of
        Inl e \<Rightarrow> Some (Inl e)
      | Inr confOutputScript \<Rightarrow> (case le_FromConfidential le redeemAddr of
        Inl e \<Rightarrow> Some (Inl e)
      | Inr confBlindingKey \<Rightarrow> (case EphemeralKey bf of
        None \<Rightarrow> None
      | Some ephemeral \<Rightarrow> (case le_NonceHash le confBlindingKey ephemeral of
        Inl e \<Rightarrow> Some (Inl e)
      | Inr nonce \<Rightarrow>
     (case le_RangeProof le \<lparr>rp_Value = outputValue, rp_Nonce = nonce, rp_Asset = ub_Asset ubRes, rp_AssetBlindingFactor = outputAbf,
             rp_ValueBlindFactor = outputVbf, rp_ValueCommit = valueCommitment, rp_ScriptPubkey = confOutputScript\<rparr> of
        Inl e \<Rightarrow> Some (Inl e)
      | Inr rangeProof \<Rightarrow>
          (let spendingTx = \<lparr>lt_PrevHash = le_TxHash le openingTxHex, lt_Vout = word_of_nat vout, lt_Sequence = csv, lt_Witness = [],
                 lt_Outputs = [(le_NewTxOutput le asset valueCommitment confOutputScript)\<lparr>lt_Asset := assetcommitment, lt_Value := valueCommitment,
                     lt_Nonce := le_PubKey le ephemeral, lt_RangeProof := rangeProof, lt_SurjectionProof := surjectionProof\<rparr>,
                   le_NewTxOutput le asset (le_ValueToBytes le preparedFee) []]\<rparr>
           in Some (Inr (spendingTx, le_HashForWitnessV0 le spendingTx redeemScript (lo_Value (outs ! vout))))))))))))))))))))"

definition prepareSpendingTransaction ::
  "chain_env \<Rightarrow> liquid_env \<Rightarrow> byte list \<Rightarrow> OpeningParams \<Rightarrow> ClaimParams \<Rightarrow> string \<Rightarrow> u32 \<Rightarrow> u64 \<Rightarrow> blinding_factors \<Rightarrow>
   (go_error + liquid_tx \<times> byte list \<times> byte list) option" where
  "prepareSpendingTransaction ce le asset p c spendingAddr csv preparedFee bf =
     (case ParamsToTxScript ce p (op_CSV p) of
        Inl e \<Rightarrow> Some (Inl e)
      | Inr redeemScript \<Rightarrow>
     (case createSpendingTransaction ce le asset (cp_OpeningTxHex c) (op_Amount p) csv redeemScript spendingAddr preparedFee (op_BlindingKey p) bf of
        None \<Rightarrow> None
      | Some (Inl e) \<Rightarrow> Some (Inl e)
      | Some (Inr (spendingTx, sigHash)) \<Rightarrow> (case le_Sign le (cp_Signer c) sigHash of
          Inl e \<Rightarrow> Some (Inl e) | Inr sig \<Rightarrow> Some (Inr (spendingTx, sig, redeemScript)))))"

section \<open>The wallet and the claims\<close>

record liquid_wallet =
  lw_GetFee :: "nat \<Rightarrow> int \<Rightarrow> go_error + u64"
  lw_GetAddress :: "nat \<Rightarrow> go_error + string"
  lw_random :: "nat \<Rightarrow> byte list \<times> byte list"
  lw_NewPrivateKey :: "nat \<Rightarrow> go_error + byte list"
  lw_SendRawTx :: "nat \<Rightarrow> string \<Rightarrow> go_error + string"
  lw_CreateAndBroadcastTransaction :: "nat \<Rightarrow> string \<Rightarrow> u64 \<Rightarrow> byte list \<Rightarrow> go_error + string \<times> string \<times> u64"

record liquid_world =
  lw_clock :: nat
  lw_sent :: "liquid_tx list"

definition lw_tick :: "liquid_world \<Rightarrow> liquid_world" where
  "lw_tick w = w\<lparr>lw_clock := Suc (lw_clock w)\<rparr>"

type_synonym liquid_result = "(go_error + string \<times> string \<times> string) \<times> liquid_world"

definition feeAmountPlaceholder :: u64 where
  "feeAmountPlaceholder = 500"

definition claim_fee :: "liquid_wallet \<Rightarrow> transactionKind \<Rightarrow> nat \<Rightarrow> u64" where
  "claim_fee lw kind t = (case lw_GetFee lw t (getEstimatedTxSize kind) of Inl _ \<Rightarrow> feeAmountPlaceholder | Inr fee \<Rightarrow> fee)"

text \<open>A failed key generation leaves no key behind; of the callers only the cooperative close looks at the error.\<close>

definition AddBlindingRandomFactors :: "liquid_wallet \<Rightarrow> nat \<Rightarrow> go_error option \<times> blinding_factors" where
  "AddBlindingRandomFactors lw t = (case lw_random lw t of (abf, seed) \<Rightarrow>
     (case lw_NewPrivateKey lw t of
        Inl e \<Rightarrow> (Some e, \<lparr>OutputAssetBlindingFactor = abf, BlindingSeed = seed, EphemeralKey = None\<rparr>)
      | Inr key \<Rightarrow> (None, \<lparr>OutputAssetBlindingFactor = abf, BlindingSeed = seed, EphemeralKey = Some key\<rparr>)))"

definition send_claim :: "liquid_env \<Rightarrow> liquid_wallet \<Rightarrow> string \<Rightarrow> liquid_tx \<Rightarrow> liquid_world \<Rightarrow> liquid_result" where
  "send_claim le lw address tx w = (case le_ToHex le tx of
     Inl e \<Rightarrow> (Inl e, w)
   | Inr txHex \<Rightarrow> (let t = lw_clock w; w = w\<lparr>lw_clock := Suc t, lw_sent := lw_sent w @ [tx]\<rparr> in
       case lw_SendRawTx lw t txHex of Inl e \<Rightarrow> (Inl e, w) | Inr txId \<Rightarrow> (Inr (txId, txHex, address), w)))"

definition liquid_createPreimageSpendingTransaction ::
  "chain_env \<Rightarrow> liquid_env \<Rightarrow> liquid_wallet \<Rightarrow> byte list \<Rightarrow> OpeningParams \<Rightarrow> ClaimParams \<Rightarrow> u64 \<Rightarrow> liquid_world \<Rightarrow> liquid_result option" where
  "liquid_createPreimageSpendingTransaction ce le lw asset p c fee w =
     (let t = lw_clock w; w = lw_tick w in case lw_GetAddress lw t of
        Inl e \<Rightarrow> Some (Inl e, w)
      | Inr newAddr \<Rightarrow>
     (let bf = snd (AddBlindingRandomFactors lw (lw_clock w)); w = lw_tick w in
      case prepareSpendingTransaction ce le asset p c newAddr 0 fee bf of
        None \<Rightarrow> None
      | Some (Inl e) \<Rightarrow> Some (Inl e, w)
      | Some (Inr (tx, sigBytes, redeemScript)) \<Rightarrow> (case le_ToHex le tx of
        Inl e \<Rightarrow> Some (Inl e, w)
      | Inr _ \<Rightarrow> (case MakePreimageFromStr (cp_Preimage c) of
        (_, Some e) \<Rightarrow> Some (Inl e, w)
      | (preimage, None) \<Rightarrow>
          Some (send_claim le lw newAddr (tx\<lparr>lt_Witness := GetPreimageWitness sigBytes preimage redeemScript\<rparr>) w)))))"

definition liquid_CreatePreimageSpendingTransaction ::
  "chain_env \<Rightarrow> liquid_env \<Rightarrow> liquid_wallet \<Rightarrow> byte list \<Rightarrow> OpeningParams \<Rightarrow> ClaimParams \<Rightarrow> liquid_world \<Rightarrow> liquid_result option" where
  "liquid_CreatePreimageSpendingTransaction ce le lw asset p c w =
     liquid_createPreimageSpendingTransaction ce le lw asset p c (claim_fee lw transactionKindPreimageSpending (lw_clock w)) (lw_tick w)"

definition liquid_createCsvSpendingTransaction ::
  "chain_env \<Rightarrow> liquid_env \<Rightarrow> liquid_wallet \<Rightarrow> byte list \<Rightarrow> OpeningParams \<Rightarrow> ClaimParams \<Rightarrow> u64 \<Rightarrow> liquid_world \<Rightarrow> liquid_result option" where
  "liquid_createCsvSpendingTransaction ce le lw asset p c fee w =
     (let t = lw_clock w; w = lw_tick w in case lw_GetAddress lw t of
        Inl e \<Rightarrow> Some (Inl e, w)
      | Inr newAddr \<Rightarrow>
     (let bf = snd (AddBlindingRandomFactors lw (lw_clock w)); w = lw_tick w in
      case prepareSpendingTransaction ce le asset p c newAddr (op_CSV p) fee bf of
        None \<Rightarrow> None
      | Some (Inl e) \<Rightarrow> Some (Inl e, w)
      | Some (Inr (tx, sigBytes, redeemScript)) \<Rightarrow>
          Some (send_claim le lw newAddr (tx\<lparr>lt_Witness := GetCsvWitness sigBytes redeemScript\<rparr>) w)))"

text \<open>The refund asks for the fee of a preimage claim.\<close>

definition liquid_CreateCsvSpendingTransaction ::
  "chain_env \<Rightarrow> liquid_env \<Rightarrow> liquid_wallet \<Rightarrow> byte list \<Rightarrow> OpeningParams \<Rightarrow> ClaimParams \<Rightarrow> liquid_world \<Rightarrow> liquid_result option" where
  "liquid_CreateCsvSpendingTransaction ce le lw asset p c w =
     liquid_createCsvSpendingTransaction ce le lw asset p c (claim_fee lw transactionKindPreimageSpending (lw_clock w)) (lw_tick w)"

definition liquid_createCoopSpendingTransaction ::
  "chain_env \<Rightarrow> liquid_env \<Rightarrow> liquid_wallet \<Rightarrow> byte list \<Rightarrow> OpeningParams \<Rightarrow> ClaimParams \<Rightarrow> byte list \<Rightarrow> u64 \<Rightarrow> liquid_world \<Rightarrow>
   liquid_result option" where
  "liquid_createCoopSpendingTransaction ce le lw asset p c takerSigner fee w =
     (let t = lw_clock w; w = lw_tick w in case lw_GetAddress lw t of
        Inl e \<Rightarrow> Some (Inl e, w)
      | Inr refundAddr \<Rightarrow> (case ParamsToTxScript ce p (op_CSV p) of
        Inl e \<Rightarrow> Some (Inl e, w)
      | Inr redeemScript \<Rightarrow> (let t = lw_clock w; w = lw_tick w in case AddBlindingRandomFactors lw t of
        (Some e, _) \<Rightarrow> Some (Inl e, w)
      | (None, bf) \<Rightarrow>
     (case createSpendingTransaction ce le asset (cp_OpeningTxHex c) (op_Amount p) 0 redeemScript refundAddr fee (op_BlindingKey p) bf of
        None \<Rightarrow> None
      | Some (Inl e) \<Rightarrow> Some (Inl e, w)
      | Some (Inr (spendingTx, sigHash)) \<Rightarrow> (case le_Sign le takerSigner sigHash of
        Inl e \<Rightarrow> Some (Inl e, w)
      | Inr takerSig \<Rightarrow> (case le_Sign le (cp_Signer c) sigHash of
        Inl e \<Rightarrow> Some (Inl e, w)
      | Inr makerSig \<Rightarrow>
          Some (send_claim le lw refundAddr (spendingTx\<lparr>lt_Witness := GetCooperativeWitness takerSig makerSig redeemScript\<rparr>) w)))))))"

definition liquid_CreateCoopSpendingTransaction ::
  "chain_env \<Rightarrow> liquid_env \<Rightarrow> liquid_wallet \<Rightarrow> byte list \<Rightarrow> OpeningParams \<Rightarrow> ClaimParams \<Rightarrow> byte list \<Rightarrow> liquid_world \<Rightarrow> liquid_result option" where
  "liquid_CreateCoopSpendingTransaction ce le lw asset p c takerSigner w =
     liquid_createCoopSpendingTransaction ce le lw asset p c takerSigner (claim_fee lw transactionKindCoop (lw_clock w)) (lw_tick w)"

text \<open>
  The opening transaction: the wallet pays the swap's amount to the blinded address of the script.
  The output index it answers is never set.
\<close>

definition liquid_CreateOpeningTransaction ::
  "chain_env \<Rightarrow> liquid_env \<Rightarrow> liquid_wallet \<Rightarrow> byte list \<Rightarrow> OpeningParams \<Rightarrow> liquid_world \<Rightarrow>
   ((go_error + string \<times> string \<times> string \<times> u64 \<times> u32) \<times> liquid_world) option" where
  "liquid_CreateOpeningTransaction ce le lw asset p w = (case ParamsToTxScript ce p (op_CSV p) of
     Inl e \<Rightarrow> Some (Inl e, w)
   | Inr redeemScript \<Rightarrow> (case op_BlindingKey p of
       None \<Rightarrow> None
     | Some key \<Rightarrow> (case le_ConfidentialWitnessScriptHash le ([0, 32] @ ce_sha256 ce redeemScript) (le_PubKey le key) of
         None \<Rightarrow> None
       | Some (Inl e) \<Rightarrow> Some (Inl e, w)
       | Some (Inr blindedScriptAddr) \<Rightarrow>
           (case lw_CreateAndBroadcastTransaction lw (lw_clock w) blindedScriptAddr (op_Amount p) asset of
              Inl e \<Rightarrow> Some (Inl e, lw_tick w)
            | Inr (txId, txHex, fee) \<Rightarrow> Some (Inr (txHex, blindedScriptAddr, txId, fee, 0), lw_tick w)))))"

definition liquid_GetRefundFee :: "liquid_wallet \<Rightarrow> nat \<Rightarrow> go_error + u64" where
  "liquid_GetRefundFee lw t = lw_GetFee lw t (getEstimatedTxSize transactionKindCoop)"

definition liquid_GetFlatOpeningTXFee :: "liquid_wallet \<Rightarrow> nat \<Rightarrow> go_error + u64" where
  "liquid_GetFlatOpeningTXFee lw t = lw_GetFee lw t (getEstimatedTxSize transactionKindOpening)"

section \<open>Claims are balanced and accepted\<close>

text \<open>
  What a claim pays: its only input is the output of the swap, a validated output of the policy asset;
  its first output commits to what the fee leaves of the amount, its second is the fee in the clear.
\<close>

definition liquid_spend ::
  "chain_env \<Rightarrow> liquid_env \<Rightarrow> byte list \<Rightarrow> OpeningParams \<Rightarrow> ClaimParams \<Rightarrow> u64 \<Rightarrow> liquid_out \<Rightarrow> liquid_tx \<Rightarrow> bool" where
  "liquid_spend ce le asset p c fee out tx \<longleftrightarrow> (\<exists>outs i script key ub abf vbf commitment pay rest.
     ce_NewTxFromHex ce (cp_OpeningTxHex c) = Inr outs \<and> liquid_GetOutputScript ce p = Inr script \<and>
     lt_PrevHash tx = le_TxHash le (cp_OpeningTxHex c) \<and> lt_Vout tx = word_of_nat i \<and> i < length outs \<and> outs ! i = out \<and> lo_Script out = script \<and>
     op_BlindingKey p = Some key \<and> ce_UnblindOutputWithKey ce out key = Inr ub \<and> ub_Value ub = op_Amount p \<and> ub_Asset ub = tl asset \<and>
     fee \<noteq> 0 \<and> lt_Outputs tx = [pay, rest] \<and> ce_AssetCommitment ce (tl asset) abf = Inr commitment \<and> lt_Asset pay = commitment \<and>
     le_FinalValueBlindingFactor le (op_Amount p) (op_Amount p - fee) (ub_AssetBlindingFactor ub) abf (ub_ValueBlindingFactor ub) = Inr vbf \<and>
     le_ValueCommitment le (op_Amount p - fee) commitment vbf = Inr (lt_Value pay) \<and>
     rest = le_NewTxOutput le asset (le_ValueToBytes le fee) [])"

definition liquid_accepted ::
  "(byte list \<Rightarrow> u32 \<Rightarrow> bool list \<Rightarrow> script_item list \<Rightarrow> byte list list \<Rightarrow> bool) \<Rightarrow> liquid_env \<Rightarrow> OpeningParams \<Rightarrow> byte list \<Rightarrow>
   byte list \<Rightarrow> byte list \<Rightarrow> byte list \<Rightarrow> liquid_out \<Rightarrow> liquid_tx \<Rightarrow> bool" where
  "liquid_accepted exec le p redeemScript taker maker pHash out tx \<longleftrightarrow> last (lt_Witness tx) = redeemScript \<and>
     can_spend (exec (le_HashForWitnessV0 le (tx\<lparr>lt_Witness := []\<rparr>) redeemScript (lo_Value out)) (lt_Sequence tx))
       taker maker pHash (op_CSV p) (witness_stack (lt_Witness tx))"

definition liquid_signs_for :: "liquid_env \<Rightarrow> (byte list \<Rightarrow> byte list \<Rightarrow> byte list \<Rightarrow> bool) \<Rightarrow> byte list \<Rightarrow> byte list \<Rightarrow> bool" where
  "liquid_signs_for le verify key pubkey \<longleftrightarrow> (\<forall>h sig. le_Sign le key h = Inr sig \<longrightarrow> verify h (sig @ [SigHashAll]) pubkey)"

text \<open>A claim that went out: one transaction that spends the swap's output and satisfies its script.\<close>

definition liquid_claimed where
  "liquid_claimed exec ce le asset p c fee taker maker pHash w w' sequence \<longleftrightarrow>
     (\<exists>tx out redeemScript. lw_sent w' = lw_sent (w :: liquid_world) @ [tx] \<and> liquid_spend ce le asset p c fee out tx \<and> lt_Sequence tx = sequence \<and>
        ParamsToTxScript ce p (op_CSV p) = Inr redeemScript \<and> liquid_accepted exec le p redeemScript taker maker pHash out tx)"

lemma createSpendingTransaction_ok:
  assumes run: "createSpendingTransaction ce le asset (cp_OpeningTxHex c) (op_Amount p) csv redeemScript addr fee (op_BlindingKey p) bf =
      Some (Inr (tx, sigHash))"
    and script: "ParamsToTxScript ce p (op_CSV p) = Inr redeemScript"
  shows "\<exists>out. liquid_spend ce le asset p c fee out (tx\<lparr>lt_Witness := wit\<rparr>) \<and> lt_Sequence tx = csv \<and> lt_Witness tx = [] \<and>
    sigHash = le_HashForWitnessV0 le tx redeemScript (lo_Value out)"
proof -
  from run obtain outs i key ub vbf commitment committed pay where
    parts: "fee \<noteq> 0" "ce_NewTxFromHex ce (cp_OpeningTxHex c) = Inr outs" "FindVout ce outs redeemScript = Inr i" "op_BlindingKey p = Some key"
      "validateOpeningOutput ce asset (outs ! i) (op_Amount p) key = Inr ub"
      "ce_AssetCommitment ce (ub_Asset ub) (OutputAssetBlindingFactor bf) = Inr commitment"
      "le_FinalValueBlindingFactor le (ub_Value ub) (ub_Value ub - fee) (ub_AssetBlindingFactor ub) (OutputAssetBlindingFactor bf)
        (ub_ValueBlindingFactor ub) = Inr vbf" "le_ValueCommitment le (ub_Value ub - fee) commitment vbf = Inr committed"
    and tx: "lt_PrevHash tx = le_TxHash le (cp_OpeningTxHex c)" "lt_Vout tx = word_of_nat i" "lt_Sequence tx = csv" "lt_Witness tx = []"
      "lt_Outputs tx = [pay, le_NewTxOutput le asset (le_ValueToBytes le fee) []]" "lt_Asset pay = commitment" "lt_Value pay = committed"
      "sigHash = le_HashForWitnessV0 le tx redeemScript (lo_Value (outs ! i))"
    by (auto simp: createSpendingTransaction_def Let_def split: if_splits sum.splits option.splits)
  from parts(3) obtain want where find: "liquid_GetOutputScript ce p = Inr want" "i < length outs" "lo_Script (outs ! i) = want"
    using script by (auto simp: FindVout_def liquid_GetOutputScript_def find_script_first split: sum.splits option.splits)
  have ub: "ce_UnblindOutputWithKey ce (outs ! i) key = Inr ub" "ub_Value ub = op_Amount p" "ub_Asset ub = tl asset"
    using parts(5) by (simp_all add: validateOpeningOutput_accepts)
  have "liquid_spend ce le asset p c fee (outs ! i) (tx\<lparr>lt_Witness := wit\<rparr>)"
    unfolding liquid_spend_def using parts tx find ub by auto
  then show ?thesis using tx by blast
qed

lemma send_claim_ok: "send_claim le lw addr tx w = (Inr r, w') \<Longrightarrow> lw_sent w' = lw_sent w @ [tx]"
  by (auto simp: send_claim_def Let_def split: sum.splits)

lemma lw_sent_tick [simp]: "lw_sent (lw_tick w) = lw_sent w"
  by (simp add: lw_tick_def)

lemma prepareSpendingTransaction_ok:
  assumes "prepareSpendingTransaction ce le asset p c addr csv fee bf = Some (Inr (tx, sig, redeemScript))"
  shows "ParamsToTxScript ce p (op_CSV p) = Inr redeemScript \<and> (\<exists>h. le_Sign le (cp_Signer c) h = Inr sig \<and>
    createSpendingTransaction ce le asset (cp_OpeningTxHex c) (op_Amount p) csv redeemScript addr fee (op_BlindingKey p) bf = Some (Inr (tx, h)))"
  using assms by (auto simp: prepareSpendingTransaction_def split: sum.splits option.splits prod.splits)

lemma liquid_claimedI:
  assumes run: "createSpendingTransaction ce le asset (cp_OpeningTxHex c) (op_Amount p) csv redeemScript addr fee (op_BlindingKey p) bf =
      Some (Inr (tx, h))"
    and script: "ParamsToTxScript ce p (op_CSV p) = Inr redeemScript"
    and sent: "send_claim le lw addr (tx\<lparr>lt_Witness := wit\<rparr>) w1 = (Inr r, w')" "lw_sent w1 = lw_sent w"
    and wit: "can_spend (exec h csv) taker maker pHash (op_CSV p) (witness_stack wit)" "last wit = redeemScript"
  shows "liquid_claimed exec ce le asset p c fee taker maker pHash w w' csv"
proof -
  obtain out where out: "liquid_spend ce le asset p c fee out (tx\<lparr>lt_Witness := wit\<rparr>)" "lt_Sequence tx = csv" "lt_Witness tx = []"
    "h = le_HashForWitnessV0 le tx redeemScript (lo_Value out)"
    using createSpendingTransaction_ok [OF run script] by blast
  have same: "tx\<lparr>lt_Witness := []\<rparr> = tx" using out(3) by (cases tx) simp
  have "liquid_accepted exec le p redeemScript taker maker pHash out (tx\<lparr>lt_Witness := wit\<rparr>)"
    unfolding liquid_accepted_def using wit out(2,4) by (simp add: same)
  then show ?thesis
    unfolding liquid_claimed_def using out(1,2) script send_claim_ok [OF sent(1)] sent(2)
    by (intro exI [of _ "tx\<lparr>lt_Witness := wit\<rparr>"] exI [of _ out] exI [of _ redeemScript]) simp
qed

lemmas liquid_claim_splits = sum.splits option.splits prod.splits

lemma liquid_preimage_run:
  assumes "liquid_CreatePreimageSpendingTransaction ce le lw asset p c w = Some (Inr r, w')"
  shows "\<exists>addr bf tx sig redeemScript pre. MakePreimageFromStr (cp_Preimage c) = (pre, None) \<and>
    prepareSpendingTransaction ce le asset p c addr 0 (claim_fee lw transactionKindPreimageSpending (lw_clock w)) bf = Some (Inr (tx, sig, redeemScript)) \<and>
    send_claim le lw addr (tx\<lparr>lt_Witness := GetPreimageWitness sig pre redeemScript\<rparr>) (lw_tick (lw_tick (lw_tick w))) = (Inr r, w')"
  using assms
  by (auto simp: liquid_CreatePreimageSpendingTransaction_def liquid_createPreimageSpendingTransaction_def Let_def split: liquid_claim_splits) metis

lemma liquid_csv_run:
  assumes "liquid_CreateCsvSpendingTransaction ce le lw asset p c w = Some (Inr r, w')"
  shows "\<exists>addr bf tx sig redeemScript.
    prepareSpendingTransaction ce le asset p c addr (op_CSV p) (claim_fee lw transactionKindPreimageSpending (lw_clock w)) bf =
      Some (Inr (tx, sig, redeemScript)) \<and>
    send_claim le lw addr (tx\<lparr>lt_Witness := GetCsvWitness sig redeemScript\<rparr>) (lw_tick (lw_tick (lw_tick w))) = (Inr r, w')"
  using assms
  by (auto simp: liquid_CreateCsvSpendingTransaction_def liquid_createCsvSpendingTransaction_def Let_def split: liquid_claim_splits) metis

lemma liquid_coop_run:
  assumes "liquid_CreateCoopSpendingTransaction ce le lw asset p c takerKey w = Some (Inr r, w')"
  shows "\<exists>addr bf tx h sig sig' redeemScript. ParamsToTxScript ce p (op_CSV p) = Inr redeemScript \<and>
    createSpendingTransaction ce le asset (cp_OpeningTxHex c) (op_Amount p) 0 redeemScript addr (claim_fee lw transactionKindCoop (lw_clock w))
      (op_BlindingKey p) bf = Some (Inr (tx, h)) \<and> le_Sign le takerKey h = Inr sig \<and> le_Sign le (cp_Signer c) h = Inr sig' \<and>
    send_claim le lw addr (tx\<lparr>lt_Witness := GetCooperativeWitness sig sig' redeemScript\<rparr>) (lw_tick (lw_tick (lw_tick w))) = (Inr r, w')"
  using assms
  by (auto simp: liquid_CreateCoopSpendingTransaction_def liquid_createCoopSpendingTransaction_def Let_def split: liquid_claim_splits) metis

text \<open>
  C26. The claims on Liquid.  With signers whose signatures verify, the preimage of the payment hash,
  and a refund delay that is not zero, each claim that succeeds has sent one transaction.  It spends the
  output of the swap, of which it has checked amount and asset; it pays what the fee leaves of the
  amount, in the policy asset, and the fee; and its witness satisfies the opening script, for the
  refund with the sequence number of the swap's delay.
\<close>

theorem liquid_claims_accepted:
  assumes "network_rules verify sha num exec" "0 < op_CSV p"
    "hex_bytes (op_TakerPubkey p) = Inr taker" "hex_bytes (op_MakerPubkey p) = Inr maker" "hex_bytes (op_ClaimPaymentHash p) = Inr pHash"
  shows "(liquid_CreatePreimageSpendingTransaction ce le lw asset p c w = Some (Inr r, w') \<and> liquid_signs_for le verify (cp_Signer c) taker \<and>
       sha (fst (MakePreimageFromStr (cp_Preimage c))) = pHash \<longrightarrow>
     liquid_claimed exec ce le asset p c (claim_fee lw transactionKindPreimageSpending (lw_clock w)) taker maker pHash w w' 0) \<and>
   (liquid_CreateCsvSpendingTransaction ce le lw asset p c w = Some (Inr r, w') \<and> liquid_signs_for le verify (cp_Signer c) maker \<longrightarrow>
     liquid_claimed exec ce le asset p c (claim_fee lw transactionKindPreimageSpending (lw_clock w)) taker maker pHash w w' (op_CSV p)) \<and>
   (liquid_CreateCoopSpendingTransaction ce le lw asset p c takerKey w = Some (Inr r, w') \<and> liquid_signs_for le verify (cp_Signer c) maker \<and>
       liquid_signs_for le verify takerKey taker \<longrightarrow>
     liquid_claimed exec ce le asset p c (claim_fee lw transactionKindCoop (lw_clock w)) taker maker pHash w w' 0)"
proof (intro conjI impI)
  have rules: "script_rules (verify h) sha (\<lambda>n. n \<le> uint sequence) num (exec h sequence)" "\<not> verify h [] maker" for h sequence
    using assms(1) by (simp_all add: network_rules_def)
  {
    assume run: "liquid_CreatePreimageSpendingTransaction ce le lw asset p c w = Some (Inr r, w') \<and> liquid_signs_for le verify (cp_Signer c) taker \<and>
      sha (fst (MakePreimageFromStr (cp_Preimage c))) = pHash"
    let ?fee = "claim_fee lw transactionKindPreimageSpending (lw_clock w)"
    from liquid_preimage_run [OF conjunct1 [OF run]] obtain addr bf tx sig redeemScript pre where steps: "prepareSpendingTransaction ce le asset p c addr 0 ?fee bf =
        Some (Inr (tx, sig, redeemScript))" "MakePreimageFromStr (cp_Preimage c) = (pre, None)"
      "send_claim le lw addr (tx\<lparr>lt_Witness := GetPreimageWitness sig pre redeemScript\<rparr>) (lw_tick (lw_tick (lw_tick w))) = (Inr r, w')"
      by blast
    from prepareSpendingTransaction_ok [OF steps(1)] obtain h where prep: "ParamsToTxScript ce p (op_CSV p) = Inr redeemScript"
      "le_Sign le (cp_Signer c) h = Inr sig" "createSpendingTransaction ce le asset (cp_OpeningTxHex c) (op_Amount p) 0 redeemScript addr ?fee
        (op_BlindingKey p) bf = Some (Inr (tx, h))"
      by blast
    have "verify h (sig @ [SigHashAll]) taker" "sha pre = pHash"
      using run prep(2) steps(2) by (auto simp: liquid_signs_for_def)
    with preimage_witness [OF rules this(1) MakePreimageFromStr_length [OF steps(2)] this(2)]
    show "liquid_claimed exec ce le asset p c ?fee taker maker pHash w w' 0"
      by (intro liquid_claimedI [OF prep(3,1) steps(3)]) (simp_all add: GetPreimageWitness_def)
  next
    assume run: "liquid_CreateCsvSpendingTransaction ce le lw asset p c w = Some (Inr r, w') \<and> liquid_signs_for le verify (cp_Signer c) maker"
    let ?fee = "claim_fee lw transactionKindPreimageSpending (lw_clock w)"
    from liquid_csv_run [OF conjunct1 [OF run]] obtain addr bf tx sig redeemScript where steps: "prepareSpendingTransaction ce le asset p c addr (op_CSV p) ?fee bf =
        Some (Inr (tx, sig, redeemScript))"
      "send_claim le lw addr (tx\<lparr>lt_Witness := GetCsvWitness sig redeemScript\<rparr>) (lw_tick (lw_tick (lw_tick w))) = (Inr r, w')"
      by blast
    from prepareSpendingTransaction_ok [OF steps(1)] obtain h where prep: "ParamsToTxScript ce p (op_CSV p) = Inr redeemScript"
      "le_Sign le (cp_Signer c) h = Inr sig" "createSpendingTransaction ce le asset (cp_OpeningTxHex c) (op_Amount p) (op_CSV p) redeemScript addr ?fee
        (op_BlindingKey p) bf = Some (Inr (tx, h))"
      by blast
    have "verify h (sig @ [SigHashAll]) maker" using run prep(2) by (auto simp: liquid_signs_for_def)
    with csv_witness [OF rules(1) assms(2) this]
    show "liquid_claimed exec ce le asset p c ?fee taker maker pHash w w' (op_CSV p)"
      by (intro liquid_claimedI [OF prep(3,1) steps(2)]) (simp_all add: GetCsvWitness_def)
  next
    assume run: "liquid_CreateCoopSpendingTransaction ce le lw asset p c takerKey w = Some (Inr r, w') \<and> liquid_signs_for le verify (cp_Signer c) maker \<and>
      liquid_signs_for le verify takerKey taker"
    let ?fee = "claim_fee lw transactionKindCoop (lw_clock w)"
    from liquid_coop_run [OF conjunct1 [OF run]] obtain addr bf tx h sig sig' redeemScript where steps: "ParamsToTxScript ce p (op_CSV p) = Inr redeemScript"
      "createSpendingTransaction ce le asset (cp_OpeningTxHex c) (op_Amount p) 0 redeemScript addr ?fee (op_BlindingKey p) bf = Some (Inr (tx, h))"
      "le_Sign le takerKey h = Inr sig" "le_Sign le (cp_Signer c) h = Inr sig'"
      "send_claim le lw addr (tx\<lparr>lt_Witness := GetCooperativeWitness sig sig' redeemScript\<rparr>) (lw_tick (lw_tick (lw_tick w))) = (Inr r, w')"
      by blast
    have "verify h (sig' @ [SigHashAll]) maker" "verify h (sig @ [SigHashAll]) taker"
      using run steps(3,4) by (auto simp: liquid_signs_for_def)
    with cooperative_witness [OF rules this]
    show "liquid_claimed exec ce le asset p c ?fee taker maker pHash w w' 0"
      by (intro liquid_claimedI [OF steps(2,1,5)]) (simp_all add: GetCooperativeWitness_def)
  }
qed

text \<open>
  A refund on Liquid, with the opening transaction of \<^const>\<open>example_chain\<close> and commitments that are
  the bytes they commit to.
\<close>

definition example_liquid :: liquid_env where
  "example_liquid = \<lparr>le_FinalValueBlindingFactor = (\<lambda>_ _ _ _ _. Inr [1]), le_ValueCommitment = (\<lambda>_ _ _. Inr [2]),
     le_SurjectionProof = (\<lambda>_ _ _ _ _. Some [3]), le_FromConfidential = (\<lambda>_. Inr [4]), le_TxHash = (\<lambda>_. [5]), le_NonceHash = (\<lambda>_ _. Inr [6]),
     le_RangeProof = (\<lambda>_. Inr [7]), le_PubKey = (\<lambda>k. k),
     le_NewTxOutput = (\<lambda>a v s. \<lparr>lt_Asset = a, lt_Value = v, lt_Script = s, lt_Nonce = [], lt_RangeProof = [], lt_SurjectionProof = []\<rparr>),
     le_ValueToBytes = (\<lambda>_. [8]), le_HashForWitnessV0 = (\<lambda>_ _ _. [9]), le_Sign = (\<lambda>key _. Inr key), le_ToHex = (\<lambda>_. Inr []),
     le_ConfidentialWitnessScriptHash = (\<lambda>_ _. Some (Inr []))\<rparr>"

definition example_liquid_wallet :: liquid_wallet where
  "example_liquid_wallet = \<lparr>lw_GetFee = (\<lambda>_ _. Inr 3), lw_GetAddress = (\<lambda>_. Inr []), lw_random = (\<lambda>_. ([1], [2])),
     lw_NewPrivateKey = (\<lambda>_. Inr [3]), lw_SendRawTx = (\<lambda>_ _. Inr []), lw_CreateAndBroadcastTransaction = (\<lambda>_ _ _ _. Inr ([], [], 1))\<rparr>"

definition example_liquid_chain :: chain_env where
  "example_liquid_chain = example_chain\<lparr>ce_AssetCommitment := (\<lambda>a _. Inr a)\<rparr>"

lemmas example_liquid_defs = liquid_CreateCsvSpendingTransaction_def liquid_createCsvSpendingTransaction_def prepareSpendingTransaction_def
  createSpendingTransaction_def send_claim_def FindVout_def validateOpeningOutput_def AddBlindingRandomFactors_def claim_fee_def
  ParamsToTxScript_def GetOpeningTxScript_def hex_bytes_def example_chain_def example_params_def example_liquid_def example_claim_def
  example_liquid_wallet_def example_liquid_chain_def lw_tick_def Let_def

theorem liquid_claims_accepted_witness:
  "\<exists>r w'. liquid_CreateCsvSpendingTransaction example_liquid_chain example_liquid example_liquid_wallet (1 # replicate 32 4) example_params example_claim
       \<lparr>lw_clock = 0, lw_sent = []\<rparr> = Some (Inr r, w') \<and>
     liquid_claimed example_exec example_liquid_chain example_liquid (1 # replicate 32 4) example_params example_claim
       (claim_fee example_liquid_wallet transactionKindPreimageSpending 0) [] [] [] \<lparr>lw_clock = 0, lw_sent = []\<rparr> w' 60"
proof -
  let ?w = "\<lparr>lw_clock = 0, lw_sent = []\<rparr>"
  have "\<exists>r w'. liquid_CreateCsvSpendingTransaction example_liquid_chain example_liquid example_liquid_wallet (1 # replicate 32 4)
      example_params example_claim ?w = Some (Inr r, w')"
    by (simp add: example_liquid_defs)
  then obtain r w' where run: "liquid_CreateCsvSpendingTransaction example_liquid_chain example_liquid example_liquid_wallet (1 # replicate 32 4)
      example_params example_claim ?w = Some (Inr r, w')"
    by blast
  have keys: "0 < op_CSV example_params" "hex_bytes (op_TakerPubkey example_params) = Inr []" "hex_bytes (op_MakerPubkey example_params) = Inr []"
      "hex_bytes (op_ClaimPaymentHash example_params) = Inr []"
    and signer: "liquid_signs_for example_liquid (\<lambda>h sg k. sg = k @ [SigHashAll]) (cp_Signer example_claim) []"
    and csv: "op_CSV example_params = 60"
    by (simp_all add: example_params_def hex_bytes_def liquid_signs_for_def example_liquid_def example_claim_def)
  note claims = liquid_claims_accepted [OF example_rules keys, where le = example_liquid and w = ?w and r = r and w' = w']
  from claims [THEN conjunct2, THEN conjunct1, rule_format, OF conjI [OF run signer]] show ?thesis
    using run csv by (cases r) auto
qed

end
