(* ===== verification/PS_LndSpending.thy ===== *)
theory PS_LndSpending
  imports PS_Spending
begin

text \<open>
  The claims of the lnd client as \<open>lnd/lnd_wallet.go\<close> writes them, and that they are the claims of the model of both nodes: what is
  proved there of a published claim holds for lnd.  Unlike Core Lightning's, each returns the hash of the transaction it built and
  the address it pays to.
\<close>

definition lnd_publish :: "tx_env \<Rightarrow> bitcoin_wallet \<Rightarrow> string \<Rightarrow> spending_tx \<Rightarrow> spend_world \<Rightarrow> claim_result" where
  "lnd_publish te bw address tx w = (case te_Serialize te tx of
     Inl e \<Rightarrow> (Inl e, w)
   | Inr bytesBuffer \<Rightarrow> (case bw_Publish bw (sw_clock w) tx of
       Inl e \<Rightarrow> (Inl e, w\<lparr>sw_clock := Suc (sw_clock w), sw_published := sw_published w @ [tx]\<rparr>)
     | Inr _ \<Rightarrow> (Inr (te_TxHash te tx, hex_EncodeToString bytesBuffer, address),
         w\<lparr>sw_clock := Suc (sw_clock w), sw_published := sw_published w @ [tx]\<rparr>)))"

definition lnd_CreatePreimageSpendingTransaction ::
  "chain_env \<Rightarrow> tx_env \<Rightarrow> BitcoinOnChain \<Rightarrow> bitcoin_wallet \<Rightarrow> OpeningParams \<Rightarrow> ClaimParams \<Rightarrow> spend_world \<Rightarrow> claim_result option" where
  "lnd_CreatePreimageSpendingTransaction ce te b bw swapParams claimParams w =
     (case bitcoin_GetVoutAndVerify ce (cp_OpeningTxHex claimParams) swapParams of
        Inl e \<Rightarrow> Some (Inl e, w)
      | Inr (_, vout) \<Rightarrow> (case bw_NewAddress bw (sw_clock w) of
        Inl e \<Rightarrow> Some (Inl e, sw_tick w)
      | Inr newAddr \<Rightarrow>
     (case PrepareSpendingTransaction ce te b (bw_estimate bw (sw_clock (sw_tick w))) swapParams claimParams newAddr vout 0 0 of
        None \<Rightarrow> None
      | Some (Inl e) \<Rightarrow> Some (Inl e, sw_tick (sw_tick w))
      | Some (Inr (tx, sigHash, redeemScript)) \<Rightarrow> (case te_Sign te (cp_Signer claimParams) sigHash of
        Inl e \<Rightarrow> Some (Inl e, sw_tick (sw_tick w))
      | Inr sigBytes \<Rightarrow> (case MakePreimageFromStr (cp_Preimage claimParams) of
        (_, Some e) \<Rightarrow> Some (Inl e, sw_tick (sw_tick w))
      | (preimage, None) \<Rightarrow> Some (lnd_publish te bw newAddr
          (tx\<lparr>in_Witness := GetPreimageWitness sigBytes preimage redeemScript\<rparr>) (sw_tick (sw_tick w))))))))"

definition lnd_CreateCsvSpendingTransaction ::
  "chain_env \<Rightarrow> tx_env \<Rightarrow> BitcoinOnChain \<Rightarrow> bitcoin_wallet \<Rightarrow> OpeningParams \<Rightarrow> ClaimParams \<Rightarrow> spend_world \<Rightarrow> claim_result option" where
  "lnd_CreateCsvSpendingTransaction ce te b bw swapParams claimParams w = (case bw_NewAddress bw (sw_clock w) of
        Inl e \<Rightarrow> Some (Inl e, sw_tick w)
      | Inr newAddr \<Rightarrow> (case bitcoin_GetVoutAndVerify ce (cp_OpeningTxHex claimParams) swapParams of
        Inl e \<Rightarrow> Some (Inl e, sw_tick w)
      | Inr (_, vout) \<Rightarrow>
     (case PrepareSpendingTransaction ce te b (bw_estimate bw (sw_clock (sw_tick w))) swapParams claimParams newAddr vout BitcoinCsv 0 of
        None \<Rightarrow> None
      | Some (Inl e) \<Rightarrow> Some (Inl e, sw_tick (sw_tick w))
      | Some (Inr (tx, sigHash, redeemScript)) \<Rightarrow> (case te_Sign te (cp_Signer claimParams) sigHash of
        Inl e \<Rightarrow> Some (Inl e, sw_tick (sw_tick w))
      | Inr sigBytes \<Rightarrow> Some (lnd_publish te bw newAddr (tx\<lparr>in_Witness := GetCsvWitness sigBytes redeemScript\<rparr>) (sw_tick (sw_tick w)))))))"

definition lnd_CreateCoopSpendingTransaction ::
  "chain_env \<Rightarrow> tx_env \<Rightarrow> BitcoinOnChain \<Rightarrow> bitcoin_wallet \<Rightarrow> OpeningParams \<Rightarrow> ClaimParams \<Rightarrow> byte list \<Rightarrow> spend_world \<Rightarrow> claim_result option" where
  "lnd_CreateCoopSpendingTransaction ce te b bw swapParams claimParams takerSigner w = (case bw_NewAddress bw (sw_clock w) of
        Inl e \<Rightarrow> Some (Inl e, sw_tick w)
      | Inr refundAddr \<Rightarrow>
     (let refundFee = GetFee b (bw_estimate bw (sw_clock (sw_tick w))) 250; w = sw_tick (sw_tick w) in
      case bitcoin_GetVoutAndVerify ce (cp_OpeningTxHex claimParams) swapParams of
        Inl e \<Rightarrow> Some (Inl e, w)
      | Inr (_, vout) \<Rightarrow>
     (case PrepareSpendingTransaction ce te b (bw_estimate bw (sw_clock w)) swapParams claimParams refundAddr vout 0 refundFee of
        None \<Rightarrow> None
      | Some (Inl e) \<Rightarrow> Some (Inl e, sw_tick w)
      | Some (Inr (spendingTx, sigHashBytes, redeemScript)) \<Rightarrow> (case te_Sign te takerSigner sigHashBytes of
        Inl e \<Rightarrow> Some (Inl e, sw_tick w)
      | Inr takerSig \<Rightarrow> (case te_Sign te (cp_Signer claimParams) sigHashBytes of
        Inl e \<Rightarrow> Some (Inl e, sw_tick w)
      | Inr makerSig \<Rightarrow> Some (lnd_publish te bw refundAddr
          (spendingTx\<lparr>in_Witness := GetCooperativeWitness takerSig makerSig redeemScript\<rparr>) (sw_tick w)))))))"

lemma lnd_publish_claim: "bw_node bw = LND \<Longrightarrow> publish_claim te bw answer_hash address tx w = lnd_publish te bw address tx w"
  by (auto simp: publish_claim_def lnd_publish_def Let_def split: sum.split)

text \<open>The claims of the lnd client are the claims of the model of both nodes.\<close>

theorem lnd_claims_agree:
  assumes "bw_node bw = LND"
  shows "lnd_CreatePreimageSpendingTransaction ce te b bw p c w = CreatePreimageSpendingTransaction ce te b bw p c w \<and>
    lnd_CreateCsvSpendingTransaction ce te b bw p c w = CreateCsvSpendingTransaction ce te b bw p c w \<and>
    lnd_CreateCoopSpendingTransaction ce te b bw p c takerSigner w = CreateCoopSpendingTransaction ce te b bw p c takerSigner w"
  using assms
  by (simp add: lnd_CreatePreimageSpendingTransaction_def CreatePreimageSpendingTransaction_def lnd_CreateCsvSpendingTransaction_def
      CreateCsvSpendingTransaction_def lnd_CreateCoopSpendingTransaction_def CreateCoopSpendingTransaction_def claim_vout_def
      prepare_and_sign_def lnd_publish_claim Let_def split: sum.split option.split prod.split)

end
