(* ===== verification/PS_Wallets.thy ===== *)
theory PS_Wallets
  imports PS_LiquidSpending PS_Fees
begin

text \<open>
  The two Liquid wallets: elementsd's (\<open>wallet/elementsrpcwallet.go\<close>, with the start of its client in
  \<open>elements/client.go\<close>) and the one of the Liquid Wallet Kit (\<open>lwk/lwkwallet.go\<close>), with the Electrum client
  (\<open>electrum/client.go\<close>).

  The servers' RPC interfaces are parameters, read at a clock that advances with every call; every transaction
  handed to a server is recorded with its answer.  A fee rate is a non-negative \<open>float64\<close>: a significand and a
  number of binary places.
\<close>

section \<open>Numbers\<close>

type_synonym f64 = "nat \<times> nat"

definition f64_less :: "f64 \<Rightarrow> f64 \<Rightarrow> bool" where
  "f64_less a b \<longleftrightarrow> fst a * 2 ^ snd b < fst b * 2 ^ snd a"

definition f64_mult :: "f64 \<Rightarrow> f64 \<Rightarrow> f64" where
  "f64_mult a b = f64_quot (fst a * fst b) (2 ^ (snd a + snd b))"

definition f64_div :: "f64 \<Rightarrow> nat \<Rightarrow> f64" where
  "f64_div a n = f64_quot (fst a) (n * 2 ^ snd a)"

definition f64_trunc :: "f64 \<Rightarrow> nat" where
  "f64_trunc a = fst a div 2 ^ snd a"

text \<open>\<open>math.Round\<close>: half away from zero.\<close>

definition math_Round :: "f64 \<Rightarrow> nat" where
  "math_Round a = (2 * fst a + 2 ^ snd a) div (2 * 2 ^ snd a)"

definition satsPerBTC :: nat where "satsPerBTC = 100000000"

text \<open>\<open>fmt.Sprintf("%d.%08d", sats/satsPerBTC, sats%satsPerBTC)\<close>.\<close>

definition pad0 :: "nat \<Rightarrow> string \<Rightarrow> string" where
  "pad0 n s = replicate (n - length s) CHR ''0'' @ s"

definition SatsToBTCString :: "u64 \<Rightarrow> string" where
  "SatsToBTCString sats = fmt_nat (unat sats div satsPerBTC) @ ''.'' @ pad0 8 (fmt_nat (unat sats mod satsPerBTC))"

text \<open>\<open>if err != nil && p(err)\<close>.\<close>

definition filter_err :: "(go_error \<Rightarrow> bool) \<Rightarrow> go_error option \<Rightarrow> go_error option" where
  "filter_err p err = (case err of None \<Rightarrow> None | Some e \<Rightarrow> if p e then Some e else None)"

definition strings_HasPrefix :: "string \<Rightarrow> string \<Rightarrow> bool" where
  "strings_HasPrefix s p \<longleftrightarrow> take (length p) s = p"

definition strings_Contains :: "string \<Rightarrow> string \<Rightarrow> bool" where
  "strings_Contains s p \<longleftrightarrow> list_ex (\<lambda>k. strings_HasPrefix (drop k s) p) [0..<Suc (length s)]"

section \<open>The wallet of elementsd (\<open>wallet/elementsrpcwallet.go\<close>)\<close>

definition NotEnoughBalanceError :: go_error where "NotEnoughBalanceError = ErrText ''Not enough balance on utxos''"
definition MinRelayFeeNotMetError :: go_error where "MinRelayFeeNotMetError = ErrText ''MinRelayFee not met''"
definition LiquidTargetBlocks :: u32 where "LiquidTargetBlocks = 7"

text \<open>
  \<open>el_TxHex asset value script nonce\<close> is the hexadecimal text of a transaction of version 2 with this one output;
  an error of \<open>sendrawtransaction\<close> has a code when it is an RPC error; \<open>el_DecodeRawTx\<close> answers the discount
  size of the built-in example transaction.
\<close>

record elements_env =
  el_ToOutputScript :: "string \<Rightarrow> go_error + byte list"
  el_ValueToBytes :: "u64 \<Rightarrow> go_error + byte list"
  el_PubKey :: "byte list \<Rightarrow> byte list"
  el_TxHex :: "byte list \<Rightarrow> byte list \<Rightarrow> byte list \<Rightarrow> byte list \<Rightarrow> go_error + string"
  el_EstimateFee :: "nat \<Rightarrow> u32 \<Rightarrow> string \<Rightarrow> go_error + f64 \<times> string list"
  el_FundRawWithOptions :: "nat \<Rightarrow> string \<Rightarrow> string \<Rightarrow> go_error + string \<times> f64"
  el_ConvertBtc :: "f64 \<Rightarrow> u64"
  el_BlindRawTransaction :: "nat \<Rightarrow> string \<Rightarrow> go_error + string"
  el_SignRawTransactionWithWallet :: "nat \<Rightarrow> string \<Rightarrow> go_error + string"
  el_SendRawTx :: "nat \<Rightarrow> string \<Rightarrow> (go_error \<times> int option) + string"
  el_SendToAddress :: "nat \<Rightarrow> string \<Rightarrow> string \<Rightarrow> go_error + string"
  el_ListWallets :: "nat \<Rightarrow> go_error + string list"
  el_LoadWallet :: "nat \<Rightarrow> string \<Rightarrow> bool \<Rightarrow> go_error option"
  el_CreateWallet :: "nat \<Rightarrow> string \<Rightarrow> go_error option"
  el_DecodeRawTx :: "nat \<Rightarrow> go_error + int"

text \<open>The transactions and payments given to a server, with its answers, and the wallet in use.\<close>

record wallet_world =
  ww_clock :: nat
  ww_sent :: "(string \<times> (go_error + string)) list"
  ww_paid :: "(string \<times> string \<times> (go_error + string)) list"
  ww_wallet :: "string option"

definition ww_tick :: "wallet_world \<Rightarrow> wallet_world" where
  "ww_tick w = w\<lparr>ww_clock := Suc (ww_clock w)\<rparr>"

definition FinalizeTransaction :: "elements_env \<Rightarrow> string \<Rightarrow> wallet_world \<Rightarrow> (go_error + string) \<times> wallet_world" where
  "FinalizeTransaction en rawTx w = (case el_BlindRawTransaction en (ww_clock w) rawTx of
     Inl e \<Rightarrow> (Inl e, ww_tick w)
   | Inr blinded \<Rightarrow> (let w = ww_tick w in (el_SignRawTransactionWithWallet en (ww_clock w) blinded, ww_tick w)))"

definition elements_SendRawTx :: "elements_env \<Rightarrow> string \<Rightarrow> wallet_world \<Rightarrow> (go_error + string) \<times> wallet_world" where
  "elements_SendRawTx en txHex w =
     (let r = (case el_SendRawTx en (ww_clock w) txHex of
        Inl (e, code) \<Rightarrow> Inl (if code = Some (- 26) then MinRelayFeeNotMetError else e) | Inr txid \<Rightarrow> Inr txid)
      in (r, (ww_tick w)\<lparr>ww_sent := ww_sent w @ [(txHex, r)]\<rparr>))"

text \<open>0.000001 BTC per kB.\<close>

definition minFeeRateBTCPerKb :: f64 where "minFeeRateBTCPerKb = f64_quot 1 1000000"

definition getFeeRate :: "elements_env \<Rightarrow> nat \<Rightarrow> go_error + f64" where
  "getFeeRate en t = (case el_EstimateFee en t LiquidTargetBlocks ''ECONOMICAL'' of
     Inl e \<Rightarrow> Inl e
   | Inr (feeRate, errs) \<Rightarrow>
       if errs \<noteq> [] then Inr minFeeRateBTCPerKb
       else Inr (if f64_less minFeeRateBTCPerKb feeRate then feeRate else minFeeRateBTCPerKb))"

definition elements_GetFee :: "elements_env \<Rightarrow> nat \<Rightarrow> int \<Rightarrow> go_error + u64" where
  "elements_GetFee en t txSize = (case getFeeRate en t of
     Inl e \<Rightarrow> Inl (ErrText (''error getting fee rate: '' @ Error e))
   | Inr feeRate \<Rightarrow>
       (let satPerByte = f64_div (f64_mult feeRate (satsPerBTC, 0)) 1000
        in Inr (word_of_nat (f64_trunc (f64_mult satPerByte (nat txSize, 0))))))"

definition elements_CreateAndBroadcastTransaction ::
  "elements_env \<Rightarrow> string \<Rightarrow> u64 \<Rightarrow> byte list \<Rightarrow> byte list \<Rightarrow> wallet_world \<Rightarrow> (go_error + string \<times> string \<times> u64) \<times> wallet_world" where
  "elements_CreateAndBroadcastTransaction en openingAddress amount blindingKey asset w =
     (case el_ToOutputScript en openingAddress of
        Inl e \<Rightarrow> (Inl e, w)
      | Inr outputscript \<Rightarrow> (case el_ValueToBytes en amount of
        Inl e \<Rightarrow> (Inl e, w)
      | Inr sats \<Rightarrow> (case el_TxHex en asset sats outputscript (el_PubKey en blindingKey) of
        Inl e \<Rightarrow> (Inl e, w)
      | Inr txHex \<Rightarrow> (case getFeeRate en (ww_clock w) of
        Inl e \<Rightarrow> (Inl e, ww_tick w)
      | Inr feerate \<Rightarrow> (let w = ww_tick w; satPerKb = word_of_nat (math_Round (f64_mult feerate (satsPerBTC, 0))) in
          case el_FundRawWithOptions en (ww_clock w) txHex (SatsToBTCString satPerKb) of
        Inl e \<Rightarrow> (Inl e, ww_tick w)
      | Inr (funded, fee) \<Rightarrow> (case FinalizeTransaction en funded (ww_tick w) of
        (Inl e, w) \<Rightarrow> (Inl e, w)
      | (Inr finalized, w) \<Rightarrow> (case elements_SendRawTx en finalized w of
        (Inl e, w) \<Rightarrow> (Inl e, w)
      | (Inr txid, w) \<Rightarrow> (Inr (txid, finalized, el_ConvertBtc en fee), w))))))))"

definition elements_SendToAddress :: "elements_env \<Rightarrow> string \<Rightarrow> u64 \<Rightarrow> wallet_world \<Rightarrow> (go_error + string) \<times> wallet_world" where
  "elements_SendToAddress en address amount w =
     (let r = el_SendToAddress en (ww_clock w) address (SatsToBTCString amount)
      in (r, (ww_tick w)\<lparr>ww_paid := ww_paid w @ [(address, SatsToBTCString amount, r)]\<rparr>))"

definition acceptdiscountctIsEnabled :: "elements_env \<Rightarrow> nat \<Rightarrow> go_error + bool" where
  "acceptdiscountctIsEnabled en t = (case el_DecodeRawTx en t of
     Inl e \<Rightarrow> Inl (ErrText (''failed to check acceptdiscountctIsEnabled: '' @ Error e))
   | Inr discountVirtualSize \<Rightarrow> Inr (discountVirtualSize \<noteq> 0))"

definition elements_setupWallet :: "elements_env \<Rightarrow> string \<Rightarrow> wallet_world \<Rightarrow> go_error option \<times> wallet_world" where
  "elements_setupWallet en walletName w = (case el_ListWallets en (ww_clock w) of
     Inl e \<Rightarrow> (Some e, ww_tick w)
   | Inr loadedWallets \<Rightarrow>
       (let w = ww_tick w;
            (failed, w) = (if walletName \<in> set loadedWallets then (None, w)
              else (case el_LoadWallet en (ww_clock w) walletName True of
                  None \<Rightarrow> (None, ww_tick w)
                | Some e \<Rightarrow>
                    if strings_Contains (Error e) ''Wallet file verification failed'' \<or> strings_Contains (Error e) ''not found''
                    then (el_CreateWallet en (Suc (ww_clock w)) walletName, ww_tick (ww_tick w))
                    else (Some e, ww_tick w)))
        in case failed of
          Some e \<Rightarrow> (Some e, w)
        | None \<Rightarrow> (let w = w\<lparr>ww_wallet := Some walletName\<rparr> in
            case acceptdiscountctIsEnabled en (ww_clock w) of
              Inl e \<Rightarrow> (Some e, ww_tick w)
            | Inr enabled \<Rightarrow> (if enabled then None else Some (ErrText ''accept-discount-ct is not enabled''), ww_tick w))))"

section \<open>The version of elementsd (\<open>elements/client.go\<close>)\<close>

definition minLiquidMainnetElementsVersion :: int where "minLiquidMainnetElementsVersion = 230301"

text \<open>Go's division truncates; a version is not negative.\<close>

definition formatElementsVersion :: "int \<Rightarrow> string" where
  "formatElementsVersion version = fmt_int (version div 10000) @ ''.'' @ fmt_int (version div 100 mod 100) @ ''.'' @ fmt_int (version mod 100)"

definition validateLiquidMainnetElementsVersion :: "string \<Rightarrow> int \<Rightarrow> string \<Rightarrow> go_error option" where
  "validateLiquidMainnetElementsVersion chain version subversion =
     (if chain \<noteq> ''liquidv1'' \<or> minLiquidMainnetElementsVersion \<le> version then None
      else Some (ErrText (''unsupported elementsd version for Liquid mainnet: Liquid mainnet requires elementsd 23.3.1 or newer after ELIP 203; '' @
        ''detected version '' @ formatElementsVersion version @ '' ('' @ subversion @
        ''). Upgrade to Elements 23.3.1 or newer, preferably 23.3.3'')))"

definition checkLiquidMainnetElementsVersion :: "(nat \<Rightarrow> go_error + int \<times> string) \<Rightarrow> nat \<Rightarrow> string \<Rightarrow> go_error option" where
  "checkLiquidMainnetElementsVersion getNetworkInfo t chain = (if chain \<noteq> ''liquidv1'' then None
     else (case getNetworkInfo t of Inl e \<Rightarrow> Some e
       | Inr (version, subversion) \<Rightarrow> validateLiquidMainnetElementsVersion chain version subversion))"

section \<open>The Electrum client (\<open>electrum/client.go\<close>)\<close>

text \<open>
  \<open>ec_Ping\<close> and \<open>ec_connect\<close> answer for the current and for a new connection.  A failed call is retried only when the
  error says that the transaction is missing, at most ten times, and while \<open>ec_patience\<close>, the number of retries
  that fit into two minutes, lasts.
\<close>

record electrum_client_env =
  ec_Ping :: "nat \<Rightarrow> go_error option"
  ec_connect :: "nat \<Rightarrow> go_error option"
  ec_GetRawTransaction :: "nat \<Rightarrow> string \<Rightarrow> go_error + string"
  ec_BroadcastTransaction :: "nat \<Rightarrow> string \<Rightarrow> go_error + string"
  ec_GetFee :: "nat \<Rightarrow> u32 \<Rightarrow> f64 \<times> go_error option"
  ec_patience :: nat

definition ec_reconnect :: "electrum_client_env \<Rightarrow> nat \<Rightarrow> go_error option" where
  "ec_reconnect en t = (case ec_Ping en t of None \<Rightarrow> None | Some _ \<Rightarrow> ec_connect en t)"

definition maxRetries :: nat where "maxRetries = 10"

fun retryWithBackoff :: "nat \<Rightarrow> (nat \<Rightarrow> go_error + 'a) \<Rightarrow> nat \<Rightarrow> (go_error + 'a) \<times> nat" where
  "retryWithBackoff n operation t = (case operation t of
     Inr a \<Rightarrow> (Inr a, Suc t)
   | Inl e \<Rightarrow>
       if strings_Contains (Error e) ''missing transaction''
       then (case n of 0 \<Rightarrow> (Inl e, Suc t) | Suc m \<Rightarrow> retryWithBackoff m operation (Suc t))
       else (Inl (ErrWrap ''permanent error'' e), Suc t))"

declare retryWithBackoff.simps [simp del]

definition electrum_GetRawTransaction :: "electrum_client_env \<Rightarrow> string \<Rightarrow> nat \<Rightarrow> (go_error + string) \<times> nat" where
  "electrum_GetRawTransaction en txHash t = retryWithBackoff (min maxRetries (ec_patience en))
     (\<lambda>t. case ec_reconnect en t of Some e \<Rightarrow> Inl e | None \<Rightarrow> ec_GetRawTransaction en t txHash) t"

definition electrum_BroadcastTransaction :: "electrum_client_env \<Rightarrow> nat \<Rightarrow> string \<Rightarrow> go_error + string" where
  "electrum_BroadcastTransaction en t rawTx = (case ec_reconnect en t of Some e \<Rightarrow> Inl e | None \<Rightarrow> ec_BroadcastTransaction en t rawTx)"

definition electrum_GetFee :: "electrum_client_env \<Rightarrow> nat \<Rightarrow> u32 \<Rightarrow> f64 \<times> go_error option" where
  "electrum_GetFee en t target = (case ec_reconnect en t of Some e \<Rightarrow> ((0, 0), Some e) | None \<Rightarrow> ec_GetFee en t target)"

definition electrum_Ping :: "electrum_client_env \<Rightarrow> nat \<Rightarrow> go_error option" where
  "electrum_Ping en t = ec_reconnect en t"

section \<open>The Liquid Wallet Kit (\<open>lwk/lwkwallet.go\<close>)\<close>

text \<open>\<open>lk_send\<close> takes the addressees, the wallet and an optional fee rate; \<open>lk_balance\<close> has the balances by asset.\<close>

record lwk_env =
  lk_signer :: string
  lk_walletName :: string
  lk_asset :: string
  lk_electrum :: electrum_client_env
  lk_version :: "nat \<Rightarrow> go_error + string"
  lk_walletDetails :: "nat \<Rightarrow> string \<Rightarrow> go_error + string list"
  lk_generateSigner :: "nat \<Rightarrow> go_error + string"
  lk_loadSoftwareSigner :: "nat \<Rightarrow> string \<Rightarrow> string \<Rightarrow> bool \<Rightarrow> go_error option"
  lk_singlesigDescriptor :: "nat \<Rightarrow> string \<Rightarrow> string \<Rightarrow> string \<Rightarrow> go_error + string"
  lk_loadWallet :: "nat \<Rightarrow> string \<Rightarrow> string \<Rightarrow> go_error option"
  lk_send :: "nat \<Rightarrow> (string \<times> u64) list \<Rightarrow> string \<Rightarrow> f64 option \<Rightarrow> go_error + string"
  lk_sign :: "nat \<Rightarrow> string \<Rightarrow> string \<Rightarrow> go_error + string"
  lk_broadcast :: "nat \<Rightarrow> string \<Rightarrow> string \<Rightarrow> go_error + string"
  lk_balance :: "nat \<Rightarrow> string \<Rightarrow> go_error + (string \<rightharpoonup> i64)"
  lk_address :: "nat \<Rightarrow> string \<Rightarrow> go_error + string"
  lk_parseRPCError :: "go_error \<Rightarrow> go_error + int"

text \<open>0.1 sat per virtual byte.\<close>

definition minimumFee :: f64 where "minimumFee = f64_quot 1 10"

definition SatPerVByteFromFeeBTCPerKb :: "f64 \<Rightarrow> f64" where
  "SatPerVByteFromFeeBTCPerKb feeBTCPerKb = (let s = f64_div (f64_mult feeBTCPerKb (satsPerBTC, 0)) 1000 in
     if f64_less s minimumFee then minimumFee else s)"

definition SatPerVByte_GetFee :: "f64 \<Rightarrow> int \<Rightarrow> u64" where
  "SatPerVByte_GetFee s txSizeBytes = word_of_nat (f64_trunc (f64_mult s (nat txSizeBytes, 0)))"

definition getFeeSatPerVByte :: "lwk_env \<Rightarrow> nat \<Rightarrow> f64" where
  "getFeeSatPerVByte en t = SatPerVByteFromFeeBTCPerKb (fst (electrum_GetFee (lk_electrum en) t LiquidTargetBlocks))"

definition lwk_GetFee :: "lwk_env \<Rightarrow> nat \<Rightarrow> int \<Rightarrow> go_error + u64" where
  "lwk_GetFee en t txSizeBytes = Inr (SatPerVByte_GetFee (getFeeSatPerVByte en t) txSizeBytes)"

definition IsSupportedVersion :: "string \<Rightarrow> bool" where
  "IsSupportedVersion lwkVersion \<longleftrightarrow> strings_HasPrefix lwkVersion ''0.18.''"

text \<open>An error with the code of a signer, or of a wallet, that is already loaded is passed over.\<close>

definition lwk_createWallet :: "lwk_env \<Rightarrow> string \<Rightarrow> string \<Rightarrow> nat \<Rightarrow> go_error option" where
  "lwk_createWallet en walletName signerName t = (case lk_generateSigner en t of
     Inl e \<Rightarrow> Some e
   | Inr mnemonic \<Rightarrow>
       (case filter_err (\<lambda>e. \<not> strings_HasPrefix (Error e) ''-32011'') (lk_loadSoftwareSigner en (t + 1) mnemonic signerName True) of
     Some e \<Rightarrow> Some e
   | None \<Rightarrow> (case lk_singlesigDescriptor en (t + 2) signerName ''slip77'' ''wpkh'' of
     Inl e \<Rightarrow> Some e
   | Inr descriptor \<Rightarrow>
       filter_err (\<lambda>e. \<not> strings_HasPrefix (Error e) ''-32009'') (lk_loadWallet en (t + 3) descriptor walletName))))"

definition lwk_setupWallet :: "lwk_env \<Rightarrow> nat \<Rightarrow> go_error option" where
  "lwk_setupWallet en t = (case lk_version en t of
     Inl e \<Rightarrow> Some e
   | Inr lwkVersion \<Rightarrow>
       if \<not> IsSupportedVersion lwkVersion
       then Some (ErrText (''unsupported lwk version. expected: 0.18.x got: '' @ lwkVersion))
       else (case lk_walletDetails en (t + 1) (lk_walletName en) of
         Inl e \<Rightarrow> if strings_HasPrefix (Error e) ''-32008'' then lwk_createWallet en (lk_walletName en) (lk_signer en) (t + 2) else Some e
       | Inr signers \<Rightarrow> (case signers of
           [s] \<Rightarrow> if s \<noteq> lk_signer en
             then Some (ErrText (''signer name is not correct. expected: '' @ lk_signer en @ '' got: '' @ s)) else None
         | _ \<Rightarrow> Some (ErrText ''invalid number of signers''))))"

text \<open>Funding, signing and broadcasting a payment: shared by the opening transaction and a plain payment, which
  differ in the fee rate they ask for and in how they name an error.\<close>

definition lwk_pay ::
  "lwk_env \<Rightarrow> (string \<Rightarrow> go_error \<Rightarrow> go_error) \<Rightarrow> f64 option \<Rightarrow> string \<Rightarrow> u64 \<Rightarrow> wallet_world \<Rightarrow> (go_error + string) \<times> wallet_world" where
  "lwk_pay en wrap feerate address amount w = (case lk_send en (ww_clock w) [(address, amount)] (lk_walletName en) feerate of
     Inl e \<Rightarrow> (Inl (wrap ''failed to fund transaction'' e), ww_tick w)
   | Inr pset \<Rightarrow> (case lk_sign en (ww_clock w + 1) (lk_signer en) pset of
     Inl e \<Rightarrow> (Inl (wrap ''failed to sign transaction'' e), ww_tick (ww_tick w))
   | Inr signedPset \<Rightarrow>
       (let r = lk_broadcast en (ww_clock w + 2) (lk_walletName en) signedPset;
            w = (ww_tick (ww_tick (ww_tick w)))\<lparr>ww_sent := ww_sent w @ [(signedPset, r)]\<rparr>
        in case r of Inl e \<Rightarrow> (Inl (wrap ''failed to broadcast transaction'' e), w) | Inr txid \<Rightarrow> (Inr txid, w))))"

definition lwk_CreateAndBroadcastTransaction ::
  "lwk_env \<Rightarrow> string \<Rightarrow> u64 \<Rightarrow> wallet_world \<Rightarrow> (go_error + string \<times> string \<times> u64) \<times> wallet_world" where
  "lwk_CreateAndBroadcastTransaction en openingAddress amount w =
     (let feerate = f64_mult (getFeeSatPerVByte en (ww_clock w)) (1000, 0) in
      case lwk_pay en ErrWrap (Some feerate) openingAddress amount (ww_tick w) of
        (Inl e, w) \<Rightarrow> (Inl e, w)
      | (Inr txid, w) \<Rightarrow> (case electrum_GetRawTransaction (lk_electrum en) txid (ww_clock w) of
          (Inl e, t) \<Rightarrow> (Inl (ErrWrap ''failed to get raw transaction'' e), w\<lparr>ww_clock := t\<rparr>)
        | (Inr hex, t) \<Rightarrow> (Inr (txid, hex, 0), w\<lparr>ww_clock := t\<rparr>)))"

definition lwk_SendToAddress :: "lwk_env \<Rightarrow> string \<Rightarrow> u64 \<Rightarrow> wallet_world \<Rightarrow> (go_error + string) \<times> wallet_world" where
  "lwk_SendToAddress en address amount w = lwk_pay en (\<lambda>_ e. e) None address amount w"

definition lwk_GetBalance :: "lwk_env \<Rightarrow> nat \<Rightarrow> go_error + u64" where
  "lwk_GetBalance en t = (case lk_balance en t (lk_walletName en) of
     Inl e \<Rightarrow> Inl e | Inr balances \<Rightarrow> Inr (case balances (lk_asset en) of None \<Rightarrow> 0 | Some b \<Rightarrow> b))"

definition lwk_GetAddress :: "lwk_env \<Rightarrow> nat \<Rightarrow> go_error + string" where
  "lwk_GetAddress en t = lk_address en t (lk_walletName en)"

definition lwk_SendRawTx :: "lwk_env \<Rightarrow> string \<Rightarrow> wallet_world \<Rightarrow> (go_error + string) \<times> wallet_world" where
  "lwk_SendRawTx en txHex w =
     (let r = (case electrum_BroadcastTransaction (lk_electrum en) (ww_clock w) txHex of
        Inr txid \<Rightarrow> Inr txid
      | Inl e \<Rightarrow> (case lk_parseRPCError en e of
          Inl pErr \<Rightarrow> Inl (ErrText (''error parsing rpc error: '' @ Error pErr))
        | Inr code \<Rightarrow> Inl (if code = - 26 then MinRelayFeeNotMetError else e)))
      in (r, (ww_tick w)\<lparr>ww_sent := ww_sent w @ [(txHex, r)]\<rparr>))"

definition lwk_Ping :: "lwk_env \<Rightarrow> nat \<Rightarrow> go_error option \<times> bool" where
  "lwk_Ping en t = (case lk_version en t of
     Inl e \<Rightarrow> (Some (ErrText (''lwk connection failed: '' @ Error e)), False)
   | Inr _ \<Rightarrow> (let e = electrum_Ping (lk_electrum en) (Suc t) in (e, e = None)))"

section \<open>Amounts as text\<close>

text \<open>What a decimal amount with eight places means.\<close>

definition read_btc :: "string \<Rightarrow> nat option" where
  "read_btc s = (case strings_Split CHR ''.'' s of
     [a, b] \<Rightarrow> (case (digits_of 10 a, digits_of 10 b) of
         (Some x, Some y) \<Rightarrow> if length y = 8 then Some (digits_value 10 x * 100000000 + digits_value 10 y) else None
       | _ \<Rightarrow> None)
   | _ \<Rightarrow> None)"

lemma digits_base_length: "n < 10 ^ k \<Longrightarrow> 0 < k \<Longrightarrow> length (digits_base 10 n) \<le> k"
proof (induction k arbitrary: n)
  case (Suc k)
  show ?case
  proof (cases "n < 10")
    case True
    then show ?thesis by (subst digits_base.simps) simp
  next
    case False
    then have "0 < k" using Suc.prems(1) by (cases k) auto
    moreover have "n div 10 < 10 ^ k" using Suc.prems(1) by (simp add: less_mult_imp_div_less)
    ultimately have "length (digits_base 10 (n div 10)) \<le> k" using Suc.IH by blast
    then show ?thesis using False by (subst digits_base.simps) simp
  qed
qed simp

lemma leading_zeros_value: "digits_value b (replicate k 0 @ ds) = digits_value b ds"
  by (induction k) (simp_all add: digits_value_def)

lemma digit_char_not_dot: "d < 10 \<Longrightarrow> digit_char d \<noteq> CHR ''.''"
  using from_hex_digit_char [of d] by (auto simp: from_hex_char_def)

lemma split_at_dot:
  "CHR ''.'' \<notin> set a \<Longrightarrow> CHR ''.'' \<notin> set b \<Longrightarrow> strings_Split CHR ''.'' (a @ ''.'' @ b) = [a, b]"
proof (induction a)
  case Nil
  have "strings_Split CHR ''.'' b = [b]" if "CHR ''.'' \<notin> set b" for b
    using that by (induction b) auto
  then show ?case using Nil by simp
qed auto

text \<open>The text of an amount is exact: read as a decimal number of bitcoins with eight places it gives the satoshis
  back, for every amount of 64 bits.\<close>

theorem sats_text_exact: "read_btc (SatsToBTCString sats) = Some (unat sats)"
proof -
  let ?q = "unat sats div 100000000" and ?r = "unat sats mod 100000000"
  let ?z = "replicate (8 - length (digits_base 10 ?r)) (0 :: nat)"
  have small: "d < 10" if "d \<in> set (digits_base 10 n)" for d n using digits_base_small [OF _ that] by simp
  have len: "length (digits_base 10 ?r) \<le> 8" by (rule digits_base_length) simp_all
  have zero: "digit_char 0 = CHR ''0''" by code_simp
  have frac: "pad0 8 (fmt_nat ?r) = map digit_char (?z @ digits_base 10 ?r)"
    by (simp add: pad0_def fmt_nat_def zero)
  have read: "digits_of 10 (map digit_char (digits_base 10 ?q)) = Some (digits_base 10 ?q)"
    "digits_of 10 (map digit_char (?z @ digits_base 10 ?r)) = Some (?z @ digits_base 10 ?r)"
    by (rule digits_of_map_digit_char; use small in auto)+
  have nodot: "CHR ''.'' \<notin> set (map digit_char ds)" if "\<And>d. d \<in> set ds \<Longrightarrow> d < 10" for ds
    using digit_char_not_dot that by (auto simp: image_iff) metis
  have dots: "CHR ''.'' \<notin> set (map digit_char (digits_base 10 ?q))"
    "CHR ''.'' \<notin> set (map digit_char (?z @ digits_base 10 ?r))"
    by (rule nodot; use small in auto)+
  have "SatsToBTCString sats = map digit_char (digits_base 10 ?q) @ ''.'' @ map digit_char (?z @ digits_base 10 ?r)"
    unfolding SatsToBTCString_def satsPerBTC_def frac by (simp add: fmt_nat_def)
  then have "read_btc (SatsToBTCString sats) = Some (?q * 100000000 + digits_value 10 (?z @ digits_base 10 ?r))"
    using split_at_dot [OF dots] read len by (simp add: read_btc_def digits_base_value del: map_append)
  then show ?thesis by (simp add: leading_zeros_value digits_base_value)
qed

section \<open>Opening transactions of the wallets\<close>


lemma retryWithBackoff_calls:
  "retryWithBackoff n operation t = (r, t') \<Longrightarrow> t < t' \<and> t' \<le> t + n + 1 \<and>
     (\<forall>a. r = Inr a \<longrightarrow> operation (t' - 1) = Inr a) \<and> (\<forall>e. r = Inl e \<longrightarrow> (\<forall>u. t \<le> u \<and> u < t' \<longrightarrow> isl (operation u)))"
proof (induction n arbitrary: t)
  case 0
  then show ?case by (auto simp: retryWithBackoff.simps [of 0] less_Suc_eq_le split: sum.splits if_splits)
next
  case (Suc n)
  show ?case
  proof (cases "\<exists>e. operation t = Inl e \<and> strings_Contains (Error e) ''missing transaction''")
    case True
    then have "retryWithBackoff n operation (Suc t) = (r, t')"
      using Suc.prems by (auto simp: retryWithBackoff.simps [of "Suc n"])
    from Suc.IH [OF this] True show ?thesis by (auto simp: Suc_le_eq dest: le_neq_implies_less)
  next
    case False
    then show ?thesis using Suc.prems
      by (auto simp: retryWithBackoff.simps [of "Suc n"] less_Suc_eq_le split: sum.splits if_splits)
  qed
qed

text \<open>C33. The wallet of the Liquid Wallet Kit can lose an opening transaction: it fetches the raw transaction after the
  broadcast, and when every one of the up to eleven attempts to do so fails it returns an error, although the transaction
  that pays the swap's amount was broadcast and accepted.\<close>

theorem lwk_opening_lost:
  assumes "lk_send en (Suc (ww_clock w)) [(addr, amount)] (lk_walletName en)
      (Some (f64_mult (getFeeSatPerVByte en (ww_clock w)) (1000, 0))) = Inr pset"
    and "lk_sign en (ww_clock w + 2) (lk_signer en) pset = Inr pset'"
    and "lk_broadcast en (ww_clock w + 3) (lk_walletName en) pset' = Inr txid"
    and "\<And>t. ww_clock w + 4 \<le> t \<Longrightarrow> t < ww_clock w + 15 \<Longrightarrow> isl (ec_GetRawTransaction (lk_electrum en) t txid)"
  shows "\<exists>e w'. lwk_CreateAndBroadcastTransaction en addr amount w = (Inl e, w') \<and> ww_sent w' = ww_sent w @ [(pset', Inr txid)]"
proof -
  define w1 where "w1 = (ww_tick (ww_tick (ww_tick (ww_tick w))))\<lparr>ww_sent := ww_sent w @ [(pset', Inr txid)]\<rparr>"
  have pay: "lwk_pay en ErrWrap (Some (f64_mult (getFeeSatPerVByte en (ww_clock w)) (1000, 0))) addr amount (ww_tick w) = (Inr txid, w1)"
    using assms(1-3) by (simp add: lwk_pay_def Let_def ww_tick_def w1_def eval_nat_numeral)
  obtain r t where fetch: "electrum_GetRawTransaction (lk_electrum en) txid (ww_clock w1) = (r, t)" by (metis surj_pair)
  have clock: "ww_clock w1 = ww_clock w + 4" by (simp add: w1_def ww_tick_def)
  have "isl r"
  proof (rule ccontr)
    assume "\<not> isl r"
    then obtain a where r: "r = Inr a" by (cases r) auto
    have "ww_clock w + 4 \<le> t - 1" "t - 1 < ww_clock w + 15" "\<exists>a. ec_GetRawTransaction (lk_electrum en) (t - 1) txid = Inr a"
      using retryWithBackoff_calls [OF fetch [unfolded electrum_GetRawTransaction_def]] r clock
      by (auto simp: maxRetries_def split: option.splits)
    then show False using assms(4) by fastforce
  qed
  then obtain e where "r = Inl e" by (cases r) auto
  then show ?thesis
    using pay fetch by (simp add: lwk_CreateAndBroadcastTransaction_def Let_def) (simp add: w1_def)
qed

definition demo_electrum_client :: electrum_client_env where
  "demo_electrum_client = \<lparr>ec_Ping = (\<lambda>_. None), ec_connect = (\<lambda>_. None),
     ec_GetRawTransaction = (\<lambda>_ _. Inl (ErrText ''missing transaction'')), ec_BroadcastTransaction = (\<lambda>_ _. Inr ''txid''),
     ec_GetFee = (\<lambda>_ _. ((0, 0), None)), ec_patience = 10\<rparr>"

definition demo_lwk :: lwk_env where
  "demo_lwk = \<lparr>lk_signer = ''signer'', lk_walletName = ''wallet'', lk_asset = ''lbtc'', lk_electrum = demo_electrum_client,
     lk_version = (\<lambda>_. Inr ''0.18.1''), lk_walletDetails = (\<lambda>_ _. Inr [''signer'']), lk_generateSigner = (\<lambda>_. Inr ''words''),
     lk_loadSoftwareSigner = (\<lambda>_ _ _ _. None), lk_singlesigDescriptor = (\<lambda>_ _ _ _. Inr ''desc''), lk_loadWallet = (\<lambda>_ _ _. None),
     lk_send = (\<lambda>_ _ _ _. Inr ''pset''), lk_sign = (\<lambda>_ _ _. Inr ''signed pset''), lk_broadcast = (\<lambda>_ _ _. Inr ''txid''),
     lk_balance = (\<lambda>_ _. Inr [''lbtc'' \<mapsto> 1000000]), lk_address = (\<lambda>_ _. Inr ''addr''), lk_parseRPCError = (\<lambda>_. Inr (- 25))\<rparr>"

theorem lwk_opening_lost_witness:
  "\<exists>e w'. lwk_CreateAndBroadcastTransaction demo_lwk ''swap address'' 100000
       \<lparr>ww_clock = 0, ww_sent = [], ww_paid = [], ww_wallet = None\<rparr> = (Inl e, w') \<and> ww_sent w' = [(''signed pset'', Inr ''txid'')]"
  using lwk_opening_lost [of demo_lwk "\<lparr>ww_clock = 0, ww_sent = [], ww_paid = [], ww_wallet = None\<rparr>" "''swap address''" 100000
      "''pset''" "''signed pset''" "''txid''"]
  by (simp add: demo_lwk_def demo_electrum_client_def)

text \<open>Preparing the wallet of elementsd: when it succeeds the wallet of the given name is in use, and the node accepts
  discounted transactions.\<close>

lemma elements_setup_selects:
  assumes "elements_setupWallet en walletName w = (None, w')"
  shows "ww_wallet w' = Some walletName \<and> (\<exists>t size. el_DecodeRawTx en t = Inr size \<and> size \<noteq> 0)"
  using assms
  by (auto simp: elements_setupWallet_def acceptdiscountctIsEnabled_def Let_def ww_tick_def split: sum.splits option.splits if_splits prod.splits)

end
