(* ===== verification/PS_LwkClient.thy ===== *)
theory PS_LwkClient
  imports PS_Wallets
begin

text \<open>
  The client of the Liquid Wallet Kit (\<open>lwk/client.go\<close>, \<open>lwk/api.go\<close>, \<open>lwk/error.go\<close>): one JSON request over HTTP for each call, the
  reading of its response, the repeated sending and the errors of the Electrum server inside an error text.

  The HTTP client and the JSON decoder are parameters.  \<open>lh_do\<close> answers the HTTP response of a request, \<open>hr_RawResponse\<close> what the body
  decodes to (an error of the server, or the raw result), \<open>lh_Unmarshal\<close> the typed result of a raw one.  \<open>lh_Stop\<close>: the back-off has
  used up its time.
\<close>

section \<open>Requests and responses\<close>

datatype lwk_method =
    addressRequest "u32 option" string "string option"
  | sendRequest "(string \<times> string \<times> u64) list" "f64 option" string
  | signRequest string string
  | broadcastRequest bool string string
  | balanceRequest string bool
  | walletDetailsRequest string
  | generateSignerRequest
  | loadSoftwareSignerRequest string string bool
  | singlesigDescriptorRequest string string string
  | loadWalletRequest string string
  | versionRequest

fun lwk_method_Name :: "lwk_method \<Rightarrow> string" where
  "lwk_method_Name (addressRequest _ _ _) = ''wallet_address''"
| "lwk_method_Name (sendRequest _ _ _) = ''wallet_send_many''"
| "lwk_method_Name (signRequest _ _) = ''signer_sign''"
| "lwk_method_Name (broadcastRequest _ _ _) = ''wallet_broadcast''"
| "lwk_method_Name (balanceRequest _ _) = ''wallet_balance''"
| "lwk_method_Name (walletDetailsRequest _) = ''wallet_details''"
| "lwk_method_Name generateSignerRequest = ''signer_generate''"
| "lwk_method_Name (loadSoftwareSignerRequest _ _ _) = ''signer_load_software''"
| "lwk_method_Name (singlesigDescriptorRequest _ _ _) = ''signer_singlesig_descriptor''"
| "lwk_method_Name (loadWalletRequest _ _) = ''wallet_load''"
| "lwk_method_Name versionRequest = ''version''"

record http_response =
  hr_StatusCode :: int
  hr_ContentLength :: int
  hr_RawResponse :: "go_error + (go_error option \<times> string)"

text \<open>The results in the shape of the response types.\<close>

record walletDetailsResponse =
  wd_Signers :: "(string \<times> string) list"
  wd_Type :: string
  wd_Warnings :: string

record loadSoftwareSignerResponse =
  sg_Fingerprint :: string
  sg_ID :: string
  sg_Name :: string
  sg_Xpub :: string

record lwk_http =
  lh_do :: "nat \<Rightarrow> i64 \<Rightarrow> lwk_method \<Rightarrow> go_error + http_response"
  lh_Stop :: "nat \<Rightarrow> bool"
  lh_address :: "string \<Rightarrow> go_error + string \<times> u32 option"
  lh_pset :: "string \<Rightarrow> go_error + string"
  lh_txid :: "string \<Rightarrow> go_error + string"
  lh_balance :: "string \<Rightarrow> go_error + (string \<rightharpoonup> i64)"
  lh_details :: "string \<Rightarrow> go_error + walletDetailsResponse"
  lh_mnemonic :: "string \<Rightarrow> go_error + string"
  lh_signer :: "string \<Rightarrow> go_error + loadSoftwareSignerResponse"
  lh_descriptor :: "string \<Rightarrow> go_error + string"
  lh_wallet :: "string \<Rightarrow> go_error + string \<times> string"
  lh_version :: "string \<Rightarrow> go_error + string \<times> string"

text \<open>The client's counter numbers the requests; \<open>cw_requests\<close> are the requests made.\<close>

record client_world =
  cw_requestCounter :: i64
  cw_clock :: nat
  cw_requests :: "(i64 \<times> lwk_method) list"

definition nextID :: "client_world \<Rightarrow> i64 \<times> client_world" where
  "nextID w = (cw_requestCounter w + 1, w\<lparr>cw_requestCounter := cw_requestCounter w + 1\<rparr>)"

text \<open>What the status of a response means before its body is read.\<close>

definition status_error :: "http_response \<Rightarrow> go_error option" where
  "status_error r = (if hr_StatusCode r = 401 then Some (ErrText ''authorization failed: Incorrect user or password'')
     else if hr_StatusCode r \<in> {400, 404, 500} then None
     else if hr_StatusCode r > 400 then Some (ErrText (''server returned HTTP error '' @ fmt_int (hr_StatusCode r)))
     else if hr_ContentLength r = 0 then Some (ErrText ''no response from server'') else None)"

definition lwk_request :: "lwk_http \<Rightarrow> (string \<Rightarrow> go_error + 'r) \<Rightarrow> lwk_method \<Rightarrow> client_world \<Rightarrow> (go_error + 'r) \<times> client_world" where
  "lwk_request h unmarshal m w = (case nextID w of (ident, w) \<Rightarrow>
     (let w' = w\<lparr>cw_clock := Suc (cw_clock w), cw_requests := cw_requests w @ [(ident, m)]\<rparr> in
      (case lh_do h (cw_clock w) ident m of
         Inl e \<Rightarrow> Inl e
       | Inr rezp \<Rightarrow> (case status_error rezp of
           Some e \<Rightarrow> Inl e
         | None \<Rightarrow> (case hr_RawResponse rezp of
             Inl e \<Rightarrow> Inl e
           | Inr (Some e, _) \<Rightarrow> Inl e
           | Inr (None, raw) \<Rightarrow> unmarshal raw)), w')))"

section \<open>The calls\<close>

definition lwk_address :: "lwk_http \<Rightarrow> u32 option \<Rightarrow> string \<Rightarrow> string option \<Rightarrow> client_world \<Rightarrow> (go_error + string \<times> u32 option) \<times> client_world" where
  "lwk_address h idx wallet signer w = lwk_request h (lh_address h) (addressRequest idx wallet signer) w"

definition lwk_sign :: "lwk_http \<Rightarrow> string \<Rightarrow> string \<Rightarrow> client_world \<Rightarrow> (go_error + string) \<times> client_world" where
  "lwk_sign h signer pset w = lwk_request h (lh_pset h) (signRequest signer pset) w"

definition lwk_broadcast :: "lwk_http \<Rightarrow> bool \<Rightarrow> string \<Rightarrow> string \<Rightarrow> client_world \<Rightarrow> (go_error + string) \<times> client_world" where
  "lwk_broadcast h dryRun wallet pset w = lwk_request h (lh_txid h) (broadcastRequest dryRun wallet pset) w"

definition lwk_balance :: "lwk_http \<Rightarrow> string \<Rightarrow> bool \<Rightarrow> client_world \<Rightarrow> (go_error + (string \<rightharpoonup> i64)) \<times> client_world" where
  "lwk_balance h wallet tickers w = lwk_request h (lh_balance h) (balanceRequest wallet tickers) w"

definition lwk_walletDetails :: "lwk_http \<Rightarrow> string \<Rightarrow> client_world \<Rightarrow> (go_error + walletDetailsResponse) \<times> client_world" where
  "lwk_walletDetails h wallet w = lwk_request h (lh_details h) (walletDetailsRequest wallet) w"

definition lwk_generateSigner :: "lwk_http \<Rightarrow> client_world \<Rightarrow> (go_error + string) \<times> client_world" where
  "lwk_generateSigner h w = lwk_request h (lh_mnemonic h) generateSignerRequest w"

definition lwk_loadSoftwareSigner :: "lwk_http \<Rightarrow> string \<Rightarrow> string \<Rightarrow> bool \<Rightarrow> client_world \<Rightarrow> (go_error + loadSoftwareSignerResponse) \<times> client_world" where
  "lwk_loadSoftwareSigner h mnemonic signer persist w = lwk_request h (lh_signer h) (loadSoftwareSignerRequest mnemonic signer persist) w"

definition lwk_singlesigDescriptor :: "lwk_http \<Rightarrow> string \<Rightarrow> string \<Rightarrow> string \<Rightarrow> client_world \<Rightarrow> (go_error + string) \<times> client_world" where
  "lwk_singlesigDescriptor h blindingKey signer kind w = lwk_request h (lh_descriptor h) (singlesigDescriptorRequest blindingKey signer kind) w"

definition lwk_loadWallet :: "lwk_http \<Rightarrow> string \<Rightarrow> string \<Rightarrow> client_world \<Rightarrow> (go_error + string \<times> string) \<times> client_world" where
  "lwk_loadWallet h descriptor wallet w = lwk_request h (lh_wallet h) (loadWalletRequest descriptor wallet) w"

definition client_version :: "lwk_http \<Rightarrow> client_world \<Rightarrow> (go_error + string \<times> string) \<times> client_world" where
  "client_version h w = lwk_request h (lh_version h) versionRequest w"

text \<open>
  \<open>send\<close>: an error that speaks of a missing transaction is tried again, at most five times and while the back-off lasts; any other
  error ends the call at once.
\<close>

definition send_maxRetries :: nat where "send_maxRetries = 5"

fun send_retry :: "lwk_http \<Rightarrow> lwk_method \<Rightarrow> nat \<Rightarrow> client_world \<Rightarrow> (go_error + string) \<times> client_world" where
  "send_retry h m retries w = (case lwk_request h (lh_pset h) m w of
     (Inr pset, w) \<Rightarrow> (Inr pset, w)
   | (Inl e, w) \<Rightarrow>
       if \<not> strings_Contains (Error e) ''missing transaction'' then (Inl (ErrWrap ''permanent error'' e), w)
       else if retries = 0 \<or> lh_Stop h (cw_clock w) then (Inl e, w)
       else send_retry h m (retries - 1) w)"

declare send_retry.simps [simp del]

definition client_send ::
  "lwk_http \<Rightarrow> (string \<times> string \<times> u64) list \<Rightarrow> f64 option \<Rightarrow> string \<Rightarrow> client_world \<Rightarrow> (go_error + string) \<times> client_world" where
  "client_send h addressees feeRate wallet w = send_retry h (sendRequest addressees feeRate wallet) send_maxRetries w"

text \<open>
  The HTTP client repeats a request only while no response arrived: \<open>policy\<close> is the library's policy for the attempt.
\<close>

definition checkRetry :: "(bool \<times> go_error option) \<Rightarrow> bool \<Rightarrow> bool \<times> go_error option" where
  "checkRetry policy hasResponse = (if fst policy \<and> hasResponse then (False, None) else policy)"

section \<open>Errors of the Electrum server\<close>

text \<open>
  The text is split at the last occurrence of the marker, since the first group is greedy; a dot does not match a line feed.
\<close>

definition rpc_error_marker :: string where "rpc_error_marker = '' RPC error: ''"

fun after_last :: "string \<Rightarrow> string \<Rightarrow> string option" where
  "after_last marker [] = (if marker = [] then Some [] else None)"
| "after_last marker (c # s) = (case after_last marker s of
     Some r \<Rightarrow> Some r
   | None \<Rightarrow> if strings_HasPrefix (c # s) marker then Some (drop (length marker) (c # s)) else None)"

definition parseRPCError :: "(string \<Rightarrow> go_error + int \<times> string) \<Rightarrow> go_error \<Rightarrow> go_error + int \<times> string" where
  "parseRPCError unmarshal err = (case (if CHR 0x0A \<in> set (Error err) then None else after_last rpc_error_marker (Error err)) of
     None \<Rightarrow> Inl (ErrText (Error err))
   | Some errJSON \<Rightarrow> (case unmarshal errJSON of
       Inl jerr \<Rightarrow> Inl (ErrText (''error parsing rpc error: '' @ Error jerr)) | Inr r \<Rightarrow> Inr r))"

section \<open>What the calls guarantee\<close>

lemma lwk_request_world:
  "snd (lwk_request h u m w) = w\<lparr>cw_requestCounter := cw_requestCounter w + 1, cw_clock := Suc (cw_clock w),
     cw_requests := cw_requests w @ [(cw_requestCounter w + 1, m)]\<rparr>"
  by (simp add: lwk_request_def nextID_def Let_def)

text \<open>A call has a result only from a response that is no failure and decodes to a result.\<close>

lemma lwk_request_Inr:
  "lwk_request h u m w = (Inr r, w') \<longleftrightarrow> w' = snd (lwk_request h u m w) \<and>
     (\<exists>rezp raw. lh_do h (cw_clock w) (cw_requestCounter w + 1) m = Inr rezp \<and> status_error rezp = None \<and>
        hr_RawResponse rezp = Inr (None, raw) \<and> u raw = Inr r)"
  by (auto simp: lwk_request_def nextID_def Let_def split: sum.splits option.splits)

text \<open>
  The sequence of a repeated send: the same request, under consecutive numbers, at most \<open>retries + 1\<close> times.
\<close>

definition numbered :: "i64 \<Rightarrow> 'm \<Rightarrow> nat \<Rightarrow> (i64 \<times> 'm) list" where
  "numbered c m k = map (\<lambda>j. (c + word_of_nat (Suc j), m)) [0..<k]"

lemma numbered_Suc: "numbered c m (Suc k) = (c + 1, m) # numbered (c + 1) m k"
  by (simp add: numbered_def upt_conv_Cons map_Suc_upt [symmetric] algebra_simps del: upt_Suc)

lemma send_retry_requests:
  "\<exists>k \<le> retries. cw_requests (snd (send_retry h m retries w)) = cw_requests w @ numbered (cw_requestCounter w) m (Suc k)"
proof (induction retries arbitrary: w)
  case 0
  show ?case
    by (simp add: send_retry.simps [of h m 0 w] split: prod.split sum.split)
      (auto simp: lwk_request_world numbered_def dest!: arg_cong [of _ _ snd])
next
  case (Suc n)
  obtain r w1 where r: "lwk_request h (lh_pset h) m w = (r, w1)" by (cases "lwk_request h (lh_pset h) m w")
  then have w1: "w1 = w\<lparr>cw_requestCounter := cw_requestCounter w + 1, cw_clock := Suc (cw_clock w),
      cw_requests := cw_requests w @ [(cw_requestCounter w + 1, m)]\<rparr>"
    using lwk_request_world [of h "lh_pset h" m w] by simp
  have one: "cw_requests w1 = cw_requests w @ numbered (cw_requestCounter w) m (Suc 0)" by (simp add: w1 numbered_def)
  obtain k where k: "k \<le> n" "cw_requests (snd (send_retry h m n w1)) = cw_requests w @ numbered (cw_requestCounter w) m (Suc (Suc k))"
    using Suc.IH [of w1] by (auto simp: w1 numbered_Suc)
  have "snd (send_retry h m (Suc n) w) \<in> {w1, snd (send_retry h m n w1)}"
    by (simp add: send_retry.simps [of h m "Suc n" w] r split: sum.split)
  then show ?case using one k by (metis Suc_le_mono insertE le0 singletonD)
qed

text \<open>
  \<open>send\<close> asks at most six times, always with the same addressees, and under numbers that follow each other; it answers with the
  result of its last request.
\<close>

theorem lwk_send_bounded:
  "\<exists>k \<le> 5. cw_requests (snd (client_send h addressees feeRate wallet w)) =
     cw_requests w @ numbered (cw_requestCounter w) (sendRequest addressees feeRate wallet) (Suc k)"
  using send_retry_requests [of send_maxRetries] by (simp add: client_send_def send_maxRetries_def)

text \<open>The counter of requests wraps after \<open>2 ^ 64\<close> of them: within one call no number is used twice.\<close>

lemma numbered_distinct: "k \<le> 2 ^ 64 \<Longrightarrow> distinct (map fst (numbered c m k))"
proof -
  assume k: "k \<le> 2 ^ 64"
  have "inj_on (\<lambda>j. c + word_of_nat (Suc j)) {0..<k}"
  proof (rule inj_onI)
    fix i j assume ij: "i \<in> {0..<k}" "j \<in> {0..<k}" "c + word_of_nat (Suc i) = c + (word_of_nat (Suc j) :: i64)"
    then have "(word_of_nat i :: i64) = word_of_nat j" by simp
    moreover have "i < 2 ^ 64" "j < 2 ^ 64" using ij k by simp_all
    ultimately show "i = j" by (simp add: word_of_nat_eq_iff take_bit_nat_eq_self)
  qed
  then show ?thesis by (simp add: numbered_def distinct_map comp_def)
qed

text \<open>The part after the marker is a tail of the text behind a marker, and there is one whenever the marker occurs.\<close>

lemma HasPrefix_append: "strings_HasPrefix s p \<Longrightarrow> s = p @ drop (length p) s"
  unfolding strings_HasPrefix_def by (metis append_take_drop_id)

lemma after_last_Some: "after_last marker s = Some r \<Longrightarrow> \<exists>p. s = p @ marker @ r"
proof (induction s)
  case (Cons c s)
  show ?case
  proof (cases "after_last marker s")
    case None
    then have "strings_HasPrefix (c # s) marker" "r = drop (length marker) (c # s)" using Cons.prems by (auto split: if_splits)
    then show ?thesis using HasPrefix_append [of "c # s" marker] by (metis append_Nil)
  next
    case (Some r')
    then show ?thesis using Cons by (metis append_Cons after_last.simps(2) option.case(2))
  qed
qed (simp split: if_splits)

lemma after_last_None: "marker \<noteq> [] \<Longrightarrow> after_last marker s = None \<Longrightarrow> s \<noteq> p @ marker @ r"
proof (induction p arbitrary: s)
  case Nil
  then show ?case by (cases s) (auto simp: strings_HasPrefix_def split: option.splits if_splits)
next
  case (Cons c p)
  then show ?case by (cases s) (auto split: option.splits if_splits)
qed

end
