(* ===== verification/PS_Opening.thy ===== *)
theory PS_Opening
  imports PS_Spending PS_Version
begin

text \<open>
  The opening transaction on Bitcoin, as the two nodes create it (\<open>clightning/clightning_wallet.go\<close>,
  \<open>lnd/lnd_wallet.go\<close>), with its address and its fee (\<open>onchain/bitcoin.go\<close>).  Coin selection, signing and
  broadcast are the node's and parameters, read at a clock; what is published is recorded.
\<close>

section \<open>Address and fee (\<open>onchain/bitcoin.go\<close>)\<close>

record opening_env =
  oe_EncodeAddress :: "byte list \<Rightarrow> string"
  oe_SumUtxoInputValues :: "string \<Rightarrow> go_error + i64"
  oe_PrepareTx :: "nat \<Rightarrow> string \<Rightarrow> u64 \<Rightarrow> go_error + string \<times> string \<times> string"
  oe_SetPSBTVersion :: "nat \<Rightarrow> string \<Rightarrow> go_error + string"
  oe_SendTx :: "nat \<Rightarrow> string \<Rightarrow> go_error + string \<times> string"
  oe_FundPsbt :: "nat \<Rightarrow> string \<Rightarrow> u64 \<Rightarrow> go_error + byte list"
  oe_FinalizePsbt :: "nat \<Rightarrow> byte list \<Rightarrow> go_error + byte list \<times> byte list"
  oe_reserialize :: "byte list \<Rightarrow> go_error + byte list"
  oe_base64 :: "byte list \<Rightarrow> string"
  oe_PublishTransaction :: "nat \<Rightarrow> byte list \<Rightarrow> go_error option"
  oe_ListFunds :: "nat \<Rightarrow> go_error + u64 list"
  oe_WalletBalance :: "nat \<Rightarrow> go_error + i64"

definition bitcoin_CreateOpeningAddress :: "chain_env \<Rightarrow> opening_env \<Rightarrow> OpeningParams \<Rightarrow> u32 \<Rightarrow> go_error + string" where
  "bitcoin_CreateOpeningAddress ce oe p csv = (case ParamsToTxScript ce p csv of
     Inl e \<Rightarrow> Inl e
   | Inr redeemScript \<Rightarrow> (case ce_WitnessScriptHash ce (ce_sha256 ce redeemScript) of
       Inl e \<Rightarrow> Inl e | Inr scriptAddress \<Rightarrow> Inr (oe_EncodeAddress oe scriptAddress)))"

definition GetFeeSatsFromTx :: "chain_env \<Rightarrow> opening_env \<Rightarrow> string \<Rightarrow> string \<Rightarrow> go_error + u64" where
  "GetFeeSatsFromTx ce oe psbtString txHex = (case oe_SumUtxoInputValues oe psbtString of
     Inl e \<Rightarrow> Inl e
   | Inr inputSats \<Rightarrow> (case decode_tx ce txHex of
       Inl e \<Rightarrow> Inl e | Inr outs \<Rightarrow> Inr (inputSats - sum_list (map out_Value outs))))"

section \<open>Creation by the nodes\<close>

record opening_world =
  ow_clock :: nat
  ow_published :: "string list"

definition ow_tick :: "opening_world \<Rightarrow> opening_world" where
  "ow_tick w = w\<lparr>ow_clock := Suc (ow_clock w)\<rparr>"

type_synonym opening_result = "(go_error + string \<times> string \<times> string \<times> u64 \<times> u32) \<times> opening_world"

text \<open>
  Core Lightning prepares a transaction and sends it; the recorded transaction is the prepared one.
  The first component of the search for the output is dropped.
\<close>

definition cln_CreateOpeningTransaction ::
  "chain_env \<Rightarrow> opening_env \<Rightarrow> string \<Rightarrow> OpeningParams \<Rightarrow> opening_world \<Rightarrow> opening_result" where
  "cln_CreateOpeningTransaction ce oe cln_version p w = (case bitcoin_CreateOpeningAddress ce oe p BitcoinCsv of
     Inl e \<Rightarrow> (Inl e, w)
   | Inr addr \<Rightarrow> (let t = ow_clock w; w = ow_tick w in case oe_PrepareTx oe t addr (op_Amount p) of
     Inl e \<Rightarrow> (Inl e, w)
   | Inr (psbt, unsignedTx, txId) \<Rightarrow> (case CompareVersionStrings cln_version ''v23.05'' of
     Inl e \<Rightarrow> (Inl e, w)
   | Inr isV2 \<Rightarrow> (let t = ow_clock w; w = (if isV2 then ow_tick w else w) in
     case (if isV2 then oe_SetPSBTVersion oe t psbt else Inr psbt) of
     Inl e \<Rightarrow> (Inl e, w)
   | Inr psbt \<Rightarrow> (case GetFeeSatsFromTx ce oe psbt unsignedTx of
     Inl e \<Rightarrow> (Inl e, w)
   | Inr fee \<Rightarrow> (case bitcoin_GetVoutAndVerify ce unsignedTx p of
     Inl e \<Rightarrow> (Inl e, w)
   | Inr (_, vout) \<Rightarrow> (let t = ow_clock w; w = w\<lparr>ow_clock := Suc t, ow_published := ow_published w @ [unsignedTx]\<rparr> in
     case oe_SendTx oe t txId of
     Inl e \<Rightarrow> (Inl (ErrWrap ''tx was not prepared'' e), w)
   | Inr (signedTx, sentId) \<Rightarrow> (Inr (signedTx, addr, sentId, fee, vout), w))))))))"

definition lnd_CreateOpeningTransaction ::
  "chain_env \<Rightarrow> opening_env \<Rightarrow> OpeningParams \<Rightarrow> opening_world \<Rightarrow> opening_result" where
  "lnd_CreateOpeningTransaction ce oe p w = (case bitcoin_CreateOpeningAddress ce oe p BitcoinCsv of
     Inl e \<Rightarrow> (Inl e, w)
   | Inr addr \<Rightarrow> (let t = ow_clock w; w = ow_tick w in case oe_FundPsbt oe t addr (op_Amount p) of
     Inl e \<Rightarrow> (Inl e, w)
   | Inr fundedPsbt \<Rightarrow> (case oe_reserialize oe fundedPsbt of
     Inl e \<Rightarrow> (Inl e, w)
   | Inr packet \<Rightarrow> (let t = ow_clock w; w = ow_tick w in case oe_FinalizePsbt oe t packet of
     Inl e \<Rightarrow> (Inl e, w)
   | Inr (signedPsbt, rawFinalTx) \<Rightarrow> (let rawTxHex = hex_EncodeToString rawFinalTx in
     case GetFeeSatsFromTx ce oe (oe_base64 oe signedPsbt) rawTxHex of
     Inl e \<Rightarrow> (Inl e, w)
   | Inr fee \<Rightarrow> (case bitcoin_GetVoutAndVerify ce rawTxHex p of
     Inl e \<Rightarrow> (Inl e, w)
   | Inr (_, vout) \<Rightarrow> (case hex_bytes rawTxHex of
     Inl e \<Rightarrow> (Inl e, w)
   | Inr txBytes \<Rightarrow> (case ce_Deserialize ce txBytes of
     Inl e \<Rightarrow> (Inl e, w)
   | Inr _ \<Rightarrow> (let t = ow_clock w; w = w\<lparr>ow_clock := Suc t, ow_published := ow_published w @ [rawTxHex]\<rparr> in
     case oe_PublishTransaction oe t txBytes of
     Some e \<Rightarrow> (Inl e, w)
   | None \<Rightarrow> (Inr (rawTxHex, addr, ce_TxHash ce txBytes, fee, vout), w))))))))))"

definition cln_GetOnchainBalance :: "opening_env \<Rightarrow> nat \<Rightarrow> go_error + u64" where
  "cln_GetOnchainBalance oe t = (case oe_ListFunds oe t of
     Inl e \<Rightarrow> Inl e | Inr amountsMsat \<Rightarrow> Inr (sum_list (map (\<lambda>msat. msat div 1000) amountsMsat)))"

definition lnd_GetOnchainBalance :: "opening_env \<Rightarrow> nat \<Rightarrow> go_error + u64" where
  "lnd_GetOnchainBalance oe t = oe_WalletBalance oe t"

definition EstimatedOpeningTxSize :: i64 where
  "EstimatedOpeningTxSize = 350"

definition bitcoin_GetRefundFee :: "BitcoinOnChain \<Rightarrow> go_error + i64 \<Rightarrow> u64" where
  "bitcoin_GetRefundFee b estimate = GetFee b estimate 250"

definition bitcoin_GetFlatOpeningTXFee :: "BitcoinOnChain \<Rightarrow> go_error + i64 \<Rightarrow> u64" where
  "bitcoin_GetFlatOpeningTXFee b estimate = GetFee b estimate EstimatedOpeningTxSize"

section \<open>What the taker makes of it\<close>

text \<open>
  The transaction \<open>hex\<close> has the swap's output at \<open>vout\<close>: it pays the amount to the swap's script there, and
  no earlier output has the amount.
\<close>

definition opens :: "chain_env \<Rightarrow> OpeningParams \<Rightarrow> string \<Rightarrow> nat \<Rightarrow> bool" where
  "opens ce p hex vout \<longleftrightarrow> (\<exists>outs script. decode_tx ce hex = Inr outs \<and> bitcoin_GetOutputScript ce p = Inr script \<and> vout < length outs \<and>
     outs ! vout = \<lparr>out_Value = op_Amount p, out_PkScript = script\<rparr> \<and> (\<forall>j < vout. out_Value (outs ! j) \<noteq> op_Amount p))"

lemma opens_validates:
  assumes "opens ce p hex i"
  shows "bitcoin_ValidateTx ce p hex = Inr True \<and> bitcoin_GetVoutAndVerify ce hex p = Inr (True, word_of_nat i)"
proof -
  obtain outs script where o: "decode_tx ce hex = Inr outs" "bitcoin_GetOutputScript ce p = Inr script" "i < length outs"
    "outs ! i = \<lparr>out_Value = op_Amount p, out_PkScript = script\<rparr>" "\<forall>j < i. out_Value (outs ! j) \<noteq> op_Amount p"
    using assms unfolding opens_def by blast
  then have "find_amount (op_Amount p) outs 0 = Some (i, outs ! i)"
    by (simp add: find_amount_first)
  with o show ?thesis by (simp add: bitcoin_ValidateTx_def bitcoin_GetVoutAndVerify_def)
qed

lemmas opening_splits = sum.splits option.splits prod.splits if_splits

lemma cln_opening_run:
  assumes "cln_CreateOpeningTransaction ce oe v p w = (Inr (hex, addr, txId, fee, vout), w')"
  shows "\<exists>u outs psbt ins ok. ow_published w' = ow_published w @ [u] \<and> bitcoin_GetVoutAndVerify ce u p = Inr (ok, vout) \<and>
    decode_tx ce u = Inr outs \<and> oe_SumUtxoInputValues oe psbt = Inr ins \<and> fee = ins - sum_list (map out_Value outs) \<and>
    bitcoin_CreateOpeningAddress ce oe p BitcoinCsv = Inr addr"
  using assms by (auto simp: cln_CreateOpeningTransaction_def GetFeeSatsFromTx_def Let_def ow_tick_def split: opening_splits)

lemma lnd_opening_run:
  assumes "lnd_CreateOpeningTransaction ce oe p w = (Inr (hex, addr, txId, fee, vout), w')"
  shows "\<exists>outs psbt ins ok. ow_published w' = ow_published w @ [hex] \<and> bitcoin_GetVoutAndVerify ce hex p = Inr (ok, vout) \<and>
    decode_tx ce hex = Inr outs \<and> oe_SumUtxoInputValues oe psbt = Inr ins \<and> fee = ins - sum_list (map out_Value outs) \<and>
    bitcoin_CreateOpeningAddress ce oe p BitcoinCsv = Inr addr \<and> bitcoin_TxIdFromHex ce hex = Inr txId"
  using assms by (auto simp: lnd_CreateOpeningTransaction_def GetFeeSatsFromTx_def bitcoin_TxIdFromHex_def Let_def ow_tick_def split: opening_splits)

lemma opens_iff_valid: "bitcoin_GetVoutAndVerify ce hex p = Inr (ok, vout) \<Longrightarrow>
    bitcoin_ValidateTx ce p hex = Inr ok \<and> ok = (\<exists>i. opens ce p hex i) \<and> (\<forall>i. opens ce p hex i \<longrightarrow> vout = word_of_nat i) \<and> (\<not> ok \<longrightarrow> vout = 0)"
proof -
  assume run: "bitcoin_GetVoutAndVerify ce hex p = Inr (ok, vout)"
  then have same: "bitcoin_ValidateTx ce p hex = Inr ok" "\<not> ok \<longrightarrow> vout = 0"
    by (auto simp: bitcoin_GetVoutAndVerify_def bitcoin_ValidateTx_def split: opening_splits)
  have "\<exists>i. opens ce p hex i" if good: ok
  proof -
    obtain outs i out script where o: "decode_tx ce hex = Inr outs" "find_amount (op_Amount p) outs 0 = Some (i, out)"
      "bitcoin_GetOutputScript ce p = Inr script" "script = out_PkScript out"
      using run good by (auto simp: bitcoin_GetVoutAndVerify_def split: opening_splits)
    then have "opens ce p hex i" by (auto simp: opens_def find_amount_first)
    then show ?thesis by blast
  qed
  with run same show ?thesis by (auto dest: opens_validates)
qed


text \<open>
  A wallet that puts a change output of the same amount before the swap's output: the transaction of
  \<^const>\<open>example_chain\<close> with two outputs of the amount.
\<close>

definition example_opening_env :: opening_env where
  "example_opening_env = \<lparr>oe_EncodeAddress = (\<lambda>_. []), oe_SumUtxoInputValues = (\<lambda>_. Inr 20), oe_PrepareTx = (\<lambda>_ _ _. Inr ([], [], [])),
     oe_SetPSBTVersion = (\<lambda>_ s. Inr s), oe_SendTx = (\<lambda>_ _. Inr ([], [])), oe_FundPsbt = (\<lambda>_ _ _. Inr []),
     oe_FinalizePsbt = (\<lambda>_ _. Inr ([], [])), oe_reserialize = (\<lambda>b. Inr b), oe_base64 = (\<lambda>_. []), oe_PublishTransaction = (\<lambda>_ _. None),
     oe_ListFunds = (\<lambda>_. Inr []), oe_WalletBalance = (\<lambda>_. Inr 0)\<rparr>"

definition shadowed_chain :: chain_env where
  "shadowed_chain = example_chain\<lparr>ce_Deserialize := (\<lambda>_. Inr [\<lparr>out_Value = 8, out_PkScript = [9]\<rparr>, \<lparr>out_Value = 8, out_PkScript = [0, 7]\<rparr>])\<rparr>"

lemmas example_opening_defs = lnd_CreateOpeningTransaction_def bitcoin_CreateOpeningAddress_def GetFeeSatsFromTx_def
  bitcoin_GetVoutAndVerify_def bitcoin_ValidateTx_def decode_tx_def bitcoin_GetOutputScript_def ParamsToTxScript_def
  GetOpeningTxScript_def hex_bytes_def example_chain_def example_params_def example_opening_env_def shadowed_chain_def ow_tick_def hex_EncodeToString_def Let_def



end
