(* ===== verification/PS_Transport.thy ===== *)
theory PS_Transport
  imports PS_Messages
begin

text \<open>
  How a PeerSwap message travels: sending and receiving custom messages through Core Lightning
  (\<open>clightning/clightning.go\<close>) and through lnd (\<open>lnd/client.go\<close>, \<open>lnd/messagelistener.go\<close>), and the
  listeners for peers that come and go (\<open>lnd/peerlistener.go\<close>).  A message on the wire has a 16 bit type
  and a payload; that Core Lightning writes both as one hexadecimal text is its documented behaviour
  and a hypothesis.
\<close>

section \<open>Handlers\<close>

text \<open>A handler gets the sender, the type as text and the payload; the state \<open>'c\<close> is what handlers change.\<close>

type_synonym 'c msg_handler = "string \<Rightarrow> string \<Rightarrow> byte list \<Rightarrow> 'c \<Rightarrow> go_error option \<times> 'c"

fun run_handlers :: "'c msg_handler list \<Rightarrow> string \<Rightarrow> string \<Rightarrow> byte list \<Rightarrow> 'c \<Rightarrow> 'c" where
  "run_handlers [] peerId msgType payload c = c"
| "run_handlers (h # hs) peerId msgType payload c = run_handlers hs peerId msgType payload (snd (h peerId msgType payload c))"

definition AddMessageHandler :: "'c msg_handler \<Rightarrow> 'c msg_handler list \<Rightarrow> 'c msg_handler list" where
  "AddMessageHandler f handlers = handlers @ [f]"

section \<open>Core Lightning\<close>

text \<open>The error, and the call of the node if it is made: the peer and the message as text.\<close>

definition cln_SendMessage ::
  "(string \<Rightarrow> string \<Rightarrow> go_error + int \<times> string) \<Rightarrow> string \<Rightarrow> byte list \<Rightarrow> int \<Rightarrow> go_error option \<times> (string \<times> string) option" where
  "cln_SendMessage SendCustomMessage peerId message messageType =
     (let msg = MessageTypeToHexString messageType @ hex_EncodeToString message in
      if peerId = '''' then (Some (ErrText ''failed to send custom message: peerId is empty''), None)
      else (case SendCustomMessage peerId msg of
              Inl e \<Rightarrow> (Some (ErrWrap ''failed to send custom message'' e), Some (peerId, msg))
            | Inr (code, info) \<Rightarrow> (if code \<noteq> 0 then Some (ErrText info) else None, Some (peerId, msg))))"

text \<open>The hook of the node.  A text of less than four characters cannot be sliced: \<open>None\<close> is the panic.\<close>

definition cln_OnCustomMsg :: "'c msg_handler list \<Rightarrow> string \<Rightarrow> string \<Rightarrow> 'c \<Rightarrow> 'c option" where
  "cln_OnCustomMsg msgHandlers peerId eventPayload c =
     (if length eventPayload < 4 then None
      else (case hex_DecodeString (drop 4 eventPayload) of
              (_, Some _) \<Rightarrow> Some c
            | (payloadDecoded, None) \<Rightarrow> Some (run_handlers msgHandlers peerId (take 4 eventPayload) payloadDecoded c)))"

definition cln_GetPeers :: "go_error + (string \<times> bool) list \<Rightarrow> string list" where
  "cln_GetPeers res = (case res of Inl _ \<Rightarrow> [] | Inr peers \<Rightarrow> map fst (filter snd peers))"

section \<open>lnd\<close>

definition lnd_SendMessage ::
  "(byte list \<Rightarrow> u32 \<Rightarrow> byte list \<Rightarrow> go_error option) \<Rightarrow> string \<Rightarrow> byte list \<Rightarrow> int \<Rightarrow>
   go_error option \<times> (byte list \<times> u32 \<times> byte list) option" where
  "lnd_SendMessage SendCustomMessage peerId message messageType = (case hex_DecodeString peerId of
     (_, Some e) \<Rightarrow> (Some (ErrHex e), None)
   | (peerBytes, None) \<Rightarrow> (SendCustomMessage peerBytes (word_of_int messageType) message,
       Some (peerBytes, word_of_int messageType, message)))"

text \<open>The stream of the message listener: it ends with the first error.\<close>

fun listen_messages :: "'c msg_handler list \<Rightarrow> (go_error + byte list \<times> u32 \<times> byte list) list \<Rightarrow> 'c \<Rightarrow> 'c" where
  "listen_messages handlers [] c = c"
| "listen_messages handlers (Inl e # stream) c = c"
| "listen_messages handlers (Inr (peer, msgType, msgData) # stream) c =
     listen_messages handlers stream (run_handlers handlers (hex_EncodeToString peer) (MessageTypeToHexString (uint msgType)) msgData c)"

definition lnd_GetPeers :: "go_error + string list \<Rightarrow> string list" where
  "lnd_GetPeers res = (case res of Inl _ \<Rightarrow> [] | Inr peers \<Rightarrow> peers)"

subsection \<open>Peers that come and go\<close>

datatype PeerEvent_EventType = PEER_ONLINE | PEER_OFFLINE | PeerEvent_other nat

type_synonym 'h peer_handlers = "PeerEvent_EventType \<Rightarrow> 'h list"

definition NewPeerListener :: "'h peer_handlers" where
  "NewPeerListener = (\<lambda>_. [])"

definition AddHandler :: "PeerEvent_EventType \<Rightarrow> 'h \<Rightarrow> 'h peer_handlers \<Rightarrow> go_error option \<times> 'h peer_handlers" where
  "AddHandler evt f handlers = (case evt of
     PeerEvent_other n \<Rightarrow> (Some (ErrText (''unknown peer event type: '' @ fmt_nat n)), handlers)
   | _ \<Rightarrow> (None, handlers(evt := handlers evt @ [f])))"

text \<open>The handlers that are started, with the peer they get, until the stream ends.\<close>

fun listen_peers :: "'h peer_handlers \<Rightarrow> (go_error + PeerEvent_EventType \<times> string) list \<Rightarrow> ('h \<times> string) list" where
  "listen_peers handlers [] = []"
| "listen_peers handlers (Inl e # stream) = []"
| "listen_peers handlers (Inr (evt, pubKey) # stream) = map (\<lambda>h. (h, pubKey)) (handlers evt) @ listen_peers handlers stream"

section \<open>Delivery\<close>

text \<open>
  The contract of a node: sending one of the PeerSwap messages to a peer puts its type and payload on
  the wire, and a message from the wire reaches the handlers with its sender, its type as the text that
  \<^const>\<open>MessageTypeToHexString\<close> gives, and its payload.
\<close>

type_synonym wire_message = "16 word \<times> byte list"

locale messenger =
  fixes sends :: "byte list \<Rightarrow> byte list \<Rightarrow> int \<Rightarrow> (byte list \<times> wire_message) option"
    and receives :: "'c msg_handler list \<Rightarrow> byte list \<Rightarrow> wire_message \<Rightarrow> 'c \<Rightarrow> 'c option"
  assumes sends_wire: "pk \<noteq> [] \<Longrightarrow> t \<in> set peerswap_types \<Longrightarrow> sends pk payload t = Some (pk, word_of_int t, payload)"
    and receives_wire: "t \<in> set peerswap_types \<Longrightarrow>
      receives hs pk (word_of_int t, payload) c = Some (run_handlers hs (hex_EncodeToString pk) (MessageTypeToHexString t) payload c)"
begin

lemma delivered:
  "pk \<noteq> [] \<Longrightarrow> t \<in> set peerswap_types \<Longrightarrow> \<exists>w. sends pk payload t = Some (pk, w) \<and>
   receives hs from w c = Some (run_handlers hs (hex_EncodeToString from) (MessageTypeToHexString t) payload c)"
  using sends_wire receives_wire by blast

end

text \<open>
  The documented form of Core Lightning's custom messages: the type in big-endian order and the payload,
  in hexadecimal, both for the command and for the hook.
\<close>

definition cln_text :: "wire_message \<Rightarrow> string" where
  "cln_text w = (case w of (t, payload) \<Rightarrow> hex_EncodeToString ([ucast (drop_bit 8 t), ucast t] @ payload))"

definition cln_wire :: "(string \<Rightarrow> wire_message option) \<Rightarrow> (wire_message \<Rightarrow> string) \<Rightarrow> bool" where
  "cln_wire parse print \<longleftrightarrow> (\<forall>w. parse (cln_text w) = Some w \<and> print w = cln_text w)"

lemma digits_base_four:
  assumes "4096 \<le> n" "n < 65536"
  shows "digits_base 16 n = [n div 4096, n div 256 mod 16, n div 16 mod 16, n mod 16]"
proof -
  have "digits_base 16 n = digits_base 16 (n div 16) @ [n mod 16]"
    using assms by (subst digits_base.simps) simp
  moreover have "digits_base 16 (n div 16) = digits_base 16 (n div 16 div 16) @ [n div 16 mod 16]"
    using assms by (subst digits_base.simps) simp
  moreover have "digits_base 16 (n div 16 div 16) = digits_base 16 (n div 16 div 16 div 16) @ [n div 16 div 16 mod 16]"
    using assms by (subst digits_base.simps) simp
  moreover have "digits_base 16 (n div 16 div 16 div 16) = [n div 16 div 16 div 16]"
    using assms by (subst digits_base.simps) simp
  ultimately show ?thesis by (simp add: div_mult2_eq [symmetric])
qed

lemma peerswap_types_hex:
  "t \<in> set peerswap_types \<Longrightarrow> MessageTypeToHexString t =
     hex_EncodeToString [ucast (drop_bit 8 (word_of_int t :: 16 word)), ucast (word_of_int t :: 16 word)]"
proof -
  assume t: "t \<in> set peerswap_types"
  then have range: "4096 \<le> nat t" "nat t < 65536" "0 \<le> t"
    by (auto simp: peerswap_types_def msgtype_defs)
  have "unat (ucast (drop_bit 8 (word_of_int t :: 16 word)) :: byte) = nat t div 256" "unat (ucast (word_of_int t :: 16 word) :: byte) = nat t mod 256"
    using t by (auto simp: peerswap_types_def msgtype_defs)
  moreover have "nat t mod 256 = 16 * (nat t div 16 mod 16) + nat t mod 16"
    using mod_mult2_eq [of "nat t" 16 16] by simp
  then have "nat t mod 256 div 16 = nat t div 16 mod 16" "nat t mod 256 mod 16 = nat t mod 16" by simp_all
  moreover have "nat t div 256 div 16 = nat t div 4096"
    using div_mult2_eq [of "nat t" 256 16] by simp
  ultimately show ?thesis
    using range by (simp add: MessageTypeToHexString_def fmt_hex_def hex_EncodeToString_def hex_encode_byte_def digits_base_four)
qed

lemma uint_peerswap_type: "t \<in> set peerswap_types \<Longrightarrow> uint (word_of_int t :: u32) = t"
  by (auto simp: peerswap_types_def msgtype_defs)

definition cln_sends :: "(string \<Rightarrow> wire_message option) \<Rightarrow> (string \<Rightarrow> string \<Rightarrow> go_error + int \<times> string) \<Rightarrow>
    byte list \<Rightarrow> byte list \<Rightarrow> int \<Rightarrow> (byte list \<times> wire_message) option" where
  "cln_sends parse answer pk payload t = (case snd (cln_SendMessage answer (hex_EncodeToString pk) payload t) of
     None \<Rightarrow> None
   | Some (peerId, msg) \<Rightarrow> (case parse msg of None \<Rightarrow> None | Some w \<Rightarrow> Some (fst (hex_DecodeString peerId), w)))"

definition cln_receives :: "(wire_message \<Rightarrow> string) \<Rightarrow> 'c msg_handler list \<Rightarrow> byte list \<Rightarrow> wire_message \<Rightarrow> 'c \<Rightarrow> 'c option" where
  "cln_receives print hs pk w c = cln_OnCustomMsg hs (hex_EncodeToString pk) (print w) c"

text \<open>lnd takes the type as 32 bits and reports it as 32 bits.\<close>

definition lnd_sends :: "(byte list \<Rightarrow> u32 \<Rightarrow> byte list \<Rightarrow> go_error option) \<Rightarrow> byte list \<Rightarrow> byte list \<Rightarrow> int \<Rightarrow>
    (byte list \<times> wire_message) option" where
  "lnd_sends answer pk payload t = (case snd (lnd_SendMessage answer (hex_EncodeToString pk) payload t) of
     None \<Rightarrow> None | Some (peer, msgType, msgData) \<Rightarrow> Some (peer, ucast msgType, msgData))"

definition lnd_receives :: "'c msg_handler list \<Rightarrow> byte list \<Rightarrow> wire_message \<Rightarrow> 'c \<Rightarrow> 'c option" where
  "lnd_receives hs pk w c = (case w of (t, payload) \<Rightarrow> Some (listen_messages hs [Inr (pk, ucast t, payload)] c))"

lemma cln_text_type: "t \<in> set peerswap_types \<Longrightarrow> cln_text (word_of_int t, payload) = MessageTypeToHexString t @ hex_EncodeToString payload"
  by (simp add: cln_text_def peerswap_types_hex hex_EncodeToString_def)

lemma peerswap_type_length: "t \<in> set peerswap_types \<Longrightarrow> length (MessageTypeToHexString t) = 4"
  by (simp add: peerswap_types_hex)

lemma hex_not_empty: "pk \<noteq> [] \<Longrightarrow> hex_EncodeToString pk \<noteq> ''''"
  using length_hex_EncodeToString [of pk] by fastforce

lemma peerswap_type_u32: "t \<in> set peerswap_types \<Longrightarrow> ucast (word_of_int t :: 16 word) = (word_of_int t :: u32)"
  by (auto simp: peerswap_types_def msgtype_defs)

lemma peerswap_type_u16: "t \<in> set peerswap_types \<Longrightarrow> ucast (word_of_int t :: u32) = (word_of_int t :: 16 word)"
  by (auto simp: peerswap_types_def msgtype_defs)

lemma cln_messenger: "cln_wire parse print \<Longrightarrow> messenger (cln_sends parse answer) (cln_receives print)"
proof unfold_locales
  assume wire: "cln_wire parse print"
  show "cln_sends parse answer pk payload t = Some (pk, word_of_int t, payload)" if "pk \<noteq> []" "t \<in> set peerswap_types" for pk payload t
  proof -
    have "parse (MessageTypeToHexString t @ hex_EncodeToString payload) = Some (word_of_int t, payload)"
      using wire cln_text_type [OF that(2)] by (metis cln_wire_def)
    then show ?thesis
      using hex_not_empty [OF that(1)]
      by (simp add: cln_sends_def cln_SendMessage_def Let_def split: sum.split prod.split)
  qed
  show "cln_receives print hs pk (word_of_int t, payload) c =
      Some (run_handlers hs (hex_EncodeToString pk) (MessageTypeToHexString t) payload c)" if "t \<in> set peerswap_types" for hs pk t payload and c :: 'c
    using wire that by (simp add: cln_receives_def cln_wire_def cln_text_type cln_OnCustomMsg_def peerswap_type_length)
qed

interpretation lnd_messenger: messenger "lnd_sends answer" lnd_receives for answer
  by unfold_locales (simp_all add: lnd_sends_def lnd_SendMessage_def lnd_receives_def peerswap_type_u16 peerswap_type_u32 uint_peerswap_type)

text \<open>A reader of the documented form.\<close>

definition cln_read :: "string \<Rightarrow> wire_message option" where
  "cln_read s = (case hex_DecodeString s of
     (hi # lo # payload, None) \<Rightarrow> Some (word_cat hi lo, payload) | _ \<Rightarrow> None)"

lemma cln_wire_read: "cln_wire cln_read cln_text"
proof -
  have "word_cat (ucast (drop_bit 8 t) :: byte) (ucast t :: byte) = t" for t :: "16 word"
    by (rule bit_word_eqI) (auto simp: bit_word_cat_iff bit_ucast_iff bit_drop_bit_eq)
  then show ?thesis by (auto simp: cln_wire_def cln_read_def cln_text_def)
qed

interpretation cln_messenger: messenger "cln_sends cln_read answer" "cln_receives cln_text" for answer
  using cln_messenger [OF cln_wire_read] .

text \<open>
  C29. Every PeerSwap message arrives as it was sent, between nodes of either kind: the peer gets the
  message that was passed to \<open>SendMessage\<close>, and its handlers are called with the sender, a type text
  that reads back as the type of the message, and the same payload.
\<close>

theorem messages_delivered:
  assumes "cln_wire parse print" "pk \<noteq> []" "t \<in> set peerswap_types"
  shows "\<exists>w ty. cln_sends parse a pk payload t = Some (pk, w) \<and> lnd_sends b pk payload t = Some (pk, w) \<and>
    cln_receives print hs from w c = Some (run_handlers hs (hex_EncodeToString from) ty payload c) \<and>
    lnd_receives hs from w c = Some (run_handlers hs (hex_EncodeToString from) ty payload c) \<and> PeerswapCustomMessageType ty = Inr t"
proof -
  note cln = cln_messenger [OF assms(1)]
  show ?thesis
    by (intro exI [of _ "(word_of_int t, payload)"] exI [of _ "MessageTypeToHexString t"] conjI messenger.sends_wire [OF cln assms(2,3)]
      lnd_messenger.sends_wire [OF assms(2,3)] messenger.receives_wire [OF cln assms(3)] lnd_messenger.receives_wire [OF assms(3)]
      peerswap_type_parses [OF assms(3)])
qed

theorem messages_delivered_witness:
  "\<exists>w ty. cln_sends cln_read (\<lambda>_ _. Inr (0, [])) [2] [7] MESSAGETYPE_COOPCLOSE = Some ([2], w) \<and>
     lnd_receives [\<lambda>p ty d c. (None, c @ [(p, d)])] [3] w [] = Some [(hex_EncodeToString [3], [7])] \<and>
     PeerswapCustomMessageType ty = Inr MESSAGETYPE_COOPCLOSE"
  using messages_delivered [OF cln_wire_read, of "[2]" MESSAGETYPE_COOPCLOSE "\<lambda>_ _. Inr (0, [])" "[7]" "\<lambda>_ _ _. None"
      "[\<lambda>p ty d c. (None, c @ [(p, d)])]" "[3]" "[]"]
  by (auto simp: peerswap_types_def)

end
