(* ===== verification/PS_Views.thy ===== *)
theory PS_Views
  imports PS_Service PS_PeerSync PS_Lightning "HOL-Library.List_Lexorder" "HOL-Library.Char_ord" "HOL-Library.Multiset"
begin

text \<open>
  What the front ends show: pages of a list (\<open>peerswaprpc/paging.go\<close>), a swap and its channel id
  (\<open>peerswaprpc/server.go\<close>), the totals of the swaps with a peer (\<open>peersync/format/peer_view.go\<close>,
  \<open>peerswaprpc/peer_view.go\<close>) and the lists of swaps, peers and nodes (\<open>peerswaprpc/server.go\<close>,
  \<open>clightning/clightning_commands.go\<close>).  The order that \<open>sort.Slice\<close> gives to equal keys is not
  documented: sorting is a parameter that returns a sorted permutation.
\<close>

section \<open>Pages (\<open>peerswaprpc/paging.go\<close>)\<close>

definition defaultPageSize :: int where "defaultPageSize = 100"
definition maxPageSize :: int where "maxPageSize = 1000"

definition pagingBounds :: "int \<Rightarrow> u32 \<Rightarrow> string \<Rightarrow> bool \<Rightarrow> go_error + int \<times> int \<times> string" where
  "pagingBounds len pageSize pageToken unpagedIfEmpty =
     (if len < 0 then Inl (ErrText ''invalid total size'')
      else if unpagedIfEmpty \<and> pageSize = 0 \<and> pageToken = '''' then Inr (0, len, '''')
      else (case (if pageToken = '''' then Some 0
                  else (case strconv_Atoi pageToken of Inl _ \<Rightarrow> None | Inr offset \<Rightarrow> if offset < 0 then None else Some offset)) of
              None \<Rightarrow> Inl (ErrText ''invalid page_token'')
            | Some start \<Rightarrow>
                (let size = uint pageSize;
                     size = (if size \<le> 0 then defaultPageSize else size);
                     size = (if maxPageSize < size then maxPageSize else size);
                     start = (if len < start then len else start);
                     stop = start + size;
                     stop = (if len < stop then len else stop)
                 in Inr (start, stop, if stop < len then fmt_int stop else ''''))))"

text \<open>The slice \<open>xs[start:stop]\<close>.\<close>

definition slice :: "int \<Rightarrow> int \<Rightarrow> 'a list \<Rightarrow> 'a list" where
  "slice start stop xs = take (nat (stop - start)) (drop (nat start) xs)"

definition page_of :: "'a list \<Rightarrow> u32 \<Rightarrow> string \<Rightarrow> go_error + 'a list \<times> string" where
  "page_of xs pageSize pageToken = (case pagingBounds (int (length xs)) pageSize pageToken True of
     Inl e \<Rightarrow> Inl e | Inr (start, stop, nextToken) \<Rightarrow> Inr (slice start stop xs, nextToken))"

section \<open>Channels and swaps (\<open>peerswaprpc/server.go\<close>)\<close>

record ShortChannelID =
  BlockHeight :: u32
  TxIndex :: u32
  TxPosition :: "16 word"

definition NewScidFromString :: "string \<Rightarrow> go_error + ShortChannelID" where
  "NewScidFromString scid = (case strings_Split CHR '':'' (strings_ReplaceAll scid CHR ''x'' CHR '':'') of
     [a, b, c] \<Rightarrow> (case strconv_Atoi a of
       Inl e \<Rightarrow> Inl (ErrNum a e)
     | Inr blockHeight \<Rightarrow> (case strconv_Atoi b of
       Inl e \<Rightarrow> Inl (ErrNum b e)
     | Inr txIndex \<Rightarrow> (case strconv_Atoi c of
       Inl e \<Rightarrow> Inl (ErrNum c e)
     | Inr txPosition \<Rightarrow> Inr \<lparr>BlockHeight = word_of_int blockHeight, TxIndex = word_of_int txIndex, TxPosition = word_of_int txPosition\<rparr>)))
   | _ \<Rightarrow> Inl (ErrText ''expected scid to be composed of 3 blocks''))"

fun SwapType_String :: "SwapType \<Rightarrow> string" where
  "SwapType_String SWAPTYPE_OUT = ''swap-out''"
| "SwapType_String SWAPTYPE_IN = ''swap-in''"
| "SwapType_String _ = []"

fun SwapRole_String :: "SwapRole \<Rightarrow> string" where
  "SwapRole_String SWAPROLE_SENDER = ''sender''"
| "SwapRole_String SWAPROLE_RECEIVER = ''receiver''"
| "SwapRole_String _ = []"

record PrettyPrintSwap =
  pp_Id :: string
  pp_CreatedAt :: i64
  pp_Asset :: string
  pp_Type :: string
  pp_Role :: string
  pp_State :: string
  pp_InitiatorNodeId :: string
  pp_PeerNodeId :: string
  pp_Amount :: u64
  pp_ChannelId :: string
  pp_OpeningTxId :: string
  pp_ClaimTxId :: string
  pp_CancelMessage :: string
  pp_LndChanId :: u64
  pp_PremiumAmount :: i64

text \<open>\<open>to_uint64\<close> is the third-party encoding of a channel id.\<close>

definition PrettyprintFromServiceSwap :: "(ShortChannelID \<Rightarrow> u64) \<Rightarrow> SwapStateMachine \<Rightarrow> PrettyPrintSwap" where
  "PrettyprintFromServiceSwap to_uint64 swp = (let d = sm_Data swp in
     \<lparr>pp_Id = SwapId_String (sm_SwapId swp), pp_CreatedAt = CreatedAt d, pp_Asset = GetChain d,
      pp_Type = SwapType_String (sm_Type swp), pp_Role = SwapRole_String (sm_Role swp), pp_State = StateType_String (sm_Current swp),
      pp_InitiatorNodeId = InitiatorNodeId d, pp_PeerNodeId = PeerNodeId d, pp_Amount = GetAmount d, pp_ChannelId = GetScid d,
      pp_OpeningTxId = GetOpeningTxId d, pp_ClaimTxId = ClaimTxId d, pp_CancelMessage = GetCancelMessage d,
      pp_LndChanId = (case NewScidFromString (GetScid d) of Inl _ \<Rightarrow> 0 | Inr scid \<Rightarrow> to_uint64 scid),
      pp_PremiumAmount = (if sm_Role swp = SWAPROLE_SENDER then - GetPremium d else GetPremium d)\<rparr>)"

section \<open>Totals (\<open>peersync/format/peer_view.go\<close>)\<close>

record SwapStats =
  SwapsOut :: u64
  SwapsIn :: u64
  SatsOut :: u64
  SatsIn :: u64

definition no_stats :: SwapStats where
  "no_stats = \<lparr>SwapsOut = 0, SwapsIn = 0, SatsOut = 0, SatsIn = 0\<rparr>"

definition count_swap :: "SwapType \<Rightarrow> u64 \<Rightarrow> SwapStats \<Rightarrow> SwapStats" where
  "count_swap t amount s = (if t = SWAPTYPE_OUT then s\<lparr>SwapsOut := SwapsOut s + 1, SatsOut := SatsOut s + amount\<rparr>
     else s\<lparr>SwapsIn := SwapsIn s + 1, SatsIn := SatsIn s + amount\<rparr>)"

definition summarize_step :: "SwapStateMachine \<Rightarrow> SwapStats \<times> SwapStats \<times> u64 \<Rightarrow> SwapStats \<times> SwapStats \<times> u64" where
  "summarize_step s acc = (case acc of (sender, receiver, paidFee) \<Rightarrow>
     if sm_Current s \<noteq> State_ClaimedPreimage then acc
     else if sm_Role s = SWAPROLE_SENDER
     then (count_swap (sm_Type s) (GetAmount (sm_Data s)) sender, receiver, paidFee + OpeningTxFee (sm_Data s))
     else (sender, count_swap (sm_Type s) (GetAmount (sm_Data s)) receiver, paidFee))"

definition summarizeSwaps :: "SwapStateMachine list \<Rightarrow> SwapStats \<times> SwapStats \<times> u64" where
  "summarizeSwaps swaps = fold summarize_step swaps (no_stats, no_stats, 0)"

record PeerView =
  pv_NodeID :: string
  pv_SwapsAllowed :: bool
  pv_SupportedAssets :: "string list"
  pv_PaidFee :: u64
  pv_Sender :: SwapStats
  pv_Receiver :: SwapStats
  pv_Premiums :: "(AssetType \<times> OperationType \<times> i64) list"

definition buildPremiumRates :: "PeerCapability option \<Rightarrow> (AssetType \<times> OperationType \<times> i64) list" where
  "buildPremiumRates cap = (case cap of
     None \<Rightarrow> []
   | Some _ \<Rightarrow> map (\<lambda>(asset, operation). (asset, operation, PremiumRateValue cap asset operation))
       [(BTC, SwapIn), (BTC, SwapOut), (LBTC, SwapIn), (LBTC, SwapOut)])"

definition BuildPeerView :: "string \<Rightarrow> PeerCapability option \<Rightarrow> SwapStateMachine list \<Rightarrow> PeerView" where
  "BuildPeerView nodeID cap swaps = (case summarizeSwaps swaps of (sender, receiver, paidFee) \<Rightarrow>
     \<lparr>pv_NodeID = nodeID,
      pv_SwapsAllowed = (case cap of None \<Rightarrow> False | Some c \<Rightarrow> isPeerAllowed c),
      pv_SupportedAssets = SupportedAssetStrings cap,
      pv_PaidFee = paidFee, pv_Sender = sender, pv_Receiver = receiver, pv_Premiums = buildPremiumRates cap\<rparr>)"

section \<open>Lists\<close>

record PeerSwapPeerChannel =
  pc_ChannelId :: u64
  pc_ShortChannelId :: string
  pc_LocalBalance :: u64
  pc_RemoteBalance :: u64
  pc_Active :: bool

record PeerSwapPeer =
  psp_View :: PeerView
  psp_PeerPremium :: "(string \<times> (AssetType \<times> OperationType \<times> i64) list) option"
  psp_Channels :: "PeerSwapPeerChannel list"

definition NewPeerSwapPeerFromView :: "PeerView \<Rightarrow> PeerSwapPeerChannel list \<Rightarrow> PeerSwapPeer" where
  "NewPeerSwapPeerFromView view channels = \<lparr>psp_View = view,
     psp_PeerPremium = (if pv_Premiums view = [] then None else Some (pv_NodeID view, pv_Premiums view)), psp_Channels = channels\<rparr>"

type_synonym swap_sort = "SwapStateMachine list \<Rightarrow> SwapStateMachine list"

text \<open>The documented behaviour of \<open>sort.Slice\<close> with a comparison of creation times.\<close>

definition sorts_by_creation :: "swap_sort \<Rightarrow> bool" where
  "sorts_by_creation go_sort \<longleftrightarrow> (\<forall>xs. mset (go_sort xs) = mset xs \<and> sorted (map (\<lambda>s. sint (CreatedAt (sm_Data s))) (go_sort xs)))"

definition page_of_swaps ::
  "(ShortChannelID \<Rightarrow> u64) \<Rightarrow> swap_sort \<Rightarrow> go_error + SwapStateMachine list \<Rightarrow> bool \<Rightarrow> u32 \<Rightarrow> string \<Rightarrow> go_error + PrettyPrintSwap list \<times> string" where
  "page_of_swaps to_uint64 go_sort res descending pageSize pageToken = (case res of
     Inl e \<Rightarrow> Inl e
   | Inr swaps \<Rightarrow> (case page_of (if descending then rev (go_sort swaps) else go_sort swaps) pageSize pageToken of
       Inl e \<Rightarrow> Inl e | Inr (page, nextToken) \<Rightarrow> Inr (map (PrettyprintFromServiceSwap to_uint64) page, nextToken)))"

definition rpc_ListSwaps ::
  "(ShortChannelID \<Rightarrow> u64) \<Rightarrow> swap_sort \<Rightarrow> SwapServices \<Rightarrow> bool \<Rightarrow> u32 \<Rightarrow> string \<Rightarrow> world \<Rightarrow> go_error + PrettyPrintSwap list \<times> string" where
  "rpc_ListSwaps to_uint64 go_sort sv descending pageSize pageToken w =
     page_of_swaps to_uint64 go_sort (ListSwaps sv w) descending pageSize pageToken"

definition rpc_ListActiveSwaps ::
  "(ShortChannelID \<Rightarrow> u64) \<Rightarrow> swap_sort \<Rightarrow> SwapServices \<Rightarrow> bool \<Rightarrow> u32 \<Rightarrow> string \<Rightarrow> world \<Rightarrow> go_error + PrettyPrintSwap list \<times> string" where
  "rpc_ListActiveSwaps to_uint64 go_sort sv descending pageSize pageToken w =
     page_of_swaps to_uint64 go_sort (ListActiveSwaps sv w) descending pageSize pageToken"

definition rpc_GetSwap :: "(ShortChannelID \<Rightarrow> u64) \<Rightarrow> SwapServices \<Rightarrow> string \<Rightarrow> world \<Rightarrow> go_error + PrettyPrintSwap" where
  "rpc_GetSwap to_uint64 sv swapId w = (if swapId = '''' then Inl (ErrText ''SwapId required'')
     else (case GetSwap sv swapId w of Inl e \<Rightarrow> Inl e | Inr swap \<Rightarrow> Inr (PrettyprintFromServiceSwap to_uint64 swap)))"

text \<open>The Core Lightning commands list without pages; active swaps in the order of the store.\<close>

definition cln_ListSwaps :: "(ShortChannelID \<Rightarrow> u64) \<Rightarrow> swap_sort \<Rightarrow> SwapServices \<Rightarrow> world \<Rightarrow> go_error + PrettyPrintSwap list" where
  "cln_ListSwaps to_uint64 go_sort sv w = (case ListSwaps sv w of
     Inl e \<Rightarrow> Inl e | Inr swaps \<Rightarrow> Inr (map (PrettyprintFromServiceSwap to_uint64) (go_sort swaps)))"

definition cln_ListActiveSwaps :: "(ShortChannelID \<Rightarrow> u64) \<Rightarrow> SwapServices \<Rightarrow> world \<Rightarrow> go_error + PrettyPrintSwap list" where
  "cln_ListActiveSwaps to_uint64 sv w = (case ListActiveSwaps sv w of
     Inl e \<Rightarrow> Inl e | Inr swaps \<Rightarrow> Inr (map (PrettyprintFromServiceSwap to_uint64) swaps))"

definition findChannels :: "string \<Rightarrow> Channel list \<Rightarrow> Channel list" where
  "findChannels peerId channelList = filter (\<lambda>v. RemotePubkey v = peerId) channelList"

definition lnrpcChannelToPeerswapChannel :: "lnd_env \<Rightarrow> Channel \<Rightarrow> PeerSwapPeerChannel" where
  "lnrpcChannelToPeerswapChannel en ch = \<lparr>pc_ChannelId = ChanId ch, pc_ShortChannelId = lnd_scid en (ChanId ch),
     pc_LocalBalance = LocalBalance ch, pc_RemoteBalance = RemoteBalance ch, pc_Active = ch_Active ch\<rparr>"

definition getPeerSwapChannels :: "lnd_env \<Rightarrow> string \<Rightarrow> Channel list \<Rightarrow> PeerSwapPeerChannel list" where
  "getPeerSwapChannels en peerId channelList = map (lnrpcChannelToPeerswapChannel en) (findChannels peerId channelList)"

definition peer_entry :: "SwapStateMachine list \<Rightarrow> (string \<rightharpoonup> Peer) \<Rightarrow> (string \<Rightarrow> PeerSwapPeerChannel list) \<Rightarrow> string \<Rightarrow> PeerSwapPeer" where
  "peer_entry allSwaps compatible channels pubKey = NewPeerSwapPeerFromView (BuildPeerView pubKey
     (case compatible pubKey of None \<Rightarrow> None | Some peer \<Rightarrow> capability peer)
     (filter (\<lambda>s. PeerNodeId (sm_Data s) = pubKey) allSwaps)) (channels pubKey)"

definition rpc_ListPeers ::
  "lnd_env \<Rightarrow> nat \<Rightarrow> PeerSync option \<Rightarrow> ps_world \<Rightarrow> SwapServices \<Rightarrow> u32 \<Rightarrow> string \<Rightarrow> world \<Rightarrow> go_error + PeerSwapPeer list \<times> string" where
  "rpc_ListPeers en t peerSync pw sv pageSize pageToken w = (case lnd_ListPeers en t of
     Inl e \<Rightarrow> Inl e
   | Inr peers \<Rightarrow> (case lnd_ListChannels en (Suc t) True of
     Inl e \<Rightarrow> Inl e
   | Inr channels \<Rightarrow> (case (case peerSync of None \<Rightarrow> Inr Map.empty | Some ps \<Rightarrow> CompatiblePeers ps pw) of
     Inl e \<Rightarrow> Inl e
   | Inr compatible \<Rightarrow> (case page_of (sort (filter (\<lambda>p. compatible p \<noteq> None) peers)) pageSize pageToken of
     Inl e \<Rightarrow> Inl e
   | Inr (pagePubKeys, nextToken) \<Rightarrow> (case ListSwaps sv w of
     Inl e \<Rightarrow> Inl e
   | Inr allSwaps \<Rightarrow> Inr (map (peer_entry allSwaps compatible (\<lambda>p. getPeerSwapChannels en p channels)) pagePubKeys, nextToken))))))"

text \<open>Feature bits: the bytes as one big-endian number (\<open>checkFeatures\<close>).\<close>

definition features_int :: "byte list \<Rightarrow> nat" where
  "features_int features = digits_value 256 (map unat features)"

definition checkFeatures :: "byte list \<Rightarrow> nat \<Rightarrow> bool" where
  "checkFeatures features featureBit \<longleftrightarrow> and (features_int features) (2 ^ featureBit) = 2 ^ featureBit"

definition featureBit :: nat where "featureBit = 69"

definition cln_ListNodes :: "go_error + string \<Rightarrow> go_error + (string \<times> byte list option) list \<Rightarrow> go_error + string list" where
  "cln_ListNodes getInfo listNodes = (case getInfo of
     Inl e \<Rightarrow> Inl e
   | Inr ownId \<Rightarrow> (case listNodes of
       Inl e \<Rightarrow> Inl e
     | Inr nodes \<Rightarrow> Inr (map fst (filter (\<lambda>(nodeId, features). (case features of None \<Rightarrow> False | Some raw \<Rightarrow> checkFeatures raw featureBit) \<and>
         nodeId \<noteq> ownId) nodes))))"

section \<open>Walking the pages\<close>

text \<open>
  A client that follows the page tokens: \<open>None\<close> if a page cannot be had, or if the number of
  requests is not enough.
\<close>

fun collect :: "nat \<Rightarrow> (string \<Rightarrow> go_error + 'a list \<times> string) \<Rightarrow> string \<Rightarrow> 'a list list option" where
  "collect 0 request token = None"
| "collect (Suc n) request token = (case request token of
     Inl _ \<Rightarrow> None
   | Inr (page, next_token) \<Rightarrow> if next_token = '''' then Some [page]
       else (case collect n request next_token of None \<Rightarrow> None | Some pages \<Rightarrow> Some (page # pages)))"

definition page_size :: "u32 \<Rightarrow> nat" where
  "page_size pageSize = (if pageSize = 0 then 100 else min 1000 (unat pageSize))"

definition token_at :: "nat \<Rightarrow> string" where
  "token_at k = (if k = 0 then '''' else fmt_nat k)"

lemma page_token_parses: "int k < 2 ^ 63 \<Longrightarrow> strconv_Atoi (fmt_nat k) = Inr (int k)"
  using ParseInt_digits [of 10 k] by (simp add: strconv_Atoi_def fmt_nat_def)

lemma fmt_nat_nonempty [simp]: "fmt_nat k \<noteq> ''''"
  by (simp add: fmt_nat_def)

lemma page_of_token:
  assumes "int (length xs) < 2 ^ 63" "k \<le> length xs" "pageSize \<noteq> 0 \<or> 0 < k"
  shows "page_of xs pageSize (token_at k) = Inr (take (page_size pageSize) (drop k xs),
    if k + page_size pageSize < length xs then token_at (k + page_size pageSize) else '''')"
proof -
  have size: "(let size = uint pageSize; size = (if size \<le> 0 then defaultPageSize else size) in if maxPageSize < size then maxPageSize else size) =
      int (page_size pageSize)"
  proof (cases "pageSize = 0")
    case False
    then have "0 < uint pageSize" by (simp add: word_neq_0_conv word_less_def)
    moreover have "1000 \<le> unat pageSize \<longleftrightarrow> 1000 \<le> uint pageSize" using uint_nat [of pageSize] by linarith
    ultimately show ?thesis using False by (auto simp: page_size_def maxPageSize_def min_def Let_def)
  qed (simp add: page_size_def defaultPageSize_def maxPageSize_def)
  have start: "(if token_at k = '''' then Some 0 else (case strconv_Atoi (token_at k) of Inl _ \<Rightarrow> None | Inr offset \<Rightarrow>
      if offset < 0 then None else Some offset)) = Some (int k)"
    using assms(1,2) by (simp add: token_at_def page_token_parses)
  have pos: "0 < page_size pageSize"
    by (simp add: page_size_def unat_gt_0)
  have bounds: "pagingBounds (int (length xs)) pageSize (token_at k) True = Inr (int k, min (int (length xs)) (int k + int (page_size pageSize)),
      if k + page_size pageSize < length xs then token_at (k + page_size pageSize) else '''')"
    using assms(2,3) pos
    unfolding pagingBounds_def start option.case Let_def size [unfolded Let_def]
    by (auto simp: token_at_def fmt_int_def nat_add_distrib)
  show ?thesis
    unfolding page_of_def bounds sum.case prod.case slice_def using assms(2)
    by (auto simp: min_def nat_diff_distrib nat_add_distrib)
qed

lemma collect_from:
  assumes "int (length xs) < 2 ^ 63" "k \<le> length xs" "length xs - k < n" "pageSize \<noteq> 0"
  shows "\<exists>pages. collect n (page_of xs pageSize) (token_at k) = Some pages \<and> concat pages = drop k xs \<and>
    (\<forall>p \<in> set pages. length p \<le> page_size pageSize)"
  using assms(2,3)
proof (induction n arbitrary: k)
  case (Suc n)
  let ?k = "k + page_size pageSize"
  have page: "page_of xs pageSize (token_at k) = Inr (take (page_size pageSize) (drop k xs), if ?k < length xs then token_at ?k else '''')"
    using page_of_token [OF assms(1) Suc.prems(1)] assms(4) by simp
  have pos: "0 < page_size pageSize" using assms(4) by (simp add: page_size_def unat_gt_0)
  show ?case
  proof (cases "?k < length xs")
    case True
    then have "?k \<le> length xs" "length xs - ?k < n" using Suc.prems pos by linarith+
    from Suc.IH [OF this] obtain pages where "collect n (page_of xs pageSize) (token_at ?k) = Some pages"
      "concat pages = drop ?k xs" "\<forall>p \<in> set pages. length p \<le> page_size pageSize"
      by blast
    moreover have "take (page_size pageSize) (drop k xs) @ drop ?k xs = drop k xs"
      by (metis append_take_drop_id drop_drop add.commute)
    ultimately show ?thesis using page True pos by (simp add: token_at_def)
  next
    case False
    then show ?thesis using page by simp
  qed
qed simp

lemma pages_cover_list:
  assumes "int (length xs) < 2 ^ 63"
  shows "\<exists>pages. collect (Suc (length xs)) (page_of xs pageSize) '''' = Some pages \<and> concat pages = xs \<and>
    (pageSize \<noteq> 0 \<longrightarrow> (\<forall>p \<in> set pages. length p \<le> unat pageSize \<and> length p \<le> 1000))"
proof (cases "pageSize = 0")
  case True
  then have "page_of xs pageSize '''' = Inr (xs, '''')"
    by (simp add: page_of_def pagingBounds_def slice_def)
  then show ?thesis using True by simp
next
  case False
  with collect_from [OF assms, of 0 "Suc (length xs)" pageSize] obtain pages where
    "collect (Suc (length xs)) (page_of xs pageSize) '''' = Some pages" "concat pages = xs" "\<forall>p \<in> set pages. length p \<le> page_size pageSize"
    by (auto simp: token_at_def)
  with False show ?thesis by (auto simp: page_size_def)
qed

lemma collect_map:
  "collect n (\<lambda>t. case request t of Inl e \<Rightarrow> Inl e | Inr (page, next_token) \<Rightarrow> Inr (map f page, next_token)) token =
   map_option (map (map f)) (collect n request token)"
  by (induction n arbitrary: token) (auto split: sum.splits option.splits)

text \<open>
  Following the page tokens shows every swap once.  As long as the stored swaps do not change, a
  client that starts without a token and follows the tokens gets, after at most one request more than
  there are swaps, pages that together show each stored swap exactly once, ordered by the time of
  creation, or by falling time on request.  No page is larger than asked for, nor than a thousand
  swaps.
\<close>

theorem swaps_paged_once:
  assumes "sorts_by_creation go_sort" "ListSwaps sv w = Inr swaps" "int (length swaps) < 2 ^ 63"
  shows "\<exists>pages shown. collect (Suc (length swaps)) (\<lambda>token. rpc_ListSwaps to_uint64 go_sort sv descending pageSize token w) [] = Some pages \<and>
    concat pages = map (PrettyprintFromServiceSwap to_uint64) shown \<and> mset shown = mset swaps \<and>
    sorted (map (\<lambda>s. sint (CreatedAt (sm_Data s))) (if descending then rev shown else shown)) \<and>
    (pageSize \<noteq> 0 \<longrightarrow> (\<forall>p \<in> set pages. length p \<le> unat pageSize \<and> length p \<le> 1000))"
proof -
  let ?shown = "if descending then rev (go_sort swaps) else go_sort swaps"
  have sort: "mset (go_sort swaps) = mset swaps" "sorted (map (\<lambda>s. sint (CreatedAt (sm_Data s))) (go_sort swaps))"
    using assms(1) by (simp_all add: sorts_by_creation_def)
  from sort(1) have len: "length ?shown = length swaps" by (auto dest: mset_eq_length)
  from pages_cover_list [of ?shown pageSize] len assms(3) obtain pages where
    pages: "collect (Suc (length swaps)) (page_of ?shown pageSize) [] = Some pages" "concat pages = ?shown"
      "pageSize \<noteq> 0 \<longrightarrow> (\<forall>p \<in> set pages. length p \<le> unat pageSize \<and> length p \<le> 1000)"
    by auto
  have "collect (Suc (length swaps)) (\<lambda>token. rpc_ListSwaps to_uint64 go_sort sv descending pageSize token w) [] =
      Some (map (map (PrettyprintFromServiceSwap to_uint64)) pages)"
    using collect_map [of "Suc (length swaps)" "PrettyprintFromServiceSwap to_uint64" "page_of ?shown pageSize" "[]"] pages(1) assms(2)
    by (simp add: rpc_ListSwaps_def page_of_swaps_def del: collect.simps)
  moreover have "concat (map (map (PrettyprintFromServiceSwap to_uint64)) pages) = map (PrettyprintFromServiceSwap to_uint64) ?shown"
    using pages(2) by (metis map_concat)
  moreover have "mset ?shown = mset swaps" using sort(1) by simp
  moreover have "sorted (map (\<lambda>s. sint (CreatedAt (sm_Data s))) (if descending then rev ?shown else ?shown))" using sort(2) by simp
  ultimately show ?thesis using pages(3) by (intro exI conjI) (auto simp del: collect.simps)
qed

definition demo_finished :: SwapStateMachine where
  "demo_finished = \<lparr>sm_SwapId = Some [1], sm_Data = demo_out_data, sm_Type = SWAPTYPE_OUT, sm_Role = SWAPROLE_SENDER,
     sm_Previous = Default, sm_Current = State_ClaimedPreimage, sm_retries = 0\<rparr>"

theorem swaps_paged_once_witness:
  "\<exists>pages. collect (Suc (Suc 0)) (\<lambda>token. rpc_ListSwaps (\<lambda>_. 0) (sort_key (\<lambda>s. sint (CreatedAt (sm_Data s)))) demo_services False 5 token
     (demo_world\<lparr>w_store := Some [[1] \<mapsto> demo_finished]\<rparr>)) [] = Some pages \<and>
     concat pages = [PrettyprintFromServiceSwap (\<lambda>_. 0) demo_finished]"
proof -
  let ?w = "demo_world\<lparr>w_store := Some [[1] \<mapsto> demo_finished]\<rparr>"
  have sort: "sorts_by_creation (sort_key (\<lambda>s. sint (CreatedAt (sm_Data s))))"
    by (simp add: sorts_by_creation_def)
  have swaps: "ListSwaps demo_services ?w = Inr [demo_finished]"
    by (simp add: ListSwaps_def ListAll_def db_View_def bucket_values_def)
  have size: "int (length [demo_finished]) < 2 ^ 63" by simp
  obtain pages shown where "collect (Suc (length [demo_finished])) (\<lambda>token. rpc_ListSwaps (\<lambda>_. 0) (sort_key (\<lambda>s. sint (CreatedAt (sm_Data s))))
      demo_services False 5 token ?w) [] = Some pages" "concat pages = map (PrettyprintFromServiceSwap (\<lambda>_. 0)) shown" "mset shown = mset [demo_finished]"
    using swaps_paged_once [OF sort swaps size, of "\<lambda>_. 0" False 5] by blast
  then show ?thesis by (intro exI [of _ pages]) simp
qed

section \<open>Totals\<close>

text \<open>The totals a reader expects: the completed swaps in which the node was the
  sender or not, by direction, counted and added up.\<close>

definition completed :: "bool \<Rightarrow> bool \<Rightarrow> SwapStateMachine list \<Rightarrow> SwapStateMachine list" where
  "completed sender out swaps = filter (\<lambda>s. sm_Current s = State_ClaimedPreimage \<and> (sm_Role s = SWAPROLE_SENDER) = sender \<and>
     (sm_Type s = SWAPTYPE_OUT) = out) swaps"

definition amounts :: "SwapStateMachine list \<Rightarrow> u64" where
  "amounts swaps = sum_list (map (\<lambda>s. GetAmount (sm_Data s)) swaps)"

definition stats_of :: "bool \<Rightarrow> SwapStateMachine list \<Rightarrow> SwapStats" where
  "stats_of sender swaps = \<lparr>SwapsOut = word_of_nat (length (completed sender True swaps)),
     SwapsIn = word_of_nat (length (completed sender False swaps)),
     SatsOut = amounts (completed sender True swaps), SatsIn = amounts (completed sender False swaps)\<rparr>"

text \<open>
  The totals shown for a peer are, modulo the width of the counters, the number and the sum of
  the amounts of its swaps that ended with the preimage, by role and type; the paid fees are those of
  the swaps in which the node was the sender.
\<close>

theorem summarize_totals:
  "summarizeSwaps swaps = (stats_of True swaps, stats_of False swaps,
     sum_list (map (\<lambda>s. OpeningTxFee (sm_Data s))
       (filter (\<lambda>s. sm_Current s = State_ClaimedPreimage \<and> sm_Role s = SWAPROLE_SENDER) swaps)))"
proof (induction swaps rule: rev_induct)
  case Nil
  show ?case by (simp add: summarizeSwaps_def stats_of_def no_stats_def completed_def amounts_def)
next
  case (snoc s swaps)
  then have "summarizeSwaps (swaps @ [s]) = summarize_step s (stats_of True swaps, stats_of False swaps,
     sum_list (map (\<lambda>s. OpeningTxFee (sm_Data s))
       (filter (\<lambda>s. sm_Current s = State_ClaimedPreimage \<and> sm_Role s = SWAPROLE_SENDER) swaps)))"
    by (simp add: summarizeSwaps_def)
  then show ?case
    by (cases "sm_Role s = SWAPROLE_SENDER"; cases "sm_Type s = SWAPTYPE_OUT")
      (simp_all add: summarize_step_def stats_of_def count_swap_def completed_def amounts_def)
qed

end
