(* ===== verification/PS_Commands.thy ===== *)
theory PS_Commands
  imports PS_Views PS_ActiveSwaps
begin

text \<open>
  How an operator starts a swap: the calls \<open>SwapOut\<close> and \<open>SwapIn\<close> of the RPC server of the lnd daemon
  (\<open>peerswaprpc/server.go\<close>) and of the Core Lightning plugin (\<open>clightning/clightning_commands.go\<close>), with the
  wait for the opening transaction (\<open>WaitForStateChange\<close> of \<open>swap/fsm.go\<close>).

  The node's answers are parameters read at a clock.  While a call waits, other goroutines drive the
  machine: what the waiting goroutine sees of it is a list of snapshots, one per wake-up.  The text that
  \<open>fmt.Errorf\<close> makes of a cancel message used as a format string is a parameter.
\<close>

section \<open>Waiting for a state (\<open>swap/fsm.go\<close>)\<close>

text \<open>
  The machine as seen when the wait begins, and at every wake-up of the condition variable; the last
  wake-up is the one of the timeout, after which the wanted state is checked once more.
\<close>

fun WaitForStateChange :: "(StateType \<Rightarrow> bool) \<Rightarrow> SwapStateMachine \<Rightarrow> SwapStateMachine list \<Rightarrow> bool \<times> SwapStateMachine" where
  "WaitForStateChange isDesiredState sm [] = (isDesiredState (sm_Current sm), sm)"
| "WaitForStateChange isDesiredState sm (woken # later) =
     (if isDesiredState (sm_Current sm) then (True, sm) else WaitForStateChange isDesiredState woken later)"

text \<open>The two states that end the wait, and what the call answers.\<close>

definition await_start ::
  "(ShortChannelID \<Rightarrow> u64) \<Rightarrow> (string \<Rightarrow> go_error) \<Rightarrow> StateType \<Rightarrow> SwapStateMachine \<Rightarrow> SwapStateMachine list \<Rightarrow>
     go_error + PrettyPrintSwap" where
  "await_start to_uint64 canceled target sm wakes =
     (case WaitForStateChange (\<lambda>st. st = target \<or> st = State_SwapCanceled) sm wakes of
        (False, _) \<Rightarrow> Inl (ErrText ''rpc timeout reached, use peerswap-listswaps for info'')
      | (True, sm) \<Rightarrow>
          if sm_Current sm = State_SwapCanceled then Inl (canceled (GetCancelMessage (sm_Data sm)))
          else Inr (PrettyprintFromServiceSwap to_uint64 sm))"

text \<open>The answer of a started swap: its error, or the result of the wait.\<close>

type_synonym call_result = "((go_error + PrettyPrintSwap) \<times> SwapService \<times> world) outcome"

definition answer_start :: "(SwapStateMachine \<Rightarrow> go_error + PrettyPrintSwap) \<Rightarrow> start_result \<Rightarrow> call_result" where
  "answer_start await r = (case r of
     Panic \<Rightarrow> Panic | OutOfFuel \<Rightarrow> OutOfFuel
   | Ret (Inl e, s, w) \<Rightarrow> Ret (Inl e, s, w)
   | Ret (Inr sm, s, w) \<Rightarrow> Ret (await sm, s, w))"

section \<open>The RPC server of the lnd daemon (\<open>peerswaprpc/server.go\<close>)\<close>

record SwapRequest =
  sr_ChannelId :: u64
  sr_SwapAmount :: u64
  sr_Asset :: string
  sr_Force :: bool
  sr_PremiumLimitRatePpm :: i64

text \<open>What the server holds beside the swap service: the node, the Liquid wallet, the peer service.\<close>

record rpc_env =
  re_lnd :: lnd_env
  re_GetInfo :: "nat \<Rightarrow> go_error + string"
  re_Ping :: "nat \<Rightarrow> go_error option \<times> bool"
  re_peerSync :: "PeerSync option"
  re_peers :: ps_world
  re_to_uint64 :: "ShortChannelID \<Rightarrow> u64"
  re_Errorf :: "string \<Rightarrow> go_error"
  re_wakes :: "SwapStateMachine \<Rightarrow> SwapStateMachine list"

text \<open>The loop over the channels has no \<open>break\<close>: the last channel with the id counts.\<close>

definition rpc_channel :: "u64 \<Rightarrow> Channel list \<Rightarrow> Channel option" where
  "rpc_channel chanId channels = find (\<lambda>v. ChanId v = chanId) (rev channels)"

definition ping_error :: "go_error option \<times> bool \<Rightarrow> go_error option" where
  "ping_error r = (case r of
     (Some perr, _) \<Rightarrow> Some (ErrText (''liquid wallet not reachable: '' @ Error perr))
   | (None, ok) \<Rightarrow> if ok then None else Some (ErrText ''liquid wallet not reachable: <nil>''))"

text \<open>The asset switch; only a swap-out pings the Liquid wallet.\<close>

definition asset_error :: "bool \<Rightarrow> (nat \<Rightarrow> go_error option \<times> bool) \<Rightarrow> nat \<Rightarrow> SwapService \<Rightarrow> string \<Rightarrow> go_error option" where
  "asset_error pings ping t s asset =
     (if asset = ''lbtc'' then
        (if \<not> LiquidEnabled s then Some (ErrText ''liquid swaps are not enabled'')
         else if pings then ping_error (ping t) else None)
      else if asset = ''btc'' then
        (if \<not> BitcoinEnabled s then Some (ErrText ''bitcoin swaps are not enabled'') else None)
      else Some (ErrText ''invalid asset (btc or lbtc)''))"

definition compatible_peer :: "PeerSync option \<Rightarrow> ps_world \<Rightarrow> string \<Rightarrow> bool" where
  "compatible_peer peerSync pw peerId = (case peerSync of None \<Rightarrow> False | Some ps \<Rightarrow> HasCompatiblePeer ps peerId pw)"

definition rpc_isPeerConnected :: "lnd_env \<Rightarrow> nat \<Rightarrow> string \<Rightarrow> bool" where
  "rpc_isPeerConnected en t peerId = (case lnd_ListPeers en t of Inl _ \<Rightarrow> False | Inr peers \<Rightarrow> list_ex (\<lambda>p. p = peerId) peers)"

text \<open>
  The part that both calls share after their balance check: channel, asset, own key, peer.  The calls
  of the node happen at the ticks \<open>t\<close> (channels), \<open>t + 1\<close> (ping), \<open>t + 2\<close> (info) and \<open>t + 3\<close> (peers).
\<close>

definition rpc_target :: "rpc_env \<Rightarrow> nat \<Rightarrow> bool \<Rightarrow> SwapRequest \<Rightarrow> SwapService \<Rightarrow> Channel \<Rightarrow> go_error + string" where
  "rpc_target en t pings request s swapchan =
     (if \<not> ch_Active swapchan then Inl (ErrText ''channel is not connected'')
      else (case asset_error pings (re_Ping en) (t + 1) s (sr_Asset request) of
        Some e \<Rightarrow> Inl e
      | None \<Rightarrow> (case re_GetInfo en (t + 2) of
        Inl e \<Rightarrow> Inl e
      | Inr pk \<Rightarrow>
          if \<not> sr_Force request \<and> \<not> compatible_peer (re_peerSync en) (re_peers en) (RemotePubkey swapchan)
          then Inl (ErrText ''peer does not run peerswap'')
          else if \<not> rpc_isPeerConnected (re_lnd en) (t + 3) (RemotePubkey swapchan)
          then Inl (ErrText ''peer is not connected'') else Inr pk)))"

definition rpc_SwapOut :: "rpc_env \<Rightarrow> nat \<Rightarrow> SwapServices \<Rightarrow> SwapRequest \<Rightarrow> SwapService \<Rightarrow> world \<Rightarrow> call_result" where
  "rpc_SwapOut en t sv request s w =
     (if sr_SwapAmount request = 0 then Ret (Inl (ErrText ''Missing required swap_amount parameter''), s, w)
      else if sr_ChannelId request = 0 then Ret (Inl (ErrText ''Missing required channel_id parameter''), s, w)
      else (case lnd_ListChannels (re_lnd en) t True of
        Inl e \<Rightarrow> Ret (Inl e, s, w)
      | Inr channels \<Rightarrow> (case rpc_channel (sr_ChannelId request) channels of
        None \<Rightarrow> Ret (Inl (ErrText ''channel not found''), s, w)
      | Some swapchan \<Rightarrow>
          if LocalBalance swapchan < sr_SwapAmount request + 5000
          then Ret (Inl (ErrText ''not enough local balance on channel to perform swap out''), s, w)
          else (case rpc_target en t True request s swapchan of
            Inl e \<Rightarrow> Ret (Inl e, s, w)
          | Inr pk \<Rightarrow> answer_start
              (\<lambda>sm. await_start (re_to_uint64 en) (re_Errorf en) State_SwapOutSender_AwaitTxConfirmation sm (re_wakes en sm))
              (SwapService_SwapOut sv (RemotePubkey swapchan) (sr_Asset request) (lnd_scid (re_lnd en) (ChanId swapchan)) pk
                (sr_SwapAmount request) (sr_PremiumLimitRatePpm request) s w)))))"

definition rpc_SwapIn :: "rpc_env \<Rightarrow> nat \<Rightarrow> SwapServices \<Rightarrow> SwapRequest \<Rightarrow> SwapService \<Rightarrow> world \<Rightarrow> call_result" where
  "rpc_SwapIn en t sv request s w = (case lnd_ListChannels (re_lnd en) t True of
        Inl e \<Rightarrow> Ret (Inl e, s, w)
      | Inr channels \<Rightarrow> (case rpc_channel (sr_ChannelId request) channels of
        None \<Rightarrow> Ret (Inl (ErrText ''channel not found''), s, w)
      | Some swapchan \<Rightarrow>
          if RemoteBalance swapchan < sr_SwapAmount request
          then Ret (Inl (ErrText ''not enough remote balance on channel to perform swap in''), s, w)
          else (case rpc_target en t False request s swapchan of
            Inl e \<Rightarrow> Ret (Inl e, s, w)
          | Inr pk \<Rightarrow> answer_start
              (\<lambda>sm. await_start (re_to_uint64 en) (re_Errorf en) State_SwapInSender_SendTxBroadcastedMessage sm (re_wakes en sm))
              (SwapService_SwapIn sv (RemotePubkey swapchan) (sr_Asset request) (lnd_scid (re_lnd en) (ChanId swapchan)) pk
                (sr_SwapAmount request) (sr_PremiumLimitRatePpm request) s w))))"

section \<open>The commands of the Core Lightning plugin (\<open>clightning/clightning_commands.go\<close>)\<close>

definition ErrWaitingForReady :: go_error where
  "ErrWaitingForReady = ErrText ''peerswap is still in the process of starting up''"

definition SwapCanceledError :: "string \<Rightarrow> go_error" where
  "SwapCanceledError reason = ErrText (''swap canceled, reason: '' @ reason)"

record FundingChannel =
  fc_Id :: string
  fc_ShortChannelId :: string
  fc_OurAmountMilliSatoshi :: u64
  fc_AmountMilliSatoshi :: u64
  fc_Connected :: bool
  fc_State :: string

record SwapCommand =
  sc_ShortChannelId :: string
  sc_SatAmt :: u64
  sc_Asset :: string
  sc_PremiumLimitRatePPM :: i64
  sc_Force :: bool

record plugin_env =
  pe_isReady :: bool
  pe_nodeId :: string
  pe_ListFunds :: "nat \<Rightarrow> go_error + FundingChannel list"
  pe_GetPeer :: "nat \<Rightarrow> string \<Rightarrow> go_error + bool"
  pe_Ping :: "nat \<Rightarrow> go_error option \<times> bool"
  pe_peerSync :: "PeerSync option"
  pe_peers :: ps_world
  pe_to_uint64 :: "ShortChannelID \<Rightarrow> u64"
  pe_wakes :: "SwapStateMachine \<Rightarrow> SwapStateMachine list"

definition cln_isPeerConnected :: "plugin_env \<Rightarrow> nat \<Rightarrow> string \<Rightarrow> bool" where
  "cln_isPeerConnected en t nodeId = (case pe_GetPeer en t nodeId of Inl _ \<Rightarrow> False | Inr connected \<Rightarrow> connected)"

text \<open>The checks before the capacity check (the first channel with the id counts), and those after it.\<close>

definition cln_channel :: "plugin_env \<Rightarrow> nat \<Rightarrow> SwapCommand \<Rightarrow> go_error + FundingChannel" where
  "cln_channel en t cmd =
     (if \<not> pe_isReady en then Inl ErrWaitingForReady
      else if sc_SatAmt cmd = 0 then Inl (ErrText ''Missing required amt_sat parameter'')
      else if sc_ShortChannelId cmd = '''' then Inl (ErrText ''Missing required short_channel_id parameter'')
      else (case pe_ListFunds en t of
        Inl e \<Rightarrow> Inl e
      | Inr channels \<Rightarrow> (case find (\<lambda>v. fc_ShortChannelId v = sc_ShortChannelId cmd) channels of
          None \<Rightarrow> Inl (ErrText ''fundingChannels not found'') | Some v \<Rightarrow> Inr v)))"

definition cln_target_error :: "plugin_env \<Rightarrow> nat \<Rightarrow> bool \<Rightarrow> SwapCommand \<Rightarrow> SwapService \<Rightarrow> FundingChannel \<Rightarrow> go_error option" where
  "cln_target_error en t pings cmd s fundingChannel =
     (if \<not> fc_Connected fundingChannel then Some (ErrText ''fundingChannels is not connected'')
      else if \<not> sc_Force cmd \<and> \<not> compatible_peer (pe_peerSync en) (pe_peers en) (fc_Id fundingChannel)
      then Some (ErrText ''peer does not run peerswap'')
      else if \<not> cln_isPeerConnected en (t + 1) (fc_Id fundingChannel) then Some (ErrText ''peer is not connected'')
      else asset_error pings (pe_Ping en) (t + 2) s (sc_Asset cmd))"

definition cln_SwapOut :: "plugin_env \<Rightarrow> nat \<Rightarrow> SwapServices \<Rightarrow> SwapCommand \<Rightarrow> SwapService \<Rightarrow> world \<Rightarrow> call_result" where
  "cln_SwapOut en t sv cmd s w = (case cln_channel en t cmd of
     Inl e \<Rightarrow> Ret (Inl e, s, w)
   | Inr fundingChannel \<Rightarrow>
       if fc_AmountMilliSatoshi fundingChannel < (sc_SatAmt cmd + 5000) * 1000
       then Ret (Inl (ErrText ''not enough outbound capacity to perform swapOut''), s, w)
       else (case cln_target_error en t True cmd s fundingChannel of
         Some e \<Rightarrow> Ret (Inl e, s, w)
       | None \<Rightarrow> answer_start
           (\<lambda>sm. await_start (pe_to_uint64 en) SwapCanceledError State_SwapOutSender_AwaitTxConfirmation sm (pe_wakes en sm))
           (SwapService_SwapOut sv (fc_Id fundingChannel) (sc_Asset cmd) (sc_ShortChannelId cmd) (pe_nodeId en)
             (sc_SatAmt cmd) (sc_PremiumLimitRatePPM cmd) s w)))"

definition cln_SwapIn :: "plugin_env \<Rightarrow> nat \<Rightarrow> SwapServices \<Rightarrow> SwapCommand \<Rightarrow> SwapService \<Rightarrow> world \<Rightarrow> call_result" where
  "cln_SwapIn en t sv cmd s w = (case cln_channel en t cmd of
     Inl e \<Rightarrow> Ret (Inl e, s, w)
   | Inr fundingChannel \<Rightarrow>
       if fc_AmountMilliSatoshi fundingChannel - fc_OurAmountMilliSatoshi fundingChannel < sc_SatAmt cmd * 1000
       then Ret (Inl (ErrText ''not enough inbound capacity to perform swap''), s, w)
       else (case cln_target_error en t False cmd s fundingChannel of
         Some e \<Rightarrow> Ret (Inl e, s, w)
       | None \<Rightarrow> answer_start
           (\<lambda>sm. await_start (pe_to_uint64 en) SwapCanceledError State_SwapInSender_SendTxBroadcastedMessage sm (pe_wakes en sm))
           (SwapService_SwapIn sv (fc_Id fundingChannel) (sc_Asset cmd) (sc_ShortChannelId cmd) (pe_nodeId en)
             (sc_SatAmt cmd) (sc_PremiumLimitRatePPM cmd) s w)))"

section \<open>The contract of the front ends\<close>

text \<open>
  The contract every start call keeps: it hands an admitted request to the swap service, once and with
  the admitted target, and otherwise returns an error and touches nothing.
\<close>

locale swap_front_end =
  fixes call :: "SwapService \<Rightarrow> world \<Rightarrow> call_result"
    and admits :: "SwapService \<Rightarrow> 'a \<Rightarrow> bool"
    and start :: "'a \<Rightarrow> SwapService \<Rightarrow> world \<Rightarrow> start_result"
    and await :: "SwapStateMachine \<Rightarrow> go_error + PrettyPrintSwap"
  assumes admitted: "admits s a \<Longrightarrow> call s w = answer_start await (start a s w)"
    and refused: "\<nexists>a. admits s a \<Longrightarrow> \<exists>e. call s w = Ret (Inl e, s, w)"
begin

lemma call_cases:
  assumes "call s w = Ret (r, s', w')"
  obtains (rejected) e where "r = Inl e" "s' = s" "w' = w"
    | (error) a e where "admits s a" "start a s w = Ret (Inl e, s', w')" "r = Inl e"
    | (started) a sm where "admits s a" "start a s w = Ret (Inr sm, s', w')" "r = await sm"
proof (cases "\<exists>a. admits s a")
  case True
  then obtain a where a: "admits s a" by blast
  obtain res where res: "start a s w = Ret (res, s', w')" "r = (case res of Inl e \<Rightarrow> Inl e | Inr sm \<Rightarrow> await sm)"
    using assms admitted [OF a] by (auto simp: answer_start_def split: outcome.splits sum.splits)
  show ?thesis using res a error started by (cases res) auto
next
  case False
  then obtain e where "call s w = Ret (Inl e, s, w)" using refused by blast
  then show ?thesis using assms rejected by simp
qed

lemma answered:
  assumes "call s w = Ret (Inr v, s', w')"
  obtains a sm where "admits s a" "start a s w = Ret (Inr sm, s', w')" "await sm = Inr v"
  using assms by (cases rule: call_cases) auto

lemma one_step:
  assumes "call s w = Ret (r, s', w')"
    and "\<And>a res. start a s w = Ret (res, s', w') \<Longrightarrow> P"
  shows "(\<exists>e. r = Inl e) \<and> s' = s \<and> w' = w \<or> P"
  using assms(1) by (cases rule: call_cases) (use assms(2) in auto)

end

text \<open>What each call admits: the channel (and, on lnd, the own key) that all its checks accept.\<close>

definition rpc_out_admits :: "rpc_env \<Rightarrow> nat \<Rightarrow> SwapRequest \<Rightarrow> SwapService \<Rightarrow> Channel \<times> string \<Rightarrow> bool" where
  "rpc_out_admits en t request s a = (case a of (ch, pk) \<Rightarrow>
     sr_SwapAmount request \<noteq> 0 \<and> sr_ChannelId request \<noteq> 0 \<and>
     (case lnd_ListChannels (re_lnd en) t True of Inl _ \<Rightarrow> False
      | Inr channels \<Rightarrow> rpc_channel (sr_ChannelId request) channels = Some ch) \<and>
     sr_SwapAmount request + 5000 \<le> LocalBalance ch \<and> rpc_target en t True request s ch = Inr pk)"

definition rpc_in_admits :: "rpc_env \<Rightarrow> nat \<Rightarrow> SwapRequest \<Rightarrow> SwapService \<Rightarrow> Channel \<times> string \<Rightarrow> bool" where
  "rpc_in_admits en t request s a = (case a of (ch, pk) \<Rightarrow>
     (case lnd_ListChannels (re_lnd en) t True of Inl _ \<Rightarrow> False
      | Inr channels \<Rightarrow> rpc_channel (sr_ChannelId request) channels = Some ch) \<and>
     sr_SwapAmount request \<le> RemoteBalance ch \<and> rpc_target en t False request s ch = Inr pk)"

definition cln_out_admits :: "plugin_env \<Rightarrow> nat \<Rightarrow> SwapCommand \<Rightarrow> SwapService \<Rightarrow> FundingChannel \<Rightarrow> bool" where
  "cln_out_admits en t cmd s ch \<longleftrightarrow> cln_channel en t cmd = Inr ch \<and>
     (sc_SatAmt cmd + 5000) * 1000 \<le> fc_AmountMilliSatoshi ch \<and> cln_target_error en t True cmd s ch = None"

definition cln_in_admits :: "plugin_env \<Rightarrow> nat \<Rightarrow> SwapCommand \<Rightarrow> SwapService \<Rightarrow> FundingChannel \<Rightarrow> bool" where
  "cln_in_admits en t cmd s ch \<longleftrightarrow> cln_channel en t cmd = Inr ch \<and>
     sc_SatAmt cmd * 1000 \<le> fc_AmountMilliSatoshi ch - fc_OurAmountMilliSatoshi ch \<and>
     cln_target_error en t False cmd s ch = None"

lemmas admits_defs = rpc_out_admits_def rpc_in_admits_def cln_out_admits_def cln_in_admits_def

abbreviation rpc_out_start :: "rpc_env \<Rightarrow> SwapServices \<Rightarrow> SwapRequest \<Rightarrow> Channel \<times> string \<Rightarrow> SwapService \<Rightarrow> world \<Rightarrow> start_result" where
  "rpc_out_start en sv request a s w \<equiv> SwapService_SwapOut sv (RemotePubkey (fst a)) (sr_Asset request)
     (lnd_scid (re_lnd en) (ChanId (fst a))) (snd a) (sr_SwapAmount request) (sr_PremiumLimitRatePpm request) s w"

abbreviation rpc_in_start :: "rpc_env \<Rightarrow> SwapServices \<Rightarrow> SwapRequest \<Rightarrow> Channel \<times> string \<Rightarrow> SwapService \<Rightarrow> world \<Rightarrow> start_result" where
  "rpc_in_start en sv request a s w \<equiv> SwapService_SwapIn sv (RemotePubkey (fst a)) (sr_Asset request)
     (lnd_scid (re_lnd en) (ChanId (fst a))) (snd a) (sr_SwapAmount request) (sr_PremiumLimitRatePpm request) s w"

abbreviation cln_out_start :: "plugin_env \<Rightarrow> SwapServices \<Rightarrow> SwapCommand \<Rightarrow> FundingChannel \<Rightarrow> SwapService \<Rightarrow> world \<Rightarrow> start_result" where
  "cln_out_start en sv cmd ch s w \<equiv> SwapService_SwapOut sv (fc_Id ch) (sc_Asset cmd) (sc_ShortChannelId cmd) (pe_nodeId en)
     (sc_SatAmt cmd) (sc_PremiumLimitRatePPM cmd) s w"

abbreviation cln_in_start :: "plugin_env \<Rightarrow> SwapServices \<Rightarrow> SwapCommand \<Rightarrow> FundingChannel \<Rightarrow> SwapService \<Rightarrow> world \<Rightarrow> start_result" where
  "cln_in_start en sv cmd ch s w \<equiv> SwapService_SwapIn sv (fc_Id ch) (sc_Asset cmd) (sc_ShortChannelId cmd) (pe_nodeId en)
     (sc_SatAmt cmd) (sc_PremiumLimitRatePPM cmd) s w"

abbreviation rpc_await :: "rpc_env \<Rightarrow> StateType \<Rightarrow> SwapStateMachine \<Rightarrow> go_error + PrettyPrintSwap" where
  "rpc_await en target sm \<equiv> await_start (re_to_uint64 en) (re_Errorf en) target sm (re_wakes en sm)"

abbreviation cln_await :: "plugin_env \<Rightarrow> StateType \<Rightarrow> SwapStateMachine \<Rightarrow> go_error + PrettyPrintSwap" where
  "cln_await en target sm \<equiv> await_start (pe_to_uint64 en) SwapCanceledError target sm (pe_wakes en sm)"

interpretation rpc_out: swap_front_end "rpc_SwapOut en t sv request" "rpc_out_admits en t request" "rpc_out_start en sv request"
    "rpc_await en State_SwapOutSender_AwaitTxConfirmation"
  for en t sv request
  by unfold_locales (auto simp: rpc_SwapOut_def rpc_out_admits_def linorder_not_less split: sum.splits option.splits if_splits)

interpretation rpc_in: swap_front_end "rpc_SwapIn en t sv request" "rpc_in_admits en t request" "rpc_in_start en sv request"
    "rpc_await en State_SwapInSender_SendTxBroadcastedMessage"
  for en t sv request
  by unfold_locales (auto simp: rpc_SwapIn_def rpc_in_admits_def linorder_not_less split: sum.splits option.splits if_splits)

interpretation cln_out: swap_front_end "cln_SwapOut en t sv cmd" "cln_out_admits en t cmd" "cln_out_start en sv cmd"
    "cln_await en State_SwapOutSender_AwaitTxConfirmation"
  for en t sv cmd
  by unfold_locales (auto simp: cln_SwapOut_def cln_out_admits_def linorder_not_less split: sum.splits option.splits if_splits)

interpretation cln_in: swap_front_end "cln_SwapIn en t sv cmd" "cln_in_admits en t cmd" "cln_in_start en sv cmd"
    "cln_await en State_SwapInSender_SendTxBroadcastedMessage"
  for en t sv cmd
  by unfold_locales (auto simp: cln_SwapIn_def cln_in_admits_def linorder_not_less split: sum.splits option.splits if_splits)

section \<open>What a started swap has passed\<close>

lemma WaitForStateChange_found:
  "WaitForStateChange P sm wakes = (True, sm') \<Longrightarrow> sm' \<in> set (sm # wakes) \<and> P (sm_Current sm')"
  by (induction P sm wakes rule: WaitForStateChange.induct) (auto split: if_splits)

lemma WaitForStateChange_timeout:
  "WaitForStateChange P sm wakes = (False, sm') \<Longrightarrow> \<forall>x \<in> set (sm # wakes). \<not> P (sm_Current x)"
  by (induction P sm wakes rule: WaitForStateChange.induct) (auto split: if_splits)

lemma await_start_Inr:
  assumes "await_start to_uint64 canceled target sm wakes = Inr v"
  shows "\<exists>sm' \<in> set (sm # wakes). sm_Current sm' = target \<and> v = PrettyprintFromServiceSwap to_uint64 sm'"
proof -
  obtain sm' where "WaitForStateChange (\<lambda>st. st = target \<or> st = State_SwapCanceled) sm wakes = (True, sm')"
    "sm_Current sm' \<noteq> State_SwapCanceled" "v = PrettyprintFromServiceSwap to_uint64 sm'"
    using assms by (auto simp: await_start_def split: prod.splits bool.splits if_splits)
  then show ?thesis using WaitForStateChange_found by blast
qed

lemma asset_error_None:
  assumes "asset_error pings ping t s asset = None"
  shows "asset = l_btc_chain \<and> LiquidEnabled s \<and> (pings \<longrightarrow> ping t = (None, True)) \<or> asset = btc_chain \<and> BitcoinEnabled s"
  using assms by (auto simp: asset_error_def ping_error_def l_btc_chain_def btc_chain_def
      split: if_splits option.splits prod.splits)

lemma rpc_target_Inr:
  assumes "rpc_target en t pings request s ch = Inr pk"
  shows "ch_Active ch" "re_GetInfo en (t + 2) = Inr pk" "asset_error pings (re_Ping en) (t + 1) s (sr_Asset request) = None"
    "sr_Force request \<or> compatible_peer (re_peerSync en) (re_peers en) (RemotePubkey ch)"
    "rpc_isPeerConnected (re_lnd en) (t + 3) (RemotePubkey ch)"
  using assms by (auto simp: rpc_target_def split: if_splits option.splits sum.splits)

lemma rpc_channel_Some: "rpc_channel i chs = Some ch \<Longrightarrow> ch \<in> set chs \<and> ChanId ch = i"
  by (auto simp: rpc_channel_def find_Some_iff) (metis length_rev nth_mem set_rev)

lemma SwapOut_run:
  assumes "SwapService_SwapOut sv peer chain ch initiator amt rate s w = Ret (Inr sm, s', w')"
  obtains sp sm0 s1 w1 ts m where "start_error sv peer amt w = (None, emit (CheckedSpend (amt * 1000) None) w)"
    "amt * 1000 \<le> sp" "SpendableMsat (lightning sv) (Suc (w_clock w)) ch = Inr sp"
    "lockSwap (SwapId_String (sm_SwapId sm0)) ch sm0 s = (None, s1)"
    "w_trace w1 = w_trace w @ [CheckedSpend (amt * 1000) None, Spendable ch (Inr sp)] @ ts"
    "request_swap sv Event_OnSwapOutStarted m sm0 s1 w1 = Ret (Inr sm, s', w')"
proof -
  obtain wa where start: "start_error sv peer amt w = (None, wa)"
    using assms by (auto simp: SwapService_SwapOut_def split: prod.splits option.splits)
  have wa: "wa = emit (CheckedSpend (amt * 1000) None) w" using start_error_None [OF start] by simp
  obtain sp where sp: "SpendableMsat (lightning sv) (w_clock wa) ch = Inr sp" "amt * 1000 \<le> sp"
    using assms start by (auto simp: SwapService_SwapOut_def ext_def Let_def split: sum.splits if_splits)
  define wb where "wb = emit (Spendable ch (Inr sp)) wa"
  obtain sm0 wd s1 m where new: "new_sender sv newSwapOutSenderFSM initiator peer wb = Some (sm0, wd)"
    and lock: "lockSwap (SwapId_String (sm_SwapId sm0)) ch sm0 s = (None, s1)"
    and req: "request_swap sv Event_OnSwapOutStarted m sm0 s1 wd = Ret (Inr sm, s', w')"
    using assms start sp
    by (auto simp: SwapService_SwapOut_def ext_def Let_def wb_def [symmetric] split: sum.splits prod.splits if_splits option.splits)
  have "w_trace wd = w_trace wb @ [DrewRandom, DrewRandom]"
    using new by (auto simp: new_sender_def fresh_key_def ext_def Let_def split: sum.splits)
  then show ?thesis
    using that [OF _ sp(2) _ lock _ req] start wa sp(1) by (simp add: wb_def)
qed

text \<open>No wrap-around below the money supply of 21 million coins.\<close>

lemma amount_exact:
  fixes amt balance sp :: u64
  assumes "amt + 5000 \<le> balance" "balance \<le> 2100000000000000" "amt * 1000 \<le> sp" "sp \<le> 2100000000000000000"
  shows "unat amt + 5000 \<le> unat balance \<and> unat amt * 1000 \<le> unat sp"
proof -
  have b: "unat balance \<le> 2100000000000000" "unat sp \<le> 2100000000000000000"
    using assms(2,4) by (simp_all add: word_le_nat_alt)
  have sum: "unat (amt + 5000) = (unat amt + 5000) mod 18446744073709551616"
    "unat (amt * 1000) = unat amt * 1000 mod 18446744073709551616"
    by (simp_all add: unat_word_ariths)
  note lt = unat_u64_less [of amt]
  have le: "unat (amt + 5000) \<le> unat balance" "unat (amt * 1000) \<le> unat sp"
    using assms(1,3) by (simp_all add: word_le_nat_alt)
  have "unat amt + 5000 < 18446744073709551616"
  proof (rule ccontr)
    assume big: "\<not> unat amt + 5000 < 18446744073709551616"
    define k where "k = 18446744073709551616 - unat amt"
    have k: "unat amt = 18446744073709551616 - k" "0 < k" "k \<le> 5000" using lt big by (simp_all add: k_def)
    define r where "r = 18446744073709551616 - k * 1000"
    have "unat amt * 1000 = r + 999 * 18446744073709551616" "r < 18446744073709551616"
      using k by (simp_all add: r_def)
    then have "unat amt * 1000 mod 18446744073709551616 = r" by (simp only: mod_mult_self1 mod_less)
    then show False using sum(2) le(2) b(2) k(3) by (simp add: r_def)
  qed
  then have "unat amt + 5000 \<le> unat balance" using sum(1) le(1) by simp
  moreover have "unat amt * 1000 < 18446744073709551616" using calculation b(1) by simp
  ultimately show ?thesis using sum(2) le(2) by simp
qed


text \<open>Every start call, of either front end and in either direction, is at most one step of the service: it returns
  an error and touches nothing, or what it did to service and world is one start of a swap, so that all invariants of
  the service's runs also hold for runs with operators.\<close>

theorem start_calls_one_step:
  assumes "call \<in> {rpc_SwapOut en t sv request, rpc_SwapIn en t sv request, cln_SwapOut pe t sv cmd, cln_SwapIn pe t sv cmd}"
    and "call s w = Ret (r, s', w')"
  shows "(\<exists>e. r = Inl e) \<and> s' = s \<and> w' = w \<or> svc_step sv js (s, w) (s', w')"
proof -
  consider "call = rpc_SwapOut en t sv request" | "call = rpc_SwapIn en t sv request"
    | "call = cln_SwapOut pe t sv cmd" | "call = cln_SwapIn pe t sv cmd"
    using assms(1) by blast
  then show ?thesis
  proof cases
    case 1
    then show ?thesis
      using assms(2) by (intro rpc_out.one_step [of en t sv request s w r s' w']) (auto intro: step_swap_out)
  next
    case 2
    then show ?thesis
      using assms(2) by (intro rpc_in.one_step [of en t sv request s w r s' w']) (auto intro: step_swap_in)
  next
    case 3
    then show ?thesis
      using assms(2) by (intro cln_out.one_step [of pe t sv cmd s w r s' w']) (auto intro: step_swap_out)
  next
    case 4
    then show ?thesis
      using assms(2) by (intro cln_in.one_step [of pe t sv cmd s w r s' w']) (auto intro: step_swap_in)
  qed
qed

section \<open>Runs in the concrete environment\<close>

lemma out_sender_start_lookups:
  "map_of getSwapOutSenderStates Default = Some (state None
     [(Event_OnSwapOutStarted, State_SwapOutSender_CreateSwap)])"
  "map_of getSwapOutSenderStates State_SwapOutSender_CreateSwap = Some (state_failing (Some CreateSwapRequestAction)
     [(Event_ActionSucceeded, State_SwapOutSender_SendRequest), (Event_ActionFailed, State_SwapCanceled)])"
  "map_of getSwapOutSenderStates State_SwapOutSender_SendRequest = Some (state_failing (Some SendMessageAction)
     [(Event_ActionFailed, State_SwapCanceled), (Event_ActionSucceeded, State_SwapOutSender_AwaitAgreement)])"
  "map_of getSwapOutSenderStates State_SwapOutSender_AwaitAgreement = Some (state_failing (Some NoOpAction)
     [(Event_OnCancelReceived, State_SwapCanceled), (Event_OnTimeout, State_SendCancel),
      (Event_OnFeeInvoiceReceived, State_SwapOutSender_PayFeeInvoice), (Event_OnInvalid_Message, State_SendCancel),
      (Event_ActionFailed, State_SwapCanceled)])"
  by (simp_all add: getSwapOutSenderStates_def)

text \<open>Any valid Bitcoin request starts a swap-out in the concrete environment, and is sent to the peer.\<close>

lemma demo_swap_out_send:
  assumes "w_store w = Some m" "SwapOutRequestMessage_Validate r = None" "sor_Network r \<noteq> ''''" "sor_Asset r = ''''"
  shows "\<exists>sm' w'. SendEvent demo_services Event_OnSwapOutStarted (Some (MsgCtx (MsgSwapOutRequest r)))
      (newSwapOutSenderFSM ident us peer key now) w = Ret ((False, None), sm', w') \<and> sm_Current sm' = State_SwapOutSender_AwaitAgreement \<and>
    SentMessage peer (MsgSwapOutRequest r) MESSAGETYPE_SWAPOUTREQUEST None \<in> set (w_trace w')"
proof -
  have chain: "GetChain d = btc_chain" if "SwapOutRequest d = Some r" "SwapInRequest d = None" for d
    using that assms by (simp add: GetChain_def GetAsset_def GetNetwork_def)
  show ?thesis
    using assms
    by (simp add: SendEvent_def newSwapOutSenderFSM_def NewSwapData_def empty_SwapData_def
        store_and_run_def world_UpdateData_ok fsm_fuel_def fsm_loop_numeral fsm_round_def getNextState_def
        out_sender_start_lookups Let_def logSwapInfo_def SetState_def after_action_def send_message_def ext_def
        CreateSwapRequestAction_Execute_def chain
        setLiquidPaymentWindowAnchor_def GetRequest_def start_timeout_def set_next_def SendMessageAction_Execute_def
        NoOpAction_Execute_def MarshalPeerswapMessage_def)
qed

lemma demo_swap_out_run:
  assumes "amt * 1000 = 100000000"
  shows "\<exists>sm s' w' r. SwapService_SwapOut demo_services ''peer'' btc_chain ''1x2x3'' ''us'' amt rate
      (NewSwapService demo_services) demo_world = Ret (Inr sm, s', w') \<and> sm_Current sm = State_SwapOutSender_AwaitAgreement \<and> sor_Amount r = amt \<and>
    SentMessage ''peer'' (MsgSwapOutRequest r) MESSAGETYPE_SWAPOUTREQUEST None \<in> set (w_trace w')"
proof -
  let ?sm = "newSwapOutSenderFSM (replicate 32 1) ''us'' ''peer'' (replicate 32 6) 1700000000"
  define r where "r = \<lparr>sor_ProtocolVersion = PEERSWAP_PROTOCOL_VERSION, sor_SwapId = Some (replicate 32 1),
     sor_Asset = '''', sor_Network = ''regtest'', sor_Scid = ''1x2x3'', sor_Amount = amt,
     sor_Pubkey = own_pubkey demo_services (sm_Data ?sm), sor_PremiumLimit = PPM_Compute rate amt\<rparr>"
  have "sor_Pubkey r = hex_EncodeToString (2 # replicate 32 6)"
    by (simp add: r_def own_pubkey_def newSwapOutSenderFSM_def NewSwapData_def demo_services_def)
  then have valid: "SwapOutRequestMessage_Validate r = None"
    using sample_scid_valid
    by (simp add: SwapOutRequestMessage_Validate_def r_def validateHexString_None validateAssetAndNetwork_def
        validateNetwork_def)
  define w1 where "w1 = emit (Spendable ''1x2x3'' (Inr 900000000)) (emit (CheckedSpend 100000000 None) demo_world)"
  define w2 where "w2 = emit DrewRandom (emit DrewRandom w1)"
  have start: "start_error demo_services ''peer'' amt demo_world = (None, emit (CheckedSpend 100000000 None) demo_world)"
    using assms
    by (simp add: start_error_def demo_world_def demo_lightning_def ext_def Let_def NewSwapsAllowed_def IsPeerSuspicious_def
        GetMinSwapAmountMsat_def sample_policy_def DefaultPolicy_def)
  have new: "new_sender demo_services newSwapOutSenderFSM ''us'' ''peer'' w1 = Some (?sm, w2)"
    by (simp add: new_sender_def fresh_key_def ext_def Let_def w2_def) (simp add: demo_services_def)
  obtain s1 where lock: "lockSwap (SwapId_String (sm_SwapId ?sm)) ''1x2x3'' ?sm (NewSwapService demo_services) = (None, s1)"
    by (simp add: lockSwap_def NewSwapService_def)
  have "w_store w2 = Some Map.empty" "sor_Network r \<noteq> ''''" "sor_Asset r = ''''"
    by (simp_all add: r_def w1_def w2_def demo_world_def)
  then obtain sm' w' where send: "SendEvent demo_services Event_OnSwapOutStarted (Some (MsgCtx (MsgSwapOutRequest r)))
      ?sm w2 = Ret ((False, None), sm', w')" and cur: "sm_Current sm' = State_SwapOutSender_AwaitAgreement"
    and sent: "SentMessage ''peer'' (MsgSwapOutRequest r) MESSAGETYPE_SWAPOUTREQUEST None \<in> set (w_trace w')"
    using demo_swap_out_send [OF _ valid] by blast
  have "chain_fields demo_services btc_chain = Some ('''', ''regtest'')"
    by (simp add: chain_fields_def btc_chain_def l_btc_chain_def demo_services_def demo_wallet_def)
  moreover have "\<exists>s'. request_swap demo_services Event_OnSwapOutStarted (MsgSwapOutRequest r) ?sm s1 w2 = Ret (Inr sm', s', w')"
    using send by (simp add: request_swap_def Let_def)
  ultimately have "\<exists>s'. SwapService_SwapOut demo_services ''peer'' btc_chain ''1x2x3'' ''us'' amt rate
      (NewSwapService demo_services) demo_world = Ret (Inr sm', s', w')"
    using lock assms
    by (simp add: SwapService_SwapOut_def start ext_def Let_def new w1_def [symmetric] demo_lightning_def r_def newSwapOutSenderFSM_def)
  moreover have "sor_Amount r = amt" by (simp add: r_def)
  ultimately show ?thesis using sent cur by blast
qed

definition demo_rpc :: rpc_env where
  "demo_rpc = \<lparr>re_lnd = demo_lnd\<lparr>lnd_scid_String := (\<lambda>_. ''1x2x3''),
       lnd_ListChannels := (\<lambda>_ _. Inr [\<lparr>ChanId = 5, ch_Active = True, RemotePubkey = ''peer'', LocalBalance = 200000, RemoteBalance = 8900,
         ch_LocalReserveSat = 1000, ch_RemoteReserveSat = 0\<rparr>])\<rparr>,
     re_GetInfo = (\<lambda>_. Inr ''us''), re_Ping = (\<lambda>_. (None, True)), re_peerSync = None, re_peers = demo_ps_world,
     re_to_uint64 = (\<lambda>_. 5), re_Errorf = ErrText,
     re_wakes = (\<lambda>sm. [sm\<lparr>sm_Current := State_SwapOutSender_AwaitTxConfirmation\<rparr>])\<rparr>"

definition demo_request :: SwapRequest where
  "demo_request = \<lparr>sr_ChannelId = 5, sr_SwapAmount = 100000, sr_Asset = ''btc'', sr_Force = True, sr_PremiumLimitRatePpm = 1000\<rparr>"

definition demo_plugin :: plugin_env where
  "demo_plugin = \<lparr>pe_isReady = True, pe_nodeId = ''us'', pe_ListFunds = (\<lambda>_. Inr [\<lparr>fc_Id = ''peer'', fc_ShortChannelId = ''1x2x3'',
       fc_OurAmountMilliSatoshi = 900000000, fc_AmountMilliSatoshi = 1000000000, fc_Connected = True, fc_State = ''CHANNELD_NORMAL''\<rparr>]),
     pe_GetPeer = (\<lambda>_ _. Inr True), pe_Ping = (\<lambda>_. (None, True)), pe_peerSync = None, pe_peers = demo_ps_world,
     pe_to_uint64 = (\<lambda>_. 5), pe_wakes = (\<lambda>_. [])\<rparr>"

lemma demo_rpc_admits:
  "\<exists>ch. rpc_out_admits demo_rpc 0 demo_request (NewSwapService demo_services) (ch, ''us'') \<and> RemotePubkey ch = ''peer''"
  by (simp add: rpc_out_admits_def demo_rpc_def demo_request_def rpc_channel_def rpc_target_def asset_error_def
      rpc_isPeerConnected_def NewSwapService_def demo_lnd_def word_le_nat_alt)

lemma demo_rpc_run:
  "\<exists>v s' w'. rpc_SwapOut demo_rpc 0 demo_services demo_request (NewSwapService demo_services) demo_world = Ret (Inr v, s', w')"
proof -
  obtain ch where adm: "rpc_out_admits demo_rpc 0 demo_request (NewSwapService demo_services) (ch, ''us'')"
    and peer: "RemotePubkey ch = ''peer''" using demo_rpc_admits by blast
  obtain sm s' w' where run: "SwapService_SwapOut demo_services ''peer'' btc_chain ''1x2x3'' ''us'' 100000 1000
      (NewSwapService demo_services) demo_world = Ret (Inr sm, s', w')" "sm_Current sm = State_SwapOutSender_AwaitAgreement"
    using demo_swap_out_run [of 100000 1000] by auto
  have "lnd_scid (re_lnd demo_rpc) c = ''1x2x3''" for c by (simp add: demo_rpc_def lnd_scid_def)
  then show ?thesis
    using run unfolding rpc_out.admitted [OF adm] by (simp add: peer demo_request_def btc_chain_def answer_start_def await_start_def)
      (simp add: demo_rpc_def)
qed


theorem start_calls_one_step_witness:
  "\<exists>v s' w'. rpc_SwapOut demo_rpc 0 demo_services demo_request (NewSwapService demo_services) demo_world = Ret (Inr v, s', w') \<and>
     svc_step demo_services demo_json (NewSwapService demo_services, demo_world) (s', w')"
proof -
  obtain v s' w' where run: "rpc_SwapOut demo_rpc 0 demo_services demo_request (NewSwapService demo_services) demo_world = Ret (Inr v, s', w')"
    using demo_rpc_run by blast
  then show ?thesis
    using start_calls_one_step [of "rpc_SwapOut demo_rpc 0 demo_services demo_request" demo_rpc 0 demo_services demo_request
        demo_plugin undefined "NewSwapService demo_services" demo_world "Inr v" s' w' demo_json] by auto
qed

text \<open>C31. The capacity checks of the Core Lightning command wrap around.  Over a channel of one million sat a swap-out of
  2305843009213793952 sat (2 to the 61st and 100000) passes the plugin's check, which multiplies by 1000, and the checks of
  the service, which do so too; the request for that amount is sent to the peer.\<close>

theorem cln_swap_out_beyond_capacity:
  "\<exists>ans s' w' r. cln_SwapOut demo_plugin 0 demo_services \<lparr>sc_ShortChannelId = ''1x2x3'', sc_SatAmt = 2305843009213793952,
       sc_Asset = ''btc'', sc_PremiumLimitRatePPM = 0, sc_Force = True\<rparr> (NewSwapService demo_services) demo_world = Ret (ans, s', w') \<and>
     sor_Amount r = 2305843009213793952 \<and>
     SentMessage ''peer'' (MsgSwapOutRequest r) MESSAGETYPE_SWAPOUTREQUEST None \<in> set (w_trace w')"
proof -
  let ?cmd = "\<lparr>sc_ShortChannelId = ''1x2x3'', sc_SatAmt = 2305843009213793952,
       sc_Asset = ''btc'', sc_PremiumLimitRatePPM = 0, sc_Force = True\<rparr>"
  obtain ch where adm: "cln_out_admits demo_plugin 0 ?cmd (NewSwapService demo_services) ch" and ch: "fc_Id ch = ''peer''"
    by (simp add: cln_out_admits_def cln_channel_def cln_target_error_def demo_plugin_def cln_isPeerConnected_def asset_error_def
        NewSwapService_def word_le_nat_alt)
  obtain sm s' w' r where "SwapService_SwapOut demo_services ''peer'' btc_chain ''1x2x3'' ''us'' 2305843009213793952 0
      (NewSwapService demo_services) demo_world = Ret (Inr sm, s', w')" "sor_Amount r = 2305843009213793952"
      "SentMessage ''peer'' (MsgSwapOutRequest r) MESSAGETYPE_SWAPOUTREQUEST None \<in> set (w_trace w')"
    using demo_swap_out_run [of 2305843009213793952 0] by auto
  moreover have "pe_nodeId demo_plugin = ''us''" by (simp add: demo_plugin_def)
  ultimately show ?thesis
    unfolding cln_out.admitted [OF adm] by (auto simp: ch btc_chain_def answer_start_def)
qed

end
