(* ===== verification/PS_Operator.thy ===== *)
theory PS_Operator
  imports PS_Commands
begin

text \<open>
  The other calls of an operator: policy, premium rates, the Liquid wallet and the remaining lists, of the
  RPC server (\<open>peerswaprpc/server.go\<close>, \<open>peerswaprpc/format.go\<close>) and of the Core Lightning plugin
  (\<open>clightning/clightning_commands.go\<close>).  The calls share what the daemon keeps: the policy with its file, the
  premium rates, the peer service.
\<close>

section \<open>State\<close>

text \<open>\<open>wl_sends\<close> are the payments asked of the Liquid wallet, with its answers.\<close>

record settings =
  st_policy :: "Policy \<times> policy_file"
  st_premium :: premium_bucket
  st_peers :: ps_world
  st_clock :: nat
  wl_sends :: "(string \<times> u64 \<times> (go_error + string)) list"

record settings_env =
  se_os :: os_env
  se_bolt :: bolt_env
  se_peerSync :: "PeerSync option"
  se_GetAddress :: "nat \<Rightarrow> go_error + string"
  se_GetBalance :: "nat \<Rightarrow> go_error + u64"
  se_SendToAddress :: "nat \<Rightarrow> string \<Rightarrow> u64 \<Rightarrow> go_error + string"

definition st_tick :: "nat \<Rightarrow> settings \<Rightarrow> settings" where
  "st_tick n st = st\<lparr>st_clock := st_clock st + n\<rparr>"

text \<open>
  \<open>ForcePollAllPeers\<close> when there is a peer service; the service reads the policy and the rates that the
  daemon has now.
\<close>

definition current_sync :: "settings \<Rightarrow> PeerSync \<Rightarrow> PeerSync" where
  "current_sync st ps = ps\<lparr>ps_policy := map_option (\<lambda>_. fst (st_policy st)) (ps_policy ps),
     ps_premium := map_option (\<lambda>_. st_premium st) (ps_premium ps)\<rparr>"

definition force_poll :: "settings_env \<Rightarrow> settings \<Rightarrow> settings" where
  "force_poll en st = (case se_peerSync en of
     None \<Rightarrow> st | Some ps \<Rightarrow> st\<lparr>st_peers := ForcePollAllPeers (current_sync st ps) (st_peers st)\<rparr>)"

section \<open>Policy\<close>

record PolicyMessage =
  pm_ReserveOnchainMsat :: u64
  pm_MinSwapAmountMsat :: u64
  pm_AcceptAllPeers :: bool
  pm_AllowNewSwaps :: bool
  pm_AllowlistedPeers :: "string list"
  pm_SuspiciousPeerList :: "string list"

definition GetPolicyMessage :: "Policy \<Rightarrow> PolicyMessage" where
  "GetPolicyMessage p = \<lparr>pm_ReserveOnchainMsat = ReserveOnchainMsat p, pm_MinSwapAmountMsat = MinSwapAmountMsat p,
     pm_AcceptAllPeers = AcceptAllPeers p, pm_AllowNewSwaps = AllowNewSwaps p, pm_AllowlistedPeers = PeerAllowlist p,
     pm_SuspiciousPeerList = SuspiciousPeerList p\<rparr>"

text \<open>An operation on the policy at the current tick; a policy operation takes at most three ticks.\<close>

type_synonym policy_op = "os_env \<Rightarrow> nat \<Rightarrow> Policy \<times> policy_file \<Rightarrow> go_error option \<times> Policy \<times> policy_file"

definition with_policy :: "settings_env \<Rightarrow> policy_op \<Rightarrow> settings \<Rightarrow> go_error option \<times> settings" where
  "with_policy en f st = (case f (se_os en) (st_clock st) (st_policy st) of
     (e, pf) \<Rightarrow> (e, st_tick 4 (st\<lparr>st_policy := pf\<rparr>)))"

definition policy_answer :: "go_error option \<times> settings \<Rightarrow> (go_error + PolicyMessage) \<times> settings" where
  "policy_answer r = (case r of
     (Some e, st) \<Rightarrow> (Inl e, st) | (None, st) \<Rightarrow> (Inr (GetPolicyMessage (Policy_Get (fst (st_policy st)))), st))"

definition rpc_AddPeer :: "settings_env \<Rightarrow> string \<Rightarrow> settings \<Rightarrow> (go_error + PolicyMessage) \<times> settings" where
  "rpc_AddPeer en pubkey st = policy_answer (with_policy en (\<lambda>os t. AddToAllowlist os t pubkey) st)"

definition rpc_AddSusPeer :: "settings_env \<Rightarrow> string \<Rightarrow> settings \<Rightarrow> (go_error + PolicyMessage) \<times> settings" where
  "rpc_AddSusPeer en pubkey st = policy_answer (with_policy en (\<lambda>os t. AddToSuspiciousPeerList os t pubkey) st)"

definition rpc_RemovePeer :: "settings_env \<Rightarrow> string \<Rightarrow> settings \<Rightarrow> (go_error + PolicyMessage) \<times> settings" where
  "rpc_RemovePeer en pubkey st = policy_answer (with_policy en (\<lambda>os t. RemoveFromAllowlist os t pubkey) st)"

definition rpc_RemoveSusPeer :: "settings_env \<Rightarrow> string \<Rightarrow> settings \<Rightarrow> (go_error + PolicyMessage) \<times> settings" where
  "rpc_RemoveSusPeer en pubkey st = policy_answer (with_policy en (\<lambda>os t. RemoveFromSuspiciousPeerList os t pubkey) st)"

text \<open>The errors of \<open>EnableSwaps\<close> and \<open>DisableSwaps\<close> are dropped.\<close>

definition rpc_AllowSwapRequests :: "settings_env \<Rightarrow> bool \<Rightarrow> settings \<Rightarrow> (go_error + PolicyMessage) \<times> settings" where
  "rpc_AllowSwapRequests en allow st =
     policy_answer (None, snd (with_policy en (if allow then EnableSwaps else DisableSwaps) st))"

definition rpc_ReloadPolicyFile :: "settings_env \<Rightarrow> settings \<Rightarrow> (go_error + PolicyMessage) \<times> settings" where
  "rpc_ReloadPolicyFile en st = (case with_policy en ReloadFile st of
     (Some e, st) \<Rightarrow> (Inl e, st) | (None, st) \<Rightarrow> policy_answer (None, force_poll en st))"

text \<open>The Core Lightning commands answer with the policy itself.\<close>

definition cln_policy_call :: "bool \<Rightarrow> settings_env \<Rightarrow> policy_op \<Rightarrow> settings \<Rightarrow> (go_error + Policy) \<times> settings" where
  "cln_policy_call isReady en f st = (if \<not> isReady then (Inl ErrWaitingForReady, st)
     else (case with_policy en f st of (Some e, st) \<Rightarrow> (Inl e, st) | (None, st) \<Rightarrow> (Inr (Policy_Get (fst (st_policy st))), st)))"

definition cln_AddPeer :: "bool \<Rightarrow> settings_env \<Rightarrow> string \<Rightarrow> settings \<Rightarrow> (go_error + Policy) \<times> settings" where
  "cln_AddPeer isReady en pubkey = cln_policy_call isReady en (\<lambda>os t. AddToAllowlist os t pubkey)"

definition cln_RemovePeer :: "bool \<Rightarrow> settings_env \<Rightarrow> string \<Rightarrow> settings \<Rightarrow> (go_error + Policy) \<times> settings" where
  "cln_RemovePeer isReady en pubkey = cln_policy_call isReady en (\<lambda>os t. RemoveFromAllowlist os t pubkey)"

definition cln_AddSuspiciousPeer :: "bool \<Rightarrow> settings_env \<Rightarrow> string \<Rightarrow> settings \<Rightarrow> (go_error + Policy) \<times> settings" where
  "cln_AddSuspiciousPeer isReady en pubkey = cln_policy_call isReady en (\<lambda>os t. AddToSuspiciousPeerList os t pubkey)"

definition cln_RemoveSuspiciousPeer :: "bool \<Rightarrow> settings_env \<Rightarrow> string \<Rightarrow> settings \<Rightarrow> (go_error + Policy) \<times> settings" where
  "cln_RemoveSuspiciousPeer isReady en pubkey = cln_policy_call isReady en (\<lambda>os t. RemoveFromSuspiciousPeerList os t pubkey)"

definition cln_ReloadPolicyFile :: "bool \<Rightarrow> settings_env \<Rightarrow> settings \<Rightarrow> (go_error + Policy) \<times> settings" where
  "cln_ReloadPolicyFile isReady en st = (if \<not> isReady then (Inl ErrWaitingForReady, st)
     else (case with_policy en ReloadFile st of
         (Some e, st) \<Rightarrow> (Inl e, st)
       | (None, st) \<Rightarrow> (let st = force_poll en st in (Inr (Policy_Get (fst (st_policy st))), st))))"

text \<open>
  \<open>strings.ToUpper\<close> and \<open>strings.ToLower\<close> on texts that are compared with an ASCII text.  Beside the ASCII
  letters only two runes have an ASCII upper case: the long s (bytes C5 BF) and the dotless i (bytes C4 B1).  The
  runes with an ASCII lower case outside ASCII become k or i, which do not occur in the texts compared with.
\<close>

definition upper_char :: "char \<Rightarrow> char" where
  "upper_char c = (let n = (of_char c :: nat) in if 97 \<le> n \<and> n \<le> 122 then char_of (n - 32) else c)"

definition lower_char :: "char \<Rightarrow> char" where
  "lower_char c = (let n = (of_char c :: nat) in if 65 \<le> n \<and> n \<le> 90 then char_of (n + 32) else c)"

fun strings_ToUpper :: "string \<Rightarrow> string" where
  "strings_ToUpper [] = []"
| "strings_ToUpper [c] = [upper_char c]"
| "strings_ToUpper (c # d # s) =
     (if c = CHR 0xC5 \<and> d = CHR 0xBF then CHR ''S'' # strings_ToUpper s
      else if c = CHR 0xC4 \<and> d = CHR 0xB1 then CHR ''I'' # strings_ToUpper s
      else upper_char c # strings_ToUpper (d # s))"

definition cln_AllowSwapRequests :: "bool \<Rightarrow> settings_env \<Rightarrow> string \<Rightarrow> settings \<Rightarrow> (go_error + PolicyMessage) \<times> settings" where
  "cln_AllowSwapRequests isReady en allow st =
     (if \<not> isReady then (Inl ErrWaitingForReady, st)
      else if allow = '''' then (Inl (ErrText ''missing argument:1 to allow, 0 to disallow''), st)
      else if allow = ''1'' \<or> map lower_char allow = ''true'' then policy_answer (None, snd (with_policy en EnableSwaps st))
      else if allow = ''0'' \<or> map lower_char allow = ''false'' then policy_answer (None, snd (with_policy en DisableSwaps st))
      else policy_answer (None, st))"

section \<open>Premium rates\<close>

text \<open>The enumerations of the protocol are open: an unknown number is kept.\<close>

datatype rpc_AssetType = AssetType_ASSET_UNSPECIFIED | AssetType_BTC | AssetType_LBTC | AssetType_unknown int
datatype rpc_OperationType =
    OperationType_OPERATION_UNSPECIFIED | OperationType_SWAP_IN | OperationType_SWAP_OUT | OperationType_unknown int

fun rpc_AssetType_String :: "rpc_AssetType \<Rightarrow> string" where
  "rpc_AssetType_String AssetType_ASSET_UNSPECIFIED = ''ASSET_UNSPECIFIED''"
| "rpc_AssetType_String AssetType_BTC = ''BTC''"
| "rpc_AssetType_String AssetType_LBTC = ''LBTC''"
| "rpc_AssetType_String (AssetType_unknown n) = fmt_int n"

fun rpc_OperationType_String :: "rpc_OperationType \<Rightarrow> string" where
  "rpc_OperationType_String OperationType_OPERATION_UNSPECIFIED = ''OPERATION_UNSPECIFIED''"
| "rpc_OperationType_String OperationType_SWAP_IN = ''SWAP_IN''"
| "rpc_OperationType_String OperationType_SWAP_OUT = ''SWAP_OUT''"
| "rpc_OperationType_String (OperationType_unknown n) = fmt_int n"

fun toPremiumAssetType :: "rpc_AssetType \<Rightarrow> AssetType" where
  "toPremiumAssetType AssetType_BTC = BTC"
| "toPremiumAssetType AssetType_LBTC = LBTC"
| "toPremiumAssetType _ = AsserUnspecified"

fun toPremiumOperationType :: "rpc_OperationType \<Rightarrow> OperationType" where
  "toPremiumOperationType OperationType_SWAP_IN = SwapIn"
| "toPremiumOperationType OperationType_SWAP_OUT = SwapOut"
| "toPremiumOperationType _ = OperationUnspecified"

fun ToAssetType :: "AssetType \<Rightarrow> rpc_AssetType" where
  "ToAssetType BTC = AssetType_BTC"
| "ToAssetType LBTC = AssetType_LBTC"
| "ToAssetType AsserUnspecified = AssetType_ASSET_UNSPECIFIED"

fun ToOperationType :: "OperationType \<Rightarrow> rpc_OperationType" where
  "ToOperationType SwapIn = OperationType_SWAP_IN"
| "ToOperationType SwapOut = OperationType_SWAP_OUT"
| "ToOperationType OperationUnspecified = OperationType_OPERATION_UNSPECIFIED"

record rpc_PremiumRate =
  rp_Asset :: rpc_AssetType
  rp_Operation :: rpc_OperationType
  rp_PremiumRatePpm :: i64

definition rate_message :: "PremiumRate \<Rightarrow> rpc_PremiumRate" where
  "rate_message r = \<lparr>rp_Asset = ToAssetType (pr_asset r), rp_Operation = ToOperationType (pr_operation r),
     rp_PremiumRatePpm = pr_premiumRate r\<rparr>"

definition kind_error :: "rpc_AssetType \<Rightarrow> rpc_OperationType \<Rightarrow> go_error option" where
  "kind_error asset operation =
     (if asset \<noteq> AssetType_BTC \<and> asset \<noteq> AssetType_LBTC
      then Some (ErrText (''invalid asset type: '' @ rpc_AssetType_String asset))
      else if operation \<noteq> OperationType_SWAP_IN \<and> operation \<noteq> OperationType_SWAP_OUT
      then Some (ErrText (''invalid operation type: '' @ rpc_OperationType_String operation)) else None)"

definition rpc_GetGlobalPremiumRate ::
  "settings_env \<Rightarrow> rpc_AssetType \<Rightarrow> rpc_OperationType \<Rightarrow> settings \<Rightarrow> go_error + rpc_PremiumRate" where
  "rpc_GetGlobalPremiumRate en asset operation st = (case kind_error asset operation of
     Some e \<Rightarrow> Inl e
   | None \<Rightarrow> map_sum (\<lambda>e. e) rate_message (Setting_GetDefaultRate (se_bolt en) (st_clock st) (toPremiumAssetType asset)
       (toPremiumOperationType operation) (st_premium st)))"

definition rpc_GetPremiumRate ::
  "settings_env \<Rightarrow> string \<Rightarrow> rpc_AssetType \<Rightarrow> rpc_OperationType \<Rightarrow> settings \<Rightarrow> go_error + rpc_PremiumRate" where
  "rpc_GetPremiumRate en nodeId asset operation st = (case kind_error asset operation of
     Some e \<Rightarrow> Inl e
   | None \<Rightarrow> map_sum (\<lambda>e. e) rate_message (Setting_GetRate (se_bolt en) (st_clock st) nodeId (toPremiumAssetType asset)
       (toPremiumOperationType operation) (st_premium st)))"

text \<open>A request without a rate reads as one of zero values.\<close>

definition rate_or_zero :: "rpc_PremiumRate option \<Rightarrow> rpc_PremiumRate" where
  "rate_or_zero r = (case r of Some r \<Rightarrow> r | None \<Rightarrow> \<lparr>rp_Asset = AssetType_ASSET_UNSPECIFIED,
     rp_Operation = OperationType_OPERATION_UNSPECIFIED, rp_PremiumRatePpm = 0\<rparr>)"

text \<open>The shared tail of the updates: the write, its error, the poll.\<close>

definition write_rates ::
  "settings_env \<Rightarrow> string \<Rightarrow> (bolt_env \<Rightarrow> nat \<Rightarrow> premium_bucket \<Rightarrow> go_error option \<times> premium_bucket) \<Rightarrow> 'r \<Rightarrow> settings \<Rightarrow> (go_error + 'r) \<times> settings" where
  "write_rates en failure write answer st = (case write (se_bolt en) (st_clock st) (st_premium st) of
     (Some e, b) \<Rightarrow> (Inl (ErrText (failure @ Error e)), st_tick 1 (st\<lparr>st_premium := b\<rparr>))
   | (None, b) \<Rightarrow> (Inr answer, force_poll en (st_tick 1 (st\<lparr>st_premium := b\<rparr>))))"

definition rpc_UpdateGlobalPremiumRate ::
  "settings_env \<Rightarrow> rpc_PremiumRate option \<Rightarrow> settings \<Rightarrow> (go_error + rpc_PremiumRate option) \<times> settings" where
  "rpc_UpdateGlobalPremiumRate en request st = (let r = rate_or_zero request in
     case NewPremiumRate (toPremiumAssetType (rp_Asset r)) (toPremiumOperationType (rp_Operation r)) (rp_PremiumRatePpm r) of
       Inl e \<Rightarrow> (Inl (ErrText (''could not create rate: '' @ Error e)), st)
     | Inr rate \<Rightarrow> write_rates en ''could not set default rate: '' (\<lambda>bolt t. store_SetDefaultRate bolt t rate) request st)"

definition rpc_UpdatePremiumRate ::
  "settings_env \<Rightarrow> string \<Rightarrow> rpc_PremiumRate option \<Rightarrow> settings \<Rightarrow> (go_error + rpc_PremiumRate option) \<times> settings" where
  "rpc_UpdatePremiumRate en nodeId request st = (let r = rate_or_zero request in
     case NewPremiumRate (toPremiumAssetType (rp_Asset r)) (toPremiumOperationType (rp_Operation r)) (rp_PremiumRatePpm r) of
       Inl e \<Rightarrow> (Inl (ErrText (''could not create rate: '' @ Error e)), st)
     | Inr rate \<Rightarrow> write_rates en ''could not set rate: '' (\<lambda>bolt t. store_SetRate bolt t nodeId rate) request st)"

definition rpc_DeletePremiumRate ::
  "settings_env \<Rightarrow> string \<Rightarrow> rpc_AssetType \<Rightarrow> rpc_OperationType \<Rightarrow> settings \<Rightarrow> (go_error + rpc_PremiumRate) \<times> settings" where
  "rpc_DeletePremiumRate en nodeId asset operation st =
     write_rates en ''could not delete rate: ''
       (\<lambda>bolt t. store_DeleteRate bolt t nodeId (toPremiumAssetType asset) (toPremiumOperationType operation))
       \<lparr>rp_Asset = asset, rp_Operation = operation, rp_PremiumRatePpm = 0\<rparr> st"

text \<open>The Core Lightning commands take texts.\<close>

definition cln_toPremiumAssetType :: "string \<Rightarrow> AssetType" where
  "cln_toPremiumAssetType asset = (if strings_ToUpper asset = ''BTC'' then BTC
     else if strings_ToUpper asset = ''LBTC'' then LBTC else AsserUnspecified)"

definition cln_toPremiumOperationType :: "string \<Rightarrow> OperationType" where
  "cln_toPremiumOperationType operation = (if strings_ToUpper operation = ''SWAP_IN'' then SwapIn
     else if strings_ToUpper operation = ''SWAP_OUT'' then SwapOut else OperationUnspecified)"

definition cln_GetPremiumRate :: "bool \<Rightarrow> settings_env \<Rightarrow> string \<Rightarrow> string \<Rightarrow> string \<Rightarrow> settings \<Rightarrow> go_error + rpc_PremiumRate" where
  "cln_GetPremiumRate isReady en peerID asset operation st = (if \<not> isReady then Inl ErrWaitingForReady
     else map_sum (\<lambda>e. ErrText (''error getting premium rate: '' @ Error e)) rate_message
       (Setting_GetRate (se_bolt en) (st_clock st) peerID (cln_toPremiumAssetType asset) (cln_toPremiumOperationType operation)
         (st_premium st)))"

definition cln_GetGlobalPremiumRate :: "bool \<Rightarrow> settings_env \<Rightarrow> string \<Rightarrow> string \<Rightarrow> settings \<Rightarrow> go_error + rpc_PremiumRate" where
  "cln_GetGlobalPremiumRate isReady en asset operation st = (if \<not> isReady then Inl ErrWaitingForReady
     else map_sum (\<lambda>e. ErrText (''error getting default premium rate: '' @ Error e)) rate_message
       (Setting_GetDefaultRate (se_bolt en) (st_clock st) (cln_toPremiumAssetType asset) (cln_toPremiumOperationType operation)
         (st_premium st)))"

definition cln_UpdatePremiumRate ::
  "bool \<Rightarrow> settings_env \<Rightarrow> string \<Rightarrow> string \<Rightarrow> string \<Rightarrow> i64 \<Rightarrow> settings \<Rightarrow> (go_error + rpc_PremiumRate) \<times> settings" where
  "cln_UpdatePremiumRate isReady en peerID asset operation ppm st = (if \<not> isReady then (Inl ErrWaitingForReady, st)
     else (case NewPremiumRate (cln_toPremiumAssetType asset) (cln_toPremiumOperationType operation) ppm of
         Inl e \<Rightarrow> (Inl (ErrText (''error creating premium rate: '' @ Error e)), st)
       | Inr rate \<Rightarrow> write_rates en ''error setting premium rate: '' (\<lambda>bolt t. store_SetRate bolt t peerID rate) (rate_message rate) st))"

definition cln_UpdateGlobalPremiumRate ::
  "bool \<Rightarrow> settings_env \<Rightarrow> string \<Rightarrow> string \<Rightarrow> i64 \<Rightarrow> settings \<Rightarrow> (go_error + rpc_PremiumRate) \<times> settings" where
  "cln_UpdateGlobalPremiumRate isReady en asset operation ppm st = (if \<not> isReady then (Inl ErrWaitingForReady, st)
     else (case NewPremiumRate (cln_toPremiumAssetType asset) (cln_toPremiumOperationType operation) ppm of
         Inl e \<Rightarrow> (Inl (ErrText (''error creating premium rate: '' @ Error e)), st)
       | Inr rate \<Rightarrow> write_rates en ''error setting default premium rate: '' (\<lambda>bolt t. store_SetDefaultRate bolt t rate) (rate_message rate) st))"

definition cln_DeletePremiumRate ::
  "bool \<Rightarrow> settings_env \<Rightarrow> string \<Rightarrow> string \<Rightarrow> string \<Rightarrow> settings \<Rightarrow> (go_error + rpc_PremiumRate) \<times> settings" where
  "cln_DeletePremiumRate isReady en peerID asset operation st = (if \<not> isReady then (Inl ErrWaitingForReady, st)
     else write_rates en ''error deleting premium rate: ''
       (\<lambda>bolt t. store_DeleteRate bolt t peerID (cln_toPremiumAssetType asset) (cln_toPremiumOperationType operation))
       \<lparr>rp_Asset = ToAssetType (cln_toPremiumAssetType asset), rp_Operation = ToOperationType (cln_toPremiumOperationType operation),
        rp_PremiumRatePpm = 0\<rparr> st)"

section \<open>The Liquid wallet\<close>

definition rpc_LiquidGetAddress :: "settings_env \<Rightarrow> SwapService \<Rightarrow> nat \<Rightarrow> go_error + string" where
  "rpc_LiquidGetAddress en s t = (if \<not> LiquidEnabled s then Inl (ErrText ''liquid swaps are not enabled'') else se_GetAddress en t)"

definition rpc_LiquidGetBalance :: "settings_env \<Rightarrow> SwapService \<Rightarrow> nat \<Rightarrow> go_error + u64" where
  "rpc_LiquidGetBalance en s t = (if \<not> LiquidEnabled s then Inl (ErrText ''liquid swaps are not enabled'') else se_GetBalance en t)"

definition wallet_send :: "settings_env \<Rightarrow> string \<Rightarrow> u64 \<Rightarrow> settings \<Rightarrow> (go_error + string) \<times> settings" where
  "wallet_send en address amount st = (let r = se_SendToAddress en (st_clock st) address amount in
     (r, st_tick 1 (st\<lparr>wl_sends := wl_sends st @ [(address, amount, r)]\<rparr>)))"

definition rpc_LiquidSendToAddress :: "settings_env \<Rightarrow> SwapService \<Rightarrow> string \<Rightarrow> u64 \<Rightarrow> settings \<Rightarrow> (go_error + string) \<times> settings" where
  "rpc_LiquidSendToAddress en s address amount st =
     (if \<not> LiquidEnabled s then (Inl (ErrText ''liquid swaps are not enabled''), st)
      else if address = '''' then (Inl (ErrText ''address not set''), st)
      else if amount < 5000 then (Inl (ErrText ''amount is dust''), st)
      else wallet_send en address amount st)"

text \<open>\<open>hasWallet\<close>: the plugin was given a Liquid wallet.\<close>

definition cln_LiquidGetAddress :: "bool \<Rightarrow> bool \<Rightarrow> settings_env \<Rightarrow> nat \<Rightarrow> go_error + string" where
  "cln_LiquidGetAddress isReady hasWallet en t = (if \<not> isReady then Inl ErrWaitingForReady
     else if \<not> hasWallet then Inl (ErrText ''liquid swaps are not enabled'') else se_GetAddress en t)"

definition cln_LiquidGetBalance :: "bool \<Rightarrow> bool \<Rightarrow> settings_env \<Rightarrow> nat \<Rightarrow> go_error + u64" where
  "cln_LiquidGetBalance isReady hasWallet en t = (if \<not> isReady then Inl ErrWaitingForReady
     else if \<not> hasWallet then Inl (ErrText ''lbtc swaps are not enabled'') else se_GetBalance en t)"

definition cln_LiquidSendToAddress ::
  "bool \<Rightarrow> bool \<Rightarrow> settings_env \<Rightarrow> string \<Rightarrow> u64 \<Rightarrow> settings \<Rightarrow> (go_error + string) \<times> settings" where
  "cln_LiquidSendToAddress isReady hasWallet en address amount st =
     (if \<not> isReady then (Inl ErrWaitingForReady, st)
      else if \<not> hasWallet then (Inl (ErrText ''lbtc swaps are not enabled''), st)
      else if address = '''' then (Inl (ErrText ''address must be set''), st)
      else if amount = 0 then (Inl (ErrText ''amount_sat must be set''), st)
      else wallet_send en address amount st)"

section \<open>The remaining lists\<close>

record RequestedSwapMessage =
  rm_Asset :: string
  rm_AmountSat :: u64
  rm_SwapType :: nat
  rm_RejectionReason :: string

text \<open>\<open>rm_SwapType\<close> is a number of the protocol's enumeration, printed by its name if it has one.\<close>

definition RequestedSwap_SwapType_String :: "nat \<Rightarrow> string" where
  "RequestedSwap_SwapType_String n = (if n = 0 then ''SWAP_IN'' else if n = 1 then ''SWAP_OUT'' else fmt_nat n)"

text \<open>The numbers of the constants of \<open>swap/swap.go\<close>, which the conversion to the enumeration keeps.\<close>

fun SwapType_num :: "SwapType \<Rightarrow> nat" where
  "SwapType_num SWAPTYPE_NONE = 0"
| "SwapType_num SWAPTYPE_IN = 1"
| "SwapType_num SWAPTYPE_OUT = 2"

definition requested_message :: "RequestedSwap \<Rightarrow> RequestedSwapMessage" where
  "requested_message r = \<lparr>rm_Asset = rs_Asset r, rm_AmountSat = rs_AmountSat r, rm_SwapType = SwapType_num (rs_Type r),
     rm_RejectionReason = rs_RejectionReason r\<rparr>"

definition rpc_ListRequestedSwaps ::
  "bolt_env \<Rightarrow> nat \<Rightarrow> requested_bucket \<Rightarrow> (go_error + (string \<rightharpoonup> RequestedSwapMessage list)) option" where
  "rpc_ListRequestedSwaps env t b = map_option (map_sum (\<lambda>e. e) (\<lambda>m k. map_option (map requested_message) (m k))) (req_GetAll env t b)"

definition cln_GetRequestedSwaps :: "bool \<Rightarrow> bolt_env \<Rightarrow> nat \<Rightarrow> requested_bucket \<Rightarrow> (go_error + (string \<rightharpoonup> requests_summary)) option" where
  "cln_GetRequestedSwaps isReady env t b = (if \<not> isReady then Some (Inl ErrWaitingForReady) else RequestedSwapsPrinter_Get env t b)"

definition cln_GetSwap :: "bool \<Rightarrow> SwapServices \<Rightarrow> string \<Rightarrow> world \<Rightarrow> go_error + SwapStateMachine \<times> string \<times> string" where
  "cln_GetSwap isReady sv swapId w = (if \<not> isReady then Inl ErrWaitingForReady
     else if swapId = '''' then Inl (ErrText ''swap_id required'')
     else (case GetSwap sv swapId w of
         Inl e \<Rightarrow> Inl e | Inr swap \<Rightarrow> Inr (swap, SwapType_String (sm_Type swap), SwapRole_String (sm_Role swap))))"

definition channelActive :: "string \<Rightarrow> bool" where
  "channelActive state_text \<longleftrightarrow> state_text = ''CHANNELD_NORMAL''"

text \<open>The channels of a peer that are among our own, with the balances of \<open>listfunds\<close>; a channel id that does not
  parse fails the whole list.\<close>

fun cln_peer_channels :: "(ShortChannelID \<Rightarrow> u64) \<Rightarrow> (string \<rightharpoonup> FundingChannel) \<Rightarrow> string list \<Rightarrow> go_error + PeerSwapPeerChannel list" where
  "cln_peer_channels to_uint64 funding [] = Inr []"
| "cln_peer_channels to_uint64 funding (scid # scids) = (case funding scid of
     None \<Rightarrow> cln_peer_channels to_uint64 funding scids
   | Some c \<Rightarrow> (case NewScidFromString (fc_ShortChannelId c) of
       Inl e \<Rightarrow> Inl e
     | Inr sc \<Rightarrow> map_sum (\<lambda>e. e) (\<lambda>rest. \<lparr>pc_ChannelId = to_uint64 sc, pc_ShortChannelId = fc_ShortChannelId c,
           pc_LocalBalance = fc_OurAmountMilliSatoshi c div 1000,
           pc_RemoteBalance = (fc_AmountMilliSatoshi c - fc_OurAmountMilliSatoshi c) div 1000,
           pc_Active = channelActive (fc_State c)\<rparr> # rest) (cln_peer_channels to_uint64 funding scids)))"

fun cln_peer_entries ::
  "(ShortChannelID \<Rightarrow> u64) \<Rightarrow> (nat \<Rightarrow> string \<Rightarrow> go_error + string list) \<Rightarrow> nat \<Rightarrow> (string \<rightharpoonup> FundingChannel) \<Rightarrow>
     SwapStateMachine list \<Rightarrow> (string \<rightharpoonup> Peer) \<Rightarrow> string list \<Rightarrow> go_error + PeerSwapPeer list" where
  "cln_peer_entries to_uint64 bySource t funding allSwaps compatible [] = Inr []"
| "cln_peer_entries to_uint64 bySource t funding allSwaps compatible (p # peers) =
     (if compatible p = None then cln_peer_entries to_uint64 bySource t funding allSwaps compatible peers
      else (case bySource t p of
        Inl e \<Rightarrow> Inl e
      | Inr scids \<Rightarrow> (case cln_peer_channels to_uint64 funding scids of
          Inl e \<Rightarrow> Inl e
        | Inr channels \<Rightarrow> map_sum (\<lambda>e. e) (\<lambda>rest. peer_entry allSwaps compatible (\<lambda>_. channels) p # rest)
            (cln_peer_entries to_uint64 bySource (Suc t) funding allSwaps compatible peers))))"

definition cln_ListPeers ::
  "plugin_env \<Rightarrow> (nat \<Rightarrow> go_error + string list) \<Rightarrow> (nat \<Rightarrow> string \<Rightarrow> go_error + string list) \<Rightarrow> nat \<Rightarrow> SwapServices \<Rightarrow> world \<Rightarrow>
     go_error + PeerSwapPeer list" where
  "cln_ListPeers en listPeers bySource t sv w = (if \<not> pe_isReady en then Inl ErrWaitingForReady
     else (case listPeers t of
       Inl e \<Rightarrow> Inl e
     | Inr peers \<Rightarrow> (case pe_ListFunds en (t + 1) of
       Inl e \<Rightarrow> Inl e
     | Inr channels \<Rightarrow> (case (case pe_peerSync en of None \<Rightarrow> Inr Map.empty | Some ps \<Rightarrow> CompatiblePeers ps (pe_peers en)) of
       Inl e \<Rightarrow> Inl e
     | Inr compatible \<Rightarrow> (case ListSwaps sv w of
       Inl e \<Rightarrow> Inl e
     | Inr allSwaps \<Rightarrow> cln_peer_entries (pe_to_uint64 en) bySource (t + 2)
         (map_of (rev (map (\<lambda>c. (fc_ShortChannelId c, c)) channels))) allSwaps compatible peers)))))"

section \<open>Rates set by an operator\<close>

lemma store_GetRate_after_Set:
  assumes "store_SetRate env t peer r b = (None, b')" "rate_wf r" "bolt_Begin env t' = None"
  shows "store_GetRate env t' peer (pr_asset r) (pr_operation r) b' = Inr r"
  using assms
  by (cases r) (auto simp: store_GetRate_def db_View_def NewPremiumRate_def rate_wf_def elim!: store_SetRate_success)

lemma store_GetRate_other:
  assumes "store_SetRate env t peer r b = (None, b')" "(q, a, x) \<noteq> (peer, pr_asset r, pr_operation r)"
  shows "store_GetRate env t' q a x b' = store_GetRate env t' q a x b"
proof -
  have "premium_key q a x \<noteq> premium_key peer (pr_asset r) (pr_operation r)" using assms(2) by auto
  then show ?thesis
    using assms(1) by (cases "bolt_Begin env t'") (auto simp: store_GetRate_def db_View_def simp del: premium_key_inject elim!: store_SetRate_success)
qed

lemma Setting_GetRate_other:
  assumes "store_SetRate env t peer r b = (None, b')" "(q, a, x) \<noteq> (peer, pr_asset r, pr_operation r)" "peer \<noteq> defaultPeerID"
  shows "Setting_GetRate env t' q a x b' = Setting_GetRate env t' q a x b"
proof -
  have "Setting_GetDefaultRate env t' a x b' = Setting_GetDefaultRate env t' a x b"
    using store_GetRate_other [OF assms(1), of defaultPeerID a x t'] assms(3)
    by (simp add: Setting_GetDefaultRate_def store_GetDefaultRate_def)
  then show ?thesis using store_GetRate_other [OF assms(1,2)] by (simp add: Setting_GetRate_def split: sum.split)
qed

lemma NewPremiumRate_Inr:
  "NewPremiumRate a x p = Inr r \<longleftrightarrow> a \<noteq> AsserUnspecified \<and> x \<noteq> OperationUnspecified \<and>
     r = \<lparr>pr_asset = a, pr_operation = x, pr_premiumRate = p\<rparr>"
  by (auto simp: NewPremiumRate_def)

lemma to_premium_inverse [simp]:
  "toPremiumAssetType a \<noteq> AsserUnspecified \<Longrightarrow> ToAssetType (toPremiumAssetType a) = a"
  "toPremiumOperationType x \<noteq> OperationUnspecified \<Longrightarrow> ToOperationType (toPremiumOperationType x) = x"
proof -
  show "toPremiumAssetType a \<noteq> AsserUnspecified \<Longrightarrow> ToAssetType (toPremiumAssetType a) = a" by (cases a) auto
  show "toPremiumOperationType x \<noteq> OperationUnspecified \<Longrightarrow> ToOperationType (toPremiumOperationType x) = x" by (cases x) auto
qed

lemma to_premium_kind [simp]:
  "toPremiumAssetType a \<noteq> AsserUnspecified \<Longrightarrow> toPremiumOperationType x \<noteq> OperationUnspecified \<Longrightarrow> kind_error a x = None"
  by (cases a; cases x) (auto simp: kind_error_def)

lemma force_poll_fields [simp]:
  "st_premium (force_poll en st) = st_premium st" "st_policy (force_poll en st) = st_policy st"
  by (simp_all add: force_poll_def split: option.splits)

lemma st_tick_fields [simp]:
  "st_premium (st_tick n st) = st_premium st" "st_policy (st_tick n st) = st_policy st"
  by (simp_all add: st_tick_def)

lemma write_rates_Inr:
  "write_rates en failure wr a st = (Inr v, st') \<Longrightarrow>
     v = a \<and> wr (se_bolt en) (st_clock st) (st_premium st) = (None, st_premium st')"
  by (auto simp: write_rates_def split: prod.splits option.splits)

text \<open>A premium rate set over the RPC server is the rate every later question gets: both front ends answer it for
  that peer, asset and operation, the premium of a swap is computed with it, and the rates of every other peer, asset
  or operation stay as they were, unless the peer is named \<open>default\<close>.\<close>

theorem premium_update_read_back:
  assumes "rpc_UpdatePremiumRate en node (Some r) st = (Inr v, st')"
    and "bolt_Begin (se_bolt en) (st_clock st2) = None" and "st_premium st2 = st_premium st'"
  shows "v = Some r \<and> rpc_GetPremiumRate en node (rp_Asset r) (rp_Operation r) st2 = Inr r \<and>
    cln_GetPremiumRate True en node (rpc_AssetType_String (rp_Asset r)) (rpc_OperationType_String (rp_Operation r)) st2 = Inr r \<and>
    Setting_Compute (se_bolt en) (st_clock st2) node (toPremiumAssetType (rp_Asset r)) (toPremiumOperationType (rp_Operation r))
      amt (st_premium st2) = Inr (PPM_Compute (rp_PremiumRatePpm r) amt) \<and>
    (\<forall>q a x. (q, a, x) \<noteq> (node, toPremiumAssetType (rp_Asset r), toPremiumOperationType (rp_Operation r)) \<longrightarrow> node \<noteq> defaultPeerID \<longrightarrow>
      Setting_GetRate (se_bolt en) (st_clock st2) q a x (st_premium st2) = Setting_GetRate (se_bolt en) (st_clock st2) q a x (st_premium st))"
proof -
  let ?a = "toPremiumAssetType (rp_Asset r)" and ?x = "toPremiumOperationType (rp_Operation r)"
  let ?r = "\<lparr>pr_asset = ?a, pr_operation = ?x, pr_premiumRate = rp_PremiumRatePpm r\<rparr>"
  have kinds: "?a \<noteq> AsserUnspecified" "?x \<noteq> OperationUnspecified"
    and upd: "write_rates en ''could not set rate: '' (\<lambda>bolt t. store_SetRate bolt t node ?r) (Some r) st = (Inr v, st')"
    using assms(1) by (auto simp: rpc_UpdatePremiumRate_def Let_def rate_or_zero_def NewPremiumRate_Inr split: sum.splits)
  have set: "store_SetRate (se_bolt en) (st_clock st) node ?r (st_premium st) = (None, st_premium st2)" and v: "v = Some r"
    using write_rates_Inr [OF upd] assms(3) by simp_all
  have get: "Setting_GetRate (se_bolt en) (st_clock st2) node ?a ?x (st_premium st2) = Inr ?r"
    using store_GetRate_after_Set [OF set _ assms(2)] kinds by (simp add: Setting_GetRate_def rate_wf_def)
  have names: "cln_toPremiumAssetType (rpc_AssetType_String (rp_Asset r)) = ?a"
    "cln_toPremiumOperationType (rpc_OperationType_String (rp_Operation r)) = ?x"
    using kinds by (cases "rp_Asset r"; simp add: cln_toPremiumAssetType_def upper_char_def)
      (use kinds in \<open>cases "rp_Operation r"; simp add: cln_toPremiumOperationType_def upper_char_def\<close>)
  have msg: "rate_message ?r = r" using kinds by (simp add: rate_message_def)
  show ?thesis
    using v get kinds names msg Setting_GetRate_other [OF set]
    by (simp add: rpc_GetPremiumRate_def cln_GetPremiumRate_def Setting_Compute_def)
qed

definition demo_settings :: settings where
  "demo_settings = \<lparr>st_policy = (sample_policy, Some []), st_premium = Some Map.empty, st_peers = demo_ps_world, st_clock = 0, wl_sends = []\<rparr>"

definition demo_settings_env :: settings_env where
  "demo_settings_env = \<lparr>se_os = quiet_os, se_bolt = bolt_ok, se_peerSync = None, se_GetAddress = (\<lambda>_. Inr ''addr''),
     se_GetBalance = (\<lambda>_. Inr 0), se_SendToAddress = (\<lambda>_ _ _. Inr ''txid'')\<rparr>"

theorem premium_update_read_back_witness:
  "\<exists>st'. rpc_UpdatePremiumRate demo_settings_env ''p'' (Some \<lparr>rp_Asset = AssetType_LBTC, rp_Operation = OperationType_SWAP_IN,
       rp_PremiumRatePpm = 7\<rparr>) demo_settings = (Inr (Some \<lparr>rp_Asset = AssetType_LBTC, rp_Operation = OperationType_SWAP_IN,
       rp_PremiumRatePpm = 7\<rparr>), st') \<and>
     cln_GetPremiumRate True demo_settings_env ''p'' ''LBTC'' ''SWAP_IN'' st' = Inr \<lparr>rp_Asset = AssetType_LBTC,
       rp_Operation = OperationType_SWAP_IN, rp_PremiumRatePpm = 7\<rparr>"
proof -
  let ?r = "\<lparr>rp_Asset = AssetType_LBTC, rp_Operation = OperationType_SWAP_IN, rp_PremiumRatePpm = 7\<rparr>"
  obtain st' where run: "rpc_UpdatePremiumRate demo_settings_env ''p'' (Some ?r) demo_settings = (Inr (Some ?r), st')"
    by (simp add: rpc_UpdatePremiumRate_def Let_def rate_or_zero_def NewPremiumRate_def write_rates_def demo_settings_env_def
        store_SetRate_def db_Update_def bucket_Put_def demo_settings_def)
  have "bolt_Begin (se_bolt demo_settings_env) (st_clock st') = None" by (simp add: demo_settings_env_def)
  from premium_update_read_back [OF run this refl] show ?thesis using run by simp
qed

text \<open>The name \<open>default\<close> stands for the global rate: a rate set for a peer of that name is set for everyone, and is
  what every peer without a rate of its own is charged.\<close>

theorem default_peer_sets_global_rate:
  assumes "rpc_UpdatePremiumRate en ''default'' (Some r) st = (Inr v, st')"
    and "bolt_Begin (se_bolt en) t = None"
    and "store_GetRate (se_bolt en) t q (toPremiumAssetType (rp_Asset r)) (toPremiumOperationType (rp_Operation r)) (st_premium st) = Inl ErrRateNotFound"
  shows "rpc_UpdateGlobalPremiumRate en (Some r) st = (Inr v, st') \<and>
    Setting_Compute (se_bolt en) t q (toPremiumAssetType (rp_Asset r)) (toPremiumOperationType (rp_Operation r)) amt (st_premium st')
      = Inr (PPM_Compute (rp_PremiumRatePpm r) amt)"
proof -
  let ?a = "toPremiumAssetType (rp_Asset r)" and ?x = "toPremiumOperationType (rp_Operation r)"
  let ?r = "\<lparr>pr_asset = ?a, pr_operation = ?x, pr_premiumRate = rp_PremiumRatePpm r\<rparr>"
  have kinds: "?a \<noteq> AsserUnspecified" "?x \<noteq> OperationUnspecified"
    and upd: "write_rates en ''could not set rate: '' (\<lambda>bolt t. store_SetRate bolt t ''default'' ?r) (Some r) st = (Inr v, st')"
    using assms(1) by (auto simp: rpc_UpdatePremiumRate_def Let_def rate_or_zero_def NewPremiumRate_Inr split: sum.splits)
  have set: "store_SetRate (se_bolt en) (st_clock st) ''default'' ?r (st_premium st) = (None, st_premium st')"
    using write_rates_Inr [OF upd] by simp
  have glob: "rpc_UpdateGlobalPremiumRate en (Some r) st = (Inr v, st')"
    using upd kinds
    by (auto simp: rpc_UpdateGlobalPremiumRate_def Let_def rate_or_zero_def NewPremiumRate_def store_SetDefaultRate_def
        defaultPeerID_def write_rates_def split: prod.splits option.splits)
  have def: "store_GetRate (se_bolt en) t ''default'' ?a ?x (st_premium st') = Inr ?r"
    using store_GetRate_after_Set [OF set _ assms(2)] kinds by (simp add: rate_wf_def)
  have "store_GetRate (se_bolt en) t q ?a ?x (st_premium st') = (if q = ''default'' then Inr ?r else Inl ErrRateNotFound)"
    using def store_GetRate_other [OF set, of q ?a ?x t] assms(3) by simp
  then have "Setting_GetRate (se_bolt en) t q ?a ?x (st_premium st') = Inr ?r"
    using def by (simp add: Setting_GetRate_def Setting_GetDefaultRate_def store_GetDefaultRate_def defaultPeerID_def split: if_splits)
  then show ?thesis using glob by (simp add: Setting_Compute_def)
qed

theorem default_peer_sets_global_rate_witness:
  "\<exists>v st'. rpc_UpdatePremiumRate demo_settings_env ''default'' (Some \<lparr>rp_Asset = AssetType_BTC, rp_Operation = OperationType_SWAP_OUT,
       rp_PremiumRatePpm = 7\<rparr>) demo_settings = (Inr v, st') \<and>
     Setting_Compute bolt_ok 9 ''anyone'' BTC SwapOut 1000000 (st_premium st') = Inr (PPM_Compute 7 1000000)"
proof -
  let ?r = "\<lparr>rp_Asset = AssetType_BTC, rp_Operation = OperationType_SWAP_OUT, rp_PremiumRatePpm = 7\<rparr>"
  obtain st' where run: "rpc_UpdatePremiumRate demo_settings_env ''default'' (Some ?r) demo_settings = (Inr (Some ?r), st')"
    by (simp add: rpc_UpdatePremiumRate_def Let_def rate_or_zero_def NewPremiumRate_def write_rates_def demo_settings_env_def
        store_SetRate_def db_Update_def bucket_Put_def demo_settings_def)
  have "bolt_Begin (se_bolt demo_settings_env) 9 = None" and bolt: "se_bolt demo_settings_env = bolt_ok"
    by (simp_all add: demo_settings_env_def)
  from default_peer_sets_global_rate [OF run this(1), of "''anyone''" 1000000] run show ?thesis
    by (simp add: store_GetRate_def db_View_def demo_settings_def bolt)
qed

section \<open>Peers an operator shuts out\<close>

lemma suspicious_start_refused:
  assumes "IsPeerSuspicious (fst (w_policy w)) peer"
  shows "\<exists>e. SwapService_SwapOut sv peer chain ch me amt rate s w = Ret (Inl e, s, w)"
    "\<exists>e. SwapService_SwapIn sv peer chain ch me amt rate s w = Ret (Inl e, s, w)"
  using assms by (simp_all add: SwapService_SwapOut_def SwapService_SwapIn_def start_error_def Let_def)

text \<open>Marking a peer as suspicious locks it out at once: with a readable policy file in step with the running policy
  the call succeeds for a valid key and answers with the new list, the file stays in step, no swap with the peer can be
  started in either direction (the attempt leaves service and world as they were), and the capability service treats
  it as suspicious.\<close>

theorem suspicious_peer_locked_out:
  assumes "os_quiet (se_os en)" "ini_list_option (se_os en) ''suspicious_peers='' SuspiciousPeerList_update"
    and "policy_synced (se_os en) (st_policy st)" "isValidPubkey peer = None" "\<not> IsPeerSuspicious (fst (st_policy st)) peer"
  shows "\<exists>pm st'. rpc_AddSusPeer en peer st = (Inr pm, st') \<and> peer \<in> set (pm_SuspiciousPeerList pm) \<and>
    policy_synced (se_os en) (st_policy st') \<and>
    (\<forall>sv chain ch me amt rate s w. w_policy w = st_policy st' \<longrightarrow>
      (\<exists>e. SwapService_SwapOut sv peer chain ch me amt rate s w = Ret (Inl e, s, w)) \<and>
      (\<exists>e. SwapService_SwapIn sv peer chain ch me amt rate s w = Ret (Inl e, s, w))) \<and>
    (\<forall>ps. ps_policy ps \<noteq> None \<longrightarrow> guard_Suspicious (current_sync st' ps) peer)"
proof -
  obtain p f where pf: "st_policy st = (p, f)" by (cases "st_policy st")
  let ?p = "SuspiciousPeerList_update (\<lambda>vs. vs @ [peer]) p"
  obtain f' where add: "AddToSuspiciousPeerList (se_os en) (st_clock st) peer (p, f) = (None, ?p, f')"
    and synced: "policy_synced (se_os en) (?p, f')"
    using suspicious.add_effect [OF assms(1,2) _ assms(4), of p f "st_clock st"] assms(3,5) pf
    by (auto simp: IsPeerSuspicious_def)
  define st' where "st' = st_tick 4 (st\<lparr>st_policy := (?p, f')\<rparr>)"
  have pol: "st_policy st' = (?p, f')" by (simp add: st'_def)
  have run: "rpc_AddSusPeer en peer st = (Inr (GetPolicyMessage (Policy_Get ?p)), st')"
    by (simp add: rpc_AddSusPeer_def with_policy_def pf add policy_answer_def st'_def)
  have sus: "IsPeerSuspicious ?p peer" by (simp add: IsPeerSuspicious_def)
  have refused: "(\<exists>e. SwapService_SwapOut sv peer chain ch me amt rate s w = Ret (Inl e, s, w)) \<and>
      (\<exists>e. SwapService_SwapIn sv peer chain ch me amt rate s w = Ret (Inl e, s, w))"
    if "w_policy w = st_policy st'" for sv chain ch me amt rate s w
    using suspicious_start_refused [of w peer] sus that pol by simp
  have guard: "guard_Suspicious (current_sync st' ps) peer" if "ps_policy ps \<noteq> None" for ps
    using that sus pol by (auto simp: guard_Suspicious_def current_sync_def)
  show ?thesis
    using run synced refused guard pol
    by (intro exI [of _ "GetPolicyMessage (Policy_Get ?p)"] exI [of _ st']) (simp add: GetPolicyMessage_def Policy_Get_def)
qed

theorem suspicious_peer_locked_out_witness:
  "\<exists>pm st'. rpc_AddSusPeer demo_settings_env sample_peer demo_settings = (Inr pm, st') \<and> sample_peer \<in> set (pm_SuspiciousPeerList pm)"
proof -
  have "se_os demo_settings_env = quiet_os" "st_policy demo_settings = (sample_policy, Some [])"
    by (simp_all add: demo_settings_env_def demo_settings_def)
  then show ?thesis
    using suspicious_peer_locked_out [of demo_settings_env demo_settings sample_peer] ini_ref_list_option sample_policy_synced
      sample_peer_valid by (auto simp: IsPeerSuspicious_def sample_policy_def DefaultPolicy_def)
qed

section \<open>The list of rejected requests\<close>

text \<open>The RPC server shows rejected swap-ins as swap-outs: the constants of the program start at one and those of
  the protocol at zero, and the number is passed on unchanged.  A swap-in request that was just recorded for a node is
  listed last for that node, with the name \<open>SWAP_OUT\<close>.\<close>

theorem rejected_swap_in_listed_as_out:
  assumes "req_Add env t node r b = Some (None, b')" "rs_Type r = SWAPTYPE_IN" "bolt_Begin env t' = None"
  shows "\<exists>m before x. rpc_ListRequestedSwaps env t' b' = Some (Inr m) \<and> m node = Some (before @ [x]) \<and>
    rm_AmountSat x = rs_AmountSat r \<and> RequestedSwap_SwapType_String (rm_SwapType x) = ''SWAP_OUT''"
proof -
  obtain m rs where b': "b' = Some m" "m (bytes_of_string node) = Some (rs @ [r])"
    using assms(1) by (auto simp: req_Add_def db_Update_success bucket_Put_def split: option.splits)
  let ?m = "\<lambda>k. map_option (map requested_message) (m (bytes_of_string k))"
  have "rpc_ListRequestedSwaps env t' b' = Some (Inr ?m)" "?m node = Some (map requested_message rs @ [requested_message r])"
    using b' assms(3) by (simp_all add: rpc_ListRequestedSwaps_def req_GetAll_def)
  moreover have "rm_AmountSat (requested_message r) = rs_AmountSat r"
    "RequestedSwap_SwapType_String (rm_SwapType (requested_message r)) = ''SWAP_OUT''"
    using assms(2) by (simp_all add: requested_message_def RequestedSwap_SwapType_String_def)
  ultimately show ?thesis by blast
qed

theorem rejected_swap_in_listed_as_out_witness:
  "\<exists>m before x. rpc_ListRequestedSwaps bolt_ok 1 (Some [bytes_of_string ''n'' \<mapsto>
       [\<lparr>rs_Asset = ''btc'', rs_AmountSat = 5, rs_Type = SWAPTYPE_IN, rs_RejectionReason = ''no''\<rparr>]]) = Some (Inr m) \<and>
     m ''n'' = Some (before @ [x]) \<and> rm_AmountSat x = 5 \<and> RequestedSwap_SwapType_String (rm_SwapType x) = ''SWAP_OUT''"
proof -
  let ?r = "\<lparr>rs_Asset = ''btc'', rs_AmountSat = 5, rs_Type = SWAPTYPE_IN, rs_RejectionReason = ''no''\<rparr>"
  have "req_Add bolt_ok 0 ''n'' ?r (Some Map.empty) = Some (None, Some [bytes_of_string ''n'' \<mapsto> [?r]])"
    by (simp add: req_Add_def db_Update_def bucket_Put_def)
  from rejected_swap_in_listed_as_out [OF this, of 1] show ?thesis by simp
qed

end
