(* ===== verification/PS_Cli.thy ===== *)
theory PS_Cli
  imports PS_Operator PS_Views
begin

text \<open>
  The command line client of the lnd daemon (\<open>cmd/peerswaplnd/pscli/main.go\<close>): its flags, its commands, the request each command
  sends, and the calls of the server that change settings behind it.

  The flag library is a parameter: \<open>cli_context\<close> holds what its accessors answer for a name, \<open>cx_IsSet\<close> whether the flag was
  given.  The library refuses a command whose required flags are not given before it runs the action; \<open>cx_missing\<close> is its error.
  The response is printed as JSON, which is not modelled.
\<close>

section \<open>Flags\<close>

datatype flag_kind = Uint64Flag | Int64Flag | UintFlag | StringFlag | BoolFlag | BoolTFlag

record cli_flag =
  fl_Name :: string
  fl_Kind :: flag_kind
  fl_Required :: bool
  fl_Value :: string

text \<open>\<open>fl_Value\<close> is the default of a flag that is not given, empty where the source names none.\<close>

definition satAmountFlag :: cli_flag where "satAmountFlag = \<lparr>fl_Name = ''sat_amt'', fl_Kind = Uint64Flag, fl_Required = True, fl_Value = ''''\<rparr>"
definition channelIdFlag :: cli_flag where "channelIdFlag = \<lparr>fl_Name = ''channel_id'', fl_Kind = Uint64Flag, fl_Required = True, fl_Value = ''''\<rparr>"
definition assetFlag :: cli_flag where "assetFlag = \<lparr>fl_Name = ''asset'', fl_Kind = StringFlag, fl_Required = True, fl_Value = ''''\<rparr>"
definition swapIdFlag :: cli_flag where "swapIdFlag = \<lparr>fl_Name = ''id'', fl_Kind = StringFlag, fl_Required = True, fl_Value = ''''\<rparr>"
definition liquidAddressFlag :: cli_flag where "liquidAddressFlag = \<lparr>fl_Name = ''address'', fl_Kind = StringFlag, fl_Required = True, fl_Value = ''''\<rparr>"
definition allowFlag :: cli_flag where "allowFlag = \<lparr>fl_Name = ''allow_swaps'', fl_Kind = BoolFlag, fl_Required = True, fl_Value = ''''\<rparr>"
definition pubkeyFlag :: cli_flag where "pubkeyFlag = \<lparr>fl_Name = ''peer_pubkey'', fl_Kind = StringFlag, fl_Required = True, fl_Value = ''''\<rparr>"
definition PremiumLimitRatePPMFlag :: cli_flag where "PremiumLimitRatePPMFlag = \<lparr>fl_Name = ''premium_limit_rate_ppm'', fl_Kind = Uint64Flag, fl_Required = False, fl_Value = ''''\<rparr>"
definition operationFlag :: cli_flag where "operationFlag = \<lparr>fl_Name = ''operation'', fl_Kind = StringFlag, fl_Required = True, fl_Value = ''''\<rparr>"
definition rateFlag :: cli_flag where "rateFlag = \<lparr>fl_Name = ''rate'', fl_Kind = Int64Flag, fl_Required = True, fl_Value = ''''\<rparr>"
definition nodeIdFlag :: cli_flag where "nodeIdFlag = \<lparr>fl_Name = ''node_id'', fl_Kind = StringFlag, fl_Required = True, fl_Value = ''''\<rparr>"
definition listPageSizeFlag :: cli_flag where "listPageSizeFlag = \<lparr>fl_Name = ''page_size'', fl_Kind = UintFlag, fl_Required = False, fl_Value = ''100''\<rparr>"
definition listPageTokenFlag :: cli_flag where "listPageTokenFlag = \<lparr>fl_Name = ''page_token'', fl_Kind = StringFlag, fl_Required = False, fl_Value = ''''\<rparr>"
definition listDescendingFlag :: cli_flag where "listDescendingFlag = \<lparr>fl_Name = ''descending'', fl_Kind = BoolTFlag, fl_Required = False, fl_Value = ''''\<rparr>"

lemmas flag_defs = satAmountFlag_def channelIdFlag_def assetFlag_def swapIdFlag_def liquidAddressFlag_def allowFlag_def pubkeyFlag_def PremiumLimitRatePPMFlag_def operationFlag_def rateFlag_def nodeIdFlag_def listPageSizeFlag_def listPageTokenFlag_def listDescendingFlag_def

record cli_context =
  cx_rpchost :: string
  cx_IsSet :: "string \<Rightarrow> bool"
  cx_missing :: "string list \<Rightarrow> go_error"
  cx_Uint64 :: "string \<Rightarrow> u64"
  cx_Int64 :: "string \<Rightarrow> i64"
  cx_Uint :: "string \<Rightarrow> u64"
  cx_String :: "string \<Rightarrow> string"
  cx_Bool :: "string \<Rightarrow> bool"

section \<open>Requests\<close>

datatype rpc_request =
    SwapInRequest SwapRequest | SwapOutRequest SwapRequest | GetSwapRequest string | ListSwapsRequest u32 string bool
  | ListPeersRequest u32 string | ReloadPolicyFileRequest | ListRequestedSwapsRequest | GetAddressRequest | GetBalanceRequest
  | SendToAddressRequest string u64 | ListActiveSwapsRequest u32 string bool | AllowSwapRequestsRequest bool
  | AddPeerRequest string | RemovePeerRequest string | AddSusPeerRequest string | RemoveSusPeerRequest string | StopRequest
  | GetGlobalPremiumRateRequest rpc_AssetType rpc_OperationType | UpdateGlobalPremiumRateRequest rpc_PremiumRate
  | GetPremiumRateRequest string rpc_AssetType rpc_OperationType | UpdatePremiumRateRequest string rpc_PremiumRate
  | DeletePremiumRateRequest string rpc_AssetType rpc_OperationType

text \<open>A text that is no name of an enumeration reads as its zero value.\<close>

definition AssetType_value :: "string \<Rightarrow> rpc_AssetType" where
  "AssetType_value s = (if s = ''BTC'' then AssetType_BTC else if s = ''LBTC'' then AssetType_LBTC else AssetType_ASSET_UNSPECIFIED)"

definition OperationType_value :: "string \<Rightarrow> rpc_OperationType" where
  "OperationType_value s = (if s = ''SWAP_IN'' then OperationType_SWAP_IN else if s = ''SWAP_OUT'' then OperationType_SWAP_OUT
     else OperationType_OPERATION_UNSPECIFIED)"

abbreviation flag_asset :: "cli_context \<Rightarrow> rpc_AssetType" where
  "flag_asset ctx \<equiv> AssetType_value (PS_Operator.strings_ToUpper (cx_String ctx (fl_Name assetFlag)))"

abbreviation flag_operation :: "cli_context \<Rightarrow> rpc_OperationType" where
  "flag_operation ctx \<equiv> OperationType_value (PS_Operator.strings_ToUpper (cx_String ctx (fl_Name operationFlag)))"

text \<open>The client never forces a swap.\<close>

abbreviation flag_swap :: "cli_context \<Rightarrow> SwapRequest" where
  "flag_swap ctx \<equiv> \<lparr>sr_ChannelId = cx_Uint64 ctx (fl_Name channelIdFlag), sr_SwapAmount = cx_Uint64 ctx (fl_Name satAmountFlag),
     sr_Asset = cx_String ctx (fl_Name assetFlag), sr_Force = False,
     sr_PremiumLimitRatePpm = cx_Int64 ctx (fl_Name PremiumLimitRatePPMFlag)\<rparr>"

abbreviation flag_rate :: "cli_context \<Rightarrow> rpc_PremiumRate" where
  "flag_rate ctx \<equiv> \<lparr>rp_Asset = flag_asset ctx, rp_Operation = flag_operation ctx, rp_PremiumRatePpm = cx_Int64 ctx (fl_Name rateFlag)\<rparr>"

section \<open>Commands\<close>

text \<open>An action dials the daemon, sends one request and prints the answer (\<open>run_action\<close>); the actions differ in the request.\<close>

type_synonym cli_action = "cli_context \<Rightarrow> rpc_request"

definition cli_swapIn :: cli_action where "cli_swapIn ctx = SwapInRequest (flag_swap ctx)"
definition cli_swapOut :: cli_action where "cli_swapOut ctx = SwapOutRequest (flag_swap ctx)"
definition cli_getSwap :: cli_action where "cli_getSwap ctx = GetSwapRequest (cx_String ctx (fl_Name swapIdFlag))"
definition cli_listSwaps :: cli_action where "cli_listSwaps ctx = ListSwapsRequest (ucast (cx_Uint ctx (fl_Name listPageSizeFlag))) (cx_String ctx (fl_Name listPageTokenFlag)) (cx_Bool ctx (fl_Name listDescendingFlag))"
definition cli_listPeers :: cli_action where "cli_listPeers ctx = ListPeersRequest (ucast (cx_Uint ctx (fl_Name listPageSizeFlag))) (cx_String ctx (fl_Name listPageTokenFlag))"
definition cli_reloadPolicyFile :: cli_action where "cli_reloadPolicyFile ctx = ReloadPolicyFileRequest"
definition cli_listRequestedSwaps :: cli_action where "cli_listRequestedSwaps ctx = ListRequestedSwapsRequest"
definition cli_liquidGetAddress :: cli_action where "cli_liquidGetAddress ctx = GetAddressRequest"
definition cli_liquidGetBalance :: cli_action where "cli_liquidGetBalance ctx = GetBalanceRequest"
definition cli_liquidSendToAddress :: cli_action where "cli_liquidSendToAddress ctx = SendToAddressRequest (cx_String ctx (fl_Name liquidAddressFlag)) (cx_Uint64 ctx (fl_Name satAmountFlag))"
definition cli_listActiveSwaps :: cli_action where "cli_listActiveSwaps ctx = ListActiveSwapsRequest (ucast (cx_Uint ctx (fl_Name listPageSizeFlag))) (cx_String ctx (fl_Name listPageTokenFlag)) (cx_Bool ctx (fl_Name listDescendingFlag))"
definition cli_allowSwaps :: cli_action where "cli_allowSwaps ctx = AllowSwapRequestsRequest (cx_Bool ctx (fl_Name allowFlag))"
definition cli_addPeer :: cli_action where "cli_addPeer ctx = AddPeerRequest (cx_String ctx (fl_Name pubkeyFlag))"
definition cli_removePeer :: cli_action where "cli_removePeer ctx = RemovePeerRequest (cx_String ctx (fl_Name pubkeyFlag))"
definition cli_addSusPeer :: cli_action where "cli_addSusPeer ctx = AddSusPeerRequest (cx_String ctx (fl_Name pubkeyFlag))"
definition cli_removeSusPeer :: cli_action where "cli_removeSusPeer ctx = RemoveSusPeerRequest (cx_String ctx (fl_Name pubkeyFlag))"
definition cli_stopPeerswap :: cli_action where "cli_stopPeerswap ctx = StopRequest"
definition cli_getGlobalPremiumRate :: cli_action where "cli_getGlobalPremiumRate ctx = GetGlobalPremiumRateRequest (flag_asset ctx) (flag_operation ctx)"
definition cli_updateGlobalPremiumRate :: cli_action where "cli_updateGlobalPremiumRate ctx = UpdateGlobalPremiumRateRequest (flag_rate ctx)"
definition cli_getPeerPremiumRate :: cli_action where "cli_getPeerPremiumRate ctx = GetPremiumRateRequest (cx_String ctx (fl_Name nodeIdFlag)) (flag_asset ctx) (flag_operation ctx)"
definition cli_updatePremiumRate :: cli_action where "cli_updatePremiumRate ctx = UpdatePremiumRateRequest (cx_String ctx (fl_Name nodeIdFlag)) (flag_rate ctx)"
definition cli_deletePeerPremiumRate :: cli_action where "cli_deletePeerPremiumRate ctx = DeletePremiumRateRequest (cx_String ctx (fl_Name nodeIdFlag)) (flag_asset ctx) (flag_operation ctx)"

lemmas action_defs = cli_swapIn_def cli_swapOut_def cli_getSwap_def cli_listSwaps_def cli_listPeers_def cli_reloadPolicyFile_def cli_listRequestedSwaps_def cli_liquidGetAddress_def cli_liquidGetBalance_def cli_liquidSendToAddress_def cli_listActiveSwaps_def cli_allowSwaps_def cli_addPeer_def cli_removePeer_def cli_addSusPeer_def cli_removeSusPeer_def cli_stopPeerswap_def cli_getGlobalPremiumRate_def cli_updateGlobalPremiumRate_def cli_getPeerPremiumRate_def cli_updatePremiumRate_def cli_deletePeerPremiumRate_def

record cli_command =
  co_Name :: string
  co_Flags :: "cli_flag list"
  co_Action :: cli_action

definition swapOutCommand :: cli_command where "swapOutCommand = \<lparr>co_Name = ''swapout'', co_Flags = [satAmountFlag, channelIdFlag, assetFlag, PremiumLimitRatePPMFlag], co_Action = cli_swapOut\<rparr>"
definition swapInCommand :: cli_command where "swapInCommand = \<lparr>co_Name = ''swapin'', co_Flags = [satAmountFlag, channelIdFlag, assetFlag, PremiumLimitRatePPMFlag], co_Action = cli_swapIn\<rparr>"
definition getSwapCommand :: cli_command where "getSwapCommand = \<lparr>co_Name = ''getswap'', co_Flags = [swapIdFlag], co_Action = cli_getSwap\<rparr>"
definition listSwapsCommand :: cli_command where "listSwapsCommand = \<lparr>co_Name = ''listswaps'', co_Flags = [listPageSizeFlag, listPageTokenFlag, listDescendingFlag], co_Action = cli_listSwaps\<rparr>"
definition listPeersCommand :: cli_command where "listPeersCommand = \<lparr>co_Name = ''listpeers'', co_Flags = [listPageSizeFlag, listPageTokenFlag], co_Action = cli_listPeers\<rparr>"
definition reloadPolicyFileCommand :: cli_command where "reloadPolicyFileCommand = \<lparr>co_Name = ''reloadpolicy'', co_Flags = [], co_Action = cli_reloadPolicyFile\<rparr>"
definition listRequestedSwapsCommand :: cli_command where "listRequestedSwapsCommand = \<lparr>co_Name = ''listswaprequests'', co_Flags = [], co_Action = cli_listRequestedSwaps\<rparr>"
definition liquidGetBalanceCommand :: cli_command where "liquidGetBalanceCommand = \<lparr>co_Name = ''lbtc-getbalance'', co_Flags = [], co_Action = cli_liquidGetBalance\<rparr>"
definition liquidGetAddressCommand :: cli_command where "liquidGetAddressCommand = \<lparr>co_Name = ''lbtc-getaddress'', co_Flags = [], co_Action = cli_liquidGetAddress\<rparr>"
definition liquidSendToAddressCommand :: cli_command where "liquidSendToAddressCommand = \<lparr>co_Name = ''lbtc-sendtoaddress'', co_Flags = [satAmountFlag, liquidAddressFlag], co_Action = cli_liquidSendToAddress\<rparr>"
definition stopCommand :: cli_command where "stopCommand = \<lparr>co_Name = ''stop'', co_Flags = [], co_Action = cli_stopPeerswap\<rparr>"
definition listActiveSwapsCommand :: cli_command where "listActiveSwapsCommand = \<lparr>co_Name = ''listactiveswaps'', co_Flags = [listPageSizeFlag, listPageTokenFlag, listDescendingFlag], co_Action = cli_listActiveSwaps\<rparr>"
definition allowSwapRequestsCommand :: cli_command where "allowSwapRequestsCommand = \<lparr>co_Name = ''allowswaprequests'', co_Flags = [allowFlag], co_Action = cli_allowSwaps\<rparr>"
definition addPeerCommand :: cli_command where "addPeerCommand = \<lparr>co_Name = ''addpeer'', co_Flags = [pubkeyFlag], co_Action = cli_addPeer\<rparr>"
definition removePeerCommand :: cli_command where "removePeerCommand = \<lparr>co_Name = ''removepeer'', co_Flags = [pubkeyFlag], co_Action = cli_removePeer\<rparr>"
definition addSusPeerCommand :: cli_command where "addSusPeerCommand = \<lparr>co_Name = ''addsuspeer'', co_Flags = [pubkeyFlag], co_Action = cli_addSusPeer\<rparr>"
definition removeSusPeerCommand :: cli_command where "removeSusPeerCommand = \<lparr>co_Name = ''removesuspeer'', co_Flags = [pubkeyFlag], co_Action = cli_removeSusPeer\<rparr>"
definition getGlobalPremiumRateCommand :: cli_command where "getGlobalPremiumRateCommand = \<lparr>co_Name = ''getglobalpremiumrate'', co_Flags = [assetFlag, operationFlag], co_Action = cli_getGlobalPremiumRate\<rparr>"
definition updateGlobalPremiumRateCommand :: cli_command where "updateGlobalPremiumRateCommand = \<lparr>co_Name = ''updateglobalpremiumrate'', co_Flags = [assetFlag, operationFlag, rateFlag], co_Action = cli_updateGlobalPremiumRate\<rparr>"
definition getPeerPremiumRateCommand :: cli_command where "getPeerPremiumRateCommand = \<lparr>co_Name = ''getpeerpremiumrate'', co_Flags = [nodeIdFlag, assetFlag, operationFlag], co_Action = cli_getPeerPremiumRate\<rparr>"
definition updatePremiumRateCommand :: cli_command where "updatePremiumRateCommand = \<lparr>co_Name = ''updatepremiumrate'', co_Flags = [nodeIdFlag, assetFlag, operationFlag, rateFlag], co_Action = cli_updatePremiumRate\<rparr>"
definition deletePeerPremiumRateCommand :: cli_command where "deletePeerPremiumRateCommand = \<lparr>co_Name = ''deletepeerpremiumrate'', co_Flags = [nodeIdFlag, assetFlag, operationFlag], co_Action = cli_deletePeerPremiumRate\<rparr>"

lemmas command_defs = swapOutCommand_def swapInCommand_def getSwapCommand_def listSwapsCommand_def listPeersCommand_def reloadPolicyFileCommand_def listRequestedSwapsCommand_def liquidGetBalanceCommand_def liquidGetAddressCommand_def liquidSendToAddressCommand_def stopCommand_def listActiveSwapsCommand_def allowSwapRequestsCommand_def addPeerCommand_def removePeerCommand_def addSusPeerCommand_def removeSusPeerCommand_def getGlobalPremiumRateCommand_def updateGlobalPremiumRateCommand_def getPeerPremiumRateCommand_def updatePremiumRateCommand_def deletePeerPremiumRateCommand_def

definition app_Commands :: "cli_command list" where
  "app_Commands = [swapOutCommand, swapInCommand, getSwapCommand, listSwapsCommand, listPeersCommand, reloadPolicyFileCommand, listRequestedSwapsCommand, liquidGetBalanceCommand, liquidGetAddressCommand, liquidSendToAddressCommand, stopCommand, listActiveSwapsCommand, allowSwapRequestsCommand, addPeerCommand, removePeerCommand, addSusPeerCommand, removeSusPeerCommand, getGlobalPremiumRateCommand, updateGlobalPremiumRateCommand, getPeerPremiumRateCommand, updatePremiumRateCommand, deletePeerPremiumRateCommand]"

text \<open>\<open>getClient\<close> dials the daemon; the action sends its request and prints the answer.\<close>

definition getClientConn :: "(string \<Rightarrow> go_error option) \<Rightarrow> string \<Rightarrow> go_error option" where
  "getClientConn dial address = (case dial address of None \<Rightarrow> None
     | Some e \<Rightarrow> Some (ErrText (''unable to connect to RPC server: '' @ Error e)))"

type_synonym ('s, 'a) rpc_server = "rpc_request \<Rightarrow> 's \<Rightarrow> (go_error + 'a) \<times> 's"

definition run_action ::
  "(string \<Rightarrow> go_error option) \<Rightarrow> ('s, 'a) rpc_server \<Rightarrow> cli_action \<Rightarrow> cli_context \<Rightarrow> 's \<Rightarrow> (go_error + 'a) \<times> 's" where
  "run_action dial server action ctx s = (case getClientConn dial (cx_rpchost ctx) of
     Some e \<Rightarrow> (Inl e, s) | None \<Rightarrow> server (action ctx) s)"

definition missing_flags :: "cli_command \<Rightarrow> cli_context \<Rightarrow> string list" where
  "missing_flags c ctx = map fl_Name (filter (\<lambda>f. fl_Required f \<and> \<not> cx_IsSet ctx (fl_Name f)) (co_Flags c))"

text \<open>\<open>None\<close>: there is no such command, and the library prints its help.\<close>

definition pscli ::
  "(string \<Rightarrow> go_error option) \<Rightarrow> ('s, 'a) rpc_server \<Rightarrow> string \<Rightarrow> cli_context \<Rightarrow> 's \<Rightarrow> ((go_error + 'a) \<times> 's) option" where
  "pscli dial server name ctx s = (case find (\<lambda>c. co_Name c = name) app_Commands of
     None \<Rightarrow> None
   | Some c \<Rightarrow> Some (case missing_flags c ctx of
         [] \<Rightarrow> run_action dial server (co_Action c) ctx s
       | missing \<Rightarrow> (Inl (cx_missing ctx missing), s)))"

section \<open>The server's settings\<close>

datatype settings_answer = PolicyAnswer PolicyMessage | RateAnswer "rpc_PremiumRate option" | NoAnswer

fun settings_server :: "settings_env \<Rightarrow> (settings, settings_answer) rpc_server" where
  "settings_server en (AddPeerRequest p) st = map_prod (map_sum (\<lambda>e. e) PolicyAnswer) (\<lambda>s. s) (rpc_AddPeer en p st)"
| "settings_server en (RemovePeerRequest p) st = map_prod (map_sum (\<lambda>e. e) PolicyAnswer) (\<lambda>s. s) (rpc_RemovePeer en p st)"
| "settings_server en (AddSusPeerRequest p) st = map_prod (map_sum (\<lambda>e. e) PolicyAnswer) (\<lambda>s. s) (rpc_AddSusPeer en p st)"
| "settings_server en (RemoveSusPeerRequest p) st = map_prod (map_sum (\<lambda>e. e) PolicyAnswer) (\<lambda>s. s) (rpc_RemoveSusPeer en p st)"
| "settings_server en (AllowSwapRequestsRequest b) st = map_prod (map_sum (\<lambda>e. e) PolicyAnswer) (\<lambda>s. s) (rpc_AllowSwapRequests en b st)"
| "settings_server en ReloadPolicyFileRequest st = map_prod (map_sum (\<lambda>e. e) PolicyAnswer) (\<lambda>s. s) (rpc_ReloadPolicyFile en st)"
| "settings_server en (GetGlobalPremiumRateRequest a x) st = (map_sum (\<lambda>e. e) (RateAnswer \<circ> Some) (rpc_GetGlobalPremiumRate en a x st), st)"
| "settings_server en (UpdateGlobalPremiumRateRequest r) st =
     map_prod (map_sum (\<lambda>e. e) RateAnswer) (\<lambda>s. s) (rpc_UpdateGlobalPremiumRate en (Some r) st)"
| "settings_server en (GetPremiumRateRequest p a x) st = (map_sum (\<lambda>e. e) (RateAnswer \<circ> Some) (rpc_GetPremiumRate en p a x st), st)"
| "settings_server en (UpdatePremiumRateRequest p r) st = map_prod (map_sum (\<lambda>e. e) RateAnswer) (\<lambda>s. s) (rpc_UpdatePremiumRate en p (Some r) st)"
| "settings_server en (DeletePremiumRateRequest p a x) st =
     map_prod (map_sum (\<lambda>e. e) (RateAnswer \<circ> Some)) (\<lambda>s. s) (rpc_DeletePremiumRate en p a x st)"
| "settings_server en _ st = (Inr NoAnswer, st)"

text \<open>The names of the commands are distinct, so each name runs its own command.\<close>

lemma command_names_distinct: "distinct (map co_Name app_Commands)"
  by (simp add: app_Commands_def command_defs)

lemma find_distinct_key:
  assumes "distinct (map f xs)" "x \<in> set xs"
  shows "find (\<lambda>y. f y = f x) xs = Some x"
  using assms by (induction xs) auto

lemma pscli_runs:
  assumes "c \<in> set app_Commands"
  shows "pscli dial server (co_Name c) ctx s = Some (case missing_flags c ctx of
    [] \<Rightarrow> run_action dial server (co_Action c) ctx s | missing \<Rightarrow> (Inl (cx_missing ctx missing), s))"
  using find_distinct_key [OF command_names_distinct assms] by (simp add: pscli_def)

section \<open>Theorems\<close>

lemma required_flags_missing:
  "missing_flags c ctx = [] \<longleftrightarrow> (\<forall>f \<in> set (co_Flags c). fl_Required f \<longrightarrow> cx_IsSet ctx (fl_Name f))"
  by (auto simp: missing_flags_def filter_empty_conv)

text \<open>A command that fails before its request is sent, for want of a flag or of a connection, changes nothing and reaches no server.\<close>

lemma pscli_no_request:
  assumes "c \<in> set app_Commands"
    and "(\<exists>f \<in> set (co_Flags c). fl_Required f \<and> \<not> cx_IsSet ctx (fl_Name f)) \<or> dial (cx_rpchost ctx) \<noteq> None"
  shows "\<exists>e. pscli dial server (co_Name c) ctx s = Some (Inl e, s)"
proof (cases "missing_flags c ctx")
  case Nil
  then have "\<forall>f \<in> set (co_Flags c). fl_Required f \<longrightarrow> cx_IsSet ctx (fl_Name f)" by (metis required_flags_missing)
  then have "dial (cx_rpchost ctx) \<noteq> None" using assms(2) by blast
  then show ?thesis using Nil by (auto simp: pscli_runs [OF assms(1)] run_action_def getClientConn_def)
next
  case (Cons a as)
  then show ?thesis by (simp add: pscli_runs [OF assms(1)])
qed

lemma premium_commands [simp]:
  "getPeerPremiumRateCommand \<in> set app_Commands" "updatePremiumRateCommand \<in> set app_Commands"
  "deletePeerPremiumRateCommand \<in> set app_Commands" "getGlobalPremiumRateCommand \<in> set app_Commands"
  "updateGlobalPremiumRateCommand \<in> set app_Commands"
  by (simp_all add: app_Commands_def)

text \<open>A command that answers without error has sent its request, and the answer is the server's.\<close>

lemma pscli_answered:
  assumes "c \<in> set app_Commands" "pscli dial server (co_Name c) ctx s = Some (Inr a, s')"
  shows "server (co_Action c ctx) s = (Inr a, s')" and "dial (cx_rpchost ctx) = None"
  using assms(2) by (auto simp: pscli_runs [OF assms(1)] run_action_def getClientConn_def split: list.splits option.splits)

text \<open>
  A rate that \<open>updatepremiumrate\<close> has set, \<open>getpeerpremiumrate\<close> with the same peer, asset and operation prints, as long as no other
  command has changed the rates and its flags are given.
\<close>

theorem cli_rate_read_back:
  assumes update: "pscli dial (settings_server en) ''updatepremiumrate'' ctx st = Some (Inr a, st')"
    and flags: "cx_IsSet ctx' ''node_id''" "cx_IsSet ctx' ''asset''" "cx_IsSet ctx' ''operation''"
    and same: "cx_String ctx' = cx_String ctx" "cx_rpchost ctx' = cx_rpchost ctx"
    and later: "bolt_Begin (se_bolt en) (st_clock st2) = None" "st_premium st2 = st_premium st'"
  shows "a = RateAnswer (Some (flag_rate ctx)) \<and>
    pscli dial (settings_server en) ''getpeerpremiumrate'' ctx' st2 = Some (Inr (RateAnswer (Some (flag_rate ctx))), st2)"
proof -
  have name: "co_Name updatePremiumRateCommand = ''updatepremiumrate''" "co_Name getPeerPremiumRateCommand = ''getpeerpremiumrate''"
    by (simp_all add: command_defs)
  have sent: "settings_server en (cli_updatePremiumRate ctx) st = (Inr a, st')" and dialled: "dial (cx_rpchost ctx) = None"
    using pscli_answered [of updatePremiumRateCommand dial "settings_server en" ctx st a st'] update
    by (simp_all add: name) (simp_all add: updatePremiumRateCommand_def)
  obtain v where v: "rpc_UpdatePremiumRate en (cx_String ctx ''node_id'') (Some (flag_rate ctx)) st = (Inr v, st')" and a: "a = RateAnswer v"
    using sent by (cases "rpc_UpdatePremiumRate en (cx_String ctx ''node_id'') (Some (flag_rate ctx)) st"; cases "fst (rpc_UpdatePremiumRate en (cx_String ctx ''node_id'') (Some (flag_rate ctx)) st)")
      (auto simp: cli_updatePremiumRate_def nodeIdFlag_def)
  from premium_update_read_back [OF v later] have "v = Some (flag_rate ctx)"
    and "rpc_GetPremiumRate en (cx_String ctx ''node_id'') (flag_asset ctx) (flag_operation ctx) st2 = Inr (flag_rate ctx)" by simp_all
  then show ?thesis
    using a dialled flags same
    by (simp add: pscli_runs [of getPeerPremiumRateCommand, simplified name])
      (simp add: missing_flags_def run_action_def getClientConn_def getPeerPremiumRateCommand_def cli_getPeerPremiumRate_def flag_defs)
qed

text \<open>
  A misspelt asset is refused by the commands that set or show a rate, but not by the one that deletes it: it answers as if it had
  deleted a rate, and every rate is as before.
\<close>

theorem cli_misspelt_asset:
  assumes "flag_asset ctx = AssetType_ASSET_UNSPECIFIED" and "st_premium st = Some m"
  shows "(\<exists>e. fst (settings_server en (cli_getPeerPremiumRate ctx) st) = Inl e) \<and>
    (\<exists>e. settings_server en (cli_updatePremiumRate ctx) st = (Inl e, st)) \<and>
    (se_bolt en = bolt_ok \<longrightarrow>
      (\<exists>st'. settings_server en (cli_deletePeerPremiumRate ctx) st =
         (Inr (RateAnswer (Some \<lparr>rp_Asset = AssetType_ASSET_UNSPECIFIED, rp_Operation = flag_operation ctx, rp_PremiumRatePpm = 0\<rparr>)), st') \<and>
       (\<forall>peer asset operation. asset \<noteq> AsserUnspecified \<longrightarrow>
         store_GetRate (se_bolt en) t peer asset operation (st_premium st') = store_GetRate (se_bolt en) t peer asset operation (st_premium st))))"
proof (intro conjI impI)
  show "\<exists>e. fst (settings_server en (cli_getPeerPremiumRate ctx) st) = Inl e"
    using assms by (simp add: cli_getPeerPremiumRate_def rpc_GetPremiumRate_def kind_error_def)
  show "\<exists>e. settings_server en (cli_updatePremiumRate ctx) st = (Inl e, st)"
    using assms by (simp add: cli_updatePremiumRate_def rpc_UpdatePremiumRate_def rate_or_zero_def NewPremiumRate_def)
next
  assume ok: "se_bolt en = bolt_ok"
  let ?k = "premium_key (cx_String ctx (fl_Name nodeIdFlag)) AsserUnspecified (toPremiumOperationType (flag_operation ctx))"
  let ?st = "force_poll en (st_tick 1 (st\<lparr>st_premium := Some (m(?k := None))\<rparr>))"
  have "settings_server en (cli_deletePeerPremiumRate ctx) st =
      (Inr (RateAnswer (Some \<lparr>rp_Asset = AssetType_ASSET_UNSPECIFIED, rp_Operation = flag_operation ctx, rp_PremiumRatePpm = 0\<rparr>)), ?st)"
    using assms ok by (simp add: cli_deletePeerPremiumRate_def rpc_DeletePremiumRate_def write_rates_def store_DeleteRate_def
        db_Update_def bucket_Delete_def)
  moreover have "store_GetRate (se_bolt en) t peer asset operation (st_premium ?st) = store_GetRate (se_bolt en) t peer asset operation (st_premium st)"
    if "asset \<noteq> AsserUnspecified" for peer asset operation
    using that assms(2) by (cases "bolt_Begin (se_bolt en) t") (simp_all add: store_GetRate_def db_View_def)
  ultimately show "\<exists>st'. settings_server en (cli_deletePeerPremiumRate ctx) st =
         (Inr (RateAnswer (Some \<lparr>rp_Asset = AssetType_ASSET_UNSPECIFIED, rp_Operation = flag_operation ctx, rp_PremiumRatePpm = 0\<rparr>)), st') \<and>
       (\<forall>peer asset operation. asset \<noteq> AsserUnspecified \<longrightarrow>
         store_GetRate (se_bolt en) t peer asset operation (st_premium st') = store_GetRate (se_bolt en) t peer asset operation (st_premium st))"
    by blast
qed

end
