(* ===== verification/PS_Config.thy ===== *)
theory PS_Config
  imports PS_Wallets
begin

text \<open>
  Configuration: of the Liquid Wallet Kit (\<open>lwk/config.go\<close>, \<open>lwk/conf_builder.go\<close>, \<open>lwk/validator.go\<close>), of the
  Core Lightning plugin (\<open>clightning/config.go\<close>, \<open>clightning/options.go\<close>) and of the lnd daemon
  (\<open>cmd/peerswaplnd/config.go\<close>).

  Files, the node's answers, the parsers of TOML, ini and command line, the URL parser and the joining of
  paths are parameters.  A dereferenced nil pointer or an index out of range is \<open>None\<close>.
\<close>

section \<open>The Liquid Wallet Kit (\<open>lwk/config.go\<close>)\<close>

record url =
  url_Scheme :: string
  url_Host :: string
  url_String :: string

text \<open>\<open>lc_network\<close> is any text; the constructors \<open>NewlwkNetwork\<close> and \<open>validate\<close> restrict it.\<close>

record lwk_Conf =
  lc_signerName :: string
  lc_walletName :: string
  lc_lwkEndpoint :: "url option"
  lc_electrumEndpoint :: "url option"
  lc_network :: string
  lc_liquidSwaps :: bool

definition NetworkMainnet :: string where "NetworkMainnet = ''liquid''"
definition NetworkTestnet :: string where "NetworkTestnet = ''liquid-testnet''"
definition NetworkRegtest :: string where "NetworkRegtest = ''liquid-regtest''"

definition NewlwkNetwork :: "string \<Rightarrow> go_error + string" where
  "NewlwkNetwork n = (if n = ''liquid'' then Inr NetworkMainnet else if n = ''liquid-testnet'' then Inr NetworkTestnet
     else if n = ''liquid-regtest'' then Inr NetworkRegtest
     else Inl (ErrText (''expected liquid, liquid-testnet or liquid-regtest, got '' @ n)))"

definition LwkNetwork_validate :: "string \<Rightarrow> go_error option" where
  "LwkNetwork_validate n = (if n \<in> {NetworkMainnet, NetworkTestnet, NetworkRegtest} then None else Some (ErrText ''invalid network''))"

definition confname_validate :: "string \<Rightarrow> go_error option" where
  "confname_validate n = (if n = '''' then Some (ErrText ''name must be set'') else None)"

definition lwkurl_validate :: "url option \<Rightarrow> go_error option" where
  "lwkurl_validate u = (case u of
     None \<Rightarrow> Some (ErrText ''url must be set'')
   | Some u \<Rightarrow> if url_String u = '''' then Some (ErrText ''could not parse url'')
       else if url_Scheme u \<noteq> ''http'' \<and> url_Scheme u \<noteq> ''https''
       then Some (ErrText (''expected http or https scheme, got '' @ url_Scheme u)) else None)"

definition electsurl_validate :: "url option \<Rightarrow> go_error option" where
  "electsurl_validate u = (case u of
     None \<Rightarrow> Some (ErrText ''url must be set'')
   | Some u \<Rightarrow> if url_String u = '''' then Some (ErrText ''could not parse url'')
       else if url_Scheme u \<noteq> ''ssl'' \<and> url_Scheme u \<noteq> ''tcp''
       then Some (ErrText (''expected ssl or tcp scheme, got '' @ url_Scheme u)) else None)"

text \<open>The first error in order (\<open>Validate\<close>).\<close>

fun lwk_Validate :: "go_error option list \<Rightarrow> go_error option" where
  "lwk_Validate [] = None"
| "lwk_Validate (e # es) = (case e of Some e \<Rightarrow> Some e | None \<Rightarrow> lwk_Validate es)"

definition Conf_error :: "lwk_Conf \<Rightarrow> go_error option" where
  "Conf_error c = lwk_Validate [electsurl_validate (lc_electrumEndpoint c), lwkurl_validate (lc_lwkEndpoint c),
     LwkNetwork_validate (lc_network c), confname_validate (lc_signerName c), confname_validate (lc_walletName c)]"

definition Conf_Enabled :: "lwk_Conf \<Rightarrow> bool" where
  "Conf_Enabled c \<longleftrightarrow> Conf_error c = None \<and> lc_liquidSwaps c"

definition IsElectrumWithTLS :: "lwk_Conf \<Rightarrow> bool option" where
  "IsElectrumWithTLS c = map_option (\<lambda>u. url_Scheme u = ''ssl'') (lc_electrumEndpoint c)"

text \<open>The builder (\<open>lwk/conf_builder.go\<close>); \<open>parse\<close> is \<open>url.ParseRequestURI\<close>.\<close>

definition NewConfBuilder :: "string \<Rightarrow> lwk_Conf" where
  "NewConfBuilder network = \<lparr>lc_signerName = '''', lc_walletName = '''', lc_lwkEndpoint = None, lc_electrumEndpoint = None,
     lc_network = network, lc_liquidSwaps = False\<rparr>"

definition DefaultConf :: "(string \<Rightarrow> go_error + url) \<Rightarrow> lwk_Conf \<Rightarrow> go_error + lwk_Conf" where
  "DefaultConf parse b =
     (let (lwkEndpoint, electrumEndpoint) =
        (if lc_network b = NetworkTestnet then (''http://localhost:32111'', ''ssl://blockstream.info:465'')
         else if lc_network b = NetworkRegtest then (''http://localhost:32112'', ''tcp://localhost:60401'')
         else (''http://localhost:32110'', ''ssl://blockstream.info:995''))
      in case parse lwkEndpoint of
        Inl e \<Rightarrow> Inl e
      | Inr lwkURL \<Rightarrow> (case parse electrumEndpoint of
          Inl e \<Rightarrow> Inl e
        | Inr elementsURL \<Rightarrow> Inr (b\<lparr>lc_signerName := ''defaultPeerswapSigner'', lc_walletName := ''defaultPeerswapWallet'',
            lc_lwkEndpoint := Some lwkURL, lc_electrumEndpoint := Some elementsURL\<rparr>)))"

definition Build :: "lwk_Conf \<Rightarrow> go_error + lwk_Conf" where
  "Build b = (case Conf_error b of Some e \<Rightarrow> Inl e | None \<Rightarrow> Inr b)"

text \<open>A section of the configuration file: empty texts are absent options.\<close>

record lwk_section =
  ls_SignerName :: string
  ls_WalletName :: string
  ls_LWKEndpoint :: string
  ls_ElectrumEndpoint :: string
  ls_Network :: string
  ls_LiquidSwaps :: "bool option"

definition set_endpoint ::
  "(string \<Rightarrow> go_error + url) \<Rightarrow> string \<Rightarrow> (url \<Rightarrow> lwk_Conf \<Rightarrow> lwk_Conf) \<Rightarrow> lwk_Conf \<Rightarrow> go_error + lwk_Conf" where
  "set_endpoint parse endpoint upd c = (if endpoint = '''' then Inr c
     else (case parse endpoint of Inl e \<Rightarrow> Inl e | Inr u \<Rightarrow> Inr (upd u c)))"

text \<open>The shared part of the two readers, up to the flag that enables swaps.\<close>

definition lwk_from_section :: "(string \<Rightarrow> go_error + url) \<Rightarrow> lwk_section \<Rightarrow> go_error + lwk_Conf" where
  "lwk_from_section parse s =
     (case (if ls_Network s \<noteq> '''' then NewlwkNetwork (ls_Network s) else NewlwkNetwork ''liquid-testnet'') of
        Inl e \<Rightarrow> Inl e
      | Inr lnet \<Rightarrow> (case DefaultConf parse (NewConfBuilder lnet) of
        Inl e \<Rightarrow> Inl e
      | Inr c \<Rightarrow>
          (let c = (if ls_WalletName s \<noteq> '''' then c\<lparr>lc_walletName := ls_WalletName s\<rparr> else c);
               c = (if ls_SignerName s \<noteq> '''' then c\<lparr>lc_signerName := ls_SignerName s\<rparr> else c)
           in case set_endpoint parse (ls_LWKEndpoint s) (\<lambda>u c. c\<lparr>lc_lwkEndpoint := Some u\<rparr>) c of
                Inl e \<Rightarrow> Inl e
              | Inr c \<Rightarrow> set_endpoint parse (ls_ElectrumEndpoint s) (\<lambda>u c. c\<lparr>lc_electrumEndpoint := Some u\<rparr>) c)))"

section \<open>The plugin (\<open>clightning/config.go\<close>)\<close>

record BitcoinConf =
  bc_RpcUser :: string
  bc_RpcPassword :: string
  bc_RpcPasswordFile :: string
  bc_RpcHost :: string
  bc_RpcPort :: u64
  bc_Network :: string
  bc_DataDir :: string
  bc_BitcoinSwaps :: "bool option"

record LiquidConf =
  lq_RpcUser :: string
  lq_RpcPassword :: string
  lq_RpcPasswordFile :: string
  lq_RpcHost :: string
  lq_RpcPort :: u64
  lq_RpcWallet :: string
  lq_Network :: string
  lq_DataDir :: string
  lq_LiquidSwaps :: "bool option"

text \<open>\<open>cfg_stopped\<close>: the plugin was told to stop.\<close>

record Config =
  LightningDir :: string
  PeerswapDir :: string
  DbPath :: string
  PolicyPath :: string
  Bitcoin :: BitcoinConf
  Liquid :: LiquidConf
  LWK :: "lwk_Conf option"
  cfg_stopped :: bool

datatype read_error = NotExist | ReadError go_error

fun read_err :: "read_error \<Rightarrow> go_error" where
  "read_err NotExist = ErrText ''no such file or directory''"
| "read_err (ReadError e) = e"

text \<open>A plugin option: a text, a number, or something else.\<close>

datatype option_value = OptStr string | OptNum f64 | OptOther

record ParsedClnConfig =
  ImportantPlugins :: "(string \<times> (string \<rightharpoonup> option_value)) list"
  Configs :: "(string \<rightharpoonup> string \<times> int) option"

record ClnConfig =
  AllowDeprecatedApis :: bool
  Configs_AllowDeprecatedAPIs :: "bool option"

text \<open>
  \<open>cf_ReadFile\<close> is read at a tick: 0 for the configuration file, 1 for its second reading, 2 and 3 for the cookies.
  \<open>cf_url_Parse\<close> is \<open>url.Parse\<close>; \<open>cf_ListConfigs\<close> and \<open>cf_ListConfigs_apis\<close> are the node's configuration as the two
  processors decode it.
\<close>

record config_env =
  cf_Getwd :: "go_error + string"
  cf_UserHomeDir :: "go_error + string"
  cf_Join :: "string list \<Rightarrow> string"
  cf_GetOption :: "string \<Rightarrow> string"
  cf_ReadFile :: "nat \<Rightarrow> string \<Rightarrow> read_error + string"
  cf_Toml :: "string \<Rightarrow> go_error + BitcoinConf option \<times> LiquidConf option"
  cf_TomlLWK :: "string \<Rightarrow> go_error + lwk_section option"
  cf_ParseRequestURI :: "string \<Rightarrow> go_error + url"
  cf_url_Parse :: "string \<Rightarrow> go_error option"
  cf_GetInfo :: "go_error + string"
  cf_ListConfigs :: "go_error + ParsedClnConfig"
  cf_ListConfigs_apis :: "go_error + ClnConfig"

type_synonym processor = "Config \<Rightarrow> (go_error + Config) option"

definition SetWorkingDir :: "config_env \<Rightarrow> processor" where
  "SetWorkingDir en c = Some (case cf_Getwd en of Inl e \<Rightarrow> Inl e | Inr d \<Rightarrow> Inr (c\<lparr>LightningDir := d\<rparr>))"

definition SetPeerswapPaths :: "config_env \<Rightarrow> processor" where
  "SetPeerswapPaths en c = (let d = cf_Join en [LightningDir c, ''peerswap''] in
     Some (Inr (c\<lparr>PeerswapDir := d, DbPath := cf_Join en [d, ''swaps'']\<rparr>)))"

definition legacyOptions :: "string list" where
  "legacyOptions = [''peerswap-elementsd-rpchost'', ''peerswap-elementsd-rpcport'', ''peerswap-elementsd-rpcuser'',
     ''peerswap-elementsd-rpcpassword'', ''peerswap-elementsd-rpcpasswordfile'', ''peerswap-elementsd-swaps'',
     ''peerswap-elementsd-rpcwallet'', ''peerswap-bitcoin-rpchost'', ''peerswap-bitcoin-rpcport'', ''peerswap-bitcoin-rpcuser'',
     ''peerswap-bitcoin-rpcpassword'', ''peerswap-bitcoin-cookiefilepath'', ''peerswap-policy-path'']"

definition CheckForLegacyClnConfig :: "config_env \<Rightarrow> processor" where
  "CheckForLegacyClnConfig en c = Some (if list_ex (\<lambda>opt. cf_GetOption en opt \<noteq> '''') legacyOptions
     then Inl (ErrText ''illegal use of core lightning config'') else Inr c)"

definition LWKConfigFromToml :: "config_env \<Rightarrow> string \<Rightarrow> (go_error + lwk_Conf option) option" where
  "LWKConfigFromToml en filePath = (case cf_ReadFile en 1 filePath of
     Inl e \<Rightarrow> Some (Inl (read_err e))
   | Inr data \<Rightarrow> (case cf_TomlLWK en data of
     Inl e \<Rightarrow> Some (Inl e)
   | Inr None \<Rightarrow> Some (Inr None)
   | Inr (Some s) \<Rightarrow> (case lwk_from_section (cf_ParseRequestURI en) s of
     Inl e \<Rightarrow> Some (Inl e)
   | Inr c \<Rightarrow> (case ls_LiquidSwaps s of
     None \<Rightarrow> None
   | Some swaps \<Rightarrow> Some (map_sum (\<lambda>e. e) Some (Build (c\<lparr>lc_liquidSwaps := swaps\<rparr>)))))))"

definition read_bitcoin :: "BitcoinConf \<Rightarrow> BitcoinConf \<Rightarrow> BitcoinConf" where
  "read_bitcoin f b = b\<lparr>bc_RpcUser := bc_RpcUser f, bc_RpcPassword := bc_RpcPassword f, bc_RpcPasswordFile := bc_RpcPasswordFile f,
     bc_RpcHost := bc_RpcHost f, bc_RpcPort := bc_RpcPort f, bc_BitcoinSwaps := bc_BitcoinSwaps f\<rparr>"

definition read_liquid :: "LiquidConf \<Rightarrow> LiquidConf \<Rightarrow> LiquidConf" where
  "read_liquid f l = l\<lparr>lq_RpcUser := lq_RpcUser f, lq_RpcPassword := lq_RpcPassword f, lq_RpcPasswordFile := lq_RpcPasswordFile f,
     lq_RpcHost := lq_RpcHost f, lq_RpcPort := lq_RpcPort f, lq_RpcWallet := lq_RpcWallet f, lq_LiquidSwaps := lq_LiquidSwaps f\<rparr>"

definition ReadFromFile :: "config_env \<Rightarrow> processor" where
  "ReadFromFile en c = (let f = cf_Join en [PeerswapDir c, ''peerswap.conf''] in
     case cf_ReadFile en 0 f of
       Inl NotExist \<Rightarrow> Some (Inr c)
     | Inl (ReadError e) \<Rightarrow> Some (Inl e)
     | Inr data \<Rightarrow> (case cf_Toml en data of
         Inl e \<Rightarrow> Some (Inl e)
       | Inr (fb, fl) \<Rightarrow>
           (let c = (case fb of None \<Rightarrow> c | Some b \<Rightarrow> c\<lparr>Bitcoin := read_bitcoin b (Bitcoin c)\<rparr>);
                c = (case fl of None \<Rightarrow> c | Some l \<Rightarrow> c\<lparr>Liquid := read_liquid l (Liquid c)\<rparr>)
            in case LWKConfigFromToml en f of
                 None \<Rightarrow> None
               | Some (Inl e) \<Rightarrow> Some (Inl e)
               | Some (Inr lc) \<Rightarrow> Some (Inr (c\<lparr>LWK := lc\<rparr>)))))"

definition PeerSwapFallback :: "config_env \<Rightarrow> processor" where
  "PeerSwapFallback en c =
     (let c = (if PolicyPath c = '''' then c\<lparr>PolicyPath := cf_Join en [PeerswapDir c, ''policy.conf'']\<rparr> else c)
      in Some (Inr (if lq_RpcWallet (Liquid c) = '''' then c\<lparr>Liquid := (Liquid c)\<lparr>lq_RpcWallet := ''peerswap''\<rparr>\<rparr> else c)))"

definition SetBitcoinNetwork :: "config_env \<Rightarrow> processor" where
  "SetBitcoinNetwork en c = Some (if bc_Network (Bitcoin c) \<noteq> '''' then Inr c
     else (case cf_GetInfo en of
         Inl e \<Rightarrow> Inl e
       | Inr network \<Rightarrow>
           if network = '''' then Inl (ErrText ''could not detect bitcoin network'')
           else Inr (c\<lparr>Bitcoin := (Bitcoin c)\<lparr>bc_Network :=
             (if network = ''bitcoin'' then ''mainnet'' else if network = ''testnet'' then ''testnet3'' else network)\<rparr>\<rparr>)))"

definition isBitcoinConfigEmpty :: "BitcoinConf \<Rightarrow> bool" where
  "isBitcoinConfigEmpty b \<longleftrightarrow> bc_RpcUser b = '''' \<and> bc_RpcPassword b = '''' \<and> bc_RpcPasswordFile b = '''' \<and>
     bc_RpcHost b = '''' \<and> bc_RpcPort b = 0"

definition toString :: "option_value \<Rightarrow> string" where
  "toString v = (case v of OptStr s \<Rightarrow> s | _ \<Rightarrow> '''')"

definition toUint :: "option_value \<Rightarrow> u64" where
  "toUint v = (case v of
     OptStr s \<Rightarrow> (case strconv_Atoi s of Inr port \<Rightarrow> word_of_int port | Inl _ \<Rightarrow> 0)
   | OptNum f \<Rightarrow> word_of_nat (f64_trunc f)
   | OptOther \<Rightarrow> 0)"

text \<open>Each option that is present replaces the value so far.\<close>

definition set_if :: "'v option \<Rightarrow> ('v \<Rightarrow> BitcoinConf \<Rightarrow> BitcoinConf) \<Rightarrow> BitcoinConf \<Rightarrow> BitcoinConf" where
  "set_if v upd b = (case v of None \<Rightarrow> b | Some v \<Rightarrow> upd v b)"

definition applyConfigMap :: "(string \<rightharpoonup> string \<times> int) \<Rightarrow> BitcoinConf \<Rightarrow> BitcoinConf" where
  "applyConfigMap configs b =
     (let b = set_if (configs ''bitcoin-datadir'') (\<lambda>v b. b\<lparr>bc_DataDir := fst v\<rparr>) b;
          b = set_if (configs ''bitcoin-rpcuser'') (\<lambda>v b. b\<lparr>bc_RpcUser := fst v\<rparr>) b;
          b = set_if (configs ''bitcoin-rpcpassword'') (\<lambda>v b. b\<lparr>bc_RpcPassword := fst v\<rparr>) b;
          b = set_if (configs ''bitcoin-rpcconnect'') (\<lambda>v b. b\<lparr>bc_RpcHost := fst v\<rparr>) b
      in set_if (configs ''bitcoin-rpcport'') (\<lambda>v b. b\<lparr>bc_RpcPort := word_of_int (snd v)\<rparr>) b)"

definition applyBcliOptions :: "(string \<rightharpoonup> option_value) \<Rightarrow> BitcoinConf \<Rightarrow> BitcoinConf" where
  "applyBcliOptions options b =
     (let b = set_if (options ''bitcoin-datadir'') (\<lambda>v b. b\<lparr>bc_DataDir := toString v\<rparr>) b;
          b = set_if (options ''bitcoin-rpcuser'') (\<lambda>v b. b\<lparr>bc_RpcUser := toString v\<rparr>) b;
          b = set_if (options ''bitcoin-rpcpassword'') (\<lambda>v b. b\<lparr>bc_RpcPassword := toString v\<rparr>) b;
          b = set_if (options ''bitcoin-rpcconnect'') (\<lambda>v b. b\<lparr>bc_RpcHost := toString v\<rparr>) b
      in set_if (options ''bitcoin-rpcport'') (\<lambda>v b. b\<lparr>bc_RpcPort := toUint v\<rparr>) b)"

definition applyPluginConfig :: "(string \<times> (string \<rightharpoonup> option_value)) list \<Rightarrow> BitcoinConf \<Rightarrow> BitcoinConf" where
  "applyPluginConfig plugins b = fold (\<lambda>(name, options) b. if name = ''bcli'' then applyBcliOptions options b else b) plugins b"

definition updateBitcoinConfig :: "ParsedClnConfig \<Rightarrow> BitcoinConf \<Rightarrow> BitcoinConf" where
  "updateBitcoinConfig parsed b =
     applyPluginConfig (ImportantPlugins parsed) (case Configs parsed of None \<Rightarrow> b | Some configs \<Rightarrow> applyConfigMap configs b)"

definition BitcoinFallbackFromClnConfig :: "config_env \<Rightarrow> processor" where
  "BitcoinFallbackFromClnConfig en c = Some (if isBitcoinConfigEmpty (Bitcoin c)
     then (case cf_ListConfigs en of Inl e \<Rightarrow> Inl e | Inr parsed \<Rightarrow> Inr (c\<lparr>Bitcoin := updateBitcoinConfig parsed (Bitcoin c)\<rparr>))
     else Inr c)"

definition defaultBitcoinRpcPort :: "string \<Rightarrow> u64" where
  "defaultBitcoinRpcPort network = (if network = ''signet'' then 38332 else if network \<in> {''testnet'', ''testnet3''} then 18332
     else if network = ''testnet4'' then 48332 else if network = ''regtest'' then 18443 else 8332)"

definition defaultElementsRpcPort :: "string \<Rightarrow> u64" where
  "defaultElementsRpcPort network = (if network = ''liquidtestnet'' then 7039 else if network = ''regtest'' then 18443 else 7041)"

definition bitcoinNetDir :: "string \<Rightarrow> go_error + string" where
  "bitcoinNetDir network = (if network \<in> {''mainnet'', ''bitcoin''} then Inr '''' else if network = ''signet'' then Inr ''signet''
     else if network \<in> {''testnet3'', ''testnet''} then Inr ''testnet3'' else if network = ''testnet4'' then Inr ''testnet4''
     else if network = ''regtest'' then Inr ''regtest''
     else Inl (ErrText (''can not get network dir for bitcoin network: '' @ network)))"

definition liquidNetDir :: "string \<Rightarrow> go_error + string" where
  "liquidNetDir network = (if network \<in> {''mainnet'', ''bitcoin''} then Inr ''liquidv1''
     else if network \<in> {''testnet4'', ''testnet3'', ''simnet'', ''signet'', ''testnet''} then Inr ''liquidtestnet''
     else if network = ''regtest'' then Inr ''liquidregtest''
     else Inl (ErrText (''can not get liquid network dir for bitcoin network: '' @ network)))"

text \<open>The values an absent option gets; the data directory comes first and may fail.\<close>

definition bitcoin_defaults :: "BitcoinConf \<Rightarrow> BitcoinConf" where
  "bitcoin_defaults b = b\<lparr>
     bc_BitcoinSwaps := (if bc_BitcoinSwaps b = None then Some True else bc_BitcoinSwaps b),
     bc_RpcHost := (if bc_RpcHost b = '''' then ''http://127.0.0.1'' else bc_RpcHost b),
     bc_RpcPort := (if bc_RpcPort b = 0 then defaultBitcoinRpcPort (bc_Network b) else bc_RpcPort b)\<rparr>"

definition liquid_defaults :: "string \<Rightarrow> LiquidConf \<Rightarrow> LiquidConf" where
  "liquid_defaults network l = l\<lparr>
     lq_LiquidSwaps := (if lq_LiquidSwaps l = None then Some True else lq_LiquidSwaps l),
     lq_Network := network,
     lq_RpcHost := (if lq_RpcHost l = '''' then ''http://127.0.0.1'' else lq_RpcHost l),
     lq_RpcPort := (if lq_RpcPort l = 0 then defaultElementsRpcPort network else lq_RpcPort l)\<rparr>"

definition data_dir :: "config_env \<Rightarrow> string \<Rightarrow> string \<Rightarrow> go_error + string" where
  "data_dir en dir sub = (if dir \<noteq> '''' then Inr dir
     else (case cf_UserHomeDir en of Inl e \<Rightarrow> Inl e | Inr home \<Rightarrow> Inr (cf_Join en [home, sub])))"

definition BitcoinFallback :: "config_env \<Rightarrow> processor" where
  "BitcoinFallback en c = Some (case data_dir en (bc_DataDir (Bitcoin c)) ''.bitcoin'' of
     Inl e \<Rightarrow> Inl e
   | Inr dataDir \<Rightarrow>
       (let b = bitcoin_defaults ((Bitcoin c)\<lparr>bc_DataDir := dataDir\<rparr>)
        in if bc_RpcPassword b = '''' \<and> bc_RpcUser b = '''' \<and> bc_RpcPasswordFile b = ''''
           then (case bitcoinNetDir (bc_Network b) of
               Inl e \<Rightarrow> Inl e
             | Inr netdir \<Rightarrow> Inr (c\<lparr>Bitcoin := b\<lparr>bc_RpcPasswordFile := cf_Join en [bc_DataDir b, netdir, ''.cookie'']\<rparr>\<rparr>))
           else Inr (c\<lparr>Bitcoin := b\<rparr>)))"

definition ElementsFallback :: "config_env \<Rightarrow> processor" where
  "ElementsFallback en c = Some (case data_dir en (lq_DataDir (Liquid c)) ''.elements'' of
     Inl e \<Rightarrow> Inl e
   | Inr dataDir \<Rightarrow> (case (if lq_Network (Liquid c) = '''' then liquidNetDir (bc_Network (Bitcoin c)) else Inr (lq_Network (Liquid c))) of
     Inl e \<Rightarrow> Inl e
   | Inr network \<Rightarrow>
       (let l = liquid_defaults network ((Liquid c)\<lparr>lq_DataDir := dataDir\<rparr>)
        in if lq_RpcPassword l = '''' \<and> lq_RpcUser l = '''' \<and> lq_RpcPasswordFile l = ''''
           then (case liquidNetDir (bc_Network (Bitcoin c)) of
               Inl e \<Rightarrow> Inl e
             | Inr netdir \<Rightarrow> Inr (c\<lparr>Liquid := l\<lparr>lq_RpcPasswordFile := cf_Join en [lq_DataDir l, netdir, ''.cookie'']\<rparr>\<rparr>))
           else Inr (c\<lparr>Liquid := l\<rparr>))))"

definition CheckBitcoinRpcIsUrl :: "config_env \<Rightarrow> processor" where
  "CheckBitcoinRpcIsUrl en c =
     (let host = bc_RpcHost (Bitcoin c) in
      Some (case cf_url_Parse en (host @ '':'' @ fmt_u64 (bc_RpcPort (Bitcoin c))) of
        None \<Rightarrow> Inr c
      | Some e \<Rightarrow>
          if strings_Contains (Error e) ''first path segment in URL cannot contain colon'' \<and>
             \<not> strings_HasPrefix host ''http://'' \<and> \<not> strings_HasPrefix host ''https://''
          then Inr (c\<lparr>Bitcoin := (Bitcoin c)\<lparr>bc_RpcHost := ''http://'' @ host\<rparr>\<rparr>) else Inl e))"

text \<open>A cookie that cannot be read leaves user and password empty and is no error.\<close>

definition readCookie :: "config_env \<Rightarrow> nat \<Rightarrow> string \<Rightarrow> string \<times> string \<times> bool" where
  "readCookie en t file_path = (case cf_ReadFile en t file_path of
     Inl _ \<Rightarrow> ('''', '''', False)
   | Inr bytes \<Rightarrow> (case strings_Split CHR '':'' bytes of [user, password] \<Rightarrow> (user, password, True) | _ \<Rightarrow> ('''', '''', False)))"

definition BitcoinCookieConnect :: "config_env \<Rightarrow> processor" where
  "BitcoinCookieConnect en c = (let b = Bitcoin c in
     Some (if bc_RpcUser b = '''' \<and> bc_RpcPassword b = ''''
       then if bc_RpcPasswordFile b = '''' then Inl (ErrText ''no bitcoin rpc configuration found'')
         else (case readCookie en 2 (bc_RpcPasswordFile b) of (user, password, _) \<Rightarrow>
           Inr (c\<lparr>Bitcoin := b\<lparr>bc_RpcUser := user, bc_RpcPassword := password\<rparr>\<rparr>))
       else Inr c))"

text \<open>\<open>!*c.Liquid.LiquidSwaps == false\<close> reads as the flag itself; an unset flag is dereferenced.\<close>

definition ElementsCookieConnect :: "config_env \<Rightarrow> processor" where
  "ElementsCookieConnect en c = (let l = Liquid c in
     if lq_RpcUser l = '''' \<and> lq_RpcPassword l = ''''
     then (case lq_LiquidSwaps l of
         None \<Rightarrow> None
       | Some False \<Rightarrow> Some (Inr c)
       | Some True \<Rightarrow> Some (if lq_RpcPasswordFile l = '''' then Inl (ErrText ''no liquid rpc configuration found'')
           else (case readCookie en 3 (lq_RpcPasswordFile l) of (user, password, _) \<Rightarrow>
             Inr (c\<lparr>Liquid := l\<lparr>lq_RpcUser := user, lq_RpcPassword := password\<rparr>\<rparr>))))
     else Some (Inr c))"

definition ClnConfig_AllowDeprecatedAPIs :: "ClnConfig \<Rightarrow> bool" where
  "ClnConfig_AllowDeprecatedAPIs c = (if AllowDeprecatedApis c then AllowDeprecatedApis c
     else (case Configs_AllowDeprecatedAPIs c of Some b \<Rightarrow> b | None \<Rightarrow> False))"

definition CheckForDeprecatedApiConfig :: "config_env \<Rightarrow> bool \<Rightarrow> processor" where
  "CheckForDeprecatedApiConfig en isDev c = Some (case cf_ListConfigs_apis en of
     Inl e \<Rightarrow> Inl e
   | Inr co \<Rightarrow> Inr (if \<not> ClnConfig_AllowDeprecatedAPIs co \<and> \<not> isDev then c\<lparr>cfg_stopped := True\<rparr> else c))"

text \<open>The pipeline stops at the first error.\<close>

fun Pipeline_Run :: "processor list \<Rightarrow> processor" where
  "Pipeline_Run [] c = Some (Inr c)"
| "Pipeline_Run (p # ps) c = (case p c of None \<Rightarrow> None | Some (Inl e) \<Rightarrow> Some (Inl e) | Some (Inr c) \<Rightarrow> Pipeline_Run ps c)"

definition empty_Config :: Config where
  "empty_Config = \<lparr>LightningDir = '''', PeerswapDir = '''', DbPath = '''', PolicyPath = '''',
     Bitcoin = \<lparr>bc_RpcUser = '''', bc_RpcPassword = '''', bc_RpcPasswordFile = '''', bc_RpcHost = '''', bc_RpcPort = 0,
       bc_Network = '''', bc_DataDir = '''', bc_BitcoinSwaps = None\<rparr>,
     Liquid = \<lparr>lq_RpcUser = '''', lq_RpcPassword = '''', lq_RpcPasswordFile = '''', lq_RpcHost = '''', lq_RpcPort = 0,
       lq_RpcWallet = '''', lq_Network = '''', lq_DataDir = '''', lq_LiquidSwaps = None\<rparr>,
     LWK = None, cfg_stopped = False\<rparr>"

definition GetConfig :: "config_env \<Rightarrow> bool \<Rightarrow> (go_error + Config) option" where
  "GetConfig en isDev = Pipeline_Run [SetWorkingDir en, SetPeerswapPaths en, CheckForLegacyClnConfig en, ReadFromFile en,
     PeerSwapFallback en, BitcoinFallbackFromClnConfig en, SetBitcoinNetwork en, BitcoinFallback en, ElementsFallback en,
     CheckBitcoinRpcIsUrl en, BitcoinCookieConnect en, ElementsCookieConnect en, CheckForDeprecatedApiConfig en isDev] empty_Config"

section \<open>The lnd daemon (\<open>cmd/peerswaplnd/config.go\<close>)\<close>

record OnchainConfig =
  oc_RpcUser :: string
  oc_RpcPassword :: string
  oc_RpcPasswordFile :: string
  oc_RpcCookieFilePath :: string
  oc_RpcHost :: string
  oc_RpcWallet :: string
  oc_LiquidSwaps :: bool

text \<open>\<open>clean\<close> is \<open>filepath.Join\<close> on one path; \<open>missing\<close> is whether the file is missing; \<open>strings.TrimRight(s, "\r\n")\<close> drops trailing carriage returns and line feeds.\<close>

definition trim_eol :: "string \<Rightarrow> string" where
  "trim_eol s = rev (dropWhile (\<lambda>c. c = CHR 0x0D \<or> c = CHR 0x0A) (rev s))"

definition OnchainConfig_Validate ::
  "(string \<Rightarrow> string) \<Rightarrow> (string \<Rightarrow> bool) \<Rightarrow> (string \<Rightarrow> go_error + string) \<Rightarrow> OnchainConfig \<Rightarrow> (go_error + OnchainConfig) option" where
  "OnchainConfig_Validate clean missing readFile o1 =
     (if oc_RpcCookieFilePath o1 = '''' \<and> oc_RpcUser o1 = '''' \<and> oc_RpcHost o1 \<noteq> ''''
      then Some (Inl (ErrText ''either rpcuser or cookie file must be set''))
      else if oc_RpcUser o1 = ''''
      then (if missing (clean (oc_RpcCookieFilePath o1))
            then Some (Inl (ErrText (''cannot find bitcoin cookie file at '' @ clean (oc_RpcCookieFilePath o1))))
            else (case readFile (clean (oc_RpcCookieFilePath o1)) of
                Inl e \<Rightarrow> Some (Inl e)
              | Inr bytes \<Rightarrow> (case strings_Split CHR '':'' bytes of
                  user # password # _ \<Rightarrow> Some (Inr (o1\<lparr>oc_RpcUser := user, oc_RpcPassword := password\<rparr>))
                | _ \<Rightarrow> None)))
      else if oc_RpcPassword o1 \<noteq> '''' \<and> oc_RpcPasswordFile o1 \<noteq> '''' then Some (Inl (ErrText ''rpcpass or rpcpasswordfile must be set''))
      else if oc_RpcPasswordFile o1 \<noteq> '''' then (case readFile (oc_RpcPasswordFile o1) of
          Inl e \<Rightarrow> Some (Inl e) | Inr bytes \<Rightarrow> Some (Inr (o1\<lparr>oc_RpcPassword := trim_eol bytes\<rparr>)))
      else Some (Inr o1))"

record LogRotationConfig =
  lr_MaxSize :: int
  lr_MaxBackups :: int
  lr_MaxAge :: int

definition LogRotationConfig_Validate :: "LogRotationConfig \<Rightarrow> go_error option" where
  "LogRotationConfig_Validate l =
     (if lr_MaxSize l \<le> 0 then Some (ErrText (''logrotation.maxsize must be > 0, got '' @ fmt_int (lr_MaxSize l)))
      else if lr_MaxBackups l < 0 then Some (ErrText (''logrotation.maxbackups must be >= 0, got '' @ fmt_int (lr_MaxBackups l)))
      else if lr_MaxAge l < 0 then Some (ErrText (''logrotation.maxage must be >= 0, got '' @ fmt_int (lr_MaxAge l))) else None)"

record PeerSwapConfig =
  pcfg_RestHost :: string
  pcfg_PolicyFile :: string
  pcfg_DataDir :: string
  pcfg_LogRotation :: LogRotationConfig
  pcfg_Elements :: OnchainConfig
  pcfg_LWK :: "lwk_Conf option"
  pcfg_LiquidEnabled :: bool
  pcfg_BitcoinEnabled :: bool

definition PeerSwapConfig_Validate ::
  "(string \<Rightarrow> string) \<Rightarrow> (string \<Rightarrow> bool) \<Rightarrow> (string \<Rightarrow> go_error + string) \<Rightarrow> PeerSwapConfig \<Rightarrow> (go_error + PeerSwapConfig) option" where
  "PeerSwapConfig_Validate clean missing readFile p = (case LogRotationConfig_Validate (pcfg_LogRotation p) of
     Some e \<Rightarrow> Some (Inl e)
   | None \<Rightarrow>
       if oc_RpcHost (pcfg_Elements p) \<noteq> '''' \<and> oc_LiquidSwaps (pcfg_Elements p)
       then (case OnchainConfig_Validate clean missing readFile (pcfg_Elements p) of
           None \<Rightarrow> None
         | Some (Inl e) \<Rightarrow> Some (Inl e)
         | Some (Inr o1) \<Rightarrow> Some (Inr (p\<lparr>pcfg_Elements := o1, pcfg_LiquidEnabled := True\<rparr>)))
       else (case pcfg_LWK p of
           None \<Rightarrow> None
         | Some lc \<Rightarrow> Some (Inr (if Conf_Enabled lc then p\<lparr>pcfg_LiquidEnabled := True\<rparr> else p))))"

text \<open>The ini reader always has a section; its flag is false when absent.\<close>

definition LWKFromIniFileConfig :: "(string \<Rightarrow> go_error + url) \<Rightarrow> go_error + lwk_section \<Rightarrow> go_error + lwk_Conf" where
  "LWKFromIniFileConfig parse section = (case section of
     Inl e \<Rightarrow> Inl e
   | Inr s \<Rightarrow> (case lwk_from_section parse s of
       Inl e \<Rightarrow> Inl e | Inr c \<Rightarrow> Build (c\<lparr>lc_liquidSwaps := (ls_LiquidSwaps s = Some True)\<rparr>)))"

text \<open>The defaults; \<open>AppDataDir\<close> and \<open>DefaultPolicyFile\<close> are paths below the home directory.\<close>

definition defaultLiquidConfig :: OnchainConfig where
  "defaultLiquidConfig = \<lparr>oc_RpcUser = '''', oc_RpcPassword = '''', oc_RpcPasswordFile = '''', oc_RpcCookieFilePath = '''',
     oc_RpcHost = '''', oc_RpcWallet = ''swap'', oc_LiquidSwaps = True\<rparr>"

definition defaultLogRotationConfig :: LogRotationConfig where
  "defaultLogRotationConfig = \<lparr>lr_MaxSize = 10, lr_MaxBackups = 5, lr_MaxAge = 28\<rparr>"

definition DefaultConfig :: "string \<Rightarrow> string \<Rightarrow> PeerSwapConfig" where
  "DefaultConfig dataDir policyFile = \<lparr>pcfg_RestHost = ''localhost:42070'', pcfg_PolicyFile = policyFile, pcfg_DataDir = dataDir,
     pcfg_LogRotation = defaultLogRotationConfig, pcfg_Elements = defaultLiquidConfig, pcfg_LWK = None, pcfg_LiquidEnabled = False,
     pcfg_BitcoinEnabled = True\<rparr>"

section \<open>What the configured plugin can rely on\<close>

lemma Pipeline_Run_append:
  "Pipeline_Run (ps @ qs) c = (case Pipeline_Run ps c of None \<Rightarrow> None | Some (Inl e) \<Rightarrow> Some (Inl e) | Some (Inr c') \<Rightarrow> Pipeline_Run qs c')"
  by (induction ps arbitrary: c) (auto split: option.split sum.split)

text \<open>
  The contract of a pipeline: what each of its processors keeps, the pipeline keeps; and if no processor can panic from a
  configuration of the kept kind, neither can the pipeline.
\<close>

locale config_stages =
  fixes ps :: "processor list" and P :: "Config \<Rightarrow> bool"
  assumes stage_keeps: "\<And>p c c'. p \<in> set ps \<Longrightarrow> p c = Some (Inr c') \<Longrightarrow> P c \<Longrightarrow> P c'"
begin

lemma run_keeps_suffix:
  "set qs \<subseteq> set ps \<Longrightarrow> Pipeline_Run qs c = Some (Inr c') \<Longrightarrow> P c \<Longrightarrow> P c'"
proof (induction qs arbitrary: c)
  case (Cons q qs)
  then obtain c1 where q: "q c = Some (Inr c1)" and rest: "Pipeline_Run qs c1 = Some (Inr c')"
    by (auto split: option.splits sum.splits)
  have "P c1" using stage_keeps [of q c c1] q Cons.prems by simp
  then show ?case using Cons.IH [OF _ rest] Cons.prems(1) by simp
qed simp

lemma run_keeps: "Pipeline_Run ps c = Some (Inr c') \<Longrightarrow> P c \<Longrightarrow> P c'"
  using run_keeps_suffix [of ps] by simp

lemma run_returns_suffix:
  assumes "\<forall>p\<in>set ps. \<forall>c. P c \<longrightarrow> p c \<noteq> None"
  shows "set qs \<subseteq> set ps \<Longrightarrow> P c \<Longrightarrow> Pipeline_Run qs c \<noteq> None"
proof (induction qs arbitrary: c)
  case (Cons q qs)
  then have "q c \<noteq> None" using assms by simp
  then show ?case using Cons stage_keeps [of q c] by (auto split: option.splits sum.splits)
qed simp

lemma run_returns:
  assumes "\<forall>p\<in>set ps. \<forall>c. P c \<longrightarrow> p c \<noteq> None" and "P c"
  shows "Pipeline_Run ps c \<noteq> None"
  using run_returns_suffix [OF assms(1), of ps c] assms(2) by simp

end

definition bitcoin_ready :: "Config \<Rightarrow> bool" where
  "bitcoin_ready c \<longleftrightarrow> bc_Network (Bitcoin c) \<noteq> '''' \<and> bc_RpcHost (Bitcoin c) \<noteq> '''' \<and> bc_RpcPort (Bitcoin c) \<noteq> 0 \<and>
     bc_BitcoinSwaps (Bitcoin c) \<noteq> None"

definition liquid_ready :: "Config \<Rightarrow> bool" where
  "liquid_ready c \<longleftrightarrow> lq_RpcWallet (Liquid c) \<noteq> '''' \<and> liquidNetDir (bc_Network (Bitcoin c)) = Inr (lq_Network (Liquid c)) \<and>
     lq_RpcHost (Liquid c) \<noteq> '''' \<and> lq_RpcPort (Liquid c) \<noteq> 0 \<and> lq_LiquidSwaps (Liquid c) \<noteq> None"

definition lwk_valid :: "Config \<Rightarrow> bool" where
  "lwk_valid c \<longleftrightarrow> (case LWK c of None \<Rightarrow> True | Some lc \<Rightarrow> Conf_error lc = None)"

lemmas processor_defs = SetWorkingDir_def SetPeerswapPaths_def CheckForLegacyClnConfig_def PeerSwapFallback_def
  BitcoinFallbackFromClnConfig_def SetBitcoinNetwork_def BitcoinFallback_def ElementsFallback_def CheckBitcoinRpcIsUrl_def
  BitcoinCookieConnect_def ElementsCookieConnect_def CheckForDeprecatedApiConfig_def

lemma default_ports_nonzero [simp]: "defaultBitcoinRpcPort n \<noteq> 0" "defaultElementsRpcPort n \<noteq> 0"
  by (simp_all add: defaultBitcoinRpcPort_def defaultElementsRpcPort_def)

lemma LWKConfigFromToml_valid:
  "LWKConfigFromToml en f = Some (Inr (Some lc)) \<Longrightarrow> Conf_error lc = None"
  by (auto simp: LWKConfigFromToml_def Build_def map_sum_def split: sum.splits option.splits)

lemma ReadFromFile_keeps:
  assumes "ReadFromFile en c = Some (Inr c')"
  shows "lq_Network (Liquid c') = lq_Network (Liquid c)" and "lwk_valid c \<Longrightarrow> lwk_valid c'"
  using assms LWKConfigFromToml_valid
  by (fastforce simp: ReadFromFile_def read_liquid_def lwk_valid_def Let_def split: sum.splits read_error.splits option.splits)+

lemma ReadFromFile_panics:
  "ReadFromFile en c = None \<Longrightarrow> \<exists>data s. cf_TomlLWK en data = Inr (Some s) \<and> ls_LiquidSwaps s = None"
  by (auto simp: ReadFromFile_def LWKConfigFromToml_def Let_def split: sum.splits read_error.splits option.splits)

definition first_stages :: "config_env \<Rightarrow> processor list" where
  "first_stages en = [SetWorkingDir en, SetPeerswapPaths en, CheckForLegacyClnConfig en, ReadFromFile en]"

definition last_stages :: "config_env \<Rightarrow> bool \<Rightarrow> processor list" where
  "last_stages en isDev = [CheckBitcoinRpcIsUrl en, BitcoinCookieConnect en, ElementsCookieConnect en, CheckForDeprecatedApiConfig en isDev]"

definition liquid_unset :: "Config \<Rightarrow> bool" where
  "liquid_unset c \<longleftrightarrow> lq_Network (Liquid c) = '''' \<and> lwk_valid c"

definition config_ready :: "Config \<Rightarrow> bool" where
  "config_ready c \<longleftrightarrow> bitcoin_ready c \<and> liquid_ready c \<and> lwk_valid c"

lemma first_stage_keeps:
  "SetWorkingDir en c = Some (Inr c') \<Longrightarrow> liquid_unset c \<Longrightarrow> liquid_unset c'"
  "SetPeerswapPaths en c = Some (Inr c') \<Longrightarrow> liquid_unset c \<Longrightarrow> liquid_unset c'"
  "CheckForLegacyClnConfig en c = Some (Inr c') \<Longrightarrow> liquid_unset c \<Longrightarrow> liquid_unset c'"
  "ReadFromFile en c = Some (Inr c') \<Longrightarrow> liquid_unset c \<Longrightarrow> liquid_unset c'"
  by (auto simp: liquid_unset_def lwk_valid_def SetWorkingDir_def split: sum.splits) []
    (auto simp: liquid_unset_def lwk_valid_def SetPeerswapPaths_def Let_def CheckForLegacyClnConfig_def
      dest: ReadFromFile_keeps split: if_splits)

lemma last_stage_keeps:
  "CheckBitcoinRpcIsUrl en c = Some (Inr c') \<Longrightarrow> config_ready c \<Longrightarrow> config_ready c'"
  "BitcoinCookieConnect en c = Some (Inr c') \<Longrightarrow> config_ready c \<Longrightarrow> config_ready c'"
  "ElementsCookieConnect en c = Some (Inr c') \<Longrightarrow> config_ready c \<Longrightarrow> config_ready c'"
  "CheckForDeprecatedApiConfig en isDev c = Some (Inr c') \<Longrightarrow> config_ready c \<Longrightarrow> config_ready c'"
  subgoal by (auto simp: config_ready_def bitcoin_ready_def liquid_ready_def lwk_valid_def CheckBitcoinRpcIsUrl_def Let_def split: option.splits if_splits)
  subgoal by (auto simp: config_ready_def bitcoin_ready_def liquid_ready_def lwk_valid_def BitcoinCookieConnect_def Let_def split: prod.splits if_splits)
  subgoal by (auto simp: config_ready_def bitcoin_ready_def liquid_ready_def lwk_valid_def ElementsCookieConnect_def Let_def split: prod.splits if_splits option.splits bool.splits)
  subgoal by (auto simp: config_ready_def bitcoin_ready_def liquid_ready_def lwk_valid_def CheckForDeprecatedApiConfig_def split: sum.splits if_splits)
  done

interpretation first: config_stages "first_stages en" liquid_unset for en
  by unfold_locales (auto simp: first_stages_def intro: first_stage_keeps)

interpretation last: config_stages "last_stages en isDev" config_ready for en isDev
  by unfold_locales (auto simp: last_stages_def intro: last_stage_keeps)

lemma PeerSwapFallback_wallet:
  "PeerSwapFallback en c = Some (Inr c') \<Longrightarrow> liquid_unset c \<Longrightarrow> liquid_unset c' \<and> lq_RpcWallet (Liquid c') \<noteq> ''''"
  by (auto simp: PeerSwapFallback_def liquid_unset_def lwk_valid_def Let_def split: if_splits)

lemma SetBitcoinNetwork_sets:
  "SetBitcoinNetwork en c = Some (Inr c') \<Longrightarrow> bc_Network (Bitcoin c') \<noteq> '''' \<and> Liquid c' = Liquid c \<and> LWK c' = LWK c"
  by (auto simp: SetBitcoinNetwork_def split: sum.splits if_splits)

lemma bitcoin_defaults_set [simp]:
  "bc_Network (bitcoin_defaults b) = bc_Network b" "bc_RpcHost (bitcoin_defaults b) \<noteq> ''''"
  "bc_RpcPort (bitcoin_defaults b) \<noteq> 0" "bc_BitcoinSwaps (bitcoin_defaults b) \<noteq> None"
  by (auto simp: bitcoin_defaults_def)

lemma liquid_defaults_set [simp]:
  "lq_Network (liquid_defaults n l) = n" "lq_RpcWallet (liquid_defaults n l) = lq_RpcWallet l"
  "lq_RpcHost (liquid_defaults n l) \<noteq> ''''" "lq_RpcPort (liquid_defaults n l) \<noteq> 0" "lq_LiquidSwaps (liquid_defaults n l) \<noteq> None"
  by (auto simp: liquid_defaults_def)

lemma BitcoinFallback_ready:
  assumes "BitcoinFallback en c = Some (Inr c')" and "bc_Network (Bitcoin c) \<noteq> ''''"
  shows "bitcoin_ready c' \<and> Liquid c' = Liquid c \<and> LWK c' = LWK c"
proof -
  obtain d f where "c' = c\<lparr>Bitcoin := (bitcoin_defaults ((Bitcoin c)\<lparr>bc_DataDir := d\<rparr>))\<lparr>bc_RpcPasswordFile := f\<rparr>\<rparr> \<or>
      c' = c\<lparr>Bitcoin := bitcoin_defaults ((Bitcoin c)\<lparr>bc_DataDir := d\<rparr>)\<rparr>"
    using assms(1) unfolding BitcoinFallback_def Let_def by (auto split: sum.splits if_splits)
  then show ?thesis using assms(2) by (elim disjE) (simp_all add: bitcoin_ready_def del: not_None_eq)
qed

lemma ElementsFallback_ready:
  assumes "ElementsFallback en c = Some (Inr c')" and "lq_Network (Liquid c) = ''''" and "lq_RpcWallet (Liquid c) \<noteq> ''''"
  shows "liquid_ready c' \<and> Bitcoin c' = Bitcoin c \<and> LWK c' = LWK c"
proof -
  obtain d n f where n: "liquidNetDir (bc_Network (Bitcoin c)) = Inr n" and
    "c' = c\<lparr>Liquid := (liquid_defaults n ((Liquid c)\<lparr>lq_DataDir := d\<rparr>))\<lparr>lq_RpcPasswordFile := f\<rparr>\<rparr> \<or>
      c' = c\<lparr>Liquid := liquid_defaults n ((Liquid c)\<lparr>lq_DataDir := d\<rparr>)\<rparr>"
    using assms(1,2) unfolding ElementsFallback_def Let_def by (auto split: sum.splits if_splits)
  then show ?thesis using assms(3) by (elim disjE) (simp_all add: liquid_ready_def del: not_None_eq)
qed

text \<open>The middle of the pipeline fills in what is missing and cannot panic.\<close>

definition middle_stages :: "config_env \<Rightarrow> processor list" where
  "middle_stages en = [PeerSwapFallback en, BitcoinFallbackFromClnConfig en, SetBitcoinNetwork en, BitcoinFallback en, ElementsFallback en]"

lemma GetConfig_stages:
  "GetConfig en isDev = Pipeline_Run (first_stages en @ middle_stages en @ last_stages en isDev) empty_Config"
  by (simp add: GetConfig_def first_stages_def middle_stages_def last_stages_def)

lemma Pipeline_Run_stepE:
  assumes "Pipeline_Run (p # ps) c = Some (Inr c')"
  obtains c1 where "p c = Some (Inr c1)" and "Pipeline_Run ps c1 = Some (Inr c')"
  using assms by (auto split: option.splits sum.splits)

lemma middle_stages_ready:
  assumes run: "Pipeline_Run (middle_stages en) c = Some (Inr c')" and c: "liquid_unset c"
  shows "config_ready c'"
proof -
  obtain c1 c2 c3 c4 where 1: "PeerSwapFallback en c = Some (Inr c1)" and 2: "BitcoinFallbackFromClnConfig en c1 = Some (Inr c2)"
    and 3: "SetBitcoinNetwork en c2 = Some (Inr c3)" and 4: "BitcoinFallback en c3 = Some (Inr c4)"
    and 5: "ElementsFallback en c4 = Some (Inr c')"
    using run unfolding middle_stages_def by (elim Pipeline_Run_stepE) simp
  have c1: "liquid_unset c1 \<and> lq_RpcWallet (Liquid c1) \<noteq> ''''" by (rule PeerSwapFallback_wallet [OF 1 c])
  have "Liquid c2 = Liquid c1 \<and> LWK c2 = LWK c1"
    using 2 by (auto simp: BitcoinFallbackFromClnConfig_def split: sum.splits if_splits)
  then show ?thesis
    using c1 SetBitcoinNetwork_sets [OF 3] BitcoinFallback_ready [OF 4] ElementsFallback_ready [OF 5]
    by (auto simp: config_ready_def liquid_unset_def lwk_valid_def bitcoin_ready_def)
qed

lemma empty_Config_unset [simp]: "liquid_unset empty_Config"
  by (simp add: liquid_unset_def lwk_valid_def empty_Config_def)

interpretation middle: config_stages "middle_stages en" "\<lambda>_. True" for en
  by unfold_locales simp

lemma middle_stages_return: "Pipeline_Run (middle_stages en) c \<noteq> None"
  by (rule middle.run_returns) (auto simp: middle_stages_def processor_defs Let_def)

lemma last_stages_return: "config_ready c \<Longrightarrow> Pipeline_Run (last_stages en isDev) c \<noteq> None"
  by (rule last.run_returns)
    (auto simp: last_stages_def CheckBitcoinRpcIsUrl_def BitcoinCookieConnect_def ElementsCookieConnect_def
      CheckForDeprecatedApiConfig_def Let_def config_ready_def liquid_ready_def split: option.splits bool.splits)

lemma first_stages_panic:
  assumes "Pipeline_Run (first_stages en) c = None" and "liquid_unset c"
  shows "\<exists>data s. cf_TomlLWK en data = Inr (Some s) \<and> ls_LiquidSwaps s = None"
proof (rule ccontr)
  assume "\<not> ?thesis"
  then have "ReadFromFile en c \<noteq> None" for c using ReadFromFile_panics [of en c] by blast
  then have "\<forall>p\<in>set (first_stages en). \<forall>c. liquid_unset c \<longrightarrow> p c \<noteq> None"
    by (auto simp: first_stages_def SetWorkingDir_def SetPeerswapPaths_def CheckForLegacyClnConfig_def Let_def)
  then have "Pipeline_Run (first_stages en) c \<noteq> None"
    using first.run_returns assms(2) by blast
  then show False using assms by simp
qed

lemma last_stages_credentials:
  assumes "Pipeline_Run (last_stages en isDev) c = Some (Inr c')"
  shows "bc_RpcUser (Bitcoin c') \<noteq> '''' \<or> bc_RpcPassword (Bitcoin c') \<noteq> '''' \<or> bc_RpcPasswordFile (Bitcoin c') \<noteq> ''''"
proof -
  obtain c1 c2 c3 where 2: "BitcoinCookieConnect en c1 = Some (Inr c2)" and 3: "ElementsCookieConnect en c2 = Some (Inr c3)"
    and 4: "CheckForDeprecatedApiConfig en isDev c3 = Some (Inr c')"
    using assms unfolding last_stages_def by (elim Pipeline_Run_stepE) simp
  have "bc_RpcUser (Bitcoin c2) \<noteq> '''' \<or> bc_RpcPassword (Bitcoin c2) \<noteq> '''' \<or> bc_RpcPasswordFile (Bitcoin c2) \<noteq> ''''"
    using 2 by (auto simp: BitcoinCookieConnect_def Let_def split: prod.splits if_splits)
  moreover have "Bitcoin c3 = Bitcoin c2"
    using 3 by (auto simp: ElementsCookieConnect_def Let_def split: prod.splits if_splits option.splits bool.splits)
  moreover have "Bitcoin c' = Bitcoin c3"
    using 4 by (auto simp: CheckForDeprecatedApiConfig_def split: sum.splits if_splits)
  ultimately show ?thesis by simp
qed

section \<open>Theorems\<close>

text \<open>
  A configuration that the plugin starts with is complete: the Bitcoin network, host, port and swap flag are set, the Liquid wallet, host,
  port and flag too, the Liquid network is the one of the Bitcoin network (so an unknown network is refused), a Bitcoin user, password
  or cookie path is given, and a section for the Liquid Wallet Kit is valid.
\<close>

theorem plugin_config_complete:
  assumes run: "GetConfig en isDev = Some (Inr c)"
  shows "bitcoin_ready c" and "liquid_ready c" and "lwk_valid c"
    and "bc_RpcUser (Bitcoin c) \<noteq> '''' \<or> bc_RpcPassword (Bitcoin c) \<noteq> '''' \<or> bc_RpcPasswordFile (Bitcoin c) \<noteq> ''''"
proof -
  obtain c1 where 1: "Pipeline_Run (first_stages en) empty_Config = Some (Inr c1)"
    and r1: "Pipeline_Run (middle_stages en @ last_stages en isDev) c1 = Some (Inr c)"
    using run by (auto simp: GetConfig_stages Pipeline_Run_append [of "first_stages en"] split: option.splits sum.splits)
  obtain c2 where 2: "Pipeline_Run (middle_stages en) c1 = Some (Inr c2)" and 3: "Pipeline_Run (last_stages en isDev) c2 = Some (Inr c)"
    using r1 by (auto simp: Pipeline_Run_append split: option.splits sum.splits)
  have "config_ready c"
    using first.run_keeps [OF 1] middle_stages_ready [OF 2] last.run_keeps [OF 3] by simp
  then show "bitcoin_ready c" "liquid_ready c" "lwk_valid c" by (simp_all add: config_ready_def)
  show "bc_RpcUser (Bitcoin c) \<noteq> '''' \<or> bc_RpcPassword (Bitcoin c) \<noteq> '''' \<or> bc_RpcPasswordFile (Bitcoin c) \<noteq> ''''"
    by (rule last_stages_credentials [OF 3])
qed

text \<open>The plugin's configuration panics only for a section of the Liquid Wallet Kit without its flag.\<close>

theorem plugin_config_panics_only:
  assumes "GetConfig en isDev = None"
  shows "\<exists>data s. cf_TomlLWK en data = Inr (Some s) \<and> ls_LiquidSwaps s = None"
proof (cases "Pipeline_Run (first_stages en) empty_Config")
  case None
  then show ?thesis using first_stages_panic by simp
next
  case (Some r)
  then obtain c1 where 1: "Pipeline_Run (first_stages en) empty_Config = Some (Inr c1)"
    and r1: "Pipeline_Run (middle_stages en @ last_stages en isDev) c1 = None"
    using assms by (cases r) (simp_all add: GetConfig_stages Pipeline_Run_append [of "first_stages en"])
  have "liquid_unset c1" using first.run_keeps [OF 1] by simp
  then have "Pipeline_Run (middle_stages en @ last_stages en isDev) c1 \<noteq> None"
    using middle_stages_return [of en c1] middle_stages_ready [of en c1] last_stages_return [of _ en isDev]
    by (auto simp: Pipeline_Run_append split: sum.split option.splits)
  then show ?thesis using r1 by simp
qed

text \<open>On regtest the Elements port falls back to the port of mainnet, 7041: the network is called \<open>liquidregtest\<close> there and not \<open>regtest\<close>.\<close>

lemma regtest_elements_port:
  assumes "ElementsFallback en c = Some (Inr c')" and "bc_Network (Bitcoin c) = ''regtest''"
    and "lq_Network (Liquid c) = ''''" and "lq_RpcPort (Liquid c) = 0"
  shows "lq_RpcPort (Liquid c') = 7041"
  using assms by (auto simp: ElementsFallback_def liquidNetDir_def liquid_defaults_def defaultElementsRpcPort_def Let_def
      split: sum.splits if_splits)

text \<open>With a user and neither a password nor a password file the lnd daemon accepts the configuration; with both it does not.\<close>

lemma onchain_password_checks:
  assumes "oc_RpcUser o1 \<noteq> ''''"
  shows "oc_RpcPassword o1 = '''' \<Longrightarrow> oc_RpcPasswordFile o1 = '''' \<Longrightarrow> OnchainConfig_Validate clean missing readFile o1 = Some (Inr o1)"
    and "oc_RpcPassword o1 \<noteq> '''' \<Longrightarrow> oc_RpcPasswordFile o1 \<noteq> '''' \<Longrightarrow>
      OnchainConfig_Validate clean missing readFile o1 = Some (Inl (ErrText ''rpcpass or rpcpasswordfile must be set''))"
  using assms by (simp_all add: OnchainConfig_Validate_def)

text \<open>A cookie file without a colon panics in the lnd daemon and is ignored by the plugin.\<close>

lemma malformed_cookie:
  assumes "strings_Split CHR '':'' bytes = [bytes]"
  shows "oc_RpcUser o1 = '''' \<Longrightarrow> oc_RpcCookieFilePath o1 \<noteq> '''' \<Longrightarrow>
      OnchainConfig_Validate (\<lambda>p. p) (\<lambda>_. False) (\<lambda>_. Inr bytes) o1 = None"
    and "cf_ReadFile en t p = Inr bytes \<Longrightarrow> readCookie en t p = ('''', '''', False)"
  using assms by (simp_all add: OnchainConfig_Validate_def readCookie_def)

end
