(* ===== verification/PS_Bus.thy ===== *)
theory PS_Bus
  imports PS_PeerSync "HOL-Library.Multiset" "HOL-Library.Sublist"
begin

text \<open>
  How capability messages reach the handler: the message bus (\<open>peersync/message_bus.go\<close>) with its bounded
  channels, the stream of lnd behind it (\<open>peersync/lightning_adapter.go\<close>) and the loop that handles the
  messages (\<open>peersync/message_handler.go\<close>), as steps of goroutines that interleave: publishing takes a copy
  of the subscribers under the lock and sends to them afterwards, one channel at a time.

  A channel is known by its number.  A send on a closed channel panics; \<open>None\<close> is that panic.
\<close>

section \<open>The message bus (\<open>peersync/message_bus.go\<close>)\<close>

type_synonym custom_message = "string \<times> MessageType \<times> byte list"

record channel =
  ch_buf :: "custom_message list"
  ch_closed :: bool

record messageBus =
  mb_chans :: "channel list"
  mb_subscribers :: "nat list"

definition newMessageBus :: messageBus where
  "newMessageBus = \<lparr>mb_chans = [], mb_subscribers = []\<rparr>"

definition bus_capacity :: nat where "bus_capacity = 8"

definition bus_subscribe :: "messageBus \<Rightarrow> nat \<times> messageBus" where
  "bus_subscribe b = (let ch = length (mb_chans b) in
     (ch, b\<lparr>mb_chans := mb_chans b @ [\<lparr>ch_buf = [], ch_closed = False\<rparr>], mb_subscribers := mb_subscribers b @ [ch]\<rparr>))"

definition bus_remove :: "nat \<Rightarrow> messageBus \<Rightarrow> messageBus" where
  "bus_remove ch b = (if ch \<in> set (mb_subscribers b)
     then b\<lparr>mb_subscribers := removeAll ch (mb_subscribers b), mb_chans := (mb_chans b)[ch := (mb_chans b ! ch)\<lparr>ch_closed := True\<rparr>]\<rparr>
     else b)"

text \<open>\<open>select\<close> with the send and an empty default.\<close>

definition chan_send :: "nat \<Rightarrow> custom_message \<Rightarrow> messageBus \<Rightarrow> messageBus option" where
  "chan_send ch m b = (let c = mb_chans b ! ch in
     if ch_closed c then None
     else if length (ch_buf c) < bus_capacity then Some (b\<lparr>mb_chans := (mb_chans b)[ch := c\<lparr>ch_buf := ch_buf c @ [m]\<rparr>]\<rparr>)
     else Some b)"

fun publish_to :: "nat list \<Rightarrow> custom_message \<Rightarrow> messageBus \<Rightarrow> messageBus option" where
  "publish_to [] m b = Some b"
| "publish_to (ch # chs) m b = (case chan_send ch m b of None \<Rightarrow> None | Some b \<Rightarrow> publish_to chs m b)"

text \<open>Publishing with no other goroutine in between; Go visits the subscribers in an order of its own.\<close>

definition bus_publish :: "(nat list \<Rightarrow> nat list) \<Rightarrow> custom_message \<Rightarrow> messageBus \<Rightarrow> messageBus option" where
  "bus_publish order m b = publish_to (order (mb_subscribers b)) m b"

definition chan_take :: "nat \<Rightarrow> messageBus \<Rightarrow> messageBus" where
  "chan_take ch b = b\<lparr>mb_chans := (mb_chans b)[ch := (mb_chans b ! ch)\<lparr>ch_buf := tl (ch_buf (mb_chans b ! ch))\<rparr>]\<rparr>"

section \<open>The goroutines\<close>

text \<open>
  \<open>bs_publishing\<close> holds the calls of \<open>publish\<close> that have released the lock, each with the channels it still has
  to send to.  \<open>bs_published\<close> and \<open>bs_received\<close> record what was published and what each handler took.
\<close>

record bus_state =
  bs_bus :: messageBus
  bs_publishing :: "(custom_message \<times> nat list) list"
  bs_published :: "custom_message list"
  bs_received :: "nat \<Rightarrow> custom_message list"
  bs_panicked :: bool

definition fresh_bus :: bus_state where
  "fresh_bus = \<lparr>bs_bus = newMessageBus, bs_publishing = [], bs_published = [], bs_received = (\<lambda>_. []), bs_panicked = False\<rparr>"

inductive bus_step :: "bus_state \<Rightarrow> bus_state \<Rightarrow> bool" where
  subscribing: "\<not> bs_panicked s \<Longrightarrow> bus_step s (s\<lparr>bs_bus := snd (bus_subscribe (bs_bus s))\<rparr>)"
| removing: "\<not> bs_panicked s \<Longrightarrow> bus_step s (s\<lparr>bs_bus := bus_remove ch (bs_bus s)\<rparr>)"
| copying: "\<not> bs_panicked s \<Longrightarrow> mset chs = mset (mb_subscribers (bs_bus s)) \<Longrightarrow>
    bus_step s (s\<lparr>bs_publishing := bs_publishing s @ [(m, chs)], bs_published := bs_published s @ [m]\<rparr>)"
| sending: "\<not> bs_panicked s \<Longrightarrow> bs_publishing s = ps @ (m, ch # chs) # qs \<Longrightarrow> chan_send ch m (bs_bus s) = Some b \<Longrightarrow>
    bus_step s (s\<lparr>bs_bus := b, bs_publishing := ps @ (m, chs) # qs\<rparr>)"
| panicking: "\<not> bs_panicked s \<Longrightarrow> bs_publishing s = ps @ (m, ch # chs) # qs \<Longrightarrow> chan_send ch m (bs_bus s) = None \<Longrightarrow>
    bus_step s (s\<lparr>bs_panicked := True\<rparr>)"
| receiving: "\<not> bs_panicked s \<Longrightarrow> ch < length (mb_chans (bs_bus s)) \<Longrightarrow> ch_buf (mb_chans (bs_bus s) ! ch) = m # ms \<Longrightarrow>
    bus_step s (s\<lparr>bs_bus := chan_take ch (bs_bus s), bs_received := (bs_received s)(ch := bs_received s ch @ [m])\<rparr>)"

inductive_cases bus_stepE: "bus_step s s'"

section \<open>What holds of a channel\<close>

definition buffered :: "bus_state \<Rightarrow> nat \<Rightarrow> custom_message list" where
  "buffered s ch = (if ch < length (mb_chans (bs_bus s)) then ch_buf (mb_chans (bs_bus s) ! ch) else [])"

text \<open>The messages whose publication has still to reach the channel.\<close>

definition under_way :: "(custom_message \<times> nat list) list \<Rightarrow> nat \<Rightarrow> custom_message list" where
  "under_way ps ch = map fst (filter (\<lambda>(m, chs). ch \<in> set chs) ps)"

lemma under_way_simps [simp]:
  "under_way [] ch = []" "under_way (ps @ qs) ch = under_way ps ch @ under_way qs ch"
  "under_way ((m, chs) # ps) ch = (if ch \<in> set chs then m # under_way ps ch else under_way ps ch)"
  by (simp_all add: under_way_def)

definition bus_wf :: "bus_state \<Rightarrow> bool" where
  "bus_wf s \<longleftrightarrow> distinct (mb_subscribers (bs_bus s)) \<and>
     (\<forall>ch \<in> set (mb_subscribers (bs_bus s)). ch < length (mb_chans (bs_bus s)) \<and> \<not> ch_closed (mb_chans (bs_bus s) ! ch)) \<and>
     (\<forall>(m, chs) \<in> set (bs_publishing s). distinct chs \<and> (\<forall>ch \<in> set chs. ch < length (mb_chans (bs_bus s)))) \<and>
     (\<forall>c \<in> set (mb_chans (bs_bus s)). length (ch_buf c) \<le> bus_capacity)"

lemma wf_subscribing: "bus_wf s \<Longrightarrow> bus_wf (s\<lparr>bs_bus := snd (bus_subscribe (bs_bus s))\<rparr>)"
  by (fastforce simp: bus_wf_def bus_subscribe_def Let_def nth_append split: prod.splits)

lemma wf_removing: "bus_wf s \<Longrightarrow> bus_wf (s\<lparr>bs_bus := bus_remove ch (bs_bus s)\<rparr>)"
proof -
  assume wf: "bus_wf s"
  have "length (ch_buf c) \<le> bus_capacity"
    if "ch \<in> set (mb_subscribers (bs_bus s))" "c \<in> set ((mb_chans (bs_bus s))[ch := (mb_chans (bs_bus s) ! ch)\<lparr>ch_closed := True\<rparr>])" for c
    using wf that by (auto simp: bus_wf_def dest!: set_update_subset_insert [THEN subsetD])
  then show ?thesis using wf by (auto simp: bus_wf_def bus_remove_def nth_list_update distinct_removeAll)
qed

lemma wf_copying:
  assumes "bus_wf s" "mset chs = mset (mb_subscribers (bs_bus s))"
  shows "bus_wf (s\<lparr>bs_publishing := bs_publishing s @ [(m, chs)], bs_published := p\<rparr>)"
proof -
  have "set chs = set (mb_subscribers (bs_bus s))" "distinct chs = distinct (mb_subscribers (bs_bus s))"
    using assms(2) by (metis set_mset_mset, metis mset_eq_imp_distinct_iff)
  then show ?thesis using assms(1) by (auto simp: bus_wf_def)
qed

lemma wf_sending:
  assumes "bus_wf s" "bs_publishing s = ps @ (m, ch # chs) # qs" "chan_send ch m (bs_bus s) = Some b"
  shows "bus_wf (s\<lparr>bs_bus := b, bs_publishing := ps @ (m, chs) # qs\<rparr>)"
proof -
  have ch: "ch < length (mb_chans (bs_bus s))" using assms(1,2) by (auto simp: bus_wf_def)
  have "mb_subscribers b = mb_subscribers (bs_bus s)" "length (mb_chans b) = length (mb_chans (bs_bus s))"
    "ch_closed (mb_chans b ! c) = ch_closed (mb_chans (bs_bus s) ! c)" for c
    using assms(3) ch by (auto simp: chan_send_def Let_def nth_list_update split: if_splits)
  moreover have "length (ch_buf c) \<le> bus_capacity" if "c \<in> set (mb_chans b)" for c
    using assms(1,3) that by (auto simp: bus_wf_def chan_send_def Let_def split: if_splits dest!: set_update_subset_insert [THEN subsetD])
  ultimately show ?thesis using assms(1,2) by (auto simp: bus_wf_def)
qed

lemma wf_receiving:
  assumes "bus_wf s" "ch < length (mb_chans (bs_bus s))"
  shows "bus_wf (s\<lparr>bs_bus := chan_take ch (bs_bus s), bs_received := r\<rparr>)"
proof -
  have "length (ch_buf (mb_chans (bs_bus s) ! ch)) \<le> bus_capacity" using assms by (simp add: bus_wf_def)
  then have "length (ch_buf (mb_chans (bs_bus s) ! ch)) - Suc 0 \<le> bus_capacity" by simp
  then have "length (ch_buf c) \<le> bus_capacity" if "c \<in> set (mb_chans (chan_take ch (bs_bus s)))" for c
    using assms that by (auto simp: bus_wf_def chan_take_def dest!: set_update_subset_insert [THEN subsetD])
  then show ?thesis using assms by (auto simp: bus_wf_def chan_take_def nth_list_update)
qed

lemma bus_step_wf: "bus_step s s' \<Longrightarrow> bus_wf s \<Longrightarrow> bus_wf s'"
  by (induction rule: bus_step.induct)
    (simp_all add: wf_subscribing wf_removing wf_copying wf_sending wf_receiving, simp add: bus_wf_def)

lemma buffered_subscribing [simp]: "buffered (s\<lparr>bs_bus := snd (bus_subscribe (bs_bus s))\<rparr>) ch = buffered s ch"
  by (auto simp: buffered_def bus_subscribe_def Let_def nth_append)

lemma buffered_removing [simp]: "buffered (s\<lparr>bs_bus := bus_remove c (bs_bus s)\<rparr>) ch = buffered s ch"
  by (cases "c = ch") (auto simp: buffered_def bus_remove_def)

lemma buffered_other [simp]:
  "buffered (s\<lparr>bs_publishing := ps\<rparr>) = buffered s" "buffered (s\<lparr>bs_published := pd\<rparr>) = buffered s"
  "buffered (s\<lparr>bs_received := r\<rparr>) = buffered s" "buffered (s\<lparr>bs_panicked := p\<rparr>) = buffered s"
  by (simp_all add: buffered_def fun_eq_iff)

lemma buffered_sending:
  assumes "chan_send ch m (bs_bus s) = Some b" "ch < length (mb_chans (bs_bus s))"
  shows "buffered (s\<lparr>bs_bus := b\<rparr>) c =
    (if c = ch \<and> length (buffered s ch) < bus_capacity then buffered s ch @ [m] else buffered s c)"
  using assms by (auto simp: buffered_def chan_send_def Let_def nth_list_update split: if_splits)

lemma buffered_receiving:
  assumes "ch < length (mb_chans (bs_bus s))"
  shows "buffered (s\<lparr>bs_bus := chan_take ch (bs_bus s)\<rparr>) c = (if c = ch then tl (buffered s ch) else buffered s c)"
  using assms by (auto simp: buffered_def chan_take_def nth_list_update)

lemma receive_line:
  assumes "ch < length (mb_chans (bs_bus s))" "ch_buf (mb_chans (bs_bus s) ! ch) = m # ms"
  shows "((bs_received s)(ch := bs_received s ch @ [m])) c @ buffered (s\<lparr>bs_bus := chan_take ch (bs_bus s)\<rparr>) c @ xs =
    bs_received s c @ buffered s c @ xs"
proof -
  have "buffered s ch = m # ms" using assms by (simp add: buffered_def)
  then show ?thesis using buffered_receiving [OF assms(1)] by simp
qed

lemma publishing_in_range:
  assumes "bus_wf s" "bs_publishing s = ps @ (m, ch # chs) # qs"
  shows "ch < length (mb_chans (bs_bus s)) \<and> ch \<notin> set chs"
  using assms by (auto simp: bus_wf_def)


text \<open>Every copy of a message in a channel comes from a publication of its own.\<close>

definition accounted :: "bus_state \<Rightarrow> bool" where
  "accounted s \<longleftrightarrow> (\<forall>ch. mset (bs_received s ch @ buffered s ch @ under_way (bs_publishing s) ch) \<subseteq># mset (bs_published s))"

lemma bus_step_accounted:
  assumes "bus_step s s'" "bus_wf s" "accounted s"
  shows "accounted s'"
  using assms
proof (induction rule: bus_step.induct)
  case (copying s chs m)
  then show ?case by (auto simp: accounted_def add.assoc intro: subset_mset.order_trans)
next
  case (sending s ps m ch chs qs b)
  note range = publishing_in_range [OF sending.prems(1) sending.hyps(2)]
  have *: "mset (bs_received s c @ buffered (s\<lparr>bs_bus := b, bs_publishing := ps @ (m, chs) # qs\<rparr>) c @ under_way (ps @ (m, chs) # qs) c)
      \<subseteq># mset (bs_received s c @ buffered s c @ under_way (ps @ (m, ch # chs) # qs) c)" for c
    using range by (auto simp: buffered_sending [OF sending.hyps(3)])
  have "mset (bs_received s c @ buffered s c @ under_way (ps @ (m, ch # chs) # qs) c) \<subseteq># mset (bs_published s)" for c
    using sending.prems(2) unfolding accounted_def sending.hyps(2) by blast
  from subset_mset.order_trans [OF * this] show ?case by (simp add: accounted_def del: under_way_simps mset_append)
next
  case (receiving s ch m ms)
  then show ?case by (simp add: accounted_def receive_line del: fun_upd_apply mset_append)
qed (simp_all add: accounted_def)

text \<open>
  One publisher at a time, as the single goroutine that reads lnd's stream: a publication starts when the
  previous ones have returned.
\<close>

definition returned :: "bus_state \<Rightarrow> bool" where
  "returned s \<longleftrightarrow> list_all (\<lambda>(m, chs). chs = []) (bs_publishing s)"

definition solo_step :: "bus_state \<Rightarrow> bus_state \<Rightarrow> bool" where
  "solo_step s s' \<longleftrightarrow> bus_step s s' \<and> (bs_published s' = bs_published s \<or> returned s)"

definition unfinished :: "(custom_message \<times> nat list) list \<Rightarrow> nat" where
  "unfinished ps = length (filter (\<lambda>(m, chs). chs \<noteq> []) ps)"

definition in_order :: "bus_state \<Rightarrow> bool" where
  "in_order s \<longleftrightarrow> unfinished (bs_publishing s) \<le> 1 \<and>
     (\<forall>ch. subseq (bs_received s ch @ buffered s ch @ under_way (bs_publishing s) ch) (bs_published s))"

lemma unfinished_simps [simp]:
  "unfinished [] = 0" "unfinished (ps @ qs) = unfinished ps + unfinished qs"
  "unfinished ((m, chs) # ps) = (if chs = [] then 0 else 1) + unfinished ps"
  by (simp_all add: unfinished_def)

lemma no_unfinished_under_way: "unfinished ps = 0 \<Longrightarrow> under_way ps ch = []"
  by (induction ps) (auto split: if_splits)

lemma returned_unfinished: "returned s \<longleftrightarrow> unfinished (bs_publishing s) = 0"
  by (auto simp: returned_def unfinished_def list_all_iff filter_empty_conv)

lemma solo_step_in_order:
  assumes "solo_step s s'" "bus_wf s" "in_order s"
  shows "in_order s'"
proof -
  have step: "bus_step s s'" and solo: "bs_published s' = bs_published s \<or> returned s"
    using assms(1) by (auto simp: solo_step_def)
  from step assms(2,3) solo show ?thesis
  proof (induction rule: bus_step.induct)
    case (copying s chs m)
    then have none: "unfinished (bs_publishing s) = 0" by (simp add: returned_unfinished)
    have "subseq (bs_received s ch @ buffered s ch) (bs_published s)" for ch
      using copying.prems(2) no_unfinished_under_way [OF none] by (simp add: in_order_def)
    then have "subseq ((bs_received s ch @ buffered s ch) @ under_way (bs_publishing s @ [(m, chs)]) ch) (bs_published s @ [m])" for ch
      using no_unfinished_under_way [OF none] by (intro list_emb_append_mono) auto
    then show ?case using none by (simp add: in_order_def del: under_way_simps)
  next
    case (sending s ps m ch chs qs b)
    note range = publishing_in_range [OF sending.prems(1) sending.hyps(2)]
    have alone: "unfinished ps = 0" "unfinished qs = 0"
      using sending.prems(2) sending.hyps(2) by (auto simp: in_order_def)
    have *: "subseq (buffered (s\<lparr>bs_bus := b, bs_publishing := ps @ (m, chs) # qs\<rparr>) c @ under_way (ps @ (m, chs) # qs) c)
        (buffered s c @ under_way (ps @ (m, ch # chs) # qs) c)" for c
      using range no_unfinished_under_way [OF alone(1)] no_unfinished_under_way [OF alone(2)]
      by (auto simp: buffered_sending [OF sending.hyps(3)])
    have "subseq (bs_received s c @ buffered s c @ under_way (ps @ (m, ch # chs) # qs) c) (bs_published s)" for c
      using sending.prems(2) unfolding in_order_def sending.hyps(2) by blast
    from subseq_order.order_trans [OF list_emb_append_mono [OF subseq_order.order_refl *] this] show ?case
      using alone by (simp add: in_order_def del: under_way_simps)
  next
    case (receiving s ch m ms)
    then show ?case by (simp add: in_order_def receive_line del: fun_upd_apply)
  qed (simp_all add: in_order_def)
qed

text \<open>A channel is taken off the bus only while no publication is on its way to it.\<close>

definition quiet_step :: "bus_state \<Rightarrow> bus_state \<Rightarrow> bool" where
  "quiet_step s s' \<longleftrightarrow> bus_step s s' \<and>
     (\<forall>ch \<in> set (mb_subscribers (bs_bus s)) - set (mb_subscribers (bs_bus s')). under_way (bs_publishing s) ch = [])"

definition targets_open :: "bus_state \<Rightarrow> bool" where
  "targets_open s \<longleftrightarrow> \<not> bs_panicked s \<and> (\<forall>(m, chs) \<in> set (bs_publishing s). set chs \<subseteq> set (mb_subscribers (bs_bus s)))"

lemma under_way_Nil: "under_way ps ch = [] \<longleftrightarrow> (\<forall>(m, chs) \<in> set ps. ch \<notin> set chs)"
  by (auto simp: under_way_def filter_empty_conv)

lemma quiet_step_open:
  assumes "quiet_step s s'" "bus_wf s" "targets_open s"
  shows "targets_open s'"
proof -
  have step: "bus_step s s'" and quiet: "\<forall>ch \<in> set (mb_subscribers (bs_bus s)) - set (mb_subscribers (bs_bus s')). under_way (bs_publishing s) ch = []"
    using assms(1) by (auto simp: quiet_step_def)
  from step assms(2,3) quiet show ?thesis
  proof (induction rule: bus_step.induct)
    case (subscribing s)
    then show ?case by (fastforce simp: targets_open_def bus_subscribe_def Let_def)
  next
    case (removing s ch)
    then show ?case by (fastforce simp: targets_open_def bus_remove_def under_way_Nil split: if_splits)
  next
    case (copying s chs m)
    then have "set chs = set (mb_subscribers (bs_bus s))" by (metis set_mset_mset)
    then show ?case using copying.prems(2) by (auto simp: targets_open_def)
  next
    case (sending s ps m ch chs qs b)
    have "mb_subscribers b = mb_subscribers (bs_bus s)"
      using sending.hyps(3) by (auto simp: chan_send_def Let_def split: if_splits)
    then show ?case using sending.prems(2) sending.hyps(2) by (auto simp: targets_open_def)
  next
    case (panicking s ps m ch chs qs)
    then have "ch \<in> set (mb_subscribers (bs_bus s))" by (auto simp: targets_open_def)
    then have "\<not> ch_closed (mb_chans (bs_bus s) ! ch)" using panicking.prems(1) by (auto simp: bus_wf_def)
    then show ?case using panicking.hyps(3) by (auto simp: chan_send_def Let_def split: if_splits)
  next
    case (receiving s ch m ms)
    then show ?case by (simp add: targets_open_def chan_take_def)
  qed
qed

text \<open>
  The contract of a run of goroutines: a step relation within the steps of the bus, and what each step keeps of a
  well-formed bus.
\<close>

locale bus_run =
  fixes step :: "bus_state \<Rightarrow> bus_state \<Rightarrow> bool" and P :: "bus_state \<Rightarrow> bool"
  assumes within: "\<And>s s'. step s s' \<Longrightarrow> bus_step s s'"
    and keeps: "\<And>s s'. step s s' \<Longrightarrow> bus_wf s \<Longrightarrow> P s \<Longrightarrow> P s'"
    and starts: "P fresh_bus"
begin

lemma reachable: "step\<^sup>*\<^sup>* fresh_bus s \<Longrightarrow> bus_wf s \<and> P s"
proof (induction rule: rtranclp_induct)
  case base
  then show ?case using starts by (simp add: bus_wf_def fresh_bus_def newMessageBus_def)
next
  case (step s s')
  then show ?case using bus_step_wf [OF within] keeps by blast
qed

end

lemma fresh_bus_ok [simp]: "accounted fresh_bus" "in_order fresh_bus" "targets_open fresh_bus"
  by (simp_all add: accounted_def in_order_def targets_open_def fresh_bus_def newMessageBus_def buffered_def)

lemma restricted_steps: "solo_step s s' \<Longrightarrow> bus_step s s'" "quiet_step s s' \<Longrightarrow> bus_step s s'"
  by (simp_all add: solo_step_def quiet_step_def)

interpretation any_run: bus_run bus_step accounted
  by unfold_locales (auto intro: bus_step_accounted)

interpretation solo_run: bus_run solo_step in_order
  by unfold_locales (auto intro: solo_step_in_order restricted_steps)

interpretation quiet_run: bus_run quiet_step targets_open
  by unfold_locales (auto intro: quiet_step_open restricted_steps)

section \<open>Theorems on the bus\<close>

text \<open>
  Whatever the goroutines do, no channel holds more than eight messages, and a handler has received and will find
  in its channel only published messages, each at most once.
\<close>

theorem bus_at_most_once:
  assumes "bus_step\<^sup>*\<^sup>* fresh_bus s"
  shows "length (buffered s ch) \<le> 8 \<and> mset (bs_received s ch @ buffered s ch) \<subseteq># mset (bs_published s)"
proof -
  have wf: "bus_wf s" and acc: "accounted s" using any_run.reachable [OF assms] by auto
  have "length (buffered s ch) \<le> 8"
    using wf by (auto simp: buffered_def bus_wf_def bus_capacity_def)
  moreover have "mset (bs_received s ch @ buffered s ch) \<subseteq># mset (bs_received s ch @ buffered s ch @ under_way (bs_publishing s) ch)"
    by (simp add: add.assoc)
  ultimately show ?thesis
    using acc subset_mset.order_trans unfolding accounted_def by blast
qed

text \<open>With one publisher at a time every handler receives a subsequence of what was published, in the order of publication.\<close>

theorem bus_keeps_order:
  assumes "solo_step\<^sup>*\<^sup>* fresh_bus s"
  shows "subseq (bs_received s ch @ buffered s ch) (bs_published s)"
proof -
  have "subseq ((bs_received s ch @ buffered s ch) @ under_way (bs_publishing s) ch) (bs_published s)"
    using solo_run.reachable [OF assms] by (simp add: in_order_def)
  then show ?thesis by (rule subseq_order.order_trans [rotated]) (rule list_emb_prefix, simp)
qed

text \<open>
  If a channel is taken off the bus only while no publication is on its way to it, no send panics.
\<close>

theorem quiet_bus_never_panics:
  assumes "quiet_step\<^sup>*\<^sup>* fresh_bus s"
  shows "\<not> bs_panicked s"
  using quiet_run.reachable [OF assms] by (simp add: targets_open_def)

definition race_message :: custom_message where
  "race_message = (''02aa'', MESSAGETYPE_POLL, [])"

text \<open>
  C38. The bus can panic: the goroutine that waits for the end of a subscription closes its channel whenever the context ends, and a
  publication that had copied the subscribers before sends on the closed channel.
\<close>

theorem publish_race_panics:
  "\<exists>s. bus_step\<^sup>*\<^sup>* fresh_bus s \<and> bs_panicked s"
proof -
  define s1 where "s1 = fresh_bus\<lparr>bs_bus := snd (bus_subscribe (bs_bus fresh_bus))\<rparr>"
  define s2 where "s2 = s1\<lparr>bs_publishing := bs_publishing s1 @ [(race_message, [0])], bs_published := bs_published s1 @ [race_message]\<rparr>"
  define s3 where "s3 = s2\<lparr>bs_bus := bus_remove 0 (bs_bus s2)\<rparr>"
  note defs = s3_def s2_def s1_def fresh_bus_def newMessageBus_def bus_subscribe_def bus_remove_def
  have "bus_step fresh_bus s1" unfolding s1_def by (rule subscribing) (simp add: fresh_bus_def)
  moreover have "bus_step s1 s2" unfolding s2_def by (rule copying) (simp_all add: defs)
  moreover have "bus_step s2 s3" unfolding s3_def by (rule removing) (simp add: defs)
  moreover have "bus_step s3 (s3\<lparr>bs_panicked := True\<rparr>)"
    by (rule panicking [where ps = "[]" and m = race_message and ch = 0 and chs = "[]" and qs = "[]"]) (simp_all add: defs chan_send_def)
  ultimately have "bus_step\<^sup>*\<^sup>* fresh_bus (s3\<lparr>bs_panicked := True\<rparr>)" by (meson converse_rtranclp_into_rtranclp rtranclp.rtrancl_refl)
  then show ?thesis by (intro exI [of _ "s3\<lparr>bs_panicked := True\<rparr>"]) simp
qed

lemma publish_to_effect:
  assumes "distinct chs" "\<forall>ch \<in> set chs. ch < length (mb_chans b) \<and> \<not> ch_closed (mb_chans b ! ch)"
  shows "\<exists>b'. publish_to chs m b = Some b' \<and> length (mb_chans b') = length (mb_chans b) \<and> mb_subscribers b' = mb_subscribers b \<and>
    (\<forall>ch < length (mb_chans b). mb_chans b' ! ch = (if ch \<in> set chs \<and> length (ch_buf (mb_chans b ! ch)) < bus_capacity
      then (mb_chans b ! ch)\<lparr>ch_buf := ch_buf (mb_chans b ! ch) @ [m]\<rparr> else mb_chans b ! ch))"
  using assms
proof (induction chs arbitrary: b)
  case (Cons c chs)
  obtain b1 where b1: "chan_send c m b = Some b1" "length (mb_chans b1) = length (mb_chans b)" "mb_subscribers b1 = mb_subscribers b"
    and nth: "\<forall>ch < length (mb_chans b). mb_chans b1 ! ch = (if ch = c \<and> length (ch_buf (mb_chans b ! ch)) < bus_capacity
      then (mb_chans b ! ch)\<lparr>ch_buf := ch_buf (mb_chans b ! ch) @ [m]\<rparr> else mb_chans b ! ch)"
    using Cons.prems(2) by (cases "length (ch_buf (mb_chans b ! c)) < bus_capacity") (auto simp: chan_send_def Let_def nth_list_update)
  have "\<forall>ch \<in> set chs. ch < length (mb_chans b1) \<and> \<not> ch_closed (mb_chans b1 ! ch)"
    using Cons.prems b1(2) nth by auto
  from Cons.IH [OF _ this] Cons.prems(1) obtain b' where b': "publish_to chs m b1 = Some b'" "length (mb_chans b') = length (mb_chans b1)"
    "mb_subscribers b' = mb_subscribers b1"
    "\<forall>ch < length (mb_chans b1). mb_chans b' ! ch = (if ch \<in> set chs \<and> length (ch_buf (mb_chans b1 ! ch)) < bus_capacity
      then (mb_chans b1 ! ch)\<lparr>ch_buf := ch_buf (mb_chans b1 ! ch) @ [m]\<rparr> else mb_chans b1 ! ch)" by auto
  then show ?case using b1 nth Cons.prems(1) by (intro exI [of _ b']) auto
qed simp

text \<open>One subscriber, one message: published, sent and in the channel.\<close>

definition demo_bus :: "nat \<Rightarrow> bus_state" where
  "demo_bus n = (let s1 = fresh_bus\<lparr>bs_bus := snd (bus_subscribe (bs_bus fresh_bus))\<rparr>;
     s2 = s1\<lparr>bs_publishing := bs_publishing s1 @ [(race_message, [0])], bs_published := bs_published s1 @ [race_message]\<rparr>;
     s3 = s2\<lparr>bs_bus := the (chan_send 0 race_message (bs_bus s2)), bs_publishing := [(race_message, [])]\<rparr>
     in [fresh_bus, s1, s2, s3] ! n)"

lemmas demo_bus_defs = demo_bus_def fresh_bus_def newMessageBus_def bus_subscribe_def chan_send_def bus_capacity_def Let_def

lemma demo_bus_steps: "solo_step (demo_bus 0) (demo_bus 1)" "solo_step (demo_bus 1) (demo_bus 2)" "solo_step (demo_bus 2) (demo_bus 3)"
proof -
  have "bus_step (demo_bus 0) (demo_bus 1)"
    using subscribing [of fresh_bus] by (simp add: demo_bus_def Let_def fresh_bus_def)
  moreover have "bus_step (demo_bus 1) (demo_bus 2)"
    using copying [of "demo_bus 1" "[0]" race_message] by (simp add: demo_bus_defs numeral_2_eq_2)
  moreover have "bus_step (demo_bus 2) (demo_bus 3)"
    using sending [of "demo_bus 2" "[]" race_message 0 "[]" "[]" "bs_bus (demo_bus 3)"]
    by (simp add: demo_bus_defs numeral_2_eq_2 numeral_3_eq_3)
  ultimately show "solo_step (demo_bus 0) (demo_bus 1)" "solo_step (demo_bus 1) (demo_bus 2)" "solo_step (demo_bus 2) (demo_bus 3)"
    by (simp_all add: solo_step_def demo_bus_defs returned_def numeral_2_eq_2 numeral_3_eq_3)
qed

lemma demo_bus_run: "solo_step\<^sup>*\<^sup>* fresh_bus (demo_bus 3)"
proof -
  have "fresh_bus = demo_bus 0" by (simp add: demo_bus_def Let_def)
  then show ?thesis using demo_bus_steps by (metis converse_rtranclp_into_rtranclp rtranclp.rtrancl_refl)
qed

theorem bus_keeps_order_witness:
  "subseq (bs_received (demo_bus 3) 0 @ buffered (demo_bus 3) 0) (bs_published (demo_bus 3)) \<and> buffered (demo_bus 3) 0 = [race_message]"
  using bus_keeps_order [OF demo_bus_run, of 0] by (simp add: buffered_def demo_bus_defs numeral_3_eq_3)

section \<open>The service behind the bus (\<open>peersync/peersync.go\<close>, \<open>peersync/poller.go\<close>)\<close>

text \<open>
  The loops that \<open>Start\<close> spawns: the handler takes a message from its channel and processes it, the two tickers poll
  and clean up, and the goroutines of the bus go on in between.
\<close>

inductive sync_step :: "PeerSync \<Rightarrow> bus_state \<times> ps_world \<Rightarrow> bus_state \<times> ps_world \<Rightarrow> bool" for ps where
  sync_bus: "bus_step s s' \<Longrightarrow> bs_received s' = bs_received s \<Longrightarrow> sync_step ps (s, w) (s', w)"
| handleMessages: "\<not> bs_panicked s \<Longrightarrow> ch < length (mb_chans (bs_bus s)) \<Longrightarrow>
    ch_buf (mb_chans (bs_bus s) ! ch) = (from, msgType, payload) # ms \<Longrightarrow>
    sync_step ps (s, w) (s\<lparr>bs_bus := chan_take ch (bs_bus s), bs_received := (bs_received s)(ch := bs_received s ch @ [(from, msgType, payload)])\<rparr>,
      processMessage ps from msgType payload w)"
| runPollLoop: "\<not> bs_panicked s \<Longrightarrow> sync_step ps (s, w) (s, PollAllPeers ps w)"
| runCleanupLoop: "\<not> bs_panicked s \<Longrightarrow> sync_step ps (s, w) (s, snd (cleanupExpired ps w))"

text \<open>\<open>Start\<close>: an error of the first exchange is only logged; the channel is the handler's.\<close>

definition PeerSync_Start :: "PeerSync \<Rightarrow> (bus_state \<Rightarrow> (go_error + nat) \<times> bus_state) \<Rightarrow> bus_state \<times> ps_world \<Rightarrow> (go_error + nat) \<times> bus_state \<times> ps_world" where
  "PeerSync_Start ps subscribe sw = (case sw of (s, w) \<Rightarrow>
     if ps_lightning_client ps = None then (Inl (ErrText ''lightning not configured''), s, w)
     else (let w = snd (performInitialSync ps w) in case subscribe s of
         (Inl e, s) \<Rightarrow> (Inl (ErrWrap ''failed to subscribe to custom messages'' e), s, w)
       | (Inr ch, s) \<Rightarrow> (Inr ch, s, w)))"

text \<open>What an adapter publishes names a peer id.\<close>

definition from_peer :: "custom_message \<Rightarrow> bool" where
  "from_peer m \<longleftrightarrow> NewPeerID (fst m) = Inr (fst m)"

lemma adapters_name_peers:
  "lnd_customMessageFrom peer ty payload = Some m \<Longrightarrow> from_peer m"
  "cln_PushCustomMessage peerID tyText payload = Some m \<Longrightarrow> from_peer m"
  by (auto simp: lnd_customMessageFrom_def cln_PushCustomMessage_def from_peer_def NewPeerID_def split: sum.splits if_splits)

lemma buffered_published:
  assumes "bus_step\<^sup>*\<^sup>* fresh_bus s" "m \<in> set (buffered s ch)"
  shows "m \<in> set (bs_published s)"
proof -
  have "mset (bs_received s ch @ buffered s ch @ under_way (bs_publishing s) ch) \<subseteq># mset (bs_published s)"
    using any_run.reachable [OF assms(1)] by (simp add: accounted_def)
  from mset_subset_eqD [OF this, of m] show ?thesis using assms(2) by simp
qed

lemma sync_step_bus: "sync_step ps (s, w) (s', w') \<Longrightarrow> bus_step\<^sup>*\<^sup>* s s'"
proof (induction rule: sync_step.cases)
  case (handleMessages s ch "from" msgType payload ms w)
  then show ?case using receiving [of s ch "(from, msgType, payload)" ms] by auto
qed auto

lemma bus_step_published: "bus_step s s' \<Longrightarrow> set (bs_published s) \<subseteq> set (bs_published s')"
  by (induction rule: bus_step.induct) auto

lemma bus_run_published: "bus_step\<^sup>*\<^sup>* s s' \<Longrightarrow> set (bs_published s) \<subseteq> set (bs_published s')"
  by (induction rule: rtranclp_induct) (auto dest: bus_step_published)

text \<open>
  Every run of the concurrent service is, for the store and the peers, a run of its sequential steps: so what holds of
  those (suspicious peers get nothing, the store stays readable) holds of the goroutines.
\<close>

lemma sync_refines_service:
  assumes "(sync_step ps)\<^sup>*\<^sup>* (fresh_bus, w) (s', w')" and "\<forall>m \<in> set (bs_published s'). from_peer m"
  shows "(ps_step ps)\<^sup>*\<^sup>* w w' \<and> bus_step\<^sup>*\<^sup>* fresh_bus s'"
proof -
  have "(sync_step ps)\<^sup>*\<^sup>* sw sw' \<Longrightarrow> sw = (fresh_bus, w) \<Longrightarrow> (\<forall>m \<in> set (bs_published (fst sw')). from_peer m) \<Longrightarrow>
      (ps_step ps)\<^sup>*\<^sup>* w (snd sw') \<and> bus_step\<^sup>*\<^sup>* fresh_bus (fst sw')" for sw sw'
  proof (induction rule: rtranclp_induct)
    case (step y z)
    obtain s1 w1 s2 w2 where yz: "y = (s1, w1)" "z = (s2, w2)" by (cases y, cases z)
    have bus: "bus_step\<^sup>*\<^sup>* s1 s2" using sync_step_bus step(2) yz by blast
    then have "\<forall>m \<in> set (bs_published s1). from_peer m" using bus_run_published step.prems(2) yz by fastforce
    then have IH: "(ps_step ps)\<^sup>*\<^sup>* w w1" "bus_step\<^sup>*\<^sup>* fresh_bus s1" using step.IH step.prems(1) yz by auto
    have "ps_step ps w1 w2 \<or> w1 = w2"
      using step(2)[unfolded yz]
    proof (cases rule: sync_step.cases)
      case (handleMessages ch "from" msgType payload ms)
      have "(from, msgType, payload) \<in> set (bs_published s1)"
        by (rule buffered_published [OF IH(2), of _ ch]) (use handleMessages in \<open>simp add: buffered_def\<close>)
      then have "NewPeerID from = Inr from"
        using \<open>\<forall>m \<in> set (bs_published s1). from_peer m\<close> by (force simp: from_peer_def)
      then show ?thesis using handleMessages by (auto intro: ps_message)
    next
      case runPollLoop
      then show ?thesis using ps_poll by (simp add: PollAllPeers_def)
    next
      case runCleanupLoop
      then show ?thesis using ps_cleanup by simp
    qed auto
    then show ?case using IH bus yz by (auto intro: rtranclp.rtrancl_into_rtrancl rtranclp_trans)
  qed simp
  from this [OF assms(1)] assms(2) show ?thesis by simp
qed

section \<open>The stream of lnd (\<open>peersync/lightning_adapter.go\<close>)\<close>

text \<open>
  A stream and the context that ends it share a number.  \<open>st_consumers\<close> are the goroutines in the loop of
  \<open>consumeStream\<close>, \<open>st_ending\<close> those that left it and have not yet taken the lock.
\<close>

record LightningAdapter =
  la_streamStarted :: bool
  la_streamCancel :: "nat option"

record stream_state =
  st_adapter :: LightningAdapter
  st_bus :: messageBus
  st_consumers :: "nat list"
  st_ending :: "nat list"
  st_cancelled :: "nat list"
  st_streams :: nat

definition NewLightningAdapter :: stream_state where
  "NewLightningAdapter = \<lparr>st_adapter = \<lparr>la_streamStarted = False, la_streamCancel = None\<rparr>, st_bus = newMessageBus,
     st_consumers = [], st_ending = [], st_cancelled = [], st_streams = 0\<rparr>"

definition ensureStream :: "go_error option \<Rightarrow> stream_state \<Rightarrow> go_error option \<times> stream_state" where
  "ensureStream answer s = (if la_streamStarted (st_adapter s) then (None, s)
     else (case answer of
         Some e \<Rightarrow> (Some e, s)
       | None \<Rightarrow> (None, s\<lparr>st_adapter := \<lparr>la_streamStarted = True, la_streamCancel = Some (st_streams s)\<rparr>,
           st_consumers := st_consumers s @ [st_streams s], st_streams := Suc (st_streams s)\<rparr>)))"

definition SubscribeCustomMessages :: "go_error option \<Rightarrow> stream_state \<Rightarrow> (go_error + nat) \<times> stream_state" where
  "SubscribeCustomMessages answer s = (case ensureStream answer s of
     (Some e, s) \<Rightarrow> (Inl e, s)
   | (None, s) \<Rightarrow> (case bus_subscribe (st_bus s) of (ch, b) \<Rightarrow> (Inr ch, s\<lparr>st_bus := b\<rparr>)))"

text \<open>The locked end of \<open>consumeStream\<close>, which is also \<open>Stop\<close>.\<close>

definition release_stream :: "stream_state \<Rightarrow> stream_state" where
  "release_stream s = s\<lparr>st_adapter := \<lparr>la_streamStarted = False, la_streamCancel = None\<rparr>,
     st_cancelled := (case la_streamCancel (st_adapter s) of None \<Rightarrow> [] | Some c \<Rightarrow> [c]) @ st_cancelled s\<rparr>"

inductive stream_step :: "stream_state \<Rightarrow> stream_state \<Rightarrow> bool" where
  st_subscribe: "stream_step s (snd (SubscribeCustomMessages answer s))"
| st_recv: "c \<in> set (st_consumers s) \<Longrightarrow> c \<notin> set (st_cancelled s) \<Longrightarrow> lnd_customMessageFrom peer ty payload = Some m \<Longrightarrow>
    mset (order (mb_subscribers (st_bus s))) = mset (mb_subscribers (st_bus s)) \<Longrightarrow> bus_publish order m (st_bus s) = Some b \<Longrightarrow>
    stream_step s (s\<lparr>st_bus := b\<rparr>)"
| st_recv_error: "c \<in> set (st_consumers s) \<Longrightarrow>
    stream_step s (s\<lparr>st_consumers := remove1 c (st_consumers s), st_ending := c # st_ending s\<rparr>)"
| st_end: "c \<in> set (st_ending s) \<Longrightarrow> stream_step s (release_stream (s\<lparr>st_ending := remove1 c (st_ending s)\<rparr>))"
| st_stop: "stream_step s (release_stream s)"
| st_take: "stream_step s (s\<lparr>st_bus := chan_take ch (st_bus s)\<rparr>)"

text \<open>
  Sending: lnd wants the peer as bytes and the type as 32 bits, Core Lightning takes them as they are.  \<open>client\<close> is
  the node's call.
\<close>

definition lnd_adapter_SendCustomMessage ::
  "(byte list \<Rightarrow> u32 \<Rightarrow> byte list \<Rightarrow> go_error option) option \<Rightarrow> string \<Rightarrow> MessageType \<Rightarrow> byte list \<Rightarrow> go_error option" where
  "lnd_adapter_SendCustomMessage client to msgType payload = (case client of
     None \<Rightarrow> Some (ErrText ''peersync adapter: client not configured'')
   | Some send \<Rightarrow> (case hex_DecodeString to of
       (_, Some e) \<Rightarrow> Some (ErrWrap ''peersync adapter: invalid peer id'' (ErrHex e))
     | (peerBytes, None) \<Rightarrow>
         if msgType < 0 \<or> 2 ^ 32 - 1 < msgType then Some (ErrText (''peersync adapter: message type '' @ fmt_int msgType @ '' out of range''))
         else send peerBytes (word_of_int msgType) payload))"

definition cln_adapter_SendCustomMessage ::
  "(string \<Rightarrow> byte list \<Rightarrow> MessageType \<Rightarrow> go_error option) option \<Rightarrow> string \<Rightarrow> MessageType \<Rightarrow> byte list \<Rightarrow> go_error option" where
  "cln_adapter_SendCustomMessage client to msgType payload = (case client of
     None \<Rightarrow> Some (ErrText ''peersync cln adapter: client not configured'')
   | Some send \<Rightarrow> send to payload msgType)"

text \<open>
  What the lnd adapter hands to the node as a message of type \<open>t\<close> to the peer \<open>to\<close>, the adapter on the other side reads as
  a message of that type, whichever peer the node names as its sender.
\<close>

lemma lnd_adapter_roundtrip:
  assumes "t \<in> set peerswap_types" "hex_DecodeString to = (pk, None)" "NewPeerID (hex_EncodeToString sender) = Inr pid"
  shows "\<exists>ty. (\<forall>send. lnd_adapter_SendCustomMessage (Some send) to t payload = send pk ty payload) \<and>
    lnd_customMessageFrom sender ty payload = Some (pid, t, payload)"
proof (intro exI conjI allI)
  have range: "0 \<le> t" "t < 2 ^ 32"
    using assms(1) by (auto simp: peerswap_types_def msgtype_defs)
  then show "lnd_adapter_SendCustomMessage (Some send) to t payload = send pk (word_of_int t) payload" for send
    using assms(2) by (simp add: lnd_adapter_SendCustomMessage_def)
  have "int (unat (word_of_int t :: u32)) = t"
    using range by (simp add: uint_word_of_int_eq take_bit_int_eq_self)
  then show "lnd_customMessageFrom sender (word_of_int t) payload = Some (pid, t, payload)"
    using assms(3) peerswap_type_parses [OF assms(1)] by (simp add: lnd_customMessageFrom_def MessageTypeToHexString_def)
qed

text \<open>Steps that open no stream.\<close>

definition unopened_step :: "stream_state \<Rightarrow> stream_state \<Rightarrow> bool" where
  "unopened_step s s' \<longleftrightarrow> stream_step s s' \<and> st_streams s' = st_streams s"

definition deaf :: "nat \<Rightarrow> stream_state \<Rightarrow> bool" where
  "deaf ch s \<longleftrightarrow> st_consumers s = [] \<and> ch < length (mb_chans (st_bus s)) \<and> ch_buf (mb_chans (st_bus s) ! ch) = []"

lemma deaf_step: "unopened_step s s' \<Longrightarrow> deaf ch s \<Longrightarrow> deaf ch s'"
proof -
  assume *: "unopened_step s s'" and deaf: "deaf ch s"
  then have "stream_step s s'" "st_streams s' = st_streams s" by (auto simp: unopened_step_def)
  then show ?thesis using deaf
  proof (induction rule: stream_step.induct)
    case (st_subscribe s answer)
    then show ?case
      by (auto simp: deaf_def SubscribeCustomMessages_def ensureStream_def bus_subscribe_def Let_def nth_append split: if_splits option.splits)
  next
    case (st_take s c)
    then show ?case by (cases "c = ch") (auto simp: deaf_def chan_take_def)
  qed (auto simp: deaf_def release_stream_def)
qed

lemma deaf_run: "unopened_step\<^sup>*\<^sup>* s s' \<Longrightarrow> deaf ch s \<Longrightarrow> deaf ch s'"
  by (induction rule: rtranclp_induct) (auto intro: deaf_step)

text \<open>
  A broken stream of lnd is not opened again: after an error of \<open>Recv\<close> the handler's channel is still subscribed and
  open, and as long as nobody calls \<open>SubscribeCustomMessages\<close> again, which the service does only once, no message
  reaches it.
\<close>

theorem lost_stream_not_restored:
  "\<exists>s. stream_step\<^sup>*\<^sup>* NewLightningAdapter s \<and> 0 \<in> set (mb_subscribers (st_bus s)) \<and> \<not> ch_closed (mb_chans (st_bus s) ! 0) \<and>
     (\<forall>s'. unopened_step\<^sup>*\<^sup>* s s' \<longrightarrow> ch_buf (mb_chans (st_bus s') ! 0) = [])"
proof -
  define s1 where "s1 = snd (SubscribeCustomMessages None NewLightningAdapter)"
  define s2 where "s2 = s1\<lparr>st_consumers := remove1 0 (st_consumers s1), st_ending := 0 # st_ending s1\<rparr>"
  define s3 where "s3 = release_stream (s2\<lparr>st_ending := remove1 0 (st_ending s2)\<rparr>)"
  note defs = s3_def s2_def s1_def SubscribeCustomMessages_def ensureStream_def NewLightningAdapter_def newMessageBus_def bus_subscribe_def
    release_stream_def Let_def
  have "stream_step NewLightningAdapter s1" unfolding s1_def by (rule st_subscribe)
  moreover have "stream_step s1 s2" unfolding s2_def by (rule st_recv_error) (simp add: defs)
  moreover have "stream_step s2 s3" unfolding s3_def by (rule st_end) (simp add: defs)
  ultimately have "stream_step\<^sup>*\<^sup>* NewLightningAdapter s3" by (meson converse_rtranclp_into_rtranclp rtranclp.rtrancl_refl)
  moreover have "deaf 0 s3" "0 \<in> set (mb_subscribers (st_bus s3))" "\<not> ch_closed (mb_chans (st_bus s3) ! 0)"
    by (simp_all add: deaf_def defs)
  ultimately show ?thesis using deaf_run by (intro exI [of _ s3]) (auto simp: deaf_def)
qed

text \<open>
  A consumer that ends late releases the stream of another: after \<open>Stop\<close> and a new subscription the end of the first
  consumer cancels the context of the second stream.
\<close>

theorem late_consumer_cancels_new_stream:
  "\<exists>s. stream_step\<^sup>*\<^sup>* NewLightningAdapter s \<and> st_consumers s = [1] \<and> 1 \<in> set (st_cancelled s) \<and> \<not> la_streamStarted (st_adapter s)"
proof -
  define s1 where "s1 = snd (SubscribeCustomMessages None NewLightningAdapter)"
  define s2 where "s2 = release_stream s1"
  define s3 where "s3 = snd (SubscribeCustomMessages None s2)"
  define s4 where "s4 = s3\<lparr>st_consumers := remove1 0 (st_consumers s3), st_ending := 0 # st_ending s3\<rparr>"
  define s5 where "s5 = release_stream (s4\<lparr>st_ending := remove1 0 (st_ending s4)\<rparr>)"
  note defs = s5_def s4_def s3_def s2_def s1_def SubscribeCustomMessages_def ensureStream_def NewLightningAdapter_def newMessageBus_def
    bus_subscribe_def release_stream_def Let_def
  have "stream_step NewLightningAdapter s1" unfolding s1_def by (rule st_subscribe)
  moreover have "stream_step s1 s2" unfolding s2_def by (rule st_stop)
  moreover have "stream_step s2 s3" unfolding s3_def by (rule st_subscribe)
  moreover have "stream_step s3 s4" unfolding s4_def by (rule st_recv_error) (simp add: defs)
  moreover have "stream_step s4 s5" unfolding s5_def by (rule st_end) (simp add: defs)
  ultimately have "stream_step\<^sup>*\<^sup>* NewLightningAdapter s5" by (meson converse_rtranclp_into_rtranclp rtranclp.rtrancl_refl)
  then show ?thesis by (intro exI [of _ s5]) (simp add: defs)
qed



end
