(* ===== verification/PS_Daemon.thy ===== *)
theory PS_Daemon
  imports PS_Config PS_Bus PS_ActiveSwaps PS_Version
begin

text \<open>
  The start of the two daemons: the Core Lightning plugin (\<open>cmd/peerswap-plugin/main.go\<close>) and the daemon beside lnd
  (\<open>cmd/peerswaplnd/peerswapd/main.go\<close>).  Both read their configuration, check the node, connect the wallets of the
  enabled chains, open the stores, register the callbacks of the swap service, check the version of the database and
  recover the stored swaps.  The parts are those of the other theories; the outside answers are parameters.

  A start fails with an error, ends the process (\<open>os.Exit\<close>), panics, waits for ever for a node that does not come up, or
  succeeds.
\<close>

datatype 'a started = Failed go_error | Exits | Crashes | Waits | Up 'a

fun start_bind :: "'a started \<Rightarrow> ('a \<Rightarrow> 'b started) \<Rightarrow> 'b started" where
  "start_bind (Up a) f = f a"
| "start_bind (Failed e) f = Failed e"
| "start_bind Exits f = Exits"
| "start_bind Crashes f = Crashes"
| "start_bind Waits f = Waits"

lemma start_bind_Up: "start_bind r f = Up b \<longleftrightarrow> (\<exists>a. r = Up a \<and> f a = Up b)"
  by (cases r) auto

lemma start_bind_Crashes: "start_bind r f = Crashes \<longleftrightarrow> r = Crashes \<or> (\<exists>a. r = Up a \<and> f a = Crashes)"
  by (cases r) auto

definition check_err :: "go_error option \<Rightarrow> 'a \<Rightarrow> 'a started" where
  "check_err e a = (case e of None \<Rightarrow> Up a | Some e \<Rightarrow> Failed e)"

definition lift_err :: "go_error + 'a \<Rightarrow> 'a started" where
  "lift_err r = (case r of Inl e \<Rightarrow> Failed e | Inr a \<Rightarrow> Up a)"

lemma check_err_simps [simp]:
  "check_err e a = Up b \<longleftrightarrow> e = None \<and> a = b" "check_err e a \<noteq> Crashes" "check_err None a = Up a" "check_err (Some e') a = Failed e'"
  by (auto simp: check_err_def split: option.splits)

lemma lift_err_simps [simp]: "lift_err r = Up a \<longleftrightarrow> r = Inr a" "lift_err r \<noteq> Crashes"
  by (auto simp: lift_err_def split: sum.splits)

section \<open>Waiting\<close>

text \<open>A loop that asks again until it has an answer; the ticks count the questions.  \<open>None\<close>: it asks for ever.\<close>

partial_function (option) poll_until :: "(nat \<Rightarrow> 'a option) \<Rightarrow> nat \<Rightarrow> ('a \<times> nat) option" where
  "poll_until f t = (case f t of Some r \<Rightarrow> Some (r, Suc t) | None \<Rightarrow> poll_until f (Suc t))"

definition wait_for :: "('a \<times> nat) option \<Rightarrow> ('a \<Rightarrow> nat \<Rightarrow> 'b started) \<Rightarrow> 'b started" where
  "wait_for r k = (case r of None \<Rightarrow> Waits | Some (a, t) \<Rightarrow> k a t)"

text \<open>\<open>waitForClnSynced\<close> and \<open>waitForLndSynced\<close>.\<close>

definition waitForClnSynced :: "(nat \<Rightarrow> go_error + bool \<times> bool) \<Rightarrow> nat \<Rightarrow> (go_error option \<times> nat) option" where
  "waitForClnSynced getInfo = poll_until (\<lambda>t. case getInfo t of
     Inl e \<Rightarrow> Some (Some (ErrWrap ''failed to check sync status'' e))
   | Inr (bitcoindSynced, lightningdSynced) \<Rightarrow> if bitcoindSynced \<and> lightningdSynced then Some None else None)"

definition waitForLndSynced :: "(nat \<Rightarrow> go_error + bool) \<Rightarrow> nat \<Rightarrow> (go_error option \<times> nat) option" where
  "waitForLndSynced getInfo = poll_until (\<lambda>t. case getInfo t of
     Inl e \<Rightarrow> Some (Some e) | Inr synced \<Rightarrow> if synced then Some None else None)"

text \<open>
  \<open>NewClient\<close> of \<open>elements/client.go\<close>: wait while elementsd answers -28, then while it verifies blocks; its version is
  checked once.
\<close>

record elements_conn =
  en_StartUp :: "nat \<Rightarrow> go_error option"
  en_GetChainInfo :: "nat \<Rightarrow> go_error + string \<times> bool"
  en_GetNetworkInfo :: "nat \<Rightarrow> go_error + int \<times> string"

definition elements_connect :: "elements_conn \<Rightarrow> nat \<Rightarrow> (go_error option \<times> nat) option" where
  "elements_connect c = poll_until (\<lambda>t. case en_StartUp c t of
     None \<Rightarrow> Some None
   | Some e \<Rightarrow> if strings_HasPrefix (strings_TrimSpace (Error e)) ''-28'' then None else Some (Some e))"

definition elements_verified :: "elements_conn \<Rightarrow> nat \<Rightarrow> (go_error option \<times> nat) option" where
  "elements_verified c t0 = poll_until (\<lambda>t. case en_GetChainInfo c t of
     Inl e \<Rightarrow> Some (Some e)
   | Inr (chain, verified) \<Rightarrow>
       (case (if t = t0 then checkLiquidMainnetElementsVersion (en_GetNetworkInfo c) t chain else None) of
          Some e \<Rightarrow> Some (Some e)
        | None \<Rightarrow> if verified then Some None else None)) t0"

definition elements_NewClient :: "elements_conn \<Rightarrow> nat \<Rightarrow> (go_error option \<times> nat) option" where
  "elements_NewClient c t = (case elements_connect c t of
     None \<Rightarrow> None
   | Some (Some e, t) \<Rightarrow> Some (Some e, t)
   | Some (None, t) \<Rightarrow> elements_verified c t)"

section \<open>The version of the node\<close>

definition minClnVersion :: string where "minClnVersion = ''23.11''"

definition checkClnVersion :: "string \<Rightarrow> string \<Rightarrow> go_error + bool" where
  "checkClnVersion network fullVersionString = (if network = ''signet'' then Inr True else CompareVersionStrings fullVersionString minClnVersion)"

text \<open>
  lnd's version: the text before the first dash without its first two characters, read as a decimal number.
  \<open>other\<close> is \<open>ParseFloat\<close> and the comparison on texts that are no plain decimals; a text too short panics.
\<close>

definition minLndVersion :: f64 where "minLndVersion = f64_quot 141 10"

definition plain_decimal :: "string \<Rightarrow> f64 option" where
  "plain_decimal s = (case strings_Split CHR ''.'' s of
     [a] \<Rightarrow> map_option (\<lambda>ds. f64_quot (digits_value 10 ds) 1) (digits_of 10 a)
   | [a, b] \<Rightarrow> map_option (\<lambda>ds. f64_quot (digits_value 10 ds) (10 ^ length b)) (digits_of 10 (a @ b))
   | _ \<Rightarrow> None)"

definition checkLndVersion :: "(string \<Rightarrow> go_error + bool) \<Rightarrow> string \<Rightarrow> go_error option option" where
  "checkLndVersion other fullVersionString =
     (let first = hd (strings_Split CHR ''-'' fullVersionString) in
      if length first < 2 then None
      else (let versionString = drop 2 first;
                below = (case plain_decimal versionString of Some v \<Rightarrow> Inr (f64_less v minLndVersion) | None \<Rightarrow> other versionString)
            in Some (case below of
                 Inl e \<Rightarrow> Some e
               | Inr b \<Rightarrow> if b then Some (ErrText ''Lnd version unsupported, requires 14.1'') else None)))"

section \<open>Chains and wallets\<close>

datatype bitcoin_params = RegressionNetParams | TestNet3Params | TestNet4Params | SigNetParams | MainNetParams
datatype liquid_network = LiquidMain | LiquidRegtest | LiquidTestnet
datatype liquid_backend = ElementsBackend | LWKBackend

definition unknown_network :: go_error where "unknown_network = ErrText ''unknown bitcoin network''"

definition cln_getBitcoinChain :: "string \<Rightarrow> go_error + bitcoin_params" where
  "cln_getBitcoinChain network = (if network = ''regtest'' then Inr RegressionNetParams else if network = ''testnet'' then Inr TestNet3Params
     else if network = ''testnet4'' then Inr TestNet4Params else if network = ''signet'' then Inr SigNetParams
     else if network = ''bitcoin'' then Inr MainNetParams else Inl unknown_network)"

text \<open>lnd answers a list of chains; the first is read unchecked.\<close>

definition lnd_getBitcoinChain :: "string list \<Rightarrow> (go_error + bitcoin_params) option" where
  "lnd_getBitcoinChain networks = (case networks of [] \<Rightarrow> None
   | network # _ \<Rightarrow> Some (if network = ''mainnet'' then Inr MainNetParams else cln_getBitcoinChain network))"

definition getLiquidChain :: "string \<Rightarrow> liquid_network" where
  "getLiquidChain chain = (if chain = ''liquidv1'' then LiquidMain else if chain = ''liquidregtest'' then LiquidRegtest else LiquidTestnet)"

definition Conf_GetChain :: "lwk_Conf \<Rightarrow> liquid_network" where
  "Conf_GetChain c = (if lc_network c = NetworkMainnet then LiquidMain else if lc_network c = NetworkRegtest then LiquidRegtest else LiquidTestnet)"

text \<open>A client of elementsd, its wallet and its network.\<close>

definition connect_elements :: "elements_conn \<Rightarrow> elements_env \<Rightarrow> string \<Rightarrow> nat \<Rightarrow> (liquid_network \<times> nat) started" where
  "connect_elements c ee walletName t = wait_for (elements_NewClient c t) (\<lambda>err t. case err of
     Some e \<Rightarrow> Failed e
   | None \<Rightarrow> (case elements_setupWallet ee walletName \<lparr>ww_clock = t, ww_sent = [], ww_paid = [], ww_wallet = None\<rparr> of
       (Some e, _) \<Rightarrow> Failed e
     | (None, w) \<Rightarrow> (case en_GetChainInfo c (ww_clock w) of
         Inl e \<Rightarrow> Failed e | Inr (chain, _) \<Rightarrow> Up (getLiquidChain chain, Suc (ww_clock w)))))"

definition NewLWKRpcWallet :: "lwk_env \<Rightarrow> go_error option \<Rightarrow> lwk_Conf \<Rightarrow> nat \<Rightarrow> go_error option" where
  "NewLWKRpcWallet le electrum c t = (if \<not> Conf_Enabled c then Some (ErrText ''LWKRpcWallet is not enabled'')
     else (case electrum of
         Some e \<Rightarrow> Some e
       | None \<Rightarrow> lwk_setupWallet (le\<lparr>lk_signer := lc_signerName c, lk_walletName := lc_walletName c\<rparr>) t))"

definition connect_lwk :: "lwk_env \<Rightarrow> go_error option \<Rightarrow> lwk_Conf \<Rightarrow> nat \<Rightarrow> (liquid_network \<times> nat) started" where
  "connect_lwk le electrum c t = check_err (NewLWKRpcWallet le electrum c t) (Conf_GetChain c, t + 10)"

text \<open>The fee floor follows bitcoind's version; without a version it is the old one.\<close>

definition determineBitcoinFeeFloor :: "go_error + string \<Rightarrow> i64" where
  "determineBitcoinFeeFloor answer = (case answer of Inl _ \<Rightarrow> LegacyFeeFloorSatPerKw | Inr subversion \<Rightarrow> fst (DetermineFeeFloor subversion))"

section \<open>Stores, service and recovery\<close>

record disk =
  dk_swaps :: swap_bucket
  dk_requested :: requested_bucket
  dk_premium :: premium_bucket
  dk_version :: version_bucket
  dk_policy :: policy_file

text \<open>The database and the policy, in the order of both daemons; a store's bucket is created.\<close>

definition open_stores :: "SwapServices \<Rightarrow> go_error option \<Rightarrow> string \<Rightarrow> disk \<Rightarrow> nat \<Rightarrow> world started" where
  "open_stores sv opened policyPath d t = (case opened of
     Some e \<Rightarrow> Failed e
   | None \<Rightarrow> (case CreateFromFile (sv_os sv) t policyPath (dk_policy d) of
       (Inl e, _) \<Rightarrow> Failed e
     | (Inr pol, f) \<Rightarrow> (case NewBboltStore (sv_bolt sv) (t + 2) (dk_swaps d) of
       (Some e, _) \<Rightarrow> Failed e
     | (None, swaps) \<Rightarrow> (case NewRequestedSwapsStore (sv_bolt sv) (t + 3) (dk_requested d) of
       (Some e, _) \<Rightarrow> Failed e
     | (None, requested) \<Rightarrow> (case NewBBoltPremiumStore (sv_bolt sv) (t + 4) (dk_premium d) of
       (Some e, _) \<Rightarrow> Failed e
     | (None, premium) \<Rightarrow> Up \<lparr>w_clock = t + 5, w_trace = [], w_store = swaps, w_requested = requested, w_manager = NewManager,
         w_messengers = [], w_policy = (pol, f), w_premium = premium\<rparr>)))))"

datatype chain = Btc | Lbtc

datatype start_event = WatcherStarted chain | MessageHandlerAdded | CallbacksAdded chain | PaymentCallbackAdded | ReadySet | VersionChecked
  | SwapsRecovered

text \<open>
  \<open>SwapService.Start\<close>: the watcher of an enabled chain is dereferenced.
\<close>

definition SwapService_Start :: "SwapService \<Rightarrow> (chain \<Rightarrow> bool) \<Rightarrow> start_event list started" where
  "SwapService_Start s watcher =
     (if LiquidEnabled s \<and> \<not> watcher Lbtc \<or> BitcoinEnabled s \<and> \<not> watcher Btc then Crashes
      else Up ([MessageHandlerAdded] @ (if LiquidEnabled s then [CallbacksAdded Lbtc] else []) @
        (if BitcoinEnabled s then [CallbacksAdded Btc] else []) @ [PaymentCallbackAdded]))"

text \<open>The version check and the recovery that follows it.\<close>

definition upgrade_and_recover :: "SwapServices \<Rightarrow> disk \<Rightarrow> SwapService \<Rightarrow> world \<Rightarrow> (SwapService \<times> world \<times> version_bucket) started" where
  "upgrade_and_recover sv d s w = (case NewVersionStore (sv_bolt sv) (w_clock w) (dk_version d) of
     (Some e, _) \<Rightarrow> Failed e
   | (None, b) \<Rightarrow> (case SafeUpgrade (sv_bolt sv) (w_clock w + 2) (HasActiveSwaps sv (tick 1 w)) b of
     (Some e, _) \<Rightarrow> Failed e
   | (None, b) \<Rightarrow> (case RecoverSwaps sv s (tick 4 w) of
     Ret (Some e, _, _) \<Rightarrow> Failed e
   | Ret (None, s, w) \<Rightarrow> Up (s, w, b)
   | Panic \<Rightarrow> Crashes
   | OutOfFuel \<Rightarrow> Waits)))"

record running =
  rn_assets :: "string list"
  rn_liquid :: "(liquid_backend \<times> liquid_network) option"
  rn_bitcoin :: "bitcoin_params option"
  rn_floor :: i64
  rn_service :: SwapService
  rn_world :: world
  rn_version :: version_bucket
  rn_events :: "start_event list"

section \<open>The Core Lightning plugin\<close>

record 'f plugin_env =
  pl_config :: config_env
  pl_isDev :: bool
  pl_Getwd :: "go_error option"
  pl_nodeInfo :: "go_error + string \<times> string"
  pl_version :: string
  pl_synced :: "nat \<Rightarrow> go_error + bool \<times> bool"
  pl_elements :: elements_conn
  pl_elements_wallet :: elements_env
  pl_lwk :: lwk_env
  pl_electrum :: "go_error option"
  pl_lwk_watch :: "go_error option"
  pl_chain :: "go_error + string"
  pl_bitcoind :: "go_error option"
  pl_subversion :: "go_error + string"
  pl_backend :: "'f GBitcoindBackend"
  pl_bbolt :: "go_error option"
  pl_peer_db :: "go_error option"
  pl_peers :: peer_bucket
  pl_nodeId :: string
  pl_services :: SwapServices

text \<open>
  \<open>pl_nodeInfo\<close> is the node's network and version, \<open>pl_chain\<close> its network at the second call of \<open>GetInfo\<close>, \<open>pl_version\<close> the
  version at the plugin's registration; \<open>pl_electrum\<close>, \<open>pl_bitcoind\<close>, \<open>pl_bbolt\<close>
  and \<open>pl_peer_db\<close> the errors of connecting or opening; \<open>pl_lwk_watch\<close> that of the Electrum watcher's start.
\<close>

definition plugin_config :: "'f plugin_env \<Rightarrow> Config started" where
  "plugin_config en = (case pl_Getwd en of
     Some e \<Rightarrow> Failed e
   | None \<Rightarrow> (case GetConfig (pl_config en) (pl_isDev en) of None \<Rightarrow> Crashes | Some r \<Rightarrow> lift_err r))"

definition plugin_node :: "'f plugin_env \<Rightarrow> nat started" where
  "plugin_node en = (case pl_nodeInfo en of
     Inl e \<Rightarrow> Failed e
   | Inr (network, nodeVersion) \<Rightarrow> (case checkClnVersion network (pl_version en) of
     Inl e \<Rightarrow> Failed e
   | Inr ok \<Rightarrow> if \<not> ok then Failed (ErrText (''Core-Lightning version '' @ nodeVersion @ '' is incompatible''))
     else wait_for (waitForClnSynced (pl_synced en) 0) (\<lambda>err t. check_err err t)))"

definition elementsWanted :: "Config \<Rightarrow> bool" where
  "elementsWanted c \<longleftrightarrow> lq_RpcUser (Liquid c) \<noteq> '''' \<and> lq_RpcPassword (Liquid c) \<noteq> ''''"

definition plugin_liquid :: "'f plugin_env \<Rightarrow> Config \<Rightarrow> nat \<Rightarrow> ((liquid_backend \<times> liquid_network) option \<times> nat) started" where
  "plugin_liquid en c t = (case lq_LiquidSwaps (Liquid c) of
     None \<Rightarrow> Crashes
   | Some swaps \<Rightarrow>
       if swaps \<and> elementsWanted c
       then start_bind (connect_elements (pl_elements en) (pl_elements_wallet en) (lq_RpcWallet (Liquid c)) t)
         (\<lambda>(net, t). Up (Some (ElementsBackend, net), t))
       else (case LWK c of
           None \<Rightarrow> Up (None, t)
         | Some lc \<Rightarrow> if Conf_Enabled lc
             then start_bind (connect_lwk (pl_lwk en) (pl_electrum en) lc t) (\<lambda>(net, t). Up (Some (LWKBackend, net), t))
             else Up (None, t)))"

text \<open>
  The estimator of bitcoind, except on regtest.  A refused ping without an error gives a nil estimator, whose start
  panics.
\<close>

definition plugin_estimator :: "'f plugin_env \<Rightarrow> bitcoin_params \<Rightarrow> i64 \<Rightarrow> unit started" where
  "plugin_estimator en params feeFloor = (if params = RegressionNetParams then Up ()
     else (case NewGBitcoindEstimator (pl_backend en) ''ECONOMICAL'' 6250 feeFloor of
         Inl (Some e) \<Rightarrow> Failed e
       | Inl None \<Rightarrow> Crashes
       | Inr g \<Rightarrow> check_err (fst (est_Start (pl_backend en) g)) ()))"

definition plugin_bitcoin :: "'f plugin_env \<Rightarrow> Config \<Rightarrow> (bitcoin_params option \<times> i64) started" where
  "plugin_bitcoin en c = (case pl_chain en of
     Inl e \<Rightarrow> Failed e
   | Inr network \<Rightarrow> (case cln_getBitcoinChain network of
     Inl e \<Rightarrow> Failed e
   | Inr params \<Rightarrow> (case pl_bitcoind en of
     Some e \<Rightarrow> Failed e
   | None \<Rightarrow> (case bc_BitcoinSwaps (Bitcoin c) of
     None \<Rightarrow> Crashes
   | Some swaps \<Rightarrow> if \<not> swaps then Up (None, LegacyFeeFloorSatPerKw)
       else (let feeFloor = determineBitcoinFeeFloor (pl_subversion en)
             in start_bind (plugin_estimator en params feeFloor) (\<lambda>_. Up (Some params, feeFloor)))))))"

definition plugin_enabled :: "Config \<Rightarrow> bool \<Rightarrow> bool \<Rightarrow> unit started" where
  "plugin_enabled c bitcoin liquid = (case (bc_BitcoinSwaps (Bitcoin c), lq_LiquidSwaps (Liquid c)) of
     (Some b, Some l) \<Rightarrow>
       if \<not> b \<and> \<not> l then Failed (ErrText ''Disabling both BTC and L-BTC swaps is invalid.'')
       else if \<not> bitcoin \<and> \<not> liquid then Failed (ErrText ''Bad configuration or daemons are broken.'') else Up ()
   | _ \<Rightarrow> Crashes)"

text \<open>The assets in the order they are added: Liquid first.\<close>

definition plugin_assets :: "bool \<Rightarrow> bool \<Rightarrow> string list" where
  "plugin_assets liquid bitcoin = (if liquid then [''lbtc''] else []) @ (if bitcoin then [''btc''] else [])"

text \<open>The start of the watchers; the polling watchers have their client and cannot fail.\<close>

definition start_watchers :: "go_error option \<Rightarrow> (liquid_backend \<times> liquid_network) option \<Rightarrow> bool \<Rightarrow> start_event list started" where
  "start_watchers lwk_watch liquid bitcoin =
     (if map_option fst liquid = Some LWKBackend \<and> lwk_watch \<noteq> None then Exits
      else Up ((if liquid \<noteq> None then [WatcherStarted Lbtc] else []) @ (if bitcoin then [WatcherStarted Btc] else [])))"

definition plugin_peers :: "'f plugin_env \<Rightarrow> nat \<Rightarrow> unit started" where
  "plugin_peers en t = (case pl_peer_db en of
     Some e \<Rightarrow> Failed (ErrWrap ''open bolt db'' e)
   | None \<Rightarrow> (case peer_NewStore (sv_bolt (pl_services en)) t (pl_peers en) of
     (Some e, _) \<Rightarrow> Failed e
   | (None, _) \<Rightarrow> (case NewPeerID (pl_nodeId en) of Inl e \<Rightarrow> Failed e | Inr _ \<Rightarrow> Up ())))"

definition enable_chains :: "SwapServices \<Rightarrow> bool \<Rightarrow> bool \<Rightarrow> SwapServices" where
  "enable_chains sv bitcoin liquid = sv\<lparr>bitcoinEnabled := bitcoin, liquidEnabled := liquid\<rparr>"

definition has_watcher :: "bool \<Rightarrow> bool \<Rightarrow> chain \<Rightarrow> bool" where
  "has_watcher bitcoin liquid c = (case c of Btc \<Rightarrow> bitcoin | Lbtc \<Rightarrow> liquid)"

definition plugin_run :: "'f plugin_env \<Rightarrow> disk \<Rightarrow> running started" where
  "plugin_run en d =
     start_bind (plugin_config en) (\<lambda>c.
     start_bind (plugin_node en) (\<lambda>t.
     start_bind (plugin_liquid en c t) (\<lambda>(liquid, t).
     start_bind (plugin_bitcoin en c) (\<lambda>(bitcoin, feeFloor).
     start_bind (plugin_enabled c (bitcoin \<noteq> None) (liquid \<noteq> None)) (\<lambda>_.
     (let sv = enable_chains (pl_services en) (bitcoin \<noteq> None) (liquid \<noteq> None) in
     start_bind (open_stores sv (pl_bbolt en) (PolicyPath c) d t) (\<lambda>w.
     start_bind (start_watchers (pl_lwk_watch en) liquid (bitcoin \<noteq> None)) (\<lambda>watchers.
     start_bind (SwapService_Start (NewSwapService sv) (has_watcher (bitcoin \<noteq> None) (liquid \<noteq> None))) (\<lambda>callbacks.
     start_bind (plugin_peers en (w_clock w)) (\<lambda>_.
     start_bind (upgrade_and_recover sv d (NewSwapService sv) (tick 1 w)) (\<lambda>(s, w, b).
       Up \<lparr>rn_assets = plugin_assets (liquid \<noteq> None) (bitcoin \<noteq> None), rn_liquid = liquid, rn_bitcoin = bitcoin, rn_floor = feeFloor,
         rn_service = s, rn_world = w, rn_version = b,
         rn_events = watchers @ callbacks @ [ReadySet, VersionChecked, SwapsRecovered]\<rparr>)))))))))))"

section \<open>The daemon beside lnd\<close>

text \<open>
  \<open>ld_flags\<close> is what the command line sets on a configuration (\<open>Inl None\<close> when the help text was asked for), \<open>ld_ini\<close> what
  the configuration file sets if there is one, \<open>ld_section\<close> the section of the Liquid Wallet Kit.  \<open>ld_MkdirAll\<close> is the error of
  making the data directory, with the path if something else exists there, \<open>ld_Readlink\<close> where that path points.  \<open>ld_chains\<close> are the networks of lnd's second answer.  The remaining errors are those of the calls of these names.
\<close>

record peerswapd_env =
  ld_AppDataDir :: string
  ld_DefaultPolicyFile :: string
  ld_flags :: "PeerSwapConfig \<Rightarrow> go_error option + PeerSwapConfig"
  ld_ini :: "PeerSwapConfig \<Rightarrow> (go_error + PeerSwapConfig) option"
  ld_MkdirAll :: "string \<Rightarrow> (go_error \<times> string option) option"
  ld_Readlink :: "string \<Rightarrow> string option"
  ld_ParseRequestURI :: "string \<Rightarrow> go_error + url"
  ld_section :: "go_error + lwk_section"
  ld_clean :: "string \<Rightarrow> string"
  ld_missing :: "string \<Rightarrow> bool"
  ld_readFile :: "string \<Rightarrow> go_error + string"
  ld_logger :: "go_error option"
  ld_connection :: "go_error option"
  ld_info :: "go_error + string \<times> string"
  ld_parse :: "string \<Rightarrow> go_error + bool"
  ld_synced :: "nat \<Rightarrow> go_error + bool"
  ld_chains :: "go_error + string list"
  ld_NewTxWatcher :: "go_error option"
  ld_elements :: elements_conn
  ld_elements_wallet :: elements_env
  ld_lwk :: lwk_env
  ld_electrum :: "go_error option"
  ld_lwk_watch :: "go_error option"
  ld_listeners :: "go_error option"
  ld_bbolt :: "go_error option"
  ld_peer_db :: "go_error option"
  ld_peers :: peer_bucket
  ld_AddHandler :: "go_error option"
  ld_StartListening :: "go_error option"
  ld_Listen :: "go_error option"
  ld_Rest :: "go_error option"
  ld_services :: SwapServices

definition makeDirectories :: "peerswapd_env \<Rightarrow> string \<Rightarrow> go_error option" where
  "makeDirectories en fullDir = (case ld_MkdirAll en fullDir of
     None \<Rightarrow> None
   | Some (e, existing) \<Rightarrow>
       (let e = (case existing of None \<Rightarrow> e
               | Some p \<Rightarrow> (case ld_Readlink en p of None \<Rightarrow> e | Some link \<Rightarrow> ErrText (''is symlink '' @ p @ '' -> '' @ link @ '' mounted?'')))
        in Some (ErrText (''failed to create directory '' @ fullDir @ '': '' @ Error e))))"

text \<open>The command line is read twice, so that it overrides the file.\<close>

definition loadConfig :: "peerswapd_env \<Rightarrow> go_error option + PeerSwapConfig" where
  "loadConfig en = (case ld_flags en (DefaultConfig (ld_AppDataDir en) (ld_DefaultPolicyFile en)) of
     Inl e \<Rightarrow> Inl e
   | Inr cfg \<Rightarrow> (case (case ld_ini en cfg of None \<Rightarrow> Inr cfg | Some r \<Rightarrow> r) of
     Inl e \<Rightarrow> Inl (Some e)
   | Inr cfg \<Rightarrow> (case ld_flags en cfg of
     Inl e \<Rightarrow> Inl e
   | Inr cfg \<Rightarrow> (case makeDirectories en (pcfg_DataDir cfg) of
     Some e \<Rightarrow> Inl (Some e)
   | None \<Rightarrow> (case LWKFromIniFileConfig (ld_ParseRequestURI en) (ld_section en) of
     Inl e \<Rightarrow> Inl (Some e)
   | Inr lc \<Rightarrow> Inr (cfg\<lparr>pcfg_LWK := Some lc\<rparr>))))))"

definition lnd_config :: "peerswapd_env \<Rightarrow> PeerSwapConfig started" where
  "lnd_config en = (case loadConfig en of
     Inl None \<Rightarrow> Exits
   | Inl (Some e) \<Rightarrow> Failed e
   | Inr cfg \<Rightarrow> (case PeerSwapConfig_Validate (ld_clean en) (ld_missing en) (ld_readFile en) cfg of
     None \<Rightarrow> Crashes
   | Some r \<Rightarrow> start_bind (lift_err r) (\<lambda>cfg. check_err (ld_logger en) cfg)))"

definition lnd_node :: "peerswapd_env \<Rightarrow> (string \<times> nat) started" where
  "lnd_node en = (case ld_connection en of
     Some e \<Rightarrow> Failed e
   | None \<Rightarrow> (case ld_info en of
     Inl e \<Rightarrow> Failed e
   | Inr (pubkey, lndVersion) \<Rightarrow> (case checkLndVersion (ld_parse en) lndVersion of
     None \<Rightarrow> Crashes
   | Some (Some e) \<Rightarrow> Failed e
   | Some None \<Rightarrow> wait_for (waitForLndSynced (ld_synced en) 0) (\<lambda>err t. check_err err (pubkey, t)))))"

definition lnd_bitcoin :: "peerswapd_env \<Rightarrow> PeerSwapConfig \<Rightarrow> bitcoin_params option started" where
  "lnd_bitcoin en cfg = (if \<not> pcfg_BitcoinEnabled cfg then Up None
     else (case ld_chains en of
       Inl e \<Rightarrow> Failed e
     | Inr networks \<Rightarrow> (case lnd_getBitcoinChain networks of
       None \<Rightarrow> Crashes
     | Some (Inl e) \<Rightarrow> Failed e
     | Some (Inr params) \<Rightarrow> check_err (ld_NewTxWatcher en) (Some params))))"

text \<open>elementsd is used as soon as it has a user, whatever enabled Liquid swaps.\<close>

definition lnd_liquid :: "peerswapd_env \<Rightarrow> PeerSwapConfig \<Rightarrow> nat \<Rightarrow> ((liquid_backend \<times> liquid_network) option \<times> nat) started" where
  "lnd_liquid en cfg t = (if \<not> pcfg_LiquidEnabled cfg then Up (None, t)
     else if oc_RpcUser (pcfg_Elements cfg) \<noteq> ''''
     then start_bind (connect_elements (ld_elements en) (ld_elements_wallet en) (oc_RpcWallet (pcfg_Elements cfg)) t) (\<lambda>(net, t). Up (Some (ElementsBackend, net), t))
     else (case pcfg_LWK cfg of
         None \<Rightarrow> Crashes
       | Some lc \<Rightarrow> if Conf_Enabled lc
           then start_bind (connect_lwk (ld_lwk en) (ld_electrum en) lc t) (\<lambda>(net, t). Up (Some (LWKBackend, net), t))
           else Failed (ErrText ''Liquid swaps enabled but no config found'')))"

definition lnd_enabled :: "PeerSwapConfig \<Rightarrow> unit started" where
  "lnd_enabled cfg = (if \<not> pcfg_BitcoinEnabled cfg \<and> \<not> oc_LiquidSwaps (pcfg_Elements cfg) then Exits
     else if \<not> pcfg_BitcoinEnabled cfg \<and> \<not> pcfg_LiquidEnabled cfg then Exits else Up ())"

definition lnd_assets :: "bool \<Rightarrow> bool \<Rightarrow> string list" where
  "lnd_assets bitcoin liquid = (if bitcoin then [''btc''] else []) @ (if liquid then [''lbtc''] else [])"

text \<open>The watcher over lnd has no start of its own.\<close>

definition lnd_watchers :: "peerswapd_env \<Rightarrow> (liquid_backend \<times> liquid_network) option \<Rightarrow> start_event list started" where
  "lnd_watchers en liquid = start_watchers (ld_lwk_watch en) liquid False"

definition lnd_serve :: "peerswapd_env \<Rightarrow> PeerSwapConfig \<Rightarrow> string \<Rightarrow> nat \<Rightarrow> unit started" where
  "lnd_serve en cfg pubkey t = (case ld_peer_db en of
     Some e \<Rightarrow> Failed (ErrWrap ''open bolt db'' e)
   | None \<Rightarrow> (case peer_NewStore (sv_bolt (ld_services en)) t (ld_peers en) of
     (Some e, _) \<Rightarrow> Failed e
   | (None, _) \<Rightarrow> (case NewPeerID pubkey of
     Inl e \<Rightarrow> Failed e
   | Inr _ \<Rightarrow> start_bind (check_err (ld_AddHandler en) ()) (\<lambda>_. start_bind (check_err (ld_StartListening en) ()) (\<lambda>_.
       start_bind (check_err (ld_Listen en) ()) (\<lambda>_.
       if pcfg_RestHost cfg = '''' then Up () else check_err (ld_Rest en) ()))))))"

definition lnd_run :: "peerswapd_env \<Rightarrow> disk \<Rightarrow> running started" where
  "lnd_run en d =
     start_bind (lnd_config en) (\<lambda>cfg.
     start_bind (lnd_node en) (\<lambda>(pubkey, t).
     start_bind (lnd_bitcoin en cfg) (\<lambda>bitcoin.
     start_bind (lnd_liquid en cfg t) (\<lambda>(liquid, t).
     start_bind (lnd_enabled cfg) (\<lambda>_.
     start_bind (check_err (ld_listeners en) ()) (\<lambda>_.
     (let sv = enable_chains (ld_services en) (pcfg_BitcoinEnabled cfg) (pcfg_LiquidEnabled cfg) in
     start_bind (open_stores sv (ld_bbolt en) (pcfg_PolicyFile cfg) d t) (\<lambda>w.
     start_bind (lnd_watchers en liquid) (\<lambda>watchers.
     start_bind (SwapService_Start (NewSwapService sv) (has_watcher (bitcoin \<noteq> None) (liquid \<noteq> None))) (\<lambda>callbacks.
     start_bind (upgrade_and_recover sv d (NewSwapService sv) w) (\<lambda>(s, w, b).
     start_bind (lnd_serve en cfg pubkey (w_clock w)) (\<lambda>_.
       Up \<lparr>rn_assets = lnd_assets (bitcoin \<noteq> None) (liquid \<noteq> None), rn_liquid = liquid, rn_bitcoin = bitcoin,
         rn_floor = LegacyFeeFloorSatPerKw, rn_service = s, rn_world = w, rn_version = b,
         rn_events = watchers @ callbacks @ [VersionChecked, SwapsRecovered, ReadySet]\<rparr>))))))))))))"

section \<open>What a started daemon can rely on\<close>

lemma poll_until_returns:
  "f (t + k) = Some r \<Longrightarrow> (\<And>j. j < k \<Longrightarrow> f (t + j) = None) \<Longrightarrow> poll_until f t = Some (r, Suc (t + k))"
proof (induction k arbitrary: t)
  case 0
  then show ?case by (simp add: poll_until.simps)
next
  case (Suc k)
  have "f t = None" using Suc.prems(2) [of 0] by simp
  moreover have "poll_until f (Suc t) = Some (r, Suc (Suc t + k))"
    using Suc.prems(1) Suc.prems(2) [of "Suc _"] by (intro Suc.IH) auto
  ultimately show ?case by (simp add: poll_until.simps [of f t])
qed

lemma poll_until_first:
  assumes "poll_until f t = Some y"
  shows "\<exists>k. f (t + k) = Some (fst y) \<and> (\<forall>j < k. f (t + j) = None) \<and> snd y = Suc (t + k)"
proof (rule poll_until.raw_induct [of "\<lambda>f t y. \<exists>k. f (t + k) = Some (fst y) \<and> (\<forall>j < k. f (t + j) = None) \<and> snd y = Suc (t + k)", OF _ assms])
  fix p :: "(nat \<Rightarrow> 'a option) \<Rightarrow> nat \<Rightarrow> ('a \<times> nat) option" and f t y
  assume IH: "\<And>f t y. p f t = Some y \<Longrightarrow> \<exists>k. f (t + k) = Some (fst y) \<and> (\<forall>j < k. f (t + j) = None) \<and> snd y = Suc (t + k)"
    and p: "(case f t of None \<Rightarrow> p f (Suc t) | Some r \<Rightarrow> Some (r, Suc t)) = Some y"
  show "\<exists>k. f (t + k) = Some (fst y) \<and> (\<forall>j < k. f (t + j) = None) \<and> snd y = Suc (t + k)"
  proof (cases "f t")
    case None
    then obtain k where "f (Suc t + k) = Some (fst y)" "\<forall>j < k. f (Suc t + j) = None" "snd y = Suc (Suc t + k)"
      using IH [of f "Suc t" y] p by auto
    then show ?thesis using None by (intro exI [of _ "Suc k"]) (auto simp: less_Suc_eq_0_disj)
  next
    case (Some r)
    then show ?thesis using p by (intro exI [of _ 0]) auto
  qed
qed

lemma create_bucket_keeps: "create_bucket env t b = (None, b') \<Longrightarrow> b' = Some (case b of None \<Rightarrow> Map.empty | Some m \<Rightarrow> m)"
  by (auto simp: create_bucket_def db_Update_success split: option.splits)

lemma open_stores_swaps: "open_stores sv opened p d t = Up w \<Longrightarrow> w_store w = Some (case dk_swaps d of None \<Rightarrow> Map.empty | Some m \<Rightarrow> m)"
  by (auto simp: open_stores_def NewBboltStore_def split: option.splits prod.splits sum.splits dest: create_bucket_keeps)

lemma upgrade_and_recover_Up:
  assumes "upgrade_and_recover sv d s w = Up (s', w', b)"
  shows "stored_version b = Some GetCurrentVersion"
    and "stored_version (dk_version d) = Some GetCurrentVersion \<or> (\<exists>swaps. ListSwaps sv (tick 1 w) = Inr swaps \<and> list_all IsFinished swaps)"
    and "RecoverSwaps sv s (tick 4 w) = Ret (None, s', w')"
proof -
  obtain b0 where b0: "NewVersionStore (sv_bolt sv) (w_clock w) (dk_version d) = (None, b0)"
    and up: "SafeUpgrade (sv_bolt sv) (w_clock w + 2) (HasActiveSwaps sv (tick 1 w)) b0 = (None, b)"
    and rec: "RecoverSwaps sv s (tick 4 w) = Ret (None, s', w')"
    using assms by (auto simp: upgrade_and_recover_def split: prod.splits option.splits outcome.splits)
  show "RecoverSwaps sv s (tick 4 w) = Ret (None, s', w')" by (rule rec)
  have "stored_version b0 = stored_version (dk_version d)"
    using create_bucket_keeps [OF b0 [unfolded NewVersionStore_def]] by (simp add: stored_version_def split: option.split)
  then show "stored_version b = Some GetCurrentVersion"
    and "stored_version (dk_version d) = Some GetCurrentVersion \<or> (\<exists>swaps. ListSwaps sv (tick 1 w) = Inr swaps \<and> list_all IsFinished swaps)"
    using upgrade_only_without_active_swaps [OF up] by auto
qed

definition chain_enabled :: "running \<Rightarrow> chain \<Rightarrow> bool" where
  "chain_enabled r c = (case c of Btc \<Rightarrow> rn_bitcoin r \<noteq> None | Lbtc \<Rightarrow> rn_liquid r \<noteq> None)"

definition asset_name :: "chain \<Rightarrow> string" where
  "asset_name c = (case c of Btc \<Rightarrow> ''btc'' | Lbtc \<Rightarrow> ''lbtc'')"

text \<open>
  The contract of a start: which stages it went through.  \<open>base\<close> are the services the daemon was given.
\<close>

locale daemon_start =
  fixes run :: "disk \<Rightarrow> running started" and base :: SwapServices
  assumes some_chain: "\<And>d r. run d = Up r \<Longrightarrow> chain_enabled r Btc \<or> chain_enabled r Lbtc"
    and assets: "\<And>d r. run d = Up r \<Longrightarrow> set (rn_assets r) = asset_name ` {c. chain_enabled r c}"
    and callbacks: "\<And>d r. run d = Up r \<Longrightarrow> \<exists>watchers cs more.
      SwapService_Start (NewSwapService (enable_chains base (chain_enabled r Btc) (chain_enabled r Lbtc))) (chain_enabled r) = Up cs \<and>
      rn_events r = watchers @ cs @ more \<and> (chain_enabled r Lbtc \<longrightarrow> WatcherStarted Lbtc \<in> set watchers) \<and>
      set watchers \<subseteq> range WatcherStarted \<and> set more = {ReadySet, VersionChecked, SwapsRecovered} \<and> subseq [VersionChecked, SwapsRecovered] more"
    and recovery: "\<And>d r. run d = Up r \<Longrightarrow> \<exists>w. w_store w = Some (case dk_swaps d of None \<Rightarrow> Map.empty | Some m \<Rightarrow> m) \<and>
      (let sv = enable_chains base (chain_enabled r Btc) (chain_enabled r Lbtc) in
       upgrade_and_recover sv d (NewSwapService sv) w = Up (rn_service r, rn_world r, rn_version r))"
begin

lemma version_current: "run d = Up r \<Longrightarrow> stored_version (rn_version r) = Some GetCurrentVersion"
  using recovery [of d r] upgrade_and_recover_Up(1) by (auto simp: Let_def)

lemma upgraded_only_finished:
  assumes "run d = Up r" "stored_version (dk_version d) \<noteq> Some GetCurrentVersion" "dk_swaps d = Some m"
  shows "list_all IsFinished (bucket_values m)"
proof -
  obtain w where w: "w_store w = Some m" and
    up: "upgrade_and_recover (enable_chains base (chain_enabled r Btc) (chain_enabled r Lbtc)) d
      (NewSwapService (enable_chains base (chain_enabled r Btc) (chain_enabled r Lbtc))) w = Up (rn_service r, rn_world r, rn_version r)"
    using recovery [OF assms(1)] assms(3) by (auto simp: Let_def)
  from upgrade_and_recover_Up(2) [OF up] assms(2) show ?thesis
    using w by (auto simp: ListSwaps_def ListAll_def db_View_def tick_def split: option.splits)
qed

lemma service_reachable:
  assumes "run d = Up r"
  shows "svc_reachable (enable_chains base (chain_enabled r Btc) (chain_enabled r Lbtc)) js (rn_service r) (rn_world r)"
proof -
  obtain w where "upgrade_and_recover (enable_chains base (chain_enabled r Btc) (chain_enabled r Lbtc)) d
      (NewSwapService (enable_chains base (chain_enabled r Btc) (chain_enabled r Lbtc))) w = Up (rn_service r, rn_world r, rn_version r)"
    using recovery [OF assms] by (auto simp: Let_def)
  from upgrade_and_recover_Up(3) [OF this] show ?thesis
    unfolding svc_reachable_def using step_restart r_into_rtranclp by metis
qed

lemma registered_before_recovery:
  assumes "run d = Up r" "chain_enabled r c"
  shows "subseq [MessageHandlerAdded, CallbacksAdded c, PaymentCallbackAdded, VersionChecked, SwapsRecovered] (rn_events r)"
proof -
  obtain watchers cs more where cs: "SwapService_Start (NewSwapService (enable_chains base (chain_enabled r Btc) (chain_enabled r Lbtc)))
      (chain_enabled r) = Up cs" and ev: "rn_events r = watchers @ cs @ more" and more: "subseq [VersionChecked, SwapsRecovered] more"
    using callbacks [OF assms(1)] by blast
  have "subseq [MessageHandlerAdded, CallbacksAdded c, PaymentCallbackAdded] cs"
    using cs assms(2) by (cases c) (auto simp: SwapService_Start_def NewSwapService_def enable_chains_def split: if_splits)
  from list_emb_append_mono [OF this more] have "subseq [MessageHandlerAdded, CallbacksAdded c, PaymentCallbackAdded, VersionChecked, SwapsRecovered] (cs @ more)"
    by simp
  then show ?thesis unfolding ev by (rule list_emb_append2)
qed

lemma start_sound:
  assumes "run d = Up r"
  shows "(\<exists>c. chain_enabled r c) \<and>
    set (rn_assets r) = asset_name ` {c. chain_enabled r c} \<and>
    (\<forall>c. chain_enabled r c \<longrightarrow>
      subseq [MessageHandlerAdded, CallbacksAdded c, PaymentCallbackAdded, VersionChecked, SwapsRecovered] (rn_events r)) \<and>
    stored_version (rn_version r) = Some GetCurrentVersion \<and>
    svc_reachable (enable_chains base (chain_enabled r Btc) (chain_enabled r Lbtc)) js (rn_service r) (rn_world r)"
  using some_chain [OF assms] assets [OF assms] registered_before_recovery [OF assms] version_current [OF assms]
    service_reachable [OF assms] by blast

end

text \<open>The stages of a successful start, one lemma for each daemon.\<close>

lemma has_watcher_chain_enabled: "has_watcher (rn_bitcoin r \<noteq> None) (rn_liquid r \<noteq> None) = chain_enabled r"
  by (auto simp: fun_eq_iff has_watcher_def chain_enabled_def split: chain.splits)

lemma start_watchers_Up:
  assumes "start_watchers e liquid bitcoin = Up ws"
  shows "set ws \<subseteq> range WatcherStarted" "liquid \<noteq> None \<Longrightarrow> WatcherStarted Lbtc \<in> set ws"
  using assms by (auto simp: start_watchers_def split: if_splits)

lemma enabled_set: "{c. case c of Btc \<Rightarrow> b | Lbtc \<Rightarrow> l} = (if b then {Btc} else {}) \<union> (if l then {Lbtc} else {})"
proof (rule set_eqI)
  fix c show "c \<in> {c. case c of Btc \<Rightarrow> b | Lbtc \<Rightarrow> l} \<longleftrightarrow> c \<in> (if b then {Btc} else {}) \<union> (if l then {Lbtc} else {})"
    by (cases c) auto
qed

lemma asset_names:
  "set (plugin_assets l b) = asset_name ` {c. case c of Btc \<Rightarrow> b | Lbtc \<Rightarrow> l}"
  "set (lnd_assets b l) = asset_name ` {c. case c of Btc \<Rightarrow> b | Lbtc \<Rightarrow> l}"
  unfolding enabled_set by (auto simp: plugin_assets_def lnd_assets_def asset_name_def)

lemma plugin_run_Up:
  assumes "plugin_run en d = Up r"
  obtains c t w w1 ws cs where "plugin_enabled c (rn_bitcoin r \<noteq> None) (rn_liquid r \<noteq> None) = Up ()"
    and "open_stores (enable_chains (pl_services en) (rn_bitcoin r \<noteq> None) (rn_liquid r \<noteq> None)) (pl_bbolt en) (PolicyPath c) d t = Up w"
    and "start_watchers (pl_lwk_watch en) (rn_liquid r) (rn_bitcoin r \<noteq> None) = Up ws"
    and "SwapService_Start (NewSwapService (enable_chains (pl_services en) (rn_bitcoin r \<noteq> None) (rn_liquid r \<noteq> None)))
      (has_watcher (rn_bitcoin r \<noteq> None) (rn_liquid r \<noteq> None)) = Up cs"
    and "upgrade_and_recover (enable_chains (pl_services en) (rn_bitcoin r \<noteq> None) (rn_liquid r \<noteq> None)) d
      (NewSwapService (enable_chains (pl_services en) (rn_bitcoin r \<noteq> None) (rn_liquid r \<noteq> None))) (tick 1 w) =
      Up (rn_service r, rn_world r, rn_version r)"
    and "rn_assets r = plugin_assets (rn_liquid r \<noteq> None) (rn_bitcoin r \<noteq> None)"
    and "rn_events r = ws @ cs @ [ReadySet, VersionChecked, SwapsRecovered]"
  using assms unfolding plugin_run_def Let_def start_bind_Up by (force simp: start_bind_Up split: prod.splits)

lemma lnd_bitcoin_Up: "lnd_bitcoin en cfg = Up b \<Longrightarrow> (b \<noteq> None) = pcfg_BitcoinEnabled cfg"
  by (auto simp: lnd_bitcoin_def split: if_splits sum.splits option.splits)

lemma lnd_liquid_Up: "lnd_liquid en cfg t = Up (l, t') \<Longrightarrow> (l \<noteq> None) = pcfg_LiquidEnabled cfg"
  by (auto simp: lnd_liquid_def start_bind_Up split: if_splits option.splits)

lemma lnd_run_Up:
  assumes "lnd_run en d = Up r"
  obtains cfg t w ws cs where "lnd_enabled cfg = Up ()"
    and "(rn_bitcoin r \<noteq> None) = pcfg_BitcoinEnabled cfg" "(rn_liquid r \<noteq> None) = pcfg_LiquidEnabled cfg"
    and "open_stores (enable_chains (ld_services en) (rn_bitcoin r \<noteq> None) (rn_liquid r \<noteq> None)) (ld_bbolt en) (pcfg_PolicyFile cfg) d t = Up w"
    and "lnd_watchers en (rn_liquid r) = Up ws"
    and "SwapService_Start (NewSwapService (enable_chains (ld_services en) (rn_bitcoin r \<noteq> None) (rn_liquid r \<noteq> None)))
      (has_watcher (rn_bitcoin r \<noteq> None) (rn_liquid r \<noteq> None)) = Up cs"
    and "upgrade_and_recover (enable_chains (ld_services en) (rn_bitcoin r \<noteq> None) (rn_liquid r \<noteq> None)) d
      (NewSwapService (enable_chains (ld_services en) (rn_bitcoin r \<noteq> None) (rn_liquid r \<noteq> None))) w = Up (rn_service r, rn_world r, rn_version r)"
    and "rn_assets r = lnd_assets (rn_bitcoin r \<noteq> None) (rn_liquid r \<noteq> None)"
    and "rn_events r = ws @ cs @ [VersionChecked, SwapsRecovered, ReadySet]"
proof -
  obtain cfg t b l t' w ws cs s w' v where enabled: "lnd_enabled cfg = Up ()"
    and chains_on: "lnd_bitcoin en cfg = Up b" "lnd_liquid en cfg t = Up (l, t')"
    and stores: "open_stores (enable_chains (ld_services en) (pcfg_BitcoinEnabled cfg) (pcfg_LiquidEnabled cfg)) (ld_bbolt en) (pcfg_PolicyFile cfg) d t' = Up w"
    and ws: "lnd_watchers en l = Up ws"
    and cs: "SwapService_Start (NewSwapService (enable_chains (ld_services en) (pcfg_BitcoinEnabled cfg) (pcfg_LiquidEnabled cfg)))
      (has_watcher (b \<noteq> None) (l \<noteq> None)) = Up cs"
    and up: "upgrade_and_recover (enable_chains (ld_services en) (pcfg_BitcoinEnabled cfg) (pcfg_LiquidEnabled cfg)) d
      (NewSwapService (enable_chains (ld_services en) (pcfg_BitcoinEnabled cfg) (pcfg_LiquidEnabled cfg))) w = Up (s, w', v)"
    and r: "r = \<lparr>rn_assets = lnd_assets (b \<noteq> None) (l \<noteq> None), rn_liquid = l, rn_bitcoin = b,
         rn_floor = LegacyFeeFloorSatPerKw, rn_service = s, rn_world = w', rn_version = v,
         rn_events = ws @ cs @ [VersionChecked, SwapsRecovered, ReadySet]\<rparr>"
    using assms unfolding lnd_run_def Let_def start_bind_Up by (force simp: start_bind_Up split: prod.splits)
  have on: "(b \<noteq> None) = pcfg_BitcoinEnabled cfg" "(l \<noteq> None) = pcfg_LiquidEnabled cfg"
    using chains_on lnd_bitcoin_Up lnd_liquid_Up by blast+
  show thesis
    by (rule that [of cfg t' w ws cs]) (use enabled stores ws cs up on in \<open>simp_all add: r\<close>)
qed

lemma tick_store [simp]: "w_store (tick n w) = w_store w"
  by (simp add: tick_def)

lemma chain_enabled_simps: "chain_enabled r Btc \<longleftrightarrow> rn_bitcoin r \<noteq> None" "chain_enabled r Lbtc \<longleftrightarrow> rn_liquid r \<noteq> None"
  "{c. chain_enabled r c} = {c. case c of Btc \<Rightarrow> rn_bitcoin r \<noteq> None | Lbtc \<Rightarrow> rn_liquid r \<noteq> None}"
  by (simp_all add: chain_enabled_def)

interpretation plugin: daemon_start "plugin_run en" "pl_services en" for en :: "'f plugin_env"
proof unfold_locales
  fix d r assume up: "plugin_run en d = Up r"
  obtain c t w ws cs where enabled: "plugin_enabled c (rn_bitcoin r \<noteq> None) (rn_liquid r \<noteq> None) = Up ()"
    and stores: "open_stores (enable_chains (pl_services en) (rn_bitcoin r \<noteq> None) (rn_liquid r \<noteq> None)) (pl_bbolt en) (PolicyPath c) d t = Up w"
    and ws: "start_watchers (pl_lwk_watch en) (rn_liquid r) (rn_bitcoin r \<noteq> None) = Up ws"
    and cs: "SwapService_Start (NewSwapService (enable_chains (pl_services en) (rn_bitcoin r \<noteq> None) (rn_liquid r \<noteq> None)))
      (has_watcher (rn_bitcoin r \<noteq> None) (rn_liquid r \<noteq> None)) = Up cs"
    and rec: "upgrade_and_recover (enable_chains (pl_services en) (rn_bitcoin r \<noteq> None) (rn_liquid r \<noteq> None)) d
      (NewSwapService (enable_chains (pl_services en) (rn_bitcoin r \<noteq> None) (rn_liquid r \<noteq> None))) (tick 1 w) =
      Up (rn_service r, rn_world r, rn_version r)"
    and names: "rn_assets r = plugin_assets (rn_liquid r \<noteq> None) (rn_bitcoin r \<noteq> None)"
    and ev: "rn_events r = ws @ cs @ [ReadySet, VersionChecked, SwapsRecovered]"
    by (rule plugin_run_Up [OF up])
  show "chain_enabled r Btc \<or> chain_enabled r Lbtc"
    using enabled by (auto simp: plugin_enabled_def chain_enabled_simps split: option.splits if_splits)
  show "set (rn_assets r) = asset_name ` {c. chain_enabled r c}"
    unfolding names chain_enabled_simps asset_names ..
  show "\<exists>watchers cs more.
      SwapService_Start (NewSwapService (enable_chains (pl_services en) (chain_enabled r Btc) (chain_enabled r Lbtc))) (chain_enabled r) = Up cs \<and>
      rn_events r = watchers @ cs @ more \<and> (chain_enabled r Lbtc \<longrightarrow> WatcherStarted Lbtc \<in> set watchers) \<and>
      set watchers \<subseteq> range WatcherStarted \<and> set more = {ReadySet, VersionChecked, SwapsRecovered} \<and> subseq [VersionChecked, SwapsRecovered] more"
    using cs ev start_watchers_Up [OF ws] unfolding has_watcher_chain_enabled chain_enabled_simps(1,2)
    by (intro exI [of _ ws] exI [of _ cs] exI [of _ "[ReadySet, VersionChecked, SwapsRecovered]"]) simp
  show "\<exists>w. w_store w = Some (case dk_swaps d of None \<Rightarrow> Map.empty | Some m \<Rightarrow> m) \<and>
      (let sv = enable_chains (pl_services en) (chain_enabled r Btc) (chain_enabled r Lbtc) in
       upgrade_and_recover sv d (NewSwapService sv) w = Up (rn_service r, rn_world r, rn_version r))"
    using rec open_stores_swaps [OF stores] unfolding Let_def chain_enabled_simps(1,2) by (intro exI [of _ "tick 1 w"]) simp
qed

interpretation lnd_daemon: daemon_start "lnd_run en" "ld_services en" for en
proof unfold_locales
  fix d r assume up: "lnd_run en d = Up r"
  obtain cfg t w ws cs where enabled: "lnd_enabled cfg = Up ()"
    and on: "(rn_bitcoin r \<noteq> None) = pcfg_BitcoinEnabled cfg" "(rn_liquid r \<noteq> None) = pcfg_LiquidEnabled cfg"
    and stores: "open_stores (enable_chains (ld_services en) (rn_bitcoin r \<noteq> None) (rn_liquid r \<noteq> None)) (ld_bbolt en) (pcfg_PolicyFile cfg) d t = Up w"
    and ws: "lnd_watchers en (rn_liquid r) = Up ws"
    and cs: "SwapService_Start (NewSwapService (enable_chains (ld_services en) (rn_bitcoin r \<noteq> None) (rn_liquid r \<noteq> None)))
      (has_watcher (rn_bitcoin r \<noteq> None) (rn_liquid r \<noteq> None)) = Up cs"
    and rec: "upgrade_and_recover (enable_chains (ld_services en) (rn_bitcoin r \<noteq> None) (rn_liquid r \<noteq> None)) d
      (NewSwapService (enable_chains (ld_services en) (rn_bitcoin r \<noteq> None) (rn_liquid r \<noteq> None))) w = Up (rn_service r, rn_world r, rn_version r)"
    and names: "rn_assets r = lnd_assets (rn_bitcoin r \<noteq> None) (rn_liquid r \<noteq> None)"
    and ev: "rn_events r = ws @ cs @ [VersionChecked, SwapsRecovered, ReadySet]"
    by (rule lnd_run_Up [OF up])
  show "chain_enabled r Btc \<or> chain_enabled r Lbtc"
    using enabled on by (auto simp: lnd_enabled_def chain_enabled_simps split: if_splits)
  show "set (rn_assets r) = asset_name ` {c. chain_enabled r c}"
    unfolding names chain_enabled_simps asset_names ..
  show "\<exists>watchers cs more.
      SwapService_Start (NewSwapService (enable_chains (ld_services en) (chain_enabled r Btc) (chain_enabled r Lbtc))) (chain_enabled r) = Up cs \<and>
      rn_events r = watchers @ cs @ more \<and> (chain_enabled r Lbtc \<longrightarrow> WatcherStarted Lbtc \<in> set watchers) \<and>
      set watchers \<subseteq> range WatcherStarted \<and> set more = {ReadySet, VersionChecked, SwapsRecovered} \<and> subseq [VersionChecked, SwapsRecovered] more"
    using cs ev start_watchers_Up [OF ws [unfolded lnd_watchers_def]] unfolding has_watcher_chain_enabled chain_enabled_simps(1,2)
    by (intro exI [of _ ws] exI [of _ cs] exI [of _ "[VersionChecked, SwapsRecovered, ReadySet]"]) auto
  show "\<exists>w. w_store w = Some (case dk_swaps d of None \<Rightarrow> Map.empty | Some m \<Rightarrow> m) \<and>
      (let sv = enable_chains (ld_services en) (chain_enabled r Btc) (chain_enabled r Lbtc) in
       upgrade_and_recover sv d (NewSwapService sv) w = Up (rn_service r, rn_world r, rn_version r))"
    using rec open_stores_swaps [OF stores] unfolding Let_def chain_enabled_simps(1,2) by blast
qed

text \<open>Either daemon.\<close>

datatype 'f daemon = ClnPlugin "'f plugin_env" | LndDaemon peerswapd_env

primrec daemon_run :: "'f daemon \<Rightarrow> disk \<Rightarrow> running started" where
  "daemon_run (ClnPlugin en) = plugin_run en"
| "daemon_run (LndDaemon en) = lnd_run en"

primrec daemon_services :: "'f daemon \<Rightarrow> SwapServices" where
  "daemon_services (ClnPlugin en) = pl_services en"
| "daemon_services (LndDaemon en) = ld_services en"

interpretation either: daemon_start "daemon_run dm" "daemon_services dm" for dm :: "'f daemon"
  by (cases dm) (simp_all add: plugin.daemon_start_axioms lnd_daemon.daemon_start_axioms)



section \<open>A concrete start\<close>

text \<open>
  The lnd daemon with Bitcoin swaps only, on regtest, over a new database; what it does not use is left open.
\<close>

definition demo_url :: url where "demo_url = \<lparr>url_Scheme = ''http'', url_Host = ''localhost'', url_String = ''http://localhost''\<rparr>"

definition demo_ssl :: url where "demo_ssl = \<lparr>url_Scheme = ''ssl'', url_Host = ''localhost'', url_String = ''ssl://localhost''\<rparr>"

definition demo_config :: PeerSwapConfig where
  "demo_config = (DefaultConfig '''' '''')\<lparr>pcfg_RestHost := '''', pcfg_LWK := Some \<lparr>lc_signerName = ''defaultPeerswapSigner'',
     lc_walletName = ''defaultPeerswapWallet'', lc_lwkEndpoint = Some demo_url, lc_electrumEndpoint = Some demo_ssl,
     lc_network = NetworkTestnet, lc_liquidSwaps = False\<rparr>\<rparr>"

definition demo_peerswapd :: "elements_conn \<Rightarrow> elements_env \<Rightarrow> lwk_env \<Rightarrow> peerswapd_env" where
  "demo_peerswapd ec ee le = \<lparr>ld_AppDataDir = '''', ld_DefaultPolicyFile = '''', ld_flags = (\<lambda>c. Inr (c\<lparr>pcfg_RestHost := ''''\<rparr>)), ld_ini = (\<lambda>_. None),
     ld_MkdirAll = (\<lambda>_. None), ld_Readlink = (\<lambda>_. None), ld_ParseRequestURI = (\<lambda>u. Inr (if hd u = CHR ''h'' then demo_url else demo_ssl)),
     ld_section = Inr \<lparr>ls_SignerName = '''', ls_WalletName = '''', ls_LWKEndpoint = '''', ls_ElectrumEndpoint = '''', ls_Network = '''',
       ls_LiquidSwaps = None\<rparr>,
     ld_clean = (\<lambda>p. p), ld_missing = (\<lambda>_. False), ld_readFile = (\<lambda>_. Inr ''''),
     ld_logger = None, ld_connection = None, ld_info = Inr (''02ab'', ''0.18.5-beta''), ld_parse = (\<lambda>_. Inr False),
     ld_synced = (\<lambda>t. Inr (t > 0)), ld_chains = Inr [''regtest''], ld_NewTxWatcher = None, ld_elements = ec, ld_elements_wallet = ee,
     ld_lwk = le, ld_electrum = None, ld_lwk_watch = None, ld_listeners = None, ld_bbolt = None, ld_peer_db = None, ld_peers = None,
     ld_AddHandler = None, ld_StartListening = None, ld_Listen = None, ld_Rest = None, ld_services = demo_services\<rparr>"

definition demo_disk :: disk where
  "demo_disk = \<lparr>dk_swaps = None, dk_requested = None, dk_premium = None, dk_version = None, dk_policy = None\<rparr>"

lemma minLndVersion_value: "minLndVersion = (7937594343240499, 49)"
  by (simp add: minLndVersion_def f64_quot_def f64_scale.simps round_half_even_def Let_def)

lemma demo_version_accepted: "checkLndVersion other ''0.18.5-beta'' = Some None"
proof -
  have "f64_quot 185 10 = (5207287069147136, 48)"
    by (simp add: f64_quot_def f64_scale.simps round_half_even_def Let_def)
  moreover have "plain_decimal ''18.5'' = Some (f64_quot 185 10)" 
    by (simp add: plain_decimal_def digits_of_def from_hex_char_def digits_value_def)
  ultimately show ?thesis
    by (simp add: checkLndVersion_def minLndVersion_value f64_less_def)
qed

lemma create_bucket_ok: "create_bucket bolt_ok t b = (None, Some (case b of None \<Rightarrow> Map.empty | Some m \<Rightarrow> m))"
  by (simp add: create_bucket_def db_Update_def split: option.split)

lemma demo_peerswapd_starts: "\<exists>r. lnd_run (demo_peerswapd ec ee le) demo_disk = Up r"
proof -
  have "loadConfig (demo_peerswapd ec ee le) = Inr demo_config"
    by (simp add: loadConfig_def demo_peerswapd_def demo_config_def makeDirectories_def LWKFromIniFileConfig_def lwk_from_section_def NewlwkNetwork_def
        DefaultConf_def NewConfBuilder_def NetworkTestnet_def NetworkRegtest_def set_endpoint_def Build_def Conf_error_def electsurl_validate_def
        lwkurl_validate_def LwkNetwork_validate_def confname_validate_def demo_url_def demo_ssl_def DefaultConfig_def)
  then have cfg: "lnd_config (demo_peerswapd ec ee le) = Up demo_config"
    by (simp add: lnd_config_def demo_config_def DefaultConfig_def defaultLogRotationConfig_def defaultLiquidConfig_def
        PeerSwapConfig_Validate_def LogRotationConfig_Validate_def Conf_Enabled_def lift_err_def) (simp add: demo_peerswapd_def)
  have "waitForLndSynced (\<lambda>t. Inr (t > 0)) 0 = Some (None, Suc (0 + 1))"
    unfolding waitForLndSynced_def by (rule poll_until_returns) simp_all
  then have node: "lnd_node (demo_peerswapd ec ee le) = Up (''02ab'', 2)"
    by (simp add: lnd_node_def demo_peerswapd_def demo_version_accepted wait_for_def)
  have "lnd_bitcoin (demo_peerswapd ec ee le) demo_config = Up (Some RegressionNetParams)"
    by (simp add: lnd_bitcoin_def demo_config_def DefaultConfig_def demo_peerswapd_def lnd_getBitcoinChain_def cln_getBitcoinChain_def)
  moreover have "lnd_liquid (demo_peerswapd ec ee le) demo_config 2 = Up (None, 2)"
    by (simp add: lnd_liquid_def demo_config_def DefaultConfig_def)
  moreover have "lnd_enabled demo_config = Up ()" by (simp add: lnd_enabled_def demo_config_def DefaultConfig_def)
  ultimately show ?thesis unfolding lnd_run_def using cfg node
    by (simp add: demo_peerswapd_def demo_disk_def demo_config_def DefaultConfig_def demo_services_def enable_chains_def open_stores_def CreateFromFile_def
        NewBboltStore_def NewRequestedSwapsStore_def NewBBoltPremiumStore_def create_bucket_ok lnd_watchers_def start_watchers_def
        SwapService_Start_def has_watcher_def NewSwapService_def upgrade_and_recover_def NewVersionStore_def SafeUpgrade_def
        GetVersion_def SetVersion_def HasActiveSwaps_def ListAll_def db_View_def db_Update_def bucket_Put_def bucket_values_def RecoverSwaps_def tick_def
        lnd_serve_def peer_NewStore_def NewPeerID_def Let_def)
qed

section \<open>Theorems on concrete starts, waits and panics\<close>


text \<open>A swap in progress and a database of version 0.1.\<close>

definition demo_old_disk :: disk where
  "demo_old_disk = demo_disk\<lparr>dk_swaps := Some [h2b ''00'' \<mapsto> demo_sm SWAPTYPE_IN SWAPROLE_SENDER State_SwapInSender_AwaitAgreement],
     dk_version := Some [version_key \<mapsto> ''v0.1'']\<rparr>"


text \<open>Each wait ends, at the first answer that is an error or says that the node is ready, and only then.\<close>

theorem sync_wait_ends_at_first_answer:
  "waitForLndSynced f t = Some (err, t') \<longleftrightarrow>
    (\<exists>k. (\<forall>j < k. f (t + j) = Inr False) \<and> t' = Suc (t + k) \<and> (f (t + k) = Inr True \<and> err = None \<or> (\<exists>e. f (t + k) = Inl e \<and> err = Some e)))"
proof -
  let ?g = "\<lambda>t. case f t of Inl e \<Rightarrow> Some (Some e) | Inr synced \<Rightarrow> if synced then Some None else None"
  have none: "?g u = None \<longleftrightarrow> f u = Inr False" for u by (auto split: sum.split)
  have some: "?g u = Some err \<longleftrightarrow> f u = Inr True \<and> err = None \<or> (\<exists>e. f u = Inl e \<and> err = Some e)" for u by (auto split: sum.split)
  have "poll_until ?g t = Some (err, t') \<longleftrightarrow> (\<exists>k. (\<forall>j < k. ?g (t + j) = None) \<and> t' = Suc (t + k) \<and> ?g (t + k) = Some err)"
    using poll_until_first [of ?g t "(err, t')"] poll_until_returns [of ?g t _ err] by fastforce
  then show ?thesis unfolding waitForLndSynced_def none some .
qed

lemma plugin_estimator_Crashes: "plugin_estimator en params fl = Crashes \<Longrightarrow> be_Ping (pl_backend en) 0 = (False, None)"
  by (auto simp: plugin_estimator_def NewGBitcoindEstimator_def split: if_splits sum.splits option.splits prod.splits)

lemma start_stages_return:
  "open_stores sv e p d t \<noteq> Crashes" "start_watchers e l b \<noteq> Crashes" "plugin_peers en t \<noteq> Crashes"
  "SwapService_Start (NewSwapService (enable_chains sv b' l')) (has_watcher b' l') \<noteq> Crashes"
  by (auto simp: open_stores_def start_watchers_def plugin_peers_def SwapService_Start_def NewSwapService_def enable_chains_def has_watcher_def
      split: option.splits prod.splits sum.splits)

lemma upgrade_and_recover_Crashes: "upgrade_and_recover sv d s w = Crashes \<Longrightarrow> \<exists>w. RecoverSwaps sv s w = Panic"
  by (auto simp: upgrade_and_recover_def split: option.splits prod.splits sum.splits outcome.splits)

text \<open>
  The plugin's start panics only for a section of the Liquid Wallet Kit without its flag, for a bitcoind that refuses the ping without an
  error, and for a panic of the recovery.
\<close>

theorem plugin_start_panics_only:
  assumes "plugin_run en d = Crashes"
  shows "(\<exists>data s. cf_TomlLWK (pl_config en) data = Inr (Some s) \<and> ls_LiquidSwaps s = None) \<or>
    be_Ping (pl_backend en) 0 = (False, None) \<or> (\<exists>sv w. RecoverSwaps sv (NewSwapService sv) w = Panic)"
proof (cases "plugin_config en")
  case (Up c)
  then have "GetConfig (pl_config en) (pl_isDev en) = Some (Inr c)"
    by (auto simp: plugin_config_def split: option.splits)
  then have ready: "bc_BitcoinSwaps (Bitcoin c) \<noteq> None" "lq_LiquidSwaps (Liquid c) \<noteq> None"
    using plugin_config_complete(1,2) [of "pl_config en" "pl_isDev en" c] by (auto simp: bitcoin_ready_def liquid_ready_def)
  have node: "plugin_node en \<noteq> Crashes"
    by (auto simp: plugin_node_def wait_for_def split: sum.splits option.splits prod.splits)
  have liquid: "plugin_liquid en c t \<noteq> Crashes" for t
    using ready by (auto simp: plugin_liquid_def start_bind_Crashes connect_elements_def connect_lwk_def wait_for_def
        split: option.splits prod.splits sum.splits)
  have bitcoin: "plugin_bitcoin en c = Crashes \<Longrightarrow> be_Ping (pl_backend en) 0 = (False, None)"
    using ready by (auto simp: plugin_bitcoin_def start_bind_Crashes Let_def split: sum.splits option.splits if_splits dest: plugin_estimator_Crashes)
  have enabled: "plugin_enabled c b l \<noteq> Crashes" for b l
    using ready by (auto simp: plugin_enabled_def split: if_splits)
  show ?thesis
    using assms unfolding plugin_run_def Let_def
    by (auto simp: Up start_bind_Crashes node liquid enabled start_stages_return split: prod.splits dest!: bitcoin upgrade_and_recover_Crashes)
next
  case Crashes
  then have "GetConfig (pl_config en) (pl_isDev en) = None" by (auto simp: plugin_config_def split: option.splits)
  then show ?thesis using plugin_config_panics_only by blast
qed (use assms in \<open>simp_all add: plugin_run_def\<close>)

text \<open>
  With Bitcoin swaps off and elementsd's own flag off, neither daemon comes up, although the Liquid Wallet Kit is enabled.
\<close>

lemma lwk_alone_refused:
  shows "plugin_config en = Up c \<Longrightarrow> bc_BitcoinSwaps (Bitcoin c) = Some False \<Longrightarrow> lq_LiquidSwaps (Liquid c) = Some False \<Longrightarrow> plugin_run en d \<noteq> Up r"
    and "lnd_config en' = Up cfg \<Longrightarrow> \<not> pcfg_BitcoinEnabled cfg \<Longrightarrow> \<not> oc_LiquidSwaps (pcfg_Elements cfg) \<Longrightarrow> lnd_run en' d \<noteq> Up r"
  by (auto simp: plugin_run_def lnd_run_def start_bind_Up plugin_enabled_def lnd_enabled_def Let_def)

text \<open>
  The lnd daemon with the Liquid Wallet Kit enabled still uses elementsd when a user is configured there, although elementsd's flag is off.
\<close>

lemma lnd_elements_without_flag:
  assumes "loadConfig en = Inr p" and "lnd_config en = Up cfg" and "\<not> oc_LiquidSwaps (pcfg_Elements p)"
    and "pcfg_LWK p = Some lc" and "Conf_Enabled lc" and "oc_RpcUser (pcfg_Elements p) \<noteq> ''''"
  shows "lnd_liquid en cfg t = start_bind (connect_elements (ld_elements en) (ld_elements_wallet en) (oc_RpcWallet (pcfg_Elements p)) t)
    (\<lambda>(net, t). Up (Some (ElementsBackend, net), t))"
proof -
  have "cfg = p\<lparr>pcfg_LiquidEnabled := True\<rparr>"
    using assms by (auto simp: lnd_config_def PeerSwapConfig_Validate_def lift_err_def split: option.splits)
  then show ?thesis using assms(6) by (simp add: lnd_liquid_def)
qed

text \<open>The version check drops the first two characters, so it refuses version 1.0.0 and panics on a text without them.\<close>

lemma lnd_version_check_on_texts:
  "checkLndVersion other ''1.0.0-beta'' = Some (Some (ErrText ''Lnd version unsupported, requires 14.1''))" "checkLndVersion other ''1-beta'' = None"
proof -
  have "plain_decimal ''0.0'' = Some (f64_quot 0 10)"
    by (simp add: plain_decimal_def digits_of_def from_hex_char_def digits_value_def)
  moreover have "f64_quot 0 10 = (0, 0)" by (simp add: f64_quot_def f64_scale.simps round_half_even_def)
  ultimately show "checkLndVersion other ''1.0.0-beta'' = Some (Some (ErrText ''Lnd version unsupported, requires 14.1''))"
    by (simp add: checkLndVersion_def minLndVersion_value f64_less_def)
qed (simp add: checkLndVersion_def)

lemma loadConfig_lwk: "loadConfig en = Inr cfg \<Longrightarrow> pcfg_LWK cfg \<noteq> None"
  by (auto simp: loadConfig_def split: sum.splits option.splits)

text \<open>The configuration that the command line and the file leave has the Liquid Wallet Kit's section, so that only a cookie file without a colon panics.\<close>

lemma lnd_config_Crashes:
  assumes "lnd_config en = Crashes"
  shows "\<exists>p bytes. ld_readFile en p = Inr bytes \<and> length (strings_Split CHR '':'' bytes) < 2"
proof -
  obtain cfg where cfg: "loadConfig en = Inr cfg" and
    panic: "PeerSwapConfig_Validate (ld_clean en) (ld_missing en) (ld_readFile en) cfg = None"
    using assms by (auto simp: lnd_config_def start_bind_Crashes split: sum.splits option.splits)
  have "OnchainConfig_Validate (ld_clean en) (ld_missing en) (ld_readFile en) (pcfg_Elements cfg) = None"
    using panic loadConfig_lwk [OF cfg] by (auto simp: PeerSwapConfig_Validate_def split: option.splits if_splits sum.splits)
  then show ?thesis
    by (force simp: OnchainConfig_Validate_def split: if_splits sum.splits list.splits)
qed

lemma lnd_config_lwk: "lnd_config en = Up cfg \<Longrightarrow> pcfg_LWK cfg \<noteq> None"
  by (auto simp: lnd_config_def start_bind_Up PeerSwapConfig_Validate_def dest: loadConfig_lwk split: sum.splits option.splits if_splits)

text \<open>
  The start of the lnd daemon panics only for a cookie file without a colon, for a version text that is shorter than the two
  characters it drops, for an lnd that reports no chain, and for a panic of the recovery.
\<close>

theorem lnd_start_panics_only:
  assumes "lnd_run en d = Crashes"
  shows "(\<exists>p bytes. ld_readFile en p = Inr bytes \<and> length (strings_Split CHR '':'' bytes) < 2) \<or>
    (\<exists>pubkey v. ld_info en = Inr (pubkey, v) \<and> length (hd (strings_Split CHR ''-'' v)) < 2) \<or> ld_chains en = Inr [] \<or>
    (\<exists>sv w. RecoverSwaps sv (NewSwapService sv) w = Panic)"
proof (cases "lnd_config en")
  case (Up cfg)
  have node: "lnd_node en = Crashes \<Longrightarrow> \<exists>pubkey v. ld_info en = Inr (pubkey, v) \<and> length (hd (strings_Split CHR ''-'' v)) < 2"
    by (auto simp: lnd_node_def checkLndVersion_def wait_for_def Let_def split: option.splits sum.splits prod.splits if_splits)
  have bitcoin: "lnd_bitcoin en cfg = Crashes \<Longrightarrow> ld_chains en = Inr []"
    by (auto simp: lnd_bitcoin_def lnd_getBitcoinChain_def split: if_splits sum.splits option.splits list.splits)
  have liquid: "lnd_liquid en cfg t \<noteq> Crashes" for t
    using lnd_config_lwk [OF Up] by (auto simp: lnd_liquid_def start_bind_Crashes connect_elements_def connect_lwk_def wait_for_def
        split: option.splits prod.splits sum.splits)
  have enabled: "lnd_enabled cfg \<noteq> Crashes" and serve: "lnd_serve en cfg k t \<noteq> Crashes" for k t
    by (auto simp: lnd_enabled_def lnd_serve_def start_bind_Crashes split: option.splits prod.splits sum.splits)
  have start: "SwapService_Start (NewSwapService (enable_chains sv (pcfg_BitcoinEnabled cfg) (pcfg_LiquidEnabled cfg))) (has_watcher (b \<noteq> None) (l \<noteq> None)) \<noteq> Crashes"
    if "lnd_bitcoin en cfg = Up b" "lnd_liquid en cfg t = Up (l, t')" for sv b l t t'
    unfolding lnd_bitcoin_Up [OF that(1)] lnd_liquid_Up [OF that(2)] by (rule start_stages_return(4))
  show ?thesis
    using assms unfolding lnd_run_def Let_def lnd_watchers_def
    by (auto simp: Up start_bind_Crashes liquid enabled serve start start_stages_return simp del: not_None_eq split: prod.splits
        dest!: node bitcoin upgrade_and_recover_Crashes)
next
  case Crashes
  then show ?thesis using lnd_config_Crashes by blast
qed (use assms in \<open>simp_all add: lnd_run_def\<close>)

section \<open>A peer connects\<close>

text \<open>
  The handlers of a new connection: lnd's \<open>PEER_ONLINE\<close> and the plugin's \<open>OnConnect\<close>, which asks every ten seconds whether the peer
  service is there (\<open>sync t\<close>) and so may wait for ever.  The event names the peer in one of two places.
\<close>

definition on_peer_online :: "PeerSync \<Rightarrow> string \<Rightarrow> ps_world \<Rightarrow> ps_world" where
  "on_peer_online ps peerID w = (case NewPeerID peerID of Inl _ \<Rightarrow> w | Inr pid \<Rightarrow> snd (RequestPoll ps pid w))"

definition OnConnect :: "(nat \<Rightarrow> PeerSync option) \<Rightarrow> string \<Rightarrow> string \<Rightarrow> ps_world \<Rightarrow> ps_world option" where
  "OnConnect sync peerId connPeerId w = map_option (\<lambda>(ps, _).
     let peerIDValue = (if peerId \<noteq> '''' then peerId else connPeerId) in
     if peerIDValue = '''' then w else on_peer_online ps peerIDValue w) (poll_until sync 0)"

text \<open>
  Once the peer service is there, a connected peer is asked for its capabilities once, with an announcement of our own, unless it is
  suspicious or its id is no peer id; nothing else is sent.
\<close>

lemma connected_peer_asked_once:
  assumes "sync t = Some ps" "peerId \<noteq> ''''"
  shows "\<exists>ps w'. OnConnect sync peerId conn w = Some w' \<and> (\<exists>k. sync k = Some ps) \<and>
    (ps_lightning_client ps \<noteq> None \<longrightarrow>
      map (\<lambda>(p, ty, _). (p, ty)) (ps_sent w') = map (\<lambda>(p, ty, _). (p, ty)) (ps_sent w) @
        (if guard_Suspicious ps peerId \<or> 128 < length peerId then [] else [(peerId, MESSAGETYPE_REQUEST_POLL)]))"
proof -
  define k where "k = (LEAST k. sync k \<noteq> None)"
  have "sync t \<noteq> None" using assms(1) by simp
  from LeastI [of "\<lambda>k. sync k \<noteq> None", OF this] obtain ps' where ps': "sync k = Some ps'" unfolding k_def by blast
  have "poll_until sync 0 = Some (ps', Suc (0 + k))"
    by (rule poll_until_returns) (use ps' in \<open>auto simp: k_def dest: not_less_Least\<close>)
  then have "OnConnect sync peerId conn w = Some (on_peer_online ps' peerId w)" using assms(2) by (simp add: OnConnect_def)
  then show ?thesis using ps' assms(2)
    by (intro exI [of _ ps'])
      (auto simp: on_peer_online_def NewPeerID_def RequestPoll_def sendCapability_def Let_def ps_tick_def split: option.split)
qed

end
