(* ===== verification/Spec2Isabelle.thy ===== *)
theory Spec2Isabelle
  imports PS_ActiveSwaps PS_Version PS_TxWatcher PS_Electrum PS_PeerSync PS_Lightning PS_LndWatcher PS_LiquidSpending PS_LndSpending PS_LwkClient PS_Opening PS_Transport PS_Views PS_Commands PS_Operator PS_Cli PS_Daemon
begin

text \<open>
  A verification of PeerSwap, a daemon that swaps the balance of a Lightning channel against bitcoin or
  L-BTC on a chain, over a peer protocol of custom messages.

  \<^bold>\<open>The program.\<close>  A swap has a maker, who locks coins on chain in an \<^emph>\<open>opening transaction\<close>, and a
  taker, who pays a Lightning invoice whose preimage unlocks them; the maker can take the coins back after a
  delay, or at once with the taker's key.  Each side runs one of four state machines (\<open>swap/fsm.go\<close>, tables
  in \<open>swap/swap_in_sender.go\<close> and siblings) whose states execute actions (\<open>swap/actions.go\<close>) and whose data
  is stored at every step (\<open>swap/store.go\<close>).  The swap service (\<open>swap/service.go\<close>) dispatches peer messages,
  payments, confirmations, passed delays and timeouts to the machines and keeps the table of active swaps.
  Around it: the policy file, the premium rates, the message transport, chain watchers, wallets, the exchange
  of capabilities between peers, the front ends for an operator and the configuration.

  \<^bold>\<open>Foundations.\<close>  \<open>PS_Prelude\<close>: Go's integers as words, decimal and hexadecimal texts, splitting,
  float64 rounding.  \<open>PS_Errors\<close>: error values.  \<open>PS_Bolt\<close>: buckets of the database, whose transactions may
  fail.  \<open>PS_Logs\<close>: logs of events and what justifies an entry.

  \<^bold>\<open>Data and stores.\<close>
  \<^item> \<open>PS_Messages\<close> (\<open>messages/\<close>): message numbers, the redundant messenger and the sender manager.
  \<^item> \<open>PS_Premium\<close> (\<open>premium/\<close>): rates, defaults and the premium with its 64 bit wrap-around; locale \<open>rate_table\<close>.
  \<^item> \<open>PS_SwapData\<close>, \<open>PS_SwapMessages\<close> (\<open>swap/swap.go\<close>, \<open>swap/timelock.go\<close>, \<open>swap/messages.go\<close>): the record of a
    swap, ids, timelock policies; validation of the seven messages and how they enter the record.
  \<^item> \<open>PS_Store\<close> (\<open>swap/store.go\<close>, \<open>swap/requestedswaps.go\<close>): the stores; locale \<open>kv_store\<close> states that a read
    returns the last successful write, a refinement of a map.
  \<^item> \<open>PS_Policy\<close> (\<open>policy/policy.go\<close>): the policy and its file; locale \<open>peer_list\<close> for the two peer lists.
  \<^item> \<open>PS_Version\<close> (\<open>version/\<close>): comparison of version texts, the version store and upgrades.

  \<^bold>\<open>The swap protocol.\<close>
  \<^item> \<open>PS_Services\<close> (\<open>swap/services.go\<close>): the interfaces of node, wallet, watcher and validator as records of
    functions read at a clock, and the world: its clock, the trace of outside calls, the store, the messengers.
  \<^item> \<open>PS_Actions\<close>, \<open>PS_States\<close>, \<open>PS_FSM\<close>: every action, the four tables, and \<open>SendEvent\<close> with its loop,
    \<open>Recover\<close> and the backoff.  Locale \<open>fsm_table\<close> carries the well-formedness of a table, interpreted on
    all four.
  \<^item> \<open>PS_Effects\<close>: which outside calls an action can make and what guards the calls that move money.
  \<^item> \<open>PS_Protocol\<close>: whole runs.  Event processing terminates; a funded maker never cancels; a claiming taker
    never reveals its key (but for the timeout of a swap-out, which is shown to do so); what was processed is stored.
  \<^item> \<open>PS_Service\<close>, \<open>PS_ActiveSwaps\<close> (\<open>swap/service.go\<close>): all handlers, the operator's requests and recovery;
    the table of active swaps as an invariant of every sequence of steps (locale \<open>channel_table\<close>), exact
    admission of requests, and that foreign messages do nothing.

  \<^bold>\<open>The chains.\<close>
  \<^item> \<open>PS_Onchain\<close> (\<open>onchain/utils.go\<close>, \<open>bitcoin.go\<close>, \<open>liquid.go\<close>): the opening script with an evaluator of its
    opcodes, its three witnesses, and validation of the opening transaction on both chains.
  \<^item> \<open>PS_Fees\<close>, \<open>PS_Spending\<close>, \<open>PS_LiquidSpending\<close>, \<open>PS_Opening\<close>: fee floors and estimators, the claims on
    both chains and the opening transactions of the two Bitcoin wallets, down to published transactions;
    \<open>PS_LndSpending\<close> has lnd's claims as written and that they are the same.
  \<^item> \<open>PS_Watch\<close>: the contract of a chain watcher (locale \<open>csv_watcher\<close>), met by \<open>PS_TxWatcher\<close>
    (\<open>txwatcher/\<close>) and \<open>PS_Electrum\<close> (\<open>electrum/\<close>, \<open>lwk/electrumtxwatcher.go\<close>); \<open>PS_LndWatcher\<close>
    (\<open>lnd/txwatcher.go\<close>, \<open>lnd/paymentwatcher.go\<close>) has its own contract.
  \<^item> \<open>PS_Wallets\<close>: the wallets of elementsd and of the Liquid Wallet Kit, and the Electrum client; \<open>PS_LwkClient\<close> (\<open>lwk/client.go\<close>):
    the kit's calls over HTTP, the bounded repetition of a send, and the errors read from a text.

  \<^bold>\<open>Nodes and peers.\<close>
  \<^item> \<open>PS_Lightning\<close> (\<open>clightning/clightning.go\<close>, \<open>lnd/client.go\<close>): channel limits, probes, payments; locale
    \<open>claim_payer\<close> states that claims are paid over the swap's channel alone, for both nodes.
  \<^item> \<open>PS_Transport\<close>: sending and receiving custom messages on both nodes (locale \<open>messenger\<close>).
  \<^item> \<open>PS_Peer\<close>, \<open>PS_PeerSync\<close> (\<open>peersync/\<close>): peer records, their store, polling and compatibility.
  \<^item> \<open>PS_Bus\<close> (\<open>peersync/message_bus.go\<close>, \<open>peersync/lightning_adapter.go\<close>, the loops of \<open>peersync/\<close>): the message
    bus with its buffered channels at the granularity of lock and send, the adapters' streams, and the goroutines of the capability
    service in any interleaving (locale \<open>bus_run\<close>).  A message is delivered at most once and in order; the concurrent service
    refines the sequential one, so that its safety carries over; and a subscription that ends during a publication panics.

  \<^bold>\<open>Front ends, configuration and start.\<close>
  \<^item> \<open>PS_Views\<close> (\<open>peerswaprpc/paging.go\<close>, the views of swaps and peers), \<open>PS_Commands\<close> (starting swaps over
    RPC and over the Core Lightning commands; locale \<open>swap_front_end\<close>), \<open>PS_Operator\<close> (the other calls),
    \<open>PS_Cli\<close> (the command line client \<open>pscli\<close>: flags, commands, requests, and a rate that is set being the rate that is shown).
  \<^item> \<open>PS_Config\<close>: configuration of plugin, lnd daemon and Liquid Wallet Kit (locale \<open>config_stages\<close>).
  \<^item> \<open>PS_Daemon\<close> (\<open>cmd/peerswap-plugin/main.go\<close>, \<open>cmd/peerswaplnd/peerswapd/main.go\<close>, \<open>SwapService.Start\<close>): the start of
    both daemons, stage by stage, with the values failed, exited, panicked, waiting and up; locale \<open>daemon_start\<close> is interpreted on
    both.  A daemon that is up serves a chain, announces its assets, has its callbacks before it recovers and starts the swap service
    in a reachable state; a connected peer is asked for its capabilities once; an old database with open swaps keeps it down; the panics of a start are enumerated.

  \<^bold>\<open>How the model reads.\<close>  Stateful code passes its state; a call of the outside world is a function of a
  clock that the world counts up, so that every call may answer differently, and an entry of a trace.  Errors
  are values of \<open>go_error\<close>; a nil dereference, an index out of range or a fatal exit is a separate outcome,
  never a silent default.  Goroutines are steps of a step relation or of a list of events in any order.  In the
  message bus a step is what happens under one lock or one channel operation; elsewhere a step is a handler, atomic, and
  interleavings inside it are not modelled.  Loops that wait for a node are \<open>partial_function (option)\<close>: \<open>None\<close> is waiting for
  ever, and that a wait ends at the first answer is proved.  Code outside the repository
  (Lightning nodes, bitcoind, elementsd, Electrum, bbolt, the ini and TOML parsers, signatures, hashes,
  serialisation, commitments of Liquid) is a parameter, and what is relied on is a hypothesis of the theorem.

  \<^bold>\<open>Fuel.\<close>  The loop of \<open>SendEvent\<close> runs on \<open>fsm_fuel = 200\<close> rounds.  A rank on states decreases along every
  transition that an action can trigger and at most 21 retries are granted per claim, so 200 rounds are
  enough from every state of the four tables; this is the theorem on termination, and running out of fuel is an
  outcome of its own.  Loops that the code ends by a bounded counter carry that counter.

  \<^bold>\<open>Not modelled.\<close>  Generated protobuf and gateway code; the registration of methods and options with the node; serving gRPC and
  REST, signals and the panic log of the daemons; dialling of lnd (\<open>lnd/connection.go\<close>, \<open>lnd/connect.go\<close>); the HTTP library
  below the Liquid Wallet Kit's client; logging; \<open>timer/\<close>, a wrapper of the runtime's timer whose expiry is an event of the model; the text of
  JSON, whose decoded values the model starts from; mocks and the test harness.  Timing and back-off durations are outside the model,
  and so are races between goroutines other than those of the capability service.
\<close>

end
